(* ===== verification/Prelude.thy ===== *)
theory Prelude
  imports Main
begin

text \<open>
  Shared vocabulary of the development: the collections of simplification rules
  (\<open>py_defs\<close> for the Python text and number primitives, \<open>oms_defs\<close> for the order
  store, \<open>gate_defs\<close> for the admission gates), the exceptions of the source as a
  datatype, and a few generic facts on lists and options.

  A fallible Python function is a HOL function into \<open>py_error + 'a\<close>: \<open>Inl\<close> is the raised
  exception, \<open>Inr\<close> the returned value.
\<close>

named_theorems py_defs \<open>definitions of the Python text and number primitives\<close>
named_theorems oms_defs \<open>definitions of the order store operations\<close>
named_theorems gate_defs \<open>definitions of the admission gates\<close>

text \<open>
  The exceptions that the modelled code raises or catches. \<open>ValueError\<close>, \<open>RuntimeErr\<close> and
  \<open>RunLockError\<close> carry the message, as the source builds it.
\<close>

datatype py_error =
    ValueError string
  | TypeError
  | OverflowError
  | IntegrityError
  | RunLockError string
  | RuntimeErr string
  | InvalidOperation
  | OSErr int

type_synonym 'a py = "py_error + 'a"

definition bind_py :: "'a py \<Rightarrow> ('a \<Rightarrow> 'b py) \<Rightarrow> 'b py" where
  "bind_py m f = (case m of Inl e \<Rightarrow> Inl e | Inr x \<Rightarrow> f x)"

lemma bind_py_simps [simp]:
  "bind_py (Inl e) f = Inl e"
  "bind_py (Inr x) f = f x"
  by (simp_all add: bind_py_def)

lemma bind_py_Inr_iff: "bind_py m f = Inr y \<longleftrightarrow> (\<exists>x. m = Inr x \<and> f x = Inr y)"
  by (cases m) auto

lemma bind_py_InrE:
  assumes "bind_py m f = Inr y"
  obtains x where "m = Inr x" and "f x = Inr y"
  using assms by (cases m) auto

lemma bind_py_Inl_iff:
  "bind_py m f = Inl e \<longleftrightarrow> m = Inl e \<or> (\<exists>x. m = Inr x \<and> f x = Inl e)"
  by (cases m) auto

text \<open>A loop over a list whose body can raise: the first exception ends it.\<close>

fun map_py :: "('a \<Rightarrow> 'b py) \<Rightarrow> 'a list \<Rightarrow> 'b list py" where
  "map_py f [] = Inr []"
| "map_py f (x # xs) = bind_py (f x) (\<lambda>y. bind_py (map_py f xs) (\<lambda>ys. Inr (y # ys)))"

lemma map_py_Inr_iff: "map_py f xs = Inr ys \<longleftrightarrow> list_all2 (\<lambda>x y. f x = Inr y) xs ys"
  by (induction xs arbitrary: ys) (auto simp: bind_py_Inr_iff list_all2_Cons1)

text \<open>\<open>try: m except (TypeError, ValueError): d\<close>\<close>

definition or_default :: "'a py \<Rightarrow> 'a \<Rightarrow> 'a py" where
  "or_default m d =
     (case m of Inl (ValueError _) \<Rightarrow> Inr d | Inl TypeError \<Rightarrow> Inr d | _ \<Rightarrow> m)"

lemma or_default_Inr [simp]: "or_default (Inr x) d = Inr x"
  by (simp add: or_default_def)

subsection \<open>First match in a chain of guards\<close>

text \<open>
  The admission gates of the program are chains of \<open>if guard: return error\<close>. The
  result of such a chain is the reason of the first guard that holds.
\<close>

fun first_reason :: "(bool \<times> 'r) list \<Rightarrow> 'r option" where
  "first_reason [] = None"
| "first_reason ((b, r) # gs) = (if b then Some r else first_reason gs)"

lemma first_reason_None_iff:
  "first_reason gs = None \<longleftrightarrow> (\<forall>g \<in> set gs. \<not> fst g)"
  by (induction gs rule: first_reason.induct) auto

lemma first_reason_Some_in:
  "first_reason gs = Some r \<Longrightarrow> r \<in> snd ` set gs"
  by (induction gs rule: first_reason.induct) (auto split: if_splits)

lemma first_reason_append:
  "first_reason (gs @ hs) = (case first_reason gs of Some r \<Rightarrow> Some r | None \<Rightarrow> first_reason hs)"
  by (induction gs rule: first_reason.induct) auto

subsection \<open>Lists and tables\<close>

lemma map_if_idem:
  "\<forall>x \<in> set xs. \<not> P x \<Longrightarrow> map (\<lambda>x. if P x then f x else x) xs = xs"
  by (induction xs) auto

lemma map_if_key:
  "(\<And>x. k (f x) = k x) \<Longrightarrow> map k (map (\<lambda>x. if P x then f x else x) xs) = map k xs"
  by (induction xs) auto

lemma find_Some_iff_in:
  "find P xs = Some x \<Longrightarrow> x \<in> set xs \<and> P x"
  by (induction xs) (auto split: if_splits)

lemma find_map_if:
  assumes "\<And>x. P (f x) = P x"
  shows "find P (map (\<lambda>x. if P x then f x else x) xs) = map_option f (find P xs)"
  using assms by (induction xs) auto

lemma find_map_other:
  assumes "\<And>x. P (f x) = P x" and "\<And>x. P x \<Longrightarrow> \<not> Q x"
  shows "find P (map (\<lambda>x. if Q x then f x else x) xs) = find P xs"
  using assms by (induction xs) auto

lemma find_distinct_key:
  assumes "distinct (map k xs)" and "x \<in> set xs"
  shows "find (\<lambda>y. k y = k x) xs = Some x"
  using assms by (induction xs) (auto simp: image_iff)

lemma find_None_iff_key:
  "find (\<lambda>y. k y = a) xs = None \<longleftrightarrow> a \<notin> k ` set xs"
  by (auto simp: find_None_iff)

subsection \<open>Tables with a key\<close>

text \<open>
  What the clients of a table rely on: a lookup by key finds the first row with that key.
  Where the keys are unique a lookup finds exactly the row.
\<close>

locale keyed_table =
  fixes key :: "'r \<Rightarrow> 'k" and rows :: "'st \<Rightarrow> 'r list" and lookup :: "'k \<Rightarrow> 'st \<Rightarrow> 'r option"
  assumes lookup_find: "lookup k st = find (\<lambda>r. key r = k) (rows st)"
begin

lemma lookup_None_iff: "lookup k st = None \<longleftrightarrow> k \<notin> key ` set (rows st)"
  by (simp add: lookup_find find_None_iff_key)

lemma lookup_SomeD: "lookup k st = Some r \<Longrightarrow> r \<in> set (rows st) \<and> key r = k"
  unfolding lookup_find by (drule find_Some_iff_in)

lemma lookup_row: "distinct (map key (rows st)) \<Longrightarrow> r \<in> set (rows st) \<Longrightarrow> lookup (key r) st = Some r"
  by (simp add: lookup_find find_distinct_key)

lemma lookup_in_iff:
  "distinct (map key (rows st)) \<Longrightarrow> r \<in> set (rows st) \<longleftrightarrow> lookup (key r) st = Some r"
  using lookup_row lookup_SomeD by blast

end

subsection \<open>Systems with an invariant and a log\<close>

text \<open>
  A system whose steps keep an invariant keeps it along every run. When in addition every
  step only extends a log, no run ever loses an entry of it.
\<close>

locale invariant_system =
  fixes step :: "'c \<Rightarrow> 'c \<Rightarrow> bool" and inv :: "'c \<Rightarrow> bool"
  assumes inv_step: "inv c \<Longrightarrow> step c c' \<Longrightarrow> inv c'"
begin

lemma run_inv: "step\<^sup>*\<^sup>* c c' \<Longrightarrow> inv c \<Longrightarrow> inv c'"
  by (induction rule: rtranclp_induct) (auto intro: inv_step)

lemma run_rel:
  assumes "step\<^sup>*\<^sup>* c c'" and "inv c"
    and refl: "\<And>c. R c c" and trans: "\<And>a b d. R a b \<Longrightarrow> R b d \<Longrightarrow> R a d"
    and step_rel: "\<And>c c'. inv c \<Longrightarrow> step c c' \<Longrightarrow> R c c'"
  shows "R c c'"
  using assms(1,2)
proof (induction rule: rtranclp_induct)
  case base
  show ?case by (rule refl)
next
  case (step y z)
  then show ?case
    using trans step_rel run_inv by blast
qed

end

end
