(* ===== verification/Py_Text.thy ===== *)
theory Py_Text
  imports Prelude
begin

text \<open>
  The text operations of Python that the program uses, on ASCII strings (a \<open>string\<close> of
  HOL is a list of 8-bit characters; the statuses, identifiers, modes, sources and reason
  codes of the program are ASCII): \<open>strip\<close>, \<open>upper\<close>, \<open>lower\<close>, \<open>isalnum\<close>,
  \<open>split\<close>, \<open>join\<close>, \<open>startswith\<close>, slicing, \<open>str(int)\<close> and
  \<open>int(str)\<close>, and the idioms \<open>x or ""\<close> and \<open>str(x or "").strip() or None\<close>.
\<close>

subsection \<open>Characters\<close>

definition code :: "char \<Rightarrow> nat" where
  "code c = of_char c"

text \<open>ASCII characters that \<open>str.isspace\<close> accepts: tab to carriage return, the four
  separators 28 to 31, and the blank.\<close>

definition py_isspace :: "char \<Rightarrow> bool" where
  "py_isspace c \<longleftrightarrow> (9 \<le> code c \<and> code c \<le> 13) \<or> (28 \<le> code c \<and> code c \<le> 32)"

definition py_isdigit :: "char \<Rightarrow> bool" where
  "py_isdigit c \<longleftrightarrow> 48 \<le> code c \<and> code c \<le> 57"

definition py_isupper :: "char \<Rightarrow> bool" where
  "py_isupper c \<longleftrightarrow> 65 \<le> code c \<and> code c \<le> 90"

definition py_islower :: "char \<Rightarrow> bool" where
  "py_islower c \<longleftrightarrow> 97 \<le> code c \<and> code c \<le> 122"

definition py_isalnum :: "char \<Rightarrow> bool" where
  "py_isalnum c \<longleftrightarrow> py_isdigit c \<or> py_isupper c \<or> py_islower c"

definition upper_char :: "char \<Rightarrow> char" where
  "upper_char c = (if py_islower c then char_of (code c - 32) else c)"

definition lower_char :: "char \<Rightarrow> char" where
  "lower_char c = (if py_isupper c then char_of (code c + 32) else c)"

subsection \<open>Strings\<close>

definition py_lstrip :: "string \<Rightarrow> string" where
  "py_lstrip s = dropWhile py_isspace s"

definition py_rstrip :: "string \<Rightarrow> string" where
  "py_rstrip s = rev (dropWhile py_isspace (rev s))"

definition py_strip :: "string \<Rightarrow> string" where
  "py_strip s = py_rstrip (py_lstrip s)"

definition py_upper :: "string \<Rightarrow> string" where
  "py_upper s = map upper_char s"

definition py_lower :: "string \<Rightarrow> string" where
  "py_lower s = map lower_char s"

definition py_startswith :: "string \<Rightarrow> string \<Rightarrow> bool" where
  "py_startswith s p \<longleftrightarrow> take (length p) s = p"

text \<open>\<open>s.removeprefix(p)\<close>\<close>

definition py_removeprefix :: "string \<Rightarrow> string \<Rightarrow> string" where
  "py_removeprefix s p = (if py_startswith s p then drop (length p) s else s)"

fun py_join :: "string \<Rightarrow> string list \<Rightarrow> string" where
  "py_join sep [] = []"
| "py_join sep [x] = x"
| "py_join sep (x # y # xs) = x @ sep @ py_join sep (y # xs)"

text \<open>\<open>s.split()\<close>: the maximal runs of non-blank characters.\<close>

fun split_ws :: "string \<Rightarrow> string \<Rightarrow> string list" where
  "split_ws cur [] = (if cur = [] then [] else [rev cur])"
| "split_ws cur (c # cs) =
     (if py_isspace c then (if cur = [] then split_ws [] cs else rev cur # split_ws [] cs)
      else split_ws (c # cur) cs)"

definition py_split :: "string \<Rightarrow> string list" where
  "py_split s = split_ws [] s"

text \<open>\<open>token.split("=", 1)\<close> for a token that contains \<open>=\<close>.\<close>

definition split_eq :: "string \<Rightarrow> string \<times> string" where
  "split_eq t = (takeWhile (\<lambda>c. c \<noteq> CHR ''='') t, tl (dropWhile (\<lambda>c. c \<noteq> CHR ''='') t))"

text \<open>\<open>s[:n] if s else None\<close>, the truncation of optional messages.\<close>

definition clip :: "nat \<Rightarrow> string option \<Rightarrow> string option" where
  "clip n m = (case m of None \<Rightarrow> None | Some s \<Rightarrow> if s = [] then None else Some (take n s))"

text \<open>\<open>x or d\<close> for an optional string: the default where the value is \<open>None\<close> or empty.\<close>

definition or_str :: "string option \<Rightarrow> string \<Rightarrow> string" where
  "or_str x d = (case x of None \<Rightarrow> d | Some s \<Rightarrow> if s = [] then d else s)"

text \<open>\<open>s or None\<close>\<close>

definition or_none :: "string \<Rightarrow> string option" where
  "or_none s = (if s = [] then None else Some s)"

text \<open>\<open>str(x or "").strip() or None\<close>\<close>

definition strip_or_none :: "string option \<Rightarrow> string option" where
  "strip_or_none x = or_none (py_strip (or_str x ''''))"

subsection \<open>Integers as text\<close>

definition digit_char :: "int \<Rightarrow> char" where
  "digit_char n = char_of (48 + nat n)"

definition digit_val :: "char \<Rightarrow> int" where
  "digit_val c = int (code c) - 48"

text \<open>The decimal digits of a non-negative integer.\<close>

function dec_str :: "int \<Rightarrow> string" where
  "dec_str n = (if n < 10 then [digit_char n] else dec_str (n div 10) @ [digit_char (n mod 10)])"
  by pat_completeness auto
termination
  by (relation "measure nat") auto

declare dec_str.simps [simp del]

definition py_str_int :: "int \<Rightarrow> string" where
  "py_str_int i = (if i < 0 then CHR ''-'' # dec_str (- i) else dec_str i)"

text \<open>
  \<open>int(s)\<close>: surrounding blanks, one optional sign, then digits that single underscores
  may separate; \<open>None\<close> is the \<open>ValueError\<close>.
\<close>

fun parse_digits :: "int \<Rightarrow> bool \<Rightarrow> string \<Rightarrow> int option" where
  "parse_digits acc prev [] = (if prev then Some acc else None)"
| "parse_digits acc prev (c # cs) =
     (if py_isdigit c then parse_digits (10 * acc + digit_val c) True cs
      else if c = CHR ''_'' \<and> prev then parse_digits acc False cs
      else None)"

definition py_int_of_str :: "string \<Rightarrow> int option" where
  "py_int_of_str s =
     (case py_strip s of
        [] \<Rightarrow> None
      | c # cs \<Rightarrow>
          if c = CHR ''-'' then map_option uminus (parse_digits 0 False cs)
          else if c = CHR ''+'' then parse_digits 0 False cs
          else parse_digits 0 False (c # cs))"

lemmas py_text_defs [py_defs] =
  code_def py_isspace_def py_isdigit_def py_isupper_def py_islower_def py_isalnum_def
  upper_char_def lower_char_def py_lstrip_def py_rstrip_def py_strip_def py_upper_def
  py_lower_def py_startswith_def py_removeprefix_def or_str_def or_none_def
  strip_or_none_def clip_def

subsection \<open>Facts\<close>

lemma code_char_of [simp]: "code (char_of n) = n mod 256"
  by (simp add: code_def)

lemma code_less [simp]: "code c < 256"
  by (simp add: code_def)

lemma char_of_code [simp]: "char_of (code c) = c"
  by (simp add: code_def)

lemma upper_char_idem [simp]: "upper_char (upper_char c) = upper_char c"
  by (auto simp: upper_char_def py_islower_def)

lemma lower_char_idem [simp]: "lower_char (lower_char c) = lower_char c"
  by (auto simp: lower_char_def py_isupper_def)

lemma upper_char_space [simp]: "py_isspace (upper_char c) = py_isspace c"
  by (auto simp: upper_char_def py_islower_def py_isspace_def)

lemma lower_char_space [simp]: "py_isspace (lower_char c) = py_isspace c"
  by (auto simp: lower_char_def py_isupper_def py_isspace_def)

lemma py_upper_idem [simp]: "py_upper (py_upper s) = py_upper s"
  by (simp add: py_upper_def)

lemma py_lower_idem [simp]: "py_lower (py_lower s) = py_lower s"
  by (simp add: py_lower_def)

lemma py_lower_Nil [simp]: "py_lower s = [] \<longleftrightarrow> s = []"
  by (simp add: py_lower_def)

lemma py_upper_Nil [simp]: "py_upper s = [] \<longleftrightarrow> s = []"
  by (simp add: py_upper_def)

lemma py_strip_Nil [simp]: "py_strip [] = []"
  by (simp add: py_strip_def py_lstrip_def py_rstrip_def)

lemma py_strip_noop:
  assumes "s \<noteq> []" and "\<not> py_isspace (hd s)" and "\<not> py_isspace (last s)"
  shows "py_strip s = s"
proof -
  have "dropWhile py_isspace s = s"
    using assms by (cases s) auto
  moreover have "dropWhile py_isspace (rev s) = rev s"
    using assms by (cases s rule: rev_cases) auto
  ultimately show ?thesis
    by (simp add: py_strip_def py_lstrip_def py_rstrip_def)
qed

lemma py_strip_no_space [simp]: "\<forall>c \<in> set s. \<not> py_isspace c \<Longrightarrow> py_strip s = s"
  by (cases "s = []") (auto intro!: py_strip_noop)

lemma py_strip_ends:
  assumes "py_strip s \<noteq> []"
  shows "\<not> py_isspace (hd (py_strip s)) \<and> \<not> py_isspace (last (py_strip s))"
proof -
  let ?l = "dropWhile py_isspace s"
  let ?r = "dropWhile py_isspace (rev ?l)"
  have strip: "py_strip s = rev ?r"
    by (simp add: py_strip_def py_lstrip_def py_rstrip_def)
  have ne: "?r \<noteq> []"
    using assms strip by auto
  then have last: "\<not> py_isspace (last (rev ?r))"
    using hd_dropWhile [of py_isspace "rev ?l"] by (simp add: last_rev)
  have "?l \<noteq> []"
    using ne by (cases ?l) simp_all
  then have hd_l: "\<not> py_isspace (hd ?l)"
    by (rule hd_dropWhile)
  have "hd (rev ?r) = hd ?l"
  proof -
    have "rev ?l = takeWhile py_isspace (rev ?l) @ ?r"
      by simp
    then have "?l = rev ?r @ rev (takeWhile py_isspace (rev ?l))"
      by (metis rev_append rev_rev_ident)
    then show ?thesis
      using ne by (metis hd_append2 rev_is_Nil_conv)
  qed
  with hd_l last strip show ?thesis by simp
qed

lemma py_strip_idem [simp]: "py_strip (py_strip s) = py_strip s"
  by (cases "py_strip s = []") (auto simp: py_strip_noop py_strip_ends)

lemma or_none_Some_iff [simp]: "or_none s = Some t \<longleftrightarrow> s = t \<and> t \<noteq> []"
  by (auto simp: or_none_def)

lemma or_none_None_iff [simp]: "or_none s = None \<longleftrightarrow> s = []"
  by (auto simp: or_none_def)

lemma strip_or_none_nonblank: "strip_or_none x = Some t \<Longrightarrow> t \<noteq> [] \<and> py_strip t = t"
  by (auto simp: strip_or_none_def)

lemma clip_length: "clip n m = Some s \<Longrightarrow> length s \<le> n"
  by (auto simp: clip_def split: option.splits if_splits)

lemma clip_None_iff: "clip n m = None \<longleftrightarrow> m = None \<or> m = Some []"
  by (auto simp: clip_def split: option.splits)

lemma split_ws_token:
  "\<forall>c \<in> set t. \<not> py_isspace c \<Longrightarrow> split_ws cur (t @ s) = split_ws (rev t @ cur) s"
  by (induction t arbitrary: cur) auto

lemma py_split_token:
  assumes "\<forall>c \<in> set t. \<not> py_isspace c" and "t \<noteq> []" and "py_isspace c"
  shows "py_split (t @ c # s) = t # py_split s"
  using assms by (simp add: py_split_def split_ws_token)

lemma py_split_last:
  assumes "\<forall>c \<in> set t. \<not> py_isspace c" and "t \<noteq> []"
  shows "py_split t = [t]"
  using assms split_ws_token [of t "[]" "[]"] by (simp add: py_split_def)

lemma split_eq_key:
  "CHR ''='' \<notin> set k \<Longrightarrow> split_eq (k @ CHR ''='' # v) = (k, v)"
  by (induction k) (auto simp: split_eq_def)

lemma py_startswith_append [simp]: "py_startswith (p @ s) p"
  by (simp add: py_startswith_def)

subsection \<open>Integers: printing and reading back\<close>

lemma digit_char_props:
  assumes "0 \<le> d" and "d < 10"
  shows "py_isdigit (digit_char d)" "digit_val (digit_char d) = d"
    "\<not> py_isspace (digit_char d)" "digit_char d \<noteq> CHR ''-''" "digit_char d \<noteq> CHR ''+''"
    "digit_char d \<noteq> CHR ''=''"
proof -
  have c: "code (digit_char d) = 48 + nat d"
    using assms by (simp add: digit_char_def)
  then show "py_isdigit (digit_char d)" "digit_val (digit_char d) = d"
    "\<not> py_isspace (digit_char d)"
    using assms by (auto simp: py_isdigit_def digit_val_def py_isspace_def)
  show "digit_char d \<noteq> CHR ''-''" "digit_char d \<noteq> CHR ''+''" "digit_char d \<noteq> CHR ''=''"
    using c assms by (auto simp: code_def)
qed

lemma dec_str_digits: "0 \<le> n \<Longrightarrow> c \<in> set (dec_str n) \<Longrightarrow> \<exists>d. 0 \<le> d \<and> d < 10 \<and> c = digit_char d"
proof (induction n rule: dec_str.induct)
  case (1 n)
  have last: "\<exists>d. 0 \<le> d \<and> d < 10 \<and> digit_char (n mod 10) = digit_char d"
    by (rule exI [of _ "n mod 10"]) simp
  with "1" show ?case
    using dec_str.simps [of n] by (auto split: if_splits)
qed

lemma dec_str_not_Nil [simp]: "dec_str n \<noteq> []"
  by (subst dec_str.simps) simp

lemma dec_str_no_space: "0 \<le> n \<Longrightarrow> \<forall>c \<in> set (dec_str n). \<not> py_isspace c"
  using dec_str_digits digit_char_props(3) by blast

lemma parse_digits_True_append:
  "\<forall>c \<in> set xs. py_isdigit c \<Longrightarrow>
   parse_digits acc True (xs @ ys) =
     parse_digits (fold (\<lambda>c a. 10 * a + digit_val c) xs acc) True ys"
  by (induction xs arbitrary: acc) simp_all

lemma parse_digits_append:
  "\<forall>c \<in> set xs. py_isdigit c \<Longrightarrow> xs \<noteq> [] \<Longrightarrow>
   parse_digits acc p (xs @ ys) =
     parse_digits (fold (\<lambda>c a. 10 * a + digit_val c) xs acc) True ys"
  by (cases xs) (simp_all add: parse_digits_True_append)

lemma fold_digits_dec_str:
  "0 \<le> n \<Longrightarrow> fold (\<lambda>c a. 10 * a + digit_val c) (dec_str n) 0 = n"
proof (induction n rule: dec_str.induct)
  case (1 n)
  show ?case
  proof (cases "n < 10")
    case True
    with "1.prems" show ?thesis
      by (subst dec_str.simps) (simp add: digit_char_props)
  next
    case False
    then have "fold (\<lambda>c a. 10 * a + digit_val c) (dec_str n) 0
        = 10 * (n div 10) + digit_val (digit_char (n mod 10))"
      using "1" by (subst dec_str.simps) simp
    also have "\<dots> = n"
      by (simp add: digit_char_props)
    finally show ?thesis .
  qed
qed

lemma parse_digits_dec_str:
  assumes "0 \<le> n"
  shows "parse_digits 0 p (dec_str n) = Some n"
proof -
  have "\<forall>c \<in> set (dec_str n). py_isdigit c"
    using dec_str_digits [OF assms] digit_char_props(1) by blast
  then show ?thesis
    using parse_digits_append [of "dec_str n" 0 p "[]"] assms by (simp add: fold_digits_dec_str)
qed

lemma dec_str_inj: "0 \<le> m \<Longrightarrow> 0 \<le> n \<Longrightarrow> dec_str m = dec_str n \<longleftrightarrow> m = n"
  by (metis fold_digits_dec_str)

lemma py_str_int_no_space: "\<forall>c \<in> set (py_str_int i). \<not> py_isspace c"
proof -
  have "\<not> py_isspace (CHR ''-'')"
    by (simp add: py_isspace_def code_def)
  then show ?thesis
    using dec_str_no_space [of i] dec_str_no_space [of "- i"] by (auto simp: py_str_int_def)
qed

lemma py_str_int_not_Nil [simp]: "py_str_int i \<noteq> []"
  by (simp add: py_str_int_def)

text \<open>\<open>int(str(i)) == i\<close>\<close>

lemma py_int_of_str_int [simp]: "py_int_of_str (py_str_int i) = Some i"
proof (cases "i < 0")
  case True
  then show ?thesis
    by (simp add: py_int_of_str_def py_str_int_no_space)
       (simp add: py_str_int_def parse_digits_dec_str)
next
  case False
  then obtain c cs where c: "dec_str i = c # cs"
    by (cases "dec_str i") auto
  then obtain d where "0 \<le> d" "d < 10" "c = digit_char d"
    using dec_str_digits [of i c] False by auto
  then have sign: "c \<noteq> CHR ''-''" "c \<noteq> CHR ''+''"
    by (simp_all add: digit_char_props)
  have "parse_digits 0 False (c # cs) = Some i"
    using parse_digits_dec_str [of i False] c False by simp
  moreover have "py_strip (c # cs) = c # cs"
    using py_strip_no_space [OF dec_str_no_space, of i] c False by simp
  ultimately show ?thesis
    using False c sign by (simp add: py_int_of_str_def py_str_int_def del: parse_digits.simps)
qed

lemma py_str_int_inj: "py_str_int i = py_str_int j \<longleftrightarrow> i = j"
  by (metis option.inject py_int_of_str_int)

end
