(* ===== verification/Py_Float.thy ===== *)
theory Py_Float
  imports Py_Text Complex_Main
begin

text \<open>
  Python's \<open>float\<close>: IEEE 754 binary64 with round to nearest, ties to even. A finite
  double is the rational number it denotes; \<open>rnd\<close> rounds an exact result, with 53 bits
  of precision, gradual underflow at \<open>2 ^ -1074\<close> and overflow to infinity from
  \<open>2 ^ 1024\<close>. The sign of a zero is not represented: it is invisible to every
  comparison and operation of the modelled code and shows only in how \<open>-0.0\<close> prints.

  The theory also has the conversions of a float to text that the program uses
  (\<open>repr\<close>, \<open>format(x, ".2f")\<close> and \<open>format(x, ",.0f")\<close>), \<open>round(x, n)\<close>, and
  \<open>math.isfinite\<close>. The laws the components rely on are stated in the locale
  \<open>monotone_rounding\<close> and proved of \<open>rnd\<close> by the interpretation \<open>double\<close>.
\<close>

datatype pyfloat = Fin rat | PInf | NInf | NaN

subsection \<open>Rounding\<close>

function bits :: "int \<Rightarrow> int" where
  "bits n = (if n \<le> 0 then 0 else bits (n div 2) + 1)"
  by pat_completeness auto
termination
  by (relation "measure nat") auto

declare bits.simps [simp del]

abbreviation pw :: "int \<Rightarrow> rat" where
  "pw e \<equiv> 2 powi e"

text \<open>The binary exponent of a positive rational: \<open>pw (rlog2 q) \<le> q < pw (rlog2 q + 1)\<close>.\<close>

definition rlog2 :: "rat \<Rightarrow> int" where
  "rlog2 q =
     (case quotient_of q of (n, d) \<Rightarrow>
        let k = bits n - bits d
        in if pw k \<le> q then k else k - 1)"

text \<open>Nearest integer, ties to even.\<close>

definition rne :: "rat \<Rightarrow> int" where
  "rne q =
     (let f = \<lfloor>q\<rfloor>; r = q - of_int f
      in if r < 1/2 then f else if 1/2 < r then f + 1 else if even f then f else f + 1)"

definition ulp_exp :: "rat \<Rightarrow> int" where
  "ulp_exp q = max (rlog2 q - 52) (-1074)"

definition rnd_mag :: "rat \<Rightarrow> rat" where
  "rnd_mag q = (if q \<le> 0 then 0 else of_int (rne (q / pw (ulp_exp q))) * pw (ulp_exp q))"

definition rnd_val :: "rat \<Rightarrow> rat" where
  "rnd_val q = (if q < 0 then - rnd_mag (- q) else rnd_mag q)"

definition rnd :: "rat \<Rightarrow> pyfloat" where
  "rnd q =
     (let v = rnd_val q
      in if 2 ^ 1024 \<le> v then PInf else if v \<le> - (2 ^ 1024) then NInf else Fin v)"

text \<open>The rationals that are doubles.\<close>

definition double_rat :: "rat \<Rightarrow> bool" where
  "double_rat q \<longleftrightarrow> rnd q = Fin q"

subsection \<open>Operations and comparisons\<close>

fun fneg :: "pyfloat \<Rightarrow> pyfloat" where
  "fneg (Fin x) = Fin (- x)"
| "fneg PInf = NInf"
| "fneg NInf = PInf"
| "fneg NaN = NaN"

fun fadd :: "pyfloat \<Rightarrow> pyfloat \<Rightarrow> pyfloat" where
  "fadd (Fin x) (Fin y) = rnd (x + y)"
| "fadd NaN _ = NaN"
| "fadd _ NaN = NaN"
| "fadd PInf NInf = NaN"
| "fadd NInf PInf = NaN"
| "fadd PInf _ = PInf"
| "fadd _ PInf = PInf"
| "fadd NInf _ = NInf"
| "fadd _ NInf = NInf"

definition fsub :: "pyfloat \<Rightarrow> pyfloat \<Rightarrow> pyfloat" where
  "fsub a b = fadd a (fneg b)"

fun fsign :: "pyfloat \<Rightarrow> int" where
  "fsign (Fin x) = (if x < 0 then -1 else if x = 0 then 0 else 1)"
| "fsign PInf = 1"
| "fsign NInf = -1"
| "fsign NaN = 0"

definition inf_of_sign :: "int \<Rightarrow> pyfloat" where
  "inf_of_sign s = (if s < 0 then NInf else if s = 0 then NaN else PInf)"

fun fmul :: "pyfloat \<Rightarrow> pyfloat \<Rightarrow> pyfloat" where
  "fmul (Fin x) (Fin y) = rnd (x * y)"
| "fmul NaN _ = NaN"
| "fmul _ NaN = NaN"
| "fmul a b = inf_of_sign (fsign a * fsign b)"

text \<open>
  Division. Python raises \<open>ZeroDivisionError\<close> for a zero divisor; every division of the
  modelled code stands under a guard that excludes it, so the value there is not used.
\<close>

fun fdiv :: "pyfloat \<Rightarrow> pyfloat \<Rightarrow> pyfloat" where
  "fdiv (Fin x) (Fin y) = (if y = 0 then NaN else rnd (x / y))"
| "fdiv NaN _ = NaN"
| "fdiv _ NaN = NaN"
| "fdiv (Fin _) _ = Fin 0"
| "fdiv a (Fin y) = inf_of_sign (fsign a * (if y < 0 then -1 else 1))"
| "fdiv _ _ = NaN"

fun fle :: "pyfloat \<Rightarrow> pyfloat \<Rightarrow> bool" where
  "fle NaN _ = False"
| "fle _ NaN = False"
| "fle (Fin x) (Fin y) = (x \<le> y)"
| "fle NInf _ = True"
| "fle _ PInf = True"
| "fle _ _ = False"

fun flt :: "pyfloat \<Rightarrow> pyfloat \<Rightarrow> bool" where
  "flt NaN _ = False"
| "flt _ NaN = False"
| "flt (Fin x) (Fin y) = (x < y)"
| "flt NInf b = (b \<noteq> NInf)"
| "flt a PInf = (a \<noteq> PInf)"
| "flt _ _ = False"

fun fabs :: "pyfloat \<Rightarrow> pyfloat" where
  "fabs (Fin x) = Fin \<bar>x\<bar>"
| "fabs NInf = PInf"
| "fabs a = a"

fun isfinite :: "pyfloat \<Rightarrow> bool" where
  "isfinite (Fin _) = True"
| "isfinite _ = False"

text \<open>\<open>bool(x)\<close>: false at zero only (a NaN is true).\<close>

definition ftruthy :: "pyfloat \<Rightarrow> bool" where
  "ftruthy x \<longleftrightarrow> x \<noteq> Fin 0"

text \<open>\<open>max(a, b)\<close> keeps its first argument unless the second is greater.\<close>

definition fmax :: "pyfloat \<Rightarrow> pyfloat \<Rightarrow> pyfloat" where
  "fmax a b = (if flt a b then b else a)"

definition fmin :: "pyfloat \<Rightarrow> pyfloat \<Rightarrow> pyfloat" where
  "fmin a b = (if flt b a then b else a)"

text \<open>\<open>x or 0.0\<close> for an optional float.\<close>

definition or_zero :: "pyfloat option \<Rightarrow> pyfloat" where
  "or_zero x = (case x of None \<Rightarrow> Fin 0 | Some f \<Rightarrow> f)"

text \<open>A decimal literal of the source, such as \<open>1e-12\<close>: the nearest double.\<close>

definition lit :: "int \<Rightarrow> int \<Rightarrow> pyfloat" where
  "lit m e = rnd (of_int m * 10 powi e)"

text \<open>\<open>float(n)\<close> for an integer; \<open>None\<close> is the \<open>OverflowError\<close>.\<close>

definition float_of_int :: "int \<Rightarrow> pyfloat option" where
  "float_of_int n = (case rnd (of_int n) of Fin q \<Rightarrow> Some (Fin q) | _ \<Rightarrow> None)"

text \<open>\<open>round(x, n)\<close>: the nearest double of the exact value rounded to \<open>n\<close> decimals.\<close>

fun py_round :: "nat \<Rightarrow> pyfloat \<Rightarrow> pyfloat" where
  "py_round n (Fin q) =
     rnd ((if q < 0 then - 1 else 1) * of_int (rne (\<bar>q\<bar> * 10 ^ n)) / 10 ^ n)"
| "py_round n a = a"

subsection \<open>Text\<close>

fun group3_rev :: "string \<Rightarrow> string" where
  "group3_rev (a # b # c # d # s) = a # b # c # CHR '','' # group3_rev (d # s)"
| "group3_rev s = s"

definition group3 :: "string \<Rightarrow> string" where
  "group3 s = rev (group3_rev (rev s))"

definition zpad :: "nat \<Rightarrow> string \<Rightarrow> string" where
  "zpad n s = replicate (n - length s) (CHR ''0'') @ s"

definition fixed_rat :: "bool \<Rightarrow> nat \<Rightarrow> rat \<Rightarrow> string" where
  "fixed_rat commas n q =
     (let m = rne (\<bar>q\<bar> * 10 ^ n); ip = dec_str (m div 10 ^ n); fp = dec_str (m mod 10 ^ n)
      in (if q < 0 then ''-'' else '''') @ (if commas then group3 ip else ip) @
         (if n = 0 then '''' else ''.'' @ zpad n fp))"

text \<open>\<open>format(x, ".nf")\<close> and, with the flag, \<open>format(x, ",.nf")\<close>.\<close>

fun py_fixed :: "bool \<Rightarrow> nat \<Rightarrow> pyfloat \<Rightarrow> string" where
  "py_fixed commas n (Fin q) = fixed_rat commas n q"
| "py_fixed commas n PInf = ''inf''"
| "py_fixed commas n NInf = ''-inf''"
| "py_fixed commas n NaN = ''nan''"

text \<open>
  \<open>repr(x)\<close>: the shortest decimal that rounds to \<open>x\<close> and, among those of that length,
  the closest one. The decimal exponent is found from the digit counts of numerator and
  denominator; 17 significant digits always suffice for a double.
\<close>

definition rlog10 :: "rat \<Rightarrow> int" where
  "rlog10 q =
     (case quotient_of q of (n, d) \<Rightarrow>
        let k = int (length (dec_str n)) - int (length (dec_str d))
        in if 10 powi k \<le> q then k else k - 1)"

definition repr_candidates :: "rat \<Rightarrow> nat \<Rightarrow> int list" where
  "repr_candidates q n =
     (let s = 10 powi (int n - 1 - rlog10 q); lo = \<lfloor>q * s\<rfloor>
      in sort_key (\<lambda>m. \<bar>of_int m - q * s\<bar>) [lo, lo + 1])"

fun repr_search :: "rat \<Rightarrow> nat list \<Rightarrow> int \<times> nat" where
  "repr_search q [] =
     (rne (q * 10 powi (16 - rlog10 q)), 17)"
| "repr_search q (n # ns) =
     (case filter (\<lambda>m. rnd (of_int m * 10 powi (rlog10 q + 1 - int n)) = Fin q)
             (repr_candidates q n) of
        m # _ \<Rightarrow> (m, n)
      | [] \<Rightarrow> repr_search q ns)"

text \<open>
  Layout of the digits \<open>ds\<close> (most significant first) of a value in \<open>[10^e, 10^(e+1))\<close>:
  positional for \<open>-4 \<le> e < 16\<close>, otherwise scientific with a two-digit exponent at least.
\<close>

definition repr_layout :: "string \<Rightarrow> int \<Rightarrow> string" where
  "repr_layout ds e =
     (let n = int (length ds)
      in if -4 \<le> e \<and> e < 0 then ''0.'' @ replicate (nat (- e - 1)) (CHR ''0'') @ ds
         else if 0 \<le> e \<and> e < 16 then
           (if n \<le> e + 1 then ds @ replicate (nat (e + 1 - n)) (CHR ''0'') @ ''.0''
            else take (nat (e + 1)) ds @ ''.'' @ drop (nat (e + 1)) ds)
         else take 1 ds @ (if n = 1 then '''' else ''.'' @ drop 1 ds) @ ''e'' @
           (if e < 0 then ''-'' else ''+'') @ zpad 2 (dec_str \<bar>e\<bar>))"

definition repr_pos :: "rat \<Rightarrow> string" where
  "repr_pos q =
     (case repr_search q [1..<18] of (m, n) \<Rightarrow>
        let ds = dec_str m; e = rlog10 q + int (length ds) - int n;
            sig = rev (dropWhile (\<lambda>c. c = CHR ''0'') (rev ds))
        in repr_layout sig e)"

fun py_repr :: "pyfloat \<Rightarrow> string" where
  "py_repr (Fin q) =
     (if q = 0 then ''0.0'' else if q < 0 then ''-'' @ repr_pos (- q) else repr_pos q)"
| "py_repr PInf = ''inf''"
| "py_repr NInf = ''-inf''"
| "py_repr NaN = ''nan''"

subsection \<open>Powers of two and the binary exponent\<close>

lemma bits_nonneg: "0 \<le> bits n"
  by (induction n rule: bits.induct) (subst bits.simps, auto)

lemma pw_add: "pw (a + b) = pw a * pw b"
  by (simp add: power_int_add)

lemma pw_pos [simp]: "0 < pw e"
  by simp

lemma pw_mono: "a \<le> b \<Longrightarrow> pw a \<le> pw b"
  by (rule power_int_increasing) simp_all

lemma pw_less_iff: "pw a < pw b \<longleftrightarrow> a < b"
  by (metis leD leI one_less_numeral_iff power_int_strict_increasing pw_mono semiring_norm(76))

lemma bits_bounds:
  "0 < n \<Longrightarrow> pw (bits n - 1) \<le> of_int n \<and> of_int n < pw (bits n)"
proof (induction n rule: bits.induct)
  case (1 n)
  show ?case
  proof (cases "n = 1")
    case True
    have "bits 1 = 1"
      by (subst bits.simps) (simp add: bits.simps [of 0])
    with True show ?thesis by simp
  next
    case False
    with "1.prems" have pos: "0 < n div 2"
      by simp
    have b: "bits n = bits (n div 2) + 1"
      using "1.prems" by (simp add: bits.simps [of n])
    from "1.IH" pos "1.prems"
    have lo: "pw (bits (n div 2) - 1) \<le> of_int (n div 2)" and hi: "of_int (n div 2) < pw (bits (n div 2))"
      by auto
    have le: "2 * of_int (n div 2) \<le> (of_int n :: rat)"
    proof -
      have "2 * (n div 2) \<le> n" by simp
      then have "of_int (2 * (n div 2)) \<le> (of_int n :: rat)" by (simp only: of_int_le_iff)
      then show ?thesis by simp
    qed
    have "pw (bits n - 1) = 2 * pw (bits (n div 2) - 1)"
      using b pw_add [of "bits (n div 2) - 1" 1] by simp
    then have A: "pw (bits n - 1) \<le> of_int n"
      using lo le by linarith
    obtain k where k: "bits (n div 2) = int k"
      using bits_nonneg nonneg_int_cases by blast
    have "n div 2 < 2 ^ k"
    proof -
      have "(of_int (n div 2) :: rat) < of_int (2 ^ k)"
        using hi k by simp
      then show ?thesis by (simp only: of_int_less_iff)
    qed
    then have "n < 2 * 2 ^ k" by auto
    then have "(of_int n :: rat) < of_int (2 * 2 ^ k)"
      by (simp only: of_int_less_iff)
    then have B: "of_int n < pw (bits n)"
      using b k pw_add [of "int k" 1] by simp
    from A B show ?thesis by simp
  qed
qed

lemma rlog2_bounds:
  assumes "0 < q"
  shows "pw (rlog2 q) \<le> q \<and> q < pw (rlog2 q + 1)"
proof -
  obtain n d where nd: "quotient_of q = (n, d)"
    by (cases "quotient_of q")
  have d: "0 < d" and q: "q = of_int n / of_int d"
    using nd quotient_of_denom_pos quotient_of_div by auto
  with assms have n: "0 < n"
    by (simp add: zero_less_divide_iff)
  let ?k = "bits n - bits d"
  from bits_bounds [OF n] bits_bounds [OF d]
  have nb: "pw (bits n - 1) \<le> of_int n" "of_int n < pw (bits n)"
    and db: "pw (bits d - 1) \<le> of_int d" "of_int d < pw (bits d)"
    by auto
  have "of_int n < pw (?k + 1) * of_int d"
  proof -
    have "of_int n < pw (?k + 1) * pw (bits d - 1)"
      using nb(2) by (simp flip: pw_add)
    also have "\<dots> \<le> pw (?k + 1) * of_int d"
      using db(1) by (intro mult_left_mono) simp_all
    finally show ?thesis .
  qed
  then have hi: "q < pw (?k + 1)"
    using d q by (simp add: divide_less_eq)
  have "pw (?k - 1) * of_int d \<le> of_int n"
  proof -
    have "pw (?k - 1) * of_int d \<le> pw (?k - 1) * pw (bits d)"
      using db(2) by (intro mult_left_mono) simp_all
    also have "\<dots> = pw (bits n - 1)"
      by (simp flip: pw_add)
    finally show ?thesis using nb(1) by simp
  qed
  then have lo: "pw (?k - 1) \<le> q"
    using d q by (simp add: le_divide_eq)
  show ?thesis
    using hi lo by (auto simp: rlog2_def nd Let_def)
qed

lemma rlog2_unique:
  assumes "pw a \<le> q" and "q < pw (a + 1)"
  shows "rlog2 q = a"
proof -
  have "0 < q" using assms(1) pw_pos [of a] by linarith
  from rlog2_bounds [OF this] have "pw (rlog2 q) < pw (a + 1)" "pw a < pw (rlog2 q + 1)"
    using assms by linarith+
  then show ?thesis by (simp add: pw_less_iff)
qed

lemma rlog2_mono:
  assumes "0 < p" and "p \<le> q"
  shows "rlog2 p \<le> rlog2 q"
proof -
  have "pw (rlog2 p) < pw (rlog2 q + 1)"
    using rlog2_bounds [of p] rlog2_bounds [of q] assms by linarith
  then show ?thesis by (simp add: pw_less_iff)
qed

subsection \<open>Rounding to an integer\<close>

lemma rne_of_int [simp]: "rne (of_int n) = n"
  by (simp add: rne_def)

lemma rne_bounds: "\<lfloor>q\<rfloor> \<le> rne q \<and> rne q \<le> \<lfloor>q\<rfloor> + 1"
  by (simp add: rne_def Let_def)

lemma rne_mono:
  assumes "p \<le> q"
  shows "rne p \<le> rne q"
proof (cases "\<lfloor>p\<rfloor> = \<lfloor>q\<rfloor>")
  case True
  with assms show ?thesis
    by (auto simp: rne_def Let_def)
next
  case False
  with assms have "\<lfloor>p\<rfloor> + 1 \<le> \<lfloor>q\<rfloor>"
    using floor_mono [OF assms] by linarith
  then show ?thesis
    using rne_bounds [of p] rne_bounds [of q] by linarith
qed

lemma rne_le_int: "q \<le> of_int n \<Longrightarrow> rne q \<le> n"
  using rne_mono [of q "of_int n"] by simp

lemma rne_ge_int: "of_int n \<le> q \<Longrightarrow> n \<le> rne q"
  using rne_mono [of "of_int n" q] by simp

subsection \<open>Rounding is monotone and fixes the doubles\<close>

lemma rnd_mag_le_pw:
  assumes "0 < q"
  shows "rnd_mag q \<le> pw (ulp_exp q + 53)"
proof -
  let ?e = "ulp_exp q"
  have "q < pw (rlog2 q + 1)"
    using rlog2_bounds [OF assms] by simp
  also have "\<dots> \<le> pw (?e + 53)"
    by (rule pw_mono) (simp add: ulp_exp_def)
  finally have "q / pw ?e \<le> of_int (2 ^ 53)"
    by (simp add: divide_le_eq pw_add mult.commute)
  then have "rne (q / pw ?e) \<le> 2 ^ 53"
    by (rule rne_le_int)
  then have "of_int (rne (q / pw ?e)) \<le> (2 ^ 53 :: rat)"
    by (metis of_int_le_iff of_int_numeral of_int_power)
  then show ?thesis
    using assms by (simp add: rnd_mag_def pw_add mult.commute)
qed

lemma rnd_mag_ge_pw:
  assumes "0 < q" and "ulp_exp q = rlog2 q - 52"
  shows "pw (ulp_exp q + 52) \<le> rnd_mag q"
proof -
  let ?e = "ulp_exp q"
  have "pw (?e + 52) \<le> q"
    using rlog2_bounds [OF assms(1)] assms(2) by simp
  then have "of_int (2 ^ 52) \<le> q / pw ?e"
    by (simp add: le_divide_eq pw_add mult.commute)
  then have "2 ^ 52 \<le> rne (q / pw ?e)"
    by (rule rne_ge_int)
  then have "(2 ^ 52 :: rat) \<le> of_int (rne (q / pw ?e))"
    by (metis of_int_le_iff of_int_numeral of_int_power)
  then show ?thesis
    using assms(1) by (simp add: rnd_mag_def pw_add mult.commute)
qed

lemma rnd_mag_nonneg: "0 \<le> rnd_mag q"
proof (cases "q \<le> 0")
  case False
  then have "0 \<le> rne (q / pw (ulp_exp q))"
    by (intro rne_ge_int) simp
  then show ?thesis by (simp add: rnd_mag_def)
qed (simp add: rnd_mag_def)

lemma rnd_mag_mono:
  assumes "p \<le> q"
  shows "rnd_mag p \<le> rnd_mag q"
proof (cases "p \<le> 0")
  case True
  then show ?thesis
    using rnd_mag_nonneg [of q] by (simp add: rnd_mag_def [of p])
next
  case False
  then have p: "0 < p" and q: "0 < q" using assms by auto
  have e: "ulp_exp p \<le> ulp_exp q"
    using rlog2_mono [OF p assms] by (simp add: ulp_exp_def)
  show ?thesis
  proof (cases "ulp_exp p = ulp_exp q")
    case True
    have "rne (p / pw (ulp_exp q)) \<le> rne (q / pw (ulp_exp q))"
      using assms by (intro rne_mono divide_right_mono) simp_all
    with True p q show ?thesis by (simp add: rnd_mag_def)
  next
    case False
    with e have lt: "ulp_exp p + 53 \<le> ulp_exp q + 52" by simp
    from False e have "ulp_exp q = rlog2 q - 52"
      by (auto simp: ulp_exp_def max_def split: if_splits)
    then have "pw (ulp_exp q + 52) \<le> rnd_mag q"
      by (rule rnd_mag_ge_pw [OF q])
    with rnd_mag_le_pw [OF p] pw_mono [OF lt] show ?thesis by linarith
  qed
qed

text \<open>An integer multiple of a power of two that fits 53 bits is not changed.\<close>

lemma rnd_mag_exact:
  assumes "0 \<le> m" and "m < 2 ^ 53" and "-1074 \<le> e"
  shows "rnd_mag (of_int m * pw e) = of_int m * pw e"
proof (cases "m = 0")
  case True
  then show ?thesis by (simp add: rnd_mag_def)
next
  case False
  let ?q = "of_int m * pw e :: rat"
  have q: "0 < ?q" using assms(1) False by simp
  have "?q < pw (e + 53)"
  proof -
    have "(of_int m :: rat) < of_int (2 ^ 53)"
      using assms(2) by (simp only: of_int_less_iff)
    then show ?thesis by (simp add: pw_add mult.commute)
  qed
  then have "pw (rlog2 ?q) < pw (e + 53)"
    using rlog2_bounds [OF q] by linarith
  then have le: "ulp_exp ?q \<le> e"
    using assms(3) by (simp add: pw_less_iff ulp_exp_def)
  then obtain k where "e = ulp_exp ?q + int k"
    using zle_iff_zadd by blast
  then have pe: "pw e = pw (ulp_exp ?q) * 2 ^ k"
    by (metis pw_add power_int_of_nat)
  have nz: "pw (ulp_exp ?q) \<noteq> 0" by simp
  have "?q / pw (ulp_exp ?q) = of_int m * (pw e / pw (ulp_exp ?q))"
    by simp
  also have "pw e / pw (ulp_exp ?q) = 2 ^ k"
    using pe nz by (metis nonzero_mult_div_cancel_left)
  finally have quot: "?q / pw (ulp_exp ?q) = of_int (m * 2 ^ k)"
    by simp
  have "rnd_mag ?q = of_int (m * 2 ^ k) * pw (ulp_exp ?q)"
    using q quot by (metis leD rnd_mag_def rne_of_int)
  also have "\<dots> = of_int m * (pw (ulp_exp ?q) * 2 ^ k)"
    by simp
  also have "\<dots> = ?q"
    by (simp only: pe [symmetric])
  finally show ?thesis .
qed

lemma rnd_mag_idem: "rnd_mag (rnd_mag q) = rnd_mag q"
proof (cases "q \<le> 0")
  case True
  then show ?thesis by (simp add: rnd_mag_def)
next
  case False
  let ?e = "ulp_exp q" and ?m = "rne (q / pw (ulp_exp q))"
  have v: "rnd_mag q = of_int ?m * pw ?e"
    using False by (simp add: rnd_mag_def)
  have e: "-1074 \<le> ?e" by (simp add: ulp_exp_def)
  have m0: "0 \<le> ?m"
    using False by (intro rne_ge_int) simp
  have "of_int ?m * pw ?e \<le> pw (?e + 53)"
    using rnd_mag_le_pw [of q] False v by simp
  then have "(of_int ?m :: rat) \<le> of_int (2 ^ 53)"
    by (simp add: pw_add mult.commute)
  then have m1: "?m \<le> 2 ^ 53" by (simp only: of_int_le_iff)
  show ?thesis
  proof (cases "?m = 2 ^ 53")
    case True
    then have "rnd_mag q = of_int (2 ^ 52) * pw (?e + 1)"
      using v by (simp add: pw_add)
    with rnd_mag_exact [of "2 ^ 52" "?e + 1"] e show ?thesis by simp
  next
    case False
    with rnd_mag_exact [of ?m ?e] m0 m1 e v show ?thesis by simp
  qed
qed

lemma rnd_val_mono:
  assumes "p \<le> q"
  shows "rnd_val p \<le> rnd_val q"
  using rnd_mag_mono [of p q] rnd_mag_mono [of "- q" "- p"] assms
    rnd_mag_nonneg [of q] rnd_mag_nonneg [of "- p"]
  by (auto simp: rnd_val_def)

lemma rnd_val_idem: "rnd_val (rnd_val q) = rnd_val q"
  using rnd_mag_nonneg [of q] rnd_mag_nonneg [of "- q"]
  by (auto simp: rnd_val_def rnd_mag_idem) (simp add: rnd_mag_def)

lemma rnd_zero [simp]: "rnd 0 = Fin 0"
  by (simp add: rnd_def rnd_val_def rnd_mag_def Let_def)

lemma rnd_mono:
  assumes "p \<le> q"
  shows "fle (rnd p) (rnd q)"
  using rnd_val_mono [OF assms] by (auto simp: rnd_def Let_def)

lemma rnd_Fin_double: "rnd q = Fin v \<Longrightarrow> double_rat v"
  by (auto simp: rnd_def double_rat_def Let_def rnd_val_idem split: if_splits)

lemma rnd_not_NaN [simp]: "rnd q \<noteq> NaN"
  by (simp add: rnd_def Let_def)

lemma rnd_dyadic:
  assumes "0 \<le> m" and "m < 2 ^ 53" and "-1074 \<le> e" and "e \<le> 0"
  shows "rnd (of_int m * pw e) = Fin (of_int m * pw e)"
proof -
  have "rnd_mag (of_int m * pw e) = of_int m * pw e"
    using assms(1-3) by (rule rnd_mag_exact)
  moreover have "\<not> of_int m * pw e < 0"
    using assms(1) pw_pos [of e] by (simp add: not_less less_imp_le)
  ultimately have v: "rnd_val (of_int m * pw e) = of_int m * pw e" by (simp only: rnd_val_def if_False)
  have "of_int m * pw e \<le> of_int m * pw 0"
    using assms(1,4) by (intro mult_left_mono pw_mono) simp_all
  also have "\<dots> = of_int m" by simp
  also have "\<dots> < of_int (2 ^ 53)" using assms(2) by (simp only: of_int_less_iff)
  also have "\<dots> = 2 ^ 53" by simp
  also have "(2 :: rat) ^ 53 \<le> 2 ^ 1024" by (intro power_increasing) simp_all
  finally have "of_int m * pw e < 2 ^ 1024" .
  moreover have "- (2 ^ 1024) < (0 :: rat)" by simp
  then have "- (2 ^ 1024) < of_int m * pw e"
    by (rule less_le_trans) (use assms(1) pw_pos [of e] in \<open>simp add: less_imp_le\<close>)
  ultimately have "\<not> 2 ^ 1024 \<le> of_int m * pw e" "\<not> of_int m * pw e \<le> - (2 ^ 1024)"
    by (simp_all only: not_le)
  then show ?thesis by (simp only: rnd_def v Let_def if_False)
qed

lemma rnd_of_int:
  assumes "\<bar>n\<bar> < 2 ^ 53"
  shows "rnd (of_int n) = Fin (of_int n)"
proof -
  have v: "rnd_val (of_int n) = of_int n"
    using rnd_mag_exact [of n 0] rnd_mag_exact [of "- n" 0] assms
    by (auto simp: rnd_val_def)
  have "\<bar>of_int n :: rat\<bar> < of_int (2 ^ 53)"
    using assms by (metis of_int_abs of_int_less_iff)
  also have "\<dots> < 2 ^ 1024" by simp
  finally show ?thesis
    by (simp add: rnd_def v Let_def abs_less_iff)
qed

subsection \<open>The interface of a rounding mode\<close>

text \<open>
  What the components use of rounding: it is monotone and keeps every double. Everything
  below follows from these two laws.
\<close>

locale monotone_rounding =
  fixes round_to :: "rat \<Rightarrow> pyfloat"
  assumes round_mono: "p \<le> q \<Longrightarrow> fle (round_to p) (round_to q)"
    and round_fix: "double_rat q \<Longrightarrow> round_to q = Fin q"
begin

lemma add_nonneg_ge: "double_rat x \<Longrightarrow> 0 \<le> y \<Longrightarrow> fle (Fin x) (round_to (x + y))"
  using round_mono [of x "x + y"] round_fix [of x] by simp

lemma add_nonpos_le: "double_rat x \<Longrightarrow> y \<le> 0 \<Longrightarrow> fle (round_to (x + y)) (Fin x)"
  using round_mono [of "x + y" x] round_fix [of x] by simp

lemma between_doubles:
  assumes "double_rat a" and "double_rat b" and "a \<le> q" and "q \<le> b"
  shows "\<exists>v. round_to q = Fin v \<and> a \<le> v \<and> v \<le> b"
proof -
  have lo: "fle (Fin a) (round_to q)" and hi: "fle (round_to q) (Fin b)"
    using round_mono [OF assms(3)] round_mono [OF assms(4)] round_fix assms(1,2) by simp_all
  then show ?thesis by (cases "round_to q") simp_all
qed

end

interpretation double: monotone_rounding rnd
  by unfold_locales (auto simp: rnd_mono double_rat_def)

subsection \<open>Order and arithmetic of floats\<close>

lemma fle_inf [simp]:
  "fle NInf a \<longleftrightarrow> a \<noteq> NaN"
  "fle a PInf \<longleftrightarrow> a \<noteq> NaN"
  by (cases a, simp_all)+

lemma fle_not_NaN: "fle a b \<Longrightarrow> a \<noteq> NaN \<and> b \<noteq> NaN"
  by (cases a; cases b) simp_all

lemma fle_refl: "a \<noteq> NaN \<Longrightarrow> fle a a"
  by (cases a) simp_all

lemma fle_trans: "fle a b \<Longrightarrow> fle b c \<Longrightarrow> fle a c"
  by (cases a; cases b; cases c) simp_all

lemma flt_iff: "flt a b \<longleftrightarrow> fle a b \<and> \<not> fle b a"
  by (cases a; cases b) auto

lemma flt_fle_trans: "flt a b \<Longrightarrow> fle b c \<Longrightarrow> flt a c"
  by (cases a; cases b; cases c) simp_all

lemma fle_flt_trans: "fle a b \<Longrightarrow> flt b c \<Longrightarrow> flt a c"
  by (cases a; cases b; cases c) simp_all

lemma fle_total: "a \<noteq> NaN \<Longrightarrow> b \<noteq> NaN \<Longrightarrow> fle a b \<or> flt b a"
  by (cases a; cases b) auto

lemma fmax_ge: "a \<noteq> NaN \<Longrightarrow> fle a (fmax a b)"
  by (auto simp: fmax_def flt_iff fle_refl)

lemma fmax_mono:
  assumes "fle a b" and "c \<noteq> NaN"
  shows "fle (fmax c a) (fmax c b)"
  using assms by (cases a; cases b; cases c) (auto simp: fmax_def)

lemma double_zero [simp]: "double_rat 0"
  by (simp add: double_rat_def)

lemma fadd_mono:
  assumes "fle a b"
  shows "fle (fadd (Fin x) a) (fadd (Fin x) b)"
  using assms by (cases a; cases b) (auto simp: rnd_mono)

lemma fneg_antimono: "fle a b \<Longrightarrow> fle (fneg b) (fneg a)"
  by (cases a; cases b) auto

lemma fsub_antimono: "fle a b \<Longrightarrow> fle (fsub (Fin x) b) (fsub (Fin x) a)"
  by (simp add: fsub_def fneg_antimono fadd_mono)

lemma fdiv_mono:
  assumes "fle a b" and "0 < c"
  shows "fle (fdiv a (Fin c)) (fdiv b (Fin c))"
  using assms
  by (cases a; cases b) (auto simp: rnd_mono divide_right_mono inf_of_sign_def)

lemma fmul_mono:
  assumes "fle a b" and "0 < c"
  shows "fle (fmul a (Fin c)) (fmul b (Fin c))"
  using assms
  by (cases a; cases b) (auto simp: rnd_mono mult_right_mono inf_of_sign_def)

text \<open>Accumulating non-negative amounts never lowers a finite double.\<close>

lemma fadd_nonneg_ge:
  assumes "double_rat x" and "fle (Fin 0) a"
  shows "fle (Fin x) (fadd (Fin x) a)"
  using assms by (cases a) (auto intro: double.add_nonneg_ge)

text \<open>Whole numbers far from the tolerances.\<close>

lemma tolerance_Fin:
  assumes "t = lit 1 (- n)" and "0 \<le> n"
  obtains e where "t = Fin e" "0 \<le> e" "e \<le> 1"
proof -
  have b: "(10 :: rat) powi (- n) \<le> 10 powi 0" using assms(2) by (intro power_int_increasing) simp_all
  have p: "0 \<le> (10 :: rat) powi (- n)" by simp
  have "fle (Fin 0) t" "fle t (Fin 1)"
    using rnd_mono [OF p] rnd_mono [OF b] rnd_of_int [of 1] unfolding assms(1) lit_def by simp_all
  then show ?thesis using that by (cases t) auto
qed

lemma tolerated_ge:
  assumes "fadd (Fin (of_int a)) t = v" and "t = Fin e" and "0 \<le> e" and "\<bar>a\<bar> < 2 ^ 53" and "b \<le> a"
  shows "\<not> flt v (Fin (of_int b))"
proof -
  have "fle (rnd (of_int a)) (rnd (of_int a + e))" using assms(3) by (intro rnd_mono) simp
  then have "fle (Fin (of_int a)) v" using rnd_of_int [OF assms(4)] assms(1,2) by simp
  then show ?thesis using assms(5) by (cases v) auto
qed

lemma rnd_numeral: "(numeral n :: int) < 2 ^ 53 \<Longrightarrow> rnd (numeral n) = Fin (numeral n)"
  using rnd_of_int [of "numeral n"] by simp

lemma rnd_one [simp]: "rnd 1 = Fin 1"
  using rnd_of_int [of 1] by simp

lemma rnd_neg_numeral: "(numeral n :: int) < 2 ^ 53 \<Longrightarrow> rnd (- numeral n) = Fin (- numeral n)"
  using rnd_of_int [of "- numeral n"] by simp

end
