(* ===== verification/Py_Value.thy ===== *)
theory Py_Value
  imports Py_Float "HOL-Library.AList" "HOL-Library.List_Lexorder" "HOL-Library.Char_ord"
    "HOL-Library.Multiset"
begin

text \<open>
  Python values as they occur in the payload dictionaries of the program
  (\<open>Mapping[str, Any]\<close>): a tagged union with \<open>bool(x)\<close>, \<open>str(x)\<close>, \<open>int(x)\<close>,
  \<open>float(x)\<close>, dictionary access and update, and \<open>json.dumps\<close>. A dictionary is an
  association list in insertion order with distinct keys; \<open>{**d, k: v}\<close> is
  \<open>AList.update\<close>.

  \<open>canonical_payload_hash\<close> models \<open>src/src/operation/canonical_decision.py\<close>. The SHA-256 function
  of the standard library is the parameter \<open>sha\<close> (text to lower-case hex digits).
\<close>

datatype pyval =
    VNone
  | VBool bool
  | VInt int
  | VFloat pyfloat
  | VStr string
  | VList "pyval list"
  | VTuple "pyval list"
  | VDict "(string \<times> pyval) list"

type_synonym pydict = "(string \<times> pyval) list"

fun truthy :: "pyval \<Rightarrow> bool" where
  "truthy VNone = False"
| "truthy (VBool b) = b"
| "truthy (VInt i) = (i \<noteq> 0)"
| "truthy (VFloat f) = ftruthy f"
| "truthy (VStr s) = (s \<noteq> [])"
| "truthy (VList xs) = (xs \<noteq> [])"
| "truthy (VTuple xs) = (xs \<noteq> [])"
| "truthy (VDict d) = (d \<noteq> [])"

text \<open>\<open>d.get(k)\<close>\<close>

definition dget :: "pydict \<Rightarrow> string \<Rightarrow> pyval" where
  "dget d k = (case map_of d k of None \<Rightarrow> VNone | Some v \<Rightarrow> v)"

text \<open>\<open>x or d\<close>\<close>

definition py_or :: "pyval \<Rightarrow> pyval \<Rightarrow> pyval" where
  "py_or x d = (if truthy x then x else d)"

subsection \<open>Text of a value\<close>

definition hex_digit :: "nat \<Rightarrow> char" where
  "hex_digit n = (if n < 10 then char_of (48 + n) else char_of (87 + n))"

definition hex2 :: "char \<Rightarrow> string" where
  "hex2 c = [hex_digit (code c div 16), hex_digit (code c mod 16)]"

definition repr_char :: "char \<Rightarrow> char \<Rightarrow> string" where
  "repr_char quote c =
     (if c = quote \<or> code c = 92 then [char_of (92::nat), c]
      else if code c = 10 then [char_of (92::nat), CHR ''n'']
      else if code c = 13 then [char_of (92::nat), CHR ''r'']
      else if code c = 9 then [char_of (92::nat), CHR ''t'']
      else if code c < 32 \<or> code c = 127 then [char_of (92::nat), CHR ''x''] @ hex2 c
      else [c])"

definition str_repr :: "string \<Rightarrow> string" where
  "str_repr s =
     (let q = (if char_of (39::nat) \<in> set s \<and> char_of (34::nat) \<notin> set s
               then char_of (34::nat) else char_of (39::nat))
      in [q] @ concat (map (repr_char q) s) @ [q])"

fun val_repr :: "pyval \<Rightarrow> string" where
  "val_repr VNone = ''None''"
| "val_repr (VBool b) = (if b then ''True'' else ''False'')"
| "val_repr (VInt i) = py_str_int i"
| "val_repr (VFloat f) = py_repr f"
| "val_repr (VStr s) = str_repr s"
| "val_repr (VList xs) = ''['' @ py_join '', '' (map val_repr xs) @ '']''"
| "val_repr (VTuple xs) =
     (case xs of [x] \<Rightarrow> ''('' @ val_repr x @ '',)''
      | _ \<Rightarrow> ''('' @ py_join '', '' (map val_repr xs) @ '')'')"
| "val_repr (VDict d) =
     ''{'' @ py_join '', '' (map (\<lambda>(k, v). str_repr k @ '': '' @ val_repr v) d) @ ''}''"

text \<open>\<open>str(x)\<close>\<close>

definition py_str :: "pyval \<Rightarrow> string" where
  "py_str v = (case v of VStr s \<Rightarrow> s | _ \<Rightarrow> val_repr v)"

text \<open>\<open>str(d.get(k) or dflt)\<close>, the reading of a text field of a payload.\<close>

definition dstr :: "pydict \<Rightarrow> string \<Rightarrow> string \<Rightarrow> string" where
  "dstr d k dflt = py_str (py_or (dget d k) (VStr dflt))"

text \<open>\<open>d.get(k, dflt)\<close>, \<open>d.setdefault(k, v)\<close> and \<open>{**d, **e}\<close>; optional values.\<close>

definition dget_or :: "pydict \<Rightarrow> string \<Rightarrow> pyval \<Rightarrow> pyval" where
  "dget_or d k dflt = (case map_of d k of None \<Rightarrow> dflt | Some v \<Rightarrow> v)"

definition dsetdefault :: "string \<Rightarrow> pyval \<Rightarrow> pydict \<Rightarrow> pydict" where
  "dsetdefault k v d = (if map_of d k = None then d @ [(k, v)] else d)"

definition dmerge :: "pydict \<Rightarrow> pydict \<Rightarrow> pydict" where
  "dmerge d e = foldl (\<lambda>acc (k, v). AList.update k v acc) d e"

definition opt_float :: "pyfloat option \<Rightarrow> pyval" where
  "opt_float x = (case x of None \<Rightarrow> VNone | Some f \<Rightarrow> VFloat f)"

definition opt_int :: "int option \<Rightarrow> pyval" where
  "opt_int x = (case x of None \<Rightarrow> VNone | Some n \<Rightarrow> VInt n)"

definition opt_string :: "string option \<Rightarrow> pyval" where
  "opt_string x = (case x of None \<Rightarrow> VNone | Some s \<Rightarrow> VStr s)"

subsection \<open>Numbers of a value\<close>

definition count_digits :: "string \<Rightarrow> int" where
  "count_digits s = int (length (filter py_isdigit s))"

definition parse_part :: "string \<Rightarrow> (int \<times> int) option" where
  "parse_part s = (if s = [] then Some (0, 0)
     else map_option (\<lambda>n. (n, count_digits s)) (parse_digits 0 False s))"

definition parse_mantissa :: "string \<Rightarrow> rat option" where
  "parse_mantissa s =
     (let ip = takeWhile (\<lambda>c. c \<noteq> CHR ''.'') s; fp = tl (dropWhile (\<lambda>c. c \<noteq> CHR ''.'') s)
      in if ip = [] \<and> fp = [] then None
         else case (parse_part ip, parse_part fp) of
           (Some (i, _), Some (f, n)) \<Rightarrow> Some (of_int i + of_int f / 10 powi n)
         | _ \<Rightarrow> None)"

definition parse_exponent :: "string \<Rightarrow> int option" where
  "parse_exponent s =
     (case s of [] \<Rightarrow> None
      | c # cs \<Rightarrow>
          if c = CHR ''-'' then map_option uminus (parse_digits 0 False cs)
          else if c = CHR ''+'' then parse_digits 0 False cs
          else parse_digits 0 False s)"

definition parse_unsigned_float :: "string \<Rightarrow> pyfloat option" where
  "parse_unsigned_float t =
     (if t = ''inf'' \<or> t = ''infinity'' then Some PInf
      else if t = ''nan'' then Some NaN
      else
        let m = takeWhile (\<lambda>c. c \<noteq> CHR ''e'') t; r = dropWhile (\<lambda>c. c \<noteq> CHR ''e'') t
        in case parse_mantissa m of
             None \<Rightarrow> None
           | Some q \<Rightarrow>
               if r = [] then Some (rnd q)
               else map_option (\<lambda>x. rnd (q * 10 powi x)) (parse_exponent (tl r)))"

text \<open>\<open>float(s)\<close>; \<open>None\<close> is the \<open>ValueError\<close>.\<close>

definition py_float_of_str :: "string \<Rightarrow> pyfloat option" where
  "py_float_of_str s =
     (case py_lower (py_strip s) of
        [] \<Rightarrow> None
      | c # cs \<Rightarrow>
          if c = CHR ''-'' then map_option fneg (parse_unsigned_float cs)
          else if c = CHR ''+'' then parse_unsigned_float cs
          else parse_unsigned_float (c # cs))"

text \<open>\<open>float(x)\<close>\<close>

fun val_float :: "pyval \<Rightarrow> pyfloat py" where
  "val_float (VBool b) = Inr (Fin (if b then 1 else 0))"
| "val_float (VInt i) = (case float_of_int i of Some f \<Rightarrow> Inr f | None \<Rightarrow> Inl OverflowError)"
| "val_float (VFloat f) = Inr f"
| "val_float (VStr s) =
     (case py_float_of_str s of Some f \<Rightarrow> Inr f
      | None \<Rightarrow> Inl (ValueError (''could not convert string to float: '' @ str_repr s)))"
| "val_float _ = Inl TypeError"

text \<open>\<open>math.floor\<close> of a number that is not finite raises.\<close>

definition math_floor :: "pyfloat \<Rightarrow> int py" where
  "math_floor f =
     (case f of Fin q \<Rightarrow> Inr \<lfloor>q\<rfloor> | NaN \<Rightarrow> Inl (ValueError ''cannot convert float NaN to integer'') | _ \<Rightarrow> Inl OverflowError)"

text \<open>\<open>int(x)\<close>\<close>

fun val_int :: "pyval \<Rightarrow> int py" where
  "val_int (VBool b) = Inr (if b then 1 else 0)"
| "val_int (VInt i) = Inr i"
| "val_int (VFloat (Fin q)) = Inr (if q < 0 then - \<lfloor>- q\<rfloor> else \<lfloor>q\<rfloor>)"
| "val_int (VFloat NaN) = Inl (ValueError ''cannot convert float NaN to integer'')"
| "val_int (VFloat _) = Inl OverflowError"
| "val_int (VStr s) =
     (case py_int_of_str s of Some i \<Rightarrow> Inr i
      | None \<Rightarrow> Inl (ValueError (''invalid literal for int() with base 10: '' @ str_repr s)))"
| "val_int _ = Inl TypeError"

subsection \<open>JSON\<close>

text \<open>
  The escapes of \<open>json.dumps\<close>. With \<open>ensure_ascii\<close> the delete character is escaped
  too; the two settings agree on every other ASCII character.
\<close>

definition json_char :: "bool \<Rightarrow> char \<Rightarrow> string" where
  "json_char ensure_ascii c =
     (if code c = 34 \<or> code c = 92 then [char_of (92::nat), c]
      else if code c = 10 then [char_of (92::nat), CHR ''n'']
      else if code c = 13 then [char_of (92::nat), CHR ''r'']
      else if code c = 9 then [char_of (92::nat), CHR ''t'']
      else if code c = 12 then [char_of (92::nat), CHR ''f'']
      else if code c = 8 then [char_of (92::nat), CHR ''b'']
      else if code c < 32 \<or> (ensure_ascii \<and> code c = 127)
        then [char_of (92::nat), CHR ''u'', CHR ''0'', CHR ''0''] @ hex2 c
      else [c])"

definition json_str :: "bool \<Rightarrow> string \<Rightarrow> string" where
  "json_str ensure_ascii s =
     [char_of (34::nat)] @ concat (map (json_char ensure_ascii) s) @ [char_of (34::nat)]"

definition json_float :: "pyfloat \<Rightarrow> string" where
  "json_float f = (case f of PInf \<Rightarrow> ''Infinity'' | NInf \<Rightarrow> ''-Infinity'' | NaN \<Rightarrow> ''NaN''
     | _ \<Rightarrow> py_repr f)"

text \<open>\<open>json.dumps(v, sort_keys=True, separators=(item, key), ensure_ascii=ea)\<close>\<close>

fun json_dumps :: "bool \<Rightarrow> string \<Rightarrow> string \<Rightarrow> pyval \<Rightarrow> string" where
  "json_dumps ea item key VNone = ''null''"
| "json_dumps ea item key (VBool b) = (if b then ''true'' else ''false'')"
| "json_dumps ea item key (VInt i) = py_str_int i"
| "json_dumps ea item key (VFloat f) = json_float f"
| "json_dumps ea item key (VStr s) = json_str ea s"
| "json_dumps ea item key (VList xs) = ''['' @ py_join item (map (json_dumps ea item key) xs) @ '']''"
| "json_dumps ea item key (VTuple xs) = ''['' @ py_join item (map (json_dumps ea item key) xs) @ '']''"
| "json_dumps ea item key (VDict d) =
     ''{'' @ py_join item (map (\<lambda>(k, t). json_str ea k @ key @ t)
        (sort_key fst (map (\<lambda>(k, v). (k, json_dumps ea item key v)) d))) @ ''}''"

abbreviation json_compact :: "bool \<Rightarrow> pyval \<Rightarrow> string" where
  "json_compact ea \<equiv> json_dumps ea '','' '':''"

subsection \<open>The canonical payload hash\<close>

text \<open>\<open>_stable_value\<close>: dictionaries sorted by key, tuples turned into lists, recursively.\<close>

fun stable_value :: "pyval \<Rightarrow> pyval" where
  "stable_value (VDict d) = VDict (sort_key fst (map (\<lambda>(k, v). (k, stable_value v)) d))"
| "stable_value (VList xs) = VList (map stable_value xs)"
| "stable_value (VTuple xs) = VList (map stable_value xs)"
| "stable_value v = v"

definition canonical_payload_hash :: "(string \<Rightarrow> string) \<Rightarrow> pyval \<Rightarrow> string" where
  "canonical_payload_hash sha v = ''sha256:'' @ sha (json_compact False (stable_value v))"

definition sha256_prefixed :: "(string \<Rightarrow> string) \<Rightarrow> pyval \<Rightarrow> string" where
  "sha256_prefixed sha payload = ''sha256:'' @ sha (json_compact False payload)"

text \<open>
  The hash of \<open>src/src/operation/artifact_hashing.py\<close> refuses a number that is not finite
  (\<open>allow_nan=False\<close>); the message is given without that number.
\<close>

fun json_compliant :: "pyval \<Rightarrow> bool" where
  "json_compliant (VFloat f) = isfinite f"
| "json_compliant (VList xs) = list_all json_compliant xs"
| "json_compliant (VTuple xs) = list_all json_compliant xs"
| "json_compliant (VDict d) = list_all (\<lambda>(k, v). json_compliant v) d"
| "json_compliant v = True"

definition artifact_sha256_prefixed :: "(string \<Rightarrow> string) \<Rightarrow> pyval \<Rightarrow> string py" where
  "artifact_sha256_prefixed sha payload =
     (if json_compliant payload then Inr (sha256_prefixed sha payload)
      else Inl (ValueError ''Out of range float values are not JSON compliant''))"

text \<open>\<open>k in d\<close>, and a value taken as a dictionary or as an empty one.\<close>

definition dhas :: "pydict \<Rightarrow> string \<Rightarrow> bool" where
  "dhas d k \<longleftrightarrow> map_of d k \<noteq> None"

definition dict_value :: "pyval \<Rightarrow> pydict" where
  "dict_value v = (case v of VDict d \<Rightarrow> d | _ \<Rightarrow> [])"

subsection \<open>Facts\<close>

lemma py_str_VStr [simp]: "py_str (VStr s) = s"
  by (simp add: py_str_def)

lemma dget_update [simp]:
  "dget (AList.update k v d) k' = (if k' = k then v else dget d k')"
  by (simp add: dget_def update_conv')

lemma dget_Nil [simp]: "dget [] k = VNone"
  by (simp add: dget_def)

lemma dget_Cons [simp]: "dget ((k', v) # d) k = (if k = k' then v else dget d k)"
  by (simp add: dget_def)

lemma dget_append: "dget (d @ e) k = (if dhas d k then dget d k else dget e k)"
  by (simp add: dget_def dhas_def map_add_def split: option.splits)

lemma dget_dmerge:
  "distinct (map fst e) \<Longrightarrow> dget (dmerge d e) k = (if dhas e k then dget e k else dget d k)"
proof (induction e arbitrary: d)
  case Nil
  then show ?case by (simp add: dmerge_def dhas_def)
next
  case (Cons x e)
  obtain k' v where x: "x = (k', v)" by fastforce
  have "\<not> dhas e k'" using Cons.prems x by (auto simp: dhas_def map_of_eq_None_iff)
  moreover have "dmerge d (x # e) = dmerge (AList.update k' v d) e" by (simp add: dmerge_def x)
  ultimately show ?case using Cons by (auto simp: x dhas_def)
qed

lemma map_fst_map_snd: "map fst (map (\<lambda>(k, v). (k, f v)) d) = map fst d"
  by (induction d) auto

lemma sort_key_fst_perm:
  assumes "distinct (map fst d)" and "mset d = mset d'"
  shows "sort_key fst d = sort_key fst (d' :: (string \<times> 'v) list)"
proof (rule sort_key_inj_key_eq)
  show "mset d = mset (sort_key fst d')" using assms(2) by simp
  show "inj_on fst (set d)" using assms(1) by (simp add: distinct_map)
  show "sorted (map fst (sort_key fst d'))" by simp
qed

text \<open>The canonical form of a dictionary does not depend on the order of its entries.\<close>

lemma stable_value_perm:
  assumes "distinct (map fst d)" and "mset d = mset d'"
  shows "stable_value (VDict d) = stable_value (VDict d')"
proof -
  let ?f = "\<lambda>(k, v). (k, stable_value v)"
  have "distinct (map fst (map ?f d))"
    using assms(1) by (simp only: map_fst_map_snd)
  moreover have "mset (map ?f d) = mset (map ?f d')"
    using assms(2) by simp
  ultimately show ?thesis
    using sort_key_fst_perm by (metis stable_value.simps(1))
qed

end
