(* ===== verification/Order_Keys.thy ===== *)
theory Order_Keys
  imports Py_Value
begin

text \<open>
  The identifiers and deduplication keys of \<open>src/src/operation/oms.py\<close>: client order
  ids, the order intent key, the suppression key and the payload fingerprint. The values of
  \<open>uuid.uuid4().hex\<close> are arguments (one per call in the source), SHA-256 is the parameter
  \<open>sha\<close>.
\<close>

subsection \<open>Client order ids\<close>

definition new_client_order_id :: "string \<Rightarrow> string \<Rightarrow> string" where
  "new_client_order_id prefix uuid = prefix @ ''_'' @ take 16 uuid"

definition MAX_CLIENT_ORDER_ID_LENGTH :: nat where
  "MAX_CLIENT_ORDER_ID_LENGTH = 36"

definition CLIENT_ORDER_ID_SUFFIX_LENGTH :: nat where
  "CLIENT_ORDER_ID_SUFFIX_LENGTH = 8"

definition is_hex :: "char \<Rightarrow> bool" where
  "is_hex c \<longleftrightarrow> c \<in> set ''0123456789abcdef''"

definition client_order_token :: "string \<Rightarrow> string \<Rightarrow> nat \<Rightarrow> string" where
  "client_order_token val fallback max_len =
     (let token = filter py_isalnum (py_lower (py_strip val))
      in take max_len (if token = [] then fallback else token))"

definition client_order_suffix ::
  "string option \<Rightarrow> string option \<Rightarrow> string \<Rightarrow> string \<Rightarrow> string \<Rightarrow> string" where
  "client_order_suffix submit_attempt_id nonce uuid1 uuid2 uuid3 =
     (let source = py_lower (py_strip (or_str submit_attempt_id (or_str nonce uuid1)));
          hex_chars = filter is_hex source;
          hex_chars = (if hex_chars = [] then uuid2 else hex_chars);
          hex_chars = (if length hex_chars < CLIENT_ORDER_ID_SUFFIX_LENGTH
                       then hex_chars @ uuid3 else hex_chars)
      in take CLIENT_ORDER_ID_SUFFIX_LENGTH hex_chars)"

definition build_client_order_id ::
  "string \<Rightarrow> string \<Rightarrow> int \<Rightarrow> string option \<Rightarrow> string option \<Rightarrow> string \<Rightarrow> string \<Rightarrow> string \<Rightarrow> string py" where
  "build_client_order_id mode side intent_ts submit_attempt_id nonce uuid1 uuid2 uuid3 =
     (let mode_token = client_order_token mode ''x'' 5;
          side_token = client_order_token side ''ord'' 4;
          suffix = client_order_suffix submit_attempt_id nonce uuid1 uuid2 uuid3;
          client_order_id =
            mode_token @ ''_'' @ py_str_int intent_ts @ ''_'' @ side_token @ ''_'' @ suffix
      in if MAX_CLIENT_ORDER_ID_LENGTH < length client_order_id
         then Inl (ValueError (''client_order_id length overflow: value='' @ client_order_id @
                '' len='' @ py_str_int (int (length client_order_id)) @
                '' limit='' @ py_str_int (int MAX_CLIENT_ORDER_ID_LENGTH)))
         else Inr client_order_id)"

subsection \<open>Keys over canonical JSON\<close>

definition payload_fingerprint :: "(string \<Rightarrow> string) \<Rightarrow> pydict \<Rightarrow> string" where
  "payload_fingerprint sha payload = sha (json_compact True (VDict payload))"

text \<open>\<open>round(float(q), n) if q is not None and math.isfinite(float(q)) else None\<close>\<close>

definition rounded_or_none :: "nat \<Rightarrow> pyfloat option \<Rightarrow> pyval" where
  "rounded_or_none n q =
     (case q of Some f \<Rightarrow> if isfinite f then VFloat (py_round n f) else VNone | None \<Rightarrow> VNone)"

definition order_intent_payload ::
  "string \<Rightarrow> string \<Rightarrow> string \<Rightarrow> int \<Rightarrow> string \<Rightarrow> pyfloat option \<Rightarrow> int option \<Rightarrow> int option \<Rightarrow> pydict" where
  "order_intent_payload symbol side strategy_context intent_ts intent_type qty intended executable =
     [(''intent_ts'', VInt intent_ts),
      (''intent_type'', VStr intent_type),
      (''side'', VStr (py_upper side)),
      (''strategy_context'', VStr strategy_context),
      (''symbol'', VStr symbol)] @
     (if intended \<noteq> None \<or> executable \<noteq> None then
        [(''intended_lot_count'', VInt (case intended of Some n \<Rightarrow> n | None \<Rightarrow> 0)),
         (''executable_lot_count'', VInt (case executable of Some n \<Rightarrow> n | None \<Rightarrow> 0)),
         (''lot_key_basis'', VStr ''lot-native'')]
      else [(''qty'', rounded_or_none 12 qty)])"

definition build_order_intent_key ::
  "(string \<Rightarrow> string) \<Rightarrow> string \<Rightarrow> string \<Rightarrow> string \<Rightarrow> int \<Rightarrow> string \<Rightarrow> pyfloat option \<Rightarrow>
   int option \<Rightarrow> int option \<Rightarrow> string" where
  "build_order_intent_key sha symbol side strategy_context intent_ts intent_type qty intended executable =
     sha (json_compact True (VDict
       (order_intent_payload symbol side strategy_context intent_ts intent_type qty intended executable)))"

definition build_order_suppression_key ::
  "(string \<Rightarrow> string) \<Rightarrow> string \<Rightarrow> string \<Rightarrow> string \<Rightarrow> string \<Rightarrow> string \<Rightarrow> string \<Rightarrow> string option \<Rightarrow>
   pyfloat option \<Rightarrow> pyfloat option \<Rightarrow> pyfloat option \<Rightarrow> string" where
  "build_order_suppression_key sha mode strategy_context strategy_name signal side reason_code
     dust_signature requested_qty normalized_qty market_price =
     sha (json_compact True (VDict
       [(''mode'', VStr mode),
        (''strategy_context'', VStr strategy_context),
        (''strategy_name'', VStr strategy_name),
        (''signal'', VStr (py_upper signal)),
        (''side'', VStr (py_upper side)),
        (''reason_code'', VStr reason_code),
        (''dust_signature'', VStr (or_str dust_signature '''')),
        (''requested_qty'', rounded_or_none 12 requested_qty),
        (''normalized_qty'', rounded_or_none 12 normalized_qty),
        (''market_price'', rounded_or_none 8 market_price)]))"

subsection \<open>JSON text can be read back\<close>

text \<open>A reader of one JSON character; it shows that \<open>json_char\<close> is a prefix code.\<close>

definition hex_val :: "char \<Rightarrow> nat" where
  "hex_val c = (if code c < 58 then code c - 48 else code c - 87)"

definition json_escape_val :: "char \<Rightarrow> char" where
  "json_escape_val e =
     (if e = CHR ''n'' then char_of (10::nat) else if e = CHR ''r'' then char_of (13::nat)
      else if e = CHR ''t'' then char_of (9::nat) else if e = CHR ''f'' then char_of (12::nat)
      else if e = CHR ''b'' then char_of (8::nat) else e)"

fun json_read_char :: "string \<Rightarrow> (char \<times> string) option" where
  "json_read_char (c # e # a # b # h # l # r) =
     (if code c \<noteq> 92 then Some (c, e # a # b # h # l # r)
      else if e = CHR ''u'' then Some (char_of (16 * hex_val h + hex_val l), r)
      else Some (json_escape_val e, a # b # h # l # r))"
| "json_read_char (c # e # r) =
     (if code c \<noteq> 92 then Some (c, e # r) else Some (json_escape_val e, r))"
| "json_read_char [c] = Some (c, [])"
| "json_read_char [] = None"

lemma json_read_plain: "code c \<noteq> 92 \<Longrightarrow> json_read_char (c # x) = Some (c, x)"
  by (cases "c # x" rule: json_read_char.cases) auto

lemma json_read_escape:
  "e \<noteq> CHR ''u'' \<Longrightarrow> json_read_char (char_of (92::nat) # e # x) = Some (json_escape_val e, x)"
  by (cases "char_of (92::nat) # e # x" rule: json_read_char.cases) auto

lemma hex_val_hex_digit: "n < 16 \<Longrightarrow> hex_val (hex_digit n) = n"
  by (auto simp: hex_val_def hex_digit_def)

lemma json_read_hex:
  "json_read_char ([char_of (92::nat), CHR ''u'', CHR ''0'', CHR ''0''] @ hex2 c @ x) = Some (c, x)"
proof -
  have "code c div 16 < 16"
    using code_less [of c] by (simp add: less_mult_imp_div_less)
  then show ?thesis
    by (simp add: hex2_def hex_val_hex_digit)
qed

lemma code_eq_iff: "code c = code d \<longleftrightarrow> c = d"
  by (metis char_of_code)

lemma char_of_code_eq: "code c = n \<Longrightarrow> char_of n = c"
  by auto

lemma json_escape_val_simps:
  "json_escape_val (CHR ''n'') = char_of (10::nat)" "json_escape_val (CHR ''r'') = char_of (13::nat)"
  "json_escape_val (CHR ''t'') = char_of (9::nat)" "json_escape_val (CHR ''f'') = char_of (12::nat)"
  "json_escape_val (CHR ''b'') = char_of (8::nat)"
  "code c = 34 \<or> code c = 92 \<Longrightarrow> json_escape_val c = c"
  "code c = 34 \<or> code c = 92 \<Longrightarrow> c \<noteq> CHR ''u''"
  by (auto simp: json_escape_val_def code_def)

lemma json_read_json_char: "json_read_char (json_char ea c @ x) = Some (c, x)"
proof -
  consider "code c = 34 \<or> code c = 92" | "code c = 10" | "code c = 13" | "code c = 9"
    | "code c = 12" | "code c = 8"
    | "code c \<notin> {34, 92, 10, 13, 9, 12, 8}" "code c < 32 \<or> ea \<and> code c = 127"
    | "code c \<notin> {34, 92, 10, 13, 9, 12, 8}" "\<not> (code c < 32 \<or> ea \<and> code c = 127)"
    by auto
  then show ?thesis
  proof cases
    case 7
    then show ?thesis using json_read_hex [of c x] by (simp add: json_char_def)
  next
    case 8
    then show ?thesis by (auto simp: json_char_def json_read_plain)
  qed (simp_all add: json_char_def json_read_escape json_escape_val_simps char_of_code_eq)
qed

lemma json_char_prefix:
  assumes "json_char ea c @ x = json_char ea d @ y"
  shows "c = d \<and> x = y"
  using assms json_read_json_char by (metis option.inject prod.inject)

lemma json_char_quote: "json_char ea c @ x \<noteq> char_of (34::nat) # y"
proof
  assume eq: "json_char ea c @ x = char_of (34::nat) # y"
  then have "Some (c, x) = Some (char_of (34::nat), y)"
    using json_read_json_char [of ea c x] json_read_plain [of "char_of (34::nat)" y] by simp
  then have "c = char_of (34::nat)" by simp
  with eq show False by (simp add: json_char_def)
qed

lemma json_body_prefix:
  "concat (map (json_char ea) s) @ char_of (34::nat) # x
     = concat (map (json_char ea) t) @ char_of (34::nat) # y \<Longrightarrow> s = t \<and> x = y"
proof (induction s arbitrary: t)
  case Nil
  then show ?case
    by (cases t) (simp_all, metis json_char_quote)
next
  case (Cons c s)
  show ?case
  proof (cases t)
    case Nil
    with Cons.prems show ?thesis
      by (simp add: json_char_quote)
  next
    case t: (Cons d t')
    with Cons.prems have "json_char ea c @ (concat (map (json_char ea) s) @ char_of (34::nat) # x)
      = json_char ea d @ (concat (map (json_char ea) t') @ char_of (34::nat) # y)"
      by simp
    from json_char_prefix [OF this] Cons.IH t show ?thesis by blast
  qed
qed

lemma json_str_prefix: "json_str ea s @ x = json_str ea t @ y \<Longrightarrow> s = t \<and> x = y"
  using json_body_prefix [of ea s x t y] by (simp add: json_str_def)

lemma dec_str_prefix:
  assumes "0 \<le> m" and "0 \<le> n" and "\<not> py_isdigit a" and "\<not> py_isdigit b"
    and eq: "dec_str m @ a # x = dec_str n @ b # y"
  shows "m = n \<and> a # x = b # y"
proof -
  have dig: "\<forall>c \<in> set (dec_str k). py_isdigit c" if "0 \<le> k" for k
    using dec_str_digits [OF that] digit_char_props(1) by blast
  have tw: "takeWhile py_isdigit (dec_str k @ c # z) = dec_str k" if "0 \<le> k" "\<not> py_isdigit c" for k c z
    using dig [OF that(1)] that(2) by (simp add: takeWhile_append2)
  have "dec_str m = dec_str n"
    using arg_cong [OF eq, of "takeWhile py_isdigit"] tw assms(1-4) by metis
  with eq assms(1,2) show ?thesis
    using dec_str_inj by simp
qed

lemma digit_not_minus: "0 \<le> n \<Longrightarrow> dec_str n \<noteq> CHR ''-'' # x"
  using dec_str_digits [of n "CHR ''-''"] digit_char_props(4) by force

lemma py_str_int_prefix:
  assumes ab: "\<not> py_isdigit a" "\<not> py_isdigit b"
    and eq: "py_str_int i @ a # x = py_str_int j @ b # y"
  shows "i = j \<and> a # x = b # y"
proof -
  have no_minus: "dec_str k @ z \<noteq> CHR ''-'' # w" if "0 \<le> k" for k z w
    using digit_not_minus [OF that] dec_str_not_Nil [of k]
    by (cases "dec_str k") auto
  consider "i < 0" "j < 0" | "\<not> i < 0" "\<not> j < 0" | "i < 0" "\<not> j < 0" | "\<not> i < 0" "j < 0"
    by blast
  then show ?thesis
  proof cases
    case 1
    with eq have "dec_str (- i) @ a # x = dec_str (- j) @ b # y"
      by (simp add: py_str_int_def)
    from dec_str_prefix [OF _ _ ab this] 1 show ?thesis by simp
  next
    case 2
    with eq have "dec_str i @ a # x = dec_str j @ b # y"
      by (simp add: py_str_int_def)
    from dec_str_prefix [OF _ _ ab this] 2 show ?thesis by simp
  next
    case 3
    with eq no_minus [of j "b # y"] show ?thesis by (simp add: py_str_int_def eq_commute)
  next
    case 4
    with eq no_minus [of i "a # x"] show ?thesis by (simp add: py_str_int_def)
  qed
qed

subsection \<open>The intent key\<close>

fun scalar :: "pyval \<Rightarrow> bool" where
  "scalar (VInt _) = True"
| "scalar (VStr _) = True"
| "scalar _ = False"

abbreviation delimiter :: "char \<Rightarrow> bool" where
  "delimiter c \<equiv> c = CHR '','' \<or> c = CHR ''}''"

lemma delimiter_not_digit: "delimiter c \<Longrightarrow> \<not> py_isdigit c"
  by (auto simp: py_isdigit_def code_def)

lemma py_str_int_not_quote: "py_str_int i @ x \<noteq> char_of (34::nat) # y"
proof
  assume eq: "py_str_int i @ x = char_of (34::nat) # y"
  then have "hd (py_str_int i) = char_of (34::nat)"
    by (metis hd_append2 list.sel(1) py_str_int_not_Nil)
  moreover have "hd (py_str_int i) = CHR ''-'' \<or> py_isdigit (hd (py_str_int i))"
    using dec_str_digits [of i "hd (dec_str i)"] digit_char_props(1)
    by (auto simp: py_str_int_def)
  moreover have "code (char_of (34::nat)) \<noteq> code (CHR ''-'')"
    by (simp add: code_def)
  ultimately show False
    by (auto simp: py_isdigit_def)
qed

lemma json_scalar_prefix:
  assumes "scalar v" "scalar w" "delimiter c" "delimiter d"
    and "json_compact True v @ c # x = json_compact True w @ d # y"
  shows "v = w \<and> c # x = d # y"
proof (cases v; cases w)
  fix i j
  assume "v = VInt i" "w = VInt j"
  with assms py_str_int_prefix [of c d i x j y] delimiter_not_digit show ?thesis by simp
next
  fix s t
  assume "v = VStr s" "w = VStr t"
  with assms json_str_prefix [of True s "c # x" t "d # y"] show ?thesis by simp
next
  fix i t
  assume "v = VInt i" "w = VStr t"
  with assms(5) py_str_int_not_quote [of i "c # x"] show ?thesis by (simp add: json_str_def)
next
  fix s j
  assume "v = VStr s" "w = VInt j"
  with assms(5) have "\<exists>z. py_str_int j @ d # y = char_of (34::nat) # z"
    by (simp add: json_str_def) (metis append_Cons)
  then show ?thesis using py_str_int_not_quote by blast
qed (use assms(1,2) in simp_all)

abbreviation json_field :: "string \<times> pyval \<Rightarrow> string" where
  "json_field kv \<equiv> json_str True (fst kv) @ '':'' @ json_compact True (snd kv)"

text \<open>An object of scalar fields under the same keys is determined by its text.\<close>

lemma json_fields_inj:
  assumes "map fst ps = map fst qs"
    and "\<forall>kv \<in> set ps \<union> set qs. scalar (snd kv)"
    and "py_join '','' (map json_field ps) @ ''}'' = py_join '','' (map json_field qs) @ ''}''"
  shows "ps = qs"
proof -
  have "length ps = length qs"
    using assms(1) by (metis length_map)
  then show ?thesis
    using assms
  proof (induction ps qs rule: list_induct2)
    case Nil
    then show ?case by simp
  next
    case (Cons p ps q qs)
    define tail where "tail rs = (if rs = [] then ''}'' else CHR '','' # py_join '','' (map json_field rs) @ ''}'')"
      for rs
    have join: "py_join '','' (map json_field (r # rs)) @ ''}'' =
        json_str True (fst r) @ CHR '':'' # json_compact True (snd r) @ tail rs" for r rs
      by (cases rs) (simp_all add: tail_def)
    have delim: "\<exists>c x. tail rs = c # x \<and> delimiter c" for rs
      by (simp add: tail_def)
    obtain c x d y where tails: "tail ps = c # x" "tail qs = d # y" "delimiter c" "delimiter d"
      using delim [of ps] delim [of qs] by blast
    have vals: "json_compact True (snd p) @ c # x = json_compact True (snd q) @ d # y"
      using Cons.prems(1,3) by (simp only: join tails) simp
    have "scalar (snd p)" "scalar (snd q)"
      using Cons.prems(2) by simp_all
    from json_scalar_prefix [OF this tails(3,4) vals] tails(1,2)
    have "snd p = snd q" and eq: "tail ps = tail qs" by simp_all
    moreover from eq Cons.hyps have "py_join '','' (map json_field ps) @ ''}'' =
        py_join '','' (map json_field qs) @ ''}''"
      by (auto simp: tail_def split: if_splits)
    ultimately show ?case
      using Cons.IH Cons.prems(1,2) by (auto simp: prod_eq_iff)
  qed
qed

lemma lot_keys_sorted:
  "sorted [''executable_lot_count'', ''intended_lot_count'', ''intent_ts'', ''intent_type'',
     ''lot_key_basis'', ''side'', ''strategy_context'', ''symbol'']"
  by code_simp

definition count_or_zero :: "int option \<Rightarrow> int" where
  "count_or_zero n = (case n of Some k \<Rightarrow> k | None \<Rightarrow> 0)"

lemma lot_payload_json:
  assumes "i \<noteq> None \<or> e \<noteq> None"
  shows "json_compact True (VDict (order_intent_payload sbl side ctx ts ty q i e)) =
     ''{'' @ py_join '','' (map json_field
       [(''executable_lot_count'', VInt (count_or_zero e)),
        (''intended_lot_count'', VInt (count_or_zero i)),
        (''intent_ts'', VInt ts), (''intent_type'', VStr ty),
        (''lot_key_basis'', VStr ''lot-native''), (''side'', VStr (py_upper side)),
        (''strategy_context'', VStr ctx), (''symbol'', VStr sbl)]) @ ''}''"
proof -
  have "sort_key fst (map (\<lambda>(k, v). (k, json_compact True v))
     (order_intent_payload sbl side ctx ts ty q i e)) =
     map (\<lambda>(k, v). (k, json_compact True v))
       [(''executable_lot_count'', VInt (count_or_zero e)),
        (''intended_lot_count'', VInt (count_or_zero i)),
        (''intent_ts'', VInt ts), (''intent_type'', VStr ty),
        (''lot_key_basis'', VStr ''lot-native''), (''side'', VStr (py_upper side)),
        (''strategy_context'', VStr ctx), (''symbol'', VStr sbl)]"
    using assms lot_keys_sorted
    by (intro sort_key_inj_key_eq)
      (simp_all add: order_intent_payload_def inj_on_def count_or_zero_def)
  then show ?thesis by simp
qed

text \<open>Two lot-native intents have the same canonical text only if they agree on every field.\<close>

lemma lot_intent_json_inj:
  assumes "i \<noteq> None \<or> e \<noteq> None" and "i' \<noteq> None \<or> e' \<noteq> None"
    and "json_compact True (VDict (order_intent_payload sbl side ctx ts ty q i e)) =
         json_compact True (VDict (order_intent_payload sbl' side' ctx' ts' ty' q' i' e'))"
  shows "sbl = sbl' \<and> py_upper side = py_upper side' \<and> ctx = ctx' \<and> ts = ts' \<and> ty = ty' \<and>
     count_or_zero i = count_or_zero i' \<and> count_or_zero e = count_or_zero e'"
proof -
  let ?f = "\<lambda>sbl side ctx ts ty i e.
       [(''executable_lot_count'', VInt (count_or_zero e)),
        (''intended_lot_count'', VInt (count_or_zero i)),
        (''intent_ts'', VInt ts), (''intent_type'', VStr ty),
        (''lot_key_basis'', VStr ''lot-native''), (''side'', VStr (py_upper side)),
        (''strategy_context'', VStr ctx), (''symbol'', VStr sbl)]"
  have "?f sbl side ctx ts ty i e = ?f sbl' side' ctx' ts' ty' i' e'"
    using assms lot_payload_json by (intro json_fields_inj) (simp_all del: py_join.simps)
  then show ?thesis by simp
qed

subsection \<open>Shape of a client order id\<close>

lemma sep_prefix:
  assumes "c \<notin> set a" and "c \<notin> set b" and "a @ c # x = b @ c # y"
  shows "a = b \<and> x = y"
proof -
  have tw: "takeWhile (\<lambda>d. d \<noteq> c) (z @ c # w) = z" if "c \<notin> set z" for z w
    using that by (induction z) auto
  have "a = b"
    using arg_cong [OF assms(3), of "takeWhile (\<lambda>d. d \<noteq> c)"] tw assms(1,2) by metis
  with assms(3) show ?thesis by simp
qed

lemma underscore_not_alnum: "\<not> py_isalnum (CHR ''_'')"
  by (simp add: py_text_defs)

lemma client_order_token_alnum:
  assumes "\<forall>c \<in> set fb. py_isalnum c"
  shows "\<forall>c \<in> set (client_order_token v fb n). py_isalnum c"
  using assms by (auto simp: client_order_token_def Let_def dest!: in_set_takeD)

lemma client_order_token_no_sep:
  "CHR ''_'' \<notin> set (client_order_token v ''x'' n)"
  "CHR ''_'' \<notin> set (client_order_token v ''ord'' n)"
  using client_order_token_alnum [of "''x''" v n] client_order_token_alnum [of "''ord''" v n]
    underscore_not_alnum by (auto simp: py_text_defs)

lemma client_order_token_length: "length (client_order_token v fb n) \<le> n"
  by (simp add: client_order_token_def Let_def)

lemma py_str_int_no_sep: "CHR ''_'' \<notin> set (py_str_int i)"
proof -
  have nd: "\<not> py_isdigit (CHR ''_'')"
    by (simp add: py_text_defs)
  have "CHR ''_'' \<notin> set (dec_str k)" if k: "0 \<le> k" for k
  proof
    assume "CHR ''_'' \<in> set (dec_str k)"
    from dec_str_digits [OF k this] digit_char_props(1) nd show False by metis
  qed
  then show ?thesis by (simp add: py_str_int_def)
qed

lemma client_order_suffix_hex:
  assumes "\<forall>c \<in> set u2. is_hex c" and "\<forall>c \<in> set u3. is_hex c"
    and "8 \<le> length u3"
  shows "length (client_order_suffix a n u1 u2 u3) = 8 \<and>
    (\<forall>c \<in> set (client_order_suffix a n u1 u2 u3). is_hex c)"
  using assms
  by (auto simp: client_order_suffix_def CLIENT_ORDER_ID_SUFFIX_LENGTH_def Let_def
      dest!: in_set_takeD)

lemma build_client_order_id_Inr:
  "build_client_order_id mode side ts a n u1 u2 u3 = Inr cid \<Longrightarrow>
   cid = client_order_token mode ''x'' 5 @ ''_'' @ py_str_int ts @ ''_'' @
     client_order_token side ''ord'' 4 @ ''_'' @ client_order_suffix a n u1 u2 u3 \<and>
   length cid \<le> 36"
  by (auto simp: build_client_order_id_def MAX_CLIENT_ORDER_ID_LENGTH_def Let_def split: if_splits)

text \<open>
  For an intent timestamp of at most 16 characters (epoch milliseconds have 13), and
  with UUIDs made of at least eight hexadecimal digits, building a client order id never
  raises: the id has at most 36 characters and ends in a separator and eight hexadecimal
  digits.
\<close>

theorem build_client_order_id_total:
  assumes "length (py_str_int intent_ts) \<le> 16"
    and "\<forall>c \<in> set uuid2. is_hex c" and "\<forall>c \<in> set uuid3. is_hex c" and "8 \<le> length uuid3"
  shows "\<exists>cid head suffix.
    build_client_order_id mode side intent_ts submit_attempt_id nonce uuid1 uuid2 uuid3 = Inr cid \<and>
    length cid \<le> 36 \<and> cid = head @ ''_'' @ suffix \<and> length suffix = 8 \<and>
    (\<forall>c \<in> set suffix. is_hex c)"
proof -
  let ?m = "client_order_token mode ''x'' 5" and ?s = "client_order_token side ''ord'' 4"
  let ?x = "client_order_suffix submit_attempt_id nonce uuid1 uuid2 uuid3"
  have x: "length ?x = 8" "\<forall>c \<in> set ?x. is_hex c"
    using client_order_suffix_hex assms(2-4) by blast+
  have "length ?m \<le> 5" "length ?s \<le> 4"
    by (rule client_order_token_length)+
  with assms(1) x(1) have "build_client_order_id mode side intent_ts submit_attempt_id nonce uuid1 uuid2 uuid3
      = Inr (?m @ ''_'' @ py_str_int intent_ts @ ''_'' @ ?s @ ''_'' @ ?x)"
    and "length (?m @ ''_'' @ py_str_int intent_ts @ ''_'' @ ?s @ ''_'' @ ?x) \<le> 36"
    by (simp_all add: build_client_order_id_def MAX_CLIENT_ORDER_ID_LENGTH_def Let_def)
  with x show ?thesis
    by (intro exI [of _ "?m @ ''_'' @ py_str_int intent_ts @ ''_'' @ ?s"]
        exI [of _ ?x] exI [of _ "?m @ ''_'' @ py_str_int intent_ts @ ''_'' @ ?s @ ''_'' @ ?x"]) simp
qed

theorem build_client_order_id_total_witness:
  "\<exists>cid head suffix.
    build_client_order_id ''live'' ''BUY'' 1775367720000 (Some ''attempt_f70fd9a0'') None []
      ''0123456789abcdef'' ''0123456789abcdef'' = Inr cid \<and>
    length cid \<le> 36 \<and> cid = head @ ''_'' @ suffix \<and> length suffix = 8 \<and>
    (\<forall>c \<in> set suffix. is_hex c)"
  by (rule build_client_order_id_total) (simp_all add: is_hex_def py_str_int_def dec_str.simps)

text \<open>
  A client order id identifies its parts: two equal ids come from the same mode token,
  the same intent timestamp, the same side token and the same suffix.
\<close>

theorem build_client_order_id_parts:
  assumes "build_client_order_id mode side ts a n u1 u2 u3 = Inr cid"
    and "build_client_order_id mode' side' ts' a' n' u1' u2' u3' = Inr cid"
  shows "client_order_token mode ''x'' 5 = client_order_token mode' ''x'' 5 \<and> ts = ts' \<and>
    client_order_token side ''ord'' 4 = client_order_token side' ''ord'' 4 \<and>
    client_order_suffix a n u1 u2 u3 = client_order_suffix a' n' u1' u2' u3'"
proof -
  let ?t = "\<lambda>ts side x. py_str_int ts @ CHR ''_'' # client_order_token side ''ord'' 4 @ CHR ''_'' # x"
  let ?x = "client_order_suffix a n u1 u2 u3" and ?x' = "client_order_suffix a' n' u1' u2' u3'"
  have "client_order_token mode ''x'' 5 @ CHR ''_'' # ?t ts side ?x =
        client_order_token mode' ''x'' 5 @ CHR ''_'' # ?t ts' side' ?x'"
    using build_client_order_id_Inr [OF assms(1)] build_client_order_id_Inr [OF assms(2)] by simp
  from sep_prefix [OF client_order_token_no_sep(1) client_order_token_no_sep(1) this]
  have m: "client_order_token mode ''x'' 5 = client_order_token mode' ''x'' 5"
    and r: "?t ts side ?x = ?t ts' side' ?x'" by simp_all
  from sep_prefix [OF py_str_int_no_sep py_str_int_no_sep r]
  have ts: "py_str_int ts = py_str_int ts'"
    and r': "client_order_token side ''ord'' 4 @ CHR ''_'' # ?x =
      client_order_token side' ''ord'' 4 @ CHR ''_'' # ?x'" by simp_all
  from sep_prefix [OF client_order_token_no_sep(2) client_order_token_no_sep(2) r']
  have "client_order_token side ''ord'' 4 = client_order_token side' ''ord'' 4" and "?x = ?x'"
    by simp_all
  with m ts show ?thesis by (simp add: py_str_int_inj)
qed

theorem build_client_order_id_parts_witness:
  "build_client_order_id ''live'' ''BUY'' 17 (Some ''attempt_f70fd9a0'') None [] [] [] =
     Inr ''live_17_buy_aef70fd9'' \<and>
   build_client_order_id ''live'' ''BUY'' 17 (Some ''attempt_f70fd9a0'') (Some ''n'') [] [] [] =
     Inr ''live_17_buy_aef70fd9'' \<and>
   client_order_suffix (Some ''attempt_f70fd9a0'') None [] [] [] =
     client_order_suffix (Some ''attempt_f70fd9a0'') (Some ''n'') [] [] []"
proof -
  have a: "build_client_order_id ''live'' ''BUY'' 17 (Some ''attempt_f70fd9a0'') None [] [] [] =
      Inr ''live_17_buy_aef70fd9''" by code_simp
  have b: "build_client_order_id ''live'' ''BUY'' 17 (Some ''attempt_f70fd9a0'') (Some ''n'') [] [] [] =
      Inr ''live_17_buy_aef70fd9''" by code_simp
  show ?thesis using build_client_order_id_parts [OF a b] a b by simp
qed

text \<open>
  C34: As long as SHA-256 does not collide on the two canonical texts, two lot-native order
  intents share a deduplication key exactly when they agree on symbol, side (up to case),
  strategy context, timestamp, intent type and both lot counts; the quantity plays no role.
\<close>

theorem order_intent_key_eq_iff:
  assumes "i \<noteq> None \<or> e \<noteq> None" and "i' \<noteq> None \<or> e' \<noteq> None"
    and no_collision:
      "let text = (\<lambda>sbl side ctx ts ty q i e. json_compact True (VDict (order_intent_payload sbl side ctx ts ty q i e)))
       in sha (text sbl side ctx ts ty q i e) = sha (text sbl' side' ctx' ts' ty' q' i' e') \<longrightarrow>
          text sbl side ctx ts ty q i e = text sbl' side' ctx' ts' ty' q' i' e'"
  shows "build_order_intent_key sha sbl side ctx ts ty q i e =
      build_order_intent_key sha sbl' side' ctx' ts' ty' q' i' e' \<longleftrightarrow>
    sbl = sbl' \<and> py_upper side = py_upper side' \<and> ctx = ctx' \<and> ts = ts' \<and> ty = ty' \<and>
    count_or_zero i = count_or_zero i' \<and> count_or_zero e = count_or_zero e'" (is "?L \<longleftrightarrow> ?R")
proof
  assume ?L
  then have "json_compact True (VDict (order_intent_payload sbl side ctx ts ty q i e)) =
      json_compact True (VDict (order_intent_payload sbl' side' ctx' ts' ty' q' i' e'))"
    using no_collision by (simp only: build_order_intent_key_def Let_def)
  then show ?R
    by (rule lot_intent_json_inj [OF assms(1,2)])
next
  assume ?R
  then show ?L
    by (simp only: build_order_intent_key_def lot_payload_json [OF assms(1)]
        lot_payload_json [OF assms(2)])
qed

theorem order_intent_key_eq_iff_witness:
  "(build_order_intent_key (\<lambda>s. s) ''KRW-BTC'' ''buy'' ''paper'' 1 ''market_entry'' None (Some 3) None =
    build_order_intent_key (\<lambda>s. s) ''KRW-BTC'' ''BUY'' ''paper'' 1 ''market_entry'' None (Some 3) (Some 0))
   \<longleftrightarrow> ''KRW-BTC'' = ''KRW-BTC'' \<and> py_upper ''buy'' = py_upper ''BUY'' \<and> ''paper'' = ''paper'' \<and>
     (1::int) = 1 \<and> ''market_entry'' = ''market_entry'' \<and>
     count_or_zero (Some 3) = count_or_zero (Some 3) \<and> count_or_zero None = count_or_zero (Some 0)"
  by (rule order_intent_key_eq_iff) (simp_all add: Let_def)

end
