(* ===== verification/Order_Status.thy ===== *)
theory Order_Status
  imports Py_Text
begin

text \<open>
  The order status machine of \<open>src/src/operation/oms.py\<close>: the status groups, the table of
  allowed transitions, \<open>validate_status_transition\<close> and
  \<open>_next_local_intent_state\<close>. Statuses are the strings that the \<open>orders\<close> table
  stores. The contract of a status machine (terminal statuses are absorbing, targets of
  transitions are known) is the locale \<open>status_machine\<close>; the table is an instance of it.
\<close>

subsection \<open>Status groups\<close>

definition OPEN_ORDER_STATUSES :: "string list" where
  "OPEN_ORDER_STATUSES =
     [''PENDING_SUBMIT'', ''NEW'', ''PARTIAL'', ''SUBMIT_UNKNOWN'', ''ACCOUNTING_PENDING'',
      ''RECOVERY_REQUIRED'', ''CANCEL_REQUESTED'']"

definition TERMINAL_ORDER_STATUSES :: "string list" where
  "TERMINAL_ORDER_STATUSES = [''CANCELED'', ''FILLED'', ''FAILED'']"

definition AUTO_RECOVERING_ORDER_STATUSES :: "string list" where
  "AUTO_RECOVERING_ORDER_STATUSES = [''ACCOUNTING_PENDING'']"

definition OPERATOR_REVIEW_ORDER_STATUSES :: "string list" where
  "OPERATOR_REVIEW_ORDER_STATUSES = [''RECOVERY_REQUIRED'']"

definition ORDER_INTENT_PENDING_STATES :: "string list" where
  "ORDER_INTENT_PENDING_STATES =
     [''PENDING_SUBMIT'', ''SUBMIT_UNKNOWN'', ''ACCOUNTING_PENDING'', ''RECOVERY_REQUIRED'',
      ''CANCEL_REQUESTED'']"

definition ORDER_INTENT_TERMINAL_STATES :: "string list" where
  "ORDER_INTENT_TERMINAL_STATES = [''FILLED'', ''CANCELED'', ''FAILED'']"

definition ORDER_INTENT_DEDUP_RELEASE_STATUSES :: "string list" where
  "ORDER_INTENT_DEDUP_RELEASE_STATUSES = [''FAILED'', ''RELEASED'']"

subsection \<open>Transitions\<close>

definition ALLOWED_STATUS_TRANSITIONS :: "(string \<times> string list) list" where
  "ALLOWED_STATUS_TRANSITIONS =
     [(''PENDING_SUBMIT'',
        [''PENDING_SUBMIT'', ''NEW'', ''PARTIAL'', ''FILLED'', ''CANCELED'', ''FAILED'',
         ''SUBMIT_UNKNOWN'', ''ACCOUNTING_PENDING'', ''RECOVERY_REQUIRED'', ''CANCEL_REQUESTED'']),
      (''NEW'',
        [''NEW'', ''PARTIAL'', ''FILLED'', ''CANCELED'', ''FAILED'', ''ACCOUNTING_PENDING'',
         ''RECOVERY_REQUIRED'', ''CANCEL_REQUESTED'']),
      (''PARTIAL'',
        [''PARTIAL'', ''FILLED'', ''CANCELED'', ''FAILED'', ''ACCOUNTING_PENDING'',
         ''RECOVERY_REQUIRED'', ''CANCEL_REQUESTED'']),
      (''SUBMIT_UNKNOWN'',
        [''SUBMIT_UNKNOWN'', ''NEW'', ''PARTIAL'', ''FILLED'', ''CANCELED'', ''FAILED'',
         ''ACCOUNTING_PENDING'', ''RECOVERY_REQUIRED'', ''CANCEL_REQUESTED'']),
      (''ACCOUNTING_PENDING'',
        [''ACCOUNTING_PENDING'', ''NEW'', ''PARTIAL'', ''FILLED'', ''CANCELED'', ''FAILED'',
         ''RECOVERY_REQUIRED'']),
      (''CANCEL_REQUESTED'',
        [''CANCEL_REQUESTED'', ''CANCELED'', ''FILLED'', ''PARTIAL'', ''ACCOUNTING_PENDING'',
         ''RECOVERY_REQUIRED'']),
      (''RECOVERY_REQUIRED'',
        [''RECOVERY_REQUIRED'', ''NEW'', ''PARTIAL'', ''FILLED'', ''CANCELED'', ''FAILED'',
         ''ACCOUNTING_PENDING'']),
      (''FILLED'', [''FILLED'']),
      (''CANCELED'', [''CANCELED'']),
      (''FAILED'', [''FAILED''])]"

definition validate_status_transition :: "string \<Rightarrow> string \<Rightarrow> bool \<times> string option" where
  "validate_status_transition from_status to_status =
     (case map_of ALLOWED_STATUS_TRANSITIONS from_status of
        None \<Rightarrow> (False, Some (''unknown current status: '' @ from_status))
      | Some allowed \<Rightarrow>
          if to_status \<in> set allowed then (True, None)
          else (False, Some (''disallowed status transition: '' @ from_status @ ''->'' @ to_status)))"

definition next_local_intent_state :: "string option \<Rightarrow> string \<Rightarrow> string option" where
  "next_local_intent_state current_state status =
     (let current = strip_or_none current_state
      in if status \<in> set ORDER_INTENT_TERMINAL_STATES then Some status
         else if status \<in> set ORDER_INTENT_PENDING_STATES then Some status
         else if status \<in> set [''NEW'', ''PARTIAL''] then
           (if current \<in> set [None, Some ''PENDING_SUBMIT'', Some ''SUBMIT_UNKNOWN'',
                 Some ''ACCOUNTING_PENDING'', Some ''RECOVERY_REQUIRED'', Some ''CANCEL_REQUESTED'']
            then Some status else current)
         else current)"

abbreviation transition_ok :: "string \<Rightarrow> string \<Rightarrow> bool" where
  "transition_ok s t \<equiv> fst (validate_status_transition s t)"

definition known_status :: "string \<Rightarrow> bool" where
  "known_status s \<longleftrightarrow> s \<in> set (map fst ALLOWED_STATUS_TRANSITIONS)"

definition terminal_status :: "string \<Rightarrow> bool" where
  "terminal_status s \<longleftrightarrow> s \<in> set TERMINAL_ORDER_STATUSES"

definition open_status :: "string \<Rightarrow> bool" where
  "open_status s \<longleftrightarrow> s \<in> set OPEN_ORDER_STATUSES"

subsection \<open>The contract of a status machine\<close>

text \<open>
  A client that only moves along allowed transitions from a known status never leaves a
  terminal status and never reaches an unknown one.
\<close>

locale status_machine =
  fixes allowed :: "'s \<Rightarrow> 's \<Rightarrow> bool"
    and known :: "'s \<Rightarrow> bool"
    and terminal :: "'s \<Rightarrow> bool"
  assumes allowed_known: "allowed s t \<Longrightarrow> known s \<and> known t"
    and stutter: "known s \<Longrightarrow> allowed s s"
    and absorbing: "terminal s \<Longrightarrow> allowed s t \<Longrightarrow> t = s"
begin

lemma rtrancl_known: "allowed\<^sup>*\<^sup>* s t \<Longrightarrow> known s \<Longrightarrow> known t"
  by (induction rule: rtranclp_induct) (auto dest: allowed_known)

lemma rtrancl_terminal: "allowed\<^sup>*\<^sup>* s t \<Longrightarrow> terminal s \<Longrightarrow> t = s"
  by (induction rule: rtranclp_induct) (auto dest: absorbing)

lemma terminal_exclusive:
  assumes "allowed\<^sup>*\<^sup>* s t" and "allowed\<^sup>*\<^sup>* t u" and "terminal t"
  shows "u = t"
  using assms rtrancl_terminal by blast

end

lemma map_of_transitions_known:
  "map_of ALLOWED_STATUS_TRANSITIONS s = Some ts \<Longrightarrow> known_status s"
  by (auto simp: known_status_def dest: map_of_SomeD intro: rev_image_eqI)

lemma transition_ok_iff:
  "transition_ok s t \<longleftrightarrow> (\<exists>ts. map_of ALLOWED_STATUS_TRANSITIONS s = Some ts \<and> t \<in> set ts)"
  by (auto simp: validate_status_transition_def split: option.splits)

lemma transitions_closed:
  "\<forall>(s, ts) \<in> set ALLOWED_STATUS_TRANSITIONS.
     s \<in> set ts \<and> (\<forall>t \<in> set ts. t \<in> set (map fst ALLOWED_STATUS_TRANSITIONS))"
  by (simp add: ALLOWED_STATUS_TRANSITIONS_def)

lemma distinct_transitions: "distinct (map fst ALLOWED_STATUS_TRANSITIONS)"
  by (simp add: ALLOWED_STATUS_TRANSITIONS_def)

lemma transition_ok_known: "transition_ok s t \<Longrightarrow> known_status s \<and> known_status t"
  using transitions_closed
  by (fastforce simp: transition_ok_iff known_status_def dest: map_of_SomeD)

lemma transition_ok_refl: "known_status s \<Longrightarrow> transition_ok s s"
proof -
  assume "known_status s"
  then obtain ts where "(s, ts) \<in> set ALLOWED_STATUS_TRANSITIONS"
    by (auto simp: known_status_def)
  then have "map_of ALLOWED_STATUS_TRANSITIONS s = Some ts" and "s \<in> set ts"
    using distinct_transitions transitions_closed by (auto intro: map_of_is_SomeI)
  then show ?thesis by (auto simp: transition_ok_iff)
qed

lemma terminal_absorbing: "terminal_status s \<Longrightarrow> transition_ok s t \<Longrightarrow> t = s"
  by (auto simp: terminal_status_def TERMINAL_ORDER_STATUSES_def transition_ok_iff
      ALLOWED_STATUS_TRANSITIONS_def)

interpretation order_status: status_machine transition_ok known_status terminal_status
  by unfold_locales (auto simp: transition_ok_known transition_ok_refl dest: terminal_absorbing)

lemma known_open_or_terminal: "known_status s \<longleftrightarrow> open_status s \<or> terminal_status s"
  by (auto simp: known_status_def open_status_def terminal_status_def
      ALLOWED_STATUS_TRANSITIONS_def OPEN_ORDER_STATUSES_def TERMINAL_ORDER_STATUSES_def)

lemma open_not_terminal: "open_status s \<Longrightarrow> \<not> terminal_status s"
  by (auto simp: open_status_def terminal_status_def OPEN_ORDER_STATUSES_def
      TERMINAL_ORDER_STATUSES_def)

text \<open>No open status is a trap: each has a direct transition to a terminal status.\<close>

lemma open_can_finish: "open_status s \<Longrightarrow> transition_ok s ''FILLED'' \<and> transition_ok s ''CANCELED''"
  by (auto simp: open_status_def OPEN_ORDER_STATUSES_def transition_ok_iff
      ALLOWED_STATUS_TRANSITIONS_def)

lemma next_local_intent_state_known:
  assumes "known_status s"
  shows "\<exists>t. next_local_intent_state cur s = Some t \<and>
     (t = s \<or> (s \<in> {''NEW'', ''PARTIAL''} \<and> strip_or_none cur = Some t))"
  using assms
  by (auto simp: known_status_def ALLOWED_STATUS_TRANSITIONS_def next_local_intent_state_def
      ORDER_INTENT_TERMINAL_STATES_def ORDER_INTENT_PENDING_STATES_def Let_def
      split: option.splits)

end
