(* ===== verification/Order_Store.thy ===== *)
theory Order_Store
  imports Order_Status Py_Value
begin

text \<open>
  The order tables of the runtime database and the operations of
  \<open>src/src/operation/oms.py\<close> on them. Columns and constraints follow the \<open>CREATE TABLE\<close>
  statements of \<open>src/src/operation/db_core.py\<close>; a table is the list of its rows in
  \<open>rowid\<close> order. SQLite stores a NaN as \<open>NULL\<close> (\<open>sql_real\<close>), which a
  \<open>NOT NULL\<close> column rejects; foreign keys are enforced
  (\<open>src/src/operation/sqlite_resilience.py\<close>). A rejected statement is
  \<open>IntegrityError\<close>.

  An operation that opens its own connection commits at the end and rolls back when it
  raises; given a connection it leaves that to the caller. Both cases are \<open>run_op\<close>
  over a \<open>conn\<close>: the durable store and the working copy of the connection.
  \<open>now\<close> is \<open>int(time.time() * 1000)\<close>. The settings \<open>PAIR\<close> and \<open>MODE\<close> are
  arguments of \<open>create_order\<close>.
\<close>

subsection \<open>Rows\<close>

record order_row =
  ord_probe_run_id :: "string option"
  ord_client_order_id :: string
  ord_submit_attempt_id :: "string option"
  ord_exchange_order_id :: "string option"
  ord_status :: string
  ord_side :: string
  ord_order_type :: "string option"
  ord_price :: "pyfloat option"
  ord_qty_req :: pyfloat
  ord_qty_filled :: pyfloat
  ord_pair :: string
  ord_strategy_name :: "string option"
  ord_strategy_instance_id :: "string option"
  ord_cycle_id :: "string option"
  ord_authority_hash :: "string option"
  ord_entry_decision_id :: "int option"
  ord_exit_decision_id :: "int option"
  ord_decision_reason :: "string option"
  ord_exit_rule_name :: "string option"
  ord_internal_lot_size :: "pyfloat option"
  ord_effective_min_trade_qty :: "pyfloat option"
  ord_qty_step :: "pyfloat option"
  ord_min_notional_krw :: "pyfloat option"
  ord_intended_lot_count :: "int option"
  ord_executable_lot_count :: "int option"
  ord_final_intended_qty :: "pyfloat option"
  ord_final_submitted_qty :: "pyfloat option"
  ord_decision_reason_code :: "string option"
  ord_intent_type :: "string option"
  ord_authority_source :: "string option"
  ord_entry_authority_source :: "string option"
  ord_entry_authority_status :: "string option"
  ord_decision_kst_hour :: "int option"
  ord_local_intent_state :: "string option"
  ord_created_ts :: int
  ord_updated_ts :: int
  ord_last_error :: "string option"

record order_event =
  ev_probe_run_id :: "string option"
  ev_client_order_id :: string
  ev_event_type :: string
  ev_event_ts :: int
  ev_order_status :: "string option"
  ev_exchange_order_id :: "string option"
  ev_fill_id :: "string option"
  ev_qty :: "pyfloat option"
  ev_price :: "pyfloat option"
  ev_message :: "string option"
  ev_symbol :: "string option"
  ev_side :: "string option"
  ev_order_type :: "string option"
  ev_submit_attempt_id :: "string option"
  ev_mode :: "string option"
  ev_intent_ts :: "int option"
  ev_submit_ts :: "int option"
  ev_payload_fingerprint :: "string option"
  ev_broker_response_summary :: "string option"
  ev_submission_reason_code :: "string option"
  ev_exception_class :: "string option"
  ev_timeout_flag :: "int option"
  ev_submit_phase :: "string option"
  ev_submit_plan_id :: "string option"
  ev_signed_request_id :: "string option"
  ev_submission_id :: "string option"
  ev_confirmation_id :: "string option"
  ev_submit_evidence :: "string option"
  ev_exchange_order_id_obtained :: "int option"
  ev_internal_lot_size :: "pyfloat option"
  ev_effective_min_trade_qty :: "pyfloat option"
  ev_qty_step :: "pyfloat option"
  ev_min_notional_krw :: "pyfloat option"
  ev_intended_lot_count :: "int option"
  ev_executable_lot_count :: "int option"
  ev_final_intended_qty :: "pyfloat option"
  ev_final_submitted_qty :: "pyfloat option"
  ev_decision_reason_code :: "string option"

record fill_row =
  fl_probe_run_id :: "string option"
  fl_client_order_id :: string
  fl_fill_id :: "string option"
  fl_fill_ts :: int
  fl_price :: pyfloat
  fl_qty :: pyfloat
  fl_fee :: pyfloat
  fl_fee_accounting_status :: string
  fl_observed_fee_status :: string
  fl_observed_fee_source :: string
  fl_observed_fee_confidence :: string
  fl_observed_fee_provenance :: "string option"
  fl_observed_fee_validation_reason :: "string option"
  fl_observed_fee_validation_checks :: "string option"
  fl_reference_price :: "pyfloat option"
  fl_slippage_bps :: "pyfloat option"
  fl_intended_lot_count :: "int option"
  fl_executable_lot_count :: "int option"
  fl_internal_lot_size :: "pyfloat option"

record dedup_row =
  dd_intent_key :: string
  dd_symbol :: string
  dd_side :: string
  dd_strategy_context :: string
  dd_intent_type :: string
  dd_intent_ts :: int
  dd_qty :: "pyfloat option"
  dd_intended_lot_count :: "int option"
  dd_executable_lot_count :: "int option"
  dd_client_order_id :: string
  dd_order_status :: string
  dd_created_ts :: int
  dd_updated_ts :: int
  dd_last_error :: "string option"

record suppression_row =
  sp_suppression_key :: string
  sp_event_kind :: string
  sp_mode :: string
  sp_strategy_context :: string
  sp_strategy_name :: string
  sp_signal :: string
  sp_side :: string
  sp_reason_code :: string
  sp_reason :: string
  sp_requested_qty :: "pyfloat option"
  sp_normalized_qty :: "pyfloat option"
  sp_market_price :: "pyfloat option"
  sp_decision_id :: "int option"
  sp_decision_reason :: "string option"
  sp_exit_rule_name :: "string option"
  sp_dust_present :: int
  sp_dust_allow_resume :: int
  sp_dust_effective_flat :: int
  sp_dust_state :: "string option"
  sp_dust_action :: "string option"
  sp_dust_signature :: "string option"
  sp_qty_below_min :: int
  sp_normalized_non_positive :: int
  sp_normalized_below_min :: int
  sp_notional_below_min :: int
  sp_summary :: "string option"
  sp_context_json :: string
  sp_event_ts :: int
  sp_created_ts :: int
  sp_updated_ts :: int
  sp_seen_count :: int

record order_store =
  orders :: "order_row list"
  order_events :: "order_event list"
  fills :: "fill_row list"
  order_intent_dedup :: "dedup_row list"
  order_suppressions :: "suppression_row list"

subsection \<open>Keyword arguments\<close>

text \<open>The keyword arguments of \<open>_record_order_event\<close>, \<open>create_order\<close>, \<open>add_fill\<close> and
  \<open>record_order_suppression\<close>.\<close>

record event_args =
  ea_probe_run_id :: "string option"
  ea_client_order_id :: string
  ea_event_type :: string
  ea_event_ts :: "int option"
  ea_order_status :: "string option"
  ea_exchange_order_id :: "string option"
  ea_fill_id :: "string option"
  ea_qty :: "pyfloat option"
  ea_price :: "pyfloat option"
  ea_message :: "string option"
  ea_symbol :: "string option"
  ea_side :: "string option"
  ea_order_type :: "string option"
  ea_submit_attempt_id :: "string option"
  ea_mode :: "string option"
  ea_intent_ts :: "int option"
  ea_submit_ts :: "int option"
  ea_payload_fingerprint :: "string option"
  ea_broker_response_summary :: "string option"
  ea_submission_reason_code :: "string option"
  ea_exception_class :: "string option"
  ea_timeout_flag :: "bool option"
  ea_submit_phase :: "string option"
  ea_submit_plan_id :: "string option"
  ea_signed_request_id :: "string option"
  ea_submission_id :: "string option"
  ea_confirmation_id :: "string option"
  ea_submit_evidence :: "string option"
  ea_exchange_order_id_obtained :: "bool option"
  ea_internal_lot_size :: "pyfloat option"
  ea_effective_min_trade_qty :: "pyfloat option"
  ea_qty_step :: "pyfloat option"
  ea_min_notional_krw :: "pyfloat option"
  ea_intended_lot_count :: "int option"
  ea_executable_lot_count :: "int option"
  ea_final_intended_qty :: "pyfloat option"
  ea_final_submitted_qty :: "pyfloat option"
  ea_decision_reason_code :: "string option"

record order_args =
  oa_client_order_id :: string
  oa_submit_attempt_id :: "string option"
  oa_symbol :: "string option"
  oa_mode :: "string option"
  oa_side :: string
  oa_qty_req :: pyfloat
  oa_price :: "pyfloat option"
  oa_strategy_name :: "string option"
  oa_strategy_instance_id :: "string option"
  oa_cycle_id :: "string option"
  oa_authority_hash :: "string option"
  oa_entry_decision_id :: "int option"
  oa_exit_decision_id :: "int option"
  oa_decision_reason :: "string option"
  oa_exit_rule_name :: "string option"
  oa_internal_lot_size :: "pyfloat option"
  oa_effective_min_trade_qty :: "pyfloat option"
  oa_qty_step :: "pyfloat option"
  oa_min_notional_krw :: "pyfloat option"
  oa_intended_lot_count :: "int option"
  oa_executable_lot_count :: "int option"
  oa_final_intended_qty :: "pyfloat option"
  oa_final_submitted_qty :: "pyfloat option"
  oa_decision_reason_code :: "string option"
  oa_intent_type :: "string option"
  oa_authority_source :: "string option"
  oa_entry_authority_source :: "string option"
  oa_entry_authority_status :: "string option"
  oa_decision_kst_hour :: "int option"
  oa_local_intent_state :: "string option"
  oa_order_type :: "string option"
  oa_status :: string
  oa_ts_ms :: "int option"
  oa_probe_run_id :: "string option"

record fill_args =
  fa_client_order_id :: string
  fa_fill_id :: "string option"
  fa_fill_ts :: int
  fa_price :: pyfloat
  fa_qty :: pyfloat
  fa_fee :: pyfloat
  fa_fee_accounting_status :: "string option"
  fa_observed_fee_status :: "string option"
  fa_observed_fee_source :: "string option"
  fa_observed_fee_confidence :: "string option"
  fa_observed_fee_provenance :: "string option"
  fa_observed_fee_validation_reason :: "string option"
  fa_observed_fee_validation_checks :: "pydict option"
  fa_probe_run_id :: "string option"

record suppression_args =
  sa_suppression_key :: string
  sa_event_kind :: string
  sa_mode :: string
  sa_strategy_context :: string
  sa_strategy_name :: string
  sa_signal :: string
  sa_side :: string
  sa_reason_code :: string
  sa_reason :: string
  sa_requested_qty :: "pyfloat option"
  sa_normalized_qty :: "pyfloat option"
  sa_market_price :: "pyfloat option"
  sa_decision_id :: "int option"
  sa_decision_reason :: "string option"
  sa_exit_rule_name :: "string option"
  sa_dust_present :: bool
  sa_dust_allow_resume :: bool
  sa_dust_effective_flat :: bool
  sa_dust_state :: "string option"
  sa_dust_action :: "string option"
  sa_dust_signature :: "string option"
  sa_qty_below_min :: bool
  sa_normalized_non_positive :: bool
  sa_normalized_below_min :: bool
  sa_notional_below_min :: bool
  sa_summary :: "string option"
  sa_context :: "pydict option"

text \<open>Every optional argument absent.\<close>

definition event_args0 :: "string \<Rightarrow> string \<Rightarrow> event_args" where
  "event_args0 cid etype = \<lparr>ea_probe_run_id = None,
     ea_client_order_id = cid,
     ea_event_type = etype,
     ea_event_ts = None,
     ea_order_status = None,
     ea_exchange_order_id = None,
     ea_fill_id = None,
     ea_qty = None,
     ea_price = None,
     ea_message = None,
     ea_symbol = None,
     ea_side = None,
     ea_order_type = None,
     ea_submit_attempt_id = None,
     ea_mode = None,
     ea_intent_ts = None,
     ea_submit_ts = None,
     ea_payload_fingerprint = None,
     ea_broker_response_summary = None,
     ea_submission_reason_code = None,
     ea_exception_class = None,
     ea_timeout_flag = None,
     ea_submit_phase = None,
     ea_submit_plan_id = None,
     ea_signed_request_id = None,
     ea_submission_id = None,
     ea_confirmation_id = None,
     ea_submit_evidence = None,
     ea_exchange_order_id_obtained = None,
     ea_internal_lot_size = None,
     ea_effective_min_trade_qty = None,
     ea_qty_step = None,
     ea_min_notional_krw = None,
     ea_intended_lot_count = None,
     ea_executable_lot_count = None,
     ea_final_intended_qty = None,
     ea_final_submitted_qty = None,
     ea_decision_reason_code = None\<rparr>"

subsection \<open>Events\<close>

definition sql_real :: "pyfloat option \<Rightarrow> pyfloat option" where
  "sql_real x = (if x = Some NaN then None else x)"

definition sql_bool :: "bool \<Rightarrow> int" where
  "sql_bool b = (if b then 1 else 0)"

definition find_order :: "string \<Rightarrow> order_store \<Rightarrow> order_row option" where
  "find_order cid st = find (\<lambda>r. ord_client_order_id r = cid) (orders st)"

definition event_probe_run_id :: "event_args \<Rightarrow> order_store \<Rightarrow> string option" where
  "event_probe_run_id a st =
     (case strip_or_none (ea_probe_run_id a) of
        Some p \<Rightarrow> Some p
      | None \<Rightarrow>
          (case find_order (ea_client_order_id a) st of
             None \<Rightarrow> None
           | Some row \<Rightarrow> strip_or_none (ord_probe_run_id row)))"

definition event_row :: "int \<Rightarrow> event_args \<Rightarrow> order_store \<Rightarrow> order_event" where
  "event_row now a st = \<lparr>ev_probe_run_id = event_probe_run_id a st,
     ev_client_order_id = ea_client_order_id a,
     ev_event_type = ea_event_type a,
     ev_event_ts = (case ea_event_ts a of Some t \<Rightarrow> t | None \<Rightarrow> now),
     ev_order_status = ea_order_status a,
     ev_exchange_order_id = ea_exchange_order_id a,
     ev_fill_id = ea_fill_id a,
     ev_qty = sql_real (ea_qty a),
     ev_price = sql_real (ea_price a),
     ev_message = clip 500 (ea_message a),
     ev_symbol = ea_symbol a,
     ev_side = ea_side a,
     ev_order_type = ea_order_type a,
     ev_submit_attempt_id = ea_submit_attempt_id a,
     ev_mode = ea_mode a,
     ev_intent_ts = ea_intent_ts a,
     ev_submit_ts = ea_submit_ts a,
     ev_payload_fingerprint = ea_payload_fingerprint a,
     ev_broker_response_summary = clip 500 (ea_broker_response_summary a),
     ev_submission_reason_code = ea_submission_reason_code a,
     ev_exception_class = ea_exception_class a,
     ev_timeout_flag = map_option sql_bool (ea_timeout_flag a),
     ev_submit_phase = ea_submit_phase a,
     ev_submit_plan_id = ea_submit_plan_id a,
     ev_signed_request_id = ea_signed_request_id a,
     ev_submission_id = ea_submission_id a,
     ev_confirmation_id = ea_confirmation_id a,
     ev_submit_evidence = ea_submit_evidence a,
     ev_exchange_order_id_obtained = map_option sql_bool (ea_exchange_order_id_obtained a),
     ev_internal_lot_size = sql_real (ea_internal_lot_size a),
     ev_effective_min_trade_qty = sql_real (ea_effective_min_trade_qty a),
     ev_qty_step = sql_real (ea_qty_step a),
     ev_min_notional_krw = sql_real (ea_min_notional_krw a),
     ev_intended_lot_count = ea_intended_lot_count a,
     ev_executable_lot_count = ea_executable_lot_count a,
     ev_final_intended_qty = sql_real (ea_final_intended_qty a),
     ev_final_submitted_qty = sql_real (ea_final_submitted_qty a),
     ev_decision_reason_code = ea_decision_reason_code a\<rparr>"

definition record_order_event :: "int \<Rightarrow> event_args \<Rightarrow> order_store \<Rightarrow> order_store py" where
  "record_order_event now a st =
     (if find_order (ea_client_order_id a) st = None then Inl IntegrityError
      else Inr (st\<lparr>order_events := order_events st @ [event_row now a st]\<rparr>))"

subsection \<open>Connections\<close>

record conn =
  durable :: order_store
  working :: order_store

definition commit :: "conn \<Rightarrow> conn" where
  "commit c = c\<lparr>durable := working c\<rparr>"

definition rollback :: "conn \<Rightarrow> conn" where
  "rollback c = c\<lparr>working := durable c\<rparr>"

text \<open>
  \<open>conn = conn or ensure_db()\<close> and the \<open>try\<close>/\<open>except\<close> that closes every operation
  with an optional connection: with its own connection the body starts from the durable
  store, a normal return commits and an exception rolls back.
\<close>

definition run_op :: "bool \<Rightarrow> (conn \<Rightarrow> conn \<times> 'a py) \<Rightarrow> conn \<Rightarrow> conn \<times> 'a py" where
  "run_op own_conn body c =
     (let c0 = (if own_conn then rollback c else c)
      in case body c0 of
           (c1, Inr v) \<Rightarrow> ((if own_conn then commit c1 else c1), Inr v)
         | (c1, Inl e) \<Rightarrow> ((if own_conn then rollback c1 else c1), Inl e))"

text \<open>
  A statement either changes the store or raises and leaves it as it is. In a sequence of
  statements an exception stops at the statement that raised: what the earlier statements
  wrote stays in the transaction.
\<close>

type_synonym stmt = "order_store \<Rightarrow> order_store \<times> unit py"

definition exec1 :: "(order_store \<Rightarrow> order_store py) \<Rightarrow> stmt" where
  "exec1 f st = (case f st of Inl e \<Rightarrow> (st, Inl e) | Inr st' \<Rightarrow> (st', Inr ()))"

definition then_stmt :: "stmt \<Rightarrow> stmt \<Rightarrow> stmt" where
  "then_stmt f g st = (case f st of (st', Inl e) \<Rightarrow> (st', Inl e) | (st', Inr _) \<Rightarrow> g st')"

text \<open>A body that only works on the store of its connection.\<close>

definition store_op :: "stmt \<Rightarrow> conn \<Rightarrow> conn \<times> unit py" where
  "store_op f c = (let (st, res) = f (working c) in (c\<lparr>working := st\<rparr>, res))"

subsection \<open>Creating an order\<close>

definition order_of_args :: "string \<Rightarrow> int \<Rightarrow> order_args \<Rightarrow> order_row" where
  "order_of_args PAIR ts a = \<lparr>ord_probe_run_id = strip_or_none (oa_probe_run_id a),
     ord_client_order_id = oa_client_order_id a,
     ord_submit_attempt_id = oa_submit_attempt_id a,
     ord_exchange_order_id = None,
     ord_status = oa_status a,
     ord_side = oa_side a,
     ord_order_type = oa_order_type a,
     ord_price = sql_real (oa_price a),
     ord_qty_req = oa_qty_req a,
     ord_qty_filled = Fin 0,
     ord_pair = or_str (oa_symbol a) PAIR,
     ord_strategy_name = oa_strategy_name a,
     ord_strategy_instance_id = oa_strategy_instance_id a,
     ord_cycle_id = oa_cycle_id a,
     ord_authority_hash = oa_authority_hash a,
     ord_entry_decision_id = oa_entry_decision_id a,
     ord_exit_decision_id = oa_exit_decision_id a,
     ord_decision_reason = oa_decision_reason a,
     ord_exit_rule_name = oa_exit_rule_name a,
     ord_internal_lot_size = sql_real (oa_internal_lot_size a),
     ord_effective_min_trade_qty = sql_real (oa_effective_min_trade_qty a),
     ord_qty_step = sql_real (oa_qty_step a),
     ord_min_notional_krw = sql_real (oa_min_notional_krw a),
     ord_intended_lot_count = oa_intended_lot_count a,
     ord_executable_lot_count = oa_executable_lot_count a,
     ord_final_intended_qty = sql_real (oa_final_intended_qty a),
     ord_final_submitted_qty = sql_real (oa_final_submitted_qty a),
     ord_decision_reason_code = oa_decision_reason_code a,
     ord_intent_type = oa_intent_type a,
     ord_authority_source = oa_authority_source a,
     ord_entry_authority_source = oa_entry_authority_source a,
     ord_entry_authority_status = oa_entry_authority_status a,
     ord_decision_kst_hour = oa_decision_kst_hour a,
     ord_local_intent_state = oa_local_intent_state a,
     ord_created_ts = ts,
     ord_updated_ts = ts,
     ord_last_error = None\<rparr>"

definition insert_order :: "order_row \<Rightarrow> order_store \<Rightarrow> order_store py" where
  "insert_order row st =
     (if find_order (ord_client_order_id row) st \<noteq> None \<or> ord_qty_req row = NaN
      then Inl IntegrityError
      else Inr (st\<lparr>orders := orders st @ [row]\<rparr>))"

definition create_order_store :: "string \<Rightarrow> string \<Rightarrow> int \<Rightarrow> order_args \<Rightarrow> stmt" where
  "create_order_store PAIR MODE now a =
     (let ts = (case oa_ts_ms a of Some t \<Rightarrow> t | None \<Rightarrow> now)
      in then_stmt (exec1 (insert_order (order_of_args PAIR ts a)))
           (exec1 (record_order_event now
             ((event_args0 (oa_client_order_id a) ''intent_created'')\<lparr>
               ea_event_ts := Some ts,
               ea_order_status := Some (oa_status a),
               ea_qty := Some (oa_qty_req a),
               ea_price := oa_price a,
               ea_symbol := Some (or_str (oa_symbol a) PAIR),
               ea_side := Some (oa_side a),
               ea_order_type := oa_order_type a,
               ea_submit_attempt_id := oa_submit_attempt_id a,
               ea_mode := Some (or_str (oa_mode a) MODE),
               ea_intent_ts := Some ts,
               ea_intended_lot_count := oa_intended_lot_count a,
               ea_executable_lot_count := oa_executable_lot_count a\<rparr>))))"

definition create_order ::
  "bool \<Rightarrow> string \<Rightarrow> string \<Rightarrow> int \<Rightarrow> order_args \<Rightarrow> conn \<Rightarrow> conn \<times> unit py" where
  "create_order own_conn PAIR MODE now a =
     run_op own_conn (store_op (create_order_store PAIR MODE now a))"

subsection \<open>Submission events\<close>

text \<open>
  \<open>record_submit_attempt\<close> forwards all its arguments to \<open>_record_order_event\<close>, with
  \<open>event_ts=submit_ts\<close>.
\<close>

definition record_submit_attempt :: "int \<Rightarrow> int \<Rightarrow> event_args \<Rightarrow> conn \<Rightarrow> conn \<times> unit py" where
  "record_submit_attempt now submit_ts a =
     store_op (exec1 (record_order_event now
       (a\<lparr>ea_event_ts := Some submit_ts, ea_submit_ts := Some submit_ts,
          ea_exchange_order_id := None, ea_fill_id := None, ea_mode := None,
          ea_intent_ts := None, ea_probe_run_id := None\<rparr>)))"

definition record_submit_started ::
  "bool \<Rightarrow> int \<Rightarrow> string \<Rightarrow> string option \<Rightarrow> string option \<Rightarrow> string option \<Rightarrow> pyfloat option \<Rightarrow>
   string option \<Rightarrow> string option \<Rightarrow> conn \<Rightarrow> conn \<times> unit py" where
  "record_submit_started own_conn now cid submit_attempt_id symbol side qty mode message =
     run_op own_conn (store_op (exec1 (record_order_event now
       ((event_args0 cid ''submit_started'')\<lparr>
         ea_event_ts := Some now,
         ea_order_status := Some ''PENDING_SUBMIT'',
         ea_symbol := symbol,
         ea_side := side,
         ea_submit_attempt_id := submit_attempt_id,
         ea_mode := mode,
         ea_qty := qty,
         ea_message := Some (or_str message ''submit intent staged before broker dispatch'')\<rparr>))))"

definition record_submit_blocked ::
  "bool \<Rightarrow> int \<Rightarrow> string \<Rightarrow> string \<Rightarrow> string \<Rightarrow> conn \<Rightarrow> conn \<times> unit py" where
  "record_submit_blocked own_conn now cid status reason =
     run_op own_conn (store_op (exec1 (record_order_event now
       ((event_args0 cid ''submit_blocked'')\<lparr>
         ea_event_ts := Some now, ea_order_status := Some status, ea_message := Some reason\<rparr>))))"

definition record_status_transition ::
  "bool \<Rightarrow> int \<Rightarrow> string \<Rightarrow> string \<Rightarrow> string \<Rightarrow> string \<Rightarrow> conn \<Rightarrow> conn \<times> unit py" where
  "record_status_transition own_conn now cid from_status to_status reason =
     run_op own_conn (store_op (exec1 (record_order_event now
       ((event_args0 cid ''status_transition'')\<lparr>
         ea_event_ts := Some now, ea_order_status := Some to_status,
         ea_message := Some (''from='' @ from_status @ '';to='' @ to_status @ '';reason='' @ reason)\<rparr>))))"

subsection \<open>Updating an order\<close>

definition update_orders :: "string \<Rightarrow> (order_row \<Rightarrow> order_row) \<Rightarrow> order_store \<Rightarrow> order_store" where
  "update_orders cid f st =
     st\<lparr>orders := map (\<lambda>r. if ord_client_order_id r = cid then f r else r) (orders st)\<rparr>"

definition set_exchange_order_id_store :: "int \<Rightarrow> string \<Rightarrow> string \<Rightarrow> stmt" where
  "set_exchange_order_id_store now cid exchange_order_id =
     then_stmt
       (exec1 (\<lambda>st. Inr (update_orders cid
         (\<lambda>r. r\<lparr>ord_exchange_order_id := Some exchange_order_id, ord_updated_ts := now\<rparr>) st)))
       (exec1 (record_order_event now
         ((event_args0 cid ''exchange_order_id_attached'')\<lparr>
           ea_event_ts := Some now, ea_exchange_order_id := Some exchange_order_id\<rparr>)))"

definition set_exchange_order_id ::
  "bool \<Rightarrow> int \<Rightarrow> string \<Rightarrow> string \<Rightarrow> conn \<Rightarrow> conn \<times> unit py" where
  "set_exchange_order_id own_conn now cid exchange_order_id =
     run_op own_conn (store_op (set_exchange_order_id_store now cid exchange_order_id))"

text \<open>
  The part of \<open>set_status\<close> after the transition was found to be allowed: the update of the
  order, the update or release of its deduplication rows, and the event.
\<close>

definition status_order_update ::
  "int \<Rightarrow> order_row \<Rightarrow> string \<Rightarrow> string \<Rightarrow> string option \<Rightarrow> order_store \<Rightarrow> order_store" where
  "status_order_update now current cid status last_error =
     (let next_state = next_local_intent_state (strip_or_none (ord_local_intent_state current)) status
      in update_orders cid
        (\<lambda>r. r\<lparr>ord_status := status, ord_local_intent_state := next_state,
           ord_updated_ts := now, ord_last_error := clip 500 last_error\<rparr>))"

definition status_dedup_update ::
  "int \<Rightarrow> string \<Rightarrow> string \<Rightarrow> string option \<Rightarrow> order_store \<Rightarrow> order_store" where
  "status_dedup_update now cid status last_error st =
     (if status \<in> set ORDER_INTENT_DEDUP_RELEASE_STATUSES
      then st\<lparr>order_intent_dedup :=
        filter (\<lambda>d. dd_client_order_id d \<noteq> cid) (order_intent_dedup st)\<rparr>
      else st\<lparr>order_intent_dedup :=
        map (\<lambda>d. if dd_client_order_id d = cid
          then d\<lparr>dd_order_status := status, dd_updated_ts := now,
            dd_last_error := clip 500 last_error\<rparr>
          else d) (order_intent_dedup st)\<rparr>)"

definition apply_status ::
  "int \<Rightarrow> order_row \<Rightarrow> string \<Rightarrow> string \<Rightarrow> string option \<Rightarrow> stmt" where
  "apply_status now current cid status last_error =
     then_stmt (exec1 (\<lambda>st. Inr (status_order_update now current cid status last_error st)))
      (then_stmt (exec1 (\<lambda>st. Inr (status_dedup_update now cid status last_error st)))
        (exec1 (record_order_event now
           ((event_args0 cid (if status = ''SUBMIT_UNKNOWN'' then ''submit_timeout'' else ''status_changed''))\<lparr>
             ea_event_ts := Some now, ea_order_status := Some status, ea_message := last_error\<rparr>))))"

text \<open>A blocked transition records an event, commits it on an own connection, and raises.\<close>

definition set_status_body ::
  "bool \<Rightarrow> int \<Rightarrow> string \<Rightarrow> string \<Rightarrow> string option \<Rightarrow> conn \<Rightarrow> conn \<times> unit py" where
  "set_status_body own_conn now cid status last_error c =
     (case find_order cid (working c) of
        None \<Rightarrow> (c, Inl (ValueError (''order not found: '' @ cid)))
      | Some current \<Rightarrow>
          (let from_status = ord_status current
           in case validate_status_transition from_status status of
                (False, reason) \<Rightarrow>
                  (case record_order_event now
                      ((event_args0 cid ''status_transition_blocked'')\<lparr>
                        ea_event_ts := Some now, ea_order_status := Some from_status,
                        ea_message := reason\<rparr>) (working c) of
                     Inl e \<Rightarrow> (c, Inl e)
                   | Inr st \<Rightarrow>
                       (let c1 = c\<lparr>working := st\<rparr>
                        in ((if own_conn then commit c1 else c1),
                            Inl (ValueError (or_str reason ''None'')))))
              | (True, _) \<Rightarrow> store_op (apply_status now current cid status last_error) c))"

definition set_status ::
  "bool \<Rightarrow> int \<Rightarrow> string \<Rightarrow> string \<Rightarrow> string option \<Rightarrow> conn \<Rightarrow> conn \<times> unit py" where
  "set_status own_conn now cid status last_error =
     run_op own_conn (set_status_body own_conn now cid status last_error)"

subsection \<open>Fills\<close>

definition compute_fill_slippage_bps :: "string \<Rightarrow> pyfloat \<Rightarrow> pyfloat \<Rightarrow> pyfloat option" where
  "compute_fill_slippage_bps side reference_price fill_price =
     (if \<not> isfinite reference_price \<or> fle reference_price (Fin 0) then None
      else if \<not> isfinite fill_price then None
      else if side = ''BUY'' then
        Some (fmul (fdiv (fsub fill_price reference_price) reference_price) (Fin 10000))
      else if side = ''SELL'' then
        Some (fmul (fdiv (fsub reference_price fill_price) reference_price) (Fin 10000))
      else None)"

text \<open>\<open>SELECT price ... WHERE event_type=? AND price IS NOT NULL ORDER BY event_ts DESC, id DESC
  LIMIT 1\<close>\<close>

definition latest_event_price :: "string \<Rightarrow> string \<Rightarrow> order_event list \<Rightarrow> pyfloat option" where
  "latest_event_price etype cid evs =
     map_option snd (fold (\<lambda>(t, p) best.
         case best of None \<Rightarrow> Some (t, p)
         | Some (t0, p0) \<Rightarrow> if t0 \<le> t then Some (t, p) else Some (t0, p0))
       (List.map_filter (\<lambda>e.
          if ev_client_order_id e = cid \<and> ev_event_type e = etype
          then map_option (\<lambda>p. (ev_event_ts e, p)) (ev_price e) else None) evs)
       None)"

text \<open>\<open>str(x).strip() if x else None\<close>\<close>

definition stripped :: "string option \<Rightarrow> string option" where
  "stripped x = (case x of None \<Rightarrow> None | Some s \<Rightarrow> if s = [] then None else Some (py_strip s))"

definition opt_repr :: "pyfloat option \<Rightarrow> string" where
  "opt_repr x = (case x of None \<Rightarrow> ''None'' | Some f \<Rightarrow> py_repr f)"

definition fill_reference_price :: "string \<Rightarrow> order_store \<Rightarrow> pyfloat option" where
  "fill_reference_price cid st =
     (case latest_event_price ''submit_attempt_recorded'' cid (order_events st) of
        Some p \<Rightarrow> Some p
      | None \<Rightarrow> latest_event_price ''submit_attempt_preflight'' cid (order_events st))"

definition fill_slippage :: "fill_args \<Rightarrow> order_store \<Rightarrow> pyfloat option" where
  "fill_slippage a st =
     (let side = (case find_order (fa_client_order_id a) st of None \<Rightarrow> [] | Some r \<Rightarrow> ord_side r)
      in case fill_reference_price (fa_client_order_id a) st of
           None \<Rightarrow> None
         | Some p \<Rightarrow> compute_fill_slippage_bps side p (fa_price a))"

definition fill_of_args :: "fill_args \<Rightarrow> order_store \<Rightarrow> fill_row" where
  "fill_of_args a st =
     (let order = find_order (fa_client_order_id a) st;
          reference_price = fill_reference_price (fa_client_order_id a) st;
          slippage_bps = fill_slippage a st
      in \<lparr>fl_probe_run_id = event_probe_run_id ((event_args0 (fa_client_order_id a) [])\<lparr>ea_probe_run_id := fa_probe_run_id a\<rparr>) st,
     fl_client_order_id = fa_client_order_id a,
     fl_fill_id = fa_fill_id a,
     fl_fill_ts = fa_fill_ts a,
     fl_price = fa_price a,
     fl_qty = fa_qty a,
     fl_fee = fa_fee a,
     fl_fee_accounting_status = or_str (fa_fee_accounting_status a) ''fee_finalized'',
     fl_observed_fee_status = or_str (fa_observed_fee_status a) ''complete'',
     fl_observed_fee_source = or_str (fa_observed_fee_source a) ''trade_level_fee'',
     fl_observed_fee_confidence = or_str (fa_observed_fee_confidence a) ''authoritative'',
     fl_observed_fee_provenance = stripped (fa_observed_fee_provenance a),
     fl_observed_fee_validation_reason = stripped (fa_observed_fee_validation_reason a),
     fl_observed_fee_validation_checks = map_option (\<lambda>d. json_dumps False '', '' '': '' (VDict d)) (fa_observed_fee_validation_checks a),
     fl_reference_price = sql_real reference_price,
     fl_slippage_bps = sql_real slippage_bps,
     fl_intended_lot_count = Option.bind order ord_intended_lot_count,
     fl_executable_lot_count = Option.bind order ord_executable_lot_count,
     fl_internal_lot_size = Option.bind order ord_internal_lot_size\<rparr>)"

definition insert_fill :: "fill_row \<Rightarrow> order_store \<Rightarrow> order_store py" where
  "insert_fill row st =
     (if find_order (fl_client_order_id row) st = None
         \<or> fl_price row = NaN \<or> fl_qty row = NaN \<or> fl_fee row = NaN
         \<or> (fl_fill_id row \<noteq> None \<and>
             (\<exists>f \<in> set (fills st). fl_client_order_id f = fl_client_order_id row \<and>
                fl_fill_id f = fl_fill_id row))
      then Inl IntegrityError
      else Inr (st\<lparr>fills := fills st @ [row]\<rparr>))"

text \<open>\<open>UPDATE orders SET qty_filled = qty_filled + ?\<close>; a NaN violates \<open>NOT NULL\<close>.\<close>

definition add_qty_filled :: "int \<Rightarrow> string \<Rightarrow> pyfloat \<Rightarrow> order_store \<Rightarrow> order_store py" where
  "add_qty_filled now cid qty st =
     (if \<exists>r \<in> set (orders st). ord_client_order_id r = cid \<and> fadd (ord_qty_filled r) qty = NaN
      then Inl IntegrityError
      else Inr (update_orders cid
        (\<lambda>r. r\<lparr>ord_qty_filled := fadd (ord_qty_filled r) qty, ord_updated_ts := now\<rparr>) st))"

definition fill_message :: "fill_args \<Rightarrow> order_store \<Rightarrow> string option" where
  "fill_message a st =
     (let reference_price = fill_reference_price (fa_client_order_id a) st;
          slippage_bps = fill_slippage a st
      in if ftruthy (fa_fee a) \<or> reference_price \<noteq> None \<or> slippage_bps \<noteq> None
         then Some (''fee='' @ py_repr (fa_fee a) @ '';reference_price='' @ opt_repr reference_price @
           '';slippage_bps='' @ opt_repr slippage_bps)
         else None)"

text \<open>The rows that the function reads before it writes are those of the store it starts from.\<close>

definition add_fill_store :: "int \<Rightarrow> fill_args \<Rightarrow> stmt" where
  "add_fill_store now a st =
     (let row = fill_of_args a st;
          message = fill_message a st
      in then_stmt (exec1 (insert_fill row))
          (then_stmt (exec1 (add_qty_filled now (fa_client_order_id a) (fa_qty a)))
            (exec1 (record_order_event now
             ((event_args0 (fa_client_order_id a) ''fill_applied'')\<lparr>
               ea_event_ts := Some now,
               ea_fill_id := fa_fill_id a,
               ea_qty := Some (fa_qty a),
               ea_price := Some (fa_price a),
               ea_intended_lot_count := fl_intended_lot_count row,
               ea_executable_lot_count := fl_executable_lot_count row,
               ea_internal_lot_size := fl_internal_lot_size row,
               ea_message := message\<rparr>)))) st)"

definition add_fill :: "bool \<Rightarrow> int \<Rightarrow> fill_args \<Rightarrow> conn \<Rightarrow> conn \<times> unit py" where
  "add_fill own_conn now a = run_op own_conn (store_op (add_fill_store now a))"

subsection \<open>Intent deduplication\<close>

definition claim_order_intent_dedup ::
  "int \<Rightarrow> string \<Rightarrow> string \<Rightarrow> string \<Rightarrow> string \<Rightarrow> string \<Rightarrow> string \<Rightarrow> int \<Rightarrow> pyfloat option \<Rightarrow>
   int option \<Rightarrow> int option \<Rightarrow> string \<Rightarrow> order_store \<Rightarrow> order_store \<times> bool \<times> dedup_row option" where
  "claim_order_intent_dedup now intent_key client_order_id symbol side strategy_context intent_type
     intent_ts qty intended_lot_count executable_lot_count order_status st =
     (case find (\<lambda>d. dd_intent_key d = intent_key) (order_intent_dedup st) of
        None \<Rightarrow>
          (st\<lparr>order_intent_dedup := order_intent_dedup st @
             [\<lparr>dd_intent_key = intent_key, dd_symbol = symbol, dd_side = side,
               dd_strategy_context = strategy_context, dd_intent_type = intent_type,
               dd_intent_ts = intent_ts, dd_qty = sql_real qty,
               dd_intended_lot_count = intended_lot_count,
               dd_executable_lot_count = executable_lot_count,
               dd_client_order_id = client_order_id, dd_order_status = order_status,
               dd_created_ts = now, dd_updated_ts = now, dd_last_error = None\<rparr>]\<rparr>,
           True, None)
      | Some row \<Rightarrow>
          (st\<lparr>order_intent_dedup :=
             map (\<lambda>d. if dd_intent_key d = intent_key then d\<lparr>dd_updated_ts := now\<rparr> else d)
               (order_intent_dedup st)\<rparr>,
           False, Some row))"

definition update_order_intent_dedup ::
  "int \<Rightarrow> string \<Rightarrow> string \<Rightarrow> string \<Rightarrow> string option \<Rightarrow> order_store \<Rightarrow> order_store" where
  "update_order_intent_dedup now intent_key client_order_id order_status last_error st =
     (if order_status \<in> set ORDER_INTENT_DEDUP_RELEASE_STATUSES
      then st\<lparr>order_intent_dedup :=
        filter (\<lambda>d. dd_intent_key d \<noteq> intent_key) (order_intent_dedup st)\<rparr>
      else st\<lparr>order_intent_dedup :=
        map (\<lambda>d. if dd_intent_key d = intent_key
          then d\<lparr>dd_client_order_id := client_order_id, dd_order_status := order_status,
            dd_updated_ts := now, dd_last_error := clip 500 last_error\<rparr>
          else d) (order_intent_dedup st)\<rparr>)"

subsection \<open>Repairing the status mirrors\<close>

record sync_report =
  repaired_terminal_local_intent :: int
  released_terminal_dedup :: int
  synced_active_dedup :: int

definition terminal_pending_intent :: "order_row \<Rightarrow> bool" where
  "terminal_pending_intent r \<longleftrightarrow>
     ord_status r \<in> {''FILLED'', ''FAILED'', ''CANCELED''} \<and> ord_local_intent_state r = Some ''PENDING_SUBMIT''"

text \<open>The order that a deduplication row joins with, and the two join conditions.\<close>

definition dedup_terminal :: "order_store \<Rightarrow> dedup_row \<Rightarrow> bool" where
  "dedup_terminal st d =
     (case find_order (dd_client_order_id d) st of None \<Rightarrow> False
      | Some r \<Rightarrow> ord_status r \<in> {''FILLED'', ''FAILED'', ''CANCELED''})"

definition dedup_mismatch :: "order_store \<Rightarrow> dedup_row \<Rightarrow> bool" where
  "dedup_mismatch st d =
     (case find_order (dd_client_order_id d) st of None \<Rightarrow> False
      | Some r \<Rightarrow> ord_status r \<notin> {''FILLED'', ''FAILED'', ''CANCELED''} \<and>
          dd_order_status d \<noteq> ord_status r)"

definition resync_dedup :: "int \<Rightarrow> order_store \<Rightarrow> dedup_row \<Rightarrow> dedup_row" where
  "resync_dedup now st d =
     (case find_order (dd_client_order_id d) st of None \<Rightarrow> d
      | Some r \<Rightarrow> d\<lparr>dd_order_status := ord_status r, dd_updated_ts := now,
          dd_last_error := ord_last_error r\<rparr>)"

definition synchronize_order_state_invariants ::
  "int \<Rightarrow> order_store \<Rightarrow> order_store \<times> sync_report" where
  "synchronize_order_state_invariants now st =
     (let repaired = length (filter terminal_pending_intent (orders st));
          st1 = (if repaired > 0
            then st\<lparr>orders := map (\<lambda>r. if terminal_pending_intent r
              then r\<lparr>ord_local_intent_state := Some (ord_status r)\<rparr> else r) (orders st)\<rparr>
            else st);
          released = length (filter (dedup_terminal st1) (order_intent_dedup st1));
          st2 = (if released > 0
            then st1\<lparr>order_intent_dedup :=
              filter (\<lambda>d. \<not> dedup_terminal st1 d) (order_intent_dedup st1)\<rparr>
            else st1);
          synced = length (filter (dedup_mismatch st2) (order_intent_dedup st2));
          st3 = (if synced > 0
            then st2\<lparr>order_intent_dedup :=
              map (\<lambda>d. if dedup_mismatch st2 d then resync_dedup now st2 d else d)
                (order_intent_dedup st2)\<rparr>
            else st2)
      in (st3, \<lparr>repaired_terminal_local_intent = int repaired,
                released_terminal_dedup = int released,
                synced_active_dedup = int synced\<rparr>))"

subsection \<open>The unresolved order gate\<close>

record risky_state =
  submit_unknown_count :: int
  accounting_pending_count :: int
  recovery_required_count :: int
  unresolved_open_order_count :: int
  oldest_unresolved_open_order_age_sec :: pyfloat
  stale_unresolved_open_order :: int
  submit_unknown_without_exchange_id_count :: int
  stray_remote_open_order_count :: int

definition count_orders :: "(order_row \<Rightarrow> bool) \<Rightarrow> order_store \<Rightarrow> int" where
  "count_orders p st = int (length (filter p (orders st)))"

text \<open>SQLite's \<open>TRIM\<close> removes blanks only; \<open>LIKE 'remote_%'\<close> ignores the case of ASCII
  letters and its underscore matches any one character.\<close>

definition sql_trim :: "string \<Rightarrow> string" where
  "sql_trim s = rev (dropWhile (\<lambda>c. c = CHR '' '') (rev (dropWhile (\<lambda>c. c = CHR '' '') s)))"

definition like_remote :: "string \<Rightarrow> bool" where
  "like_remote s \<longleftrightarrow> 7 \<le> length s \<and> py_lower (take 6 s) = ''remote''"

definition no_exchange_order_id :: "order_row \<Rightarrow> bool" where
  "no_exchange_order_id r =
     (case ord_exchange_order_id r of None \<Rightarrow> True | Some x \<Rightarrow> sql_trim x = [])"

definition oldest_created_ts :: "order_row list \<Rightarrow> int option" where
  "oldest_created_ts rs = (case map ord_created_ts rs of [] \<Rightarrow> None | t # ts \<Rightarrow> Some (fold min ts t))"

definition collect_risky_order_state :: "int \<Rightarrow> int \<Rightarrow> order_store \<Rightarrow> risky_state" where
  "collect_risky_order_state now_ms max_open_order_age_sec st =
     (let open_rows = filter (\<lambda>r. ord_status r \<in> set OPEN_ORDER_STATUSES) (orders st);
          open_count = int (length open_rows);
          age_sec = (case oldest_created_ts open_rows of
             None \<Rightarrow> Fin 0
           | Some t \<Rightarrow> fmax (Fin 0) (rnd (of_int (now_ms - t) / 1000)));
          max_age_sec = max 1 max_open_order_age_sec
      in \<lparr>submit_unknown_count = count_orders (\<lambda>r. ord_status r = ''SUBMIT_UNKNOWN'') st,
          accounting_pending_count = count_orders (\<lambda>r. ord_status r = ''ACCOUNTING_PENDING'') st,
          recovery_required_count = count_orders (\<lambda>r. ord_status r = ''RECOVERY_REQUIRED'') st,
          unresolved_open_order_count = open_count,
          oldest_unresolved_open_order_age_sec = age_sec,
          stale_unresolved_open_order =
            (if 0 < open_count \<and> flt (Fin (of_int max_age_sec)) age_sec then 1 else 0),
          submit_unknown_without_exchange_id_count =
            count_orders (\<lambda>r. ord_status r = ''SUBMIT_UNKNOWN'' \<and> no_exchange_order_id r) st,
          stray_remote_open_order_count =
            count_orders (\<lambda>r. like_remote (ord_client_order_id r) \<and>
              ord_status r \<in> {''PENDING_SUBMIT'', ''NEW'', ''PARTIAL'', ''SUBMIT_UNKNOWN'',
                ''ACCOUNTING_PENDING'', ''RECOVERY_REQUIRED''}) st\<rparr>)"

definition evaluate_unresolved_order_gate ::
  "int \<Rightarrow> int \<Rightarrow> order_store \<Rightarrow> bool \<times> string \<times> string" where
  "evaluate_unresolved_order_gate now_ms max_open_order_age_sec st =
     (let state = collect_risky_order_state now_ms max_open_order_age_sec st;
          age_sec = oldest_unresolved_open_order_age_sec state;
          max_age_sec = max 1 max_open_order_age_sec
      in if 0 < submit_unknown_count state
           then (True, ''SUBMIT_UNKNOWN_PRESENT'', ''submit-unknown unresolved order exists'')
         else if 0 < accounting_pending_count state
           then (True, ''ACCOUNTING_PENDING_PRESENT'', ''accounting-pending order exists'')
         else if 0 < recovery_required_count state
           then (True, ''RECOVERY_REQUIRED_PRESENT'', ''recovery-required order exists'')
         else if unresolved_open_order_count state \<le> 0 then (False, ''OK'', ''ok'')
         else if flt (Fin (of_int max_age_sec)) age_sec
           then (True, ''STALE_UNRESOLVED_OPEN_ORDER'',
             ''stale unresolved open order exists: age='' @ py_fixed False 1 age_sec @ ''s > '' @
             py_str_int max_age_sec @ ''s'')
         else (True, ''UNRESOLVED_OPEN_ORDER_PRESENT'', ''unresolved open order exists''))"

text \<open>The columns that \<open>get_open_orders\<close> selects.\<close>

record open_order =
  oo_client_order_id :: string
  oo_exchange_order_id :: "string option"
  oo_status :: string
  oo_side :: string
  oo_price :: "pyfloat option"
  oo_qty_req :: pyfloat
  oo_qty_filled :: pyfloat
  oo_created_ts :: int
  oo_updated_ts :: int

definition open_order_of :: "order_row \<Rightarrow> open_order" where
  "open_order_of r = \<lparr>oo_client_order_id = ord_client_order_id r,
     oo_exchange_order_id = ord_exchange_order_id r, oo_status = ord_status r,
     oo_side = ord_side r, oo_price = ord_price r, oo_qty_req = ord_qty_req r,
     oo_qty_filled = ord_qty_filled r, oo_created_ts = ord_created_ts r,
     oo_updated_ts = ord_updated_ts r\<rparr>"

definition get_open_orders :: "order_store \<Rightarrow> open_order list" where
  "get_open_orders st =
     map open_order_of (sort_key ord_created_ts
       (filter (\<lambda>r. ord_status r \<in> set OPEN_ORDER_STATUSES) (orders st)))"

subsection \<open>Suppressed orders\<close>

definition suppression_of_args :: "int \<Rightarrow> suppression_args \<Rightarrow> suppression_row" where
  "suppression_of_args ts a = \<lparr>sp_suppression_key = sa_suppression_key a,
     sp_event_kind = sa_event_kind a,
     sp_mode = sa_mode a,
     sp_strategy_context = sa_strategy_context a,
     sp_strategy_name = sa_strategy_name a,
     sp_signal = sa_signal a,
     sp_side = sa_side a,
     sp_reason_code = sa_reason_code a,
     sp_reason = take 500 (sa_reason a),
     sp_requested_qty = sql_real (sa_requested_qty a),
     sp_normalized_qty = sql_real (sa_normalized_qty a),
     sp_market_price = sql_real (sa_market_price a),
     sp_decision_id = sa_decision_id a,
     sp_decision_reason = clip 500 (sa_decision_reason a),
     sp_exit_rule_name = clip 500 (sa_exit_rule_name a),
     sp_dust_present = sql_bool (sa_dust_present a),
     sp_dust_allow_resume = sql_bool (sa_dust_allow_resume a),
     sp_dust_effective_flat = sql_bool (sa_dust_effective_flat a),
     sp_dust_state = sa_dust_state a,
     sp_dust_action = sa_dust_action a,
     sp_dust_signature = sa_dust_signature a,
     sp_qty_below_min = sql_bool (sa_qty_below_min a),
     sp_normalized_non_positive = sql_bool (sa_normalized_non_positive a),
     sp_normalized_below_min = sql_bool (sa_normalized_below_min a),
     sp_notional_below_min = sql_bool (sa_notional_below_min a),
     sp_summary = clip 1000 (sa_summary a),
     sp_context_json = json_compact False (VDict (case sa_context a of None \<Rightarrow> [] | Some d \<Rightarrow> d)),
     sp_event_ts = ts,
     sp_created_ts = ts,
     sp_updated_ts = ts,
     sp_seen_count = 1\<rparr>"

text \<open>The \<open>UPDATE\<close> overwrites every column but the key and \<open>created_ts\<close>, and counts.\<close>

definition record_order_suppression_store ::
  "int \<Rightarrow> suppression_args \<Rightarrow> order_store \<Rightarrow> order_store py" where
  "record_order_suppression_store now a st =
     (case find (\<lambda>r. sp_suppression_key r = sa_suppression_key a) (order_suppressions st) of
        None \<Rightarrow> Inr (st\<lparr>order_suppressions := order_suppressions st @ [suppression_of_args now a]\<rparr>)
      | Some _ \<Rightarrow> Inr (st\<lparr>order_suppressions :=
          map (\<lambda>r. if sp_suppression_key r = sa_suppression_key a
            then (suppression_of_args now a)\<lparr>sp_created_ts := sp_created_ts r,
              sp_seen_count := sp_seen_count r + 1\<rparr>
            else r) (order_suppressions st)\<rparr>))"

definition record_order_suppression ::
  "bool \<Rightarrow> int \<Rightarrow> suppression_args \<Rightarrow> conn \<Rightarrow> conn \<times> unit py" where
  "record_order_suppression own_conn now a =
     run_op own_conn (store_op (exec1 (record_order_suppression_store now a)))"

lemmas order_store_op_defs [oms_defs] =
  create_order_def record_submit_started_def record_submit_blocked_def record_status_transition_def
  set_exchange_order_id_def set_status_def add_fill_def record_order_suppression_def

subsection \<open>The tables as keyed tables\<close>

definition find_dedup :: "string \<Rightarrow> order_store \<Rightarrow> dedup_row option" where
  "find_dedup k st = find (\<lambda>d. dd_intent_key d = k) (order_intent_dedup st)"

definition find_suppression :: "string \<Rightarrow> order_store \<Rightarrow> suppression_row option" where
  "find_suppression k st = find (\<lambda>r. sp_suppression_key r = k) (order_suppressions st)"

interpretation order_table: keyed_table ord_client_order_id orders find_order
  by unfold_locales (simp add: find_order_def)

interpretation dedup_table: keyed_table dd_intent_key order_intent_dedup find_dedup
  by unfold_locales (simp add: find_dedup_def)

interpretation suppression_table: keyed_table sp_suppression_key order_suppressions find_suppression
  by unfold_locales (simp add: find_suppression_def)

end
