(* ===== verification/Order_Invariants.thy ===== *)
theory Order_Invariants
  imports Order_Store
begin

text \<open>
  The invariant of the order tables and its preservation. The abstract view of the store is
  event sourced: the status of every order is the one that a replay of the event log
  yields (\<open>log_ok\<close>), and the filled quantity of every order is the sum of its fills in
  the order they were booked (\<open>qty_ok\<close>). Every operation is a composition of a few
  primitive changes of the store; each of them has one preservation lemma.
\<close>

subsection \<open>The invariant\<close>

definition order_ids :: "order_store \<Rightarrow> string set" where
  "order_ids st = ord_client_order_id ` set (orders st)"

definition fill_keys :: "fill_row list \<Rightarrow> (string \<times> string) list" where
  "fill_keys fs = List.map_filter
     (\<lambda>f. map_option (\<lambda>i. (fl_client_order_id f, i)) (fl_fill_id f)) fs"

definition keys_ok :: "order_store \<Rightarrow> bool" where
  "keys_ok st \<longleftrightarrow> distinct (map ord_client_order_id (orders st)) \<and> distinct (fill_keys (fills st))"

definition aux_keys_ok :: "order_store \<Rightarrow> bool" where
  "aux_keys_ok st \<longleftrightarrow> distinct (map dd_intent_key (order_intent_dedup st)) \<and>
     distinct (map sp_suppression_key (order_suppressions st))"

definition refs_ok :: "order_store \<Rightarrow> bool" where
  "refs_ok st \<longleftrightarrow> ev_client_order_id ` set (order_events st) \<subseteq> order_ids st \<and>
     fl_client_order_id ` set (fills st) \<subseteq> order_ids st"

definition filled_total :: "string \<Rightarrow> fill_row list \<Rightarrow> pyfloat" where
  "filled_total cid fs =
     foldl fadd (Fin 0) (map fl_qty (filter (\<lambda>f. fl_client_order_id f = cid) fs))"

definition qty_ok :: "order_store \<Rightarrow> bool" where
  "qty_ok st \<longleftrightarrow> (\<forall>r \<in> set (orders st).
     ord_qty_filled r = filled_total (ord_client_order_id r) (fills st) \<and>
     filled_total (ord_client_order_id r) (fills st) \<noteq> NaN)"

definition status_event :: "string \<Rightarrow> bool" where
  "status_event t \<longleftrightarrow> t \<in> {''intent_created'', ''status_changed'', ''submit_timeout''}"

definition replay :: "order_event list \<Rightarrow> string \<Rightarrow> string option" where
  "replay evs cid = foldl (\<lambda>acc e.
     if ev_client_order_id e = cid \<and> status_event (ev_event_type e) then ev_order_status e else acc)
     None evs"

definition status_of :: "order_store \<Rightarrow> string \<Rightarrow> string option" where
  "status_of st cid = map_option ord_status (find_order cid st)"

definition log_ok :: "order_store \<Rightarrow> bool" where
  "log_ok st \<longleftrightarrow> status_of st = replay (order_events st)"

definition store_inv :: "order_store \<Rightarrow> bool" where
  "store_inv st \<longleftrightarrow> keys_ok st \<and> aux_keys_ok st \<and> refs_ok st \<and> qty_ok st \<and> log_ok st"

lemmas store_inv_defs = store_inv_def keys_ok_def aux_keys_ok_def refs_ok_def qty_ok_def log_ok_def

definition empty_store :: order_store where
  "empty_store = \<lparr>orders = [], order_events = [], fills = [], order_intent_dedup = [],
     order_suppressions = []\<rparr>"

lemma store_inv_empty: "store_inv empty_store"
  by (simp add: store_inv_defs empty_store_def fill_keys_def order_ids_def status_of_def
      find_order_def replay_def fun_eq_iff map_filter_def)

subsection \<open>Primitive changes\<close>

lemma replay_append:
  "replay (evs @ [e]) cid =
     (if ev_client_order_id e = cid \<and> status_event (ev_event_type e) then ev_order_status e
      else replay evs cid)"
  by (simp add: replay_def)

lemma find_order_None_iff: "find_order cid st = None \<longleftrightarrow> cid \<notin> order_ids st"
  by (simp add: order_table.lookup_None_iff order_ids_def)

lemma find_order_orders_append:
  "find_order cid (st\<lparr>orders := orders st @ [r]\<rparr>) =
     (case find_order cid st of Some x \<Rightarrow> Some x
      | None \<Rightarrow> if ord_client_order_id r = cid then Some r else None)"
proof -
  have "find P (xs @ [r]) = (case find P xs of Some x \<Rightarrow> Some x | None \<Rightarrow> if P r then Some r else None)"
    for P and xs :: "order_row list" by (induction xs) auto
  then show ?thesis by (simp add: find_order_def)
qed

lemma replay_status: "log_ok st \<Longrightarrow> replay (order_events st) cid = map_option ord_status (find_order cid st)"
  by (simp add: log_ok_def status_of_def fun_eq_iff)

lemma find_order_cong: "orders st = orders st' \<Longrightarrow> find_order cid st = find_order cid st'"
  by (simp add: find_order_def)

lemma update_orders_simps [simp]:
  "order_events (update_orders cid f st) = order_events st"
  "fills (update_orders cid f st) = fills st"
  "order_intent_dedup (update_orders cid f st) = order_intent_dedup st"
  "order_suppressions (update_orders cid f st) = order_suppressions st"
  by (simp_all add: update_orders_def)

lemma order_ids_update:
  assumes "\<And>r. ord_client_order_id (f r) = ord_client_order_id r"
  shows "order_ids (update_orders cid f st) = order_ids st"
    and "map ord_client_order_id (orders (update_orders cid f st)) = map ord_client_order_id (orders st)"
proof -
  show *: "map ord_client_order_id (orders (update_orders cid f st)) = map ord_client_order_id (orders st)"
    unfolding update_orders_def by (simp add: assms)
  then show "order_ids (update_orders cid f st) = order_ids st"
    by (metis order_ids_def set_map)
qed

lemma find_order_update:
  assumes "\<And>r. ord_client_order_id (f r) = ord_client_order_id r"
  shows "find_order cid' (update_orders cid f st) =
    (if cid' = cid then map_option f (find_order cid st) else find_order cid' st)"
proof -
  have "find (\<lambda>r. ord_client_order_id r = cid') (map (\<lambda>r. if ord_client_order_id r = cid then f r else r) rs) =
    (if cid' = cid then map_option f (find (\<lambda>r. ord_client_order_id r = cid) rs)
     else find (\<lambda>r. ord_client_order_id r = cid') rs)" for rs
    by (induction rs) (auto simp: assms)
  then show ?thesis by (simp add: find_order_def update_orders_def)
qed

text \<open>An event that is not a status event.\<close>

lemma store_inv_event:
  assumes "store_inv st" and "ev_client_order_id e \<in> order_ids st"
    and "\<not> status_event (ev_event_type e)"
  shows "store_inv (st\<lparr>order_events := order_events st @ [e]\<rparr>)"
  using assms
  by (simp add: store_inv_defs order_ids_def status_of_def find_order_def replay_append fun_eq_iff)

text \<open>A new order with its creation event.\<close>

lemma store_inv_new_order:
  assumes inv: "store_inv st" and new: "ord_client_order_id r \<notin> order_ids st"
    and qty: "ord_qty_filled r = Fin 0"
    and e: "ev_client_order_id e = ord_client_order_id r" "status_event (ev_event_type e)"
      "ev_order_status e = Some (ord_status r)"
  shows "store_inv (st\<lparr>orders := orders st @ [r], order_events := order_events st @ [e]\<rparr>)"
    (is "store_inv ?st")
proof -
  have none: "filter (\<lambda>f. fl_client_order_id f = ord_client_order_id r) (fills st) = []"
    using inv new by (auto simp: store_inv_defs filter_empty_conv)
  have "find_order cid ?st = find_order cid (st\<lparr>orders := orders st @ [r]\<rparr>)" for cid
    by (simp add: find_order_def)
  then have "status_of ?st cid = replay (order_events st @ [e]) cid" for cid
    using new find_order_None_iff [of cid st] replay_status [of st cid] inv
    by (auto simp: status_of_def find_order_orders_append replay_append e store_inv_def
        split: option.splits)
  then show ?thesis
    using inv new none qty
    by (auto simp: store_inv_defs order_ids_def filled_total_def e)
qed

text \<open>An update of one order that keeps its id, status and filled quantity.\<close>

lemma store_inv_update:
  assumes inv: "store_inv st"
    and f: "\<And>r. ord_client_order_id (f r) = ord_client_order_id r"
      "\<And>r. ord_status (f r) = ord_status r" "\<And>r. ord_qty_filled (f r) = ord_qty_filled r"
  shows "store_inv (update_orders cid f st)"
proof -
  have "status_of (update_orders cid f st) = status_of st"
    by (auto simp: status_of_def fun_eq_iff find_order_update [OF f(1)] f(2) option.map_comp o_def)
  moreover have "qty_ok (update_orders cid f st)"
    using inv by (auto simp: store_inv_defs update_orders_def f)
  ultimately show ?thesis
    using inv by (simp add: store_inv_def keys_ok_def aux_keys_ok_def refs_ok_def log_ok_def
        order_ids_update [OF f(1)])
qed

text \<open>A change of status with its event.\<close>

lemma store_inv_status:
  assumes inv: "store_inv st" and known: "cid \<in> order_ids st"
    and f: "\<And>r. ord_client_order_id (f r) = ord_client_order_id r"
      "\<And>r. ord_status (f r) = s" "\<And>r. ord_qty_filled (f r) = ord_qty_filled r"
    and e: "ev_client_order_id e = cid" "status_event (ev_event_type e)" "ev_order_status e = Some s"
  shows "store_inv ((update_orders cid f st)\<lparr>order_events := order_events st @ [e]\<rparr>)"
    (is "store_inv ?st")
proof -
  have same: "orders ?st = orders (update_orders cid f st)" by simp
  have "status_of ?st cid' = replay (order_events st @ [e]) cid'" for cid'
    using known find_order_None_iff [of cid st] replay_status [of st cid'] inv
    by (auto simp: status_of_def find_order_cong [OF same] find_order_update [OF f(1)] replay_append
        e f(2) store_inv_def)
  moreover have "qty_ok ?st"
    using inv by (auto simp: store_inv_defs update_orders_def f)
  ultimately show ?thesis
    using inv known
    by (simp add: store_inv_def keys_ok_def aux_keys_ok_def refs_ok_def log_ok_def fun_eq_iff
        order_ids_def order_ids_update [OF f(1), unfolded order_ids_def] e(1))
qed

text \<open>A booked fill: the row, the sum of the order, and the event.\<close>

lemma fill_keys_append:
  "fill_keys (fs @ [f]) = fill_keys fs @ (case fl_fill_id f of None \<Rightarrow> [] | Some i \<Rightarrow> [(fl_client_order_id f, i)])"
  by (auto simp: fill_keys_def List.map_filter_def split: option.splits)

lemma fill_keys_set:
  "(c, i) \<in> set (fill_keys fs) \<longleftrightarrow> (\<exists>f \<in> set fs. fl_client_order_id f = c \<and> fl_fill_id f = Some i)"
  by (force simp: fill_keys_def List.map_filter_def)

lemma filled_total_append:
  "filled_total cid (fs @ [f]) =
     (if fl_client_order_id f = cid then fadd (filled_total cid fs) (fl_qty f) else filled_total cid fs)"
  by (simp add: filled_total_def)

lemma store_inv_fill:
  assumes inv: "store_inv st" and known: "fl_client_order_id w \<in> order_ids st"
    and uniq: "\<forall>f \<in> set (fills st). fl_client_order_id f = fl_client_order_id w \<longrightarrow>
      fl_fill_id w \<noteq> None \<longrightarrow> fl_fill_id f \<noteq> fl_fill_id w"
    and sum: "\<forall>r \<in> set (orders st). ord_client_order_id r = fl_client_order_id w \<longrightarrow>
      fadd (ord_qty_filled r) (fl_qty w) \<noteq> NaN"
    and f: "\<And>r. ord_client_order_id (f r) = ord_client_order_id r"
      "\<And>r. ord_status (f r) = ord_status r"
      "\<And>r. ord_qty_filled (f r) = fadd (ord_qty_filled r) (fl_qty w)"
    and e: "ev_client_order_id e = fl_client_order_id w" "\<not> status_event (ev_event_type e)"
  shows "store_inv ((update_orders (fl_client_order_id w) f (st\<lparr>fills := fills st @ [w]\<rparr>))
    \<lparr>order_events := order_events st @ [e]\<rparr>)" (is "store_inv ?st")
proof -
  have same: "orders ?st = orders (update_orders (fl_client_order_id w) f st)"
    by (simp add: update_orders_def)
  have "status_of ?st cid = replay (order_events st @ [e]) cid" for cid
    using replay_status [of st cid] inv
    by (auto simp: status_of_def find_order_cong [OF same] find_order_update [OF f(1)] replay_append
        e f(2) store_inv_def option.map_comp o_def)
  moreover have "qty_ok ?st"
    using inv sum by (auto simp: store_inv_defs update_orders_def f filled_total_append)
  moreover have "distinct (fill_keys (fills st @ [w]))"
    using inv uniq by (auto simp: store_inv_defs fill_keys_append fill_keys_set split: option.splits)
  ultimately show ?thesis
    using inv known
    by (simp add: store_inv_def keys_ok_def aux_keys_ok_def refs_ok_def log_ok_def fun_eq_iff
        order_ids_def same order_ids_update [OF f(1), unfolded order_ids_def] e(1))
qed

text \<open>Changes of the deduplication and suppression tables that keep their keys unique.\<close>

lemma store_inv_aux:
  assumes "store_inv st"
    and "distinct (map dd_intent_key ds)" and "distinct (map sp_suppression_key ss)"
  shows "store_inv (st\<lparr>order_intent_dedup := ds, order_suppressions := ss\<rparr>)"
  using assms by (simp add: store_inv_defs order_ids_def status_of_def find_order_def fun_eq_iff)

lemma store_inv_dedup:
  assumes "store_inv st" and "distinct (map dd_intent_key ds)"
  shows "store_inv (st\<lparr>order_intent_dedup := ds\<rparr>)"
  using store_inv_aux [OF assms, of "order_suppressions st"] assms(1)
  by (simp add: store_inv_def aux_keys_ok_def)

lemma store_inv_suppression:
  assumes "store_inv st" and "distinct (map sp_suppression_key ss)"
  shows "store_inv (st\<lparr>order_suppressions := ss\<rparr>)"
  using store_inv_aux [OF assms(1) _ assms(2), of "order_intent_dedup st"] assms(1)
  by (simp add: store_inv_def aux_keys_ok_def)

lemma distinct_map_filter_key: "distinct (map k xs) \<Longrightarrow> distinct (map k (filter P xs))"
  by (induction xs) auto

subsection \<open>Every statement sequence keeps the invariant\<close>

lemma exec1_Inr [simp]: "exec1 (\<lambda>st. Inr (f st)) st = (f st, Inr ())"
  by (simp add: exec1_def)

lemma then_stmt_Inr: "f st = (st', Inr u) \<Longrightarrow> then_stmt f g st = g st'"
  by (simp add: then_stmt_def)

lemma exec1_event:
  "exec1 (record_order_event now a) st =
     (if ea_client_order_id a \<in> order_ids st
      then (st\<lparr>order_events := order_events st @ [event_row now a st]\<rparr>, Inr ())
      else (st, Inl IntegrityError))"
  by (simp add: exec1_def record_order_event_def find_order_None_iff)

lemma event_row_simps [simp]:
  "ev_client_order_id (event_row now a st) = ea_client_order_id a"
  "ev_event_type (event_row now a st) = ea_event_type a"
  "ev_order_status (event_row now a st) = ea_order_status a"
  "ev_price (event_row now a st) = sql_real (ea_price a)"
  by (simp_all add: event_row_def)

lemma event_args0_simps [simp]:
  "ea_client_order_id (event_args0 c t) = c" "ea_event_type (event_args0 c t) = t"
  by (simp_all add: event_args0_def)

lemma record_order_event_inv:
  assumes "store_inv st" and "\<not> status_event (ea_event_type a)"
  shows "store_inv (fst (exec1 (record_order_event now a) st))"
  using assms store_inv_event by (simp add: exec1_event)

lemma exec1_insert_order:
  "exec1 (insert_order row) st =
     (if ord_client_order_id row \<in> order_ids st \<or> ord_qty_req row = NaN then (st, Inl IntegrityError)
      else (st\<lparr>orders := orders st @ [row]\<rparr>, Inr ()))"
  by (simp add: exec1_def insert_order_def find_order_None_iff)

lemma create_order_store_eq:
  "create_order_store PAIR MODE now a st =
     (let row = order_of_args PAIR (case oa_ts_ms a of Some t \<Rightarrow> t | None \<Rightarrow> now) a
      in if oa_client_order_id a \<in> order_ids st \<or> oa_qty_req a = NaN then (st, Inl IntegrityError)
         else (let st1 = st\<lparr>orders := orders st @ [row]\<rparr>
           in (st1\<lparr>order_events := order_events st @
             [event_row now ((event_args0 (oa_client_order_id a) ''intent_created'')\<lparr>
               ea_event_ts := Some (ord_created_ts row), ea_order_status := Some (oa_status a),
               ea_qty := Some (oa_qty_req a), ea_price := oa_price a,
               ea_symbol := Some (or_str (oa_symbol a) PAIR), ea_side := Some (oa_side a),
               ea_order_type := oa_order_type a, ea_submit_attempt_id := oa_submit_attempt_id a,
               ea_mode := Some (or_str (oa_mode a) MODE), ea_intent_ts := Some (ord_created_ts row),
               ea_intended_lot_count := oa_intended_lot_count a,
               ea_executable_lot_count := oa_executable_lot_count a\<rparr>) st1]\<rparr>, Inr ())))"
proof -
  have row: "ord_client_order_id (order_of_args PAIR ts a) = oa_client_order_id a"
    "ord_qty_req (order_of_args PAIR ts a) = oa_qty_req a"
    "ord_created_ts (order_of_args PAIR ts a) = ts" for ts
    by (simp_all add: order_of_args_def)
  have ids: "oa_client_order_id a \<in> order_ids (st\<lparr>orders := orders st @ [order_of_args PAIR ts a]\<rparr>)" for ts
    by (simp add: order_ids_def row)
  show ?thesis
    by (simp add: create_order_store_def then_stmt_def exec1_event exec1_insert_order Let_def ids row)
qed

lemma create_order_store_inv:
  assumes "store_inv st"
  shows "store_inv (fst (create_order_store PAIR MODE now a st))"
  using assms
  by (auto simp: create_order_store_eq Let_def order_of_args_def status_event_def
      intro!: store_inv_new_order)

lemma set_exchange_order_id_store_inv:
  assumes "store_inv st"
  shows "store_inv (fst (set_exchange_order_id_store now cid x st))"
proof -
  let ?st = "update_orders cid (\<lambda>r. r\<lparr>ord_exchange_order_id := Some x, ord_updated_ts := now\<rparr>) st"
  have "store_inv ?st" using assms by (rule store_inv_update) simp_all
  then show ?thesis
    using record_order_event_inv
    by (simp add: set_exchange_order_id_store_def then_stmt_def status_event_def)
qed

lemma status_updates_swap:
  "(status_dedup_update now cid s err (update_orders cid f st))\<lparr>order_events := evs\<rparr> =
     (update_orders cid f st)\<lparr>order_events := evs,
        order_intent_dedup := order_intent_dedup (status_dedup_update now cid s err st)\<rparr>"
  by (simp add: status_dedup_update_def update_orders_def)

lemma status_dedup_update_simps [simp]:
  "orders (status_dedup_update now cid s err st) = orders st"
  "order_events (status_dedup_update now cid s err st) = order_events st"
  "fills (status_dedup_update now cid s err st) = fills st"
  "order_suppressions (status_dedup_update now cid s err st) = order_suppressions st"
  by (simp_all add: status_dedup_update_def)

lemma status_dedup_update_keys:
  "distinct (map dd_intent_key (order_intent_dedup st)) \<Longrightarrow>
   distinct (map dd_intent_key (order_intent_dedup (status_dedup_update now cid s err st)))"
  unfolding status_dedup_update_def
  by (auto simp: distinct_map_filter_key o_def if_distrib cong: if_cong)

lemma status_order_update_simps [simp]:
  "order_events (status_order_update now cur cid s err st) = order_events st"
  "fills (status_order_update now cur cid s err st) = fills st"
  "order_intent_dedup (status_order_update now cur cid s err st) = order_intent_dedup st"
  "order_ids (status_order_update now cur cid s err st) = order_ids st"
  by (simp_all add: status_order_update_def Let_def order_ids_update)

abbreviation status_change_args :: "int \<Rightarrow> string \<Rightarrow> string \<Rightarrow> string option \<Rightarrow> event_args" where
  "status_change_args now cid s err \<equiv>
     (event_args0 cid (if s = ''SUBMIT_UNKNOWN'' then ''submit_timeout'' else ''status_changed''))\<lparr>
       ea_event_ts := Some now, ea_order_status := Some s, ea_message := err\<rparr>"

lemma apply_status_eq:
  assumes "cid \<in> order_ids st"
  shows "apply_status now cur cid s err st =
    (let st1 = status_order_update now cur cid s err st
     in (st1\<lparr>order_events := order_events st @ [event_row now (status_change_args now cid s err)
            (status_dedup_update now cid s err st1)],
          order_intent_dedup := order_intent_dedup (status_dedup_update now cid s err st)\<rparr>, Inr ()))"
proof -
  let ?st2 = "status_dedup_update now cid s err (status_order_update now cur cid s err st)"
  have "order_ids ?st2 = order_ids st"
    unfolding order_ids_def
    by (metis order_ids_def status_dedup_update_simps(1) status_order_update_simps(4))
  then have "apply_status now cur cid s err st =
      (?st2\<lparr>order_events := order_events st @ [event_row now (status_change_args now cid s err) ?st2]\<rparr>, Inr ())"
    using assms by (simp add: apply_status_def then_stmt_def exec1_event)
  then show ?thesis
    by (simp add: status_order_update_def Let_def status_updates_swap)
qed

lemma apply_status_inv:
  assumes inv: "store_inv st" and known: "cid \<in> order_ids st"
  shows "store_inv (fst (apply_status now cur cid s err st))"
proof -
  let ?st2 = "status_dedup_update now cid s err (status_order_update now cur cid s err st)"
  let ?e = "event_row now (status_change_args now cid s err) ?st2"
  have "store_inv ((status_order_update now cur cid s err st)\<lparr>order_events := order_events st @ [?e]\<rparr>)"
    unfolding status_order_update_def Let_def using inv known
    by (rule store_inv_status) (simp_all add: status_event_def)
  then have "store_inv ((status_order_update now cur cid s err st)\<lparr>order_events := order_events st @ [?e],
      order_intent_dedup := order_intent_dedup (status_dedup_update now cid s err st)\<rparr>)"
    using inv by (intro store_inv_dedup) (auto simp: store_inv_def aux_keys_ok_def intro: status_dedup_update_keys)
  then show ?thesis
    by (simp add: apply_status_eq [OF known] Let_def)
qed

subsection \<open>Fills\<close>

definition fill_rejected :: "fill_args \<Rightarrow> order_store \<Rightarrow> bool" where
  "fill_rejected a st \<longleftrightarrow> fa_client_order_id a \<notin> order_ids st \<or>
     fa_price a = NaN \<or> fa_qty a = NaN \<or> fa_fee a = NaN \<or>
     (fa_fill_id a \<noteq> None \<and> (\<exists>f \<in> set (fills st). fl_client_order_id f = fa_client_order_id a \<and>
        fl_fill_id f = fa_fill_id a))"

definition sum_rejected :: "fill_args \<Rightarrow> order_store \<Rightarrow> bool" where
  "sum_rejected a st \<longleftrightarrow> (\<exists>r \<in> set (orders st).
     ord_client_order_id r = fa_client_order_id a \<and> fadd (ord_qty_filled r) (fa_qty a) = NaN)"

abbreviation fill_sum :: "int \<Rightarrow> fill_args \<Rightarrow> order_store \<Rightarrow> order_store" where
  "fill_sum now a \<equiv> update_orders (fa_client_order_id a)
     (\<lambda>r. r\<lparr>ord_qty_filled := fadd (ord_qty_filled r) (fa_qty a), ord_updated_ts := now\<rparr>)"

lemma fill_of_args_simps [simp]:
  "fl_client_order_id (fill_of_args a st) = fa_client_order_id a"
  "fl_fill_id (fill_of_args a st) = fa_fill_id a"
  "fl_price (fill_of_args a st) = fa_price a"
  "fl_qty (fill_of_args a st) = fa_qty a"
  "fl_fee (fill_of_args a st) = fa_fee a"
  by (simp_all add: fill_of_args_def Let_def)

lemma add_fill_store_cases:
  obtains
    (rejected) "fill_rejected a st" "add_fill_store now a st = (st, Inl IntegrityError)"
  | (sum) "\<not> fill_rejected a st" "sum_rejected a st"
      "add_fill_store now a st = (st\<lparr>fills := fills st @ [fill_of_args a st]\<rparr>, Inl IntegrityError)"
  | (booked) e where "\<not> fill_rejected a st" "\<not> sum_rejected a st"
      "add_fill_store now a st =
        ((fill_sum now a (st\<lparr>fills := fills st @ [fill_of_args a st]\<rparr>))
          \<lparr>order_events := order_events st @ [e]\<rparr>, Inr ())"
      "ev_client_order_id e = fa_client_order_id a" "ev_event_type e = ''fill_applied''"
      "ev_fill_id e = fa_fill_id a" "ev_qty e = Some (fa_qty a)"
proof -
  let ?w = "fill_of_args a st"
  let ?st1 = "st\<lparr>fills := fills st @ [?w]\<rparr>"
  have ins: "exec1 (insert_fill ?w) st =
      (if fill_rejected a st then (st, Inl IntegrityError) else (?st1, Inr ()))"
    by (simp add: exec1_def insert_fill_def fill_rejected_def find_order_None_iff)
  have sum: "exec1 (add_qty_filled now (fa_client_order_id a) (fa_qty a)) ?st1 =
      (if sum_rejected a st then (?st1, Inl IntegrityError) else (fill_sum now a ?st1, Inr ()))"
    by (simp add: exec1_def add_qty_filled_def sum_rejected_def)
  have ids: "fa_client_order_id a \<in> order_ids (fill_sum now a ?st1) \<longleftrightarrow> fa_client_order_id a \<in> order_ids st"
    by (simp add: order_ids_update) (simp add: order_ids_def)
  show thesis
  proof (cases "fill_rejected a st \<or> sum_rejected a st")
    case True
    then show ?thesis
      using rejected sum(1) that by (auto simp: add_fill_store_def Let_def then_stmt_def ins sum)
  next
    case False
    then have "fa_client_order_id a \<in> order_ids st" and "fa_qty a \<noteq> NaN" by (auto simp: fill_rejected_def)
    with False show ?thesis
      by (intro booked) (auto simp: add_fill_store_def Let_def then_stmt_def ins sum exec1_event ids
          event_row_def sql_real_def)
  qed
qed

lemma fadd_Fin_NaN: "fadd x (Fin q) = NaN \<longleftrightarrow> x = NaN"
  by (cases x) simp_all

lemma finite_fill_sum:
  assumes "qty_ok st" and "isfinite (fa_qty a)"
  shows "\<not> sum_rejected a st"
proof -
  from assms(2) obtain q where q: "fa_qty a = Fin q" by (cases "fa_qty a") auto
  then show ?thesis
    using assms(1) by (auto simp: sum_rejected_def qty_ok_def fadd_Fin_NaN)
qed

lemma add_fill_store_inv:
  assumes inv: "store_inv st"
    and ok: "isfinite (fa_qty a) \<or> snd (add_fill_store now a st) = Inr ()"
  shows "store_inv (fst (add_fill_store now a st))"
proof (cases rule: add_fill_store_cases [of a st now])
  case rejected
  then show ?thesis using inv by simp
next
  case sum
  then show ?thesis
    using ok finite_fill_sum [of st a] inv by (simp add: store_inv_def)
next
  case (booked e)
  have "store_inv ((fill_sum now a (st\<lparr>fills := fills st @ [fill_of_args a st]\<rparr>))
      \<lparr>order_events := order_events st @ [e]\<rparr>)"
    using inv booked(1,2,4,5)
      store_inv_fill [of st "fill_of_args a st"
        "\<lambda>r. r\<lparr>ord_qty_filled := fadd (ord_qty_filled r) (fa_qty a), ord_updated_ts := now\<rparr>" e]
    by (auto simp: fill_rejected_def sum_rejected_def status_event_def)
  then show ?thesis by (simp add: booked(3))
qed

subsection \<open>Deduplication, suppression and repair\<close>

lemma record_order_suppression_inv:
  assumes "store_inv st"
  shows "store_inv (fst (exec1 (record_order_suppression_store now a) st))"
proof -
  have key: "sp_suppression_key (suppression_of_args now a) = sa_suppression_key a"
    by (simp add: suppression_of_args_def)
  have dist: "distinct (map sp_suppression_key (order_suppressions st))"
    using assms by (simp add: store_inv_def aux_keys_ok_def)
  have same: "map sp_suppression_key (map (\<lambda>r. if sp_suppression_key r = sa_suppression_key a
      then (suppression_of_args now a)\<lparr>sp_created_ts := sp_created_ts r, sp_seen_count := sp_seen_count r + 1\<rparr>
      else r) rs) = map sp_suppression_key rs" for rs
    by (induction rs) (auto simp: key)
  show ?thesis
  proof (cases "find_suppression (sa_suppression_key a) st")
    case None
    then have "sa_suppression_key a \<notin> sp_suppression_key ` set (order_suppressions st)"
      by (simp add: suppression_table.lookup_None_iff)
    with None dist show ?thesis
      using store_inv_suppression [OF assms]
      by (simp add: exec1_def record_order_suppression_store_def find_suppression_def key)
  next
    case (Some r)
    from dist have "distinct (map sp_suppression_key (map (\<lambda>r. if sp_suppression_key r = sa_suppression_key a
        then (suppression_of_args now a)\<lparr>sp_created_ts := sp_created_ts r, sp_seen_count := sp_seen_count r + 1\<rparr>
        else r) (order_suppressions st)))" by (simp only: same)
    from store_inv_suppression [OF assms this] Some show ?thesis
      by (simp add: exec1_def record_order_suppression_store_def find_suppression_def)
  qed
qed

lemma claim_inv:
  assumes "store_inv st"
  shows "store_inv (fst (claim_order_intent_dedup now k cid sbl side ctx ty ts q il el s st))"
proof -
  have dist: "distinct (map dd_intent_key (order_intent_dedup st))"
    using assms by (simp add: store_inv_def aux_keys_ok_def)
  show ?thesis
  proof (cases "find_dedup k st")
    case None
    then have "k \<notin> dd_intent_key ` set (order_intent_dedup st)"
      by (simp add: dedup_table.lookup_None_iff)
    with None dist show ?thesis
      using store_inv_dedup [OF assms] by (simp add: claim_order_intent_dedup_def find_dedup_def)
  next
    case (Some d)
    have "distinct (map dd_intent_key (map (\<lambda>d. if dd_intent_key d = k then d\<lparr>dd_updated_ts := now\<rparr> else d)
        (order_intent_dedup st)))"
      using dist by (subst map_if_key) simp_all
    from store_inv_dedup [OF assms this] Some show ?thesis
      by (simp add: claim_order_intent_dedup_def find_dedup_def)
  qed
qed

lemma update_order_intent_dedup_inv:
  assumes "store_inv st"
  shows "store_inv (update_order_intent_dedup now k cid s err st)"
proof -
  have dist: "distinct (map dd_intent_key (order_intent_dedup st))"
    using assms by (simp add: store_inv_def aux_keys_ok_def)
  then have "distinct (map dd_intent_key (map (\<lambda>d. if dd_intent_key d = k
      then d\<lparr>dd_client_order_id := cid, dd_order_status := s, dd_updated_ts := now,
        dd_last_error := clip 500 err\<rparr> else d) (order_intent_dedup st)))"
    by (subst map_if_key) simp_all
  then show ?thesis
    using store_inv_dedup [OF assms] distinct_map_filter_key [OF dist]
    by (simp add: update_order_intent_dedup_def)
qed

lemma resync_dedup_key [simp]: "dd_intent_key (resync_dedup now st d) = dd_intent_key d"
  by (simp add: resync_dedup_def split: option.splits)

text \<open>The repair in three passes; a pass without rows to change leaves the store as it is.\<close>

definition repair_intents :: "order_store \<Rightarrow> order_store" where
  "repair_intents st = st\<lparr>orders := map (\<lambda>r. if terminal_pending_intent r
     then r\<lparr>ord_local_intent_state := Some (ord_status r)\<rparr> else r) (orders st)\<rparr>"

definition release_dedup :: "order_store \<Rightarrow> order_store" where
  "release_dedup st = st\<lparr>order_intent_dedup :=
     filter (\<lambda>d. \<not> dedup_terminal st d) (order_intent_dedup st)\<rparr>"

definition mirror_dedup :: "int \<Rightarrow> order_store \<Rightarrow> order_store" where
  "mirror_dedup now st = st\<lparr>order_intent_dedup :=
     map (\<lambda>d. if dedup_mismatch st d then resync_dedup now st d else d) (order_intent_dedup st)\<rparr>"

lemma synchronize_eq:
  "fst (synchronize_order_state_invariants now st) =
     mirror_dedup now (release_dedup (repair_intents st))"
proof -
  have 1: "(if 0 < length (filter terminal_pending_intent (orders st)) then repair_intents st else st) =
      repair_intents st" for st
    by (auto simp: repair_intents_def filter_empty_conv map_idI)
  have 2: "(if 0 < length (filter (dedup_terminal st) (order_intent_dedup st)) then release_dedup st else st) =
      release_dedup st" for st
    by (auto simp: release_dedup_def filter_empty_conv filter_id_conv)
  have 3: "(if 0 < length (filter (dedup_mismatch st) (order_intent_dedup st)) then mirror_dedup now st else st) =
      mirror_dedup now st" for st
    by (auto simp: mirror_dedup_def filter_empty_conv map_idI)
  show ?thesis
    unfolding synchronize_order_state_invariants_def Let_def
    by (simp only: fst_conv 1 2 3 flip: repair_intents_def release_dedup_def mirror_dedup_def)
qed

lemma find_order_repair:
  "find_order c (repair_intents st) =
     map_option (\<lambda>r. if terminal_pending_intent r
       then r\<lparr>ord_local_intent_state := Some (ord_status r)\<rparr> else r) (find_order c st)"
proof -
  have "find (\<lambda>r. ord_client_order_id r = c) (map (\<lambda>r. if terminal_pending_intent r
      then r\<lparr>ord_local_intent_state := Some (ord_status r)\<rparr> else r) rs) =
      map_option (\<lambda>r. if terminal_pending_intent r
        then r\<lparr>ord_local_intent_state := Some (ord_status r)\<rparr> else r)
        (find (\<lambda>r. ord_client_order_id r = c) rs)" for rs
    by (induction rs) auto
  then show ?thesis by (simp add: find_order_def repair_intents_def)
qed

lemma store_inv_repair_intents: "store_inv st \<Longrightarrow> store_inv (repair_intents st)"
proof -
  assume inv: "store_inv st"
  have keys: "map ord_client_order_id (orders (repair_intents st)) = map ord_client_order_id (orders st)"
    unfolding repair_intents_def by simp
  then have ids: "order_ids (repair_intents st) = order_ids st"
    by (metis order_ids_def set_map)
  have "status_of (repair_intents st) = status_of st"
    by (auto simp: status_of_def find_order_repair fun_eq_iff option.map_comp intro!: option.map_cong)
  moreover have "qty_ok (repair_intents st)"
    using inv by (auto simp: store_inv_defs repair_intents_def)
  ultimately show ?thesis
    using inv keys ids by (simp add: store_inv_def keys_ok_def aux_keys_ok_def refs_ok_def log_ok_def)
      (simp add: repair_intents_def)
qed

lemma synchronize_inv:
  assumes "store_inv st"
  shows "store_inv (fst (synchronize_order_state_invariants now st))"
proof -
  have 1: "store_inv (release_dedup st)" if "store_inv st" for st
    using that store_inv_dedup [OF that]
    by (simp add: release_dedup_def distinct_map_filter_key store_inv_def aux_keys_ok_def)
  have 2: "store_inv (mirror_dedup now st)" if "store_inv st" for st
  proof -
    have "distinct (map dd_intent_key (map (\<lambda>d. if dedup_mismatch st d then resync_dedup now st d else d)
        (order_intent_dedup st)))"
      using that by (subst map_if_key) (simp_all add: store_inv_def aux_keys_ok_def)
    from store_inv_dedup [OF that this] show ?thesis by (simp add: mirror_dedup_def)
  qed
  show ?thesis
    unfolding synchronize_eq by (intro 1 2 store_inv_repair_intents assms)
qed

end
