(* ===== verification/Order_Runs.thy ===== *)
theory Order_Runs
  imports Order_Invariants "HOL-Library.Sublist"
begin

text \<open>
  Runs of the order store: every call of an operation of \<open>src/src/operation/oms.py\<close> on a
  connection, and the caller's own \<open>commit\<close> and \<open>rollback\<close>, as a step relation. The
  invariant of the store holds of the durable and of the working store at every point of a
  run, the durable tables are append-only, and an order only moves along allowed
  transitions.
\<close>

subsection \<open>What no operation takes back\<close>

text \<open>The columns that no operation changes after an order was created.\<close>

definition frozen :: "order_row \<Rightarrow> order_row" where
  "frozen r = r\<lparr>ord_exchange_order_id := None, ord_status := [], ord_qty_filled := Fin 0,
     ord_local_intent_state := None, ord_updated_ts := 0, ord_last_error := None\<rparr>"

definition evolves :: "order_row \<Rightarrow> order_row \<Rightarrow> bool" where
  "evolves r r' \<longleftrightarrow> frozen r = frozen r' \<and> transition_ok\<^sup>*\<^sup>* (ord_status r) (ord_status r')"

definition extends :: "order_store \<Rightarrow> order_store \<Rightarrow> bool" where
  "extends st st' \<longleftrightarrow> prefix (order_events st) (order_events st') \<and> prefix (fills st) (fills st') \<and>
     (\<forall>cid r. find_order cid st = Some r \<longrightarrow> (\<exists>r'. find_order cid st' = Some r' \<and> evolves r r'))"

lemma evolves_refl [simp]: "evolves r r"
  by (simp add: evolves_def)

lemma evolves_trans: "evolves a b \<Longrightarrow> evolves b c \<Longrightarrow> evolves a c"
  by (auto simp: evolves_def)

lemma extends_refl [simp]: "extends st st"
  by (auto simp: extends_def)

lemma extends_trans: "extends a b \<Longrightarrow> extends b c \<Longrightarrow> extends a c"
  unfolding extends_def by (metis evolves_trans prefix_order.trans)

lemma extends_same_orders:
  assumes "orders st' = orders st" "prefix (order_events st) (order_events st')"
    "prefix (fills st) (fills st')"
  shows "extends st st'"
  using assms by (auto simp: extends_def find_order_def)

lemma extends_update_orders:
  assumes "\<And>r. find_order cid st = Some r \<Longrightarrow> evolves r (f r)"
    and "\<And>r. ord_client_order_id (f r) = ord_client_order_id r"
  shows "extends st (update_orders cid f st)"
  using assms(1) by (auto simp: extends_def find_order_update [OF assms(2)])

lemma extends_event: "extends st (fst (exec1 (record_order_event now a) st))"
  by (auto simp: exec1_event intro!: extends_same_orders)

lemma extends_then:
  assumes "extends st (fst (f st))" and "extends (fst (f st)) (fst (g (fst (f st))))"
  shows "extends st (fst (then_stmt f g st))"
  using assms extends_trans by (auto simp: then_stmt_def split: prod.splits sum.splits)

lemma extends_create: "extends st (fst (create_order_store PAIR MODE now a st))"
proof -
  have "extends st (st\<lparr>orders := orders st @ [r], order_events := order_events st @ [e]\<rparr>)" for r e
  proof -
    have "find_order c (st\<lparr>orders := orders st @ [r], order_events := order_events st @ [e]\<rparr>) =
        find_order c (st\<lparr>orders := orders st @ [r]\<rparr>)" for c
      by (simp add: find_order_def)
    then show ?thesis by (simp add: extends_def find_order_orders_append)
  qed
  then show ?thesis by (simp add: create_order_store_eq Let_def)
qed

lemma extends_exchange_id: "extends st (fst (set_exchange_order_id_store now cid x st))"
  unfolding set_exchange_order_id_store_def
  by (rule extends_then)
    (simp_all add: extends_event extends_update_orders evolves_def frozen_def)

lemma extends_apply_status:
  assumes "find_order cid st = Some cur" and "transition_ok (ord_status cur) s"
  shows "extends st (fst (apply_status now cur cid s err st))"
proof -
  have "extends st (status_order_update now cur cid s err st)"
    unfolding status_order_update_def Let_def
    using assms by (intro extends_update_orders) (auto simp: evolves_def frozen_def)
  moreover have "extends st (status_dedup_update now cid s err st)" for st
    by (rule extends_same_orders) simp_all
  ultimately show ?thesis
    unfolding apply_status_def by (intro extends_then) (auto simp: extends_event)
qed

lemma extends_add_fill: "extends st (fst (add_fill_store now a st))"
proof (cases rule: add_fill_store_cases [of a st now])
  case (booked e)
  let ?st = "st\<lparr>fills := fills st @ [fill_of_args a st]\<rparr>"
  have "extends st ?st" by (rule extends_same_orders) simp_all
  moreover have "extends ?st (fill_sum now a ?st)"
    by (rule extends_update_orders) (simp_all add: evolves_def frozen_def)
  moreover have "extends (fill_sum now a ?st) ((fill_sum now a ?st)\<lparr>order_events := order_events st @ [e]\<rparr>)"
    by (rule extends_same_orders) simp_all
  ultimately show ?thesis
    unfolding booked(3) fst_conv by (blast intro: extends_trans)
qed (simp_all add: extends_same_orders)

lemma extends_suppression: "extends st (fst (exec1 (record_order_suppression_store now a) st))"
  by (rule extends_same_orders)
    (simp_all add: exec1_def record_order_suppression_store_def split: option.splits)

lemma extends_claim: "extends st (fst (claim_order_intent_dedup now k cid sbl side ctx ty ts q il el s st))"
  by (rule extends_same_orders) (simp_all add: claim_order_intent_dedup_def split: option.splits)

lemma extends_update_dedup: "extends st (update_order_intent_dedup now k cid s err st)"
  by (rule extends_same_orders) (simp_all add: update_order_intent_dedup_def)

lemma extends_synchronize: "extends st (fst (synchronize_order_state_invariants now st))"
proof -
  have "extends st (repair_intents st)" for st
    by (auto simp: extends_def find_order_repair evolves_def frozen_def)
      (simp_all add: repair_intents_def)
  moreover have "extends st (release_dedup st)" "extends st (mirror_dedup now st)" for st
    by (rule extends_same_orders; simp add: release_dedup_def mirror_dedup_def)+
  ultimately show ?thesis
    unfolding synchronize_eq by (blast intro: extends_trans)
qed

subsection \<open>Connections\<close>

definition conn_inv :: "conn \<Rightarrow> bool" where
  "conn_inv c \<longleftrightarrow> store_inv (durable c) \<and> store_inv (working c) \<and> extends (durable c) (working c)"

text \<open>
  An operation on its own connection starts while no transaction of the session is open; a
  second writer would find the database locked.
\<close>

definition may_open :: "bool \<Rightarrow> conn \<Rightarrow> bool" where
  "may_open own_conn c \<longleftrightarrow> (own_conn \<longrightarrow> working c = durable c)"

lemma run_op_store_op:
  "run_op own (store_op f) c =
     (let st0 = (if own then durable c else working c)
      in case f st0 of
           (st, Inr u) \<Rightarrow> (c\<lparr>durable := (if own then st else durable c), working := st\<rparr>, Inr u)
         | (st, Inl e) \<Rightarrow> (c\<lparr>working := (if own then durable c else st)\<rparr>, Inl e))"
  by (cases c) (auto simp: run_op_def store_op_def commit_def rollback_def Let_def split: prod.splits sum.splits)

lemma run_op_caller: "run_op False body c = body c"
  by (auto simp: run_op_def split: prod.splits sum.splits)

lemma record_submit_attempt_run:
  "record_submit_attempt now submit_ts a c =
     run_op False (store_op (exec1 (record_order_event now
       (a\<lparr>ea_event_ts := Some submit_ts, ea_submit_ts := Some submit_ts,
          ea_exchange_order_id := None, ea_fill_id := None, ea_mode := None,
          ea_intent_ts := None, ea_probe_run_id := None\<rparr>)))) c"
  by (simp add: record_submit_attempt_def run_op_caller)

lemma run_op_inv:
  assumes c: "conn_inv c"
    and inv: "\<And>st. store_inv st \<Longrightarrow> \<not> own \<or> snd (f st) = Inr () \<Longrightarrow> store_inv (fst (f st))"
    and ext: "\<And>st. extends st (fst (f st))"
  shows "conn_inv (fst (run_op own (store_op f) c))"
proof (cases "f (if own then durable c else working c)")
  case (Pair st res)
  then show ?thesis
    using c inv [of "if own then durable c else working c"] ext [of "if own then durable c else working c"]
    by (cases res) (auto simp: run_op_store_op conn_inv_def Let_def intro: extends_trans)
qed

lemma run_op_extends:
  assumes "\<And>st. extends st (fst (f st))"
  shows "extends (durable c) (durable (fst (run_op own (store_op f) c)))"
  using assms [of "durable c"]
  by (auto simp: run_op_store_op Let_def split: prod.splits sum.splits)

lemma set_status_cases:
  obtains
    (missing) "find_order cid (if own then durable c else working c) = None"
      "set_status own now cid s err c =
        ((if own then rollback c else c), Inl (ValueError (''order not found: '' @ cid)))"
  | (blocked) cur e reason st where "st = (if own then durable c else working c)"
      "find_order cid st = Some cur" "\<not> transition_ok (ord_status cur) s"
      "validate_status_transition (ord_status cur) s = (False, Some reason)"
      "ev_client_order_id e = cid" "ev_event_type e = ''status_transition_blocked''"
      "ev_order_status e = Some (ord_status cur)" "ev_message e = clip 500 (Some reason)"
      "set_status own now cid s err c =
        (let st' = st\<lparr>order_events := order_events st @ [e]\<rparr>
         in (c\<lparr>durable := (if own then st' else durable c), working := st'\<rparr>, Inl (ValueError reason)))"
  | (changed) cur st where "st = (if own then durable c else working c)"
      "find_order cid st = Some cur" "transition_ok (ord_status cur) s"
      "set_status own now cid s err c =
        (let st' = fst (apply_status now cur cid s err st)
         in (c\<lparr>durable := (if own then st' else durable c), working := st'\<rparr>, Inr ()))"
proof -
  let ?st = "if own then durable c else working c"
  show thesis
  proof (cases "find_order cid ?st")
    case None
    then show ?thesis
      by (intro missing) (auto simp: set_status_def run_op_def set_status_body_def rollback_def split: if_splits)
  next
    case (Some cur)
    then have ids: "cid \<in> order_ids ?st"
      using find_order_None_iff [of cid ?st] by auto
    obtain ok r where v: "validate_status_transition (ord_status cur) s = (ok, r)" by fastforce
    show ?thesis
    proof (cases ok)
      case True
      have "snd (apply_status now cur cid s err ?st) = Inr ()"
        by (simp add: apply_status_eq [OF ids] Let_def)
      then have "apply_status now cur cid s err ?st = (fst (apply_status now cur cid s err ?st), Inr ())"
        by (metis prod.collapse)
      with Some v True show ?thesis
        by (intro changed [of ?st cur])
          (cases c; auto simp: set_status_def run_op_def set_status_body_def store_op_def rollback_def commit_def
            Let_def split: prod.splits)+
    next
      case False
      then obtain reason where r: "r = Some reason" and ne: "reason \<noteq> []"
        using v by (auto simp: validate_status_transition_def split: option.splits if_splits)
      let ?e = "event_row now ((event_args0 cid ''status_transition_blocked'')\<lparr>
        ea_event_ts := Some now, ea_order_status := Some (ord_status cur), ea_message := r\<rparr>) ?st"
      have ev: "record_order_event now ((event_args0 cid ''status_transition_blocked'')\<lparr>
          ea_event_ts := Some now, ea_order_status := Some (ord_status cur), ea_message := r\<rparr>) ?st =
          Inr (?st\<lparr>order_events := order_events ?st @ [?e]\<rparr>)"
        using Some by (simp add: record_order_event_def)
      show ?thesis
        using Some v False r ne ev
        by (intro blocked [of ?st cur reason ?e])
          (cases c; cases own; auto simp: set_status_def run_op_def set_status_body_def rollback_def commit_def
            event_row_def Let_def or_str_def)+
    qed
  qed
qed

subsection \<open>Steps\<close>

text \<open>
  One call of an operation by the session. \<open>record_submit_attempt\<close> takes its event type from
  the caller; no caller passes one of the status event types. A fill booked inside a
  transaction of the caller has a finite quantity: otherwise an infinite sum could turn
  into a NaN after the fill row was written, and the caller could commit the row alone.
\<close>

inductive oms_step :: "conn \<Rightarrow> conn \<Rightarrow> bool" where
  step_create: "may_open own c \<Longrightarrow> oms_step c (fst (create_order own PAIR MODE now a c))"
| step_attempt: "\<not> status_event (ea_event_type a) \<Longrightarrow>
    oms_step c (fst (record_submit_attempt now submit_ts a c))"
| step_started: "may_open own c \<Longrightarrow>
    oms_step c (fst (record_submit_started own now cid att sbl side qty mode msg c))"
| step_blocked: "may_open own c \<Longrightarrow>
    oms_step c (fst (record_submit_blocked own now cid status reason c))"
| step_transition: "may_open own c \<Longrightarrow>
    oms_step c (fst (record_status_transition own now cid from_status to_status reason c))"
| step_exchange_id: "may_open own c \<Longrightarrow> oms_step c (fst (set_exchange_order_id own now cid x c))"
| step_status: "may_open own c \<Longrightarrow> oms_step c (fst (set_status own now cid status err c))"
| step_fill: "may_open own c \<Longrightarrow> own \<or> isfinite (fa_qty fa) \<Longrightarrow>
    oms_step c (fst (add_fill own now fa c))"
| step_claim: "oms_step c (c\<lparr>working :=
    fst (claim_order_intent_dedup now k cid sbl side ctx ty ts q il el status (working c))\<rparr>)"
| step_dedup: "oms_step c (c\<lparr>working := update_order_intent_dedup now k cid status err (working c)\<rparr>)"
| step_sync: "oms_step c (c\<lparr>working := fst (synchronize_order_state_invariants now (working c))\<rparr>)"
| step_suppress: "may_open own c \<Longrightarrow> oms_step c (fst (record_order_suppression own now sa c))"
| step_commit: "oms_step c (commit c)"
| step_rollback: "oms_step c (rollback c)"

inductive_cases oms_stepE: "oms_step c c'"

lemma conn_inv_working:
  "conn_inv c \<Longrightarrow> store_inv st \<Longrightarrow> extends (working c) st \<Longrightarrow> conn_inv (c\<lparr>working := st\<rparr>)"
  by (auto simp: conn_inv_def intro: extends_trans)

lemma set_status_inv:
  assumes c: "conn_inv c"
  shows "conn_inv (fst (set_status own now cid s err c))"
proof (cases rule: set_status_cases [of cid own c now s err])
  case missing
  then show ?thesis using c by (simp add: conn_inv_def rollback_def)
next
  case (blocked cur e reason st)
  have st: "store_inv st" using c blocked(1) by (simp add: conn_inv_def)
  then have "store_inv (st\<lparr>order_events := order_events st @ [e]\<rparr>)"
    using blocked(2,5,6) find_order_None_iff [of cid st]
    by (intro store_inv_event) (auto simp: status_event_def)
  moreover have "extends st (st\<lparr>order_events := order_events st @ [e]\<rparr>)"
    by (rule extends_same_orders) simp_all
  ultimately show ?thesis
    using c by (auto simp: blocked(1,9) conn_inv_def Let_def intro: extends_trans)
next
  case (changed cur st)
  then have "store_inv (fst (apply_status now cur cid s err st))"
    using c find_order_None_iff [of cid st] by (intro apply_status_inv) (auto simp: conn_inv_def)
  moreover have "extends st (fst (apply_status now cur cid s err st))"
    using changed by (intro extends_apply_status)
  ultimately show ?thesis
    using c by (auto simp: changed(1,4) conn_inv_def Let_def intro: extends_trans)
qed

lemma set_status_extends: "extends (durable c) (durable (fst (set_status own now cid s err c)))"
proof (cases rule: set_status_cases [of cid own c now s err])
  case (blocked cur e reason st)
  then show ?thesis by (auto simp: Let_def intro!: extends_same_orders)
next
  case (changed cur st)
  then show ?thesis using extends_apply_status [of cid st cur s now err] by (auto simp: Let_def)
qed (simp add: rollback_def)

lemma event_op_inv:
  assumes "conn_inv c" and "\<not> status_event (ea_event_type a)"
  shows "conn_inv (fst (run_op own (store_op (exec1 (record_order_event now a))) c))"
  using assms(1) by (rule run_op_inv) (simp_all add: record_order_event_inv assms(2) extends_event)

lemma submit_attempt_inv:
  assumes "conn_inv c" and "\<not> status_event (ea_event_type a)"
  shows "conn_inv (fst (record_submit_attempt now ts a c))"
  unfolding record_submit_attempt_run using assms by (intro event_op_inv) simp_all

lemma add_fill_inv:
  assumes "conn_inv c" and "own \<or> isfinite (fa_qty a)"
  shows "conn_inv (fst (add_fill own now a c))"
  unfolding add_fill_def using assms(1)
proof (rule run_op_inv)
  show "store_inv (fst (add_fill_store now a st))"
    if "store_inv st" "\<not> own \<or> snd (add_fill_store now a st) = Inr ()" for st
    using that assms(2) add_fill_store_inv by blast
qed (rule extends_add_fill)

lemma oms_step_inv: "oms_step c c' \<Longrightarrow> conn_inv c \<Longrightarrow> conn_inv c'"
proof (induction rule: oms_step.induct)
  case (step_create own c PAIR MODE now a)
  then show ?case
    unfolding create_order_def by (auto intro!: run_op_inv create_order_store_inv extends_create)
next
  case (step_started own c now cid att sbl side qty mode msg)
  then show ?case unfolding record_submit_started_def by (auto intro!: event_op_inv simp: status_event_def)
next
  case (step_blocked own c now cid status reason)
  then show ?case unfolding record_submit_blocked_def by (auto intro!: event_op_inv simp: status_event_def)
next
  case (step_transition own c now cid from_status to_status reason)
  then show ?case unfolding record_status_transition_def by (auto intro!: event_op_inv simp: status_event_def)
next
  case (step_exchange_id own c now cid x)
  then show ?case
    unfolding set_exchange_order_id_def
    by (auto intro!: run_op_inv set_exchange_order_id_store_inv extends_exchange_id)
next
  case (step_suppress own c now sa)
  then show ?case
    unfolding record_order_suppression_def
    by (auto intro!: run_op_inv record_order_suppression_inv extends_suppression)
next
  case (step_claim c now k cid sbl side ctx ty ts q il el status)
  then show ?case by (intro conn_inv_working claim_inv extends_claim) (simp_all add: conn_inv_def)
next
  case (step_dedup c now k cid status err)
  then show ?case
    by (intro conn_inv_working update_order_intent_dedup_inv extends_update_dedup) (simp_all add: conn_inv_def)
next
  case (step_sync c now)
  then show ?case by (intro conn_inv_working synchronize_inv extends_synchronize) (simp_all add: conn_inv_def)
next
  case (step_commit c)
  then show ?case by (simp add: commit_def conn_inv_def)
next
  case (step_rollback c)
  then show ?case by (simp add: rollback_def conn_inv_def)
qed (simp_all add: set_status_inv add_fill_inv submit_attempt_inv)

lemma oms_step_extends: "oms_step c c' \<Longrightarrow> conn_inv c \<Longrightarrow> extends (durable c) (durable c')"
proof (induction rule: oms_step.induct)
  case (step_attempt a c now submit_ts)
  then show ?case
    unfolding record_submit_attempt_run by (intro run_op_extends extends_event)
qed (auto simp: oms_defs commit_def rollback_def conn_inv_def set_status_extends [unfolded set_status_def]
  intro!: run_op_extends extends_event extends_create extends_exchange_id extends_add_fill
    extends_suppression)

interpretation oms_run: invariant_system oms_step conn_inv
  by unfold_locales (rule oms_step_inv)

text \<open>The state before the first operation.\<close>

definition empty_conn :: conn where
  "empty_conn = \<lparr>durable = empty_store, working = empty_store\<rparr>"

lemma conn_inv_empty: "conn_inv empty_conn"
  by (simp add: conn_inv_def empty_conn_def store_inv_empty)

lemma run_extends:
  assumes "oms_step\<^sup>*\<^sup>* c c'" and "conn_inv c"
  shows "extends (durable c) (durable c')"
  using assms by (rule oms_run.run_rel) (auto intro: extends_trans oms_step_extends)

text \<open>A run that creates an order and sees it filled, for the examples below.\<close>

definition sample_order :: "string \<Rightarrow> order_args" where
  "sample_order cid = \<lparr>
     oa_client_order_id = cid, oa_submit_attempt_id = None, oa_symbol = None, oa_mode = None,
     oa_side = ''BUY'', oa_qty_req = Fin (1/4), oa_price = Some (Fin 1000), oa_strategy_name = None,
     oa_strategy_instance_id = None, oa_cycle_id = None, oa_authority_hash = None,
     oa_entry_decision_id = None, oa_exit_decision_id = None, oa_decision_reason = None,
     oa_exit_rule_name = None, oa_internal_lot_size = None, oa_effective_min_trade_qty = None,
     oa_qty_step = None, oa_min_notional_krw = None, oa_intended_lot_count = None,
     oa_executable_lot_count = None, oa_final_intended_qty = None, oa_final_submitted_qty = None,
     oa_decision_reason_code = None, oa_intent_type = None, oa_authority_source = None,
     oa_entry_authority_source = None, oa_entry_authority_status = None, oa_decision_kst_hour =
     None, oa_local_intent_state = None, oa_order_type = None, oa_status = ''PENDING_SUBMIT'',
     oa_ts_ms = None, oa_probe_run_id = None\<rparr>"

definition sample_created :: conn where
  "sample_created = fst (create_order True ''KRW-BTC'' ''live'' 1 (sample_order ''o1'') empty_conn)"

definition sample_run :: conn where
  "sample_run = fst (set_status True 2 ''o1'' ''FILLED'' None sample_created)"

lemma sample_idle:
  "working sample_created = durable sample_created" "working sample_run = durable sample_run"
  by code_simp+

lemma sample_reach: "oms_step\<^sup>*\<^sup>* empty_conn sample_created" "oms_step\<^sup>*\<^sup>* sample_created sample_run"
proof -
  show "oms_step\<^sup>*\<^sup>* empty_conn sample_created"
    unfolding sample_created_def
    by (rule r_into_rtranclp, rule step_create) (simp add: may_open_def empty_conn_def)
  show "oms_step\<^sup>*\<^sup>* sample_created sample_run"
    unfolding sample_run_def
    by (rule r_into_rtranclp, rule step_status) (simp add: may_open_def sample_idle)
qed

lemma sample_status: "map_option ord_status (find_order ''o1'' (durable sample_run)) = Some ''FILLED''"
  by code_simp

subsection \<open>Properties of runs\<close>

text \<open>
  C1: In every state that the operations can reach from the empty database, client order
  ids, intent keys, suppression keys and the pairs of order and fill id are unique, events
  and fills refer to existing orders, the filled quantity of every order is the sum of its
  fills in booking order, and the status of every order is the one a replay of the event
  log yields; this holds of the committed data and inside an open transaction.
\<close>

theorem reachable_store_inv:
  assumes "oms_step\<^sup>*\<^sup>* empty_conn c"
  shows "store_inv (durable c) \<and> store_inv (working c)"
  using oms_run.run_inv [OF assms conn_inv_empty] by (simp add: conn_inv_def)

theorem reachable_store_inv_witness:
  "store_inv (durable sample_run) \<and> store_inv (working sample_run)"
  using sample_reach by (intro reachable_store_inv) (rule rtranclp_trans)

text \<open>
  C2: Nothing that was committed is ever lost: along every run the committed event log and
  the committed fills only grow at the end, no order disappears, and of an order only the
  status (along allowed transitions), the exchange id, the filled quantity, the intent
  mirror, the last error and the update time change.
\<close>

theorem committed_history_kept:
  assumes "oms_step\<^sup>*\<^sup>* empty_conn c" and "oms_step\<^sup>*\<^sup>* c c'"
  shows "extends (durable c) (durable c')"
  using assms run_extends oms_run.run_inv conn_inv_empty by blast

theorem committed_history_kept_witness: "extends (durable sample_created) (durable sample_run)"
  using sample_reach by (rule committed_history_kept)

text \<open>
  C3: A committed terminal status is final: whatever operations follow, the order stays
  committed with the same status.
\<close>

theorem terminal_status_final:
  assumes "oms_step\<^sup>*\<^sup>* empty_conn c" and "oms_step\<^sup>*\<^sup>* c c'"
    and "find_order cid (durable c) = Some r" and "terminal_status (ord_status r)"
  shows "\<exists>r'. find_order cid (durable c') = Some r' \<and> ord_status r' = ord_status r"
proof -
  have "extends (durable c) (durable c')"
    using run_extends [OF assms(2)] oms_run.run_inv [OF assms(1) conn_inv_empty] by simp
  then show ?thesis
    using assms(3,4) order_status.rtrancl_terminal by (fastforce simp: extends_def evolves_def)
qed

theorem terminal_status_final_witness:
  "\<exists>r'. find_order ''o1'' (durable (commit sample_run)) = Some r' \<and> ord_status r' = ''FILLED''"
proof -
  obtain r where r: "find_order ''o1'' (durable sample_run) = Some r" and s: "ord_status r = ''FILLED''"
    using sample_status by auto
  have "oms_step\<^sup>*\<^sup>* sample_run (commit sample_run)" by (auto intro: step_commit)
  from terminal_status_final [OF rtranclp_trans [OF sample_reach] this r] show ?thesis
    by (simp add: s terminal_status_def TERMINAL_ORDER_STATUSES_def)
qed

end
