(* ===== verification/Order_Properties.thy ===== *)
theory Order_Properties
  imports Order_Runs "HOL-Library.Multiset"
begin

text \<open>
  What the operations of \<open>src/src/operation/oms.py\<close> do: the outcome of every branch of
  \<open>set_status\<close>, atomicity, the exactly-once booking of fills, exclusive intent claims,
  the repair of the status mirrors, the unresolved order gate and the query of open
  orders.
\<close>

subsection \<open>Status changes\<close>

lemma status_of_apply_status:
  assumes "find_order cid st = Some cur"
  shows "status_of (fst (apply_status now cur cid s err st)) = (status_of st)(cid \<mapsto> s)"
proof -
  have ids: "cid \<in> order_ids st" using assms find_order_None_iff [of cid st] by auto
  have "find_order c (fst (apply_status now cur cid s err st)) =
      find_order c (status_order_update now cur cid s err st)" for c
    by (simp add: apply_status_eq [OF ids] Let_def find_order_def)
  then show ?thesis
    using assms by (auto simp: status_of_def fun_eq_iff status_order_update_def Let_def find_order_update)
qed

lemma apply_status_tables:
  assumes "find_order cid st = Some cur"
  shows "fills (fst (apply_status now cur cid s err st)) = fills st"
    and "order_intent_dedup (fst (apply_status now cur cid s err st)) =
      order_intent_dedup (status_dedup_update now cid s err st)"
    and "\<exists>e. order_events (fst (apply_status now cur cid s err st)) = order_events st @ [e] \<and>
      ev_client_order_id e = cid \<and> ev_order_status e = Some s \<and> status_event (ev_event_type e)"
proof -
  have ids: "cid \<in> order_ids st" using assms find_order_None_iff [of cid st] by auto
  show "fills (fst (apply_status now cur cid s err st)) = fills st"
    and "order_intent_dedup (fst (apply_status now cur cid s err st)) =
      order_intent_dedup (status_dedup_update now cid s err st)"
    and "\<exists>e. order_events (fst (apply_status now cur cid s err st)) = order_events st @ [e] \<and>
      ev_client_order_id e = cid \<and> ev_order_status e = Some s \<and> status_event (ev_event_type e)"
    by (simp_all add: apply_status_eq [OF ids] Let_def status_event_def)
qed




subsection \<open>Fills\<close>

text \<open>
  C21: \<open>add_fill\<close> on its own connection raises exactly when the order is missing, a number is
  NaN, the order already has a fill with this id, or the new sum would be NaN. Otherwise it
  commits one new fill row with the given price, quantity and fee, adds the quantity to this
  order and no other, and logs one event.
\<close>

theorem add_fill_outcome:
  "let (c', res) = add_fill True now a c; st = durable c; st' = durable c'
   in if fill_rejected a st \<or> sum_rejected a st
      then res = Inl IntegrityError \<and> st' = st
      else res = Inr () \<and> fills st' = fills st @ [fill_of_args a st] \<and>
        (\<forall>cid. find_order cid st' =
           (if cid = fa_client_order_id a
            then map_option (\<lambda>r. r\<lparr>ord_qty_filled := fadd (ord_qty_filled r) (fa_qty a),
              ord_updated_ts := now\<rparr>) (find_order cid st)
            else find_order cid st)) \<and>
        (\<exists>e. order_events st' = order_events st @ [e] \<and> ev_event_type e = ''fill_applied'' \<and>
           ev_client_order_id e = fa_client_order_id a \<and> ev_fill_id e = fa_fill_id a \<and>
           ev_qty e = Some (fa_qty a))"
proof (cases rule: add_fill_store_cases [of a "durable c" now])
  case rejected
  then show ?thesis by (simp add: add_fill_def run_op_store_op)
next
  case sum
  then show ?thesis by (simp add: add_fill_def run_op_store_op)
next
  case (booked e)
  let ?st1 = "(durable c)\<lparr>fills := fills (durable c) @ [fill_of_args a (durable c)]\<rparr>"
  have "find_order cid ((fill_sum now a ?st1)\<lparr>order_events := order_events (durable c) @ [e]\<rparr>) =
      find_order cid (fill_sum now a (durable c))" for cid
    by (rule find_order_cong) (simp add: update_orders_def)
  then show ?thesis
    using booked by (simp add: add_fill_def run_op_store_op find_order_update)
qed

text \<open>A fill of the sample order, for the examples below.\<close>

definition sample_fill :: "string \<Rightarrow> fill_args" where
  "sample_fill cid = \<lparr>fa_client_order_id = cid, fa_fill_id = Some ''f1'', fa_fill_ts = 3,
     fa_price = Fin 1000, fa_qty = Fin (1/4), fa_fee = Fin 0, fa_fee_accounting_status = None,
     fa_observed_fee_status = None, fa_observed_fee_source = None, fa_observed_fee_confidence = None,
     fa_observed_fee_provenance = None, fa_observed_fee_validation_reason = None,
     fa_observed_fee_validation_checks = None, fa_probe_run_id = None\<rparr>"

definition sample_filled :: conn where
  "sample_filled = fst (add_fill True 3 (sample_fill ''o1'') sample_created)"

lemma sample_filled_ok:
  "snd (add_fill True 3 (sample_fill ''o1'') sample_created) = Inr ()"
  "working sample_filled = durable sample_filled"
  "fills (durable sample_filled) = [fill_of_args (sample_fill ''o1'') (durable sample_created)]"
proof -
  have "\<not> fill_rejected (sample_fill ''o1'') (durable sample_created)" "fills (durable sample_created) = []"
    by code_simp+
  moreover have "\<not> sum_rejected (sample_fill ''o1'') (durable sample_created)"
    using oms_run.run_inv [OF sample_reach(1) conn_inv_empty]
    by (intro finite_fill_sum) (simp_all add: conn_inv_def store_inv_def sample_fill_def)
  ultimately show "snd (add_fill True 3 (sample_fill ''o1'') sample_created) = Inr ()"
    and "working sample_filled = durable sample_filled"
    and "fills (durable sample_filled) = [fill_of_args (sample_fill ''o1'') (durable sample_created)]"
    unfolding sample_filled_def
    by (cases rule: add_fill_store_cases [of "sample_fill ''o1''" "durable sample_created" 3];
        simp add: add_fill_def run_op_store_op)+
qed

lemma sample_filled_reach: "oms_step\<^sup>*\<^sup>* sample_created sample_filled"
  unfolding sample_filled_def
  by (rule r_into_rtranclp, rule step_fill) (simp_all add: may_open_def sample_idle)

text \<open>
  C20: A fill is counted once: after a fill with an id was committed, booking the same id for
  the same order again, after any further operations, raises and changes nothing.
\<close>

theorem fill_counted_once:
  assumes reach: "oms_step\<^sup>*\<^sup>* empty_conn c" and first: "add_fill True now a c = (c1, Inr ())"
    and id: "fa_fill_id a \<noteq> None" and run: "oms_step\<^sup>*\<^sup>* c1 c2" and idle: "working c2 = durable c2"
    and same: "fa_client_order_id b = fa_client_order_id a" "fa_fill_id b = fa_fill_id a"
  shows "add_fill True now' b c2 = (c2, Inl IntegrityError)"
proof -
  have inv: "conn_inv c1"
    using add_fill_inv [of c True a now] oms_run.run_inv [OF reach conn_inv_empty] first by simp
  have "fill_of_args a (durable c) \<in> set (fills (durable c1))"
    using first by (cases rule: add_fill_store_cases [of a "durable c" now])
      (auto simp: add_fill_def run_op_store_op)
  then have "fill_of_args a (durable c) \<in> set (fills (durable c2))"
    using run_extends [OF run inv] by (auto simp: extends_def dest: set_mono_prefix)
  then have "fill_rejected b (durable c2)"
    using id unfolding fill_rejected_def same
    by (intro disjI2 conjI bexI [of _ "fill_of_args a (durable c)"]) simp_all
  then show ?thesis
    using idle by (cases rule: add_fill_store_cases [of b "durable c2" now'])
      (cases c2; simp add: add_fill_def run_op_store_op)+
qed

theorem fill_counted_once_witness:
  "add_fill True 4 (sample_fill ''o1'') sample_filled = (sample_filled, Inl IntegrityError)"
proof (rule fill_counted_once [OF sample_reach(1)])
  show "add_fill True 3 (sample_fill ''o1'') sample_created = (sample_filled, Inr ())"
    using sample_filled_ok(1) by (metis prod.collapse sample_filled_def)
qed (simp_all add: sample_filled_ok sample_fill_def)

text \<open>Sums of non-negative doubles stay doubles or overflow to infinity, and only grow.\<close>

definition is_sum :: "pyfloat \<Rightarrow> bool" where
  "is_sum x \<longleftrightarrow> x = PInf \<or> (\<exists>v. x = Fin v \<and> double_rat v)"

lemma fadd_nonneg_step:
  assumes "is_sum x" and "fle (Fin 0) q"
  shows "is_sum (fadd x q) \<and> fle x (fadd x q)"
proof (cases x)
  case (Fin v)
  then have le: "fle x (fadd x q)"
    using assms fadd_nonneg_ge by (auto simp: is_sum_def)
  moreover have "is_sum (fadd x q)"
    using le assms Fin rnd_Fin_double by (cases q; cases "fadd x q") (auto simp: is_sum_def)
  ultimately show ?thesis by blast
qed (use assms in \<open>cases q; auto simp: is_sum_def\<close>)+

lemma foldl_fadd_nonneg:
  assumes "is_sum x" and "\<forall>q \<in> set qs. fle (Fin 0) q"
  shows "is_sum (foldl fadd x qs) \<and> fle x (foldl fadd x qs)"
  using assms
proof (induction qs arbitrary: x)
  case Nil
  then show ?case by (auto simp: is_sum_def intro: fle_refl)
next
  case (Cons q qs)
  then have "is_sum (fadd x q)" "fle x (fadd x q)" using fadd_nonneg_step by auto
  with Cons show ?case using fle_trans by fastforce
qed

text \<open>
  As long as no booked fill of an order is negative, its committed filled quantity never
  decreases, rounding and overflow of the double sum included.
\<close>

theorem filled_quantity_monotone:
  assumes reach: "oms_step\<^sup>*\<^sup>* empty_conn c" and run: "oms_step\<^sup>*\<^sup>* c c'"
    and r: "find_order cid (durable c) = Some r"
    and nonneg: "\<forall>f \<in> set (fills (durable c')). fl_client_order_id f = cid \<longrightarrow> fle (Fin 0) (fl_qty f)"
  shows "\<exists>r'. find_order cid (durable c') = Some r' \<and> fle (ord_qty_filled r) (ord_qty_filled r')"
proof -
  let ?q = "\<lambda>fs. map fl_qty (filter (\<lambda>f. fl_client_order_id f = cid) fs)"
  have inv: "conn_inv c" "conn_inv c'"
    using oms_run.run_inv reach run conn_inv_empty by blast+
  have ext: "extends (durable c) (durable c')" using run_extends [OF run inv(1)] .
  then obtain r' where r': "find_order cid (durable c') = Some r'" using r by (auto simp: extends_def)
  from ext obtain gs where gs: "fills (durable c') = fills (durable c) @ gs"
    by (auto simp: extends_def prefix_def)
  have "ord_qty_filled r = foldl fadd (Fin 0) (?q (fills (durable c)))"
    and "ord_qty_filled r' = foldl fadd (Fin 0) (?q (fills (durable c')))"
    using inv order_table.lookup_SomeD [OF r] order_table.lookup_SomeD [OF r']
    by (auto simp: conn_inv_def store_inv_def qty_ok_def filled_total_def)
  moreover have "\<forall>q \<in> set (?q (fills (durable c))). fle (Fin 0) q" "\<forall>q \<in> set (?q gs). fle (Fin 0) q"
    using nonneg by (auto simp: gs)
  ultimately have "fle (ord_qty_filled r) (ord_qty_filled r')"
    using foldl_fadd_nonneg by (simp add: gs is_sum_def)
  with r' show ?thesis by blast
qed

theorem filled_quantity_monotone_witness:
  "\<exists>r'. find_order ''o1'' (durable sample_filled) = Some r' \<and> fle (Fin 0) (ord_qty_filled r')"
proof -
  have "map_option ord_qty_filled (find_order ''o1'' (durable sample_created)) = Some (Fin 0)"
    by code_simp
  then obtain r where r: "find_order ''o1'' (durable sample_created) = Some r" "ord_qty_filled r = Fin 0"
    by auto
  have "\<forall>f \<in> set (fills (durable sample_filled)). fl_client_order_id f = ''o1'' \<longrightarrow> fle (Fin 0) (fl_qty f)"
    by (simp add: sample_filled_ok(3)) (simp add: sample_fill_def)
  from filled_quantity_monotone [OF sample_reach(1) sample_filled_reach r(1) this] r(2)
  show ?thesis by simp
qed

subsection \<open>Intent claims\<close>

lemma find_map_update_key:
  assumes "\<And>x. key (f x) = key x"
  shows "find (\<lambda>x. key x = k) (map (\<lambda>x. if P x then f x else x) xs) =
    map_option (\<lambda>x. if P x then f x else x) (find (\<lambda>x. key x = k) xs)"
  by (induction xs) (auto simp: assms)

text \<open>
  Claiming an intent key succeeds exactly when no deduplication row has the key. A
  successful claim leaves the key held by the claiming order; a refused claim returns the
  row of the holder, which keeps the key. No other key and no order, event or fill changes.
\<close>

theorem intent_claim_outcome:
  "let (st', ok, holder) =
       claim_order_intent_dedup now k cid sbl side ctx ty ts q il el status st
   in holder = find_dedup k st \<and> (ok \<longleftrightarrow> holder = None) \<and>
     map_option dd_client_order_id (find_dedup k st') =
       Some (case holder of None \<Rightarrow> cid | Some d \<Rightarrow> dd_client_order_id d) \<and>
     (\<forall>k'. k' = k \<or> find_dedup k' st' = find_dedup k' st) \<and>
     orders st' = orders st \<and> order_events st' = order_events st \<and> fills st' = fills st"
proof (cases "find_dedup k st")
  case None
  have "find P (xs @ [d]) = (case find P xs of Some x \<Rightarrow> Some x | None \<Rightarrow> if P d then Some d else None)"
    for P and xs :: "dedup_row list" and d by (induction xs) auto
  with None show ?thesis
    by (auto simp: claim_order_intent_dedup_def find_dedup_def split: option.splits)
next
  case (Some d)
  then have "dd_intent_key d = k" using dedup_table.lookup_SomeD by blast
  have "find (\<lambda>d. dd_intent_key d = k') (map (\<lambda>d. if dd_intent_key d = k then d\<lparr>dd_updated_ts := now\<rparr> else d)
      (order_intent_dedup st)) =
      map_option (\<lambda>d. if dd_intent_key d = k then d\<lparr>dd_updated_ts := now\<rparr> else d) (find_dedup k' st)" for k'
    unfolding find_dedup_def by (rule find_map_update_key) simp
  moreover have "map_option (\<lambda>d. if dd_intent_key d = k then d\<lparr>dd_updated_ts := now\<rparr> else d) (find_dedup k' st) =
      find_dedup k' st" if "k' \<noteq> k" for k'
    using that dedup_table.lookup_SomeD [of k' st] by (cases "find_dedup k' st") auto
  ultimately show ?thesis
    using Some by (auto simp: claim_order_intent_dedup_def find_dedup_def)
qed

lemma find_filter_other_key:
  assumes "distinct (map key xs)" and "x \<in> set xs" and "\<not> P x"
  shows "find (\<lambda>y. key y = key x) (filter P xs) = None"
  using assms by (auto simp: find_None_iff distinct_map dest: inj_onD)

lemma find_filter_key:
  assumes "distinct (map key xs)" and "x \<in> set xs" and "P x"
  shows "find (\<lambda>y. key y = key x) (filter P xs) = Some x"
  using assms by (intro find_distinct_key) (auto simp: distinct_map_filter)

text \<open>
  An order that fails frees its intent for a retry; every other status keeps the intent
  claimed and is mirrored in the deduplication row. The intents of other orders stay as they
  are.
\<close>

theorem intent_released_only_by_failure:
  assumes reach: "oms_step\<^sup>*\<^sup>* empty_conn c"
    and held: "find_dedup k (durable c) = Some d"
    and ok: "set_status True now cid s err c = (c', Inr ())"
  shows "find_dedup k (durable c') =
    (if dd_client_order_id d \<noteq> cid then Some d
     else if s = ''FAILED'' then None
     else Some (d\<lparr>dd_order_status := s, dd_updated_ts := now, dd_last_error := clip 500 err\<rparr>))"
proof (cases rule: set_status_cases [of cid True c now s err])
  case (changed cur st)
  let ?ds = "order_intent_dedup (durable c)"
  have d: "d \<in> set ?ds" "dd_intent_key d = k"
    using dedup_table.lookup_SomeD [OF held] by simp_all
  have dist: "distinct (map dd_intent_key ?ds)"
    using oms_run.run_inv [OF reach conn_inv_empty]
    by (simp add: conn_inv_def store_inv_def aux_keys_ok_def)
  have "s \<noteq> ''RELEASED''"
    using changed(3) transition_ok_known [of "ord_status cur" s]
    by (auto simp: known_status_def ALLOWED_STATUS_TRANSITIONS_def)
  moreover have "find_dedup k (durable c') =
      find (\<lambda>x. dd_intent_key x = k) (order_intent_dedup (status_dedup_update now cid s err (durable c)))"
    using ok changed apply_status_tables(2) [OF changed(2), of now s err]
    by (auto simp: Let_def find_dedup_def)
  moreover have "find (\<lambda>x. dd_intent_key x = k) (filter (\<lambda>x. dd_client_order_id x \<noteq> cid) ?ds) =
      (if dd_client_order_id d = cid then None else Some d)"
    using find_filter_other_key [OF dist d(1), of "\<lambda>x. dd_client_order_id x \<noteq> cid"]
      find_filter_key [OF dist d(1), of "\<lambda>x. dd_client_order_id x \<noteq> cid"] d(2) by simp
  ultimately show ?thesis
    using held find_map_update_key [of dd_intent_key
        "\<lambda>x. x\<lparr>dd_order_status := s, dd_updated_ts := now, dd_last_error := clip 500 err\<rparr>" k
        "\<lambda>x. dd_client_order_id x = cid" ?ds]
    by (simp add: status_dedup_update_def ORDER_INTENT_DEDUP_RELEASE_STATUSES_def find_dedup_def)
qed (use ok in \<open>simp_all add: Let_def\<close>)

definition sample_claimed :: conn where
  "sample_claimed = commit (sample_created\<lparr>working :=
     fst (claim_order_intent_dedup 1 ''k'' ''o1'' ''KRW-BTC'' ''BUY'' ''paper'' ''market_entry'' 1
       None (Some 2) (Some 2) ''PENDING_SUBMIT'' (working sample_created))\<rparr>)"

lemma sample_claimed_reach: "oms_step\<^sup>*\<^sup>* empty_conn sample_claimed"
  unfolding sample_claimed_def
  by (rule rtranclp.rtrancl_into_rtrancl [OF rtranclp.rtrancl_into_rtrancl [OF sample_reach(1) step_claim] step_commit])

theorem intent_released_only_by_failure_witness:
  "find_dedup ''k'' (durable (fst (set_status True 2 ''o1'' ''FAILED'' None sample_claimed))) = None"
proof -
  have "map_option dd_client_order_id (find_dedup ''k'' (durable sample_claimed)) = Some ''o1''"
    and ok: "snd (set_status True 2 ''o1'' ''FAILED'' None sample_claimed) = Inr ()"
    by code_simp+
  then obtain d where d: "find_dedup ''k'' (durable sample_claimed) = Some d" "dd_client_order_id d = ''o1''"
    by auto
  have "set_status True 2 ''o1'' ''FAILED'' None sample_claimed =
      (fst (set_status True 2 ''o1'' ''FAILED'' None sample_claimed), Inr ())"
    using ok by (metis prod.collapse)
  from intent_released_only_by_failure [OF sample_claimed_reach d(1) this] d(2) show ?thesis by simp
qed

subsection \<open>Repair of the status mirrors\<close>

lemma status_of_repair: "status_of (repair_intents st) = status_of st"
  by (auto simp: status_of_def find_order_repair fun_eq_iff option.map_comp intro!: option.map_cong)

lemma dedup_cond_status:
  "dedup_terminal st d = (\<exists>s. status_of st (dd_client_order_id d) = Some s \<and> s \<in> {''FILLED'', ''FAILED'', ''CANCELED''})"
  "dedup_mismatch st d = (\<exists>s. status_of st (dd_client_order_id d) = Some s \<and>
     s \<notin> {''FILLED'', ''FAILED'', ''CANCELED''} \<and> dd_order_status d \<noteq> s)"
  by (auto simp: dedup_terminal_def dedup_mismatch_def status_of_def split: option.splits)

lemma status_of_orders: "orders st' = orders st \<Longrightarrow> status_of st' = status_of st"
  by (simp add: status_of_def find_order_def fun_eq_iff)

lemma resync_dedup_simps [simp]: "dd_client_order_id (resync_dedup now st d) = dd_client_order_id d"
  by (simp add: resync_dedup_def split: option.splits)

lemma resync_dedup_status:
  "status_of st (dd_client_order_id d) = Some s \<Longrightarrow> dd_order_status (resync_dedup now st d) = s"
  by (auto simp: resync_dedup_def status_of_def)

definition mirrors_ok :: "order_store \<Rightarrow> bool" where
  "mirrors_ok st \<longleftrightarrow> (\<forall>r \<in> set (orders st). \<not> terminal_pending_intent r) \<and>
     (\<forall>d \<in> set (order_intent_dedup st). \<not> dedup_terminal st d \<and> \<not> dedup_mismatch st d)"

lemma synchronize_status: "status_of (fst (synchronize_order_state_invariants now st)) = status_of st"
proof -
  have "status_of (release_dedup st) = status_of st" "status_of (mirror_dedup now st) = status_of st" for st
    by (rule status_of_orders; simp add: release_dedup_def mirror_dedup_def)+
  then show ?thesis by (simp add: synchronize_eq status_of_repair)
qed

lemma synchronize_mirrors: "mirrors_ok (fst (synchronize_order_state_invariants now st))"
proof -
  let ?st1 = "repair_intents st"
  let ?st2 = "release_dedup ?st1"
  let ?st3 = "mirror_dedup now ?st2"
  have st: "status_of ?st2 = status_of ?st1" "status_of ?st3 = status_of ?st2"
    by (rule status_of_orders; simp add: release_dedup_def mirror_dedup_def)+
  have "orders ?st3 = orders ?st1" by (simp add: release_dedup_def mirror_dedup_def)
  moreover have "\<forall>r \<in> set (orders ?st1). \<not> terminal_pending_intent r"
    by (auto simp: repair_intents_def terminal_pending_intent_def)
  moreover have release: "\<not> dedup_terminal ?st2 d" if "d \<in> set (order_intent_dedup ?st2)" for d
  proof -
    have "\<not> dedup_terminal ?st1 d" using that by (simp add: release_dedup_def)
    then show ?thesis by (simp add: dedup_cond_status st)
  qed
  then have "\<not> dedup_terminal ?st3 d \<and> \<not> dedup_mismatch ?st3 d" if d: "d \<in> set (order_intent_dedup ?st3)" for d
  proof -
    from d obtain x where x: "x \<in> set (order_intent_dedup ?st2)"
      and dx: "d = (if dedup_mismatch ?st2 x then resync_dedup now ?st2 x else x)"
      by (auto simp: mirror_dedup_def)
    have "\<not> dedup_terminal ?st2 d \<and> \<not> dedup_mismatch ?st2 d"
      using release [OF x] resync_dedup_status [of ?st2 x _ now]
      by (cases "dedup_mismatch ?st2 x") (auto simp: dx dedup_cond_status)
    then show ?thesis unfolding dedup_cond_status st(2) .
  qed
  ultimately show ?thesis by (simp add: synchronize_eq mirrors_ok_def)
qed

lemma synchronize_noop:
  assumes "mirrors_ok st"
  shows "synchronize_order_state_invariants now st =
    (st, \<lparr>repaired_terminal_local_intent = 0, released_terminal_dedup = 0, synced_active_dedup = 0\<rparr>)"
proof -
  have "filter terminal_pending_intent (orders st) = []"
    "filter (dedup_terminal st) (order_intent_dedup st) = []"
    "filter (dedup_mismatch st) (order_intent_dedup st) = []"
    using assms by (auto simp: mirrors_ok_def filter_empty_conv)
  then show ?thesis by (simp add: synchronize_order_state_invariants_def Let_def)
qed


subsection \<open>The gate and the open orders\<close>

lemma count_orders_pos: "0 < count_orders p st \<longleftrightarrow> (\<exists>r \<in> set (orders st). p r)"
  by (auto simp: count_orders_def filter_empty_conv)

lemma open_rows_Nil:
  "filter (\<lambda>r. ord_status r \<in> set OPEN_ORDER_STATUSES) (orders st) = [] \<longleftrightarrow>
     \<not> (\<exists>r \<in> set (orders st). open_status (ord_status r))"
  by (auto simp: filter_empty_conv open_status_def)

definition has_status :: "string \<Rightarrow> order_store \<Rightarrow> bool" where
  "has_status s st \<longleftrightarrow> (\<exists>r \<in> set (orders st). ord_status r = s)"

lemma has_status_open: "has_status s st \<Longrightarrow> open_status s \<Longrightarrow> \<exists>r \<in> set (orders st). open_status (ord_status r)"
  by (auto simp: has_status_def)

lemma risky_counts:
  fixes st now_ms max_age
  defines "rs \<equiv> collect_risky_order_state now_ms max_age st"
  shows "0 < submit_unknown_count rs \<longleftrightarrow> has_status ''SUBMIT_UNKNOWN'' st"
    "0 < accounting_pending_count rs \<longleftrightarrow> has_status ''ACCOUNTING_PENDING'' st"
    "0 < recovery_required_count rs \<longleftrightarrow> has_status ''RECOVERY_REQUIRED'' st"
    "unresolved_open_order_count rs \<le> 0 \<longleftrightarrow> \<not> (\<exists>r \<in> set (orders st). open_status (ord_status r))"
  by (simp_all add: rs_def collect_risky_order_state_def Let_def count_orders_pos has_status_def open_rows_Nil)

lemma risky_statuses_open:
  "open_status ''SUBMIT_UNKNOWN''" "open_status ''ACCOUNTING_PENDING''" "open_status ''RECOVERY_REQUIRED''"
  by (simp_all add: open_status_def OPEN_ORDER_STATUSES_def)

lemma gate_blocks_iff:
  "fst (evaluate_unresolved_order_gate now_ms max_age st) \<longleftrightarrow>
     (\<exists>r \<in> set (orders st). open_status (ord_status r))"
  unfolding evaluate_unresolved_order_gate_def Let_def risky_counts
  using risky_statuses_open has_status_open [of _ st] by auto

text \<open>
  The gate blocks exactly when some order has an open status, and names the most severe
  cause: an unknown submission first, then pending accounting, then required recovery, then
  an open order older than the limit, then any open order.
\<close>

theorem unresolved_gate_outcome:
  "let (blocked, code, _) = evaluate_unresolved_order_gate now_ms max_age st;
       age = oldest_unresolved_open_order_age_sec (collect_risky_order_state now_ms max_age st)
   in blocked = (\<exists>r \<in> set (orders st). open_status (ord_status r)) \<and>
     code = (if has_status ''SUBMIT_UNKNOWN'' st then ''SUBMIT_UNKNOWN_PRESENT''
       else if has_status ''ACCOUNTING_PENDING'' st then ''ACCOUNTING_PENDING_PRESENT''
       else if has_status ''RECOVERY_REQUIRED'' st then ''RECOVERY_REQUIRED_PRESENT''
       else if \<not> blocked then ''OK''
       else if flt (Fin (of_int (max 1 max_age))) age then ''STALE_UNRESOLVED_OPEN_ORDER''
       else ''UNRESOLVED_OPEN_ORDER_PRESENT'')"
  unfolding evaluate_unresolved_order_gate_def Let_def risky_counts
  using risky_statuses_open has_status_open [of _ st] by auto

lemma sorted_map_sort_key: "sorted (map f (sort_key f xs))"
  by simp

text \<open>
  The query of open orders returns every open order once, oldest first, and nothing
  else; it is empty exactly when the gate does not block.
\<close>

theorem open_orders_query:
  "mset (get_open_orders st) =
     image_mset open_order_of (filter_mset (\<lambda>r. open_status (ord_status r)) (mset (orders st))) \<and>
   sorted (map oo_created_ts (get_open_orders st)) \<and>
   (get_open_orders st = [] \<longleftrightarrow> \<not> fst (evaluate_unresolved_order_gate now_ms max_age st))"
proof -
  have "map oo_created_ts (map open_order_of rs) = map ord_created_ts rs" for rs
    by (simp add: open_order_of_def)
  then have "sorted (map oo_created_ts (get_open_orders st))"
    unfolding get_open_orders_def by (simp only: sorted_map_sort_key)
  moreover have "get_open_orders st = [] \<longleftrightarrow> \<not> (\<exists>r \<in> set (orders st). open_status (ord_status r))"
    unfolding open_rows_Nil [symmetric] by (simp add: get_open_orders_def flip: length_0_conv)
  moreover have "fst (evaluate_unresolved_order_gate now_ms max_age st) \<longleftrightarrow>
      (\<exists>r \<in> set (orders st). open_status (ord_status r))"
    by (rule gate_blocks_iff)
  ultimately show ?thesis
    by (simp add: get_open_orders_def open_status_def)
qed

subsection \<open>Suppressions\<close>

text \<open>Recording suppressions one after the other.\<close>

definition record_all :: "(int \<times> suppression_args) list \<Rightarrow> order_store \<Rightarrow> order_store" where
  "record_all rs st = foldl (\<lambda>st (now, a). fst (exec1 (record_order_suppression_store now a) st)) st rs"

lemma record_suppression_lookup:
  "find_suppression k (fst (exec1 (record_order_suppression_store now a) st)) =
     (if k = sa_suppression_key a
      then Some (case find_suppression k st of
          None \<Rightarrow> suppression_of_args now a
        | Some r \<Rightarrow> (suppression_of_args now a)\<lparr>sp_created_ts := sp_created_ts r,
            sp_seen_count := sp_seen_count r + 1\<rparr>)
      else find_suppression k st)"
proof -
  have key: "sp_suppression_key (suppression_of_args now a) = sa_suppression_key a"
    by (simp add: suppression_of_args_def)
  have app: "find P (xs @ [d]) = (case find P xs of Some x \<Rightarrow> Some x | None \<Rightarrow> if P d then Some d else None)"
    for P and xs :: "suppression_row list" and d by (induction xs) auto
  have upd: "find (\<lambda>r. sp_suppression_key r = k) (map (\<lambda>r. if sp_suppression_key r = sa_suppression_key a
      then (suppression_of_args now a)\<lparr>sp_created_ts := sp_created_ts r, sp_seen_count := sp_seen_count r + 1\<rparr>
      else r) rs) =
    (if k = sa_suppression_key a
     then map_option (\<lambda>r. (suppression_of_args now a)\<lparr>sp_created_ts := sp_created_ts r,
       sp_seen_count := sp_seen_count r + 1\<rparr>) (find (\<lambda>r. sp_suppression_key r = k) rs)
     else find (\<lambda>r. sp_suppression_key r = k) rs)" for rs
    by (induction rs) (auto simp: key)
  show ?thesis
    by (cases "find_suppression (sa_suppression_key a) st")
      (auto simp: exec1_def record_order_suppression_store_def find_suppression_def app upd key
        split: option.splits)
qed

lemma record_all_known:
  assumes "\<forall>(now, a) \<in> set rs. sa_suppression_key a = k" and "find_suppression k st = Some r"
  shows "\<exists>r'. find_suppression k (record_all rs st) = Some r' \<and>
    sp_seen_count r' = sp_seen_count r + int (length rs) \<and> sp_created_ts r' = sp_created_ts r"
  using assms
proof (induction rs arbitrary: st r)
  case Nil
  then show ?case by (simp add: record_all_def)
next
  case (Cons x rs)
  obtain now a where x: "x = (now, a)" by (cases x)
  let ?st = "fst (exec1 (record_order_suppression_store now a) st)"
  let ?r = "(suppression_of_args now a)\<lparr>sp_created_ts := sp_created_ts r, sp_seen_count := sp_seen_count r + 1\<rparr>"
  have "find_suppression k ?st = Some ?r"
    using Cons.prems by (simp add: record_suppression_lookup x)
  with Cons.IH [of ?st ?r] Cons.prems(1) show ?case
    by (auto simp: record_all_def x)
qed

text \<open>
  Suppressions with one key share one row: it counts how often the suppression was
  recorded, keeps the time of the first recording and shows the time of the last one.
\<close>

theorem suppression_count:
  assumes new: "find_suppression k st = None" and same: "\<forall>(now, a) \<in> set rs. sa_suppression_key a = k"
    and rs: "rs = (t0, a0) # mid" "rs = front @ [(t1, a1)]"
  shows "\<exists>r. find_suppression k (record_all rs st) = Some r \<and> sp_seen_count r = int (length rs) \<and>
    sp_created_ts r = t0 \<and> sp_updated_ts r = t1 \<and> sp_event_ts r = t1"
proof -
  let ?st = "fst (exec1 (record_order_suppression_store t0 a0) st)"
  have "find_suppression k ?st = Some (suppression_of_args t0 a0)"
    using new same rs(1) by (simp add: record_suppression_lookup)
  from record_all_known [OF _ this, of mid] same rs(1)
  obtain r where r: "find_suppression k (record_all rs st) = Some r"
    "sp_seen_count r = int (length rs)" "sp_created_ts r = t0"
    by (auto simp: record_all_def suppression_of_args_def)
  have "record_all rs st = fst (exec1 (record_order_suppression_store t1 a1) (record_all front st))"
    by (simp add: record_all_def rs(2))
  then have "sp_updated_ts r = t1 \<and> sp_event_ts r = t1"
    using r(1) same rs(2) by (auto simp: record_suppression_lookup suppression_of_args_def split: option.splits)
  with r show ?thesis by blast
qed

definition sample_suppression :: "string \<Rightarrow> suppression_args" where
  "sample_suppression k = \<lparr>
     sa_suppression_key = k, sa_event_kind = ''x'', sa_mode = ''x'', sa_strategy_context = ''x'',
     sa_strategy_name = ''x'', sa_signal = ''x'', sa_side = ''x'', sa_reason_code = ''x'', sa_reason
     = ''x'', sa_requested_qty = None, sa_normalized_qty = None, sa_market_price = None,
     sa_decision_id = None, sa_decision_reason = None, sa_exit_rule_name = None, sa_dust_present =
     False, sa_dust_allow_resume = False, sa_dust_effective_flat = False, sa_dust_state = None,
     sa_dust_action = None, sa_dust_signature = None, sa_qty_below_min = False,
     sa_normalized_non_positive = False, sa_normalized_below_min = False, sa_notional_below_min =
     False, sa_summary = None, sa_context = None\<rparr>"

theorem suppression_count_witness:
  "\<exists>r. find_suppression ''k''
      (record_all [(1, sample_suppression ''k''), (2, sample_suppression ''k'')] empty_store) = Some r \<and>
    sp_seen_count r = int (length [(1 :: int, sample_suppression ''k''), (2, sample_suppression ''k'')]) \<and>
    sp_created_ts r = 1 \<and> sp_updated_ts r = 2 \<and> sp_event_ts r = 2"
  by (rule suppression_count [where mid = "[(2, sample_suppression ''k'')]"
        and front = "[(1, sample_suppression ''k'')]"])
    (simp_all add: empty_store_def find_suppression_def sample_suppression_def)

subsection \<open>Slippage\<close>

lemma fsub_mono_left: "fle p q \<Longrightarrow> fle (fsub p (Fin x)) (fsub q (Fin x))"
  by (cases p; cases q) (auto simp: fsub_def rnd_mono)

text \<open>
  For a finite positive reference price, the slippage of a fill is defined on every
  finite fill price, is zero at the reference, and grows with the fill price for a purchase
  and falls with it for a sale, rounding and overflow of the doubles included.
\<close>

theorem fill_slippage_monotone:
  assumes x: "0 < x" and pq: "fle p q" "isfinite p" "isfinite q"
  shows "\<exists>a b a' b'. compute_fill_slippage_bps ''BUY'' (Fin x) p = Some a \<and>
    compute_fill_slippage_bps ''BUY'' (Fin x) q = Some b \<and> fle a b \<and>
    compute_fill_slippage_bps ''SELL'' (Fin x) p = Some a' \<and>
    compute_fill_slippage_bps ''SELL'' (Fin x) q = Some b' \<and> fle b' a' \<and>
    compute_fill_slippage_bps ''BUY'' (Fin x) (Fin x) = Some (Fin 0) \<and>
    compute_fill_slippage_bps ''SELL'' (Fin x) (Fin x) = Some (Fin 0)"
proof -
  let ?bps = "\<lambda>d. fmul (fdiv d (Fin x)) (Fin 10000)"
  have mono: "fle (?bps d) (?bps d')" if "fle d d'" for d d'
    using that x by (intro fmul_mono fdiv_mono) simp_all
  have "fle (?bps (fsub p (Fin x))) (?bps (fsub q (Fin x)))"
    "fle (?bps (fsub (Fin x) q)) (?bps (fsub (Fin x) p))"
    using pq(1) by (intro mono fsub_mono_left fsub_antimono; simp)+
  then show ?thesis
    using x pq(2,3) by (simp add: compute_fill_slippage_bps_def fsub_def)
qed

theorem fill_slippage_monotone_witness:
  "\<exists>a b a' b'. compute_fill_slippage_bps ''BUY'' (Fin 1000) (Fin 999) = Some a \<and>
    compute_fill_slippage_bps ''BUY'' (Fin 1000) (Fin 1001) = Some b \<and> fle a b \<and>
    compute_fill_slippage_bps ''SELL'' (Fin 1000) (Fin 999) = Some a' \<and>
    compute_fill_slippage_bps ''SELL'' (Fin 1000) (Fin 1001) = Some b' \<and> fle b' a' \<and>
    compute_fill_slippage_bps ''BUY'' (Fin 1000) (Fin 1000) = Some (Fin 0) \<and>
    compute_fill_slippage_bps ''SELL'' (Fin 1000) (Fin 1000) = Some (Fin 0)"
  by (rule fill_slippage_monotone) simp_all

end
