(* ===== verification/Submit_Authority.thy ===== *)
theory Submit_Authority
  imports Py_Value
begin

text \<open>
  The submit authority policy of \<open>src/src/operation/submit_authority_policy.py\<close>: which plans
  may be submitted under which settings, and the proof of an approved risk decision that a
  live order needs. A plan is its payload dictionary (\<open>plan.as_dict()\<close>) and whether the
  plan object has an \<open>as_final_payload\<close> method. Payloads come from JSON: a Python
  \<open>set\<close> does not occur in them. \<open>int(x)\<close> and \<open>float(x)\<close> of a payload field can raise
  \<open>OverflowError\<close>, which the code does not catch; the result type is \<open>py\<close>.
\<close>

subsection \<open>Settings and policy\<close>

record settings =
  MODE :: string
  LIVE_DRY_RUN :: bool
  LIVE_REAL_ORDER_ARMED :: bool
  EXECUTION_ENGINE :: string
  RESIDUAL_LIVE_SELL_MODE :: string

definition TARGET_DELTA_SUBMIT_SOURCE :: string where
  "TARGET_DELTA_SUBMIT_SOURCE = ''target_delta''"

definition TARGET_DELTA_SUBMIT_AUTHORITIES :: "string list" where
  "TARGET_DELTA_SUBMIT_AUTHORITIES = [''canonical_target_delta_sizing'', ''target_position_delta'']"

definition RESIDUAL_SUBMIT_SOURCE :: string where
  "RESIDUAL_SUBMIT_SOURCE = ''residual_inventory''"

definition RESIDUAL_SUBMIT_AUTHORITIES :: "string list" where
  "RESIDUAL_SUBMIT_AUTHORITIES = [''residual_inventory_policy'']"

definition LEGACY_BUY_SUBMIT_SOURCES :: "string list" where
  "LEGACY_BUY_SUBMIT_SOURCES = [''strategy_position'']"

definition LEGACY_BUY_SUBMIT_AUTHORITIES :: "string list" where
  "LEGACY_BUY_SUBMIT_AUTHORITIES =
     [''configured_strategy_order_size'', ''residual_inventory_delta'', ''strategy_execution_intent'',
      ''research_compatibility_execution_intent'']"

record submit_policy =
  submit_authority_mode :: string
  live_real_order_requires_target_delta :: bool
  legacy_lot_native_compat_enabled :: bool
  allowed_submit_plan_sources :: "string list"
  allowed_submit_plan_authorities :: "string list"

definition submit_policy_as_dict :: "submit_policy \<Rightarrow> pydict" where
  "submit_policy_as_dict p =
     [(''submit_authority_mode'', VStr (submit_authority_mode p)),
      (''live_real_order_requires_target_delta'', VBool (live_real_order_requires_target_delta p)),
      (''legacy_lot_native_compat_enabled'', VBool (legacy_lot_native_compat_enabled p)),
      (''allowed_submit_plan_sources'', VList (map VStr (allowed_submit_plan_sources p))),
      (''allowed_submit_plan_authorities'', VList (map VStr (allowed_submit_plan_authorities p)))]"

definition submit_authority_policy_hash :: "(string \<Rightarrow> string) \<Rightarrow> pydict \<Rightarrow> string" where
  "submit_authority_policy_hash sha payload = ''sha256:'' @ sha (json_compact True (VDict payload))"

definition submit_policy_content_hash :: "(string \<Rightarrow> string) \<Rightarrow> submit_policy \<Rightarrow> string" where
  "submit_policy_content_hash sha p = submit_authority_policy_hash sha (submit_policy_as_dict p)"

definition live_real_order_enabled :: "settings \<Rightarrow> bool" where
  "live_real_order_enabled s \<longleftrightarrow>
     py_lower (py_strip (MODE s)) = ''live'' \<and> \<not> LIVE_DRY_RUN s \<and> LIVE_REAL_ORDER_ARMED s"

definition submit_authority_policy_from_settings :: "settings \<Rightarrow> submit_policy" where
  "submit_authority_policy_from_settings s =
     (if live_real_order_enabled s then
        \<lparr>submit_authority_mode = ''live_real_order_target_delta_only'',
         live_real_order_requires_target_delta = True,
         legacy_lot_native_compat_enabled = False,
         allowed_submit_plan_sources = [TARGET_DELTA_SUBMIT_SOURCE, RESIDUAL_SUBMIT_SOURCE],
         allowed_submit_plan_authorities =
           sort (remdups (TARGET_DELTA_SUBMIT_AUTHORITIES @ RESIDUAL_SUBMIT_AUTHORITIES))\<rparr>
      else if py_lower (py_strip (MODE s)) = ''live'' then
        \<lparr>submit_authority_mode = ''live_dry_run_non_submitting_compat'',
         live_real_order_requires_target_delta = False,
         legacy_lot_native_compat_enabled = True,
         allowed_submit_plan_sources =
           sort (remdups ([TARGET_DELTA_SUBMIT_SOURCE, RESIDUAL_SUBMIT_SOURCE] @ LEGACY_BUY_SUBMIT_SOURCES)),
         allowed_submit_plan_authorities =
           sort (remdups (TARGET_DELTA_SUBMIT_AUTHORITIES @ RESIDUAL_SUBMIT_AUTHORITIES @
             LEGACY_BUY_SUBMIT_AUTHORITIES))\<rparr>
      else
        \<lparr>submit_authority_mode = ''paper_research_compat'',
         live_real_order_requires_target_delta = False,
         legacy_lot_native_compat_enabled = True,
         allowed_submit_plan_sources =
           sort (remdups ([TARGET_DELTA_SUBMIT_SOURCE, RESIDUAL_SUBMIT_SOURCE, ''research_backtest''] @
             LEGACY_BUY_SUBMIT_SOURCES)),
         allowed_submit_plan_authorities =
           sort (remdups (TARGET_DELTA_SUBMIT_AUTHORITIES @ RESIDUAL_SUBMIT_AUTHORITIES @
             LEGACY_BUY_SUBMIT_AUTHORITIES @ [''target_position_delta'']))\<rparr>)"

subsection \<open>The pre-submit risk proof\<close>

definition valid_sha256_prefixed :: "pyval \<Rightarrow> bool" where
  "valid_sha256_prefixed v =
     (let text = py_strip (py_str (py_or v (VStr [])))
      in py_startswith text ''sha256:'' \<and>
         (let digest = py_removeprefix text ''sha256:''
          in length digest = 64 \<and> (\<forall>c \<in> set (py_lower digest). c \<in> set ''0123456789abcdef'')))"

text \<open>\<open>isinstance(v, list) and any(_valid_sha256_prefixed(item) for item in v or [])\<close>, or the
  value itself.\<close>

definition policy_hash_present :: "pyval \<Rightarrow> bool" where
  "policy_hash_present v =
     ((case v of VList xs \<Rightarrow> \<exists>x \<in> set xs. valid_sha256_prefixed x | _ \<Rightarrow> False) \<or> valid_sha256_prefixed v)"

definition validate_pre_submit_risk_proof_integrity :: "pydict \<Rightarrow> string \<Rightarrow> string option" where
  "validate_pre_submit_risk_proof_integrity payload expected_submit_plan_hash =
     first_reason
       (map (\<lambda>f. (\<not> valid_sha256_prefixed (dget payload f), ''live_real_order_'' @ f @ ''_missing''))
          [''pre_submit_risk_decision_hash'', ''pre_submit_risk_policy_hash'',
           ''pre_submit_risk_input_hash'', ''pre_submit_risk_evidence_hash'',
           ''effective_pre_submit_risk_policy_hash''] @
        map (\<lambda>f. (py_strip (dstr payload f []) = [], ''live_real_order_'' @ f @ ''_missing''))
          [''pre_submit_risk_reason_code'', ''pre_submit_risk_state_source'', ''risk_policy_source'',
           ''pre_submit_risk_policy_composition_rule''] @
        [(\<not> (\<exists>f \<in> set [''strategy_risk_profile_hashes'', ''portfolio_risk_policy_hash'',
              ''operational_risk_policy_hash'', ''residual_risk_policy_hash'']. policy_hash_present (dget payload f)),
          ''live_real_order_pre_submit_explicit_policy_authority_hash_missing''),
         (py_strip expected_submit_plan_hash = [],
          ''live_real_order_pre_submit_expected_plan_hash_missing''),
         (py_strip (dstr payload ''pre_submit_risk_plan_hash'' []) \<noteq> expected_submit_plan_hash,
          ''live_real_order_pre_submit_risk_plan_hash_mismatch'')])"

definition pre_submit_allowed_actions :: "pydict \<Rightarrow> string set" where
  "pre_submit_allowed_actions payload =
     (let raw0 = (case dget payload ''pre_submit_risk_decision'' of
            VDict d \<Rightarrow> dget d ''allowed_actions'' | _ \<Rightarrow> VNone);
          raw = (if raw0 = VNone then dget payload ''pre_submit_risk_allowed_actions'' else raw0);
          actions = (case raw of VStr s \<Rightarrow> [VStr s] | VList xs \<Rightarrow> xs | VTuple xs \<Rightarrow> xs | _ \<Rightarrow> [])
      in set (map py_upper (filter (\<lambda>a. a \<noteq> []) (map (\<lambda>a. py_strip (py_str (py_or a (VStr [])))) actions))))"

definition evaluate_pre_submit_risk_action_authorization :: "pydict \<Rightarrow> string option py" where
  "evaluate_pre_submit_risk_action_authorization payload =
     (let status = py_upper (py_strip (dstr payload ''pre_submit_risk_status'' []))
      in if status = ''ALLOW'' then Inr None
         else if status = ''REDUCE_ONLY'' then
           (let side = py_upper (py_strip (dstr payload ''side'' []));
                source = py_strip (dstr payload ''source'' []);
                authority = py_strip (dstr payload ''authority'' []);
                reason_code = py_upper (py_strip (dstr payload ''pre_submit_risk_reason_code'' []))
            in bind_py (or_default (val_float (py_or (dget payload ''target_delta_qty'') (VFloat (Fin 0)))) (Fin 0))
              (\<lambda>target_delta_qty.
                if source = TARGET_DELTA_SUBMIT_SOURCE \<and> authority = ''canonical_target_delta_sizing'' \<and>
                   side = ''SELL'' \<and> truthy (dget payload ''submit_expected'') \<and>
                   flt target_delta_qty (Fin 0) \<and> reason_code = ''POSITION_LOSS_LIMIT'' \<and>
                   ''SELL'' \<in> pre_submit_allowed_actions payload
                then Inr None
                else Inr (Some ''live_real_order_pre_submit_risk_reduce_only_not_authorized_for_plan'')))
         else if status = ''REQUIRE_RECONCILE'' then
           Inr (Some ''live_real_order_pre_submit_risk_requires_reconcile'')
         else if status = ''BLOCK'' then Inr (Some ''live_real_order_pre_submit_risk_block'')
         else Inr (Some ''live_real_order_pre_submit_risk_not_allow''))"

record risk_approval =
  approved :: bool
  approval_reason :: string
  integrity_valid :: bool
  action_authorized :: bool
  approval_status :: string

definition is_pre_submit_risk_approved_for_plan :: "pydict \<Rightarrow> string \<Rightarrow> risk_approval py" where
  "is_pre_submit_risk_approved_for_plan payload expected_submit_plan_hash =
     (let status = py_upper (py_strip (dstr payload ''pre_submit_risk_status'' []))
      in case validate_pre_submit_risk_proof_integrity payload expected_submit_plan_hash of
           Some e \<Rightarrow> Inr \<lparr>approved = False, approval_reason = e, integrity_valid = False,
             action_authorized = False, approval_status = status\<rparr>
         | None \<Rightarrow> bind_py (evaluate_pre_submit_risk_action_authorization payload) (\<lambda>action_error.
             Inr (case action_error of
               Some e \<Rightarrow> \<lparr>approved = False, approval_reason = e, integrity_valid = True,
                 action_authorized = False, approval_status = status\<rparr>
             | None \<Rightarrow> \<lparr>approved = True, approval_reason = ''approved'', integrity_valid = True,
                 action_authorized = True, approval_status = status\<rparr>)))"

definition operational_pre_submit_risk_approval_error :: "pydict \<Rightarrow> string \<Rightarrow> string option py" where
  "operational_pre_submit_risk_approval_error payload expected_submit_plan_hash =
     bind_py (is_pre_submit_risk_approved_for_plan payload expected_submit_plan_hash) (\<lambda>a.
       Inr (if approved a then None else Some (approval_reason a)))"

subsection \<open>The decision\<close>

record submit_plan =
  plan_payload :: pydict
  has_final_payload :: bool

record submit_decision =
  sd_allowed :: bool
  sd_reason :: string
  sd_policy :: submit_policy
  sd_plan_kind :: string
  sd_mode :: string
  sd_live_dry_run :: bool
  sd_live_real_order_armed :: bool
  sd_execution_engine :: string
  sd_source :: string
  sd_authority :: string
  sd_side :: string
  sd_submit_expected :: bool
  sd_pre_submit_proof_status :: string
  sd_pre_submit_risk_approval_status :: string
  sd_pre_submit_risk_block_reason :: string
  sd_entry_authority_status :: string
  sd_entry_authority_reason_code :: string
  sd_position_management_authority_status :: string
  sd_closeout_authority_status :: string

definition submit_decision_as_dict :: "(string \<Rightarrow> string) \<Rightarrow> submit_decision \<Rightarrow> pydict" where
  "submit_decision_as_dict sha d =
     [(''allowed'', VBool (sd_allowed d)),
      (''reason'', VStr (sd_reason d)),
      (''plan_kind'', VStr (sd_plan_kind d)),
      (''mode'', VStr (sd_mode d)),
      (''live_dry_run'', VBool (sd_live_dry_run d)),
      (''live_real_order_armed'', VBool (sd_live_real_order_armed d)),
      (''execution_engine'', VStr (sd_execution_engine d)),
      (''source'', VStr (sd_source d)),
      (''authority'', VStr (sd_authority d)),
      (''side'', VStr (sd_side d)),
      (''submit_expected'', VBool (sd_submit_expected d)),
      (''pre_submit_proof_status'', VStr (sd_pre_submit_proof_status d)),
      (''pre_submit_risk_approval_status'', VStr (sd_pre_submit_risk_approval_status d)),
      (''pre_submit_risk_block_reason'', VStr (sd_pre_submit_risk_block_reason d)),
      (''entry_authority_status'', VStr (sd_entry_authority_status d)),
      (''entry_authority_reason_code'', VStr (sd_entry_authority_reason_code d)),
      (''position_management_authority_status'', VStr (sd_position_management_authority_status d)),
      (''closeout_authority_status'', VStr (sd_closeout_authority_status d)),
      (''submit_authority_mode'', VStr (submit_authority_mode (sd_policy d))),
      (''submit_authority_policy_hash'', VStr (submit_policy_content_hash sha (sd_policy d)))]"

definition final_payload_error :: "pydict \<Rightarrow> string option py" where
  "final_payload_error payload =
     bind_py (or_default (val_int (py_or (dget payload ''schema_version'') (VInt 0))) 0) (\<lambda>schema_version.
       Inr (first_reason
         [(schema_version \<noteq> 1, ''live_real_order_submit_plan_missing_final_schema''),
          (dstr payload ''authority_label'' [] \<noteq> ''ExecutionSubmitPlan.final_payload.v1'',
           ''live_real_order_submit_plan_missing_final_authority_label''),
          (\<not> valid_sha256_prefixed (dget payload ''content_hash''),
           ''live_real_order_submit_plan_missing_final_content_hash''),
          (\<not> valid_sha256_prefixed (dget payload ''submit_plan_hash''),
           ''live_real_order_submit_plan_missing_submit_plan_hash'')]))"

text \<open>The fields of the payload that the policy reads more than once.\<close>

definition plan_source :: "pydict \<Rightarrow> string" where
  "plan_source payload = py_strip (dstr payload ''source'' [])"

definition plan_authority :: "pydict \<Rightarrow> string" where
  "plan_authority payload = py_strip (dstr payload ''authority'' [])"

definition plan_side :: "pydict \<Rightarrow> string" where
  "plan_side payload = py_upper (py_strip (dstr payload ''side'' []))"

definition plan_proof :: "pydict \<Rightarrow> string" where
  "plan_proof payload = py_strip (dstr payload ''pre_submit_proof_status'' [])"

text \<open>The inner function \<open>decision\<close>: an allowed live order still needs an approved risk proof.\<close>

definition risk_proof_needed :: "settings \<Rightarrow> pydict \<Rightarrow> bool" where
  "risk_proof_needed s payload \<longleftrightarrow>
     live_real_order_requires_target_delta (submit_authority_policy_from_settings s) \<and>
     truthy (dget payload ''submit_expected'') \<and>
     (plan_source payload = TARGET_DELTA_SUBMIT_SOURCE \<or> truthy (dget payload ''pre_submit_risk_required''))"

definition submit_decision_of ::
  "settings \<Rightarrow> pydict \<Rightarrow> string \<Rightarrow> bool \<Rightarrow> string \<Rightarrow> submit_decision py" where
  "submit_decision_of s payload kind allowed reason =
     bind_py (if allowed \<and> risk_proof_needed s payload
       then bind_py (operational_pre_submit_risk_approval_error payload
              (py_strip (dstr payload ''submit_plan_hash'' [])))
            (\<lambda>e. Inr (e, if e = None then ''approved'' else ''blocked''))
       else Inr (None, ''not_required'')) (\<lambda>(risk_error, risk_status). Inr
       \<lparr>sd_allowed = (if risk_error = None then allowed else False),
        sd_reason = (case risk_error of None \<Rightarrow> reason | Some e \<Rightarrow> e),
        sd_policy = submit_authority_policy_from_settings s,
        sd_plan_kind = kind,
        sd_mode = py_lower (py_strip (MODE s)),
        sd_live_dry_run = LIVE_DRY_RUN s,
        sd_live_real_order_armed = LIVE_REAL_ORDER_ARMED s,
        sd_execution_engine = py_lower (py_strip (EXECUTION_ENGINE s)),
        sd_source = plan_source payload,
        sd_authority = plan_authority payload,
        sd_side = plan_side payload,
        sd_submit_expected = truthy (dget payload ''submit_expected''),
        sd_pre_submit_proof_status = plan_proof payload,
        sd_pre_submit_risk_approval_status = risk_status,
        sd_pre_submit_risk_block_reason = (case risk_error of None \<Rightarrow> ''none'' | Some e \<Rightarrow> e),
        sd_entry_authority_status = dstr payload ''entry_authority_status'' ''not_required'',
        sd_entry_authority_reason_code = dstr payload ''entry_authority_reason_code'' ''none'',
        sd_position_management_authority_status =
          dstr payload ''position_management_authority_status'' ''not_required'',
        sd_closeout_authority_status = dstr payload ''closeout_authority_status'' ''not_required''\<rparr>)"

text \<open>The chains of early returns, in the order of the source.\<close>

definition residual_guards :: "settings \<Rightarrow> pydict \<Rightarrow> (bool \<times> string) list" where
  "residual_guards s payload =
     [(plan_source payload \<noteq> RESIDUAL_SUBMIT_SOURCE, ''live_real_order_residual_plan_invalid_source''),
      (plan_authority payload \<notin> set RESIDUAL_SUBMIT_AUTHORITIES,
       ''live_real_order_residual_plan_invalid_authority''),
      (plan_side payload \<noteq> ''SELL'', ''live_real_order_residual_plan_invalid_side''),
      (\<not> truthy (dget payload ''submit_expected''), ''live_real_order_residual_plan_submit_not_expected''),
      (plan_proof payload \<noteq> ''passed'', ''live_real_order_residual_plan_pre_submit_proof_not_passed''),
      (py_lower (py_strip (RESIDUAL_LIVE_SELL_MODE s)) \<noteq> ''enabled'',
       ''live_real_order_residual_policy_not_enabled'')]"

definition target_guards :: "settings \<Rightarrow> pydict \<Rightarrow> (bool \<times> string) list" where
  "target_guards s payload =
     [(plan_source payload \<notin> set (allowed_submit_plan_sources (submit_authority_policy_from_settings s)),
       ''submit_plan_source_not_allowed_for_mode''),
      (plan_source payload \<noteq> TARGET_DELTA_SUBMIT_SOURCE, ''live_real_order_target_plan_invalid_source''),
      (plan_authority payload \<notin> set (allowed_submit_plan_authorities (submit_authority_policy_from_settings s)),
       ''submit_plan_authority_not_allowed_for_mode''),
      (plan_authority payload \<notin> set TARGET_DELTA_SUBMIT_AUTHORITIES,
       ''live_real_order_target_plan_invalid_authority''),
      (plan_side payload \<notin> {''BUY'', ''SELL''}, ''live_real_order_target_plan_invalid_side''),
      (\<not> truthy (dget payload ''submit_expected''), ''live_real_order_target_plan_submit_not_expected''),
      (plan_side payload = ''BUY'' \<and> dstr payload ''entry_authority_status'' [] = ''BLOCK'',
       ''target_delta_entry_without_strategy_buy_authority''),
      (plan_proof payload \<noteq> ''passed'', ''live_real_order_target_plan_pre_submit_proof_not_passed''),
      (\<not> truthy (dget payload ''portfolio_target_authoritative''),
       ''live_real_order_target_plan_missing_authoritative_portfolio_target''),
      (py_strip (dstr payload ''portfolio_target_hash'' []) = [],
       ''live_real_order_target_plan_missing_portfolio_target_hash''),
      (py_strip (dstr payload ''allocation_decision_hash'' []) = [],
       ''live_real_order_target_plan_missing_allocation_decision_hash''),
      (py_strip (dstr payload ''strategy_contribution_hash'' []) = [],
       ''live_real_order_target_plan_missing_strategy_contribution_hash'')]"

definition guarded_decision ::
  "settings \<Rightarrow> pydict \<Rightarrow> string \<Rightarrow> bool \<Rightarrow> (bool \<times> string) list \<Rightarrow> string \<Rightarrow> submit_decision py" where
  "guarded_decision s payload kind final_required guards ok =
     bind_py (if final_required then final_payload_error payload else Inr None) (\<lambda>final_error.
       case final_error of
         Some e \<Rightarrow> submit_decision_of s payload kind False e
       | None \<Rightarrow> (case first_reason guards of
           Some r \<Rightarrow> submit_decision_of s payload kind False r
         | None \<Rightarrow> submit_decision_of s payload kind True ok))"

definition evaluate_submit_authority_policy ::
  "submit_plan \<Rightarrow> settings \<Rightarrow> string \<Rightarrow> bool \<Rightarrow> submit_decision py" where
  "evaluate_submit_authority_policy plan s plan_kind require_final_payload =
     (let policy = submit_authority_policy_from_settings s;
          payload = plan_payload plan;
          kind = py_lower (py_strip plan_kind);
          final_required = (require_final_payload \<or> has_final_payload plan);
          decision = submit_decision_of s payload kind
      in if py_lower (py_strip (MODE s)) = ''live'' \<and> LIVE_DRY_RUN s
           then decision False ''live_dry_run_non_submitting''
         else if live_real_order_requires_target_delta policy then
           (if kind = ''residual'' then
              guarded_decision s payload kind final_required (residual_guards s payload)
                ''allowed_residual_inventory_policy''
            else if py_lower (py_strip (EXECUTION_ENGINE s)) \<noteq> ''target_delta'' then
              decision False ''live_real_order_requires_execution_engine_target_delta''
            else if kind = ''target'' then
              guarded_decision s payload kind final_required (target_guards s payload) ''allowed_target_delta''
            else if kind = ''buy'' then
              decision False ''live_real_order_buy_plan_rejected_target_delta_required''
            else if plan_source payload \<in> set LEGACY_BUY_SUBMIT_SOURCES then
              decision False ''live_real_order_legacy_source_rejected''
            else if plan_authority payload \<in> set LEGACY_BUY_SUBMIT_AUTHORITIES then
              decision False ''live_real_order_legacy_authority_rejected''
            else decision False ''live_real_order_submit_plan_kind_rejected'')
         else if plan_source payload \<notin> set (allowed_submit_plan_sources policy) then
           decision False ''submit_plan_source_not_allowed_for_mode''
         else if plan_authority payload \<notin> set (allowed_submit_plan_authorities policy) then
           decision False ''submit_plan_authority_not_allowed_for_mode''
         else decision True ''allowed_mode_compatibility'')"

definition live_real_order_legacy_buy_submit_plan_error :: "submit_plan \<Rightarrow> settings \<Rightarrow> string option" where
  "live_real_order_legacy_buy_submit_plan_error plan s =
     (if \<not> live_real_order_requires_target_delta (submit_authority_policy_from_settings s) then None
      else if plan_side (plan_payload plan) = ''BUY'' \<and>
          (plan_source (plan_payload plan) \<noteq> TARGET_DELTA_SUBMIT_SOURCE \<or>
           plan_authority (plan_payload plan) \<notin> set TARGET_DELTA_SUBMIT_AUTHORITIES)
        then Some ''live_real_order_buy_plan_rejected_target_delta_required''
      else None)"

lemmas submit_gate_defs [gate_defs] =
  evaluate_submit_authority_policy_def guarded_decision_def submit_decision_of_def
  residual_guards_def target_guards_def

end
