(* ===== verification/Submit_Properties.thy ===== *)
theory Submit_Properties
  imports Submit_Authority
begin

text \<open>
  What the submit authority policy guarantees: which plans a live runtime may submit, that a
  dry run submits nothing, and which risk decisions authorise an order.
\<close>

lemma policy_requires_target [simp]:
  "live_real_order_requires_target_delta (submit_authority_policy_from_settings s) \<longleftrightarrow>
     live_real_order_enabled s"
  by (simp add: submit_authority_policy_from_settings_def)

lemma live_enabled_mode:
  "live_real_order_enabled s \<Longrightarrow> py_lower (py_strip (MODE s)) = ''live'' \<and> \<not> LIVE_DRY_RUN s"
  by (simp add: live_real_order_enabled_def)

lemma submit_decision_rejected:
  "\<exists>d. submit_decision_of s payload kind False r = Inr d \<and> \<not> sd_allowed d \<and> sd_reason d = r"
  by (simp add: submit_decision_of_def)

lemma submit_decision_allowed_iff:
  "(\<exists>d. submit_decision_of s payload kind a r = Inr d \<and> sd_allowed d) \<longleftrightarrow>
     a \<and> (risk_proof_needed s payload \<longrightarrow> operational_pre_submit_risk_approval_error payload
       (py_strip (dstr payload ''submit_plan_hash'' [])) = Inr None)"
proof (cases "a \<and> risk_proof_needed s payload")
  case True
  then show ?thesis
    by (cases "operational_pre_submit_risk_approval_error payload (py_strip (dstr payload ''submit_plan_hash'' []))")
      (simp_all add: submit_decision_of_def)
next
  case False
  then show ?thesis by (auto simp: submit_decision_of_def)
qed

lemma guarded_decision_allowed_iff:
  "(\<exists>d. guarded_decision s payload kind fin guards ok = Inr d \<and> sd_allowed d) \<longleftrightarrow>
     (fin \<longrightarrow> final_payload_error payload = Inr None) \<and> (\<forall>g \<in> set guards. \<not> fst g) \<and>
     (risk_proof_needed s payload \<longrightarrow> operational_pre_submit_risk_approval_error payload
       (py_strip (dstr payload ''submit_plan_hash'' [])) = Inr None)"
proof -
  have "(\<exists>d. (case first_reason guards of
        Some r \<Rightarrow> submit_decision_of s payload kind False r
      | None \<Rightarrow> submit_decision_of s payload kind True ok) = Inr d \<and> sd_allowed d) \<longleftrightarrow>
      (\<forall>g \<in> set guards. \<not> fst g) \<and>
      (risk_proof_needed s payload \<longrightarrow> operational_pre_submit_risk_approval_error payload
       (py_strip (dstr payload ''submit_plan_hash'' [])) = Inr None)"
    using submit_decision_allowed_iff [of s payload kind]
    by (auto simp: first_reason_None_iff [symmetric] split: option.splits)
  then show ?thesis
    using submit_decision_allowed_iff [of s payload kind False]
    by (cases "final_payload_error payload") (auto simp: guarded_decision_def split: option.splits)
qed

text \<open>The plans that the risk proof authorises.\<close>

definition reduce_only_sell :: "pydict \<Rightarrow> bool" where
  "reduce_only_sell p \<longleftrightarrow> plan_source p = ''target_delta'' \<and>
     plan_authority p = ''canonical_target_delta_sizing'' \<and> plan_side p = ''SELL'' \<and>
     truthy (dget p ''submit_expected'') \<and>
     (\<exists>q. or_default (val_float (py_or (dget p ''target_delta_qty'') (VFloat (Fin 0)))) (Fin 0) = Inr q \<and>
        flt q (Fin 0)) \<and>
     py_upper (py_strip (dstr p ''pre_submit_risk_reason_code'' [])) = ''POSITION_LOSS_LIMIT'' \<and>
     ''SELL'' \<in> pre_submit_allowed_actions p"

definition risk_status_of :: "pydict \<Rightarrow> string" where
  "risk_status_of p = py_upper (py_strip (dstr p ''pre_submit_risk_status'' []))"

lemma risk_approval_iff:
  "operational_pre_submit_risk_approval_error p h = Inr None \<longleftrightarrow>
     validate_pre_submit_risk_proof_integrity p h = None \<and>
     (risk_status_of p = ''ALLOW'' \<or> risk_status_of p = ''REDUCE_ONLY'' \<and> reduce_only_sell p)"
proof -
  let ?q = "or_default (val_float (py_or (dget p ''target_delta_qty'') (VFloat (Fin 0)))) (Fin 0)"
  have act: "evaluate_pre_submit_risk_action_authorization p = Inr None \<longleftrightarrow>
      risk_status_of p = ''ALLOW'' \<or> risk_status_of p = ''REDUCE_ONLY'' \<and> reduce_only_sell p"
    by (cases ?q)
      (simp_all add: evaluate_pre_submit_risk_action_authorization_def Let_def risk_status_of_def
        reduce_only_sell_def plan_source_def plan_authority_def plan_side_def TARGET_DELTA_SUBMIT_SOURCE_def)
  show ?thesis
  proof (cases "validate_pre_submit_risk_proof_integrity p h")
    case None
    then show ?thesis
      unfolding act [symmetric]
      by (cases "evaluate_pre_submit_risk_action_authorization p")
        (simp_all add: operational_pre_submit_risk_approval_error_def
          is_pre_submit_risk_approved_for_plan_def Let_def split: option.split)
  next
    case (Some e)
    then show ?thesis
      by (simp add: operational_pre_submit_risk_approval_error_def
          is_pre_submit_risk_approved_for_plan_def Let_def)
  qed
qed

lemma live_target_eq:
  assumes live: "live_real_order_enabled s" and kind: "py_lower (py_strip plan_kind) = ''target''"
    and "py_lower (py_strip (EXECUTION_ENGINE s)) = ''target_delta''"
  shows "evaluate_submit_authority_policy plan s plan_kind fin =
    guarded_decision s (plan_payload plan) ''target'' (fin \<or> has_final_payload plan) (target_guards s (plan_payload plan))
      ''allowed_target_delta''"
  using live_enabled_mode [OF live] assms(3)
  by (simp add: evaluate_submit_authority_policy_def Let_def live kind)


text \<open>Settings, hashes and plans for the examples.\<close>

definition armed_settings :: settings where
  "armed_settings = \<lparr>MODE = ''live'', LIVE_DRY_RUN = False, LIVE_REAL_ORDER_ARMED = True,
     EXECUTION_ENGINE = ''target_delta'', RESIDUAL_LIVE_SELL_MODE = ''enabled''\<rparr>"

definition sample_hash :: pyval where
  "sample_hash = VStr (''sha256:'' @ replicate 64 (CHR ''a''))"

definition sample_risk_fields :: pydict where
  "sample_risk_fields =
     [(''pre_submit_risk_decision_hash'', sample_hash), (''pre_submit_risk_policy_hash'', sample_hash),
      (''pre_submit_risk_input_hash'', sample_hash), (''pre_submit_risk_evidence_hash'', sample_hash),
      (''effective_pre_submit_risk_policy_hash'', sample_hash),
      (''pre_submit_risk_reason_code'', VStr ''OK''), (''pre_submit_risk_state_source'', VStr ''broker''),
      (''risk_policy_source'', VStr ''config''), (''pre_submit_risk_policy_composition_rule'', VStr ''strictest''),
      (''portfolio_risk_policy_hash'', sample_hash), (''pre_submit_risk_plan_hash'', sample_hash),
      (''submit_plan_hash'', sample_hash), (''pre_submit_risk_status'', VStr ''ALLOW'')]"

definition sample_target_plan :: submit_plan where
  "sample_target_plan = \<lparr>plan_payload =
     [(''source'', VStr ''target_delta''), (''authority'', VStr ''canonical_target_delta_sizing''),
      (''side'', VStr ''buy''), (''submit_expected'', VBool True), (''pre_submit_proof_status'', VStr ''passed''),
      (''portfolio_target_authoritative'', VBool True), (''portfolio_target_hash'', VStr ''h1''),
      (''allocation_decision_hash'', VStr ''h2''), (''strategy_contribution_hash'', VStr ''h3'')] @
     sample_risk_fields, has_final_payload = False\<rparr>"


text \<open>
  A live dry run submits nothing: whatever the plan and the other settings, the policy
  returns a refusal and never raises.
\<close>

theorem live_dry_run_never_submits:
  assumes "py_lower (py_strip (MODE s)) = ''live''" and "LIVE_DRY_RUN s"
  shows "\<exists>d. evaluate_submit_authority_policy plan s plan_kind fin = Inr d \<and> \<not> sd_allowed d \<and>
    sd_reason d = ''live_dry_run_non_submitting''"
  using assms submit_decision_rejected by (simp add: evaluate_submit_authority_policy_def Let_def)

theorem live_dry_run_never_submits_witness:
  "\<exists>d. evaluate_submit_authority_policy sample_target_plan (armed_settings\<lparr>LIVE_DRY_RUN := True\<rparr>) ''target'' False =
     Inr d \<and> \<not> sd_allowed d \<and> sd_reason d = ''live_dry_run_non_submitting''"
  by (rule live_dry_run_never_submits) code_simp+

lemma live_residual_eq:
  assumes live: "live_real_order_enabled s" and kind: "py_lower (py_strip plan_kind) = ''residual''"
  shows "evaluate_submit_authority_policy plan s plan_kind fin =
    guarded_decision s (plan_payload plan) ''residual'' (fin \<or> has_final_payload plan)
      (residual_guards s (plan_payload plan)) ''allowed_residual_inventory_policy''"
  using live_enabled_mode [OF live]
  by (simp add: evaluate_submit_authority_policy_def Let_def live kind)

text \<open>
  A runtime armed for live orders accepts a residual plan exactly when residual live
  sales are enabled, the plan sells from the residual source with the residual authority,
  expects a submission, has a passed proof and, where required, a complete final payload; a
  risk proof is demanded only of a residual plan that asks for one itself.
\<close>

theorem live_residual_plan_allowed_iff:
  assumes live: "live_real_order_enabled s" and kind: "py_lower (py_strip plan_kind) = ''residual''"
  shows "(\<exists>d. evaluate_submit_authority_policy plan s plan_kind fin = Inr d \<and> sd_allowed d) \<longleftrightarrow>
    (let p = plan_payload plan in
     (fin \<or> has_final_payload plan \<longrightarrow> final_payload_error p = Inr None) \<and>
     plan_source p = ''residual_inventory'' \<and> plan_authority p = ''residual_inventory_policy'' \<and>
     plan_side p = ''SELL'' \<and> truthy (dget p ''submit_expected'') \<and> plan_proof p = ''passed'' \<and>
     py_lower (py_strip (RESIDUAL_LIVE_SELL_MODE s)) = ''enabled'' \<and>
     (truthy (dget p ''pre_submit_risk_required'') \<longrightarrow>
       validate_pre_submit_risk_proof_integrity p (py_strip (dstr p ''submit_plan_hash'' [])) = None \<and>
       risk_status_of p = ''ALLOW''))"
proof -
  let ?p = "plan_payload plan"
  have "risk_proof_needed s ?p \<longleftrightarrow> truthy (dget ?p ''pre_submit_risk_required'')"
    and "\<not> reduce_only_sell ?p"
    if "plan_source ?p = ''residual_inventory''" "truthy (dget ?p ''submit_expected'')"
    using that live
    by (simp_all add: risk_proof_needed_def TARGET_DELTA_SUBMIT_SOURCE_def reduce_only_sell_def)
  then show ?thesis
    unfolding live_residual_eq [OF live kind] guarded_decision_allowed_iff risk_approval_iff Let_def
    by (auto simp: residual_guards_def RESIDUAL_SUBMIT_SOURCE_def RESIDUAL_SUBMIT_AUTHORITIES_def)
qed

definition sample_residual_plan :: submit_plan where
  "sample_residual_plan = \<lparr>plan_payload =
     [(''source'', VStr ''residual_inventory''), (''authority'', VStr ''residual_inventory_policy''),
      (''side'', VStr ''SELL''), (''submit_expected'', VBool True),
      (''pre_submit_proof_status'', VStr ''passed'')], has_final_payload = False\<rparr>"

theorem live_residual_plan_allowed_iff_witness:
  "\<exists>d. evaluate_submit_authority_policy sample_residual_plan armed_settings ''residual'' False = Inr d \<and> sd_allowed d"
proof -
  have "live_real_order_enabled armed_settings" "py_lower (py_strip ''residual'') = ''residual''"
    by code_simp+
  note iff = live_residual_plan_allowed_iff [OF this, of sample_residual_plan False]
  have "\<not> has_final_payload sample_residual_plan"
    "let p = plan_payload sample_residual_plan in
     plan_source p = ''residual_inventory'' \<and> plan_authority p = ''residual_inventory_policy'' \<and>
     plan_side p = ''SELL'' \<and> truthy (dget p ''submit_expected'') \<and> plan_proof p = ''passed'' \<and>
     py_lower (py_strip (RESIDUAL_LIVE_SELL_MODE armed_settings)) = ''enabled'' \<and>
     \<not> truthy (dget p ''pre_submit_risk_required'')"
    by code_simp+
  then show ?thesis unfolding iff Let_def by simp
qed

lemma submit_decision_side:
  "submit_decision_of s payload kind a r = Inr d \<Longrightarrow> sd_side d = plan_side payload"
  by (auto simp: submit_decision_of_def bind_py_Inr_iff split: if_splits)

lemma guarded_decision_side:
  "guarded_decision s payload kind fin guards ok = Inr d \<Longrightarrow> sd_side d = plan_side payload"
  by (auto simp: guarded_decision_def bind_py_Inr_iff submit_decision_side split: option.splits)

lemma live_plan_cases:
  assumes live: "live_real_order_enabled s"
    and d: "evaluate_submit_authority_policy plan s plan_kind fin = Inr d" "sd_allowed d"
  shows "py_lower (py_strip plan_kind) = ''residual'' \<or>
    py_lower (py_strip plan_kind) = ''target'' \<and>
    guarded_decision s (plan_payload plan) ''target'' (fin \<or> has_final_payload plan)
      (target_guards s (plan_payload plan)) ''allowed_target_delta'' = Inr d"
proof (rule ccontr)
  assume "\<not> ?thesis"
  then obtain kind r where "submit_decision_of s (plan_payload plan) kind False r = Inr d"
    using d(1) live_enabled_mode [OF live] live
    by (auto simp: evaluate_submit_authority_policy_def Let_def split: if_splits)
  with d(2) submit_decision_rejected [of s "plan_payload plan" kind r] show False by auto
qed

text \<open>
  A live purchase only passes as a target plan from the target-delta source with an
  intact risk proof and the risk status ALLOW; it also passes the guard against legacy
  purchases.
\<close>

theorem live_purchase_needs_full_approval:
  assumes live: "live_real_order_enabled s"
    and d: "evaluate_submit_authority_policy plan s plan_kind fin = Inr d" "sd_allowed d"
    and buy: "sd_side d = ''BUY''"
  shows "py_lower (py_strip plan_kind) = ''target'' \<and>
    live_real_order_legacy_buy_submit_plan_error plan s = None \<and>
    risk_status_of (plan_payload plan) = ''ALLOW'' \<and>
    validate_pre_submit_risk_proof_integrity (plan_payload plan)
      (py_strip (dstr (plan_payload plan) ''submit_plan_hash'' [])) = None"
proof -
  let ?p = "plan_payload plan"
  have "py_lower (py_strip plan_kind) \<noteq> ''residual''"
  proof
    assume kind: "py_lower (py_strip plan_kind) = ''residual''"
    note eq = live_residual_eq [OF live kind, of plan fin]
    have "\<forall>g \<in> set (residual_guards s ?p). \<not> fst g"
      using d guarded_decision_allowed_iff [of s ?p "''residual''"] eq by metis
    moreover have "plan_side ?p = ''BUY''"
      using guarded_decision_side d(1) buy eq by metis
    ultimately show False by (simp add: residual_guards_def)
  qed
  with live_plan_cases [OF live d]
  have kind: "py_lower (py_strip plan_kind) = ''target''"
    and g: "guarded_decision s ?p ''target'' (fin \<or> has_final_payload plan) (target_guards s ?p)
      ''allowed_target_delta'' = Inr d" by simp_all
  have side: "plan_side ?p = ''BUY''" using guarded_decision_side [OF g] buy by simp
  have "\<exists>d. guarded_decision s ?p ''target'' (fin \<or> has_final_payload plan) (target_guards s ?p)
      ''allowed_target_delta'' = Inr d \<and> sd_allowed d"
    using g d(2) by blast
  then have guards: "\<forall>g \<in> set (target_guards s ?p). \<not> fst g"
    and risk: "risk_proof_needed s ?p \<longrightarrow> operational_pre_submit_risk_approval_error ?p
      (py_strip (dstr ?p ''submit_plan_hash'' [])) = Inr None"
    unfolding guarded_decision_allowed_iff by simp_all
  from guards have "risk_proof_needed s ?p"
    using live by (simp add: target_guards_def risk_proof_needed_def)
  with risk guards kind side show ?thesis
    unfolding risk_approval_iff
    by (simp add: live_real_order_legacy_buy_submit_plan_error_def live target_guards_def reduce_only_sell_def)
qed

theorem live_purchase_needs_full_approval_witness:
  "risk_status_of (plan_payload sample_target_plan) = ''ALLOW''"
proof -
  have e: "live_real_order_enabled armed_settings"
    "map_sum (\<lambda>e. ()) (\<lambda>d. (sd_allowed d, sd_side d))
       (evaluate_submit_authority_policy sample_target_plan armed_settings ''target'' False) =
     Inr (True, ''BUY'')"
    by code_simp+
  then obtain d where "evaluate_submit_authority_policy sample_target_plan armed_settings ''target'' False = Inr d"
    "sd_allowed d" "sd_side d = ''BUY''"
    by (auto simp: map_sum_def split: sum.splits)
  from live_purchase_needs_full_approval [OF e(1) this] show ?thesis by simp
qed

text \<open>
  In live mode with the dry run switched off but real orders not armed, the policy is
  still named a non-submitting one, and yet every plan whose source and authority are listed
  is allowed without any proof, the legacy ones included.
\<close>

theorem unarmed_live_allows_unproven_plans:
  assumes "py_lower (py_strip (MODE s)) = ''live''" and "\<not> LIVE_DRY_RUN s" and "\<not> LIVE_REAL_ORDER_ARMED s"
    and "plan_source (plan_payload plan) \<in> {''target_delta'', ''residual_inventory'', ''strategy_position''}"
    and "plan_authority (plan_payload plan) \<in> set TARGET_DELTA_SUBMIT_AUTHORITIES \<union>
      set RESIDUAL_SUBMIT_AUTHORITIES \<union> set LEGACY_BUY_SUBMIT_AUTHORITIES"
  shows "\<exists>d. evaluate_submit_authority_policy plan s plan_kind fin = Inr d \<and> sd_allowed d \<and>
    sd_reason d = ''allowed_mode_compatibility'' \<and>
    submit_authority_mode (sd_policy d) = ''live_dry_run_non_submitting_compat''"
proof -
  have off: "\<not> live_real_order_enabled s" using assms(3) by (simp add: live_real_order_enabled_def)
  have "evaluate_submit_authority_policy plan s plan_kind fin =
      submit_decision_of s (plan_payload plan) (py_lower (py_strip plan_kind)) True ''allowed_mode_compatibility''"
    using assms off
    by (auto simp: evaluate_submit_authority_policy_def Let_def submit_authority_policy_from_settings_def
        TARGET_DELTA_SUBMIT_SOURCE_def RESIDUAL_SUBMIT_SOURCE_def LEGACY_BUY_SUBMIT_SOURCES_def)
  then show ?thesis
    using assms(1) off
    by (simp add: submit_decision_of_def risk_proof_needed_def submit_authority_policy_from_settings_def)
qed

theorem unarmed_live_allows_unproven_plans_witness:
  "\<exists>d. evaluate_submit_authority_policy
      \<lparr>plan_payload = [(''source'', VStr ''strategy_position''), (''authority'', VStr ''strategy_execution_intent'')],
       has_final_payload = False\<rparr>
      (armed_settings\<lparr>LIVE_REAL_ORDER_ARMED := False\<rparr>) ''buy'' False = Inr d \<and> sd_allowed d \<and>
    sd_reason d = ''allowed_mode_compatibility'' \<and>
    submit_authority_mode (sd_policy d) = ''live_dry_run_non_submitting_compat''"
  by (rule unarmed_live_allows_unproven_plans) code_simp+

end
