(* ===== verification/Risk.thy ===== *)
theory Risk
  imports Py_Value
begin

text \<open>
  The risk taxonomy of \<open>src/src/operation/risk.py\<close> (\<open>evaluate_pure_risk\<close>), the risk data types
  of \<open>src/src/operation/risk_contract.py\<close> and the engine of
  \<open>src/src/operation/risk_policy_engine.py\<close>. Money, prices and quantities are doubles, absent ones
  \<open>None\<close>. The fields of a drawdown metric can come from a dictionary
  (\<open>RiskSnapshot.__post_init__\<close>) and are Python values. SHA-256 is the parameter \<open>sha\<close>.
\<close>

subsection \<open>Pure risk\<close>

definition POSITION_EPSILON :: pyfloat where
  "POSITION_EPSILON = lit 1 (-12)"

record pure_risk_input =
  pi_evaluation_ts_ms :: int
  pi_current_equity :: "pyfloat option"
  pi_baseline_equity :: "pyfloat option"
  pi_loss_today :: "pyfloat option"
  pi_max_daily_loss_krw :: pyfloat
  pi_mark_price :: pyfloat
  pi_current_cash_krw :: "pyfloat option"
  pi_current_asset_qty :: "pyfloat option"
  pi_position_entry_price :: "pyfloat option"
  pi_max_position_loss_pct :: pyfloat
  pi_broker_local_mismatch :: bool
  pi_recovery_risk_mismatch_reason :: "string option"

record pure_risk_evaluation =
  pe_blocked :: bool
  pe_reason_code :: string
  pe_reason :: string
  pe_daily_loss :: "pyfloat option"
  pe_position_loss_pct :: "pyfloat option"

definition mismatch_reason :: "string option \<Rightarrow> string" where
  "mismatch_reason r = py_strip (or_str r [])"

text \<open>The loss of the day that the daily limit is compared with.\<close>

definition pure_loss_today :: "pure_risk_input \<Rightarrow> pyfloat option" where
  "pure_loss_today i =
     (case pi_loss_today i of
        Some l \<Rightarrow> Some (fmax (Fin 0) l)
      | None \<Rightarrow>
          (case (pi_baseline_equity i, pi_current_equity i) of
             (Some b, Some c) \<Rightarrow> Some (fmax (Fin 0) (fsub b c))
           | _ \<Rightarrow> None))"

definition position_loss_pct :: "pyfloat \<Rightarrow> pyfloat \<Rightarrow> pyfloat" where
  "position_loss_pct entry_price mark_price =
     fmax (Fin 0) (fmul (fdiv (fsub entry_price mark_price) entry_price) (Fin 100))"

definition evaluate_pure_risk :: "pure_risk_input \<Rightarrow> pure_risk_evaluation" where
  "evaluate_pure_risk i =
     (let mismatch = mismatch_reason (pi_recovery_risk_mismatch_reason i);
          max_daily_loss = pi_max_daily_loss_krw i;
          daily_breach = (if flt (Fin 0) max_daily_loss
            then case pure_loss_today i of Some l \<Rightarrow> if fle max_daily_loss l then Some l else None | None \<Rightarrow> None
            else None);
          qty = or_zero (pi_current_asset_qty i);
          entry_price = or_zero (pi_position_entry_price i);
          mark_price = pi_mark_price i;
          threshold_pct = pi_max_position_loss_pct i;
          loss_pct = position_loss_pct entry_price mark_price
      in if pi_broker_local_mismatch i \<or> mismatch \<noteq> [] then
           \<lparr>pe_blocked = True, pe_reason_code = ''RISK_STATE_MISMATCH'',
            pe_reason = ''risk state mismatch ('' @
              (if mismatch = [] then ''broker/local portfolio mismatch'' else mismatch) @ '')'',
            pe_daily_loss = None, pe_position_loss_pct = None\<rparr>
         else case daily_breach of
           Some loss_today \<Rightarrow>
             \<lparr>pe_blocked = True, pe_reason_code = ''DAILY_LOSS_LIMIT'',
              pe_reason = ''daily loss limit exceeded ('' @ py_fixed True 0 loss_today @ ''/'' @
                py_fixed True 0 max_daily_loss @ '' KRW)'',
              pe_daily_loss = Some loss_today, pe_position_loss_pct = None\<rparr>
         | None \<Rightarrow>
             if flt (Fin 0) threshold_pct \<and> flt POSITION_EPSILON qty \<and> flt (Fin 0) entry_price \<and>
                flt (Fin 0) mark_price \<and> fle threshold_pct loss_pct then
               \<lparr>pe_blocked = True, pe_reason_code = ''POSITION_LOSS_LIMIT'',
                pe_reason = ''position loss threshold breached ('' @ py_fixed False 2 loss_pct @ ''%/'' @
                  py_fixed False 2 threshold_pct @ ''%, entry='' @ py_fixed True 0 entry_price @
                  '', mark='' @ py_fixed True 0 mark_price @ '')'',
                pe_daily_loss = None, pe_position_loss_pct = Some loss_pct\<rparr>
             else \<lparr>pe_blocked = False, pe_reason_code = ''OK'', pe_reason = ''ok'',
               pe_daily_loss = None, pe_position_loss_pct = None\<rparr>)"

subsection \<open>Policy, metric and snapshot\<close>

record risk_policy =
  rp_schema_version :: int
  rp_max_daily_loss_krw :: pyfloat
  rp_max_position_loss_pct :: pyfloat
  rp_max_daily_order_count :: int
  rp_max_trade_count_per_day :: int
  rp_max_drawdown_pct :: pyfloat
  rp_cooldown_after_loss_min :: int
  rp_kill_switch :: bool
  rp_max_open_positions :: int
  rp_unresolved_order_policy :: string
  rp_policy_status :: string
  rp_missing_policy :: string
  rp_source :: string

definition risk_policy_as_dict :: "risk_policy \<Rightarrow> pydict" where
  "risk_policy_as_dict p =
     [(''schema_version'', VInt (rp_schema_version p)),
      (''max_daily_loss_krw'', VFloat (rp_max_daily_loss_krw p)),
      (''max_position_loss_pct'', VFloat (rp_max_position_loss_pct p)),
      (''max_daily_order_count'', VInt (rp_max_daily_order_count p)),
      (''max_trade_count_per_day'', VInt (rp_max_trade_count_per_day p)),
      (''max_drawdown_pct'', VFloat (rp_max_drawdown_pct p)),
      (''cooldown_after_loss_min'', VInt (rp_cooldown_after_loss_min p)),
      (''kill_switch'', VBool (rp_kill_switch p)),
      (''max_open_positions'', VInt (rp_max_open_positions p)),
      (''unresolved_order_policy'', VStr (rp_unresolved_order_policy p)),
      (''policy_status'', VStr (rp_policy_status p)),
      (''missing_policy'', VStr (rp_missing_policy p)),
      (''source'', VStr (rp_source p))]"

definition effective_limits :: "risk_policy \<Rightarrow> pydict" where
  "effective_limits p =
     [(''max_daily_loss_krw'', VFloat (rp_max_daily_loss_krw p)),
      (''max_position_loss_pct'', VFloat (rp_max_position_loss_pct p)),
      (''max_daily_order_count'', VInt (rp_max_daily_order_count p)),
      (''max_trade_count_per_day'', VInt (rp_max_trade_count_per_day p)),
      (''max_drawdown_pct'', VFloat (rp_max_drawdown_pct p)),
      (''cooldown_after_loss_min'', VInt (rp_cooldown_after_loss_min p)),
      (''max_open_positions'', VInt (rp_max_open_positions p)),
      (''kill_switch'', VBool (rp_kill_switch p)),
      (''unresolved_order_policy'', VStr (rp_unresolved_order_policy p)),
      (''risk_policy_status'', VStr (rp_policy_status p))]"

definition risk_policy_hash :: "(string \<Rightarrow> string) \<Rightarrow> risk_policy \<Rightarrow> string" where
  "risk_policy_hash sha p = canonical_payload_hash sha (VDict (risk_policy_as_dict p))"

record risk_metric =
  rm_value :: pyval
  rm_unit :: pyval
  rm_scope :: pyval
  rm_denominator_kind :: pyval
  rm_denominator_value :: pyval
  rm_sample_count :: int
  rm_state :: pyval
  rm_source_table :: string
  rm_formula_version :: string
  rm_reason_code :: string

definition risk_metric_as_dict :: "risk_metric \<Rightarrow> pydict" where
  "risk_metric_as_dict m =
     [(''value'', rm_value m), (''unit'', rm_unit m), (''scope'', rm_scope m),
      (''denominator_kind'', rm_denominator_kind m), (''denominator_value'', rm_denominator_value m),
      (''sample_count'', VInt (rm_sample_count m)), (''state'', rm_state m),
      (''source_table'', VStr (rm_source_table m)), (''formula_version'', VStr (rm_formula_version m)),
      (''reason_code'', VStr (rm_reason_code m))]"

text \<open>\<open>RiskSnapshot.__post_init__\<close> on a metric given as a dictionary.\<close>

definition risk_metric_of_dict :: "pydict \<Rightarrow> risk_metric py" where
  "risk_metric_of_dict d =
     bind_py (val_int (py_or (dget_or d ''sample_count'' (VInt 0)) (VInt 0))) (\<lambda>n. Inr
       \<lparr>rm_value = dget d ''value'',
        rm_unit = dget_or d ''unit'' (VStr ''percent_point''),
        rm_scope = dget_or d ''scope'' (VStr ''risk_scope''),
        rm_denominator_kind = dget_or d ''denominator_kind'' (VStr ''allocated_capital''),
        rm_denominator_value = dget d ''denominator_value'',
        rm_sample_count = n,
        rm_state = dget_or d ''state'' (VStr ''undefined''),
        rm_source_table = dstr d ''source_table'' [],
        rm_formula_version = dstr d ''formula_version'' [],
        rm_reason_code = dstr d ''reason_code'' []\<rparr>)"

record risk_limit =
  rl_value :: pyfloat
  rl_unit :: string
  rl_scope :: string
  rl_reason_code :: string

definition risk_limit_as_dict :: "risk_limit \<Rightarrow> pydict" where
  "risk_limit_as_dict l = [(''value'', VFloat (rl_value l)), (''unit'', VStr (rl_unit l)),
     (''scope'', VStr (rl_scope l)), (''reason_code'', VStr (rl_reason_code l))]"

record risk_comparison =
  rc_exceeded :: bool
  rc_reason_code :: string
  rc_metric :: risk_metric
  rc_limit :: risk_limit

definition risk_comparison_as_dict :: "risk_comparison \<Rightarrow> pydict" where
  "risk_comparison_as_dict c = [(''exceeded'', VBool (rc_exceeded c)),
     (''reason_code'', VStr (rc_reason_code c)),
     (''metric'', VDict (risk_metric_as_dict (rc_metric c))),
     (''limit'', VDict (risk_limit_as_dict (rc_limit c)))]"

definition risk_limit_from_policy :: "risk_policy \<Rightarrow> string \<Rightarrow> risk_limit py" where
  "risk_limit_from_policy p metric_kind =
     (let kind = py_lower (py_strip metric_kind)
      in if kind \<noteq> ''drawdown''
         then Inl (ValueError (''unsupported_risk_limit_metric_kind:'' @ or_str (Some kind) ''missing''))
         else Inr \<lparr>rl_value = rp_max_drawdown_pct p, rl_unit = ''percent_point'',
           rl_scope = ''risk_scope'', rl_reason_code = ''MAX_DRAWDOWN_PCT''\<rparr>)"

definition compare_risk_metric_to_limit :: "risk_metric \<Rightarrow> risk_limit \<Rightarrow> risk_comparison py" where
  "compare_risk_metric_to_limit m l =
     (let failed = (\<lambda>r. Inr \<lparr>rc_exceeded = False, rc_reason_code = r, rc_metric = m, rc_limit = l\<rparr>)
      in if rm_unit m \<noteq> VStr (rl_unit l) then failed ''RISK_METRIC_UNIT_MISMATCH''
         else if rm_scope m \<noteq> VStr (rl_scope l) then failed ''RISK_METRIC_SCOPE_MISMATCH''
         else if rm_state m \<noteq> VStr ''valid'' then
           failed (if rm_state m = VStr ''insufficient_history'' then ''INSUFFICIENT_STRATEGY_HISTORY''
             else if rm_state m = VStr ''reconstruction_failed'' then ''RISK_METRIC_RECONSTRUCTION_FAILED''
             else or_str (Some (rm_reason_code m)) ''RISK_METRIC_UNDEFINED'')
         else bind_py (or_default (val_float (py_or (rm_denominator_value m) (VFloat (Fin 0)))) (Fin 0))
           (\<lambda>denominator.
             if fle denominator (Fin 0) then failed ''RISK_METRIC_DENOMINATOR_MISSING''
             else
               (case val_float (if rm_value m = VNone then VFloat (Fin 0) else rm_value m) of
                  Inl TypeError \<Rightarrow> failed ''RISK_METRIC_RECONSTRUCTION_FAILED''
                | Inl (ValueError _) \<Rightarrow> failed ''RISK_METRIC_RECONSTRUCTION_FAILED''
                | Inl e \<Rightarrow> Inl e
                | Inr v \<Rightarrow>
                    Inr \<lparr>rc_exceeded = fle (rl_value l) v,
                      rc_reason_code = (if fle (rl_value l) v then rl_reason_code l else ''OK''),
                      rc_metric = m, rc_limit = l\<rparr>)))"

record risk_snapshot =
  rs_evaluation_ts_ms :: int
  rs_mark_price :: pyfloat
  rs_current_equity :: "pyfloat option"
  rs_baseline_equity :: "pyfloat option"
  rs_loss_today :: "pyfloat option"
  rs_current_cash_krw :: "pyfloat option"
  rs_current_asset_qty :: "pyfloat option"
  rs_position_entry_price :: "pyfloat option"
  rs_broker_local_mismatch :: bool
  rs_recovery_risk_mismatch_reason :: "string option"
  rs_duplicate_entry :: bool
  rs_daily_order_count :: "int option"
  rs_daily_trade_count :: "int option"
  rs_current_drawdown_pct :: "pyfloat option"
  rs_current_drawdown_metric :: "risk_metric option"
  rs_minutes_since_last_loss :: "pyfloat option"
  rs_unresolved_order_blocked :: bool
  rs_unresolved_order_reason_code :: string
  rs_unresolved_order_reason :: string
  rs_state_source :: string
  rs_evidence :: pydict

definition risk_snapshot_as_dict :: "risk_snapshot \<Rightarrow> pydict" where
  "risk_snapshot_as_dict s =
     [(''evaluation_ts_ms'', VInt (rs_evaluation_ts_ms s)),
      (''mark_price'', VFloat (rs_mark_price s)),
      (''current_equity'', opt_float (rs_current_equity s)),
      (''baseline_equity'', opt_float (rs_baseline_equity s)),
      (''loss_today'', opt_float (rs_loss_today s)),
      (''current_cash_krw'', opt_float (rs_current_cash_krw s)),
      (''current_asset_qty'', opt_float (rs_current_asset_qty s)),
      (''position_entry_price'', opt_float (rs_position_entry_price s)),
      (''broker_local_mismatch'', VBool (rs_broker_local_mismatch s)),
      (''recovery_risk_mismatch_reason'', opt_string (rs_recovery_risk_mismatch_reason s)),
      (''duplicate_entry'', VBool (rs_duplicate_entry s)),
      (''daily_order_count'', opt_int (rs_daily_order_count s)),
      (''daily_trade_count'', opt_int (rs_daily_trade_count s)),
      (''current_drawdown_pct'', opt_float (rs_current_drawdown_pct s)),
      (''current_drawdown_metric'', (case rs_current_drawdown_metric s of None \<Rightarrow> VNone
         | Some m \<Rightarrow> VDict (risk_metric_as_dict m))),
      (''minutes_since_last_loss'', opt_float (rs_minutes_since_last_loss s)),
      (''unresolved_order_blocked'', VBool (rs_unresolved_order_blocked s)),
      (''unresolved_order_reason_code'', VStr (rs_unresolved_order_reason_code s)),
      (''unresolved_order_reason'', VStr (rs_unresolved_order_reason s)),
      (''state_source'', VStr (rs_state_source s)),
      (''evidence'', VDict (rs_evidence s))]"

definition risk_snapshot_input_hash :: "(string \<Rightarrow> string) \<Rightarrow> risk_snapshot \<Rightarrow> string" where
  "risk_snapshot_input_hash sha s = canonical_payload_hash sha (VDict (risk_snapshot_as_dict s))"

subsection \<open>Decisions\<close>

record risk_submit_plan =
  rsp_side :: string
  rsp_qty :: pyfloat
  rsp_notional_krw :: "pyfloat option"
  rsp_source :: string
  rsp_evidence :: pydict

definition risk_submit_plan_as_dict :: "risk_submit_plan \<Rightarrow> pydict" where
  "risk_submit_plan_as_dict p = [(''side'', VStr (py_upper (rsp_side p))), (''qty'', VFloat (rsp_qty p)),
     (''notional_krw'', opt_float (rsp_notional_krw p)), (''source'', VStr (rsp_source p)),
     (''evidence'', VDict (rsp_evidence p))]"

record fill_event =
  fe_side :: string
  fe_qty :: pyfloat
  fe_price :: pyfloat
  fe_ts_ms :: int
  fe_evidence :: pydict

definition fill_event_as_dict :: "fill_event \<Rightarrow> pydict" where
  "fill_event_as_dict f = [(''side'', VStr (py_upper (fe_side f))), (''qty'', VFloat (fe_qty f)),
     (''price'', VFloat (fe_price f)), (''ts_ms'', VInt (fe_ts_ms f)), (''evidence'', VDict (fe_evidence f))]"

record risk_decision =
  rd_evaluation_point :: string
  rd_status :: string
  rd_reason_code :: string
  rd_reason :: string
  rd_allowed_actions :: "string list"
  rd_recommended_action :: "string option"
  rd_risk_input_hash :: string
  rd_risk_policy_hash :: string
  rd_risk_evidence_hash :: string
  rd_risk_decision_hash :: string
  rd_effective_limits :: pydict
  rd_state_source :: string
  rd_evidence :: pydict

definition risk_decision_as_dict :: "risk_decision \<Rightarrow> pydict" where
  "risk_decision_as_dict d =
     [(''evaluation_point'', VStr (rd_evaluation_point d)),
      (''status'', VStr (rd_status d)),
      (''reason_code'', VStr (rd_reason_code d)),
      (''reason'', VStr (rd_reason d)),
      (''allowed_actions'', VList (map VStr (rd_allowed_actions d))),
      (''recommended_action'', opt_string (rd_recommended_action d)),
      (''risk_input_hash'', VStr (rd_risk_input_hash d)),
      (''risk_policy_hash'', VStr (rd_risk_policy_hash d)),
      (''risk_evidence_hash'', VStr (rd_risk_evidence_hash d)),
      (''risk_decision_hash'', VStr (rd_risk_decision_hash d)),
      (''effective_limits'', VDict (rd_effective_limits d)),
      (''state_source'', VStr (rd_state_source d)),
      (''evidence'', VDict (rd_evidence d))]"

definition risk_identity_fields :: "risk_decision \<Rightarrow> pydict" where
  "risk_identity_fields d =
     [(''risk_input_hash'', VStr (rd_risk_input_hash d)),
      (''risk_policy_hash'', VStr (rd_risk_policy_hash d)),
      (''risk_evidence_hash'', VStr (rd_risk_evidence_hash d)),
      (''risk_decision_hash'', VStr (rd_risk_decision_hash d)),
      (''risk_reason_code'', VStr (rd_reason_code d)),
      (''risk_status'', VStr (rd_status d)),
      (''risk_evaluation_point'', VStr (rd_evaluation_point d)),
      (''risk_state_source'', VStr (rd_state_source d)),
      (''effective_risk_limits'', VDict (rd_effective_limits d))]"

definition build_risk_decision ::
  "(string \<Rightarrow> string) \<Rightarrow> string \<Rightarrow> string \<Rightarrow> string \<Rightarrow> string \<Rightarrow> string list \<Rightarrow> string option \<Rightarrow>
   risk_snapshot \<Rightarrow> risk_policy \<Rightarrow> pydict \<Rightarrow> risk_decision" where
  "build_risk_decision sha evaluation_point status reason_code reason allowed_actions recommended_action
     snapshot policy evidence =
     (let input_hash = risk_snapshot_input_hash sha snapshot;
          policy_hash = risk_policy_hash sha policy;
          evidence_hash = canonical_payload_hash sha (VDict evidence);
          payload_without_hash =
            [(''evaluation_point'', VStr evaluation_point),
             (''status'', VStr status),
             (''reason_code'', VStr reason_code),
             (''reason'', VStr reason),
             (''allowed_actions'', VList (map VStr allowed_actions)),
             (''recommended_action'', opt_string recommended_action),
             (''risk_input_hash'', VStr input_hash),
             (''risk_policy_hash'', VStr policy_hash),
             (''risk_evidence_hash'', VStr evidence_hash),
             (''effective_limits'', VDict (effective_limits policy)),
             (''state_source'', VStr (rs_state_source snapshot)),
             (''evidence'', VDict evidence)]
      in \<lparr>rd_evaluation_point = evaluation_point, rd_status = status, rd_reason_code = reason_code,
          rd_reason = reason, rd_allowed_actions = map py_upper allowed_actions,
          rd_recommended_action = recommended_action,
          rd_risk_input_hash = input_hash, rd_risk_policy_hash = policy_hash,
          rd_risk_evidence_hash = evidence_hash,
          rd_risk_decision_hash = canonical_payload_hash sha (VDict payload_without_hash),
          rd_effective_limits = effective_limits policy,
          rd_state_source = rs_state_source snapshot, rd_evidence = evidence\<rparr>)"

record risk_event =
  re_evaluation_point :: string
  re_reason_code :: string
  re_risk_input_hash :: string
  re_risk_policy_hash :: string
  re_risk_event_hash :: string
  re_state_source :: string
  re_evidence :: pydict

subsection \<open>The engine\<close>

definition engine_pure_risk :: "risk_policy \<Rightarrow> risk_snapshot \<Rightarrow> pure_risk_evaluation" where
  "engine_pure_risk p s = evaluate_pure_risk
     \<lparr>pi_evaluation_ts_ms = rs_evaluation_ts_ms s,
      pi_current_equity = rs_current_equity s, pi_baseline_equity = rs_baseline_equity s,
      pi_loss_today = rs_loss_today s, pi_max_daily_loss_krw = rp_max_daily_loss_krw p,
      pi_mark_price = rs_mark_price s, pi_current_cash_krw = rs_current_cash_krw s,
      pi_current_asset_qty = rs_current_asset_qty s,
      pi_position_entry_price = rs_position_entry_price s,
      pi_max_position_loss_pct = rp_max_position_loss_pct p,
      pi_broker_local_mismatch = rs_broker_local_mismatch s,
      pi_recovery_risk_mismatch_reason = rs_recovery_risk_mismatch_reason s\<rparr>"

definition pure_risk_evidence :: "pure_risk_evaluation \<Rightarrow> pyval" where
  "pure_risk_evidence e = VDict [(''reason_code'', VStr (pe_reason_code e)),
     (''daily_loss'', opt_float (pe_daily_loss e)),
     (''position_loss_pct'', opt_float (pe_position_loss_pct e))]"

definition snapshot_mismatch :: "risk_snapshot \<Rightarrow> bool" where
  "snapshot_mismatch s \<longleftrightarrow> rs_broker_local_mismatch s \<or>
     mismatch_reason (rs_recovery_risk_mismatch_reason s) \<noteq> []"

definition risk_allow ::
  "(string \<Rightarrow> string) \<Rightarrow> risk_policy \<Rightarrow> risk_snapshot \<Rightarrow> string \<Rightarrow> pydict \<Rightarrow> risk_decision" where
  "risk_allow sha p s evaluation_point evidence =
     build_risk_decision sha evaluation_point ''ALLOW'' ''OK'' ''ok'' [''BUY'', ''SELL'', ''HOLD''] None s p evidence"

text \<open>The drawdown stage: a decision, or \<open>None\<close> to go on.\<close>

definition drawdown_stage ::
  "(string \<Rightarrow> string) \<Rightarrow> risk_policy \<Rightarrow> risk_snapshot \<Rightarrow> string \<Rightarrow> risk_decision option py" where
  "drawdown_stage sha p s evaluation_point =
     (case rs_current_drawdown_metric s of
        Some metric \<Rightarrow>
          if flt (Fin 0) (rp_max_drawdown_pct p) then
            bind_py (risk_limit_from_policy p ''drawdown'') (\<lambda>limit.
            bind_py (compare_risk_metric_to_limit metric limit) (\<lambda>c.
              let evidence = AList.update ''drawdown_metric_comparison'' (VDict (risk_comparison_as_dict c))
                    (rs_evidence s)
              in if rc_reason_code c \<noteq> ''OK'' \<and> \<not> rc_exceeded c then
                   Inr (Some (build_risk_decision sha evaluation_point ''BLOCK'' (rc_reason_code c)
                     (''drawdown metric incompatible or unavailable ('' @ rc_reason_code c @ '')'')
                     [''HOLD''] (Some ''halt'') s p evidence))
                 else if rc_exceeded c then
                   Inr (Some (build_risk_decision sha evaluation_point ''BLOCK'' ''MAX_DRAWDOWN_PCT''
                     (''drawdown limit exceeded ('' @ py_str (rm_value metric) @ ''/'' @
                        py_repr (rp_max_drawdown_pct p) @ '')'')
                     [''HOLD''] (Some ''halt'') s p evidence))
                 else Inr None))
          else Inr None
      | None \<Rightarrow> Inr None)"

definition cooldown_stage ::
  "(string \<Rightarrow> string) \<Rightarrow> risk_policy \<Rightarrow> risk_snapshot \<Rightarrow> string \<Rightarrow> risk_decision option py" where
  "cooldown_stage sha p s evaluation_point =
     (case rs_minutes_since_last_loss s of
        Some elapsed \<Rightarrow>
          if 0 < rp_cooldown_after_loss_min p then
            bind_py (val_float (VInt (rp_cooldown_after_loss_min p))) (\<lambda>cooldown.
              if flt elapsed cooldown then
                Inr (Some (build_risk_decision sha evaluation_point ''BLOCK'' ''COOLDOWN_AFTER_LOSS''
                  (''cooldown after loss active ('' @ py_repr elapsed @ ''/'' @
                     py_str_int (rp_cooldown_after_loss_min p) @ '' min)'')
                  [''HOLD''] (Some ''hold'') s p
                  (AList.update ''minutes_since_last_loss'' (VFloat elapsed) (rs_evidence s))))
              else Inr None)
          else Inr None
      | None \<Rightarrow> Inr None)"

definition unresolved_stage ::
  "(string \<Rightarrow> string) \<Rightarrow> risk_policy \<Rightarrow> risk_snapshot \<Rightarrow> string \<Rightarrow> risk_decision" where
  "unresolved_stage sha p s evaluation_point =
     (if evaluation_point = ''pre_submit'' \<and> rp_unresolved_order_policy p = ''block'' \<and>
         rs_unresolved_order_blocked s
      then build_risk_decision sha ''pre_submit'' ''REQUIRE_RECONCILE'' (rs_unresolved_order_reason_code s)
        (rs_unresolved_order_reason s) [''HOLD''] (Some ''reconcile'') s p
        (AList.update ''unresolved_order_gate''
          (VDict [(''blocked'', VBool True),
            (''reason_code'', VStr (rs_unresolved_order_reason_code s)),
            (''reason'', VStr (rs_unresolved_order_reason s))]) (rs_evidence s))
      else risk_allow sha p s evaluation_point (rs_evidence s))"

definition risk_evaluate ::
  "(string \<Rightarrow> string) \<Rightarrow> risk_policy \<Rightarrow> risk_snapshot \<Rightarrow> string \<Rightarrow> risk_decision py" where
  "risk_evaluate sha p s evaluation_point =
     (let pure = engine_pure_risk p s;
          decide = (\<lambda>status code reason actions recommended evidence.
            Inr (build_risk_decision sha evaluation_point status code reason actions recommended s p evidence));
          mismatch = pe_reason_code pure = ''RISK_STATE_MISMATCH'';
          position = pe_reason_code pure = ''POSITION_LOSS_LIMIT'';
          too_many = (\<lambda>(limit::int) n. 0 < limit \<and> (case n of Some m \<Rightarrow> limit \<le> m | None \<Rightarrow> False));
          count = (\<lambda>n. case n of Some m \<Rightarrow> m | None \<Rightarrow> (0::int))
      in if evaluation_point = ''pre_submit'' \<and> snapshot_mismatch s then
           decide ''REQUIRE_RECONCILE'' (pe_reason_code pure) (pe_reason pure) [''HOLD''] (Some ''reconcile'')
             (AList.update ''pre_submit_broker_snapshot_hard_gate'' (VBool True)
               (AList.update ''risk_policy_status'' (VStr (rp_policy_status p))
                 (AList.update ''pure_risk'' (pure_risk_evidence pure) (rs_evidence s))))
         else if rp_policy_status p = ''disabled_explicit'' then
           decide ''ALLOW'' ''RISK_POLICY_DISABLED_EXPLICIT'' ''risk policy disabled explicitly''
             [''BUY'', ''SELL'', ''HOLD''] None
             (dmerge [(''risk_policy_status'', VStr ''disabled_explicit'')] (rs_evidence s))
         else if rp_kill_switch p then
           decide ''BLOCK'' ''KILL_SWITCH'' ''KILL_SWITCH=ON'' [''HOLD''] (Some ''halt'') (rs_evidence s)
         else if pe_blocked pure then
           decide (if position then ''REDUCE_ONLY'' else if mismatch then ''REQUIRE_RECONCILE'' else ''BLOCK'')
             (pe_reason_code pure) (pe_reason pure)
             (if position then [''SELL'', ''HOLD''] else [''HOLD''])
             (Some (if position then ''reduce_or_exit'' else if mismatch then ''reconcile'' else ''halt''))
             (AList.update ''pure_risk'' (pure_risk_evidence pure) (rs_evidence s))
         else if rp_max_open_positions p \<le> 1 \<and> rs_duplicate_entry s \<and>
             flt POSITION_EPSILON (or_zero (rs_current_asset_qty s)) then
           decide ''BLOCK'' ''DUPLICATE_ENTRY'' ''duplicate entry blocked'' [''HOLD'', ''SELL''] (Some ''hold'')
             (rs_evidence s)
         else if too_many (rp_max_daily_order_count p) (rs_daily_order_count s) then
           decide ''BLOCK'' ''MAX_DAILY_ORDER_COUNT''
             (''daily order count limit exceeded ('' @ py_str_int (count (rs_daily_order_count s)) @ ''/'' @
                py_str_int (rp_max_daily_order_count p) @ '')'') [''HOLD''] (Some ''halt'')
             (AList.update ''today_orders'' (VInt (count (rs_daily_order_count s))) (rs_evidence s))
         else if too_many (rp_max_trade_count_per_day p) (rs_daily_trade_count s) then
           decide ''BLOCK'' ''MAX_TRADE_COUNT_PER_DAY''
             (''daily trade count limit exceeded ('' @ py_str_int (count (rs_daily_trade_count s)) @ ''/'' @
                py_str_int (rp_max_trade_count_per_day p) @ '')'') [''HOLD''] (Some ''halt'')
             (AList.update ''today_trades'' (VInt (count (rs_daily_trade_count s))) (rs_evidence s))
         else bind_py (drawdown_stage sha p s evaluation_point) (\<lambda>d1.
           (case d1 of Some d \<Rightarrow> Inr d
            | None \<Rightarrow> bind_py (cooldown_stage sha p s evaluation_point) (\<lambda>d2.
                (case d2 of Some d \<Rightarrow> Inr d
                 | None \<Rightarrow> Inr (unresolved_stage sha p s evaluation_point))))))"

definition evaluate_pre_decision ::
  "(string \<Rightarrow> string) \<Rightarrow> risk_policy \<Rightarrow> risk_snapshot \<Rightarrow> risk_decision py" where
  "evaluate_pre_decision sha p s = risk_evaluate sha p s ''pre_decision''"

text \<open>
  The snapshot is rebuilt from its dictionary, with the plan added to its evidence and the
  drawdown metric rebuilt from its own dictionary.
\<close>

definition evaluate_pre_submit ::
  "(string \<Rightarrow> string) \<Rightarrow> risk_policy \<Rightarrow> risk_submit_plan \<Rightarrow> risk_snapshot \<Rightarrow> risk_decision py" where
  "evaluate_pre_submit sha p plan s =
     bind_py (case rs_current_drawdown_metric s of None \<Rightarrow> Inr None
         | Some m \<Rightarrow> bind_py (risk_metric_of_dict (risk_metric_as_dict m)) (\<lambda>m'. Inr (Some m')))
       (\<lambda>metric. risk_evaluate sha p
         (s\<lparr>rs_current_drawdown_metric := metric,
            rs_evidence := dmerge [(''submit_plan'', VDict (risk_submit_plan_as_dict plan))] (rs_evidence s)\<rparr>)
         ''pre_submit'')"

definition evaluate_post_fill ::
  "(string \<Rightarrow> string) \<Rightarrow> risk_policy \<Rightarrow> fill_event \<Rightarrow> risk_snapshot \<Rightarrow> risk_event" where
  "evaluate_post_fill sha p fill s =
     (let d = risk_allow sha p s ''post_fill'' []
      in \<lparr>re_evaluation_point = ''post_fill'', re_reason_code = rd_reason_code d,
          re_risk_input_hash = rd_risk_input_hash d, re_risk_policy_hash = rd_risk_policy_hash d,
          re_risk_event_hash = rd_risk_decision_hash d, re_state_source = rd_state_source d,
          re_evidence = rd_evidence d\<rparr>)"

end
