(* ===== verification/Runtime_Risk.thy ===== *)
theory Runtime_Risk
  imports Risk Order_Store
begin

text \<open>
  The policy side of \<open>src/src/operation/runtime_risk_engine.py\<close>: which risk policy a submission
  is checked against (\<open>resolve_effective_pre_submit_risk_policy\<close>), the composition of the
  policies of several strategies into the most restrictive one, the reading of a policy from
  a mapping (\<open>src/src/operation/strategy_risk_profile.py\<close>), and the classification of the
  unresolved orders that the snapshot carries. The adapter's database reads
  (\<open>evaluate_daily_loss_state\<close>, the position entry price) are not modelled.
\<close>

subsection \<open>Policies from settings and mappings\<close>

record risk_settings =
  MAX_DAILY_LOSS_KRW :: pyfloat
  MAX_POSITION_LOSS_PCT :: pyfloat
  MAX_DAILY_ORDER_COUNT :: int
  KILL_SWITCH :: bool
  MAX_OPEN_POSITIONS :: int

definition settings_risk_policy :: "risk_settings \<Rightarrow> risk_policy" where
  "settings_risk_policy c = \<lparr>rp_schema_version = 1, rp_max_daily_loss_krw = MAX_DAILY_LOSS_KRW c,
     rp_max_position_loss_pct = MAX_POSITION_LOSS_PCT c,
     rp_max_daily_order_count = MAX_DAILY_ORDER_COUNT c, rp_max_trade_count_per_day = 0,
     rp_max_drawdown_pct = Fin 0, rp_cooldown_after_loss_min = 0, rp_kill_switch = KILL_SWITCH c,
     rp_max_open_positions = MAX_OPEN_POSITIONS c, rp_unresolved_order_policy = ''block'',
     rp_policy_status = ''enabled'', rp_missing_policy = ''fail_closed_for_promotion'',
     rp_source = ''runtime_settings''\<rparr>"

definition risk_policy_from_mapping :: "pydict \<Rightarrow> risk_policy py" where
  "risk_policy_from_mapping d =
     (let int_of = (\<lambda>k dflt. val_int (py_or (dget d k) (VInt dflt)));
          float_of = (\<lambda>k. val_float (py_or (dget d k) (VFloat (Fin 0))))
      in bind_py (int_of ''schema_version'' 1) (\<lambda>schema_version.
         bind_py (float_of ''max_daily_loss_krw'') (\<lambda>max_daily_loss_krw.
         bind_py (float_of ''max_position_loss_pct'') (\<lambda>max_position_loss_pct.
         bind_py (int_of ''max_daily_order_count'' 0) (\<lambda>max_daily_order_count.
         bind_py (int_of ''max_trade_count_per_day'' 0) (\<lambda>max_trade_count_per_day.
         bind_py (float_of ''max_drawdown_pct'') (\<lambda>max_drawdown_pct.
         bind_py (int_of ''cooldown_after_loss_min'' 0) (\<lambda>cooldown_after_loss_min.
         bind_py (int_of ''max_open_positions'' 1) (\<lambda>max_open_positions. Inr
           \<lparr>rp_schema_version = schema_version, rp_max_daily_loss_krw = max_daily_loss_krw,
            rp_max_position_loss_pct = max_position_loss_pct,
            rp_max_daily_order_count = max_daily_order_count,
            rp_max_trade_count_per_day = max_trade_count_per_day,
            rp_max_drawdown_pct = max_drawdown_pct,
            rp_cooldown_after_loss_min = cooldown_after_loss_min,
            rp_kill_switch = truthy (dget_or d ''kill_switch'' (VBool False)),
            rp_max_open_positions = max_open_positions,
            rp_unresolved_order_policy = dstr d ''unresolved_order_policy'' ''block'',
            rp_policy_status = dstr d ''policy_status'' ''enabled'',
            rp_missing_policy = dstr d ''missing_policy'' ''fail_closed_for_live'',
            rp_source = dstr d ''source'' ''strategy_risk_profile''\<rparr>)))))))))"

subsection \<open>The most restrictive policy\<close>

definition positive_min :: "pyfloat list \<Rightarrow> pyfloat" where
  "positive_min vs =
     (case filter (\<lambda>v. flt (Fin 0) v) vs of [] \<Rightarrow> Fin 0 | p # ps \<Rightarrow> foldl fmin p ps)"

text \<open>\<open>int(_positive_min([...]))\<close> of integer fields, by way of doubles.\<close>

definition positive_min_int :: "int list \<Rightarrow> int py" where
  "positive_min_int ns =
     bind_py (map_py (\<lambda>n. val_float (VInt n)) ns) (\<lambda>vs. val_int (VFloat (positive_min vs)))"

definition compose_most_restrictive_strategy_policies ::
  "risk_settings \<Rightarrow> risk_policy list \<Rightarrow> risk_policy py" where
  "compose_most_restrictive_strategy_policies c policies =
     (if policies = [] then Inr (settings_risk_policy c)
      else
        (let enabled = filter (\<lambda>p. rp_policy_status p \<noteq> ''disabled_explicit'') policies;
             ps = (if enabled = [] then policies else enabled)
         in bind_py (positive_min_int (map rp_max_daily_order_count ps)) (\<lambda>max_daily_order_count.
            bind_py (positive_min_int (map rp_max_trade_count_per_day ps)) (\<lambda>max_trade_count_per_day.
            bind_py (positive_min_int (map rp_cooldown_after_loss_min ps)) (\<lambda>cooldown_after_loss_min. Inr
              \<lparr>rp_schema_version = 1,
               rp_max_daily_loss_krw = positive_min (map rp_max_daily_loss_krw ps),
               rp_max_position_loss_pct = positive_min (map rp_max_position_loss_pct ps),
               rp_max_daily_order_count = max_daily_order_count,
               rp_max_trade_count_per_day = max_trade_count_per_day,
               rp_max_drawdown_pct = positive_min (map rp_max_drawdown_pct ps),
               rp_cooldown_after_loss_min = cooldown_after_loss_min,
               rp_kill_switch = (\<exists>p \<in> set ps. rp_kill_switch p),
               rp_max_open_positions = max 1 (Min (set (map (\<lambda>p. max 1 (rp_max_open_positions p)) ps))),
               rp_unresolved_order_policy =
                 (if \<exists>p \<in> set ps. rp_unresolved_order_policy p = ''block'' then ''block''
                  else rp_unresolved_order_policy (hd ps)),
               rp_policy_status = (if enabled = [] then ''disabled_explicit'' else ''enabled''),
               rp_missing_policy =
                 (if \<exists>p \<in> set ps. rp_missing_policy p = ''fail_closed_for_live'' then ''fail_closed_for_live''
                  else rp_missing_policy (hd ps)),
               rp_source = ''composed_selected_strategy_risk_profiles''\<rparr>)))))"

subsection \<open>The effective policy of a submission\<close>

record effective_policy =
  ef_policy :: risk_policy
  ef_risk_policy_source :: string
  ef_strategy_instance_ids :: "string list"
  ef_strategy_risk_profile_hashes :: "string list"
  ef_strategy_risk_policy_hashes :: "string list"
  ef_portfolio_risk_policy_hash :: "string option"
  ef_operational_risk_policy_hash :: "string option"
  ef_residual_risk_policy_hash :: "string option"
  ef_composition_rule :: string

definition effective_policy_evidence_fields :: "(string \<Rightarrow> string) \<Rightarrow> effective_policy \<Rightarrow> pydict" where
  "effective_policy_evidence_fields sha e =
     [(''risk_policy_source'', VStr (ef_risk_policy_source e)),
      (''pre_submit_risk_policy_source'', VStr (ef_risk_policy_source e)),
      (''pre_submit_risk_policy_composition_rule'', VStr (ef_composition_rule e)),
      (''strategy_instance_ids'', VList (map VStr (ef_strategy_instance_ids e))),
      (''strategy_risk_profile_hashes'', VList (map VStr (ef_strategy_risk_profile_hashes e))),
      (''strategy_risk_policy_hashes'', VList (map VStr (ef_strategy_risk_policy_hashes e))),
      (''portfolio_risk_policy_hash'', opt_string (ef_portfolio_risk_policy_hash e)),
      (''operational_risk_policy_hash'', opt_string (ef_operational_risk_policy_hash e)),
      (''residual_risk_policy_hash'', opt_string (ef_residual_risk_policy_hash e)),
      (''effective_pre_submit_risk_policy'', VDict (risk_policy_as_dict (ef_policy e))),
      (''effective_pre_submit_risk_policy_hash'', VStr (risk_policy_hash sha (ef_policy e)))]"

text \<open>\<open>[item for item in xs if isinstance(item, Mapping)]\<close>\<close>

definition mappings :: "pyval list \<Rightarrow> pydict list" where
  "mappings xs = List.map_filter (\<lambda>v. case v of VDict d \<Rightarrow> Some d | _ \<Rightarrow> None) xs"

definition strategy_risk_profiles_from_submit_payload :: "pydict \<Rightarrow> pydict list" where
  "strategy_risk_profiles_from_submit_payload payload =
     (case dget payload ''strategy_risk_profiles'' of VList xs \<Rightarrow> mappings xs | VTuple xs \<Rightarrow> mappings xs | _ \<Rightarrow> []) @
     (case dget payload ''strategy_risk_profile'' of VDict d \<Rightarrow> [d] | _ \<Rightarrow> [])"

fun first_explicit_policy ::
  "pydict \<Rightarrow> (string \<times> string \<times> string \<times> string) list \<Rightarrow>
   (risk_policy \<times> string \<times> string option \<times> string) option py" where
  "first_explicit_policy payload [] = Inr None"
| "first_explicit_policy payload ((policy_field, hash_field, source, rule) # cs) =
     (case dget payload policy_field of
        VDict raw \<Rightarrow> bind_py (risk_policy_from_mapping raw) (\<lambda>p.
          Inr (Some (p, source, or_none (py_strip (dstr payload hash_field [])), rule)))
      | _ \<Rightarrow> first_explicit_policy payload cs)"

definition explicit_non_target_pre_submit_policy ::
  "pydict \<Rightarrow> (risk_policy \<times> string \<times> string option \<times> string) option py" where
  "explicit_non_target_pre_submit_policy payload = first_explicit_policy payload
     [(''residual_risk_policy'', ''residual_risk_policy_hash'', ''residual_risk_policy'',
       ''explicit_residual_pre_submit_policy''),
      (''operational_risk_policy'', ''operational_risk_policy_hash'', ''operational_risk_policy'',
       ''explicit_operational_pre_submit_policy''),
      (''portfolio_risk_policy'', ''portfolio_risk_policy_hash'', ''portfolio_risk_policy'',
       ''explicit_portfolio_pre_submit_policy'')]"

text \<open>One round of the loop over the profiles: policy, instance id, profile hash, policy hash.\<close>

definition read_strategy_profile ::
  "(string \<Rightarrow> string) \<Rightarrow> pydict \<Rightarrow> (risk_policy \<times> string \<times> string \<times> string) py" where
  "read_strategy_profile sha profile =
     (case dget profile ''risk_policy'' of
        VDict raw \<Rightarrow> bind_py (risk_policy_from_mapping raw) (\<lambda>p.
          let policy_hash = risk_policy_hash sha p;
              declared = py_strip (dstr profile ''risk_policy_hash'' [])
          in if declared \<noteq> [] \<and> declared \<noteq> policy_hash
             then Inl (ValueError ''pre_submit_strategy_risk_policy_hash_mismatch'')
             else Inr (p, py_strip (dstr profile ''strategy_instance_id'' []),
               py_strip (py_str (py_or (dget profile ''strategy_risk_profile_hash'')
                 (py_or (dget profile ''profile_hash'') (VStr [])))), policy_hash))
      | _ \<Rightarrow> Inl (ValueError ''pre_submit_strategy_risk_policy_missing''))"

definition sorted_set :: "string list \<Rightarrow> string list" where
  "sorted_set xs = sort (remdups xs)"

definition resolve_effective_pre_submit_risk_policy ::
  "(string \<Rightarrow> string) \<Rightarrow> risk_settings \<Rightarrow> pydict \<Rightarrow> effective_policy py" where
  "resolve_effective_pre_submit_risk_policy sha c payload =
     (let profiles = strategy_risk_profiles_from_submit_payload payload;
          source = py_strip (dstr payload ''source'' []);
          required = truthy (dget payload ''pre_submit_risk_required'');
          portfolio_hash = or_none (py_strip (dstr payload ''portfolio_risk_policy_hash'' []))
      in if profiles = [] \<and> source = ''target_delta'' \<and> required
           then Inl (ValueError ''pre_submit_strategy_risk_profiles_missing_for_target_delta'')
         else if profiles \<noteq> [] then
           bind_py (map_py (read_strategy_profile sha) profiles) (\<lambda>rows.
           bind_py (compose_most_restrictive_strategy_policies c (map fst rows)) (\<lambda>policy. Inr
             \<lparr>ef_policy = policy, ef_risk_policy_source = ''strategy_risk_profiles'',
              ef_strategy_instance_ids = sorted_set (filter (\<lambda>i. i \<noteq> []) (map (\<lambda>(_, i, _, _). i) rows)),
              ef_strategy_risk_profile_hashes = sorted_set (filter (\<lambda>h. h \<noteq> []) (map (\<lambda>(_, _, h, _). h) rows)),
              ef_strategy_risk_policy_hashes = sorted_set (map (\<lambda>(_, _, _, h). h) rows),
              ef_portfolio_risk_policy_hash = portfolio_hash,
              ef_operational_risk_policy_hash = None, ef_residual_risk_policy_hash = None,
              ef_composition_rule = ''most_restrictive_selected_strategy_policy''\<rparr>))
         else bind_py (explicit_non_target_pre_submit_policy payload) (\<lambda>explicit.
           (case explicit of
              Some (policy, policy_source, declared_hash, rule) \<Rightarrow>
                (let policy_hash = risk_policy_hash sha policy
                 in if declared_hash \<noteq> None \<and> declared_hash \<noteq> Some policy_hash
                    then Inl (ValueError (''pre_submit_'' @ policy_source @ ''_policy_hash_mismatch''))
                    else Inr
                      \<lparr>ef_policy = policy, ef_risk_policy_source = policy_source,
                       ef_strategy_instance_ids = [], ef_strategy_risk_profile_hashes = [],
                       ef_strategy_risk_policy_hashes = [],
                       ef_portfolio_risk_policy_hash =
                         (if policy_source = ''portfolio_risk_policy'' then Some policy_hash else portfolio_hash),
                       ef_operational_risk_policy_hash =
                         (if policy_source = ''operational_risk_policy'' then Some policy_hash else None),
                       ef_residual_risk_policy_hash =
                         (if policy_source = ''residual_risk_policy'' then Some policy_hash else None),
                       ef_composition_rule = rule\<rparr>)
            | None \<Rightarrow>
                if source = ''residual_inventory'' \<and> required
                  then Inl (ValueError ''pre_submit_explicit_residual_risk_policy_missing'')
                else if required
                  then Inl (ValueError ''pre_submit_runtime_settings_fallback_rejected_for_live_real'')
                else Inr
                  \<lparr>ef_policy = settings_risk_policy c, ef_risk_policy_source = ''runtime_settings_fallback'',
                   ef_strategy_instance_ids = [], ef_strategy_risk_profile_hashes = [],
                   ef_strategy_risk_policy_hashes = [], ef_portfolio_risk_policy_hash = portfolio_hash,
                   ef_operational_risk_policy_hash = None, ef_residual_risk_policy_hash = None,
                   ef_composition_rule = ''settings_fallback_no_plan_bound_strategy_policy''\<rparr>)))"

subsection \<open>Unresolved orders\<close>

definition classify_unresolved_state :: "risky_state \<Rightarrow> int \<Rightarrow> bool \<times> string \<times> string" where
  "classify_unresolved_state state max_open_order_age_sec =
     (if 0 < submit_unknown_count state
        then (True, ''SUBMIT_UNKNOWN_PRESENT'', ''submit-unknown unresolved order exists'')
      else if 0 < accounting_pending_count state
        then (True, ''ACCOUNTING_PENDING_PRESENT'', ''accounting-pending order exists'')
      else if 0 < recovery_required_count state
        then (True, ''RECOVERY_REQUIRED_PRESENT'', ''recovery-required order exists'')
      else if unresolved_open_order_count state \<le> 0 then (False, ''OK'', ''ok'')
      else
        (let age_sec = oldest_unresolved_open_order_age_sec state;
             max_age_sec = max 1 max_open_order_age_sec
         in if flt (Fin (of_int max_age_sec)) age_sec
            then (True, ''STALE_UNRESOLVED_OPEN_ORDER'',
              ''stale unresolved open order exists: age='' @ py_fixed False 1 age_sec @ ''s > '' @
              py_str_int max_age_sec @ ''s'')
            else (True, ''UNRESOLVED_OPEN_ORDER_PRESENT'', ''unresolved open order exists'')))"

text \<open>The unresolved order fields of the snapshot that the adapter builds before a submission.\<close>

definition snapshot_unresolved_fields ::
  "bool \<Rightarrow> int \<Rightarrow> int \<Rightarrow> order_store \<Rightarrow> risk_snapshot \<Rightarrow> risk_snapshot" where
  "snapshot_unresolved_fields include_gate now_ms max_age_sec st s =
     (let (blocked, reason_code, reason) =
        (if include_gate
         then classify_unresolved_state (collect_risky_order_state now_ms max_age_sec st) max_age_sec
         else (False, ''OK'', ''ok''))
      in s\<lparr>rs_unresolved_order_blocked := blocked, rs_unresolved_order_reason_code := reason_code,
            rs_unresolved_order_reason := reason\<rparr>)"

end
