(* ===== verification/Risk_Properties.thy ===== *)
theory Risk_Properties
  imports Risk Submit_Authority
begin

text \<open>
  What the risk engine guarantees: the loss limits are monotone, a purchase is only among the
  allowed actions of an ALLOW decision, ALLOW means that every limit was respected, and the
  hashes of a decision have the form that the submit authority policy demands.
\<close>

subsection \<open>Loss limits\<close>

lemma position_loss_pct_antimono:
  assumes "fle m' m" and "0 < x"
  shows "fle (position_loss_pct (Fin x) m) (position_loss_pct (Fin x) m')"
  unfolding position_loss_pct_def
  using assms by (intro fmax_mono fmul_mono fdiv_mono fsub_antimono) auto

lemma position_loss_infinite_entry: "position_loss_pct PInf m = Fin 0"
  by (cases m) (simp_all add: position_loss_pct_def fsub_def fmax_def)

definition daily_breach :: "pure_risk_input \<Rightarrow> bool" where
  "daily_breach i \<longleftrightarrow> flt (Fin 0) (pi_max_daily_loss_krw i) \<and>
     (\<exists>l. pure_loss_today i = Some l \<and> fle (pi_max_daily_loss_krw i) l)"

definition position_breach :: "pure_risk_input \<Rightarrow> bool" where
  "position_breach i \<longleftrightarrow> flt (Fin 0) (pi_max_position_loss_pct i) \<and>
     flt POSITION_EPSILON (or_zero (pi_current_asset_qty i)) \<and>
     flt (Fin 0) (or_zero (pi_position_entry_price i)) \<and> flt (Fin 0) (pi_mark_price i) \<and>
     fle (pi_max_position_loss_pct i)
       (position_loss_pct (or_zero (pi_position_entry_price i)) (pi_mark_price i))"

definition input_mismatch :: "pure_risk_input \<Rightarrow> bool" where
  "input_mismatch i \<longleftrightarrow> pi_broker_local_mismatch i \<or>
     mismatch_reason (pi_recovery_risk_mismatch_reason i) \<noteq> []"

lemma pure_loss_today_mark: "pure_loss_today (i\<lparr>pi_mark_price := m\<rparr>) = pure_loss_today i"
  by (simp add: pure_loss_today_def split: option.split)

lemma evaluate_pure_risk_code:
  "pe_reason_code (evaluate_pure_risk i) =
     (if input_mismatch i then ''RISK_STATE_MISMATCH''
      else if daily_breach i then ''DAILY_LOSS_LIMIT''
      else if position_breach i then ''POSITION_LOSS_LIMIT'' else ''OK'')"
  "pe_blocked (evaluate_pure_risk i) \<longleftrightarrow> pe_reason_code (evaluate_pure_risk i) \<noteq> ''OK''"
proof -
  show c: "pe_reason_code (evaluate_pure_risk i) =
     (if input_mismatch i then ''RISK_STATE_MISMATCH''
      else if daily_breach i then ''DAILY_LOSS_LIMIT''
      else if position_breach i then ''POSITION_LOSS_LIMIT'' else ''OK'')"
    by (cases "pure_loss_today i")
      (simp_all add: evaluate_pure_risk_def Let_def input_mismatch_def daily_breach_def position_breach_def)
  show "pe_blocked (evaluate_pure_risk i) \<longleftrightarrow> pe_reason_code (evaluate_pure_risk i) \<noteq> ''OK''"
    by (cases "pure_loss_today i")
      (simp_all add: evaluate_pure_risk_def Let_def)
qed

text \<open>
  The position loss limit is monotone in the price: if it blocks at some mark price, it
  blocks at every lower positive one, with all roundings of the double computation of the
  loss included. Cash, equity and limits being equal, a falling price never reopens trading.
\<close>

theorem position_loss_limit_monotone:
  assumes blocked: "pe_reason_code (evaluate_pure_risk i) = ''POSITION_LOSS_LIMIT''"
    and lower: "flt (Fin 0) m" "fle m (pi_mark_price i)"
  shows "pe_reason_code (evaluate_pure_risk (i\<lparr>pi_mark_price := m\<rparr>)) = ''POSITION_LOSS_LIMIT'' \<and>
    pe_blocked (evaluate_pure_risk (i\<lparr>pi_mark_price := m\<rparr>))"
proof -
  have same: "input_mismatch (i\<lparr>pi_mark_price := m\<rparr>) = input_mismatch i"
    "daily_breach (i\<lparr>pi_mark_price := m\<rparr>) = daily_breach i"
    by (simp_all add: input_mismatch_def daily_breach_def pure_loss_today_mark)
  have b: "\<not> input_mismatch i" "\<not> daily_breach i" "position_breach i"
    using blocked by (auto simp: evaluate_pure_risk_code(1) split: if_splits)
  let ?x = "or_zero (pi_position_entry_price i)"
  have le: "fle (pi_max_position_loss_pct i) (position_loss_pct ?x (pi_mark_price i))"
    and pos: "flt (Fin 0) (pi_max_position_loss_pct i)" "flt (Fin 0) ?x"
    using b(3) by (auto simp: position_breach_def)
  have "?x \<noteq> PInf"
    using le pos(1) by (cases "pi_max_position_loss_pct i") (auto simp: position_loss_infinite_entry)
  with pos(2) obtain x where x: "?x = Fin x" "0 < x" by (cases ?x) auto
  have "position_breach (i\<lparr>pi_mark_price := m\<rparr>)"
    using b(3) lower fle_trans [OF le [unfolded x(1)] position_loss_pct_antimono [OF lower(2) x(2)]]
    by (simp add: position_breach_def x(1))
  with b same show ?thesis by (simp add: evaluate_pure_risk_code)
qed

definition sample_risk_input :: "pyfloat \<Rightarrow> pure_risk_input" where
  "sample_risk_input m = \<lparr>pi_evaluation_ts_ms = 0, pi_current_equity = None, pi_baseline_equity = None,
     pi_loss_today = None, pi_max_daily_loss_krw = Fin 0, pi_mark_price = m, pi_current_cash_krw = None,
     pi_current_asset_qty = Some (Fin 2), pi_position_entry_price = Some (Fin 100),
     pi_max_position_loss_pct = Fin 10, pi_broker_local_mismatch = False,
     pi_recovery_risk_mismatch_reason = None\<rparr>"

lemma POSITION_EPSILON_less_2: "flt POSITION_EPSILON (Fin 2)"
proof -
  have "fle (rnd (1 / 10 ^ 12)) (rnd (of_int 1))" by (rule rnd_mono) simp
  also have "rnd (of_int 1) = Fin 1" using rnd_of_int [of 1] by simp
  finally show ?thesis
    by (cases "rnd (1 / 10 ^ 12)")
      (simp_all add: POSITION_EPSILON_def lit_def power_int_minus inverse_eq_divide)
qed

theorem position_loss_limit_monotone_witness:
  "pe_reason_code (evaluate_pure_risk (sample_risk_input (Fin 50))) = ''POSITION_LOSS_LIMIT'' \<and>
   pe_reason_code (evaluate_pure_risk (sample_risk_input (Fin 25))) = ''POSITION_LOSS_LIMIT''"
proof -
  have "rnd 50 = Fin 50" "rnd (1 / 2) = Fin (1 / 2)"
    using rnd_of_int [of 50] rnd_dyadic [of 1 "-1"] by (simp_all add: power_int_minus)
  then have "position_loss_pct (Fin 100) (Fin 50) = Fin 50"
    by (simp add: position_loss_pct_def fsub_def fmax_def)
  then have b: "pe_reason_code (evaluate_pure_risk (sample_risk_input (Fin 50))) = ''POSITION_LOSS_LIMIT''"
    using POSITION_EPSILON_less_2
    by (simp add: evaluate_pure_risk_code(1) sample_risk_input_def input_mismatch_def daily_breach_def
        position_breach_def or_zero_def mismatch_reason_def or_str_def py_strip_def py_lstrip_def py_rstrip_def)
  have "(sample_risk_input (Fin 50))\<lparr>pi_mark_price := Fin 25\<rparr> = sample_risk_input (Fin 25)"
    by (simp add: sample_risk_input_def)
  with position_loss_limit_monotone [OF b, of "Fin 25"] b show ?thesis
    by (simp add: sample_risk_input_def)
qed

subsection \<open>The engine\<close>

lemma build_risk_decision_simps [simp]:
  "rd_status (build_risk_decision sha pt st rcode r acts rec s p ev) = st"
  "rd_reason_code (build_risk_decision sha pt st rcode r acts rec s p ev) = rcode"
  "rd_allowed_actions (build_risk_decision sha pt st rcode r acts rec s p ev) = map py_upper acts"
  by (simp_all add: build_risk_decision_def Let_def)

lemma upper_actions [simp]:
  "py_upper ''HOLD'' = ''HOLD''" "py_upper ''BUY'' = ''BUY''" "py_upper ''SELL'' = ''SELL''"
  by code_simp+

definition decision_ok :: "risk_decision \<Rightarrow> bool" where
  "decision_ok d \<longleftrightarrow> rd_status d \<in> {''ALLOW'', ''BLOCK'', ''REQUIRE_RECONCILE'', ''REDUCE_ONLY''} \<and>
     (''BUY'' \<in> set (rd_allowed_actions d) \<longleftrightarrow> rd_status d = ''ALLOW'') \<and>
     ''HOLD'' \<in> set (rd_allowed_actions d)"

lemma drawdown_stage_ok: "drawdown_stage sha p s pt = Inr (Some d) \<Longrightarrow> decision_ok d \<and> rd_status d = ''BLOCK''"
  by (auto simp: drawdown_stage_def bind_py_Inr_iff Let_def decision_ok_def split: option.splits if_splits)

lemma cooldown_stage_ok: "cooldown_stage sha p s pt = Inr (Some d) \<Longrightarrow> decision_ok d \<and> rd_status d = ''BLOCK''"
  by (auto simp: cooldown_stage_def bind_py_Inr_iff decision_ok_def split: option.splits if_splits)

lemma unresolved_stage_ok:
  "decision_ok (unresolved_stage sha p s pt)"
  "rd_status (unresolved_stage sha p s pt) = ''ALLOW'' \<longleftrightarrow>
     \<not> (pt = ''pre_submit'' \<and> rp_unresolved_order_policy p = ''block'' \<and> rs_unresolved_order_blocked s)"
  by (auto simp: unresolved_stage_def risk_allow_def decision_ok_def)

lemma risk_tail_ok:
  assumes "bind_py (drawdown_stage sha p s pt) (\<lambda>d1. case d1 of Some d \<Rightarrow> Inr d
      | None \<Rightarrow> bind_py (cooldown_stage sha p s pt) (\<lambda>d2. case d2 of Some d \<Rightarrow> Inr d
        | None \<Rightarrow> Inr (unresolved_stage sha p s pt))) = Inr d"
  shows "decision_ok d \<and> (rd_status d = ''ALLOW'' \<longleftrightarrow> drawdown_stage sha p s pt = Inr None \<and>
    cooldown_stage sha p s pt = Inr None \<and>
    \<not> (pt = ''pre_submit'' \<and> rp_unresolved_order_policy p = ''block'' \<and> rs_unresolved_order_blocked s))"
proof -
  from assms obtain d1 where d1: "drawdown_stage sha p s pt = Inr d1" by (auto simp: bind_py_Inr_iff)
  show ?thesis
  proof (cases d1)
    case (Some x)
    then show ?thesis using assms d1 drawdown_stage_ok by auto
  next
    case None
    with assms d1 obtain d2 where d2: "cooldown_stage sha p s pt = Inr d2" by (auto simp: bind_py_Inr_iff)
    show ?thesis
      using assms d1 None d2 cooldown_stage_ok unresolved_stage_ok [of sha p s pt] by (cases d2) auto
  qed
qed

text \<open>The stages of the engine before the drawdown.\<close>

definition count_exceeded :: "int \<Rightarrow> int option \<Rightarrow> bool" where
  "count_exceeded limit n \<longleftrightarrow> 0 < limit \<and> (\<exists>m. n = Some m \<and> limit \<le> m)"

definition early_block :: "risk_policy \<Rightarrow> risk_snapshot \<Rightarrow> bool" where
  "early_block p s \<longleftrightarrow> rp_kill_switch p \<or> pe_blocked (engine_pure_risk p s) \<or>
     (rp_max_open_positions p \<le> 1 \<and> rs_duplicate_entry s \<and>
       flt POSITION_EPSILON (or_zero (rs_current_asset_qty s))) \<or>
     count_exceeded (rp_max_daily_order_count p) (rs_daily_order_count s) \<or>
     count_exceeded (rp_max_trade_count_per_day p) (rs_daily_trade_count s)"

lemma risk_evaluate_tail:
  assumes "\<not> (pt = ''pre_submit'' \<and> snapshot_mismatch s)" and "rp_policy_status p \<noteq> ''disabled_explicit''"
    and "\<not> early_block p s"
  shows "risk_evaluate sha p s pt = bind_py (drawdown_stage sha p s pt) (\<lambda>d1. case d1 of Some d \<Rightarrow> Inr d
      | None \<Rightarrow> bind_py (cooldown_stage sha p s pt) (\<lambda>d2. case d2 of Some d \<Rightarrow> Inr d
        | None \<Rightarrow> Inr (unresolved_stage sha p s pt)))"
  using assms
  by (auto simp: risk_evaluate_def Let_def early_block_def count_exceeded_def split: option.split)

lemma risk_evaluate_early:
  assumes "\<not> (pt = ''pre_submit'' \<and> snapshot_mismatch s)" and "rp_policy_status p \<noteq> ''disabled_explicit''"
    and "early_block p s"
  shows "\<exists>d. risk_evaluate sha p s pt = Inr d \<and> decision_ok d \<and> rd_status d \<noteq> ''ALLOW''"
proof -
  let ?pure = "engine_pure_risk p s"
  have count: "(0 < l \<and> (case n of Some m \<Rightarrow> l \<le> m | None \<Rightarrow> False)) = count_exceeded l n" for l n
    by (auto simp: count_exceeded_def split: option.splits)
  note eq = risk_evaluate_def [of sha p s pt, unfolded Let_def count]
  consider (kill) "rp_kill_switch p"
    | (pure) "\<not> rp_kill_switch p" "pe_blocked ?pure"
    | (late) "\<not> rp_kill_switch p" "\<not> pe_blocked ?pure" by blast
  then show ?thesis
  proof cases
    case kill
    with assms(1,2) show ?thesis by (simp add: eq decision_ok_def)
  next
    case pure
    with assms(1,2) show ?thesis
      by (cases "pe_reason_code ?pure = ''POSITION_LOSS_LIMIT''";
          cases "pe_reason_code ?pure = ''RISK_STATE_MISMATCH''") (simp_all add: eq decision_ok_def)
  next
    case late
    let ?dup = "rp_max_open_positions p \<le> 1 \<and> rs_duplicate_entry s \<and>
      flt POSITION_EPSILON (or_zero (rs_current_asset_qty s))"
    let ?orders = "count_exceeded (rp_max_daily_order_count p) (rs_daily_order_count s)"
    from assms(3) late consider ?dup | "\<not> ?dup" ?orders
      | "\<not> ?dup" "\<not> ?orders" "count_exceeded (rp_max_trade_count_per_day p) (rs_daily_trade_count s)"
      unfolding early_block_def by blast
    then show ?thesis
      by cases (use assms(1,2) late in \<open>simp_all only: eq if_True if_False simp_thms, simp_all add: decision_ok_def\<close>)
  qed
qed

lemma risk_evaluate_cases:
  assumes d: "risk_evaluate sha p s pt = Inr d"
  shows "decision_ok d \<and> (rd_status d = ''ALLOW'' \<longleftrightarrow>
    \<not> (pt = ''pre_submit'' \<and> snapshot_mismatch s) \<and>
    (rp_policy_status p = ''disabled_explicit'' \<or>
      \<not> early_block p s \<and> drawdown_stage sha p s pt = Inr None \<and> cooldown_stage sha p s pt = Inr None \<and>
      \<not> (pt = ''pre_submit'' \<and> rp_unresolved_order_policy p = ''block'' \<and> rs_unresolved_order_blocked s)))"
proof -
  consider (gate) "pt = ''pre_submit'' \<and> snapshot_mismatch s"
    | (disabled) "\<not> (pt = ''pre_submit'' \<and> snapshot_mismatch s)" "rp_policy_status p = ''disabled_explicit''"
    | (early) "\<not> (pt = ''pre_submit'' \<and> snapshot_mismatch s)" "rp_policy_status p \<noteq> ''disabled_explicit''"
        "early_block p s"
    | (tail) "\<not> (pt = ''pre_submit'' \<and> snapshot_mismatch s)" "rp_policy_status p \<noteq> ''disabled_explicit''"
        "\<not> early_block p s"
    by blast
  then show ?thesis
  proof cases
    case gate
    then show ?thesis using d by (auto simp: risk_evaluate_def Let_def decision_ok_def)
  next
    case disabled
    then show ?thesis using d by (auto simp: risk_evaluate_def Let_def decision_ok_def)
  next
    case early
    with d show ?thesis using risk_evaluate_early [OF early, of sha] by auto
  next
    case tail
    with d show ?thesis using risk_tail_ok [of sha p s pt d] risk_evaluate_tail [OF tail] by simp
  qed
qed

text \<open>The metric of a snapshot survives the way through its dictionary.\<close>

lemma risk_metric_dict: "risk_metric_of_dict (risk_metric_as_dict m) = Inr m"
  by (cases m) (simp add: risk_metric_of_dict_def risk_metric_as_dict_def dget_or_def dget_def dstr_def py_or_def)

lemma evaluate_pre_submit_eq:
  "evaluate_pre_submit sha p plan s = risk_evaluate sha p
     (s\<lparr>rs_evidence := dmerge [(''submit_plan'', VDict (risk_submit_plan_as_dict plan))] (rs_evidence s)\<rparr>)
     ''pre_submit''"
  by (cases s; cases "rs_current_drawdown_metric s") (simp_all add: evaluate_pre_submit_def risk_metric_dict)

subsection \<open>The interface of a risk engine\<close>

text \<open>
  What the callers of the protocol \<open>RiskEngine\<close> rely on: both evaluation points answer with
  a known status, and a purchase is among the allowed actions only of an ALLOW decision.
\<close>

locale risk_engine =
  fixes pre_decision :: "'s \<Rightarrow> 'd py" and pre_submit :: "'plan \<Rightarrow> 's \<Rightarrow> 'd py"
    and status :: "'d \<Rightarrow> string" and actions :: "'d \<Rightarrow> string list"
  assumes pre_decision_buy: "pre_decision s = Inr d \<Longrightarrow> ''BUY'' \<in> set (actions d) \<longleftrightarrow> status d = ''ALLOW''"
    and pre_submit_buy: "pre_submit plan s = Inr d \<Longrightarrow> ''BUY'' \<in> set (actions d) \<longleftrightarrow> status d = ''ALLOW''"
    and pre_submit_hold: "pre_submit plan s = Inr d \<Longrightarrow> ''HOLD'' \<in> set (actions d)"
begin

lemma buy_twice_allowed:
  assumes "pre_decision s = Inr d" "''BUY'' \<in> set (actions d)"
    and "pre_submit plan s' = Inr d'" "''BUY'' \<in> set (actions d')"
  shows "status d = ''ALLOW'' \<and> status d' = ''ALLOW''"
  using assms pre_decision_buy pre_submit_buy by simp

lemma not_allow_no_buy:
  "pre_submit plan s = Inr d \<Longrightarrow> status d \<noteq> ''ALLOW'' \<Longrightarrow> ''BUY'' \<notin> set (actions d) \<and> ''HOLD'' \<in> set (actions d)"
  using pre_submit_buy pre_submit_hold by simp

end

interpretation policy_engine: risk_engine "evaluate_pre_decision sha p" "evaluate_pre_submit sha p"
  rd_status rd_allowed_actions for sha p
  by unfold_locales
    (auto simp: evaluate_pre_decision_def evaluate_pre_submit_eq decision_ok_def dest!: risk_evaluate_cases)

text \<open>
  Before a submission, a risk decision that is not ALLOW never lists a purchase among
  its actions and always lists holding; an ALLOW decision lists the purchase.
\<close>

theorem pre_submit_actions:
  assumes "evaluate_pre_submit sha p plan s = Inr d"
  shows "(''BUY'' \<in> set (rd_allowed_actions d) \<longleftrightarrow> rd_status d = ''ALLOW'') \<and>
    ''HOLD'' \<in> set (rd_allowed_actions d)"
  using policy_engine.pre_submit_buy [OF assms] policy_engine.pre_submit_hold [OF assms] by simp

subsection \<open>What ALLOW means\<close>

definition drawdown_ok :: "risk_policy \<Rightarrow> risk_snapshot \<Rightarrow> bool" where
  "drawdown_ok p s \<longleftrightarrow> (\<forall>m. rs_current_drawdown_metric s = Some m \<and> flt (Fin 0) (rp_max_drawdown_pct p) \<longrightarrow>
     (\<exists>c. compare_risk_metric_to_limit m \<lparr>rl_value = rp_max_drawdown_pct p, rl_unit = ''percent_point'',
        rl_scope = ''risk_scope'', rl_reason_code = ''MAX_DRAWDOWN_PCT''\<rparr> = Inr c \<and>
        rc_reason_code c = ''OK'' \<and> \<not> rc_exceeded c))"

definition cooldown_ok :: "risk_policy \<Rightarrow> risk_snapshot \<Rightarrow> bool" where
  "cooldown_ok p s \<longleftrightarrow> (\<forall>t. rs_minutes_since_last_loss s = Some t \<and> 0 < rp_cooldown_after_loss_min p \<longrightarrow>
     (\<exists>c. val_float (VInt (rp_cooldown_after_loss_min p)) = Inr c \<and> \<not> flt t c))"

lemma drawdown_stage_None: "drawdown_stage sha p s pt = Inr None \<longleftrightarrow> drawdown_ok p s"
proof (cases "rs_current_drawdown_metric s")
  case (Some m)
  have lim: "risk_limit_from_policy p ''drawdown'' = Inr \<lparr>rl_value = rp_max_drawdown_pct p,
      rl_unit = ''percent_point'', rl_scope = ''risk_scope'', rl_reason_code = ''MAX_DRAWDOWN_PCT''\<rparr>"
    by (simp add: risk_limit_from_policy_def py_text_defs Let_def)
  show ?thesis
    using Some
    by (auto simp: drawdown_stage_def drawdown_ok_def lim bind_py_Inr_iff Let_def split: if_splits)
qed (simp add: drawdown_stage_def drawdown_ok_def)

lemma cooldown_stage_None: "cooldown_stage sha p s pt = Inr None \<longleftrightarrow> cooldown_ok p s"
  by (cases "rs_minutes_since_last_loss s")
    (auto simp: cooldown_stage_def cooldown_ok_def bind_py_Inr_iff split: if_splits)

lemma risk_evaluate_allow_iff:
  "(\<exists>d. risk_evaluate sha p s pt = Inr d \<and> rd_status d = ''ALLOW'') \<longleftrightarrow>
    \<not> (pt = ''pre_submit'' \<and> snapshot_mismatch s) \<and>
    (rp_policy_status p = ''disabled_explicit'' \<or>
      \<not> early_block p s \<and> drawdown_ok p s \<and> cooldown_ok p s \<and>
      \<not> (pt = ''pre_submit'' \<and> rp_unresolved_order_policy p = ''block'' \<and> rs_unresolved_order_blocked s))"
    (is "?L \<longleftrightarrow> ?R")
proof
  assume ?L
  then show ?R
    using risk_evaluate_cases [of sha p s pt] by (auto simp: drawdown_stage_None cooldown_stage_None)
next
  assume R: ?R
  show ?L
  proof (cases "rp_policy_status p = ''disabled_explicit''")
    case True
    with R show ?thesis by (auto simp: risk_evaluate_def Let_def)
  next
    case False
    with R have st: "drawdown_stage sha p s pt = Inr None" "cooldown_stage sha p s pt = Inr None"
      by (simp_all add: drawdown_stage_None cooldown_stage_None)
    from R False have "\<not> (pt = ''pre_submit'' \<and> snapshot_mismatch s)" "\<not> early_block p s" by simp_all
    then have "risk_evaluate sha p s pt = Inr (unresolved_stage sha p s pt)"
      using risk_evaluate_tail False st by simp
    then show ?thesis using R False unresolved_stage_ok(2) by simp
  qed
qed

lemma engine_pure_risk_evidence [simp]:
  "engine_pure_risk p (s\<lparr>rs_evidence := ev\<rparr>) = engine_pure_risk p s"
  "early_block p (s\<lparr>rs_evidence := ev\<rparr>) = early_block p s"
  "drawdown_ok p (s\<lparr>rs_evidence := ev\<rparr>) = drawdown_ok p s"
  "cooldown_ok p (s\<lparr>rs_evidence := ev\<rparr>) = cooldown_ok p s"
  "snapshot_mismatch (s\<lparr>rs_evidence := ev\<rparr>) = snapshot_mismatch s"
  by (simp_all add: engine_pure_risk_def early_block_def drawdown_ok_def cooldown_ok_def snapshot_mismatch_def)


text \<open>
  A mismatch between broker and local state always demands a reconciliation before a
  submission: the engine never raises on it and no policy, not even an explicitly disabled
  one or a kill switch, changes the answer.
\<close>

theorem mismatch_requires_reconcile:
  assumes "rs_broker_local_mismatch s \<or> py_strip (or_str (rs_recovery_risk_mismatch_reason s) []) \<noteq> []"
  shows "\<exists>d. evaluate_pre_submit sha p plan s = Inr d \<and> rd_status d = ''REQUIRE_RECONCILE'' \<and>
    rd_reason_code d = ''RISK_STATE_MISMATCH'' \<and> rd_allowed_actions d = [''HOLD'']"
proof -
  have mis: "snapshot_mismatch s"
    using assms by (simp add: snapshot_mismatch_def mismatch_reason_def)
  then have "pe_reason_code (engine_pure_risk p s) = ''RISK_STATE_MISMATCH''"
    by (simp add: engine_pure_risk_def evaluate_pure_risk_code input_mismatch_def snapshot_mismatch_def)
  then show ?thesis
    using mis by (simp add: evaluate_pre_submit_eq risk_evaluate_def Let_def)
qed

subsection \<open>Hashes\<close>

definition sha_hex :: "(string \<Rightarrow> string) \<Rightarrow> bool" where
  "sha_hex sha \<longleftrightarrow> (\<forall>t. length (sha t) = 64 \<and> set (sha t) \<subseteq> set ''0123456789abcdef'')"

lemma hex_chars: "\<forall>c \<in> set ''sha256:0123456789abcdef''. \<not> py_isspace c \<and> lower_char c = c"
  by code_simp

lemma py_lower_hex: "set h \<subseteq> set ''0123456789abcdef'' \<Longrightarrow> py_lower h = h"
  unfolding py_lower_def by (rule map_idI) (use hex_chars in force)

lemma canonical_payload_hash_valid:
  assumes "sha_hex sha"
  shows "valid_sha256_prefixed (VStr (canonical_payload_hash sha v))"
proof -
  let ?h = "sha (json_compact False (stable_value v))"
  have h: "length ?h = 64" "set ?h \<subseteq> set ''0123456789abcdef''" using assms by (auto simp: sha_hex_def)
  have "\<forall>c \<in> set (''sha256:'' @ ?h). \<not> py_isspace c"
    using h(2) hex_chars by force
  then have "py_strip (''sha256:'' @ ?h) = ''sha256:'' @ ?h" by (rule py_strip_no_space)
  moreover have "py_startswith (''sha256:'' @ ?h) ''sha256:''" "py_removeprefix (''sha256:'' @ ?h) ''sha256:'' = ?h"
    by (simp_all add: py_startswith_def py_removeprefix_def)
  moreover have "py_str (py_or (VStr (canonical_payload_hash sha v)) (VStr [])) = ''sha256:'' @ ?h"
    by (simp add: py_or_def canonical_payload_hash_def)
  ultimately show ?thesis
    using h(1) subsetD [OF h(2)] py_lower_hex [OF h(2)]
    by (simp only: valid_sha256_prefixed_def Let_def simp_thms) blast
qed

text \<open>
  Every hash of a risk decision passes the format check of the submit authority policy,
  given that SHA-256 yields 64 lower-case hexadecimal digits.
\<close>

theorem risk_decision_hashes_valid:
  assumes "sha_hex sha"
    and "d = build_risk_decision sha pt st rcode reason acts rec s p ev"
  shows "\<forall>h \<in> {rd_risk_input_hash d, rd_risk_policy_hash d, rd_risk_evidence_hash d, rd_risk_decision_hash d}.
    valid_sha256_prefixed (VStr h)"
  using canonical_payload_hash_valid [OF assms(1)]
  by (simp add: assms(2) build_risk_decision_def Let_def risk_snapshot_input_hash_def risk_policy_hash_def)

definition sample_policy :: risk_policy where
  "sample_policy = \<lparr>rp_schema_version = 1, rp_max_daily_loss_krw = Fin 0, rp_max_position_loss_pct = Fin 0,
     rp_max_daily_order_count = 0, rp_max_trade_count_per_day = 0, rp_max_drawdown_pct = Fin 0,
     rp_cooldown_after_loss_min = 0, rp_kill_switch = False, rp_max_open_positions = 1,
     rp_unresolved_order_policy = ''block'', rp_policy_status = ''enabled'',
     rp_missing_policy = ''fail_closed_for_promotion'', rp_source = ''settings''\<rparr>"

definition sample_snapshot :: risk_snapshot where
  "sample_snapshot = \<lparr>rs_evaluation_ts_ms = 0, rs_mark_price = Fin 1, rs_current_equity = None,
     rs_baseline_equity = None, rs_loss_today = None, rs_current_cash_krw = None,
     rs_current_asset_qty = None, rs_position_entry_price = None, rs_broker_local_mismatch = False,
     rs_recovery_risk_mismatch_reason = None, rs_duplicate_entry = False, rs_daily_order_count = None,
     rs_daily_trade_count = None, rs_current_drawdown_pct = None, rs_current_drawdown_metric = None,
     rs_minutes_since_last_loss = None, rs_unresolved_order_blocked = False,
     rs_unresolved_order_reason_code = ''OK'', rs_unresolved_order_reason = ''ok'',
     rs_state_source = ''unknown'', rs_evidence = []\<rparr>"

definition sample_risk_plan :: risk_submit_plan where
  "sample_risk_plan = \<lparr>rsp_side = ''BUY'', rsp_qty = Fin 1, rsp_notional_krw = None,
     rsp_source = ''unknown'', rsp_evidence = []\<rparr>"

theorem risk_decision_hashes_valid_witness:
  "let d = build_risk_decision (\<lambda>t. replicate 64 (CHR ''a'')) ''pre_submit'' ''ALLOW'' ''OK'' ''ok''
     [''BUY''] None sample_snapshot sample_policy []
   in \<forall>h \<in> {rd_risk_input_hash d, rd_risk_policy_hash d, rd_risk_evidence_hash d, rd_risk_decision_hash d}.
     valid_sha256_prefixed (VStr h)"
  unfolding Let_def by (rule risk_decision_hashes_valid [OF _ refl]) (simp add: sha_hex_def)

theorem mismatch_requires_reconcile_witness:
  "\<exists>d. evaluate_pre_submit (\<lambda>t. t) (sample_policy\<lparr>rp_policy_status := ''disabled_explicit''\<rparr>) sample_risk_plan
     (sample_snapshot\<lparr>rs_broker_local_mismatch := True\<rparr>) = Inr d \<and> rd_status d = ''REQUIRE_RECONCILE'' \<and>
    rd_reason_code d = ''RISK_STATE_MISMATCH'' \<and> rd_allowed_actions d = [''HOLD'']"
  by (rule mismatch_requires_reconcile) simp

lemma sample_allowed:
  "\<exists>d. evaluate_pre_submit sha sample_policy sample_risk_plan sample_snapshot = Inr d \<and> rd_status d = ''ALLOW''"
  unfolding evaluate_pre_submit_eq risk_evaluate_allow_iff engine_pure_risk_evidence
  by (simp add: snapshot_mismatch_def sample_snapshot_def sample_policy_def mismatch_reason_def or_str_def
      early_block_def count_exceeded_def drawdown_ok_def cooldown_ok_def engine_pure_risk_def
      evaluate_pure_risk_code input_mismatch_def daily_breach_def position_breach_def)

theorem pre_submit_actions_witness:
  "\<exists>d. evaluate_pre_submit (\<lambda>t. t) sample_policy sample_risk_plan sample_snapshot = Inr d \<and>
    ''BUY'' \<in> set (rd_allowed_actions d)"
proof -
  obtain d where d: "evaluate_pre_submit (\<lambda>t. t) sample_policy sample_risk_plan sample_snapshot = Inr d"
    and "rd_status d = ''ALLOW''" using sample_allowed by blast
  with pre_submit_actions [OF d] show ?thesis by blast
qed

end
