(* ===== verification/Runtime_Risk_Properties.thy ===== *)
theory Runtime_Risk_Properties
  imports Runtime_Risk Risk_Properties Order_Properties
begin

text \<open>
  The composed risk policy against the policies it is composed of, the agreement of the two
  classifications of unresolved orders, and what an open order means for the next
  submission.
\<close>

subsection \<open>Minimum of the positive limits\<close>

lemma fmin_le: "a \<noteq> NaN \<Longrightarrow> b \<noteq> NaN \<Longrightarrow> fle (fmin a b) a \<and> fle (fmin a b) b"
  using fle_total [of a b] by (auto simp: fmin_def flt_iff fle_refl)

lemma foldl_fmin:
  assumes "a \<noteq> NaN" and "\<forall>x \<in> set xs. x \<noteq> NaN"
  shows "foldl fmin a xs \<in> insert a (set xs) \<and> (\<forall>x \<in> insert a (set xs). fle (foldl fmin a xs) x)"
  using assms
proof (induction xs arbitrary: a)
  case Nil
  then show ?case by (simp add: fle_refl)
next
  case (Cons x xs)
  have m: "fmin a x \<noteq> NaN" "fle (fmin a x) a" "fle (fmin a x) x" "fmin a x \<in> {a, x}"
    using Cons.prems fmin_le [of a x] by (auto simp: fmin_def)
  have r: "foldl fmin a (x # xs) \<in> insert (fmin a x) (set xs)"
    "fle (foldl fmin a (x # xs)) (fmin a x)" "\<forall>y \<in> set xs. fle (foldl fmin a (x # xs)) y"
    using Cons.IH [OF m(1)] Cons.prems(2) by simp_all
  with m fle_trans [OF r(2) m(2)] fle_trans [OF r(2) m(3)] show ?case by auto
qed

lemma positive_min_bound:
  assumes "v \<in> set vs" and "flt (Fin 0) v"
  shows "positive_min vs \<in> set vs \<and> flt (Fin 0) (positive_min vs) \<and> fle (positive_min vs) v"
proof -
  obtain p ps where f: "filter (\<lambda>v. flt (Fin 0) v) vs = p # ps"
    using assms by (cases "filter (\<lambda>v. flt (Fin 0) v) vs") (auto simp: filter_empty_conv)
  then have s: "set (p # ps) = {x \<in> set vs. flt (Fin 0) x}" by (metis set_filter)
  then have "\<forall>x \<in> set (p # ps). x \<noteq> NaN" by (auto simp: flt_iff dest: fle_not_NaN)
  then have "foldl fmin p ps \<in> set (p # ps) \<and> (\<forall>x \<in> set (p # ps). fle (foldl fmin p ps) x)"
    using foldl_fmin [of p ps] by simp
  then show ?thesis
    using assms s by (auto simp: positive_min_def f)
qed

lemma positive_min_none: "\<forall>v \<in> set vs. \<not> flt (Fin 0) v \<Longrightarrow> positive_min vs = Fin 0"
  by (simp add: positive_min_def filter_False)

text \<open>Integers that a double represents exactly.\<close>

definition small_int :: "int \<Rightarrow> bool" where
  "small_int n \<longleftrightarrow> \<bar>n\<bar> < 2 ^ 53"

lemma val_float_small: "small_int n \<Longrightarrow> val_float (VInt n) = Inr (Fin (of_int n))"
  using rnd_of_int [of n] by (simp add: float_of_int_def small_int_def)

lemma positive_min_int_bound:
  assumes small: "\<forall>n \<in> set ns. small_int n"
  shows "\<exists>m. positive_min_int ns = Inr m \<and> (\<forall>n \<in> set ns. 0 < n \<longrightarrow> 0 < m \<and> m \<le> n) \<and>
    (m = 0 \<or> m \<in> set ns \<and> 0 < m)"
proof -
  let ?vs = "map (\<lambda>n. Fin (of_int n)) ns"
  have "map_py (\<lambda>n. val_float (VInt n)) ns = Inr ?vs"
    using small by (induction ns) (simp_all add: val_float_small del: val_float.simps)
  then have eq: "positive_min_int ns = val_int (VFloat (positive_min ?vs))"
    by (simp add: positive_min_int_def)
  show ?thesis
  proof (cases "\<exists>n \<in> set ns. 0 < n")
    case True
    then obtain n where n: "n \<in> set ns" "0 < n" by blast
    then have "positive_min ?vs \<in> set ?vs" "flt (Fin 0) (positive_min ?vs)"
      using positive_min_bound [of "Fin (of_int n)" ?vs] by auto
    then obtain k where k: "k \<in> set ns" "positive_min ?vs = Fin (of_int k)" "0 < k" by auto
    have "\<forall>n \<in> set ns. 0 < n \<longrightarrow> k \<le> n"
      using positive_min_bound [of "Fin (of_int _)" ?vs] by (fastforce simp: k(2))
    then show ?thesis using k by (simp add: eq)
  next
    case False
    then have "positive_min ?vs = Fin 0" by (intro positive_min_none) auto
    then show ?thesis using False by (auto simp: eq)
  qed
qed

subsection \<open>The composed policy\<close>

text \<open>A limit that is at least as strict: set whenever the other is, and not above it.\<close>

definition stricter :: "pyfloat \<Rightarrow> pyfloat \<Rightarrow> bool" where
  "stricter a b \<longleftrightarrow> (flt (Fin 0) b \<longrightarrow> flt (Fin 0) a \<and> fle a b)"

lemma positive_min_stricter: "b \<in> set vs \<Longrightarrow> stricter (positive_min vs) b"
  using positive_min_bound by (auto simp: stricter_def)

lemma pure_risk_stricter:
  assumes "stricter a (rp_max_daily_loss_krw p)" and "stricter b (rp_max_position_loss_pct p)"
    and "rp_max_daily_loss_krw q = a" and "rp_max_position_loss_pct q = b"
    and blocked: "pe_blocked (engine_pure_risk p s)"
  shows "pe_blocked (engine_pure_risk q s)"
proof -
  let ?i = "\<lambda>p. \<lparr>pi_evaluation_ts_ms = rs_evaluation_ts_ms s,
      pi_current_equity = rs_current_equity s, pi_baseline_equity = rs_baseline_equity s,
      pi_loss_today = rs_loss_today s, pi_max_daily_loss_krw = rp_max_daily_loss_krw p,
      pi_mark_price = rs_mark_price s, pi_current_cash_krw = rs_current_cash_krw s,
      pi_current_asset_qty = rs_current_asset_qty s,
      pi_position_entry_price = rs_position_entry_price s,
      pi_max_position_loss_pct = rp_max_position_loss_pct p,
      pi_broker_local_mismatch = rs_broker_local_mismatch s,
      pi_recovery_risk_mismatch_reason = rs_recovery_risk_mismatch_reason s\<rparr>"
  have eq: "pe_blocked (engine_pure_risk p s) \<longleftrightarrow>
      input_mismatch (?i p) \<or> daily_breach (?i p) \<or> position_breach (?i p)" for p
    unfolding engine_pure_risk_def evaluate_pure_risk_code by auto
  have "pure_loss_today (?i q) = pure_loss_today (?i p)" by (simp add: pure_loss_today_def split: option.split)
  then have "daily_breach (?i p) \<Longrightarrow> daily_breach (?i q)"
    using assms(1,3) fle_trans by (auto simp: daily_breach_def stricter_def)
  moreover have "position_breach (?i p) \<Longrightarrow> position_breach (?i q)"
    using assms(2,4) fle_trans by (auto simp: position_breach_def stricter_def)
  moreover have "input_mismatch (?i q) = input_mismatch (?i p)" by (simp add: input_mismatch_def)
  ultimately show ?thesis using blocked unfolding eq by blast
qed

lemma compare_with_higher_limit:
  assumes c: "compare_risk_metric_to_limit m l = Inr c" "rc_reason_code c = ''OK''" "\<not> rc_exceeded c"
    and le: "fle (rl_value l) (rl_value l')"
    and l': "rl_unit l' = rl_unit l" "rl_scope l' = rl_scope l"
  shows "compare_risk_metric_to_limit m l' = Inr (c\<lparr>rc_limit := l'\<rparr>)"
  using c fle_trans [OF le]
  unfolding compare_risk_metric_to_limit_def Let_def l'
  by (auto simp: bind_py_Inr_iff or_str_def split: if_splits sum.splits py_error.splits)

lemma drawdown_stricter:
  assumes "stricter (rp_max_drawdown_pct q) (rp_max_drawdown_pct p)" and "drawdown_ok q s"
  shows "drawdown_ok p s"
  unfolding drawdown_ok_def
proof (intro allI impI, elim conjE)
  fix m
  assume m: "rs_current_drawdown_metric s = Some m" and pos: "flt (Fin 0) (rp_max_drawdown_pct p)"
  let ?l = "\<lambda>p. \<lparr>rl_value = rp_max_drawdown_pct p, rl_unit = ''percent_point'',
        rl_scope = ''risk_scope'', rl_reason_code = ''MAX_DRAWDOWN_PCT''\<rparr>"
  have q: "flt (Fin 0) (rp_max_drawdown_pct q)" "fle (rp_max_drawdown_pct q) (rp_max_drawdown_pct p)"
    using assms(1) pos by (auto simp: stricter_def)
  then obtain c where c: "compare_risk_metric_to_limit m (?l q) = Inr c" "rc_reason_code c = ''OK''" "\<not> rc_exceeded c"
    using assms(2) m by (auto simp: drawdown_ok_def)
  have "compare_risk_metric_to_limit m (?l p) = Inr (c\<lparr>rc_limit := ?l p\<rparr>)"
    using c by (rule compare_with_higher_limit) (use q(2) in simp_all)
  with c(2,3) show "\<exists>c. compare_risk_metric_to_limit m (?l p) = Inr c \<and> rc_reason_code c = ''OK'' \<and> \<not> rc_exceeded c"
    by simp
qed

definition counts_small :: "risk_policy \<Rightarrow> bool" where
  "counts_small p \<longleftrightarrow> small_int (rp_max_daily_order_count p) \<and> small_int (rp_max_trade_count_per_day p) \<and>
     small_int (rp_cooldown_after_loss_min p)"

text \<open>What the composition keeps of an enabled policy.\<close>

lemma compose_policy_fields:
  assumes q: "compose_most_restrictive_strategy_policies c ps = Inr q"
    and p: "p \<in> set ps" "rp_policy_status p \<noteq> ''disabled_explicit''"
    and small: "\<forall>p \<in> set ps. counts_small p"
  shows "rp_policy_status q = ''enabled''" and "rp_kill_switch p \<Longrightarrow> rp_kill_switch q"
    and "stricter (rp_max_daily_loss_krw q) (rp_max_daily_loss_krw p)"
    and "stricter (rp_max_position_loss_pct q) (rp_max_position_loss_pct p)"
    and "stricter (rp_max_drawdown_pct q) (rp_max_drawdown_pct p)"
    and "0 < rp_max_daily_order_count p \<Longrightarrow>
      0 < rp_max_daily_order_count q \<and> rp_max_daily_order_count q \<le> rp_max_daily_order_count p"
    and "0 < rp_max_trade_count_per_day p \<Longrightarrow>
      0 < rp_max_trade_count_per_day q \<and> rp_max_trade_count_per_day q \<le> rp_max_trade_count_per_day p"
    and "rp_max_open_positions p \<le> 1 \<Longrightarrow> rp_max_open_positions q \<le> 1"
    and "rp_unresolved_order_policy p = ''block'' \<Longrightarrow> rp_unresolved_order_policy q = ''block''"
proof -
  define es where "es = filter (\<lambda>p. rp_policy_status p \<noteq> ''disabled_explicit'') ps"
  have pe: "p \<in> set es" using p by (simp add: es_def)
  then have ne: "(es = []) = False" "(ps = []) = False" using p(1) by auto
  have s: "\<forall>n \<in> set (map rp_max_daily_order_count es). small_int n"
    "\<forall>n \<in> set (map rp_max_trade_count_per_day es). small_int n"
    "\<forall>n \<in> set (map rp_cooldown_after_loss_min es). small_int n"
    using small by (auto simp: counts_small_def es_def)
  obtain oc where oc: "positive_min_int (map rp_max_daily_order_count es) = Inr oc"
      "\<forall>n \<in> set (map rp_max_daily_order_count es). 0 < n \<longrightarrow> 0 < oc \<and> oc \<le> n"
    using positive_min_int_bound [OF s(1)] by blast
  obtain tc where tc: "positive_min_int (map rp_max_trade_count_per_day es) = Inr tc"
      "\<forall>n \<in> set (map rp_max_trade_count_per_day es). 0 < n \<longrightarrow> 0 < tc \<and> tc \<le> n"
    using positive_min_int_bound [OF s(2)] by blast
  obtain cd where cd: "positive_min_int (map rp_cooldown_after_loss_min es) = Inr cd"
    using positive_min_int_bound [OF s(3)] by blast
  have f: "rp_policy_status q = ''enabled'' \<and> (rp_kill_switch q \<longleftrightarrow> (\<exists>p \<in> set es. rp_kill_switch p)) \<and>
      rp_max_daily_loss_krw q = positive_min (map rp_max_daily_loss_krw es) \<and>
      rp_max_position_loss_pct q = positive_min (map rp_max_position_loss_pct es) \<and>
      rp_max_drawdown_pct q = positive_min (map rp_max_drawdown_pct es) \<and>
      rp_max_daily_order_count q = oc \<and> rp_max_trade_count_per_day q = tc \<and>
      rp_max_open_positions q = max 1 (Min (set (map (\<lambda>p. max 1 (rp_max_open_positions p)) es))) \<and>
      rp_unresolved_order_policy q =
        (if \<exists>p \<in> set es. rp_unresolved_order_policy p = ''block'' then ''block''
         else rp_unresolved_order_policy (hd es))"
    using q unfolding compose_most_restrictive_strategy_policies_def Let_def es_def [symmetric]
    by (simp only: ne if_False oc(1) tc(1) cd bind_py_simps sum.inject) (drule sym, simp)
  show "rp_policy_status q = ''enabled''" "rp_kill_switch p \<Longrightarrow> rp_kill_switch q"
    "rp_unresolved_order_policy p = ''block'' \<Longrightarrow> rp_unresolved_order_policy q = ''block''"
    using f pe by auto
  show "stricter (rp_max_daily_loss_krw q) (rp_max_daily_loss_krw p)"
    "stricter (rp_max_position_loss_pct q) (rp_max_position_loss_pct p)"
    "stricter (rp_max_drawdown_pct q) (rp_max_drawdown_pct p)"
    using f pe positive_min_stricter by (metis imageI set_map)+
  show "0 < rp_max_daily_order_count p \<Longrightarrow>
      0 < rp_max_daily_order_count q \<and> rp_max_daily_order_count q \<le> rp_max_daily_order_count p"
    "0 < rp_max_trade_count_per_day p \<Longrightarrow>
      0 < rp_max_trade_count_per_day q \<and> rp_max_trade_count_per_day q \<le> rp_max_trade_count_per_day p"
    using f pe oc(2) tc(2) by auto
  show "rp_max_open_positions q \<le> 1" if "rp_max_open_positions p \<le> 1"
  proof -
    have "Min (set (map (\<lambda>p. max 1 (rp_max_open_positions p)) es)) \<le> max 1 (rp_max_open_positions p)"
      using pe by (intro Min_le) auto
    with that f show ?thesis by simp
  qed
qed


abbreviation cooldown_policy :: "int \<Rightarrow> risk_policy" where
  "cooldown_policy n \<equiv> sample_policy\<lparr>rp_cooldown_after_loss_min := n\<rparr>"

lemma small_numerals: "small_int 0" "small_int 10" "small_int 60"
  by (simp_all add: small_int_def)

lemma compose_cooldowns:
  "compose_most_restrictive_strategy_policies c [cooldown_policy 10, cooldown_policy 60] =
     Inr ((cooldown_policy 10)\<lparr>rp_source := ''composed_selected_strategy_risk_profiles''\<rparr>)"
proof -
  obtain m where m: "positive_min_int [10, 60] = Inr m" "0 < m \<and> m \<le> 10" "m = 0 \<or> m \<in> {10, 60} \<and> 0 < m"
    using positive_min_int_bound [of "[10, 60]"] small_numerals by auto
  then have 1: "positive_min_int [10, 60] = Inr 10" by auto
  obtain k where "positive_min_int [0, 0] = Inr k" "k = 0 \<or> k \<in> {0} \<and> 0 < k"
    using positive_min_int_bound [of "[0, 0]"] small_numerals by auto
  then have 0: "positive_min_int [0, 0] = Inr 0" by auto
  have "positive_min [Fin 0, Fin 0] = Fin 0" by (simp add: positive_min_def)
  with 0 1 show ?thesis
    by (simp add: compose_most_restrictive_strategy_policies_def Let_def sample_policy_def)
qed

lemma sample_policy_allow_iff:
  "(\<exists>d. evaluate_pre_submit sha ((cooldown_policy n)\<lparr>rp_source := src\<rparr>) plan
      (sample_snapshot\<lparr>rs_minutes_since_last_loss := Some t\<rparr>) = Inr d \<and> rd_status d = ''ALLOW'') \<longleftrightarrow>
    (0 < n \<longrightarrow> (\<exists>c. val_float (VInt n) = Inr c \<and> \<not> flt t c))"
  unfolding evaluate_pre_submit_eq risk_evaluate_allow_iff engine_pure_risk_evidence
  by (simp add: snapshot_mismatch_def sample_snapshot_def sample_policy_def mismatch_reason_def or_str_def
      early_block_def count_exceeded_def drawdown_ok_def cooldown_ok_def engine_pure_risk_def
      evaluate_pure_risk_code input_mismatch_def daily_breach_def position_breach_def)


text \<open>
  The composed policy takes the shortest cooldown of its policies, so it is not the most
  restrictive one: composed of cooldowns of 10 and 60 minutes, it allows a submission 30
  minutes after a loss that the second policy alone blocks.
\<close>

theorem composed_policy_shortens_cooldown:
  "\<exists>q s. compose_most_restrictive_strategy_policies c [cooldown_policy 10, cooldown_policy 60] = Inr q \<and>
     (\<exists>d. evaluate_pre_submit sha q plan s = Inr d \<and> rd_status d = ''ALLOW'') \<and>
     (\<nexists>d. evaluate_pre_submit sha (cooldown_policy 60) plan s = Inr d \<and> rd_status d = ''ALLOW'')"
proof -
  let ?s = "sample_snapshot\<lparr>rs_minutes_since_last_loss := Some (Fin 30)\<rparr>"
  have "(cooldown_policy 60)\<lparr>rp_source := ''settings''\<rparr> = cooldown_policy 60"
    by (simp add: sample_policy_def)
  then have "\<nexists>d. evaluate_pre_submit sha (cooldown_policy 60) plan ?s = Inr d \<and> rd_status d = ''ALLOW''"
    using sample_policy_allow_iff [where n = 60 and src = "''settings''" and t = "Fin 30"]
    by (simp add: val_float_small small_numerals del: val_float.simps)
  moreover have "\<exists>d. evaluate_pre_submit sha
      ((cooldown_policy 10)\<lparr>rp_source := ''composed_selected_strategy_risk_profiles''\<rparr>) plan ?s = Inr d \<and>
      rd_status d = ''ALLOW''"
    unfolding sample_policy_allow_iff by (simp add: val_float_small small_numerals del: val_float.simps)
  ultimately show ?thesis using compose_cooldowns [of c] by blast
qed

subsection \<open>Unresolved orders before a submission\<close>

text \<open>
  The adapter classifies the unresolved orders exactly as the gate of the order store
  does, reason text included.
\<close>

theorem classify_unresolved_agrees:
  "classify_unresolved_state (collect_risky_order_state now_ms max_age st) max_age =
   evaluate_unresolved_order_gate now_ms max_age st"
  by (simp add: classify_unresolved_state_def evaluate_unresolved_order_gate_def Let_def)

lemma classify_blocked:
  "fst (classify_unresolved_state (collect_risky_order_state now_ms max_age st) max_age) \<longleftrightarrow>
     (\<exists>r \<in> set (orders st). open_status (ord_status r))"
  unfolding classify_unresolved_state_def Let_def risky_counts
  using risky_statuses_open has_status_open [of _ st] by auto

text \<open>
  C36: While any order of the store is open, the risk engine allows no further submission
  under an enabled policy that blocks on unresolved orders: the snapshot that the adapter
  builds from the store carries the block.
\<close>

theorem open_order_blocks_submission:
  assumes "r \<in> set (orders st)" "open_status (ord_status r)"
    and "rp_unresolved_order_policy p = ''block''" "rp_policy_status p \<noteq> ''disabled_explicit''"
  shows "\<nexists>d. evaluate_pre_submit sha p plan (snapshot_unresolved_fields True now_ms max_age st s) = Inr d \<and>
    rd_status d = ''ALLOW''"
proof -
  have "rs_unresolved_order_blocked (snapshot_unresolved_fields True now_ms max_age st s)"
    using classify_blocked [of now_ms max_age st] assms(1,2)
    by (auto simp: snapshot_unresolved_fields_def split: prod.splits)
  then show ?thesis
    unfolding evaluate_pre_submit_eq risk_evaluate_allow_iff using assms(3,4) by simp
qed

theorem open_order_blocks_submission_witness:
  "\<nexists>d. evaluate_pre_submit (\<lambda>t. t) sample_policy sample_risk_plan
     (snapshot_unresolved_fields True 0 60 (durable sample_created) sample_snapshot) = Inr d \<and>
    rd_status d = ''ALLOW''"
proof -
  have "map ord_status (orders (durable sample_created)) = [''PENDING_SUBMIT'']" by code_simp
  then obtain r where "orders (durable sample_created) = [r]" "ord_status r = ''PENDING_SUBMIT''" by auto
  then show ?thesis
    by (intro open_order_blocks_submission [of r])
      (simp_all add: open_status_def OPEN_ORDER_STATUSES_def sample_policy_def)
qed

subsection \<open>The effective policy\<close>

lemma first_explicit_policy_source:
  "first_explicit_policy payload cs = Inr (Some (p, s, declared, rule)) \<Longrightarrow>
     s \<in> (\<lambda>(_, _, s, _). s) ` set cs"
  by (induction payload cs rule: first_explicit_policy.induct)
    (auto simp: bind_py_Inr_iff split: pyval.splits)

lemma explicit_policy_source:
  "explicit_non_target_pre_submit_policy payload = Inr (Some (p, s, declared, rule)) \<Longrightarrow>
     s \<in> {''residual_risk_policy'', ''operational_risk_policy'', ''portfolio_risk_policy''}"
  unfolding explicit_non_target_pre_submit_policy_def by (drule first_explicit_policy_source) simp

text \<open>
  A submission that requires a risk decision is never checked against the fallback from
  the settings: the effective policy comes from the strategy profiles of the plan or from an
  explicit policy of the plan, whose declared hash, where given, is the hash of that policy;
  in every other case the resolution raises.
\<close>

theorem required_policy_is_plan_bound:
  assumes required: "truthy (dget payload ''pre_submit_risk_required'')"
    and e: "resolve_effective_pre_submit_risk_policy sha c payload = Inr e"
  shows "ef_risk_policy_source e \<noteq> ''runtime_settings_fallback'' \<and>
    (strategy_risk_profiles_from_submit_payload payload \<noteq> [] \<or>
     py_strip (dstr payload ''source'' []) \<noteq> ''target_delta'' \<and>
     (\<exists>policy src declared rule.
       explicit_non_target_pre_submit_policy payload = Inr (Some (policy, src, declared, rule)) \<and>
       ef_policy e = policy \<and> ef_risk_policy_source e = src \<and>
       (declared = None \<or> declared = Some (risk_policy_hash sha policy))))"
proof (cases "strategy_risk_profiles_from_submit_payload payload = []")
  case False
  then have "ef_risk_policy_source e = ''strategy_risk_profiles''"
    using e by (auto simp: resolve_effective_pre_submit_risk_policy_def Let_def bind_py_Inr_iff)
  with False show ?thesis by simp
next
  case True
  then have src: "py_strip (dstr payload ''source'' []) \<noteq> ''target_delta''"
    using e required by (auto simp: resolve_effective_pre_submit_risk_policy_def Let_def split: if_splits)
  obtain ex where ex: "explicit_non_target_pre_submit_policy payload = Inr ex"
    using e True src by (auto simp: resolve_effective_pre_submit_risk_policy_def Let_def bind_py_Inr_iff)
  with e True src required obtain policy s declared rule where ex': "ex = Some (policy, s, declared, rule)"
    by (cases ex) (auto simp: resolve_effective_pre_submit_risk_policy_def Let_def split: if_splits)
  have "s \<in> {''residual_risk_policy'', ''operational_risk_policy'', ''portfolio_risk_policy''}"
    using ex ex' explicit_policy_source by blast
  with True e ex ex' src show ?thesis
    by (auto simp: resolve_effective_pre_submit_risk_policy_def Let_def split: if_splits)
qed

definition sample_risk_settings :: risk_settings where
  "sample_risk_settings = \<lparr>MAX_DAILY_LOSS_KRW = Fin 0, MAX_POSITION_LOSS_PCT = Fin 0,
     MAX_DAILY_ORDER_COUNT = 0, KILL_SWITCH = False, MAX_OPEN_POSITIONS = 1\<rparr>"

theorem required_policy_is_plan_bound_witness:
  "\<exists>e. resolve_effective_pre_submit_risk_policy (\<lambda>t. t) sample_risk_settings
      [(''source'', VStr ''residual_inventory''), (''pre_submit_risk_required'', VBool True),
       (''residual_risk_policy'', VDict [(''max_daily_order_count'', VInt 3)])] = Inr e \<and>
    ef_risk_policy_source e \<noteq> ''runtime_settings_fallback''"
proof -
  let ?p = "[(''source'', VStr ''residual_inventory''), (''pre_submit_risk_required'', VBool True),
       (''residual_risk_policy'', VDict [(''max_daily_order_count'', VInt 3)])]"
  obtain policy where "risk_policy_from_mapping [(''max_daily_order_count'', VInt 3)] = Inr policy"
    by (simp add: risk_policy_from_mapping_def py_or_def)
  then obtain e where e: "resolve_effective_pre_submit_risk_policy (\<lambda>t. t) sample_risk_settings ?p = Inr e"
    by (simp add: resolve_effective_pre_submit_risk_policy_def strategy_risk_profiles_from_submit_payload_def
        explicit_non_target_pre_submit_policy_def Let_def dstr_def py_or_def or_none_def py_text_defs)
  show ?thesis using required_policy_is_plan_bound [OF _ e] e by simp
qed

end
