(* ===== verification/Recovery_Policy.thy ===== *)
theory Recovery_Policy
  imports Py_Value
begin

text \<open>
  The recovery and tradeability policy of \<open>src/src/operation/recovery_policy.py\<close>: the canonical
  recovery state of the position, the permissions derived from it, and the fields an
  operator is shown. The normalized exposure and the lot snapshot are records of the
  attributes that the functions read.
\<close>

definition recovery_EPS :: pyfloat where
  "recovery_EPS = lit 1 (-12)"

record normalized_exposure =
  ne_terminal_state :: string
  ne_entry_allowed :: bool
  ne_exit_allowed :: bool
  ne_effective_flat :: bool
  ne_has_dust_only_remainder :: bool
  ne_has_non_executable_residue :: bool
  ne_has_executable_exposure :: bool
  ne_dust_state :: string
  ne_dust_operability_state :: string
  ne_entry_block_reason :: string
  ne_exit_block_reason :: string
  ne_sellable_executable_lot_count :: int
  ne_authority_gap_reason :: string

record lot_snapshot =
  ls_open_lot_count :: int
  ls_dust_tracking_lot_count :: int
  ls_raw_total_asset_qty :: pyfloat

record recovery_state =
  rec_canonical_state :: string
  rec_execution_flat :: bool
  rec_accounting_flat :: bool
  rec_closeout_blocking_residue :: bool
  rec_residue_kind :: string
  rec_operator_next_action :: string
  rec_policy_reason :: string

definition recovery_state_as_dict :: "recovery_state \<Rightarrow> pydict" where
  "recovery_state_as_dict s =
     [(''canonical_state'', VStr (rec_canonical_state s)),
      (''execution_flat'', VBool (rec_execution_flat s)),
      (''accounting_flat'', VBool (rec_accounting_flat s)),
      (''closeout_blocking_residue'', VBool (rec_closeout_blocking_residue s)),
      (''residue_kind'', VStr (rec_residue_kind s)),
      (''operator_next_action'', VStr (rec_operator_next_action s)),
      (''policy_reason'', VStr (rec_policy_reason s))]"

record tradeability_state =
  tr_canonical_state :: string
  tr_residual_class :: string
  tr_run_loop_allowed :: bool
  tr_position_management_allowed :: bool
  tr_new_entry_allowed :: bool
  tr_closeout_allowed :: bool
  tr_execution_flat :: bool
  tr_accounting_flat :: bool
  tr_effective_flat :: bool
  tr_operator_action_required :: bool
  tr_why_not :: string
  tr_operator_next_action :: string

definition tradeability_state_as_dict :: "tradeability_state \<Rightarrow> pydict" where
  "tradeability_state_as_dict t =
     [(''canonical_state'', VStr (tr_canonical_state t)),
      (''residual_class'', VStr (tr_residual_class t)),
      (''run_loop_allowed'', VBool (tr_run_loop_allowed t)),
      (''position_management_allowed'', VBool (tr_position_management_allowed t)),
      (''new_entry_allowed'', VBool (tr_new_entry_allowed t)),
      (''closeout_allowed'', VBool (tr_closeout_allowed t)),
      (''execution_flat'', VBool (tr_execution_flat t)),
      (''accounting_flat'', VBool (tr_accounting_flat t)),
      (''effective_flat'', VBool (tr_effective_flat t)),
      (''operator_action_required'', VBool (tr_operator_action_required t)),
      (''why_not'', VStr (tr_why_not t)),
      (''operator_next_action'', VStr (tr_operator_next_action t))]"

subsection \<open>What an operator is shown\<close>

definition strategy_tradeability_state :: "tradeability_state \<Rightarrow> string" where
  "strategy_tradeability_state t =
     (if \<not> tr_run_loop_allowed t then ''run_loop_blocked''
      else if tr_new_entry_allowed t then ''reentry_allowed''
      else if tr_position_management_allowed t then ''position_management_allowed''
      else if tr_closeout_allowed t then ''closeout_allowed''
      else ''running_not_tradable'')"

definition residue_policy_message :: "tradeability_state \<Rightarrow> string \<Rightarrow> string" where
  "residue_policy_message t residual_class =
     (if residual_class = ''NONE'' then
        ''No lot-native residue is blocking run loop, new entry, or closeout policy.''
      else if residual_class = ''HARMLESS_DUST_TREAT_AS_FLAT'' then
        ''Lot-native residue is preserved as accounting evidence and classified as below the '' @
        ''authoritative internal lot boundary for entry policy; new entries may continue while '' @
        ''SELL authority remains based on sellable executable lots.''
      else if residual_class = ''TRACKED_ACCOUNTING_RESIDUE_REENTRY_ALLOWED'' then
        ''Tracked accounting residue remains execution-flat and broker/local/portfolio evidence is '' @
        ''consistent within the authoritative lot-boundary tolerance; new entries may continue while '' @
        ''SELL authority remains zero for the tracked residue.''
      else if residual_class = ''TRACKED_DUST_BLOCK_NEW_ENTRY'' then
        ''Run loop is allowed, but lot-native tracked dust is not proven below the authoritative internal '' @
        ''lot boundary; new entry and closeout are blocked until an operator reviews or resolves the tracked residue.''
      else if residual_class = ''NON_EXECUTABLE_RESIDUE_REQUIRES_OPERATOR_ACTION'' then
        ''Non-executable residue exists without normal SELL authority; operator recovery review is required.''
      else if residual_class = ''NON_EXECUTABLE_RESIDUAL_HOLDINGS'' then
        ''Broker-matched residual-only holdings remain without executable SELL authority. '' @
        ''Do not resume the run loop or open new entries; review residual-closeout policy instead of rebuilding position authority.''
      else if residual_class = ''RESIDUAL_INVENTORY_TRACKED'' then
        ''Broker-matched residual inventory is tracked as existing exposure. '' @
        ''Run loop may continue, BUY sizing includes residual exposure, and residual SELL requires residual-inventory policy plus final pre-submit proof.''
      else if residual_class = ''EXECUTABLE_OPEN_EXPOSURE'' then
        (if tr_run_loop_allowed t \<and> tr_position_management_allowed t then
           ''Canonical executable exposure is accounted and may resume in position-management mode; '' @
           ''new entries remain controlled separately from normal exit authority.''
         else
           ''Executable open exposure remains; manage the open position or flatten through the normal SELL authority path.'')
      else ''Tradeability policy is unknown; review recovery report before trading.'')"

definition dust_tradeability_consistent :: "string \<Rightarrow> string \<Rightarrow> bool" where
  "dust_tradeability_consistent dust_state residual_class \<longleftrightarrow>
     \<not> (dust_state = ''no_dust'' \<and>
        residual_class \<in> {''TRACKED_DUST_BLOCK_NEW_ENTRY'', ''NON_EXECUTABLE_RESIDUE_REQUIRES_OPERATOR_ACTION'',
          ''NON_EXECUTABLE_RESIDUAL_HOLDINGS''})"

definition allowed_word :: "bool \<Rightarrow> pyval" where
  "allowed_word b = VStr (if b then ''allowed'' else ''blocked'')"

definition build_tradeability_operator_fields :: "tradeability_state \<Rightarrow> pydict \<Rightarrow> pydict" where
  "build_tradeability_operator_fields t dust_fields =
     (let dust_state = dstr dust_fields ''dust_state'' ''no_dust'';
          dust_message = dstr dust_fields ''dust_operator_message'' ''No broker/local dust signal was reported.'';
          residual_class = or_str (Some (tr_residual_class t)) ''UNKNOWN'';
          message = residue_policy_message t residual_class;
          consistent = dust_tradeability_consistent dust_state residual_class;
          operator_message = (if consistent then dust_message
            else ''Broker/local dust signal is '' @ dust_state @ '', but lot-native residue policy is '' @
              residual_class @ ''; use canonical tradeability fields for trading permission.'')
      in [(''run_loop_scope'', VStr ''process_resume_only''),
          (''trading_permission_scope'', VStr ''new_entry_or_position_management''),
          (''strategy_tradeability_state'', VStr (strategy_tradeability_state t)),
          (''position_management_policy_state'', allowed_word (tr_position_management_allowed t)),
          (''entry_policy_state'', allowed_word (tr_new_entry_allowed t)),
          (''closeout_policy_state'', allowed_word (tr_closeout_allowed t)),
          (''position_management_allowed'', VBool (tr_position_management_allowed t)),
          (''trading_allowed'', VBool (tr_new_entry_allowed t \<or> tr_closeout_allowed t)),
          (''trading_block_reason'', VStr (or_str (Some (tr_why_not t)) ''none'')),
          (''dust_display_scope'', VStr ''broker_reconcile_signal''),
          (''broker_dust_signal_state'', VStr dust_state),
          (''broker_dust_signal_message'', VStr dust_message),
          (''dust_tradeability_consistent'', VBool consistent),
          (''dust_operator_message'', VStr operator_message),
          (''residue_policy_scope'', VStr ''lot_native_tradeability''),
          (''residue_policy_state'', VStr residual_class),
          (''residue_policy_message'', VStr message),
          (''residue_blocks_new_entry'', VBool (\<not> tr_new_entry_allowed t \<and> residual_class \<noteq> ''NONE'')),
          (''residue_blocks_closeout'', VBool (\<not> tr_closeout_allowed t \<and> residual_class \<noteq> ''NONE'')),
          (''tradeability_operator_message'', VStr message)])"

subsection \<open>Tradeability\<close>

definition residual_class_of :: "normalized_exposure \<Rightarrow> recovery_state \<Rightarrow> string" where
  "residual_class_of n r =
     (if ne_has_executable_exposure n \<or>
         or_str (Some (ne_terminal_state n)) ''unknown'' \<in> {''open_exposure'', ''reserved_exit_pending''}
        then ''EXECUTABLE_OPEN_EXPOSURE''
      else if ne_has_dust_only_remainder n \<and> ne_entry_allowed n \<and>
          or_str (Some (ne_dust_operability_state n)) ''none'' = ''boundary_near_tracked_residue_entry_allowed''
        then ''TRACKED_ACCOUNTING_RESIDUE_REENTRY_ALLOWED''
      else if ne_has_dust_only_remainder n \<and> ne_entry_allowed n then ''HARMLESS_DUST_TREAT_AS_FLAT''
      else if ne_has_dust_only_remainder n then ''TRACKED_DUST_BLOCK_NEW_ENTRY''
      else if ne_has_non_executable_residue n then ''NON_EXECUTABLE_RESIDUE_REQUIRES_OPERATOR_ACTION''
      else if rec_accounting_flat r \<and> rec_execution_flat r then ''NONE''
      else ''NON_EXECUTABLE_RESIDUE_REQUIRES_OPERATOR_ACTION'')"

definition classify_canonical_tradeability_state ::
  "normalized_exposure \<Rightarrow> recovery_state \<Rightarrow> bool \<Rightarrow> tradeability_state" where
  "classify_canonical_tradeability_state n r run_loop_allowed =
     (if rec_canonical_state r = ''PROJECTION_INVALID'' then
        \<lparr>tr_canonical_state = ''PROJECTION_INVALID'',
         tr_residual_class = ''AUTHORITY_PROJECTION_NON_CONVERGED'',
         tr_run_loop_allowed = False, tr_position_management_allowed = False,
         tr_new_entry_allowed = False, tr_closeout_allowed = False,
         tr_execution_flat = rec_execution_flat r, tr_accounting_flat = rec_accounting_flat r,
         tr_effective_flat = ne_effective_flat n, tr_operator_action_required = True,
         tr_why_not = ''run_loop_blocked;projection_invalid'',
         tr_operator_next_action = ''review_position_authority_evidence''\<rparr>
      else
        (let residual_class = residual_class_of n r;
             dust_state = or_str (Some (ne_dust_state n)) ''no_dust'';
             position_management_allowed =
               (run_loop_allowed \<and> ne_has_executable_exposure n \<and> ne_exit_allowed n);
             new_entry_allowed = (run_loop_allowed \<and> ne_entry_allowed n);
             closeout_allowed = (run_loop_allowed \<and> ne_exit_allowed n);
             reasons =
               (if \<not> run_loop_allowed then [''run_loop_blocked''] else []) @
               (if \<not> new_entry_allowed
                then [''new_entry_blocked:'' @ or_str (Some (ne_entry_block_reason n)) ''none''] else []) @
               (if \<not> closeout_allowed \<and> residual_class \<noteq> ''NONE''
                then [''closeout_blocked:'' @ or_str (Some (ne_exit_block_reason n)) ''none''] else []) @
               (if dust_state \<notin> {'''', ''no_dust''} \<and>
                   residual_class \<notin> {''HARMLESS_DUST_TREAT_AS_FLAT'', ''TRACKED_DUST_BLOCK_NEW_ENTRY''}
                then [''dust_state='' @ dust_state] else []);
             operator_action_required = (\<not> run_loop_allowed \<or>
               residual_class \<in> {''TRACKED_DUST_BLOCK_NEW_ENTRY'', ''NON_EXECUTABLE_RESIDUE_REQUIRES_OPERATOR_ACTION''});
             operator_next_action =
               (if residual_class = ''TRACKED_DUST_BLOCK_NEW_ENTRY'' then ''review_tracked_dust_before_new_entry''
                else if residual_class = ''NON_EXECUTABLE_RESIDUE_REQUIRES_OPERATOR_ACTION''
                  then ''review_non_executable_residue''
                else if residual_class = ''EXECUTABLE_OPEN_EXPOSURE'' then
                  (if position_management_allowed then ''resume_position_management''
                   else ''manage_or_flatten_open_position'')
                else if residual_class \<in> {''HARMLESS_DUST_TREAT_AS_FLAT'', ''TRACKED_ACCOUNTING_RESIDUE_REENTRY_ALLOWED''}
                  then ''resume_or_continue_new_entries_allowed''
                else if residual_class = ''NONE'' then ''resume_or_continue''
                else or_str (Some (rec_operator_next_action r)) ''review_recovery_report'')
         in \<lparr>tr_canonical_state = rec_canonical_state r,
             tr_residual_class = residual_class,
             tr_run_loop_allowed = run_loop_allowed,
             tr_position_management_allowed = position_management_allowed,
             tr_new_entry_allowed = new_entry_allowed, tr_closeout_allowed = closeout_allowed,
             tr_execution_flat = rec_execution_flat r, tr_accounting_flat = rec_accounting_flat r,
             tr_effective_flat = ne_effective_flat n,
             tr_operator_action_required = operator_action_required,
             tr_why_not = (if reasons = [] then ''none'' else py_join '';'' reasons),
             tr_operator_next_action = operator_next_action\<rparr>))"

subsection \<open>Recovery state\<close>

definition has_position_residue :: "lot_snapshot \<Rightarrow> pyfloat \<Rightarrow> pyfloat \<Rightarrow> bool" where
  "has_position_residue l portfolio_asset_qty reserved_exit_qty \<longleftrightarrow>
     flt recovery_EPS (fabs portfolio_asset_qty) \<or> flt recovery_EPS (fabs (ls_raw_total_asset_qty l)) \<or>
     0 < ls_open_lot_count l \<or> 0 < ls_dust_tracking_lot_count l \<or> flt recovery_EPS (fabs reserved_exit_qty)"

definition position_accounting_flat :: "lot_snapshot \<Rightarrow> pyfloat \<Rightarrow> pyfloat \<Rightarrow> bool" where
  "position_accounting_flat l portfolio_asset_qty reserved_exit_qty \<longleftrightarrow>
     fle (fabs portfolio_asset_qty) recovery_EPS \<and> ls_open_lot_count l \<le> 0 \<and>
     ls_dust_tracking_lot_count l \<le> 0 \<and> fle (fabs reserved_exit_qty) recovery_EPS"

definition classify_canonical_recovery_state ::
  "normalized_exposure \<Rightarrow> lot_snapshot \<Rightarrow> pyfloat \<Rightarrow> pyfloat \<Rightarrow> bool \<Rightarrow> string \<Rightarrow> recovery_state" where
  "classify_canonical_recovery_state n l portfolio_asset_qty reserved_exit_qty projection_converged
     projection_non_convergence_reason =
     (let has_executable = (ne_has_executable_exposure n \<or> 0 < ne_sellable_executable_lot_count n);
          residue = has_position_residue l portfolio_asset_qty reserved_exit_qty;
          accounting_flat = position_accounting_flat l portfolio_asset_qty reserved_exit_qty;
          terminal_state = or_str (Some (ne_terminal_state n)) ''unknown''
      in if or_str (Some (ne_authority_gap_reason n)) ''none'' = ''authority_missing_recovery_required'' then
           \<lparr>rec_canonical_state = ''AUTHORITY_MISSING'', rec_execution_flat = False,
            rec_accounting_flat = accounting_flat, rec_closeout_blocking_residue = True,
            rec_residue_kind = ''authority_missing'',
            rec_operator_next_action = ''rebuild_position_authority'',
            rec_policy_reason = ''position residue exists without lot-native executable authority''\<rparr>
         else if \<not> projection_converged \<and> residue then
           \<lparr>rec_canonical_state = ''PROJECTION_INVALID'', rec_execution_flat = False,
            rec_accounting_flat = False, rec_closeout_blocking_residue = True,
            rec_residue_kind = ''projection_invalid'',
            rec_operator_next_action = ''review_position_authority_evidence'',
            rec_policy_reason =
              ''materialized lot projection diverges from canonical portfolio evidence: '' @
              or_str (Some projection_non_convergence_reason) ''projection_non_converged''\<rparr>
         else if has_executable \<or> 0 < ls_open_lot_count l then
           \<lparr>rec_canonical_state = ''OPEN_EXECUTABLE'', rec_execution_flat = False,
            rec_accounting_flat = accounting_flat, rec_closeout_blocking_residue = True,
            rec_residue_kind = ''executable_exposure'',
            rec_operator_next_action = ''manage_or_flatten_open_position'',
            rec_policy_reason = ''lot-native executable exposure remains''\<rparr>
         else if 0 < ls_dust_tracking_lot_count l \<and> ls_open_lot_count l \<le> 0 then
           \<lparr>rec_canonical_state = ''DUST_ONLY_TRACKED'', rec_execution_flat = True,
            rec_accounting_flat = False, rec_closeout_blocking_residue = False,
            rec_residue_kind = ''tracked_dust'',
            rec_operator_next_action = ''resolve_historical_accounting_debt_or_resume_if_policy_allows'',
            rec_policy_reason = ''tracked dust is non-executable operator evidence, not SELL authority''\<rparr>
         else if residue then
           \<lparr>rec_canonical_state = ''OPEN_NON_EXECUTABLE'', rec_execution_flat = True,
            rec_accounting_flat = accounting_flat, rec_closeout_blocking_residue = True,
            rec_residue_kind = terminal_state,
            rec_operator_next_action = ''review_recovery_report'',
            rec_policy_reason = ''non-executable residue exists outside explicit tracked-dust semantics''\<rparr>
         else
           \<lparr>rec_canonical_state = ''FLAT'', rec_execution_flat = True, rec_accounting_flat = True,
            rec_closeout_blocking_residue = False, rec_residue_kind = ''none'',
            rec_operator_next_action = ''resume_now'',
            rec_policy_reason = ''no executable or accounting residue is present''\<rparr>)"

end
