(* ===== verification/Recovery_Properties.thy ===== *)
theory Recovery_Properties
  imports Recovery_Policy
begin

text \<open>
  What the recovery and tradeability policy guarantees: when a position counts as flat,
  that a diverged projection takes every trading permission away, and what the text
  \<open>why_not\<close> and the displayed fields say about the permissions.
\<close>

subsection \<open>Facts on the parts\<close>

lemma recovery_EPS_not_NaN [simp]: "recovery_EPS \<noteq> NaN"
  by (simp add: recovery_EPS_def lit_def)

lemma fabs_NaN_iff [simp]: "fabs x = NaN \<longleftrightarrow> x = NaN"
  by (cases x) auto

lemma not_above_EPS_iff:
  "x \<noteq> NaN \<Longrightarrow> \<not> flt recovery_EPS (fabs x) \<longleftrightarrow> fle (fabs x) recovery_EPS"
  using fle_total [of "fabs x" recovery_EPS] by (auto simp: flt_iff)

lemmas recovery_cases = classify_canonical_recovery_state_def Let_def

text \<open>The joined reasons never read \<open>none\<close>: each of them starts with another letter than a lone \<open>none\<close>.\<close>

lemma reasons_not_none:
  assumes "xs \<noteq> []"
    and "\<forall>x \<in> set xs. \<exists>y. x = ''run_loop_blocked'' @ y \<or> x = ''new_entry_blocked:'' @ y \<or>
                         x = ''closeout_blocked:'' @ y \<or> x = ''dust_state='' @ y"
  shows "py_join '';'' xs \<noteq> ''none''"
proof -
  obtain x ys where xs: "xs = x # ys"
    using assms(1) by (cases xs) auto
  have "\<exists>y. x = ''run_loop_blocked'' @ y \<or> x = ''new_entry_blocked:'' @ y \<or>
            x = ''closeout_blocked:'' @ y \<or> x = ''dust_state='' @ y"
    using assms(2) by (simp add: xs)
  then show ?thesis
    unfolding xs by (cases ys) auto
qed

subsection \<open>Properties\<close>

text \<open>
  when the portfolio quantity and the reserved quantity are numbers, the recovery
  state is FLAT exactly if no authority gap is reported, no executable exposure exists,
  and no residue is left in the portfolio, the lots or the reserved exits; it then counts
  as flat in execution and in accounting. In every state, an accounting-flat verdict
  means that the portfolio and the reserved quantity are within the tolerance and no lot
  is left, and only FLAT and tracked dust leave the closeout unblocked.
\<close>

theorem recovery_flat_iff:
  fixes n :: normalized_exposure and l :: lot_snapshot and portfolio reserved :: pyfloat
    and converged :: bool and reason :: string
  defines "r \<equiv> classify_canonical_recovery_state n l portfolio reserved converged reason"
  assumes "portfolio \<noteq> NaN" and "reserved \<noteq> NaN" and "ls_raw_total_asset_qty l \<noteq> NaN"
  shows "(rec_canonical_state r = ''FLAT'' \<longleftrightarrow>
            ne_authority_gap_reason n \<noteq> ''authority_missing_recovery_required'' \<and>
            \<not> ne_has_executable_exposure n \<and> ne_sellable_executable_lot_count n \<le> 0 \<and>
            ls_open_lot_count l \<le> 0 \<and> ls_dust_tracking_lot_count l \<le> 0 \<and>
            fle (fabs portfolio) recovery_EPS \<and> fle (fabs reserved) recovery_EPS \<and>
            fle (fabs (ls_raw_total_asset_qty l)) recovery_EPS) \<and>
         (rec_accounting_flat r \<longrightarrow>
            fle (fabs portfolio) recovery_EPS \<and> fle (fabs reserved) recovery_EPS \<and>
            ls_open_lot_count l \<le> 0 \<and> ls_dust_tracking_lot_count l \<le> 0) \<and>
         (rec_closeout_blocking_residue r \<longleftrightarrow>
            rec_canonical_state r \<notin> {''FLAT'', ''DUST_ONLY_TRACKED''}) \<and>
         (rec_execution_flat r \<longleftrightarrow>
            rec_canonical_state r \<in> {''FLAT'', ''DUST_ONLY_TRACKED'', ''OPEN_NON_EXECUTABLE''})"
proof (intro conjI)
  note eps = not_above_EPS_iff [OF assms(2)] not_above_EPS_iff [OF assms(3)] not_above_EPS_iff [OF assms(4)]
  show "rec_canonical_state r = ''FLAT'' \<longleftrightarrow>
           ne_authority_gap_reason n \<noteq> ''authority_missing_recovery_required'' \<and>
           \<not> ne_has_executable_exposure n \<and> ne_sellable_executable_lot_count n \<le> 0 \<and>
           ls_open_lot_count l \<le> 0 \<and> ls_dust_tracking_lot_count l \<le> 0 \<and>
           fle (fabs portfolio) recovery_EPS \<and> fle (fabs reserved) recovery_EPS \<and>
           fle (fabs (ls_raw_total_asset_qty l)) recovery_EPS"
    unfolding r_def recovery_cases has_position_residue_def eps [symmetric]
    by (auto simp: or_str_def not_less)
  show "rec_accounting_flat r \<longrightarrow>
           fle (fabs portfolio) recovery_EPS \<and> fle (fabs reserved) recovery_EPS \<and>
           ls_open_lot_count l \<le> 0 \<and> ls_dust_tracking_lot_count l \<le> 0"
    unfolding r_def recovery_cases has_position_residue_def position_accounting_flat_def eps [symmetric]
    by (auto simp: not_less split: if_splits)
  show "rec_closeout_blocking_residue r \<longleftrightarrow>
           rec_canonical_state r \<notin> {''FLAT'', ''DUST_ONLY_TRACKED''}"
    by (simp add: r_def recovery_cases)
  show "rec_execution_flat r \<longleftrightarrow>
           rec_canonical_state r \<in> {''FLAT'', ''DUST_ONLY_TRACKED'', ''OPEN_NON_EXECUTABLE''}"
    by (simp add: r_def recovery_cases)
qed

text \<open>
  a projection that has not converged while any residue is left, with no authority
  gap reported, ends in a tradeability verdict that permits nothing, whatever the exposure
  claims and even if the run loop was about to be allowed: no run loop, no position
  management, no entry and no closeout, an operator is asked for, and the displayed fields
  say blocked and not trading.
\<close>

theorem diverged_projection_permits_nothing:
  fixes n :: normalized_exposure and l :: lot_snapshot and portfolio reserved :: pyfloat
    and run_loop :: bool and reason :: string and dust :: pydict
  assumes "ne_authority_gap_reason n \<noteq> ''authority_missing_recovery_required''"
    and "has_position_residue l portfolio reserved"
  defines "t \<equiv> classify_canonical_tradeability_state n
                 (classify_canonical_recovery_state n l portfolio reserved False reason) run_loop"
  shows "\<not> tr_run_loop_allowed t \<and> \<not> tr_position_management_allowed t \<and>
         \<not> tr_new_entry_allowed t \<and> \<not> tr_closeout_allowed t \<and> tr_operator_action_required t \<and>
         dget (build_tradeability_operator_fields t dust) ''strategy_tradeability_state'' = VStr ''run_loop_blocked'' \<and>
         dget (build_tradeability_operator_fields t dust) ''trading_allowed'' = VBool False"
  using assms(1,2)
  by (simp add: t_def recovery_cases classify_canonical_tradeability_state_def or_str_def
      build_tradeability_operator_fields_def strategy_tradeability_state_def)

text \<open>
  a tradeability verdict never permits more than the run loop permission and the
  exposure's own permissions; it gives no reason exactly if entries are allowed, closeouts
  are allowed or there is nothing to close, and no dust signal is left unexplained; and
  the run loop is then allowed.
\<close>

theorem tradeability_reasons:
  fixes n :: normalized_exposure and r :: recovery_state and run_loop :: bool
  defines "t \<equiv> classify_canonical_tradeability_state n r run_loop"
  shows "(tr_new_entry_allowed t \<longrightarrow> run_loop \<and> ne_entry_allowed n) \<and>
         (tr_closeout_allowed t \<longrightarrow> run_loop \<and> ne_exit_allowed n) \<and>
         (tr_position_management_allowed t \<longrightarrow>
            tr_closeout_allowed t \<and> ne_has_executable_exposure n) \<and>
         (tr_why_not t = ''none'' \<longleftrightarrow>
            tr_run_loop_allowed t \<and> tr_new_entry_allowed t \<and>
            (tr_closeout_allowed t \<or> tr_residual_class t = ''NONE'') \<and>
            (ne_dust_state n \<in> {'''', ''no_dust''} \<or>
             tr_residual_class t = ''HARMLESS_DUST_TREAT_AS_FLAT'' \<or>
             tr_residual_class t = ''TRACKED_DUST_BLOCK_NEW_ENTRY''))"
proof (cases "rec_canonical_state r = ''PROJECTION_INVALID''")
  case True
  then show ?thesis
    by (simp add: t_def classify_canonical_tradeability_state_def)
next
  case False
  define xs where "xs =
    (if \<not> run_loop then [''run_loop_blocked''] else []) @
    (if \<not> tr_new_entry_allowed t
     then [''new_entry_blocked:'' @ or_str (Some (ne_entry_block_reason n)) ''none''] else []) @
    (if \<not> tr_closeout_allowed t \<and> tr_residual_class t \<noteq> ''NONE''
     then [''closeout_blocked:'' @ or_str (Some (ne_exit_block_reason n)) ''none''] else []) @
    (if or_str (Some (ne_dust_state n)) ''no_dust'' \<notin> {'''', ''no_dust''} \<and>
        tr_residual_class t \<notin> {''HARMLESS_DUST_TREAT_AS_FLAT'', ''TRACKED_DUST_BLOCK_NEW_ENTRY''}
     then [''dust_state='' @ or_str (Some (ne_dust_state n)) ''no_dust''] else [])"
  have t: "tr_run_loop_allowed t = run_loop" "tr_new_entry_allowed t = (run_loop \<and> ne_entry_allowed n)"
    "tr_closeout_allowed t = (run_loop \<and> ne_exit_allowed n)"
    "tr_position_management_allowed t = (run_loop \<and> ne_has_executable_exposure n \<and> ne_exit_allowed n)"
    "tr_residual_class t = residual_class_of n r"
    using False by (simp_all add: t_def classify_canonical_tradeability_state_def Let_def)
  have why: "tr_why_not t = (if xs = [] then ''none'' else py_join '';'' xs)"
    unfolding xs_def t using False
    by (simp only: t_def classify_canonical_tradeability_state_def Let_def if_False simp_thms
        tradeability_state.simps)
  have "tr_why_not t = ''none'' \<longleftrightarrow> xs = []"
    unfolding why using reasons_not_none [of xs] by (auto simp: xs_def)
  also have "\<dots> \<longleftrightarrow> tr_run_loop_allowed t \<and> tr_new_entry_allowed t \<and>
            (tr_closeout_allowed t \<or> tr_residual_class t = ''NONE'') \<and>
            (ne_dust_state n \<in> {'''', ''no_dust''} \<or>
             tr_residual_class t = ''HARMLESS_DUST_TREAT_AS_FLAT'' \<or>
             tr_residual_class t = ''TRACKED_DUST_BLOCK_NEW_ENTRY'')"
    by (auto simp: xs_def t or_str_def split: if_splits)
  finally show ?thesis
    by (simp add: t)
qed

subsection \<open>Witnesses\<close>

definition sample_exposure :: normalized_exposure where
  "sample_exposure = \<lparr>ne_terminal_state = ''flat'', ne_entry_allowed = True, ne_exit_allowed = True,
     ne_effective_flat = True, ne_has_dust_only_remainder = False, ne_has_non_executable_residue = False,
     ne_has_executable_exposure = False, ne_dust_state = ''no_dust'', ne_dust_operability_state = ''none'',
     ne_entry_block_reason = ''none'', ne_exit_block_reason = ''none'',
     ne_sellable_executable_lot_count = 0, ne_authority_gap_reason = ''none''\<rparr>"

definition sample_lots :: lot_snapshot where
  "sample_lots = \<lparr>ls_open_lot_count = 0, ls_dust_tracking_lot_count = 1, ls_raw_total_asset_qty = Fin 0\<rparr>"

theorem recovery_flat_iff_witness:
  "rec_canonical_state (classify_canonical_recovery_state sample_exposure sample_lots (Fin 0) (Fin 0) True ''none'')
     \<noteq> ''FLAT''"
  using recovery_flat_iff [of "Fin 0" "Fin 0" sample_lots sample_exposure True "''none''"]
  by (simp add: sample_lots_def)

theorem diverged_projection_permits_nothing_witness:
  "\<not> tr_new_entry_allowed (classify_canonical_tradeability_state sample_exposure
       (classify_canonical_recovery_state sample_exposure sample_lots (Fin 0) (Fin 0) False ''drift'') True)"
  using diverged_projection_permits_nothing
    [of sample_exposure sample_lots "Fin 0" "Fin 0" "''drift''" True "[]"]
  by (simp add: sample_exposure_def sample_lots_def has_position_residue_def)

theorem tradeability_reasons_witness:
  "tr_why_not (classify_canonical_tradeability_state sample_exposure
       (classify_canonical_recovery_state sample_exposure
          (sample_lots\<lparr>ls_dust_tracking_lot_count := 0\<rparr>) (Fin 0) (Fin 0) True ''none'') True) = ''none''"
  using tradeability_reasons [of sample_exposure
    "classify_canonical_recovery_state sample_exposure
       (sample_lots\<lparr>ls_dust_tracking_lot_count := 0\<rparr>) (Fin 0) (Fin 0) True ''none''" True]
  by (simp add: sample_exposure_def sample_lots_def classify_canonical_tradeability_state_def
      classify_canonical_recovery_state_def has_position_residue_def residual_class_of_def or_str_def)

end
