(* ===== verification/Order_Settlement.thy ===== *)
theory Order_Settlement
  imports Py_Value
begin

text \<open>
  The settlement barrier of \<open>src/src/operation/order_settlement.py\<close>: after a submission the
  coordinator polls an observer until the order is settled, an operator is needed, the
  attempts are used up or the deadline has passed.

  The callbacks of the coordinator are parameters: \<open>clock n\<close> is the answer of the n-th call
  of \<open>monotonic\<close>, \<open>observe i\<close> the mapping (or exception) that \<open>observe\<close> gives at
  attempt \<open>i\<close>, and \<open>reconcile i\<close>, where there is one, the outcome of the call before it.
  Every sequence of answers of the callbacks is such a triple of functions. The calls that
  act on the outside are recorded as a list of \<open>settle_event\<close>.
\<close>

record settlement_config =
  sc_max_attempts :: int
  sc_poll_intervals_ms :: "int list"
  sc_deadline_ms :: int

definition default_settlement_config :: settlement_config where
  "default_settlement_config =
     \<lparr>sc_max_attempts = 5, sc_poll_intervals_ms = [100, 250, 500, 1000, 2000], sc_deadline_ms = 5000\<rparr>"

record settlement_result =
  st_client_order_id :: string
  st_exchange_order_id :: "string option"
  st_order_terminal :: bool
  st_fill_set_complete :: bool
  st_fee_state :: string
  st_principal_applied :: bool
  st_accounting_finalized :: bool
  st_projection_applied :: bool
  st_broker_local_converged :: bool
  st_settled :: bool
  st_retryable :: bool
  st_deadline_exceeded :: bool
  st_operator_action_required :: bool
  st_reason_code :: string
  st_evidence :: pydict

definition settlement_result_as_dict :: "settlement_result \<Rightarrow> pydict" where
  "settlement_result_as_dict r =
     [(''client_order_id'', VStr (st_client_order_id r)),
      (''exchange_order_id'', opt_string (st_exchange_order_id r)),
      (''order_terminal'', VBool (st_order_terminal r)),
      (''fill_set_complete'', VBool (st_fill_set_complete r)),
      (''fee_state'', VStr (st_fee_state r)),
      (''principal_applied'', VBool (st_principal_applied r)),
      (''accounting_finalized'', VBool (st_accounting_finalized r)),
      (''projection_applied'', VBool (st_projection_applied r)),
      (''broker_local_converged'', VBool (st_broker_local_converged r)),
      (''settled'', VBool (st_settled r)),
      (''retryable'', VBool (st_retryable r)),
      (''deadline_exceeded'', VBool (st_deadline_exceeded r)),
      (''operator_action_required'', VBool (st_operator_action_required r)),
      (''reason_code'', VStr (st_reason_code r)),
      (''evidence'', VDict (st_evidence r))]"

definition fee_state_of :: "pyval \<Rightarrow> string" where
  "fee_state_of v =
     (let state = py_lower (py_strip (py_str (py_or v (VStr ''unknown''))))
      in if state \<in> {''finalized'', ''pending'', ''blocked'', ''unknown''} then state
         else if state \<in> {''complete'', ''accounting_complete''} then ''finalized''
         else if state \<in> {''fee_pending'', ''missing'', ''order_level_candidate''} then ''pending''
         else ''unknown'')"

definition snapshot_from_mapping :: "pydict \<Rightarrow> int \<Rightarrow> pydict py" where
  "snapshot_from_mapping raw attempt_index =
     bind_py (val_int (dget_or raw ''attempt_index'' (VInt attempt_index))) (\<lambda>n.
       let e0 = AList.update ''attempt_index'' (VInt n) raw;
           e1 = dsetdefault ''order_state'' (VStr ''unknown'') e0;
           e2 = dsetdefault ''fill_count'' (VInt 0) e1;
           e3 = dsetdefault ''fill_set_complete'' (VBool False) e2;
           e4 = dsetdefault ''paid_fee_present'' (VBool False) e3;
           e5 = dsetdefault ''order_level_paid_fee_present'' (VBool (truthy (dget e4 ''paid_fee_present''))) e4;
           e6 = dsetdefault ''complete_fill_set_available'' (VBool (truthy (dget e5 ''fill_set_complete''))) e5;
           e7 = dsetdefault ''fee_state'' (VStr ''unknown'') e6;
           e8 = dsetdefault ''principal_applied'' (VBool False) e7;
           e9 = dsetdefault ''accounting_finalized''
                  (VBool (fee_state_of (dget e8 ''fee_state'') = ''finalized'')) e8;
           e10 = dsetdefault ''projection_applied'' (VBool False) e9;
           e11 = dsetdefault ''projected_total_qty'' VNone e10;
           e12 = dsetdefault ''portfolio_qty'' VNone e11;
           e13 = dsetdefault ''broker_qty'' VNone e12;
           e14 = dsetdefault ''broker_local_converged'' (VBool False) e13
       in Inr (dsetdefault ''reason_code'' (VStr ''settlement_waiting'') e14))"

definition order_terminal_of :: "pydict \<Rightarrow> bool" where
  "order_terminal_of evidence \<longleftrightarrow> truthy (dget evidence ''order_terminal'') \<or>
     py_upper (py_strip (dstr evidence ''order_state'' [])) \<in>
       {''FILLED'', ''CANCELED'', ''CANCELLED'', ''REJECTED'', ''DONE''}"

definition settlement_hard_blocked :: "pydict \<Rightarrow> bool" where
  "settlement_hard_blocked evidence \<longleftrightarrow>
     truthy (dget evidence ''hard_blocked'') \<or> fee_state_of (dget evidence ''fee_state'') = ''blocked''"

definition evaluate_settlement_snapshot ::
  "string \<Rightarrow> string option \<Rightarrow> pydict \<Rightarrow> pydict list \<Rightarrow> bool \<Rightarrow> settlement_result" where
  "evaluate_settlement_snapshot client_order_id exchange_order_id evidence attempts deadline_exceeded =
     (let fee_state = fee_state_of (dget evidence ''fee_state'');
          order_terminal = order_terminal_of evidence;
          fill_set_complete = truthy (dget evidence ''fill_set_complete'');
          principal_applied = truthy (dget evidence ''principal_applied'');
          accounting_finalized = (truthy (dget evidence ''accounting_finalized'') \<and> fee_state = ''finalized'');
          projection_applied = truthy (dget evidence ''projection_applied'');
          broker_local_converged = truthy (dget evidence ''broker_local_converged'');
          hard_blocked = settlement_hard_blocked evidence;
          settled = (order_terminal \<and> fill_set_complete \<and> fee_state = ''finalized'' \<and> principal_applied \<and>
            accounting_finalized \<and> projection_applied \<and> broker_local_converged \<and> \<not> hard_blocked);
          reason0 = or_str (Some (py_strip (dstr evidence ''reason_code'' []))) ''settlement_waiting'';
          reason = (if settled then ''settled''
            else if hard_blocked then (if reason0 \<noteq> ''settlement_waiting'' then reason0 else ''hard_blocked'')
            else if deadline_exceeded then ''timed_out'' else reason0)
      in \<lparr>st_client_order_id = client_order_id, st_exchange_order_id = exchange_order_id,
          st_order_terminal = order_terminal, st_fill_set_complete = fill_set_complete,
          st_fee_state = fee_state, st_principal_applied = principal_applied,
          st_accounting_finalized = accounting_finalized, st_projection_applied = projection_applied,
          st_broker_local_converged = broker_local_converged, st_settled = settled,
          st_retryable = (\<not> settled \<and> \<not> hard_blocked \<and> \<not> deadline_exceeded),
          st_deadline_exceeded = deadline_exceeded,
          st_operator_action_required = (hard_blocked \<or> truthy (dget evidence ''operator_action_required'')),
          st_reason_code = reason,
          st_evidence = AList.update ''attempts'' (VList (map VDict attempts)) evidence\<rparr>)"

subsection \<open>The polling loop\<close>

datatype settle_event = Reconciled | Observed int | Slept pyfloat

text \<open>The pause after attempt \<open>i\<close> when the n-th reading of the clock is the next one.\<close>

definition poll_delay_ms :: "settlement_config \<Rightarrow> int \<Rightarrow> int" where
  "poll_delay_ms cfg i =
     (let intervals = sc_poll_intervals_ms cfg
      in if intervals = [] then 0 else intervals ! nat (min i (int (length intervals) - 1)))"

definition poll_sleep :: "int \<Rightarrow> pyfloat \<Rightarrow> pyfloat \<Rightarrow> pyfloat py" where
  "poll_sleep delay_ms deadline_at now =
     bind_py (val_float (VInt delay_ms)) (\<lambda>d.
       Inr (fmin (fdiv d (Fin 1000)) (fmax (Fin 0) (fsub deadline_at now))))"

definition settle_max_attempts :: "settlement_config \<Rightarrow> int" where
  "settle_max_attempts cfg = max 1 (sc_max_attempts cfg)"

definition settle_timeout ::
  "string \<Rightarrow> string option \<Rightarrow> pydict list \<Rightarrow> pydict option \<Rightarrow> settlement_result py" where
  "settle_timeout client_order_id exchange_order_id attempts last_seen =
     bind_py (case last_seen of Some e \<Rightarrow> Inr e | None \<Rightarrow> snapshot_from_mapping [] 0) (\<lambda>e.
       Inr (evaluate_settlement_snapshot client_order_id exchange_order_id e attempts True))"

text \<open>
  One round of the loop is one unfolding; \<open>n\<close> counts the readings of the clock. The
  result is the returned value or exception with the events in the order they happen.
\<close>

function settle_loop ::
  "settlement_config \<Rightarrow> (nat \<Rightarrow> pyfloat) \<Rightarrow> (int \<Rightarrow> pydict py) \<Rightarrow> (int \<Rightarrow> unit py) option \<Rightarrow>
   string \<Rightarrow> string option \<Rightarrow> pyfloat \<Rightarrow> int \<Rightarrow> nat \<Rightarrow> pydict list \<Rightarrow> pydict option \<Rightarrow>
   settlement_result py \<times> settle_event list" where
  "settle_loop cfg clock observe reconcile cid xid deadline_at i n attempts last_seen =
     (if settle_max_attempts cfg \<le> i \<or> (0 < i \<and> flt deadline_at (clock n))
      then (settle_timeout cid xid attempts last_seen, [])
      else
        (let ev0 = (if reconcile = None then [] else [Reconciled])
         in case (case reconcile of None \<Rightarrow> Inr () | Some f \<Rightarrow> f i) of
           Inl e \<Rightarrow> (Inl e, ev0)
         | Inr _ \<Rightarrow>
             (let ev = ev0 @ [Observed i]
              in case bind_py (observe i) (\<lambda>raw. snapshot_from_mapping raw i) of
                Inl e \<Rightarrow> (Inl e, ev)
              | Inr seen \<Rightarrow>
                  (let attempts' = attempts @ [seen];
                       result = evaluate_settlement_snapshot cid xid seen attempts' False
                   in if st_settled result \<or> st_operator_action_required result then (Inr result, ev)
                      else if settle_max_attempts cfg - 1 \<le> i
                        then (settle_timeout cid xid attempts' (Some seen), ev)
                      else if 0 < poll_delay_ms cfg i then
                        (case poll_sleep (poll_delay_ms cfg i) deadline_at (clock (n + 1)) of
                           Inl e \<Rightarrow> (Inl e, ev)
                         | Inr s \<Rightarrow>
                             (case settle_loop cfg clock observe reconcile cid xid deadline_at (i + 1) (n + 2)
                                attempts' (Some seen) of
                                (r, evs) \<Rightarrow> (r, ev @ (if flt (Fin 0) s then [Slept s] else []) @ evs)))
                      else
                        (case settle_loop cfg clock observe reconcile cid xid deadline_at (i + 1) (n + 1)
                           attempts' (Some seen) of
                           (r, evs) \<Rightarrow> (r, ev @ evs))))))"
  by pat_completeness auto
termination
  by (relation "measure (\<lambda>(cfg, _, _, _, _, _, _, i, _). nat (settle_max_attempts cfg - i))") auto

declare settle_loop.simps [simp del]

definition settle_deadline :: "settlement_config \<Rightarrow> pyfloat \<Rightarrow> pyfloat py" where
  "settle_deadline cfg start =
     bind_py (val_float (VInt (max 0 (sc_deadline_ms cfg)))) (\<lambda>ms. Inr (fadd start (fdiv ms (Fin 1000))))"

definition settle ::
  "settlement_config \<Rightarrow> (nat \<Rightarrow> pyfloat) \<Rightarrow> (int \<Rightarrow> pydict py) \<Rightarrow> (int \<Rightarrow> unit py) option \<Rightarrow>
   string \<Rightarrow> string option \<Rightarrow> settlement_result py \<times> settle_event list" where
  "settle cfg clock observe reconcile cid xid =
     (case settle_deadline cfg (clock 0) of
        Inl e \<Rightarrow> (Inl e, [])
      | Inr deadline_at \<Rightarrow> settle_loop cfg clock observe reconcile cid xid deadline_at 0 1 [] None)"

end
