(* ===== verification/Settlement_Properties.thy ===== *)
theory Settlement_Properties
  imports Order_Settlement
begin

text \<open>
  What the settlement barrier guarantees: it ends after a bounded number of observations
  with a definite verdict, it sees a settlement that happens in time, and it never sleeps
  past its deadline. The recursion of the loop is handled once, in \<open>settle_loop_cases\<close>.
\<close>

subsection \<open>One round of the loop\<close>

definition observations :: "settle_event list \<Rightarrow> int list" where
  "observations evs = List.map_filter (\<lambda>e. case e of Observed i \<Rightarrow> Some i | _ \<Rightarrow> None) evs"

definition sleeps :: "settle_event list \<Rightarrow> pyfloat list" where
  "sleeps evs = List.map_filter (\<lambda>e. case e of Slept s \<Rightarrow> Some s | _ \<Rightarrow> None) evs"

lemma observations_simps [simp]:
  "observations [] = []"
  "observations (a @ b) = observations a @ observations b"
  "observations (Observed i # evs) = i # observations evs"
  "observations (Reconciled # evs) = observations evs"
  "observations (Slept s # evs) = observations evs"
  by (simp_all add: observations_def List.map_filter_def)

lemma sleeps_simps [simp]:
  "sleeps [] = []"
  "sleeps (a @ b) = sleeps a @ sleeps b"
  "sleeps (Observed i # evs) = sleeps evs"
  "sleeps (Reconciled # evs) = sleeps evs"
  "sleeps (Slept s # evs) = s # sleeps evs"
  by (simp_all add: sleeps_def List.map_filter_def)

text \<open>What a caller of the loop has to supply so that no callback raises at attempt \<open>i\<close>.\<close>

definition round_ok ::
  "(int \<Rightarrow> pydict py) \<Rightarrow> (int \<Rightarrow> unit py) option \<Rightarrow> int \<Rightarrow> pydict \<Rightarrow> bool" where
  "round_ok observe reconcile i seen \<longleftrightarrow>
     (case reconcile of None \<Rightarrow> True | Some f \<Rightarrow> f i = Inr ()) \<and>
     bind_py (observe i) (\<lambda>raw. snapshot_from_mapping raw i) = Inr seen"

lemma settle_timeout_Some:
  "settle_timeout cid xid attempts (Some e) = Inr (evaluate_settlement_snapshot cid xid e attempts True)"
  by (simp add: settle_timeout_def)

lemma poll_sleep_bound:
  assumes "poll_sleep d deadline now = Inr s" and "flt (Fin 0) s"
  shows "fle s (fsub deadline now)"
proof -
  let ?rest = "fmax (Fin 0) (fsub deadline now)"
  obtain v where s: "s = fmin (fdiv v (Fin 1000)) ?rest"
    using assms(1) by (auto simp: poll_sleep_def bind_py_Inr_iff)
  have "?rest \<noteq> NaN"
    by (auto simp: fmax_def flt_iff dest: fle_not_NaN)
  then have le: "fle s ?rest"
    using assms(2) s fle_total [of "fdiv v (Fin 1000)" ?rest] fle_refl [of ?rest]
    by (auto simp: fmin_def flt_iff dest: fle_not_NaN split: if_splits)
  have "?rest \<noteq> Fin 0"
    using le flt_fle_trans [OF assms(2) le] by auto
  then show ?thesis
    using le by (auto simp: fmax_def split: if_splits)
qed

text \<open>Whether an order is settled, and whether an operator is needed, is a matter of the evidence alone.\<close>

definition settled_evidence :: "pydict \<Rightarrow> bool" where
  "settled_evidence e \<longleftrightarrow> order_terminal_of e \<and> truthy (dget e ''fill_set_complete'') \<and>
     fee_state_of (dget e ''fee_state'') = ''finalized'' \<and> truthy (dget e ''principal_applied'') \<and>
     truthy (dget e ''accounting_finalized'') \<and> truthy (dget e ''projection_applied'') \<and>
     truthy (dget e ''broker_local_converged'') \<and> \<not> truthy (dget e ''hard_blocked'')"

definition operator_evidence :: "pydict \<Rightarrow> bool" where
  "operator_evidence e \<longleftrightarrow> truthy (dget e ''hard_blocked'') \<or>
     fee_state_of (dget e ''fee_state'') = ''blocked'' \<or> truthy (dget e ''operator_action_required'')"

lemma evaluate_settlement_simps [simp]:
  "st_settled (evaluate_settlement_snapshot cid xid e as b) = settled_evidence e"
  "st_operator_action_required (evaluate_settlement_snapshot cid xid e as b) = operator_evidence e"
  "st_deadline_exceeded (evaluate_settlement_snapshot cid xid e as b) = b"
  "st_evidence (evaluate_settlement_snapshot cid xid e as b) =
     AList.update ''attempts'' (VList (map VDict as)) e"
  by (auto simp: evaluate_settlement_snapshot_def Let_def settled_evidence_def operator_evidence_def
      settlement_hard_blocked_def)

text \<open>The rounds that go on: what one recursive call adds.\<close>

lemma settle_loop_cases:
  fixes cfg clock observe reconcile cid xid deadline i n attempts last_seen
  defines "res \<equiv> settle_loop cfg clock observe reconcile cid xid deadline i n attempts last_seen"
  obtains
    (stop) "settle_max_attempts cfg \<le> i \<or> (0 < i \<and> flt deadline (clock n))"
      "res = (settle_timeout cid xid attempts last_seen, [])"
  | (raised) e evs where "res = (Inl e, evs)" "observations evs = [] \<or> observations evs = [i]" "sleeps evs = []"
      "i < settle_max_attempts cfg" "\<not> (0 < i \<and> flt deadline (clock n))"
      "(\<forall>seen. \<not> round_ok observe reconcile i seen) \<or>
       (0 < poll_delay_ms cfg i \<and> poll_sleep (poll_delay_ms cfg i) deadline (clock (n + 1)) = Inl e)"
  | (final) seen evs r where "round_ok observe reconcile i seen"
      "i < settle_max_attempts cfg" "\<not> (0 < i \<and> flt deadline (clock n))"
      "res = (Inr r, evs)" "observations evs = [i]" "sleeps evs = []"
      "r = evaluate_settlement_snapshot cid xid seen (attempts @ [seen]) False \<and>
         (settled_evidence seen \<or> operator_evidence seen) \<or>
       r = evaluate_settlement_snapshot cid xid seen (attempts @ [seen]) True \<and>
         i = settle_max_attempts cfg - 1 \<and> \<not> settled_evidence seen \<and> \<not> operator_evidence seen"
  | (again) seen evs m where "round_ok observe reconcile i seen"
      "i < settle_max_attempts cfg - 1" "\<not> (0 < i \<and> flt deadline (clock n))"
      "\<not> settled_evidence seen" "\<not> operator_evidence seen"
      "m = n + 1 \<or> m = n + 2"
      "res = (fst (settle_loop cfg clock observe reconcile cid xid deadline (i + 1) m (attempts @ [seen]) (Some seen)),
              evs @ snd (settle_loop cfg clock observe reconcile cid xid deadline (i + 1) m (attempts @ [seen]) (Some seen)))"
      "observations evs = [i]"
      "sleeps evs = [] \<or> (\<exists>s. sleeps evs = [s] \<and> flt (Fin 0) s \<and> fle s (fsub deadline (clock (n + 1))))"
proof (cases "settle_max_attempts cfg \<le> i \<or> (0 < i \<and> flt deadline (clock n))")
  case True
  show ?thesis
    by (rule stop) (use True in \<open>simp_all add: res_def settle_loop.simps [of _ _ _ _ _ _ _ i]\<close>)
next
  case go: False
  let ?ev = "(if reconcile = None then [] else [Reconciled]) @ [Observed i]"
  let ?rc = "case reconcile of None \<Rightarrow> Inr () | Some f \<Rightarrow> f i"
  let ?ob = "bind_py (observe i) (\<lambda>raw. snapshot_from_mapping raw i)"
  show ?thesis
  proof (cases "\<exists>seen. round_ok observe reconcile i seen")
    case False
    then consider e where "?rc = Inl e" | e where "?rc = Inr ()" "?ob = Inl e"
      by (cases ?rc; cases ?ob) (auto simp: round_ok_def split: option.splits)
    then show ?thesis
    proof cases
      case (1 e)
      show ?thesis
        by (rule raised [of e "if reconcile = None then [] else [Reconciled]"])
          (use 1 go False in \<open>auto simp: res_def settle_loop.simps [of _ _ _ _ _ _ _ i]\<close>)
    next
      case (2 e)
      show ?thesis
        by (rule raised [of e ?ev])
          (use 2 go False in \<open>auto simp: res_def settle_loop.simps [of _ _ _ _ _ _ _ i] Let_def\<close>)
    qed
  next
    case True
    then obtain seen where ok: "round_ok observe reconcile i seen" by blast
    then have rc: "?rc = Inr ()" and ob: "?ob = Inr seen"
      by (auto simp: round_ok_def split: option.splits)
    let ?res = "evaluate_settlement_snapshot cid xid seen (attempts @ [seen])"
    have ev: "observations ?ev = [i]" "sleeps ?ev = []" by simp_all
    note unfold = res_def settle_loop.simps [of _ _ _ _ _ _ _ i] rc ob sum.case Let_def
    consider (ended) "settled_evidence seen \<or> operator_evidence seen"
      | (used_up) "\<not> settled_evidence seen" "\<not> operator_evidence seen"
          "settle_max_attempts cfg - 1 \<le> i"
      | (go_on) "\<not> settled_evidence seen" "\<not> operator_evidence seen"
          "\<not> settle_max_attempts cfg - 1 \<le> i" by blast
    then show ?thesis
    proof cases
      case ended
      then have "res = (Inr (?res False), ?ev)" using go unfolding unfold by simp
      then show ?thesis by (intro final [OF ok, of "?res False" ?ev]) (use ended go ev in auto)
    next
      case used_up
      then have "res = (Inr (?res True), ?ev)" using go unfolding unfold by (simp add: settle_timeout_Some)
      then show ?thesis by (intro final [OF ok, of "?res True" ?ev]) (use used_up go ev in auto)
    next
      case go_on
      show ?thesis
      proof (cases "0 < poll_delay_ms cfg i")
        case False
        with go_on show ?thesis
          by (intro again [OF ok, of "n + 1" ?ev]) (use go ev in \<open>simp_all add: unfold split_beta\<close>)
      next
        case delay: True
        show ?thesis
        proof (cases "poll_sleep (poll_delay_ms cfg i) deadline (clock (n + 1))")
          case (Inl e)
          with go_on delay show ?thesis
            by (intro raised [of e ?ev]) (use go ev in \<open>simp_all add: unfold\<close>)
        next
          case (Inr s)
          with go_on delay show ?thesis
            by (intro again [OF ok, of "n + 2" "?ev @ (if flt (Fin 0) s then [Slept s] else [])"])
              (use go ev poll_sleep_bound [OF Inr] in \<open>simp_all add: unfold split_beta\<close>)
        qed
      qed
    qed
  qed
qed

subsection \<open>Induction over the rounds\<close>

abbreviation numbers_ok :: "settlement_config \<Rightarrow> bool" where
  "numbers_ok cfg \<equiv> (\<forall>d \<in> set (sc_poll_intervals_ms cfg). \<exists>f. val_float (VInt d) = Inr f)"

lemma poll_sleep_ok:
  assumes "numbers_ok cfg" and "0 < poll_delay_ms cfg i" and "0 \<le> i"
  shows "poll_sleep (poll_delay_ms cfg i) deadline now \<noteq> Inl e"
proof -
  let ?ds = "sc_poll_intervals_ms cfg"
  have "?ds \<noteq> []" using assms(2) by (auto simp: poll_delay_ms_def)
  moreover from this have "nat (min i (int (length ?ds) - 1)) < length ?ds"
    using assms(3) by (cases ?ds) auto
  ultimately have "poll_delay_ms cfg i \<in> set ?ds"
    by (simp add: poll_delay_ms_def Let_def)
  then show ?thesis using assms(1) by (auto simp: poll_sleep_def)
qed

text \<open>The loop observes consecutive attempts and records each of them.\<close>

lemma settle_loop_ends:
  assumes "0 \<le> i" and "i \<le> settle_max_attempts cfg" and "int (length attempts) = i"
    and rounds: "\<forall>j. 0 \<le> j \<and> j < settle_max_attempts cfg \<longrightarrow> (\<exists>seen. round_ok observe reconcile j seen)"
    and numbers: "numbers_ok cfg"
  shows "\<exists>r k as. settle_loop cfg clock observe reconcile cid xid deadline i n attempts last_seen = (Inr r, k) \<and>
    observations k = [i..int (length as) - 1] \<and> i \<le> int (length as) \<and> (i = 0 \<longrightarrow> as \<noteq> []) \<and>
    int (length as) \<le> settle_max_attempts cfg \<and> dget (st_evidence r) ''attempts'' = VList (map VDict as) \<and>
    (st_settled r \<or> st_operator_action_required r \<or> st_deadline_exceeded r)"
  using assms(1-3)
proof (induction "nat (settle_max_attempts cfg - i)" arbitrary: i n attempts last_seen rule: less_induct)
  case less
  have pos: "0 < settle_max_attempts cfg" by (simp add: settle_max_attempts_def)
  show ?case
  proof (cases rule: settle_loop_cases [of cfg i deadline clock n observe reconcile cid xid attempts last_seen])
    case stop
    obtain e where "settle_timeout cid xid attempts last_seen =
        Inr (evaluate_settlement_snapshot cid xid e attempts True)"
      by (cases last_seen) (auto simp: settle_timeout_def snapshot_from_mapping_def dget_or_def Let_def)
    with stop less.prems pos show ?thesis by (auto intro!: exI [of _ attempts])
  next
    case (raised e evs)
    then show ?thesis
      using rounds poll_sleep_ok [OF numbers, of i deadline] less.prems by blast
  next
    case (final seen evs r)
    then show ?thesis
      using less.prems by (auto intro!: exI [of _ "attempts @ [seen]"])
  next
    case (again seen evs m)
    let ?rec = "settle_loop cfg clock observe reconcile cid xid deadline (i + 1) m (attempts @ [seen]) (Some seen)"
    obtain r k as where rec: "?rec = (Inr r, k)" "observations k = [i + 1..int (length as) - 1]"
      "i + 1 \<le> int (length as)" "int (length as) \<le> settle_max_attempts cfg"
      "dget (st_evidence r) ''attempts'' = VList (map VDict as)"
      "st_settled r \<or> st_operator_action_required r \<or> st_deadline_exceeded r"
      using less.hyps [of "i + 1" "attempts @ [seen]" m "Some seen"] less.prems again(2) by auto
    moreover have "[i] @ [i + 1..int (length as) - 1] = [i..int (length as) - 1]"
      using rec(3) by (simp add: upto_rec1 [of i])
    ultimately show ?thesis
      using again less.prems by (auto intro!: exI [of _ as])
  qed
qed

text \<open>A settlement at attempt \<open>k\<close> is seen if the clock leaves the time for it.\<close>

lemma settle_loop_settles:
  assumes "0 \<le> i" and "i \<le> k"
    and k: "k < settle_max_attempts cfg" "round_ok observe reconcile k (seen_at k)" "settled_evidence (seen_at k)"
    and before: "\<forall>j. 0 \<le> j \<and> j < k \<longrightarrow> round_ok observe reconcile j (seen_at j) \<and> \<not> operator_evidence (seen_at j)"
    and time: "\<forall>m. \<not> flt deadline (clock m)" and numbers: "numbers_ok cfg"
  shows "\<exists>r. fst (settle_loop cfg clock observe reconcile cid xid deadline i n attempts last_seen) = Inr r \<and> st_settled r"
  using assms(1,2)
proof (induction "nat (k - i)" arbitrary: i n attempts last_seen rule: less_induct)
  case less
  have at: "round_ok observe reconcile i (seen_at i)" "i < k \<Longrightarrow> \<not> operator_evidence (seen_at i)"
    using before k(2) less.prems by (cases "i = k"; auto)+
  have same: "seen = seen_at i" if "round_ok observe reconcile i seen" for seen
    using that at(1) by (simp add: round_ok_def)
  show ?case
  proof (cases rule: settle_loop_cases [of cfg i deadline clock n observe reconcile cid xid attempts last_seen])
    case (final seen evs r)
    then show ?thesis using same at k(1,3) less.prems by (cases "i = k") auto
  next
    case (again seen evs m)
    then have "i \<noteq> k" using same k(3) by auto
    then show ?thesis
      using less.hyps [of "i + 1" m "attempts @ [seen]" "Some seen"] less.prems again by auto
  qed (use time k(1) less.prems at(1) poll_sleep_ok [OF numbers, of i deadline] in auto)
qed

lemma settle_loop_sleeps:
  assumes "0 \<le> i"
  shows "\<forall>s \<in> set (sleeps (snd (settle_loop cfg clock observe reconcile cid xid deadline i n attempts last_seen))).
      flt (Fin 0) s \<and> (\<exists>m. fle s (fsub deadline (clock m)))"
    and "i < settle_max_attempts cfg \<Longrightarrow>
      int (length (sleeps (snd (settle_loop cfg clock observe reconcile cid xid deadline i n attempts last_seen))))
      < settle_max_attempts cfg - i"
proof -
  have "(\<forall>s \<in> set (sleeps (snd (settle_loop cfg clock observe reconcile cid xid deadline i n attempts last_seen))).
      flt (Fin 0) s \<and> (\<exists>m. fle s (fsub deadline (clock m)))) \<and>
    (i < settle_max_attempts cfg \<longrightarrow>
      int (length (sleeps (snd (settle_loop cfg clock observe reconcile cid xid deadline i n attempts last_seen))))
      < settle_max_attempts cfg - i)"
    using assms
  proof (induction "nat (settle_max_attempts cfg - i)" arbitrary: i n attempts last_seen rule: less_induct)
    case less
    show ?case
    proof (cases rule: settle_loop_cases [of cfg i deadline clock n observe reconcile cid xid attempts last_seen])
      case (again seen evs m)
      with less.hyps [of "i + 1" m "attempts @ [seen]" "Some seen"] less.prems show ?thesis by auto
    qed (use less.prems in auto)
  qed
  then show "\<forall>s \<in> set (sleeps (snd (settle_loop cfg clock observe reconcile cid xid deadline i n attempts last_seen))).
      flt (Fin 0) s \<and> (\<exists>m. fle s (fsub deadline (clock m)))"
    and "i < settle_max_attempts cfg \<Longrightarrow>
      int (length (sleeps (snd (settle_loop cfg clock observe reconcile cid xid deadline i n attempts last_seen))))
      < settle_max_attempts cfg - i" by blast+
qed

subsection \<open>Properties\<close>


text \<open>
  C40: If the order is seen as settled at attempt \<open>k\<close>, which is within the attempts, the
  clock has not passed the deadline, and no earlier attempt asks for an operator, then the
  barrier returns a settled result.
\<close>

theorem settle_reaches_settlement:
  assumes "0 \<le> k" and "k < max 1 (sc_max_attempts cfg)"
    and "round_ok observe reconcile k (seen_at k)" and "settled_evidence (seen_at k)"
    and "\<forall>j. 0 \<le> j \<and> j < k \<longrightarrow> round_ok observe reconcile j (seen_at j) \<and> \<not> operator_evidence (seen_at j)"
    and "settle_deadline cfg (clock 0) = Inr deadline" and "\<forall>m. \<not> flt deadline (clock m)"
    and "numbers_ok cfg"
  shows "\<exists>r. fst (settle cfg clock observe reconcile cid xid) = Inr r \<and> st_settled r"
  using settle_loop_settles [of 0 k cfg observe reconcile seen_at deadline clock] assms
  by (simp add: settle_def settle_max_attempts_def)

text \<open>
  Every pause of the barrier is positive and ends by the deadline, as the clock stood
  when the pause was computed; there are fewer pauses than attempts.
\<close>

theorem settle_sleeps_within_deadline:
  assumes "settle_deadline cfg (clock 0) = Inr deadline"
  shows "(\<forall>s \<in> set (sleeps (snd (settle cfg clock observe reconcile cid xid))).
      flt (Fin 0) s \<and> (\<exists>m. fle s (fsub deadline (clock m)))) \<and>
    int (length (sleeps (snd (settle cfg clock observe reconcile cid xid)))) < max 1 (sc_max_attempts cfg)"
  using assms settle_loop_sleeps [of 0 cfg clock observe reconcile cid xid deadline 1 "[]" None]
  by (simp add: settle_def settle_max_attempts_def)

text \<open>
  A barrier whose only attempt is used up within the deadline reports that the deadline was
  exceeded.
\<close>

lemma exhausted_attempts_report_deadline:
  assumes "sc_max_attempts cfg = 1" and "settle_deadline cfg (clock 0) = Inr deadline"
  shows "\<exists>r. fst (settle cfg clock (\<lambda>_. Inr []) None cid xid) = Inr r \<and>
    st_deadline_exceeded r \<and> st_reason_code r = ''timed_out''"
proof -
  have "case snapshot_from_mapping [] 0 of Inl _ \<Rightarrow> False
      | Inr e \<Rightarrow> \<not> settled_evidence e \<and> \<not> operator_evidence e \<and> \<not> settlement_hard_blocked e"
    by code_simp
  then obtain e where e: "snapshot_from_mapping [] 0 = Inr e" "\<not> settled_evidence e" "\<not> operator_evidence e"
    "\<not> settlement_hard_blocked e" by (auto split: sum.splits)
  have "settle cfg clock (\<lambda>_. Inr []) None cid xid =
      (settle_timeout cid xid [e] (Some e), [Observed 0])"
    using assms e by (simp add: settle_def settle_loop.simps [of _ _ _ _ _ _ _ 0] settle_max_attempts_def Let_def)
  moreover have "st_reason_code (evaluate_settlement_snapshot cid xid e [e] True) = ''timed_out''"
    using e(2,4) unfolding evaluate_settlement_simps(1) [of cid xid e "[e]" True, symmetric]
    by (simp add: evaluate_settlement_snapshot_def Let_def)
  ultimately show ?thesis by (simp add: settle_timeout_Some)
qed

subsection \<open>Witnesses\<close>

definition sample_settlement_config :: settlement_config where
  "sample_settlement_config = \<lparr>sc_max_attempts = 2, sc_poll_intervals_ms = [1000], sc_deadline_ms = 5000\<rparr>"

definition sample_seen :: pydict where
  "sample_seen = [(''attempt_index'', VInt 0), (''order_state'', VStr ''filled''), (''fill_set_complete'', VBool True),
     (''fee_state'', VStr ''finalized''), (''principal_applied'', VBool True), (''accounting_finalized'', VBool True),
     (''projection_applied'', VBool True), (''broker_local_converged'', VBool True)]"

lemma sample_numbers: "numbers_ok sample_settlement_config"
  "\<exists>f. val_float (VInt (max 0 (sc_deadline_ms sample_settlement_config))) = Inr f"
  by (simp_all add: sample_settlement_config_def float_of_int_def rnd_of_int [of 1000, simplified] rnd_of_int [of 5000, simplified])

lemma sample_deadline: "settle_deadline sample_settlement_config (Fin 0) = Inr (Fin 5)"
  using rnd_of_int [of 5] rnd_of_int [of 5000]
  by (simp add: settle_deadline_def sample_settlement_config_def float_of_int_def)

definition sample_seen_at :: "int \<Rightarrow> pydict" where
  "sample_seen_at j = (case snapshot_from_mapping (if j = 0 then [] else sample_seen) 0 of Inr e \<Rightarrow> e | Inl _ \<Rightarrow> [])"

lemma sample_rounds:
  "round_ok (\<lambda>j. Inr (if j = 0 then [] else sample_seen)) None j (sample_seen_at j)"
  by (simp add: round_ok_def sample_seen_at_def snapshot_from_mapping_def dget_or_def sample_seen_def Let_def)

lemma sample_seen_facts: "settled_evidence (sample_seen_at 1)" "\<not> operator_evidence (sample_seen_at 0)"
  by code_simp+


theorem settle_reaches_settlement_witness:
  "\<exists>r. fst (settle sample_settlement_config (\<lambda>_. Fin 0) (\<lambda>j. Inr (if j = 0 then [] else sample_seen)) None
      ''o1'' None) = Inr r \<and> st_settled r"
proof (rule settle_reaches_settlement [where seen_at = sample_seen_at and k = 1])
  show "\<forall>j. 0 \<le> j \<and> j < 1 \<longrightarrow> round_ok (\<lambda>j. Inr (if j = 0 then [] else sample_seen)) None j (sample_seen_at j) \<and>
      \<not> operator_evidence (sample_seen_at j)"
  proof (intro allI impI)
    fix j :: int assume "0 \<le> j \<and> j < 1"
    then have "j = 0" by simp
    then show "round_ok (\<lambda>j. Inr (if j = 0 then [] else sample_seen)) None j (sample_seen_at j) \<and>
      \<not> operator_evidence (sample_seen_at j)"
      using sample_rounds [of 0] sample_seen_facts(2) by simp
  qed
  show "numbers_ok sample_settlement_config" by (rule sample_numbers)
  show "settle_deadline sample_settlement_config (Fin 0) = Inr (Fin 5)" by (rule sample_deadline)
qed (use sample_rounds [of 1] sample_seen_facts(1) in \<open>simp_all add: sample_settlement_config_def\<close>)

theorem settle_sleeps_within_deadline_witness:
  "list_all (\<lambda>s. flt (Fin 0) s \<and> fle s (fsub (Fin 5) (Fin 0)))
     (sleeps (snd (settle sample_settlement_config (\<lambda>_. Fin 0)
        (\<lambda>j. Inr (if j = 0 then [] else sample_seen)) None ''o1'' None))) \<and>
   length (sleeps (snd (settle sample_settlement_config (\<lambda>_. Fin 0)
        (\<lambda>j. Inr (if j = 0 then [] else sample_seen)) None ''o1'' None))) < 2"
  using settle_sleeps_within_deadline [OF sample_deadline]
  by (simp add: list_all_iff sample_settlement_config_def)

end
