(* ===== verification/Run_Lock.thy ===== *)
theory Run_Lock
  imports Py_Value
begin

text \<open>
  The single-instance lock of \<open>src/src/operation/run_lock.py\<close>: the owner record in the lock file,
  the status that other processes read from it, and the acquisition and release of the
  \<open>flock\<close>, on a POSIX system (\<open>fcntl\<close> present).

  The lock file is a record: its text, its modification time and the open file description
  that holds the exclusive \<open>flock\<close>. What the operating system answers is an environment
  \<open>lock_env\<close>: signal 0 to a process, the time, whether the file can be read and its
  metadata be read, and an error of \<open>flock\<close> other than a held lock. The lock path is text; its
  default from the environment variables is not modelled.
\<close>

datatype kill_outcome = Delivered | NoSuchProcess | NotPermitted | KillFailed

record lock_env =
  le_kill :: "int \<Rightarrow> kill_outcome"
  le_time :: pyfloat
  le_read_ok :: bool
  le_stat_ok :: bool
  le_flock_errno :: "int option"

record lock_file =
  lf_exists :: bool
  lf_text :: string
  lf_mtime :: pyfloat
  lf_holder :: "nat option"

definition STALE_LOCK_MAX_AGE_SECONDS :: int where
  "STALE_LOCK_MAX_AGE_SECONDS = 60 * 10"

text \<open>
  \<open>PermissionError\<close> is a subclass of \<open>OSError\<close>, whose handler stands first: the branch
  that returns True for it is never reached.
\<close>

definition pid_is_running :: "lock_env \<Rightarrow> int \<Rightarrow> bool" where
  "pid_is_running env pid =
     (if pid \<le> 0 then False
      else case le_kill env pid of
        NoSuchProcess \<Rightarrow> False
      | NotPermitted \<Rightarrow> False
      | KillFailed \<Rightarrow> False
      | Delivered \<Rightarrow> True)"

record lock_state =
  lk_pid :: "int option"
  lk_hostname :: "string option"
  lk_created_at :: "string option"
  lk_age_seconds :: "pyfloat option"
  lk_owner_text :: "string option"

definition lock_is_stale_candidate :: "lock_env \<Rightarrow> lock_state \<Rightarrow> bool" where
  "lock_is_stale_candidate env s \<longleftrightarrow>
     (case lk_pid s of None \<Rightarrow> True | Some pid \<Rightarrow> \<not> pid_is_running env pid) \<and>
     (case lk_age_seconds s of None \<Rightarrow> False
      | Some age \<Rightarrow> fle (Fin (of_int STALE_LOCK_MAX_AGE_SECONDS)) age)"

record run_lock_status =
  rls_lock_path :: string
  rls_owner_pid :: "int option"
  rls_owner_hostname :: "string option"
  rls_created_at :: "string option"
  rls_age_seconds :: "pyfloat option"
  rls_owner_text :: "string option"
  rls_is_stale_candidate :: bool

definition owner_state_text :: "lock_env \<Rightarrow> run_lock_status \<Rightarrow> string" where
  "owner_state_text env s =
     (case rls_owner_pid s of
        None \<Rightarrow> if rls_is_stale_candidate s then ''stale candidate'' else ''unknown owner''
      | Some pid \<Rightarrow>
          if pid_is_running env pid then ''live owner''
          else if rls_is_stale_candidate s then ''stale candidate'' else ''dead owner'')"

definition run_lock_status_human_text :: "lock_env \<Rightarrow> run_lock_status \<Rightarrow> string" where
  "run_lock_status_human_text env s =
     ''path='' @ rls_lock_path s @
     '' owner_pid='' @ (case rls_owner_pid s of None \<Rightarrow> ''unknown'' | Some pid \<Rightarrow> py_str_int pid) @
     '' host='' @ or_str (rls_owner_hostname s) ''unknown'' @
     '' created_at='' @ or_str (rls_created_at s) ''unknown'' @
     '' age='' @ (case rls_age_seconds s of None \<Rightarrow> ''unknown'' | Some a \<Rightarrow> py_fixed False 1 a @ ''s'') @
     '' stale_candidate='' @ (if rls_is_stale_candidate s then ''yes'' else ''no'') @
     '' status='' @ owner_state_text env s @
     '' owner_text='' @ or_str (rls_owner_text s) ''unknown''"

definition run_lock_status_as_dict :: "lock_env \<Rightarrow> run_lock_status \<Rightarrow> pydict" where
  "run_lock_status_as_dict env s =
     [(''lock_path'', VStr (rls_lock_path s)),
      (''owner_pid'', opt_int (rls_owner_pid s)),
      (''owner_hostname'', opt_string (rls_owner_hostname s)),
      (''created_at'', opt_string (rls_created_at s)),
      (''age_seconds'', opt_float (rls_age_seconds s)),
      (''owner_text'', opt_string (rls_owner_text s)),
      (''owner_state_text'', VStr (owner_state_text env s)),
      (''is_stale_candidate'', VBool (rls_is_stale_candidate s)),
      (''human_text'', VStr (run_lock_status_human_text env s))]"

subsection \<open>The owner record\<close>

definition read_fd_text :: "lock_file \<Rightarrow> nat \<Rightarrow> string" where
  "read_fd_text f max_bytes = py_strip (take max_bytes (lf_text f))"

text \<open>The loop over the tokens: a later field replaces an earlier one of the same name.\<close>

definition owner_fields :: "string \<Rightarrow> (string \<times> string) list" where
  "owner_fields text =
     foldl (\<lambda>fields token. if CHR ''='' \<notin> set token then fields
         else AList.update (fst (split_eq token)) (snd (split_eq token)) fields) [] (py_split text)"

definition parse_lock_owner_text :: "string \<Rightarrow> int option \<times> string option \<times> string option" where
  "parse_lock_owner_text raw =
     (let value = py_strip raw
      in if value = [] then (None, None, None)
         else case py_int_of_str value of
           Some pid \<Rightarrow> (Some pid, None, None)
         | None \<Rightarrow>
             (let fields = owner_fields value;
                  pid = (case map_of fields ''pid'' of
                     None \<Rightarrow> None
                   | Some pid_raw \<Rightarrow> if pid_raw = [] then None else py_int_of_str pid_raw)
              in (pid, map_of fields ''host'', map_of fields ''created_at'')))"

definition read_lock_file_state :: "lock_env \<Rightarrow> lock_file \<Rightarrow> lock_state" where
  "read_lock_file_state env f =
     (let raw = read_fd_text f 256;
          known = (le_read_ok env \<and> raw \<noteq> []);
          owner = (if known then parse_lock_owner_text raw else (None, None, None))
      in \<lparr>lk_pid = fst owner, lk_hostname = fst (snd owner), lk_created_at = snd (snd owner),
          lk_age_seconds = (if le_stat_ok env then Some (fmax (Fin 0) (fsub (le_time env) (lf_mtime f))) else None),
          lk_owner_text = (if known then Some raw else None)\<rparr>)"

definition format_lock_conflict_details :: "lock_env \<Rightarrow> string \<Rightarrow> lock_state \<Rightarrow> string" where
  "format_lock_conflict_details env path s =
     ''lock='' @ path @
     '' owner_pid='' @ (case lk_pid s of None \<Rightarrow> ''unknown'' | Some pid \<Rightarrow> py_str_int pid) @
     '' owner_host='' @ or_str (lk_hostname s) ''unknown'' @
     '' owner_created_at='' @ or_str (lk_created_at s) ''unknown'' @
     '' lock_age='' @ (case lk_age_seconds s of None \<Rightarrow> ''unknown'' | Some a \<Rightarrow> py_fixed False 0 a @ ''s'') @
     '' reclaim_possible='' @
     (if lock_is_stale_candidate env s
      then ''maybe (metadata looks stale; reclaim can only happen after the current holder exits)''
      else ''no (lock is actively held by another process)'')"

definition read_run_lock_status :: "lock_env \<Rightarrow> string \<Rightarrow> lock_file \<Rightarrow> run_lock_status" where
  "read_run_lock_status env path f =
     (if \<not> lf_exists f then
        \<lparr>rls_lock_path = path, rls_owner_pid = None, rls_owner_hostname = None, rls_created_at = None,
         rls_age_seconds = None, rls_owner_text = None, rls_is_stale_candidate = False\<rparr>
      else
        (let s = read_lock_file_state env f
         in \<lparr>rls_lock_path = path, rls_owner_pid = lk_pid s, rls_owner_hostname = lk_hostname s,
             rls_created_at = lk_created_at s, rls_age_seconds = lk_age_seconds s,
             rls_owner_text = lk_owner_text s,
             rls_is_stale_candidate = lock_is_stale_candidate env s\<rparr>))"

subsection \<open>Acquisition and release\<close>

text \<open>The Linux numbers of \<open>EACCES\<close>, \<open>EAGAIN\<close> (also \<open>EWOULDBLOCK\<close>) and \<open>EDEADLK\<close>.\<close>

definition is_lock_conflict_error :: "int \<Rightarrow> bool" where
  "is_lock_conflict_error errno \<longleftrightarrow> errno \<in> {13, 11, 35}"

text \<open>\<open>fcntl.flock(fd, LOCK_EX | LOCK_NB)\<close>: another holder makes it fail with \<open>EAGAIN\<close>.\<close>

definition lock_fd_exclusive :: "lock_env \<Rightarrow> nat \<Rightarrow> lock_file \<Rightarrow> lock_file py" where
  "lock_fd_exclusive env fd f =
     (case le_flock_errno env of
        Some errno \<Rightarrow> Inl (OSErr errno)
      | None \<Rightarrow>
          if lf_holder f \<noteq> None \<and> lf_holder f \<noteq> Some fd then Inl (OSErr 11)
          else Inr (f\<lparr>lf_holder := Some fd\<rparr>))"

definition unlock_fd_exclusive :: "nat \<Rightarrow> lock_file \<Rightarrow> lock_file" where
  "unlock_fd_exclusive fd f = (if lf_holder f = Some fd then f\<lparr>lf_holder := None\<rparr> else f)"

definition owner_record :: "int \<Rightarrow> string \<Rightarrow> string \<Rightarrow> string" where
  "owner_record pid host created_at =
     ''pid='' @ py_str_int pid @ '' host='' @ host @ '' created_at='' @ created_at"

text \<open>
  \<open>acquire_run_lock\<close> up to its \<open>yield\<close>. The value says whether the warning about a
  reclaimed lock is logged. On an exception the \<open>finally\<close> clause unlocks and closes.
\<close>

definition acquire_run_lock ::
  "lock_env \<Rightarrow> string \<Rightarrow> nat \<Rightarrow> int \<Rightarrow> string \<Rightarrow> string \<Rightarrow> lock_file \<Rightarrow> lock_file \<times> bool py" where
  "acquire_run_lock env path fd pid host created_at f =
     (let opened = (if lf_exists f then f
            else f\<lparr>lf_exists := True, lf_text := [], lf_mtime := le_time env\<rparr>);
          previous = read_lock_file_state env opened
      in case lock_fd_exclusive env fd opened of
           Inl e \<Rightarrow>
             (unlock_fd_exclusive fd opened,
              (case e of
                 OSErr errno \<Rightarrow>
                   if is_lock_conflict_error errno
                   then Inl (RunLockError (
                     ''another bot run loop is already running for this runtime storage; '' @
                     ''single-instance lock acquisition failed. '' @
                     ''Current lock context: '' @
                     format_lock_conflict_details env path (read_lock_file_state env opened)))
                   else Inl e
               | _ \<Rightarrow> Inl e))
         | Inr locked \<Rightarrow>
             (locked\<lparr>lf_text := owner_record pid host created_at, lf_mtime := le_time env\<rparr>,
              Inr (lock_is_stale_candidate env previous)))"

text \<open>The \<open>finally\<close> clause after the body: unlock and close.\<close>

definition release_run_lock :: "nat \<Rightarrow> lock_file \<Rightarrow> lock_file" where
  "release_run_lock fd f = unlock_fd_exclusive fd f"

end
