(* ===== verification/Run_Lock_Properties.thy ===== *)
theory Run_Lock_Properties
  imports Run_Lock
begin

text \<open>
  What the run lock guarantees: the owner record reads back, a process that can be
  signalled is never taken for stale, and along every interleaving of processes that enter
  and leave the guarded section at most one is inside, the one the lock file names.
\<close>

subsection \<open>The owner record\<close>

abbreviation no_blank :: "string \<Rightarrow> bool" where
  "no_blank s \<equiv> (\<forall>c \<in> set s. \<not> py_isspace c)"

lemma py_isspace_blank [simp]: "py_isspace (CHR '' '')"
  by code_simp

lemma field_name_chars [simp]: "no_blank ''pid=''" "no_blank ''host=''" "no_blank ''created_at=''"
  by code_simp+

lemma owner_record_split:
  assumes "no_blank host" and "no_blank created_at"
  shows "py_split (owner_record pid host created_at) =
    [''pid='' @ py_str_int pid, ''host='' @ host, ''created_at='' @ created_at]"
proof -
  have tok: "no_blank (''pid='' @ py_str_int pid)" "no_blank (''host='' @ host)"
    "no_blank (''created_at='' @ created_at)"
    using assms py_str_int_no_space [of pid] field_name_chars unfolding set_append by blast+
  have rec: "owner_record pid host created_at =
    (''pid='' @ py_str_int pid) @ CHR '' '' # (''host='' @ host) @ CHR '' '' # ''created_at='' @ created_at"
    by (simp add: owner_record_def)
  show ?thesis
    unfolding rec using py_split_token [OF tok(1) _ py_isspace_blank] py_split_token [OF tok(2) _ py_isspace_blank]
      py_split_last [OF tok(3)] by simp
qed

lemma owner_record_fields:
  assumes "no_blank host" and "no_blank created_at"
  shows "owner_fields (owner_record pid host created_at) =
    [(''pid'', py_str_int pid), (''host'', host), (''created_at'', created_at)]"
  using split_eq_key [of "''pid''" "py_str_int pid"] split_eq_key [of "''host''" host]
    split_eq_key [of "''created_at''" created_at]
  by (simp add: owner_fields_def owner_record_split [OF assms])

lemma owner_record_strip:
  assumes "no_blank created_at"
  shows "py_strip (owner_record pid host created_at) = owner_record pid host created_at"
proof (rule py_strip_noop)
  have "last (owner_record pid host created_at) = last (''created_at='' @ created_at)"
    unfolding owner_record_def by simp
  moreover have "no_blank (''created_at='' @ created_at)"
    using assms field_name_chars(3) unfolding set_append by blast
  ultimately show "\<not> py_isspace (last (owner_record pid host created_at))"
    using last_in_set [of "''created_at='' @ created_at"] by fastforce
  show "\<not> py_isspace (hd (owner_record pid host created_at))"
    using field_name_chars(1) by (simp add: owner_record_def)
qed (simp add: owner_record_def)

lemma owner_record_no_int: "py_strip r = r \<Longrightarrow> r = CHR ''p'' # s \<Longrightarrow> py_int_of_str r = None"
  by (simp add: py_int_of_str_def py_isdigit_def code_def)

text \<open>
  The record that a process writes on acquiring the lock reads back as its process id,
  host and creation time, for a host and a time without blanks and a record that fits in the
  256 bytes that are read.
\<close>

theorem lock_owner_roundtrip:
  assumes "no_blank host" and "no_blank created_at"
    and "length (owner_record pid host created_at) \<le> 256"
    and "le_read_ok env" and "lf_text f = owner_record pid host created_at"
  shows "lk_pid (read_lock_file_state env f) = Some pid \<and>
    lk_hostname (read_lock_file_state env f) = Some host \<and>
    lk_created_at (read_lock_file_state env f) = Some created_at"
proof -
  let ?r = "owner_record pid host created_at"
  have strip: "py_strip ?r = ?r" by (rule owner_record_strip [OF assms(2)])
  obtain s where p: "?r = CHR ''p'' # s" by (simp add: owner_record_def)
  have ne: "?r \<noteq> []" by (simp add: p)
  have "parse_lock_owner_text ?r = (Some pid, Some host, Some created_at)"
    using owner_record_fields [OF assms(1,2), of pid] owner_record_no_int [OF strip p]
    by (simp add: parse_lock_owner_text_def strip ne)
  then show ?thesis
    using assms(3-5) by (simp add: read_lock_file_state_def read_fd_text_def strip ne)
qed

subsection \<open>Stale locks\<close>

lemma live_owner_not_stale:
  assumes "lk_pid s = Some pid" and "0 < pid" and "le_kill env pid = Delivered"
  shows "\<not> lock_is_stale_candidate env s"
  using assms by (simp add: lock_is_stale_candidate_def pid_is_running_def)

text \<open>
  A live process of another user, which may not be signalled, is reported as stale once the
  lock file is ten minutes old.
\<close>

lemma foreign_owner_reported_stale:
  assumes "lk_pid s = Some pid" and "le_kill env pid = NotPermitted"
    and "lk_age_seconds s = Some age" and "fle (Fin 600) age"
  shows "lock_is_stale_candidate env s"
  using assms by (simp add: lock_is_stale_candidate_def pid_is_running_def STALE_LOCK_MAX_AGE_SECONDS_def)

subsection \<open>Processes that compete for the lock\<close>

text \<open>
  The system is the lock file with the processes inside the guarded section, each with its
  open file description and the identity it wrote. A process enters with an open file
  description of its own, under any answers of the operating system. Leaving is also what
  the operating system does for a process that dies.
\<close>

type_synonym inside = "(nat \<times> int \<times> string \<times> string) list"

inductive lock_step :: "lock_file \<times> inside \<Rightarrow> lock_file \<times> inside \<Rightarrow> bool" where
  enter: "acquire_run_lock env path fd pid host created_at f = (f', Inr w) \<Longrightarrow> fd \<notin> fst ` set ins \<Longrightarrow>
    lock_step (f, ins) (f', (fd, pid, host, created_at) # ins)"
| refused: "acquire_run_lock env path fd pid host created_at f = (f', Inl e) \<Longrightarrow> fd \<notin> fst ` set ins \<Longrightarrow>
    lock_step (f, ins) (f', ins)"
| leave: "fd \<in> fst ` set ins \<Longrightarrow>
    lock_step (f, ins) (release_run_lock fd f, filter (\<lambda>p. fst p \<noteq> fd) ins)"

definition no_lock_file :: lock_file where
  "no_lock_file = \<lparr>lf_exists = False, lf_text = [], lf_mtime = Fin 0, lf_holder = None\<rparr>"

definition lock_inv :: "lock_file \<times> inside \<Rightarrow> bool" where
  "lock_inv c = (case c of (f, ins) \<Rightarrow>
     (case ins of
        [] \<Rightarrow> lf_holder f = None
      | [(fd, pid, host, created_at)] \<Rightarrow>
          lf_exists f \<and> lf_holder f = Some fd \<and> lf_text f = owner_record pid host created_at
      | _ \<Rightarrow> False))"

lemma lock_inv_cases:
  assumes "lock_inv (f, ins)"
  obtains (free) "ins = []" "lf_holder f = None"
  | (held) fd pid host created_at where "ins = [(fd, pid, host, created_at)]" "lf_exists f"
      "lf_holder f = Some fd" "lf_text f = owner_record pid host created_at"
  using assms by (cases ins; cases "tl ins") (auto simp: lock_inv_def)

lemma lock_inv_simps [simp]:
  "lock_inv (f, []) = (lf_holder f = None)"
  "lock_inv (f, [(fd, pid, host, created_at)]) =
     (lf_exists f \<and> lf_holder f = Some fd \<and> lf_text f = owner_record pid host created_at)"
  by (simp_all add: lock_inv_def)

lemma acquire_ok:
  assumes "acquire_run_lock env path fd pid host created_at f = (f', Inr w)"
  shows "le_flock_errno env = None" and "lf_holder f = None \<or> lf_holder f = Some fd"
    and "lf_exists f'" and "lf_holder f' = Some fd" and "lf_text f' = owner_record pid host created_at"
  using assms by (auto simp: acquire_run_lock_def lock_fd_exclusive_def Let_def
      split: option.splits if_splits)

lemma acquire_refused:
  assumes "acquire_run_lock env path fd pid host created_at f = (f', Inl e)" and "lf_holder f \<noteq> Some fd"
  shows "lf_holder f' = lf_holder f" and "lf_exists f \<Longrightarrow> f' = f"
  using assms by (auto simp: acquire_run_lock_def lock_fd_exclusive_def unlock_fd_exclusive_def Let_def
      split: option.splits if_splits)

lemma lock_step_inv:
  assumes "lock_inv c" and "lock_step c c'"
  shows "lock_inv c'"
  using assms(2,1)
proof cases
  case (enter env path fd pid host created_at f f' w ins)
  then show ?thesis using assms(1) acquire_ok [OF enter(3)] by (auto elim: lock_inv_cases)
next
  case (refused env path fd pid host created_at f f' e ins)
  have "lock_inv (f, ins)" using assms(1) refused(1) by simp
  then show ?thesis
    by (cases rule: lock_inv_cases) (use refused acquire_refused [OF refused(3)] in auto)
next
  case (leave fd ins f)
  have "lock_inv (f, ins)" using assms(1) leave(1) by simp
  then show ?thesis
    by (cases rule: lock_inv_cases) (use leave in \<open>auto simp: release_run_lock_def unlock_fd_exclusive_def\<close>)
qed

interpretation run_lock: invariant_system lock_step lock_inv
  by unfold_locales (rule lock_step_inv)

text \<open>
  C38: Along every interleaving of processes that try to enter, enter and leave, at most one
  process is inside, it holds the file lock, and the lock file carries its record. A
  newcomer enters exactly if nobody is inside, whatever record or age the file has, unless
  the locking call itself fails; otherwise it is turned away with a \<open>RunLockError\<close>.
\<close>

theorem run_lock_exclusive:
  assumes "lock_step\<^sup>*\<^sup>* (no_lock_file, []) (f, ins)"
  shows "length ins \<le> 1 \<and>
    (\<forall>(fd, pid, host, created_at) \<in> set ins.
       lf_holder f = Some fd \<and> lf_text f = owner_record pid host created_at) \<and>
    (\<forall>env path fd pid host created_at. le_flock_errno env = None \<and> fd \<notin> fst ` set ins \<longrightarrow>
       (if ins = [] then \<exists>f' w. acquire_run_lock env path fd pid host created_at f = (f', Inr w)
        else \<exists>msg. acquire_run_lock env path fd pid host created_at f = (f, Inl (RunLockError msg))))"
proof -
  have "lock_inv (f, ins)"
    using run_lock.run_inv [OF assms] by (simp add: no_lock_file_def)
  then show ?thesis
  proof (cases rule: lock_inv_cases)
    case free
    then show ?thesis by (auto simp: acquire_run_lock_def lock_fd_exclusive_def Let_def)
  next
    case (held fd pid host created_at)
    then show ?thesis
      by (auto simp: acquire_run_lock_def lock_fd_exclusive_def unlock_fd_exclusive_def
          is_lock_conflict_error_def Let_def)
  qed
qed

subsection \<open>Witnesses\<close>

definition sample_lock_env :: lock_env where
  "sample_lock_env = \<lparr>le_kill = (\<lambda>_. Delivered), le_time = Fin 1000, le_read_ok = True, le_stat_ok = True,
     le_flock_errno = None\<rparr>"

theorem lock_owner_roundtrip_witness:
  "lk_pid (read_lock_file_state sample_lock_env
     (no_lock_file\<lparr>lf_exists := True, lf_text := owner_record 42 ''bot-1'' ''2026-01-01T00:00:00+00:00''\<rparr>)) = Some 42"
proof -
  have "no_blank ''bot-1''" "no_blank ''2026-01-01T00:00:00+00:00''"
    "length (owner_record 42 ''bot-1'' ''2026-01-01T00:00:00+00:00'') \<le> 256"
    by code_simp+
  from lock_owner_roundtrip [OF this, of sample_lock_env] show ?thesis
    by (simp add: sample_lock_env_def)
qed

theorem run_lock_exclusive_witness:
  "\<exists>f. lock_step\<^sup>*\<^sup>* (no_lock_file, []) (f, [(1, 42, ''bot-1'', ''t'')]) \<and>
    (\<exists>msg. acquire_run_lock sample_lock_env ''run.lock'' 2 43 ''bot-2'' ''t'' f = (f, Inl (RunLockError msg)))"
proof -
  let ?f = "fst (acquire_run_lock sample_lock_env ''run.lock'' 1 42 ''bot-1'' ''t'' no_lock_file)"
  have "\<exists>w. acquire_run_lock sample_lock_env ''run.lock'' 1 42 ''bot-1'' ''t'' no_lock_file = (?f, Inr w)"
    by (simp add: acquire_run_lock_def lock_fd_exclusive_def no_lock_file_def sample_lock_env_def Let_def)
  then have run: "lock_step\<^sup>*\<^sup>* (no_lock_file, []) (?f, [(1, 42, ''bot-1'', ''t'')])"
    using lock_step.enter by fastforce
  moreover from run_lock_exclusive [OF run] have
    "\<exists>msg. acquire_run_lock sample_lock_env ''run.lock'' 2 43 ''bot-2'' ''t'' ?f = (?f, Inl (RunLockError msg))"
    by (simp add: sample_lock_env_def)
  ultimately show ?thesis by blast
qed

end
