(* ===== verification/Py_Decimal.thy ===== *)
theory Py_Decimal
  imports Py_Float
begin

text \<open>
  Python's \<open>decimal.Decimal\<close> as the program uses it on doubles: \<open>Decimal(str(x))\<close> is the
  value of the shortest decimal that rounds to \<open>x\<close>, \<open>quantize\<close> to a number of places under
  the default precision of 28 digits, and the conversion back to a double. The main facts:
  seventeen digits identify a double, so \<open>float(Decimal(str(x)))\<close> is \<open>x\<close>; the conversion is
  monotone; and quantizing twice is quantizing once.
\<close>

subsection \<open>Definitions\<close>

definition dec_pos :: "rat \<Rightarrow> rat" where
  "dec_pos q = (case repr_search q [1..<18] of (m, n) \<Rightarrow> of_int m * 10 powi (rlog10 q + 1 - int n))"

text \<open>\<open>Decimal(str(x))\<close> of a finite double.\<close>

definition dec_of_float :: "rat \<Rightarrow> rat" where
  "dec_of_float q = (if q = 0 then 0 else if q < 0 then - dec_pos (- q) else dec_pos q)"

text \<open>
  \<open>d.quantize(Decimal("1e-k"), rounding=...)\<close>: the coefficient of the result must not have
  more than 28 digits. The rounding is given by the integer part it takes.
\<close>

definition dec_quantize :: "(rat \<Rightarrow> int) \<Rightarrow> nat \<Rightarrow> rat \<Rightarrow> rat py" where
  "dec_quantize to_int k d =
     (let c = to_int (d * 10 ^ k)
      in if 10 ^ 28 \<le> \<bar>c\<bar> then Inl InvalidOperation else Inr (of_int c / 10 ^ k))"

subsection \<open>The decimal exponent\<close>

lemma ten_powi_add: "(10 :: rat) powi (a + b) = 10 powi a * 10 powi b"
  by (simp add: power_int_add)

lemma ten_powi_less_iff: "(10 :: rat) powi a < 10 powi b \<longleftrightarrow> a < b"
  by (metis leD leI one_less_numeral_iff power_int_increasing power_int_strict_increasing
      semiring_norm(76) less_imp_le)

lemma dec_str_length:
  "0 < n \<Longrightarrow> (10 :: rat) ^ (length (dec_str n) - 1) \<le> of_int n \<and> of_int n < (10 :: rat) ^ length (dec_str n)"
proof (induction n rule: dec_str.induct)
  case (1 n)
  show ?case
  proof (cases "n < 10")
    case True
    with "1.prems" show ?thesis by (simp add: dec_str.simps [of n])
  next
    case False
    let ?l = "length (dec_str (n div 10))"
    have len: "length (dec_str n) = Suc ?l"
      using False by (simp add: dec_str.simps [of n])
    have IH: "(10 :: rat) ^ (?l - 1) \<le> of_int (n div 10)" "of_int (n div 10) < (10 :: rat) ^ ?l"
      using "1.IH" False by (simp_all add: pos_imp_zdiv_pos_iff)
    have l: "(10 :: rat) ^ ?l = 10 * 10 ^ (?l - 1)"
      using dec_str_not_Nil [of "n div 10"] by (cases ?l) auto
    have "10 * (n div 10) \<le> n" by simp
    then have "of_int (10 * (n div 10)) \<le> (of_int n :: rat)" by (simp only: of_int_le_iff)
    then have A: "(10 :: rat) ^ ?l \<le> of_int n" using IH(1) l by (simp only: of_int_mult of_int_numeral)
    have "(of_int (n div 10) :: rat) < of_int (10 ^ ?l)" using IH(2) by simp
    then have "n div 10 < 10 ^ ?l" by (simp only: of_int_less_iff)
    then have "n < 10 * 10 ^ ?l" by linarith
    then have "(of_int n :: rat) < of_int (10 * 10 ^ ?l)" by (simp only: of_int_less_iff)
    then show ?thesis using A len by simp
  qed
qed

lemma rlog10_bounds:
  assumes "0 < q"
  shows "10 powi rlog10 q \<le> q \<and> q < 10 powi (rlog10 q + 1)"
proof -
  obtain n d where nd: "quotient_of q = (n, d)"
    by (cases "quotient_of q")
  have d: "0 < d" and q: "q = of_int n / of_int d"
    using nd quotient_of_denom_pos quotient_of_div by auto
  with assms have n: "0 < n"
    by (simp add: zero_less_divide_iff)
  define a where "a = int (length (dec_str n))"
  define b where "b = int (length (dec_str d))"
  have bound: "(10 :: rat) powi (int (length (dec_str i)) - 1) \<le> of_int i \<and>
      of_int i < (10 :: rat) powi int (length (dec_str i))" if "0 < i" for i
  proof -
    have "int (length (dec_str i)) - 1 = int (length (dec_str i) - 1)"
      using dec_str_not_Nil [of i] by (cases "dec_str i") auto
    then show ?thesis using dec_str_length [OF that] by (simp only: power_int_of_nat)
  qed
  have nb: "10 powi (a - 1) \<le> (of_int n :: rat)" "of_int n < (10 :: rat) powi a"
    and db: "10 powi (b - 1) \<le> (of_int d :: rat)" "of_int d < (10 :: rat) powi b"
    using bound [OF n] bound [OF d] by (auto simp: a_def b_def)
  have "of_int n < 10 powi (a - b + 1) * (of_int d :: rat)"
  proof -
    have "of_int n < (10 :: rat) powi (a - b + 1) * 10 powi (b - 1)"
      using nb(2) by (simp flip: ten_powi_add)
    also have "\<dots> \<le> 10 powi (a - b + 1) * of_int d"
      using db(1) by (intro mult_left_mono) simp_all
    finally show ?thesis .
  qed
  then have hi: "q < 10 powi (a - b + 1)"
    using d q by (simp add: divide_less_eq)
  have "10 powi (a - b - 1) * of_int d \<le> (of_int n :: rat)"
  proof -
    have "10 powi (a - b - 1) * of_int d \<le> (10 :: rat) powi (a - b - 1) * 10 powi b"
      using db(2) by (intro mult_left_mono) simp_all
    also have "\<dots> = 10 powi (a - 1)"
      by (simp flip: ten_powi_add)
    finally show ?thesis using nb(1) by simp
  qed
  then have lo: "10 powi (a - b - 1) \<le> q"
    using d q by (simp add: le_divide_eq)
  show ?thesis
    using hi lo by (auto simp: rlog10_def nd Let_def a_def b_def)
qed

subsection \<open>Seventeen digits identify a double\<close>

lemma rne_near:
  assumes "\<bar>x - of_int m\<bar> < 1 / 2"
  shows "rne x = m"
proof -
  have "\<lfloor>x\<rfloor> = m \<or> \<lfloor>x\<rfloor> = m - 1"
    using assms by (auto simp: abs_less_iff floor_eq_iff)
  then show ?thesis
    using assms by (auto simp: rne_def Let_def abs_less_iff)
qed

lemma scaled_dist:
  assumes "0 < (u :: rat)"
  shows "\<bar>d / u - x\<bar> = \<bar>d - x * u\<bar> / u"
proof -
  have "d / u - x = (d - x * u) / u" using assms by (simp add: field_simps)
  then show ?thesis using assms by simp
qed

lemma double_rat_mag: "0 < q \<Longrightarrow> double_rat q \<Longrightarrow> rnd_mag q = q \<and> q < 2 ^ 1024"
  by (auto simp: double_rat_def rnd_def rnd_val_def Let_def split: if_splits)

lemma rnd_mag_near:
  assumes q: "0 < q" "rnd_mag q = q" and near: "\<bar>d - q\<bar> < q * pw (- 54)"
  shows "rnd_mag d = q"
proof -
  define e where "e = ulp_exp q"
  define m where "m = rne (q / pw e)"
  have qm: "q = of_int m * pw e"
    using q by (simp add: rnd_mag_def e_def m_def)
  have e_min: "- 1074 \<le> e" by (simp add: e_def ulp_exp_def)
  have "rlog2 q + 1 \<le> e + 53" by (simp add: e_def ulp_exp_def)
  then have q_hi: "q < pw (e + 53)"
    using rlog2_bounds [OF q(1)] pw_mono [of "rlog2 q + 1" "e + 53"] by linarith
  then have "of_int m < (of_int (2 ^ 53) :: rat)"
    using qm by (simp add: pw_add mult.commute)
  then have m53: "m + 1 \<le> 2 ^ 53" by (simp only: of_int_less_iff zless_imp_add1_zle)
  have half: "\<bar>d - q\<bar> < pw e / 2"
  proof -
    have "q * pw (- 54) < pw (e + 53) * pw (- 54)"
      using q_hi by (intro mult_strict_right_mono) simp_all
    also have "\<dots> = pw (e + 53 + - 54)" by (rule pw_add [symmetric])
    also have "\<dots> = pw (e - 1)" by (simp only: add_uminus_conv_diff add_diff_eq [symmetric]) simp
    also have "\<dots> = pw e / 2" by (simp add: power_int_diff)
    finally show ?thesis using near by simp
  qed
  have d_pos: "0 < d"
  proof -
    have "q * pw (- 54) \<le> q * 1"
      using q(1) pw_mono [of "- 54" 0] by (intro mult_left_mono) simp_all
    then show ?thesis using near by linarith
  qed
  show ?thesis
  proof (cases "ulp_exp d = e")
    case True
    have "\<bar>d / pw e - of_int m\<bar> = \<bar>d - q\<bar> / pw e"
      unfolding qm by (rule scaled_dist) simp
    also have "\<dots> < 1 / 2"
      using half by (simp add: divide_less_eq)
    finally have "rne (d / pw e) = m" by (rule rne_near)
    then show ?thesis using d_pos True qm by (simp add: rnd_mag_def)
  next
    case False
    have "d < pw (e + 53)"
    proof -
      have "d < q + pw e / 2" using half by linarith
      also have "\<dots> = (of_int m + 1 / 2) * pw e" using qm by (simp add: algebra_simps)
      also have "\<dots> \<le> of_int (2 ^ 53) * pw e"
      proof (intro mult_right_mono)
        have "of_int (m + 1) \<le> (of_int (2 ^ 53) :: rat)" using m53 by (simp only: of_int_le_iff)
        then show "of_int m + 1 / 2 \<le> (of_int (2 ^ 53) :: rat)" by simp
      qed simp
      also have "\<dots> = pw (e + 53)" by (simp add: pw_add)
      finally show ?thesis .
    qed
    then have "rlog2 d < e + 53"
      using rlog2_bounds [OF d_pos] pw_less_iff [of "rlog2 d" "e + 53"] by linarith
    with False e_min have lt: "ulp_exp d < e" "rlog2 d < e + 52"
      by (auto simp: ulp_exp_def)
    then have e_q: "e = rlog2 q - 52" using e_min by (auto simp: e_def ulp_exp_def)
    have d_hi: "d < pw (e + 52)"
      using rlog2_bounds [OF d_pos] pw_mono [of "rlog2 d + 1" "e + 52"] lt by linarith
    have q_lo: "pw (e + 52) \<le> q" using rlog2_bounds [OF q(1)] e_q by simp
    have "q < pw (e + 52) + pw e / 2" using half d_hi by linarith
    also have "\<dots> = (2 ^ 52 + 1 / 2) * pw e" by (simp add: pw_add algebra_simps)
    finally have "of_int m * pw e < (2 ^ 52 + 1 / 2) * pw e" using qm by simp
    then have m_hi: "of_int m < (2 ^ 52 + 1 / 2 :: rat)" by simp
    have "of_int (2 ^ 52) * pw e \<le> of_int m * pw e" using q_lo qm by (simp add: pw_add)
    then have "2 ^ 52 \<le> m" by (simp only: mult_le_cancel_right_pos pw_pos of_int_le_iff)
    moreover have "m < 2 ^ 52 + 1"
    proof -
      have "of_int m < (of_int (2 ^ 52 + 1) :: rat)" using m_hi by simp
      then show ?thesis by (simp only: of_int_less_iff)
    qed
    ultimately have "m = 2 ^ 52" by simp
    then have q_eq: "q = pw (e + 52)" using qm by (simp add: pw_add)
    have "pw (e + 52) * pw (- 54) = pw (e + 52 + - 54)" by (rule pw_add [symmetric])
    also have "e + 52 + - 54 = e - 2" by simp
    finally have below: "\<bar>d - q\<bar> < pw (e - 2)" using near q_eq by metis
    have "pw (e + 51) \<le> d"
    proof -
      have "pw (e - 2) \<le> pw (e + 51)" by (rule pw_mono) simp
      moreover have "q = 2 * pw (e + 51)" using pw_add [of "e + 51" 1] q_eq by (simp add: add.assoc)
      ultimately show ?thesis using below by linarith
    qed
    then have "rlog2 d = e + 51" using d_hi by (intro rlog2_unique) (simp_all add: add.commute)
    moreover have "- 1074 \<le> e - 1" using lt by (simp add: ulp_exp_def)
    ultimately have ue: "ulp_exp d = e - 1" by (simp add: ulp_exp_def)
    have q2: "q = of_int (2 ^ 53) * pw (e - 1)"
      using q_eq pw_add [of "e - 1" 53] by (simp add: add.commute mult.commute)
    have "\<bar>d / pw (e - 1) - of_int (2 ^ 53)\<bar> = \<bar>d - q\<bar> / pw (e - 1)"
      unfolding q2 by (rule scaled_dist) simp
    also have "\<dots> < pw (e - 2) / pw (e - 1)"
      using below by (intro divide_strict_right_mono) simp_all
    also have "\<dots> = 1 / 2" by (simp add: power_int_diff)
    finally have "rne (d / pw (e - 1)) = 2 ^ 53" by (rule rne_near)
    then show ?thesis using d_pos ue q2 by (simp add: rnd_mag_def)
  qed
qed

lemma rnd_near:
  assumes "0 < q" and "double_rat q" and "\<bar>d - q\<bar> < q * pw (- 54)"
  shows "rnd d = Fin q"
proof -
  have q: "rnd_mag q = q" "q < 2 ^ 1024" using double_rat_mag [OF assms(1,2)] by auto
  have d: "rnd_mag d = q" by (rule rnd_mag_near [OF assms(1) q(1) assms(3)])
  have "\<not> d \<le> 0"
    using d assms(1) by (auto simp: rnd_mag_def)
  then have "rnd_val d = q" using d by (simp add: rnd_val_def)
  moreover have "- (2 ^ 1024) < (0 :: rat)" by simp
  then have "- (2 ^ 1024) < q" using assms(1) by (rule less_trans)
  ultimately show ?thesis
    using q(2) by (simp only: rnd_def Let_def if_False not_le [symmetric] simp_thms)
qed

text \<open>The better of the two candidates with \<open>n\<close> digits comes first and is off by half a unit at most.\<close>

lemma repr_candidates_hd:
  fixes q n
  defines "s \<equiv> 10 powi (int n - 1 - rlog10 q)"
  shows "\<exists>m m'. repr_candidates q n = [m, m'] \<and> {m, m'} = {\<lfloor>q * s\<rfloor>, \<lfloor>q * s\<rfloor> + 1} \<and>
    \<bar>of_int m - q * s\<bar> \<le> 1 / 2"
proof -
  let ?lo = "\<lfloor>q * s\<rfloor>"
  have lo: "of_int ?lo \<le> q * s" "q * s < of_int ?lo + 1" by linarith+
  show ?thesis
  proof (cases "\<bar>of_int ?lo - q * s\<bar> \<le> \<bar>of_int (?lo + 1) - q * s\<bar>")
    case True
    then have "repr_candidates q n = [?lo, ?lo + 1]"
      by (simp add: repr_candidates_def s_def Let_def sort_key_def)
    moreover have "\<bar>of_int ?lo - q * s\<bar> \<le> 1 / 2" using True lo by (auto simp: abs_le_iff)
    ultimately show ?thesis by blast
  next
    case False
    then have "repr_candidates q n = [?lo + 1, ?lo]"
      by (simp add: repr_candidates_def s_def Let_def sort_key_def)
    moreover have "\<bar>of_int (?lo + 1) - q * s\<bar> \<le> 1 / 2" using False lo by (auto simp: abs_le_iff)
    ultimately show ?thesis by blast
  qed
qed

lemma repr_search_17:
  assumes "0 < q" and "double_rat q"
  shows "\<exists>m \<in> set (repr_candidates q 17). rnd (of_int m * 10 powi (rlog10 q + 1 - 17)) = Fin q"
proof -
  let ?s = "10 powi (16 - rlog10 q) :: rat"
  obtain m m' where c: "repr_candidates q 17 = [m, m']" and m: "\<bar>of_int m - q * ?s\<bar> \<le> 1 / 2"
    using repr_candidates_hd [of q 17] by auto
  have inv: "10 powi (rlog10 q + 1 - 17) * ?s = 1"
    by (simp flip: ten_powi_add)
  have "\<bar>of_int m * 10 powi (rlog10 q + 1 - 17) - q\<bar> =
      \<bar>of_int m - q * ?s\<bar> * 10 powi (rlog10 q + 1 - 17)"
  proof -
    have "of_int m * 10 powi (rlog10 q + 1 - 17) - q =
        (of_int m - q * ?s) * 10 powi (rlog10 q + 1 - 17)"
      using inv by (simp add: left_diff_distrib mult.assoc mult.commute [of ?s])
    then show ?thesis by (simp add: abs_mult)
  qed
  also have "\<dots> \<le> 1 / 2 * 10 powi (rlog10 q + 1 - 17)"
    using m by (intro mult_right_mono) simp_all
  also have "\<dots> = 1 / 2 * (10 powi rlog10 q / 10 ^ 16)"
    by (simp add: power_int_diff)
  also have "\<dots> \<le> 1 / 2 * (q / 10 ^ 16)"
    using rlog10_bounds [OF assms(1)] by (intro mult_left_mono divide_right_mono) simp_all
  also have "\<dots> < q * pw (- 54)"
    using assms(1) by (simp add: power_int_minus)
  finally have "rnd (of_int m * 10 powi (rlog10 q + 1 - 17)) = Fin q"
    by (rule rnd_near [OF assms])
  then show ?thesis using c by auto
qed

text \<open>The search returns the shortest candidate that rounds to the double.\<close>

lemma repr_search_result:
  assumes "n0 \<in> set ns" and "sorted ns"
    and "m0 \<in> set (repr_candidates q n0)" and "rnd (of_int m0 * 10 powi (rlog10 q + 1 - int n0)) = Fin q"
    and "repr_search q ns = (m, n)"
  shows "n \<in> set ns \<and> n \<le> n0 \<and> m \<in> set (repr_candidates q n) \<and>
    rnd (of_int m * 10 powi (rlog10 q + 1 - int n)) = Fin q"
  using assms
proof (induction ns)
  case (Cons k ns)
  let ?ok = "filter (\<lambda>m. rnd (of_int m * 10 powi (rlog10 q + 1 - int k)) = Fin q) (repr_candidates q k)"
  show ?case
  proof (cases ?ok)
    case Nil
    then have "k \<noteq> n0" using Cons.prems(3,4) by (auto simp: filter_empty_conv)
    with Cons.prems Nil Cons.IH show ?thesis by auto
  next
    case (Cons a as)
    then have "a \<in> set ?ok" by simp
    with Cons Cons.prems show ?thesis by auto
  qed
qed simp

lemma dec_pos_result:
  assumes "0 < q" and "double_rat q"
  obtains m n where "dec_pos q = of_int m * 10 powi (rlog10 q + 1 - int n)" "1 \<le> n" "n \<le> 17"
    "rnd (dec_pos q) = Fin q"
    "\<And>n0 m0. 1 \<le> n0 \<Longrightarrow> n0 \<le> 17 \<Longrightarrow> m0 \<in> set (repr_candidates q n0) \<Longrightarrow>
       rnd (of_int m0 * 10 powi (rlog10 q + 1 - int n0)) = Fin q \<Longrightarrow> n \<le> n0"
    "m \<in> set (repr_candidates q n)"
proof -
  obtain m n where mn: "repr_search q [1..<18] = (m, n)" by (cases "repr_search q [1..<18]")
  obtain m0 where m0: "m0 \<in> set (repr_candidates q 17)" "rnd (of_int m0 * 10 powi (rlog10 q + 1 - 17)) = Fin q"
    using repr_search_17 [OF assms] by blast
  note r = repr_search_result [OF _ _ _ _ mn]
  have r17: "n \<in> set [1..<18]" "m \<in> set (repr_candidates q n)"
    "rnd (of_int m * 10 powi (rlog10 q + 1 - int n)) = Fin q"
    using r [of 17 m0] m0 by auto
  show ?thesis
  proof (rule that)
    show "dec_pos q = of_int m * 10 powi (rlog10 q + 1 - int n)" by (simp only: dec_pos_def mn prod.case)
    then show "rnd (dec_pos q) = Fin q" using r17(3) by simp
  next
    fix n0 m0 assume "1 \<le> n0" "n0 \<le> 17" "m0 \<in> set (repr_candidates q n0)"
      "rnd (of_int m0 * 10 powi (rlog10 q + 1 - int n0)) = Fin q"
    then show "n \<le> n0" using r [of n0 m0] by auto
  qed (use r17 in auto)
qed

lemma rnd_uminus: "rnd (- q) = fneg (rnd q)"
  by (auto simp: rnd_def rnd_val_def Let_def) (simp_all add: rnd_mag_def)

lemma double_rat_uminus: "double_rat (- q) = double_rat q"
proof -
  have "rnd (- q) = Fin (- q) \<longleftrightarrow> rnd q = Fin q"
    unfolding rnd_uminus by (cases "rnd q") auto
  then show ?thesis by (simp add: double_rat_def)
qed

lemma dec_pos_roundtrip: "0 < q \<Longrightarrow> double_rat q \<Longrightarrow> rnd (dec_pos q) = Fin q"
  by (rule dec_pos_result)

text \<open>\<open>float(Decimal(str(x)))\<close> is \<open>x\<close>.\<close>

lemma dec_of_float_roundtrip:
  assumes "double_rat q"
  shows "rnd (dec_of_float q) = Fin q"
proof -
  consider "q = 0" | "0 < q" | "q < 0" by linarith
  then show ?thesis
  proof cases
    case 2
    then show ?thesis using dec_pos_roundtrip assms by (simp add: dec_of_float_def)
  next
    case 3
    then have "rnd (dec_pos (- q)) = Fin (- q)"
      using assms by (intro dec_pos_roundtrip) (simp_all add: double_rat_uminus)
    then show ?thesis using 3 by (simp add: dec_of_float_def rnd_uminus)
  qed (simp add: dec_of_float_def)
qed

lemma dec_of_float_mono:
  assumes "double_rat p" and "double_rat q" and "p \<le> q"
  shows "dec_of_float p \<le> dec_of_float q"
proof (rule ccontr)
  assume "\<not> ?thesis"
  then have lt: "dec_of_float q < dec_of_float p" by simp
  then have "fle (rnd (dec_of_float q)) (rnd (dec_of_float p))" by (intro rnd_mono) simp
  then have "q \<le> p" by (simp add: dec_of_float_roundtrip assms)
  with assms(3) lt show False by simp
qed

subsection \<open>Quantizing twice\<close>

lemma rne_half: "\<bar>of_int (rne z) - z\<bar> \<le> 1 / 2"
proof -
  have "of_int \<lfloor>z\<rfloor> \<le> z" "z < of_int \<lfloor>z\<rfloor> + 1" by linarith+
  then show ?thesis by (auto simp: rne_def Let_def abs_le_iff)
qed

lemma rnd_mag_rel:
  assumes "pw (- 1022) \<le> x"
  shows "\<bar>rnd_mag x - x\<bar> \<le> x * pw (- 53)"
proof -
  have x: "0 < x" using assms pw_pos [of "- 1022"] by linarith
  have "pw (- 1022) < pw (rlog2 x + 1)" using assms rlog2_bounds [OF x] by linarith
  then have "- 1022 < rlog2 x + 1" by (simp only: pw_less_iff)
  then have e: "ulp_exp x = rlog2 x - 52" by (simp add: ulp_exp_def)
  let ?u = "pw (rlog2 x - 52)"
  have "\<bar>rnd_mag x - x\<bar> = \<bar>of_int (rne (x / ?u)) - x / ?u\<bar> * ?u"
  proof -
    have "rnd_mag x - x = (of_int (rne (x / ?u)) - x / ?u) * ?u"
      using x e by (simp add: rnd_mag_def left_diff_distrib)
    then show ?thesis by (simp add: abs_mult)
  qed
  also have "\<dots> \<le> 1 / 2 * ?u"
    by (intro mult_right_mono rne_half) simp
  also have "\<dots> = pw (rlog2 x) * pw (- 53)"
    by (simp add: power_int_diff power_int_minus)
  also have "\<dots> \<le> x * pw (- 53)"
    using rlog2_bounds [OF x] by (intro mult_right_mono) simp_all
  finally show ?thesis .
qed

lemma rnd_Fin_mag: "0 \<le> x \<Longrightarrow> rnd x = Fin y \<Longrightarrow> rnd_mag x = y"
  by (auto simp: rnd_def rnd_val_def Let_def split: if_splits)

lemma rnd_between:
  assumes "rnd a = Fin y" and "a \<le> b \<and> b \<le> y \<or> y \<le> b \<and> b \<le> a"
  shows "rnd b = Fin y"
proof -
  have y: "rnd y = Fin y" using rnd_Fin_double [OF assms(1)] by (simp add: double_rat_def)
  have "fle (rnd b) (Fin y) \<and> fle (Fin y) (rnd b)"
    using assms(2) rnd_mono [of a b] rnd_mono [of b y] rnd_mono [of y b] rnd_mono [of b a]
    unfolding assms(1) y by blast
  then show ?thesis by (cases "rnd b") auto
qed

text \<open>A decimal with \<open>k\<close> places, read back from its double, still has at most \<open>k\<close> places.\<close>

lemma dec_pos_multiple_small:
  assumes y: "0 < y" "rnd (of_int c / 10 ^ k) = Fin y" and c: "0 < c"
    and k: "pw (- 1022) \<le> 1 / 10 ^ k" and small: "rlog10 y + 1 + int k \<le> 0"
  shows "dec_pos y = 1 / 10 ^ k"
proof -
  let ?x = "1 / 10 ^ k :: rat"
  have ten: "(10 :: rat) powi (- int k) = ?x" by (simp add: power_int_minus field_simps)
  have "y < 10 powi (rlog10 y + 1)" using rlog10_bounds [OF y(1)] by simp
  also have "\<dots> \<le> 10 powi (- int k)" using small by (intro power_int_increasing) simp_all
  finally have lt: "y < ?x" by (simp only: ten)
  have "?x \<le> of_int c / 10 ^ k"
    using c by (intro divide_right_mono) simp_all
  then have x: "rnd ?x = Fin y"
    using rnd_between [OF y(2)] lt by simp
  then have "rnd_mag ?x = y"
    by (intro rnd_Fin_mag) simp_all
  with rnd_mag_rel [OF k] have "\<bar>y - ?x\<bar> \<le> ?x * pw (- 53)" by simp
  also have "\<dots> < ?x * (1 / 20)"
    by (intro mult_strict_left_mono) (simp_all add: power_int_minus)
  finally have near: "\<bar>y - ?x\<bar> < ?x * (1 / 20)" .
  have "\<bar>b - a\<bar> < a * (1 / 20) \<Longrightarrow> a * (19 / 20) < b" for a b :: rat by linarith
  from this [OF near] have close: "?x * (19 / 20) < y" .
  have e: "rlog10 y = - int k - 1"
  proof -
    have "10 powi (- int k - 1) = ?x / 10" using ten by (simp add: power_int_diff)
    also have "\<dots> \<le> ?x * (19 / 20)" by (simp add: field_simps)
    also have "\<dots> < y" by (rule close)
    also have "\<dots> < 10 powi (rlog10 y + 1)" using rlog10_bounds [OF y(1)] by simp
    finally show ?thesis using small by (simp add: ten_powi_less_iff)
  qed
  have s: "10 powi (int 1 - 1 - rlog10 y) = (10 :: rat) ^ Suc k"
    unfolding e by (simp add: power_int_add)
  have ys: "19 / 2 < y * 10 ^ Suc k" "y * 10 ^ Suc k < 10"
    using close lt by (simp_all add: field_simps)
  then have fl: "\<lfloor>y * 10 ^ Suc k\<rfloor> = 9" by (auto simp: floor_eq_iff)
  have "repr_candidates y 1 = [10, 9]"
    using ys unfolding repr_candidates_def s Let_def fl by (simp add: sort_key_def abs_if)
  moreover have ten_x: "of_int 10 * 10 powi (rlog10 y + 1 - int 1) = ?x"
    unfolding e using ten by (simp add: power_int_diff)
  ultimately have "repr_search y (1 # [2..<18]) = (10, 1)"
    using x by (simp only: repr_search.simps filter.simps ten_x list.case if_True simp_thms)
  moreover have "[1..<18] = 1 # [2..<18]" by (simp add: upt_conv_Cons)
  ultimately show ?thesis
    unfolding dec_pos_def using ten_x by (simp only: prod.case)
qed

lemma dec_pos_multiple:
  assumes y: "0 < y" "rnd (of_int c / 10 ^ k) = Fin y" and c: "0 < c" and k: "pw (- 1022) \<le> 1 / 10 ^ k"
  shows "\<exists>c'. dec_pos y = of_int c' / 10 ^ k"
proof (cases "rlog10 y + 1 + int k \<le> 0")
  case True
  then show ?thesis
    using dec_pos_multiple_small [OF assms] by (intro exI [of _ 1]) simp
next
  case False
  define n0 where "n0 = nat (rlog10 y + 1 + int k)"
  have n0: "int n0 = rlog10 y + 1 + int k" "1 \<le> n0" using False by (simp_all add: n0_def)
  obtain m n where d: "dec_pos y = of_int m * 10 powi (rlog10 y + 1 - int n)" "n \<le> 17"
    and min: "\<And>n0 m0. 1 \<le> n0 \<Longrightarrow> n0 \<le> 17 \<Longrightarrow> m0 \<in> set (repr_candidates y n0) \<Longrightarrow>
       rnd (of_int m0 * 10 powi (rlog10 y + 1 - int n0)) = Fin y \<Longrightarrow> n \<le> n0"
    using dec_pos_result [OF y(1) rnd_Fin_double [OF y(2)]] by metis
  have "n \<le> n0"
  proof (cases "n0 \<le> 17")
    case True
    let ?lo = "\<lfloor>y * 10 ^ k\<rfloor>"
    have s: "10 powi (int n0 - 1 - rlog10 y) = (10 :: rat) ^ k" unfolding n0(1) by simp
    have cand: "set (repr_candidates y n0) = {?lo, ?lo + 1}"
      unfolding repr_candidates_def s Let_def by (simp only: set_sort list.set)
    have val: "of_int m0 * 10 powi (rlog10 y + 1 - int n0) = (of_int m0 / 10 ^ k :: rat)" for m0
      unfolding n0(1) by (simp add: power_int_minus field_simps)
    have lo: "of_int ?lo / 10 ^ k \<le> y" "y \<le> of_int (?lo + 1) / 10 ^ k"
      by (simp_all add: field_simps) linarith
    have step: "(of_int a / 10 ^ k :: rat) \<le> of_int b / 10 ^ k" if "a \<le> b" for a b
      using that by (intro divide_right_mono) simp_all
    show ?thesis
    proof (cases "c \<le> ?lo")
      case le: True
      then have "rnd (of_int ?lo / 10 ^ k) = Fin y"
        using rnd_between [OF y(2)] lo(1) step by blast
      then show ?thesis using min [OF n0(2) True, of ?lo] cand val by simp
    next
      case False
      then have "?lo + 1 \<le> c" by simp
      then have "rnd (of_int (?lo + 1) / 10 ^ k) = Fin y"
        using rnd_between [OF y(2)] lo(2) step by blast
      then show ?thesis using min [OF n0(2) True, of "?lo + 1"] cand val [of "?lo + 1"] by simp
    qed
  qed (use d(2) in simp)
  then obtain j where "rlog10 y + 1 - int n = int j - int k"
    using n0(1) by (metis add_diff_cancel_right' diff_diff_eq2 diff_add_cancel nonneg_int_cases
        of_nat_le_iff diff_ge_0_iff_ge add.commute)
  then have "dec_pos y = of_int (m * 10 ^ j) / 10 ^ k"
    using d(1) by (simp add: power_int_diff)
  then show ?thesis by blast
qed

lemma dec_of_float_multiple:
  assumes "rnd (of_int c / 10 ^ k) = Fin y" and "pw (- 1022) \<le> 1 / 10 ^ k"
  shows "\<exists>c'. dec_of_float y = of_int c' / 10 ^ k"
proof -
  have sgn: "(0 < y \<longrightarrow> 0 < c) \<and> (y < 0 \<longrightarrow> c < 0)"
  proof -
    have "0 \<le> c \<Longrightarrow> fle (Fin 0) (Fin y)" "c \<le> 0 \<Longrightarrow> fle (Fin y) (Fin 0)"
      using rnd_mono [of 0 "of_int c / 10 ^ k"] rnd_mono [of "of_int c / 10 ^ k" 0] assms(1)
      by (simp_all add: zero_le_divide_iff divide_le_0_iff)
    then show ?thesis by force
  qed
  consider "y = 0" | "0 < y" | "y < 0" by linarith
  then show ?thesis
  proof cases
    case 1
    then show ?thesis by (intro exI [of _ 0]) (simp add: dec_of_float_def)
  next
    case 2
    then show ?thesis
      using dec_pos_multiple [OF _ assms(1) _ assms(2)] sgn by (simp add: dec_of_float_def)
  next
    case 3
    have "rnd (of_int (- c) / 10 ^ k) = Fin (- y)"
      using assms(1) rnd_uminus [of "of_int c / 10 ^ k"] by simp
    then obtain c' where "dec_pos (- y) = of_int c' / 10 ^ k"
      using dec_pos_multiple [of "- y" "- c" k] 3 sgn assms(2) by auto
    then show ?thesis using 3 by (intro exI [of _ "- c'"]) (simp add: dec_of_float_def)
  qed
qed

subsection \<open>Normal amounts\<close>

text \<open>\<open>float(Decimal(str(x)).quantize(Decimal("1e-k"), rounding=ROUND_HALF_EVEN))\<close>\<close>

definition dec_norm :: "nat \<Rightarrow> rat \<Rightarrow> pyfloat py" where
  "dec_norm k q = bind_py (dec_quantize rne k (dec_of_float q)) (\<lambda>d. Inr (rnd d))"

definition norm_coeff :: "nat \<Rightarrow> rat \<Rightarrow> int" where
  "norm_coeff k q = rne (dec_of_float q * 10 ^ k)"

lemma dec_norm_Inr_iff:
  "dec_norm k q = Inr v \<longleftrightarrow> \<bar>norm_coeff k q\<bar> < 10 ^ 28 \<and> v = rnd (of_int (norm_coeff k q) / 10 ^ k)"
  by (auto simp: dec_norm_def dec_quantize_def norm_coeff_def Let_def bind_py_Inr_iff)

lemma norm_coeff_zero [simp]: "norm_coeff k 0 = 0"
  by (simp add: norm_coeff_def dec_of_float_def rne_def)

lemma dec_norm_zero [simp]: "dec_norm k 0 = Inr (Fin 0)"
  by (simp add: dec_norm_Inr_iff)

lemma norm_coeff_mono:
  "double_rat p \<Longrightarrow> double_rat q \<Longrightarrow> p \<le> q \<Longrightarrow> norm_coeff k p \<le> norm_coeff k q"
  unfolding norm_coeff_def by (intro rne_mono mult_right_mono dec_of_float_mono) simp_all

lemma dec_norm_mono:
  assumes "double_rat p" and "double_rat q" and "p \<le> q" and "dec_norm k p = Inr a" and "dec_norm k q = Inr b"
  shows "fle a b"
proof -
  have "of_int (norm_coeff k p) / 10 ^ k \<le> (of_int (norm_coeff k q) / 10 ^ k :: rat)"
    using norm_coeff_mono [OF assms(1-3)] by (intro divide_right_mono) simp_all
  then show ?thesis using assms(4,5) rnd_mono by (simp add: dec_norm_Inr_iff)
qed

text \<open>A quantized amount is a finite double.\<close>

lemma rnd_small_Fin:
  assumes "\<bar>x\<bar> \<le> pw 100"
  shows "\<exists>y. rnd x = Fin y"
proof -
  have "rnd (pw 100) = Fin (pw 100)" "rnd (- pw 100) = Fin (- pw 100)"
    using rnd_mag_exact [of 1 100] by (simp_all add: rnd_def rnd_val_def Let_def)
  then have "fle (rnd x) (Fin (pw 100))" "fle (Fin (- pw 100)) (rnd x)"
    using assms rnd_mono [of x "pw 100"] rnd_mono [of "- pw 100" x] by (auto simp: abs_le_iff)
  then show ?thesis by (cases "rnd x") auto
qed

lemma norm_coeff_small: "\<bar>c\<bar> < 10 ^ 28 \<Longrightarrow> \<bar>of_int c / 10 ^ k\<bar> \<le> pw 100"
proof -
  assume c: "\<bar>c\<bar> < 10 ^ 28"
  have "\<bar>of_int c / 10 ^ k :: rat\<bar> \<le> \<bar>of_int c\<bar> / 1"
    unfolding abs_divide by (intro divide_left_mono) simp_all
  also have "\<dots> = of_int \<bar>c\<bar>" by simp
  also have "\<dots> \<le> of_int (10 ^ 28)" using c by (simp only: of_int_le_iff less_imp_le)
  also have "\<dots> \<le> pw 100" by simp
  finally show ?thesis .
qed

lemma dec_norm_Fin:
  assumes "dec_norm k q = Inr v"
  obtains y where "v = Fin y" "double_rat y"
  using assms rnd_small_Fin [OF norm_coeff_small [of "norm_coeff k q" k]] rnd_Fin_double
  by (auto simp: dec_norm_Inr_iff)

text \<open>Amounts below a tenth of the limit are not changed by quantizing them again.\<close>

lemma dec_norm_idem:
  assumes "dec_norm k q = Inr (Fin y)" and "pw (- 1022) \<le> 1 / 10 ^ k" and "\<bar>y\<bar> * 10 ^ k < 10 ^ 27"
  shows "dec_norm k y = Inr (Fin y)"
proof -
  have v: "rnd (of_int (norm_coeff k q) / 10 ^ k) = Fin y" using assms(1) by (simp add: dec_norm_Inr_iff)
  then have y: "double_rat y" by (rule rnd_Fin_double)
  obtain c where c: "dec_of_float y = of_int c / 10 ^ k"
    using dec_of_float_multiple [OF v assms(2)] by blast
  have nc: "norm_coeff k y = c" by (simp add: norm_coeff_def c)
  have rc: "rnd (of_int c / 10 ^ k) = Fin y" using dec_of_float_roundtrip [OF y] c by simp
  have "\<bar>c\<bar> < 10 ^ 28"
  proof (rule ccontr)
    assume "\<not> \<bar>c\<bar> < 10 ^ 28"
    then have big: "10 ^ 28 \<le> \<bar>of_int c :: rat\<bar>"
      by (metis not_less of_int_abs of_int_le_iff of_int_numeral of_int_power)
    let ?x = "\<bar>of_int c :: rat\<bar> / 10 ^ k"
    have rx: "rnd ?x = Fin \<bar>y\<bar>"
    proof (cases "0 \<le> c")
      case True
      with rc rnd_mono [of 0 "of_int c / 10 ^ k"] have "0 \<le> y" by simp
      with True rc show ?thesis by simp
    next
      case False
      with rc rnd_mono [of "of_int c / 10 ^ k" 0] have "y \<le> 0" by (simp add: divide_le_0_iff)
      with False rc rnd_uminus [of "of_int c / 10 ^ k"] show ?thesis by simp
    qed
    have "1 / 10 ^ k \<le> ?x" using big by (intro divide_right_mono) simp_all
    then have "pw (- 1022) \<le> ?x" using assms(2) by linarith
    then have "\<bar>rnd_mag ?x - ?x\<bar> \<le> ?x * pw (- 53)" by (rule rnd_mag_rel)
    moreover have "rnd_mag ?x = \<bar>y\<bar>"
      by (rule rnd_Fin_mag [OF _ rx]) simp
    moreover have "?x * pw (- 53) \<le> ?x * (1 / 2)"
      by (intro mult_left_mono) (simp_all add: power_int_minus)
    moreover have "\<bar>b - a\<bar> \<le> e \<Longrightarrow> e \<le> a * (1 / 2) \<Longrightarrow> a * (1 / 2) \<le> b" for a b e :: rat by linarith
    ultimately have "?x * (1 / 2) \<le> \<bar>y\<bar>" by metis
    then have "\<bar>of_int c\<bar> * (1 / 2) \<le> \<bar>y\<bar> * 10 ^ k" by (simp add: field_simps)
    also note assms(3)
    finally have "\<bar>of_int c :: rat\<bar> < 2 * 10 ^ 27" by simp
    with big show False by simp
  qed
  then show ?thesis using rc by (simp add: dec_norm_Inr_iff nc)
qed

text \<open>Whole numbers below \<open>2^53\<close> are normal amounts.\<close>

lemma dec_of_float_of_int:
  assumes "\<bar>n\<bar> < 2 ^ 53"
  shows "dec_of_float (of_int n) = of_int n"
proof -
  have n: "rnd (of_int n) = Fin (of_int n)" by (rule rnd_of_int [OF assms])
  obtain c where c: "dec_of_float (of_int n) = of_int c"
    using dec_of_float_multiple [of n 0 "of_int n"] n pw_mono [of "- 1022" 0] by auto
  have rc: "rnd (of_int c) = Fin (of_int n)"
    using dec_of_float_roundtrip [OF rnd_Fin_double [OF n]] c by simp
  have "rnd (of_int (2 ^ 53)) = Fin (of_int (2 ^ 53))" "rnd (- of_int (2 ^ 53)) = Fin (- of_int (2 ^ 53))"
    using rnd_mag_exact [of 1 53] by (simp_all add: rnd_def rnd_val_def Let_def)
  then have "2 ^ 53 \<le> c \<Longrightarrow> (of_int (2 ^ 53) :: rat) \<le> of_int n"
    and "c \<le> - (2 ^ 53) \<Longrightarrow> (of_int n :: rat) \<le> of_int (- (2 ^ 53))"
    using rnd_mono [of "of_int (2 ^ 53)" "of_int c"] rnd_mono [of "of_int c" "of_int (- (2 ^ 53))"] rc
    by (simp_all only: of_int_le_iff fle.simps of_int_minus)
  then have "\<bar>c\<bar> < 2 ^ 53"
    using assms by (simp only: of_int_le_iff) linarith
  then have "c = n" using rnd_of_int [of c] rc by simp
  then show ?thesis using c by simp
qed

lemma dec_norm_of_int:
  assumes "\<bar>n\<bar> < 2 ^ 53" and "k \<le> 12"
  shows "dec_norm k (of_int n) = Inr (Fin (of_int n))"
proof -
  have nc: "norm_coeff k (of_int n) = n * 10 ^ k"
    using rne_of_int [of "n * 10 ^ k"] by (simp add: norm_coeff_def dec_of_float_of_int [OF assms(1)])
  have "\<bar>n * 10 ^ k\<bar> = \<bar>n\<bar> * 10 ^ k" by (simp add: abs_mult)
  also have "\<dots> \<le> 2 ^ 53 * 10 ^ 12"
    using assms by (intro mult_mono power_increasing) simp_all
  also have "\<dots> < 10 ^ 28" by simp
  finally show ?thesis
    using rnd_of_int [OF assms(1)] by (simp add: dec_norm_Inr_iff nc)
qed

text \<open>The finite values of a \<open>float\<close>.\<close>

definition is_double :: "pyfloat \<Rightarrow> bool" where
  "is_double v \<longleftrightarrow> (\<exists>x. v = Fin x \<and> double_rat x)"

lemma is_double_simps [simp]: "is_double (Fin x) \<longleftrightarrow> double_rat x"
  by (simp add: is_double_def)

end
