(* ===== verification/Portfolio.thy ===== *)
theory Portfolio
  imports Py_Decimal
begin

text \<open>
  The portfolio accounting of \<open>src/src/operation/db_core.py\<close>: amounts normalized through decimals
  (cash to 8 places, assets to 12), the effect of a fill on the four balances, its replay
  over a list of fills, and the portfolio table with its single row. \<open>book_fill\<close> is the part
  of \<open>_apply_fill_and_trade_core\<close> in \<open>src/src/operation/execution.py\<close> that books a fill in that table.
  The configured start cash is the parameter \<open>start_cash\<close>.
\<close>

subsection \<open>Amounts\<close>

definition as_finite_decimal :: "string \<Rightarrow> pyfloat \<Rightarrow> rat py" where
  "as_finite_decimal field v =
     (case v of Fin q \<Rightarrow> Inr (dec_of_float q)
      | _ \<Rightarrow> Inl (RuntimeErr (''invalid non-finite accounting value for '' @ field @ '': '' @ py_repr v)))"

definition normalize_cash_amount :: "pyfloat \<Rightarrow> pyfloat py" where
  "normalize_cash_amount v =
     bind_py (as_finite_decimal ''cash'' v) (\<lambda>d. bind_py (dec_quantize rne 8 d) (\<lambda>c. Inr (rnd c)))"

definition normalize_asset_qty :: "pyfloat \<Rightarrow> pyfloat py" where
  "normalize_asset_qty v =
     bind_py (as_finite_decimal ''asset'' v) (\<lambda>d. bind_py (dec_quantize rne 12 d) (\<lambda>c. Inr (rnd c)))"

text \<open>The four balances: cash available and locked, assets available and locked.\<close>

record balances =
  bl_cash_available :: pyfloat
  bl_cash_locked :: pyfloat
  bl_asset_available :: pyfloat
  bl_asset_locked :: pyfloat

definition normalize_portfolio_breakdown :: "balances \<Rightarrow> balances py" where
  "normalize_portfolio_breakdown b =
     bind_py (normalize_cash_amount (bl_cash_available b)) (\<lambda>ca.
     bind_py (normalize_cash_amount (bl_cash_locked b)) (\<lambda>cl.
     bind_py (normalize_asset_qty (bl_asset_available b)) (\<lambda>aa.
     bind_py (normalize_asset_qty (bl_asset_locked b)) (\<lambda>al.
       Inr \<lparr>bl_cash_available = ca, bl_cash_locked = cl, bl_asset_available = aa, bl_asset_locked = al\<rparr>))))"

definition portfolio_cash_total :: "pyfloat \<Rightarrow> pyfloat \<Rightarrow> pyfloat py" where
  "portfolio_cash_total cash_available cash_locked =
     bind_py (normalize_cash_amount cash_available) (\<lambda>a.
     bind_py (normalize_cash_amount cash_locked) (\<lambda>l. normalize_cash_amount (fadd a l)))"

definition portfolio_asset_total :: "pyfloat \<Rightarrow> pyfloat \<Rightarrow> pyfloat py" where
  "portfolio_asset_total asset_available asset_locked =
     bind_py (normalize_asset_qty asset_available) (\<lambda>a.
     bind_py (normalize_asset_qty asset_locked) (\<lambda>l. normalize_asset_qty (fadd a l)))"

subsection \<open>Consuming a balance\<close>

definition normalize_tiny_negative :: "pyfloat \<Rightarrow> pyfloat \<Rightarrow> pyfloat" where
  "normalize_tiny_negative tolerance value =
     (if flt (fneg tolerance) value \<and> flt value (Fin 0) then Fin 0 else value)"

text \<open>\<open>math.ulp\<close> of a finite double that is not below 1.\<close>

definition float_ulp :: "pyfloat \<Rightarrow> pyfloat" where
  "float_ulp x = (case x of Fin q \<Rightarrow> Fin (pw (ulp_exp q)) | PInf \<Rightarrow> PInf | _ \<Rightarrow> x)"

definition float_tolerance :: "pyfloat list \<Rightarrow> pyfloat" where
  "float_tolerance vs =
     (let finite_values = map fabs (filter isfinite vs);
          scale = (case finite_values of [] \<Rightarrow> Fin 0 | x # xs \<Rightarrow> foldl fmax x xs)
      in fmax (lit 1 (-12)) (fmul (float_ulp (fmax scale (Fin 1))) (Fin 4)))"

definition consume_locked_then_available ::
  "string \<Rightarrow> (pyfloat \<Rightarrow> pyfloat py) \<Rightarrow> pyfloat \<Rightarrow> pyfloat \<Rightarrow> pyfloat \<Rightarrow> (pyfloat \<times> pyfloat) py" where
  "consume_locked_then_available field normalize_amount locked available amount =
     bind_py (normalize_amount amount) (\<lambda>remaining.
     bind_py (normalize_amount locked) (\<lambda>locked0.
     bind_py (normalize_amount available) (\<lambda>available0.
       let tolerance = float_tolerance [locked0, available0, remaining, locked, available];
           locked1 = normalize_tiny_negative tolerance locked0;
           available1 = normalize_tiny_negative tolerance available0;
           from_locked = fmin locked1 remaining
       in bind_py (normalize_amount (fsub locked1 from_locked)) (\<lambda>locked2.
          bind_py (normalize_amount (fsub remaining from_locked)) (\<lambda>rest.
          bind_py (if flt (lit 1 (-12)) rest then normalize_amount (fsub available1 rest) else Inr available1) (\<lambda>available2.
            let locked3 = normalize_tiny_negative tolerance locked2;
                available3 = normalize_tiny_negative tolerance available2
            in if flt locked3 (fneg tolerance) \<or> flt available3 (fneg tolerance)
               then Inl (RuntimeErr (''negative '' @ field @ '' after fill: available='' @ py_repr available3 @
                 '', locked='' @ py_repr locked3 @ '', needed='' @ py_repr amount @
                 '', tolerance='' @ py_repr tolerance))
               else Inr (fmax locked3 (Fin 0), fmax available3 (Fin 0))))))))"

subsection \<open>The effect of a fill\<close>

record fill_snapshot =
  fs_balances :: balances
  fs_cash_after :: pyfloat
  fs_asset_after :: pyfloat

definition buy_fill :: "balances \<Rightarrow> pyfloat \<Rightarrow> pyfloat \<Rightarrow> pyfloat \<Rightarrow> balances py" where
  "buy_fill b price qty fee =
     bind_py (normalize_cash_amount (fadd (fmul price qty) fee)) (\<lambda>spend.
     bind_py (consume_locked_then_available ''cash'' normalize_cash_amount
                (bl_cash_locked b) (bl_cash_available b) spend) (\<lambda>(cash_locked, cash_available).
     bind_py (normalize_asset_qty (fadd (bl_asset_available b) qty)) (\<lambda>asset_available.
       Inr (b\<lparr>bl_cash_available := cash_available, bl_cash_locked := cash_locked,
              bl_asset_available := asset_available\<rparr>))))"

definition sell_fill :: "balances \<Rightarrow> pyfloat \<Rightarrow> pyfloat \<Rightarrow> pyfloat \<Rightarrow> balances py" where
  "sell_fill b price qty fee =
     bind_py (normalize_cash_amount (fsub (fadd (bl_cash_available b) (fmul price qty)) fee)) (\<lambda>cash_available.
     bind_py (consume_locked_then_available ''asset'' normalize_asset_qty
                (bl_asset_locked b) (bl_asset_available b) qty) (\<lambda>(asset_locked, asset_available).
       Inr (b\<lparr>bl_cash_available := cash_available, bl_asset_available := asset_available,
              bl_asset_locked := asset_locked\<rparr>)))"

definition calculate_fill_portfolio_snapshot ::
  "balances \<Rightarrow> string \<Rightarrow> pyfloat \<Rightarrow> pyfloat \<Rightarrow> pyfloat option \<Rightarrow> fill_snapshot py" where
  "calculate_fill_portfolio_snapshot b0 side price0 qty0 fee0 =
     bind_py (normalize_portfolio_breakdown b0) (\<lambda>b.
     bind_py (normalize_cash_amount price0) (\<lambda>price.
     bind_py (normalize_asset_qty qty0) (\<lambda>qty.
     bind_py (normalize_cash_amount (case fee0 of None \<Rightarrow> Fin 0 | Some f \<Rightarrow> f)) (\<lambda>fee.
     bind_py (if side = ''BUY'' then buy_fill b price qty fee
              else if side = ''SELL'' then sell_fill b price qty fee
              else Inl (RuntimeErr (''invalid fill side: '' @ side))) (\<lambda>b'.
     bind_py (normalize_cash_amount (fadd (bl_cash_available b') (bl_cash_locked b'))) (\<lambda>cash_after.
     bind_py (normalize_asset_qty (fadd (bl_asset_available b') (bl_asset_locked b'))) (\<lambda>asset_after.
       Inr \<lparr>fs_balances = b', fs_cash_after = cash_after, fs_asset_after = asset_after\<rparr>)))))))"

type_synonym fill_input = "string \<times> pyfloat \<times> pyfloat \<times> pyfloat option"

fun replay_fills :: "fill_snapshot \<Rightarrow> fill_input list \<Rightarrow> fill_snapshot py" where
  "replay_fills s [] = Inr s"
| "replay_fills s ((side, price, qty, fee) # rows) =
     bind_py (calculate_fill_portfolio_snapshot (fs_balances s) side price qty fee) (\<lambda>s'. replay_fills s' rows)"

definition replay_fill_portfolio_snapshot :: "balances \<Rightarrow> fill_input list \<Rightarrow> fill_snapshot py" where
  "replay_fill_portfolio_snapshot b0 rows =
     bind_py (normalize_portfolio_breakdown b0) (\<lambda>b.
     bind_py (portfolio_cash_total (bl_cash_available b) (bl_cash_locked b)) (\<lambda>cash_after.
     bind_py (portfolio_asset_total (bl_asset_available b) (bl_asset_locked b)) (\<lambda>asset_after.
       replay_fills \<lparr>fs_balances = b, fs_cash_after = cash_after, fs_asset_after = asset_after\<rparr> rows)))"

subsection \<open>The portfolio table\<close>

text \<open>The only row of the table, if it has been inserted.\<close>

record portfolio_row =
  pf_probe_run_id :: "string option"
  pf_cash_krw :: pyfloat
  pf_asset_qty :: pyfloat
  pf_balances :: balances

type_synonym portfolio_table = "portfolio_row option"

text \<open>SQLite stores a NaN as \<open>NULL\<close>, which the columns do not admit.\<close>

definition init_portfolio :: "pyfloat \<Rightarrow> portfolio_table \<Rightarrow> portfolio_row py" where
  "init_portfolio start_cash t =
     (case t of
        Some r \<Rightarrow> Inr r
      | None \<Rightarrow>
          if start_cash = NaN then Inl IntegrityError
          else Inr \<lparr>pf_probe_run_id = None, pf_cash_krw = start_cash, pf_asset_qty = Fin 0,
                 pf_balances = \<lparr>bl_cash_available = start_cash, bl_cash_locked = Fin 0,
                   bl_asset_available = Fin 0, bl_asset_locked = Fin 0\<rparr>\<rparr>)"

definition get_portfolio_breakdown :: "pyfloat \<Rightarrow> portfolio_table \<Rightarrow> (portfolio_row \<times> balances) py" where
  "get_portfolio_breakdown start_cash t =
     bind_py (init_portfolio start_cash t) (\<lambda>r.
     bind_py (normalize_portfolio_breakdown (pf_balances r)) (\<lambda>b. Inr (r, b)))"

definition get_portfolio :: "pyfloat \<Rightarrow> portfolio_table \<Rightarrow> (pyfloat \<times> pyfloat) py" where
  "get_portfolio start_cash t =
     bind_py (get_portfolio_breakdown start_cash t) (\<lambda>(_, b).
     bind_py (portfolio_cash_total (bl_cash_available b) (bl_cash_locked b)) (\<lambda>cash.
     bind_py (portfolio_asset_total (bl_asset_available b) (bl_asset_locked b)) (\<lambda>asset.
       Inr (cash, asset))))"

definition set_portfolio_breakdown ::
  "pyfloat \<Rightarrow> balances \<Rightarrow> string option \<Rightarrow> portfolio_table \<Rightarrow> portfolio_row py" where
  "set_portfolio_breakdown start_cash b0 probe_run_id t =
     bind_py (init_portfolio start_cash t) (\<lambda>_.
     bind_py (normalize_portfolio_breakdown b0) (\<lambda>b.
     bind_py (portfolio_cash_total (bl_cash_available b) (bl_cash_locked b)) (\<lambda>cash_total.
     bind_py (portfolio_asset_total (bl_asset_available b) (bl_asset_locked b)) (\<lambda>asset_total.
       Inr \<lparr>pf_probe_run_id = strip_or_none probe_run_id, pf_cash_krw = cash_total,
            pf_asset_qty = asset_total, pf_balances = b\<rparr>))))"

definition set_portfolio ::
  "pyfloat \<Rightarrow> pyfloat \<Rightarrow> pyfloat \<Rightarrow> pyfloat \<Rightarrow> pyfloat \<Rightarrow> string option \<Rightarrow> portfolio_table \<Rightarrow> portfolio_row py" where
  "set_portfolio start_cash cash_krw asset_qty cash_locked asset_locked probe_run_id =
     set_portfolio_breakdown start_cash
       \<lparr>bl_cash_available = cash_krw, bl_cash_locked = cash_locked,
        bl_asset_available = asset_qty, bl_asset_locked = asset_locked\<rparr> probe_run_id"

text \<open>
  Booking a fill: read the balances, compute the effect of the fill, write the balances, none
  of them below zero. The snapshot is what the trade row records.
\<close>

definition clamp_balances :: "balances \<Rightarrow> balances" where
  "clamp_balances b =
     \<lparr>bl_cash_available = fmax (bl_cash_available b) (Fin 0), bl_cash_locked = fmax (bl_cash_locked b) (Fin 0),
      bl_asset_available = fmax (bl_asset_available b) (Fin 0), bl_asset_locked = fmax (bl_asset_locked b) (Fin 0)\<rparr>"

definition book_fill ::
  "pyfloat \<Rightarrow> string \<Rightarrow> pyfloat \<Rightarrow> pyfloat \<Rightarrow> pyfloat option \<Rightarrow> string option \<Rightarrow> portfolio_table \<Rightarrow>
   (portfolio_row \<times> fill_snapshot) py" where
  "book_fill start_cash side price qty fee probe_run_id t =
     bind_py (get_portfolio_breakdown start_cash t) (\<lambda>(r, b).
     bind_py (calculate_fill_portfolio_snapshot b side price qty fee) (\<lambda>s.
     bind_py (set_portfolio_breakdown start_cash (clamp_balances (fs_balances s)) probe_run_id (Some r)) (\<lambda>r'.
       Inr (r', s))))"

end
