(* ===== verification/Portfolio_Properties.thy ===== *)
theory Portfolio_Properties
  imports Portfolio
begin

text \<open>
  Correctness of the portfolio accounting. The locale \<open>normalizer\<close> states what the ledger
  relies on of an amount normalization (finite results, monotone, zero kept, idempotent below
  a cap); it is interpreted on the cash and on the asset normalization of the code, and the
  bounds on consuming a balance are proved once from it. On top: a booking keeps the row
  well-formed, what is written is what is read, a fill moves each balance one way only, and
  replaying fills in memory agrees with booking them in the table.
\<close>

subsection \<open>The interface of an amount normalization\<close>

locale normalizer =
  fixes norm :: "pyfloat \<Rightarrow> pyfloat py" and cap :: rat
  assumes norm_double: "norm v = Inr w \<Longrightarrow> \<exists>x y. v = Fin x \<and> w = Fin y \<and> double_rat y"
    and norm_mono: "double_rat p \<Longrightarrow> double_rat q \<Longrightarrow> p \<le> q \<Longrightarrow>
      norm (Fin p) = Inr (Fin a) \<Longrightarrow> norm (Fin q) = Inr (Fin b) \<Longrightarrow> a \<le> b"
    and norm_zero: "norm (Fin 0) = Inr (Fin 0)"
    and norm_idem: "norm v = Inr (Fin y) \<Longrightarrow> \<bar>y\<bar> < cap \<Longrightarrow> norm (Fin y) = Inr (Fin y)"
begin

lemma norm_nonneg: "double_rat p \<Longrightarrow> 0 \<le> p \<Longrightarrow> norm (Fin p) = Inr (Fin a) \<Longrightarrow> 0 \<le> a"
  using norm_mono [of 0 p 0 a] norm_zero by simp

lemma norm_le_fixed:
  "double_rat p \<Longrightarrow> double_rat q \<Longrightarrow> p \<le> q \<Longrightarrow> norm (Fin q) = Inr (Fin q) \<Longrightarrow>
   norm (Fin p) = Inr (Fin a) \<Longrightarrow> a \<le> q"
  using norm_mono [of p q a q] by simp

lemma norm_ge_fixed:
  "double_rat p \<Longrightarrow> double_rat q \<Longrightarrow> q \<le> p \<Longrightarrow> norm (Fin q) = Inr (Fin q) \<Longrightarrow>
   norm (Fin p) = Inr (Fin a) \<Longrightarrow> q \<le> a"
  using norm_mono [of q p q a] by simp

lemma guard_Inr_iff: "(if b then Inl e else Inr (x, y)) = Inr (x', y') \<longleftrightarrow> \<not> b \<and> x' = x \<and> y' = y"
  by auto

text \<open>Taking a non-negative amount from a normal balance leaves a normal amount that is not greater.\<close>

lemma norm_sub:
  assumes "double_rat q" and "norm (Fin q) = Inr (Fin q)" and "0 \<le> d"
    and "norm (rnd (q - d)) = Inr v"
  shows "\<exists>y. v = Fin y \<and> y \<le> q \<and> (d \<le> q \<longrightarrow> 0 \<le> y)"
proof -
  obtain x y where x: "rnd (q - d) = Fin x" and v: "v = Fin y"
    using norm_double [OF assms(4)] by blast
  have dx: "double_rat x" using rnd_Fin_double [OF x] .
  have "x \<le> q" using double.add_nonpos_le [of q "- d"] assms(1,3) x by simp
  then have "y \<le> q" using norm_le_fixed [of x q y] dx assms x v by simp
  moreover have "d \<le> q \<longrightarrow> 0 \<le> y"
    using rnd_mono [of 0 "q - d"] norm_nonneg [of x y] dx assms(4) x v by simp
  ultimately show ?thesis using v by blast
qed

text \<open>Adding a non-negative amount to a normal balance never lowers it.\<close>

lemma norm_add:
  assumes "double_rat q" and "norm (Fin q) = Inr (Fin q)" and "0 \<le> d"
    and "norm (fadd (Fin q) (Fin d)) = Inr v"
  shows "\<exists>y. v = Fin y \<and> q \<le> y"
proof -
  obtain x y where x: "rnd (q + d) = Fin x" and v: "v = Fin y"
    using norm_double [OF assms(4)] by auto
  have "q \<le> x" using double.add_nonneg_ge [of q d] assms(1,3) x by simp
  then have "q \<le> y" using norm_ge_fixed [of x q y] rnd_Fin_double [OF x] assms x v by simp
  then show ?thesis using v by blast
qed

lemma norm_add_mono:
  assumes "norm (fadd (Fin x) (Fin y)) = Inr u" and "norm (fadd (Fin x') (Fin y')) = Inr v"
    and "x \<le> x'" and "y \<le> y'"
  shows "fle u v"
proof -
  obtain p q where pq: "rnd (x + y) = Fin p" "rnd (x' + y') = Fin q"
    using norm_double [OF assms(1)] norm_double [OF assms(2)] by auto
  then have "p \<le> q" using rnd_mono [of "x + y" "x' + y'"] assms(3,4) by simp
  then show ?thesis
    using norm_mono [of p q] rnd_Fin_double pq assms(1,2) norm_double [OF assms(1)] norm_double [OF assms(2)]
    by auto
qed

lemma norm_clamped:
  assumes "is_double v" and "norm (fmax v (Fin 0)) = Inr w"
  shows "fle (Fin 0) w"
proof -
  obtain x where x: "v = Fin x" "double_rat x" using assms(1) by (auto simp: is_double_def)
  obtain y where y: "w = Fin y" using norm_double [OF assms(2)] by blast
  have m: "fmax v (Fin 0) = Fin (max x 0)" "double_rat (max x 0)"
    using x by (simp_all add: fmax_def max_def)
  then have "0 \<le> y" using norm_nonneg [of "max x 0" y] assms(2) y by simp
  then show ?thesis using y by simp
qed

lemma consume_double:
  assumes "consume_locked_then_available field norm l a r = Inr (l', a')"
  shows "is_double l' \<and> is_double a'"
proof -
  have nd: "is_double w" if "norm v = Inr w" for v w
    using norm_double [OF that] by (auto simp: is_double_def)
  have tiny: "is_double (normalize_tiny_negative t v)" "is_double (fmax v (Fin 0))" if "is_double v" for t v
    using that by (auto simp: is_double_def normalize_tiny_negative_def fmax_def)
  from assms show ?thesis
    unfolding consume_locked_then_available_def
    by (auto simp: bind_py_Inr_iff Let_def guard_Inr_iff intro!: tiny split: if_splits intro: nd)
qed

text \<open>A fixed balance is one that normalization keeps; both parts of a consumed balance are fixed.\<close>

lemma consume_bounds:
  assumes l: "norm (Fin l) = Inr (Fin l)" "0 \<le> l" "l < cap"
    and a: "norm (Fin a) = Inr (Fin a)" "0 \<le> a" "a < cap"
    and r: "double_rat r" "0 \<le> r"
    and c: "consume_locked_then_available field norm (Fin l) (Fin a) (Fin r) = Inr (l', a')"
  shows "\<exists>x y. l' = Fin x \<and> a' = Fin y \<and> 0 \<le> x \<and> x \<le> l \<and> 0 \<le> y \<and> y \<le> a \<and>
    norm (Fin x) = Inr (Fin x) \<and> norm (Fin y) = Inr (Fin y)"
proof -
  have dl: "double_rat l" and da: "double_rat a" using norm_double l(1) a(1) by fastforce+
  have tiny: "normalize_tiny_negative t (Fin z) = Fin z" if "0 \<le> z" for t z
    using that by (simp add: normalize_tiny_negative_def)
  obtain r0 l2 r2 a2 t where r0: "norm (Fin r) = Inr r0"
    and l2: "norm (fsub (Fin l) (fmin (Fin l) r0)) = Inr l2"
    and r2: "norm (fsub r0 (fmin (Fin l) r0)) = Inr r2"
    and a2: "(if flt (lit 1 (-12)) r2 then norm (fsub (Fin a) r2) else Inr (Fin a)) = Inr a2"
    and res: "l' = fmax (normalize_tiny_negative t l2) (Fin 0)" "a' = fmax (normalize_tiny_negative t a2) (Fin 0)"
    using c l a unfolding consume_locked_then_available_def
    by (auto simp: bind_py_Inr_iff Let_def tiny guard_Inr_iff cong del: if_weak_cong)
  obtain q where q: "r0 = Fin q" "double_rat q" "0 \<le> q"
    using norm_double [OF r0] norm_nonneg [OF r] r0 by auto
  define m where "m = min l q"
  have m: "fmin (Fin l) r0 = Fin m" "0 \<le> m" "m \<le> l" "m \<le> q"
    using q l(2) by (simp_all add: fmin_def m_def min_def)
  obtain x where x: "l2 = Fin x" "0 \<le> x" "x \<le> l"
    using norm_sub [OF dl l(1) m(2)] l2 m by (auto simp: fsub_def)
  obtain z where z: "r2 = Fin z" "0 \<le> z"
  proof -
    obtain w where w: "rnd (q - m) = Fin w" "norm (Fin w) = Inr r2"
      using norm_double [OF r2] r2 q(1) m(1) by (auto simp: fsub_def)
    then show ?thesis
      using that norm_double [of "Fin w"] norm_nonneg [of w] rnd_Fin_double rnd_mono [of 0 "q - m"] m(4)
      by fastforce
  qed
  obtain y where y: "a2 = Fin y" "y \<le> a"
    using a2 z norm_sub [OF da a(1) z(2)] by (auto simp: fsub_def split: if_splits)
  have y_fixed: "norm (Fin y) = Inr (Fin y)" if "0 \<le> y"
    using a2 a y that norm_idem by (auto split: if_splits)
  have "\<exists>v. fmax (normalize_tiny_negative t (Fin y)) (Fin 0) = Fin v \<and> 0 \<le> v \<and> v \<le> a \<and>
      norm (Fin v) = Inr (Fin v)"
    using y(2) a(2) y_fixed norm_zero by (auto simp: normalize_tiny_negative_def fmax_def)
  moreover have "norm (Fin x) = Inr (Fin x)" using l2 x l(3) norm_idem by simp
  ultimately show ?thesis
    using res x y(1) by (auto simp: tiny fmax_def)
qed

end

subsection \<open>The normalizations of the code\<close>

lemma normalize_cash_amount_Fin: "normalize_cash_amount (Fin q) = dec_norm 8 q"
  by (simp add: normalize_cash_amount_def as_finite_decimal_def dec_norm_def)

lemma normalize_asset_qty_Fin: "normalize_asset_qty (Fin q) = dec_norm 12 q"
  by (simp add: normalize_asset_qty_def as_finite_decimal_def dec_norm_def)

lemma normalize_Inr:
  "normalize_cash_amount v = Inr w \<longleftrightarrow> (\<exists>q. v = Fin q \<and> dec_norm 8 q = Inr w)"
  "normalize_asset_qty v = Inr w \<longleftrightarrow> (\<exists>q. v = Fin q \<and> dec_norm 12 q = Inr w)"
  by (cases v; simp add: normalize_cash_amount_Fin normalize_asset_qty_Fin;
      simp add: normalize_cash_amount_def normalize_asset_qty_def as_finite_decimal_def)+

lemma normalizer_dec_norm:
  fixes norm :: "pyfloat \<Rightarrow> pyfloat py"
  assumes "\<And>v w. norm v = Inr w \<longleftrightarrow> (\<exists>q. v = Fin q \<and> dec_norm k q = Inr w)" and "k \<le> 12"
    and "cap * 10 ^ k \<le> 10 ^ 27"
  shows "normalizer norm cap"
proof
  show "\<exists>x y. v = Fin x \<and> w = Fin y \<and> double_rat y" if "norm v = Inr w" for v w
    using that dec_norm_Fin assms(1) by metis
  show "a \<le> b" if "double_rat p" "double_rat q" "p \<le> q" "norm (Fin p) = Inr (Fin a)"
    "norm (Fin q) = Inr (Fin b)" for p q a b
    using that dec_norm_mono [of p q k "Fin a" "Fin b"] assms(1) by auto
  show "norm (Fin 0) = Inr (Fin 0)"
    using assms(1) by simp
  show "norm (Fin y) = Inr (Fin y)" if "norm v = Inr (Fin y)" "\<bar>y\<bar> < cap" for v y
  proof -
    have "pw (- 1022) \<le> pw (- 40)" by (rule pw_mono) simp
    also have "\<dots> \<le> 1 / 10 ^ 12" by simp
    also have "\<dots> \<le> 1 / 10 ^ k" using assms(2) by (intro divide_left_mono power_increasing) simp_all
    finally have k: "pw (- 1022) \<le> 1 / 10 ^ k" .
    have "\<bar>y\<bar> * 10 ^ k < cap * 10 ^ k" using that(2) by (intro mult_strict_right_mono) simp_all
    then have "\<bar>y\<bar> * 10 ^ k < 10 ^ 27" using assms(3) by (rule less_le_trans)
    then show ?thesis using that(1) dec_norm_idem [OF _ k] assms(1) by auto
  qed
qed

definition cash_cap :: rat where
  "cash_cap = 10 ^ 19"

definition asset_cap :: rat where
  "asset_cap = 10 ^ 15"

interpretation cash: normalizer normalize_cash_amount cash_cap
  by (rule normalizer_dec_norm [OF normalize_Inr(1)]) (simp_all add: cash_cap_def)

interpretation asset: normalizer normalize_asset_qty asset_cap
  by (rule normalizer_dec_norm [OF normalize_Inr(2)]) (simp_all add: asset_cap_def)

subsection \<open>Well-formed balances and rows\<close>

definition nonneg_balances :: "balances \<Rightarrow> bool" where
  "nonneg_balances b \<longleftrightarrow> fle (Fin 0) (bl_cash_available b) \<and> fle (Fin 0) (bl_cash_locked b) \<and>
     fle (Fin 0) (bl_asset_available b) \<and> fle (Fin 0) (bl_asset_locked b)"

definition in_range :: "balances \<Rightarrow> bool" where
  "in_range b \<longleftrightarrow> flt (bl_cash_available b) (Fin cash_cap) \<and> flt (bl_cash_locked b) (Fin cash_cap) \<and>
     flt (bl_asset_available b) (Fin asset_cap) \<and> flt (bl_asset_locked b) (Fin asset_cap)"

definition balances_ok :: "balances \<Rightarrow> bool" where
  "balances_ok b \<longleftrightarrow> normalize_portfolio_breakdown b = Inr b \<and> nonneg_balances b \<and> in_range b"

definition row_ok :: "portfolio_row \<Rightarrow> bool" where
  "row_ok r \<longleftrightarrow> balances_ok (pf_balances r) \<and>
     portfolio_cash_total (bl_cash_available (pf_balances r)) (bl_cash_locked (pf_balances r)) = Inr (pf_cash_krw r) \<and>
     portfolio_asset_total (bl_asset_available (pf_balances r)) (bl_asset_locked (pf_balances r)) = Inr (pf_asset_qty r)"

lemma breakdown_Inr_iff:
  "normalize_portfolio_breakdown b = Inr b' \<longleftrightarrow>
     normalize_cash_amount (bl_cash_available b) = Inr (bl_cash_available b') \<and>
     normalize_cash_amount (bl_cash_locked b) = Inr (bl_cash_locked b') \<and>
     normalize_asset_qty (bl_asset_available b) = Inr (bl_asset_available b') \<and>
     normalize_asset_qty (bl_asset_locked b) = Inr (bl_asset_locked b')"
  by (cases b') (auto simp: normalize_portfolio_breakdown_def bind_py_Inr_iff)

text \<open>Well-formed balances, component by component.\<close>

definition fixed_cash :: "pyfloat \<Rightarrow> bool" where
  "fixed_cash v \<longleftrightarrow> normalize_cash_amount v = Inr v \<and> fle (Fin 0) v \<and> flt v (Fin cash_cap)"

definition fixed_asset :: "pyfloat \<Rightarrow> bool" where
  "fixed_asset v \<longleftrightarrow> normalize_asset_qty v = Inr v \<and> fle (Fin 0) v \<and> flt v (Fin asset_cap)"

lemma balances_ok_iff:
  "balances_ok b \<longleftrightarrow> fixed_cash (bl_cash_available b) \<and> fixed_cash (bl_cash_locked b) \<and>
     fixed_asset (bl_asset_available b) \<and> fixed_asset (bl_asset_locked b)"
  by (auto simp: balances_ok_def breakdown_Inr_iff nonneg_balances_def in_range_def fixed_cash_def fixed_asset_def)

lemma fixed_cashE:
  assumes "fixed_cash v"
  obtains x where "v = Fin x" "double_rat x" "0 \<le> x" "x < cash_cap" "normalize_cash_amount (Fin x) = Inr (Fin x)"
  using assms cash.norm_double [of v v] by (auto simp: fixed_cash_def)

lemma fixed_assetE:
  assumes "fixed_asset v"
  obtains x where "v = Fin x" "double_rat x" "0 \<le> x" "x < asset_cap" "normalize_asset_qty (Fin x) = Inr (Fin x)"
  using assms asset.norm_double [of v v] by (auto simp: fixed_asset_def)

lemma normalized_fixed_cash:
  "normalize_cash_amount u = Inr v \<Longrightarrow> fle (Fin 0) v \<Longrightarrow> flt v (Fin cash_cap) \<Longrightarrow> fixed_cash v"
  using cash.norm_double [of u v] cash.norm_idem [of u] by (auto simp: fixed_cash_def)

lemma normalized_fixed_asset:
  "normalize_asset_qty u = Inr v \<Longrightarrow> fle (Fin 0) v \<Longrightarrow> flt v (Fin asset_cap) \<Longrightarrow> fixed_asset v"
  using asset.norm_double [of u v] asset.norm_idem [of u] by (auto simp: fixed_asset_def)

lemma normalized_balances_ok:
  "normalize_portfolio_breakdown b0 = Inr b \<Longrightarrow> nonneg_balances b \<Longrightarrow> in_range b \<Longrightarrow> balances_ok b"
  by (auto simp: balances_ok_iff breakdown_Inr_iff nonneg_balances_def in_range_def
      intro: normalized_fixed_cash normalized_fixed_asset)

lemma fixed_simps:
  "fixed_cash v \<Longrightarrow> normalize_cash_amount v = Inr v"
  "fixed_asset w \<Longrightarrow> normalize_asset_qty w = Inr w"
  by (simp_all add: fixed_cash_def fixed_asset_def)

lemma balances_ok_norm [simp]: "balances_ok b \<Longrightarrow> normalize_portfolio_breakdown b = Inr b"
  by (simp add: balances_ok_def)

lemma balances_ok_totals:
  assumes "balances_ok b"
  shows "portfolio_cash_total (bl_cash_available b) (bl_cash_locked b) =
      normalize_cash_amount (fadd (bl_cash_available b) (bl_cash_locked b))"
    and "portfolio_asset_total (bl_asset_available b) (bl_asset_locked b) =
      normalize_asset_qty (fadd (bl_asset_available b) (bl_asset_locked b))"
  using assms by (simp_all add: portfolio_cash_total_def portfolio_asset_total_def balances_ok_iff fixed_simps)

subsection \<open>Writing and reading the table\<close>

lemma set_portfolio_breakdown_Inr:
  assumes "set_portfolio_breakdown start_cash b0 probe_run_id t = Inr r"
  shows "normalize_portfolio_breakdown b0 = Inr (pf_balances r) \<and>
    portfolio_cash_total (bl_cash_available (pf_balances r)) (bl_cash_locked (pf_balances r)) = Inr (pf_cash_krw r) \<and>
    portfolio_asset_total (bl_asset_available (pf_balances r)) (bl_asset_locked (pf_balances r)) = Inr (pf_asset_qty r)"
  using assms by (auto simp: set_portfolio_breakdown_def bind_py_Inr_iff)

lemma row_ok_get_breakdown: "row_ok r \<Longrightarrow> get_portfolio_breakdown start_cash (Some r) = Inr (r, pf_balances r)"
  by (simp add: get_portfolio_breakdown_def init_portfolio_def row_ok_def)

lemma row_ok_get_portfolio: "row_ok r \<Longrightarrow> get_portfolio start_cash (Some r) = Inr (pf_cash_krw r, pf_asset_qty r)"
  by (simp add: get_portfolio_def row_ok_get_breakdown) (simp add: row_ok_def)

lemma set_portfolio_breakdown_row_ok:
  assumes "set_portfolio_breakdown start_cash b0 probe_run_id t = Inr r"
    and "nonneg_balances (pf_balances r)" and "in_range (pf_balances r)"
  shows "row_ok r"
  using set_portfolio_breakdown_Inr [OF assms(1)] assms(2,3) normalized_balances_ok by (auto simp: row_ok_def)

lemma clamp_nonneg: "nonneg_balances b \<Longrightarrow> clamp_balances b = b"
  by (cases b) (auto simp: clamp_balances_def nonneg_balances_def fmax_def flt_iff)

subsection \<open>The effect of a fill\<close>

lemmas fill_unfolds =
  calculate_fill_portfolio_snapshot_def buy_fill_def sell_fill_def bind_py_Inr_iff

lemma norm_is_double:
  "normalize_cash_amount u = Inr v \<Longrightarrow> is_double v"
  "normalize_asset_qty u = Inr v \<Longrightarrow> is_double v"
  using cash.norm_double asset.norm_double by (fastforce simp: is_double_def)+

lemma snapshot_doubles:
  assumes "calculate_fill_portfolio_snapshot b0 side price qty fee = Inr s"
  shows "is_double (bl_cash_available (fs_balances s)) \<and> is_double (bl_cash_locked (fs_balances s)) \<and>
    is_double (bl_asset_available (fs_balances s)) \<and> is_double (bl_asset_locked (fs_balances s))"
  using assms
  by (auto simp: fill_unfolds breakdown_Inr_iff split: if_splits
      dest: cash.consume_double asset.consume_double intro: norm_is_double)

lemma book_fill_Inr:
  assumes "book_fill start_cash side price qty fee probe_run_id t = Inr (r', s)"
  obtains r b where "get_portfolio_breakdown start_cash t = Inr (r, b)"
    and "calculate_fill_portfolio_snapshot b side price qty fee = Inr s"
    and "set_portfolio_breakdown start_cash (clamp_balances (fs_balances s)) probe_run_id (Some r) = Inr r'"
  using assms by (auto simp: book_fill_def bind_py_Inr_iff)

lemma clamped_set_nonneg:
  assumes "calculate_fill_portfolio_snapshot b side price qty fee = Inr s"
    and "set_portfolio_breakdown start_cash (clamp_balances (fs_balances s)) probe_run_id t = Inr r"
  shows "nonneg_balances (pf_balances r)"
  using snapshot_doubles [OF assms(1)] set_portfolio_breakdown_Inr [OF assms(2)]
  by (auto simp: nonneg_balances_def breakdown_Inr_iff clamp_balances_def
      intro: cash.norm_clamped asset.norm_clamped)

text \<open>A fill as the exchange reports it: finite amounts that are not negative.\<close>

definition fill_ok :: "pyfloat \<Rightarrow> pyfloat \<Rightarrow> pyfloat option \<Rightarrow> bool" where
  "fill_ok price qty fee \<longleftrightarrow>
     (\<forall>v \<in> set [price, qty, case fee of None \<Rightarrow> Fin 0 | Some f \<Rightarrow> f]. is_double v \<and> fle (Fin 0) v)"

lemma norm_nonneg_float:
  "is_double v \<Longrightarrow> fle (Fin 0) v \<Longrightarrow> normalize_cash_amount v = Inr w \<Longrightarrow> fle (Fin 0) w"
  "is_double v \<Longrightarrow> fle (Fin 0) v \<Longrightarrow> normalize_asset_qty v = Inr w \<Longrightarrow> fle (Fin 0) w"
  using cash.norm_clamped [of v w] asset.norm_clamped [of v w] by (auto simp: fmax_def flt_iff)

lemma nonneg_arith:
  "fle (Fin 0) a \<Longrightarrow> fle (Fin 0) b \<Longrightarrow> is_double a \<Longrightarrow> is_double b \<Longrightarrow> fle (Fin 0) (fmul a b)"
  "fle (Fin 0) a \<Longrightarrow> fle (Fin 0) b \<Longrightarrow> fle (Fin 0) (fadd a b)"
  using rnd_mono [of 0] by (cases a; cases b; force simp: is_double_def)+

lemma norm_arg_double:
  "normalize_cash_amount (fadd a b) = Inr w \<Longrightarrow> is_double (fadd a b)"
  by (cases a; cases b) (auto simp: normalize_Inr dest: rnd_Fin_double)

lemma buy_fill_effect:
  assumes b: "balances_ok b" and args: "is_double price" "fle (Fin 0) price" "is_double qty" "fle (Fin 0) qty"
      "is_double fee" "fle (Fin 0) fee"
    and f: "buy_fill b price qty fee = Inr b'"
  shows "fixed_cash (bl_cash_available b') \<and> fixed_cash (bl_cash_locked b') \<and>
    fle (bl_cash_available b') (bl_cash_available b) \<and> fle (bl_cash_locked b') (bl_cash_locked b) \<and>
    fle (bl_asset_available b) (bl_asset_available b') \<and> bl_asset_locked b' = bl_asset_locked b \<and>
    (\<exists>u. normalize_asset_qty u = Inr (bl_asset_available b'))"
proof -
  obtain spend cl ca aa where
    spend: "normalize_cash_amount (fadd (fmul price qty) fee) = Inr spend" and
    cons: "consume_locked_then_available ''cash'' normalize_cash_amount
      (bl_cash_locked b) (bl_cash_available b) spend = Inr (cl, ca)" and
    aa: "normalize_asset_qty (fadd (bl_asset_available b) qty) = Inr aa" and
    b': "b' = b\<lparr>bl_cash_available := ca, bl_cash_locked := cl, bl_asset_available := aa\<rparr>"
    using f by (auto simp: buy_fill_def bind_py_Inr_iff)
  have ok: "fixed_cash (bl_cash_available b)" "fixed_cash (bl_cash_locked b)" "fixed_asset (bl_asset_available b)"
    using b by (simp_all add: balances_ok_iff)
  obtain r where r: "spend = Fin r" "double_rat r" "0 \<le> r"
    using norm_nonneg_float(1) [OF norm_arg_double [OF spend] _ spend] nonneg_arith args norm_is_double(1) [OF spend]
    by (auto simp: is_double_def)
  from ok(1) obtain a where a: "bl_cash_available b = Fin a" "0 \<le> a" "a < cash_cap"
      "normalize_cash_amount (Fin a) = Inr (Fin a)" by (rule fixed_cashE)
  from ok(2) obtain l where l: "bl_cash_locked b = Fin l" "0 \<le> l" "l < cash_cap"
      "normalize_cash_amount (Fin l) = Inr (Fin l)" by (rule fixed_cashE)
  have "fixed_cash ca \<and> fixed_cash cl \<and> fle ca (Fin a) \<and> fle cl (Fin l)"
    using cash.consume_bounds [OF l(4,2,3) a(4,2,3) r(2,3) cons [unfolded a(1) l(1) r(1)]] a(3) l(3)
    by (auto simp: fixed_cash_def)
  moreover have "fle (bl_asset_available b) aa"
  proof -
    from ok(3) obtain x where x: "bl_asset_available b = Fin x" "double_rat x"
        "normalize_asset_qty (Fin x) = Inr (Fin x)" by (rule fixed_assetE)
    obtain d where d: "qty = Fin d" "0 \<le> d" using args(3,4) by (auto simp: is_double_def)
    show ?thesis using asset.norm_add [OF x(2,3) d(2)] aa x(1) d(1) by auto
  qed
  ultimately show ?thesis using a l aa b' by auto
qed

lemma sell_fill_effect:
  assumes b: "balances_ok b" and args: "is_double qty" "fle (Fin 0) qty"
    and f: "sell_fill b price qty fee = Inr b'"
  shows "fixed_asset (bl_asset_available b') \<and> fixed_asset (bl_asset_locked b') \<and>
    fle (bl_asset_available b') (bl_asset_available b) \<and> fle (bl_asset_locked b') (bl_asset_locked b) \<and>
    bl_cash_locked b' = bl_cash_locked b \<and> (\<exists>u. normalize_cash_amount u = Inr (bl_cash_available b'))"
proof -
  obtain ca al aa where
    ca: "normalize_cash_amount (fsub (fadd (bl_cash_available b) (fmul price qty)) fee) = Inr ca" and
    cons: "consume_locked_then_available ''asset'' normalize_asset_qty
      (bl_asset_locked b) (bl_asset_available b) qty = Inr (al, aa)" and
    b': "b' = b\<lparr>bl_cash_available := ca, bl_asset_available := aa, bl_asset_locked := al\<rparr>"
    using f by (auto simp: sell_fill_def bind_py_Inr_iff)
  have ok: "fixed_asset (bl_asset_available b)" "fixed_asset (bl_asset_locked b)"
    using b by (simp_all add: balances_ok_iff)
  obtain r where r: "qty = Fin r" "double_rat r" "0 \<le> r" using args by (auto simp: is_double_def)
  from ok(1) obtain a where a: "bl_asset_available b = Fin a" "0 \<le> a" "a < asset_cap"
      "normalize_asset_qty (Fin a) = Inr (Fin a)" by (rule fixed_assetE)
  from ok(2) obtain l where l: "bl_asset_locked b = Fin l" "0 \<le> l" "l < asset_cap"
      "normalize_asset_qty (Fin l) = Inr (Fin l)" by (rule fixed_assetE)
  have "fixed_asset aa \<and> fixed_asset al \<and> fle aa (Fin a) \<and> fle al (Fin l)"
    using asset.consume_bounds [OF l(4,2,3) a(4,2,3) r(2,3) cons [unfolded a(1) l(1) r(1)]] a(3) l(3)
    by (auto simp: fixed_asset_def)
  then show ?thesis using a l ca b' by auto
qed

text \<open>The fill a snapshot applies has normal arguments.\<close>

lemma snapshot_Inr:
  assumes b: "balances_ok b" and ok: "fill_ok price qty fee"
    and s: "calculate_fill_portfolio_snapshot b side price qty fee = Inr s"
  obtains price' qty' fee' where
    "is_double price'" "fle (Fin 0) price'" "is_double qty'" "fle (Fin 0) qty'" "is_double fee'" "fle (Fin 0) fee'"
    "side = ''BUY'' \<and> buy_fill b price' qty' fee' = Inr (fs_balances s) \<or>
     side = ''SELL'' \<and> sell_fill b price' qty' fee' = Inr (fs_balances s)"
    "normalize_cash_amount (fadd (bl_cash_available (fs_balances s)) (bl_cash_locked (fs_balances s))) =
      Inr (fs_cash_after s)"
    "normalize_asset_qty (fadd (bl_asset_available (fs_balances s)) (bl_asset_locked (fs_balances s))) =
      Inr (fs_asset_after s)"
proof -
  obtain p q f where n: "normalize_cash_amount price = Inr p" "normalize_asset_qty qty = Inr q"
      "normalize_cash_amount (case fee of None \<Rightarrow> Fin 0 | Some f \<Rightarrow> f) = Inr f"
    and rest: "side = ''BUY'' \<and> buy_fill b p q f = Inr (fs_balances s) \<or>
        side = ''SELL'' \<and> sell_fill b p q f = Inr (fs_balances s)"
      "normalize_cash_amount (fadd (bl_cash_available (fs_balances s)) (bl_cash_locked (fs_balances s))) =
        Inr (fs_cash_after s)"
      "normalize_asset_qty (fadd (bl_asset_available (fs_balances s)) (bl_asset_locked (fs_balances s))) =
        Inr (fs_asset_after s)"
    using b s by (auto simp: calculate_fill_portfolio_snapshot_def bind_py_Inr_iff split: if_splits)
  have "fle (Fin 0) p" "fle (Fin 0) q" "fle (Fin 0) f"
    using norm_nonneg_float n ok by (auto simp: fill_ok_def)
  then show ?thesis using that n rest norm_is_double by blast
qed

lemma fixed_clamp:
  "fixed_cash v \<Longrightarrow> normalize_cash_amount (fmax v (Fin 0)) = Inr w \<Longrightarrow> w = v"
  "fixed_asset v \<Longrightarrow> normalize_asset_qty (fmax v (Fin 0)) = Inr w \<Longrightarrow> w = v"
  by (auto simp: fixed_cash_def fixed_asset_def fmax_def flt_iff)

lemma booked_row:
  assumes "row_ok r" and "book_fill start_cash side price qty fee probe_run_id (Some r) = Inr (r', s)"
  shows "calculate_fill_portfolio_snapshot (pf_balances r) side price qty fee = Inr s \<and>
    normalize_portfolio_breakdown (clamp_balances (fs_balances s)) = Inr (pf_balances r') \<and>
    portfolio_cash_total (bl_cash_available (pf_balances r')) (bl_cash_locked (pf_balances r')) = Inr (pf_cash_krw r') \<and>
    portfolio_asset_total (bl_asset_available (pf_balances r')) (bl_asset_locked (pf_balances r')) = Inr (pf_asset_qty r')"
  using assms(2) row_ok_get_breakdown [OF assms(1)] set_portfolio_breakdown_Inr
  by (auto simp: book_fill_def bind_py_Inr_iff)

lemma cash_total_mono:
  assumes "fixed_cash a" "fixed_cash l" "fixed_cash a'" "fixed_cash l'" "fle a' a" "fle l' l"
    and "portfolio_cash_total a l = Inr u" and "portfolio_cash_total a' l' = Inr u'"
  shows "fle u' u"
proof -
  from assms(1-4) obtain w x y z where "a = Fin w" "l = Fin x" "a' = Fin y" "l' = Fin z"
    by (meson fixed_cashE)
  then show ?thesis
    using assms fixed_simps cash.norm_add_mono [of y z u' w x u] by (auto simp: portfolio_cash_total_def)
qed

lemma asset_total_mono:
  assumes "fixed_asset a" "fixed_asset l" "fixed_asset a'" "fixed_asset l'" "fle a' a" "fle l' l"
    and "portfolio_asset_total a l = Inr u" and "portfolio_asset_total a' l' = Inr u'"
  shows "fle u' u"
proof -
  from assms(1-4) obtain w x y z where "a = Fin w" "l = Fin x" "a' = Fin y" "l' = Fin z"
    by (meson fixed_assetE)
  then show ?thesis
    using assms fixed_simps asset.norm_add_mono [of y z u' w x u] by (auto simp: portfolio_asset_total_def)
qed

lemma booked_buy:
  assumes r: "row_ok r" and bf: "book_fill start_cash side price qty fee probe_run_id (Some r) = Inr (r', s)"
    and args: "is_double price'" "fle (Fin 0) price'" "is_double qty'" "fle (Fin 0) qty'" "is_double fee'" "fle (Fin 0) fee'"
    and f: "buy_fill (pf_balances r) price' qty' fee' = Inr (fs_balances s)"
  shows "fle (bl_cash_available (pf_balances r')) (bl_cash_available (pf_balances r)) \<and>
    fle (bl_cash_locked (pf_balances r')) (bl_cash_locked (pf_balances r)) \<and>
    fle (pf_cash_krw r') (pf_cash_krw r) \<and>
    fle (bl_asset_available (pf_balances r)) (bl_asset_available (pf_balances r')) \<and>
    bl_asset_locked (pf_balances r') = bl_asset_locked (pf_balances r)"
proof -
  have ok: "balances_ok (pf_balances r)" using r by (simp add: row_ok_def)
  note eff = buy_fill_effect [OF ok args f]
  have same: "bl_cash_available (pf_balances r') = bl_cash_available (fs_balances s)"
      "bl_cash_locked (pf_balances r') = bl_cash_locked (fs_balances s)"
      "bl_asset_locked (pf_balances r') = bl_asset_locked (pf_balances r)"
    using booked_row [OF r bf] eff ok fixed_clamp
    by (auto simp: breakdown_Inr_iff clamp_balances_def balances_ok_iff)
  have "fle (pf_cash_krw r') (pf_cash_krw r)"
    by (rule cash_total_mono [of "bl_cash_available (pf_balances r)" "bl_cash_locked (pf_balances r)"
          "bl_cash_available (pf_balances r')" "bl_cash_locked (pf_balances r')"])
      (use eff same ok booked_row [OF r bf] r in \<open>simp_all add: balances_ok_iff row_ok_def\<close>)
  moreover have "fle (bl_asset_available (pf_balances r)) (bl_asset_available (pf_balances r'))"
  proof -
    obtain x where x: "bl_asset_available (pf_balances r) = Fin x" "double_rat x" "0 \<le> x"
        "normalize_asset_qty (Fin x) = Inr (Fin x)"
      using ok by (auto simp: balances_ok_iff elim: fixed_assetE)
    obtain y where y: "bl_asset_available (fs_balances s) = Fin y" "double_rat y" "x \<le> y"
      using eff x(1) asset.norm_double by fastforce
    have n: "normalize_asset_qty (Fin y) = Inr (bl_asset_available (pf_balances r'))"
      using booked_row [OF r bf] x y by (auto simp: breakdown_Inr_iff clamp_balances_def fmax_def)
    then show ?thesis
      using asset.norm_double [OF n] asset.norm_ge_fixed [OF y(2) x(2) y(3) x(4)] x(1) by auto
  qed
  ultimately show ?thesis using eff same by simp
qed

lemma booked_sell:
  assumes r: "row_ok r" and bf: "book_fill start_cash side price qty fee probe_run_id (Some r) = Inr (r', s)"
    and args: "is_double qty'" "fle (Fin 0) qty'"
    and f: "sell_fill (pf_balances r) price' qty' fee' = Inr (fs_balances s)"
  shows "fle (bl_asset_available (pf_balances r')) (bl_asset_available (pf_balances r)) \<and>
    fle (bl_asset_locked (pf_balances r')) (bl_asset_locked (pf_balances r)) \<and>
    fle (pf_asset_qty r') (pf_asset_qty r) \<and>
    bl_cash_locked (pf_balances r') = bl_cash_locked (pf_balances r)"
proof -
  have ok: "balances_ok (pf_balances r)" using r by (simp add: row_ok_def)
  note eff = sell_fill_effect [OF ok args f]
  have same: "bl_asset_available (pf_balances r') = bl_asset_available (fs_balances s)"
      "bl_asset_locked (pf_balances r') = bl_asset_locked (fs_balances s)"
      "bl_cash_locked (pf_balances r') = bl_cash_locked (pf_balances r)"
    using booked_row [OF r bf] eff ok fixed_clamp
    by (auto simp: breakdown_Inr_iff clamp_balances_def balances_ok_iff)
  have "fle (pf_asset_qty r') (pf_asset_qty r)"
    by (rule asset_total_mono [of "bl_asset_available (pf_balances r)" "bl_asset_locked (pf_balances r)"
          "bl_asset_available (pf_balances r')" "bl_asset_locked (pf_balances r')"])
      (use eff same ok booked_row [OF r bf] r in \<open>simp_all add: balances_ok_iff row_ok_def\<close>)
  then show ?thesis using eff same by simp
qed

subsection \<open>Replaying fills\<close>

text \<open>Booking a list of fills in the table, one after the other.\<close>

fun book_fills :: "pyfloat \<Rightarrow> string option \<Rightarrow> portfolio_row \<Rightarrow> fill_input list \<Rightarrow> portfolio_row py" where
  "book_fills start_cash probe_run_id r [] = Inr r"
| "book_fills start_cash probe_run_id r ((side, price, qty, fee) # rows) =
     bind_py (book_fill start_cash side price qty fee probe_run_id (Some r)) (\<lambda>(r', _).
       book_fills start_cash probe_run_id r' rows)"

text \<open>
  A run of fills that stays in range: no fill is refused, the balances stay below the caps and
  no SELL has a fee that the available cash and the proceeds do not cover.
\<close>

fun steady :: "balances \<Rightarrow> fill_input list \<Rightarrow> bool" where
  "steady b [] \<longleftrightarrow> True"
| "steady b ((side, price, qty, fee) # rows) \<longleftrightarrow> fill_ok price qty fee \<and>
     (case calculate_fill_portfolio_snapshot b side price qty fee of
        Inl _ \<Rightarrow> False
      | Inr s \<Rightarrow> in_range (fs_balances s) \<and> fle (Fin 0) (bl_cash_available (fs_balances s)) \<and>
          steady (fs_balances s) rows)"

definition row_shows :: "portfolio_row \<Rightarrow> fill_snapshot \<Rightarrow> bool" where
  "row_shows r s \<longleftrightarrow> row_ok r \<and> pf_balances r = fs_balances s \<and>
     pf_cash_krw r = fs_cash_after s \<and> pf_asset_qty r = fs_asset_after s"

lemma steady_balances_ok:
  assumes b: "balances_ok b" and ok: "fill_ok price qty fee"
    and s: "calculate_fill_portfolio_snapshot b side price qty fee = Inr s"
    and range: "in_range (fs_balances s)" "fle (Fin 0) (bl_cash_available (fs_balances s))"
  shows "balances_ok (fs_balances s)"
  using b ok s
proof (rule snapshot_Inr)
  fix p q f
  assume args: "is_double p" "fle (Fin 0) p" "is_double q" "fle (Fin 0) q" "is_double f" "fle (Fin 0) f"
    and f: "side = ''BUY'' \<and> buy_fill b p q f = Inr (fs_balances s) \<or>
      side = ''SELL'' \<and> sell_fill b p q f = Inr (fs_balances s)"
  from f show ?thesis
  proof (elim disjE conjE)
    assume "buy_fill b p q f = Inr (fs_balances s)"
    note eff = buy_fill_effect [OF b args this]
    have "fle (Fin 0) (bl_asset_available b)" using b by (simp add: balances_ok_def nonneg_balances_def)
    then have "fle (Fin 0) (bl_asset_available (fs_balances s))" using eff fle_trans by blast
    then show ?thesis
      using eff b range normalized_fixed_asset by (auto simp: balances_ok_iff in_range_def)
  next
    assume "sell_fill b p q f = Inr (fs_balances s)"
    note eff = sell_fill_effect [OF b args(3,4) this]
    then show ?thesis
      using b range normalized_fixed_cash by (auto simp: balances_ok_iff in_range_def)
  qed
qed

lemma book_fill_shows_snapshot:
  assumes r: "row_ok r" and ok: "fill_ok price qty fee"
    and s: "calculate_fill_portfolio_snapshot (pf_balances r) side price qty fee = Inr s"
    and range: "in_range (fs_balances s)" "fle (Fin 0) (bl_cash_available (fs_balances s))"
  shows "\<exists>r'. book_fill start_cash side price qty fee probe_run_id (Some r) = Inr (r', s) \<and> row_shows r' s"
proof -
  have b: "balances_ok (pf_balances r)" using r by (simp add: row_ok_def)
  have b': "balances_ok (fs_balances s)" by (rule steady_balances_ok [OF b ok s range])
  have totals: "portfolio_cash_total (bl_cash_available (fs_balances s)) (bl_cash_locked (fs_balances s)) =
      Inr (fs_cash_after s)"
    "portfolio_asset_total (bl_asset_available (fs_balances s)) (bl_asset_locked (fs_balances s)) =
      Inr (fs_asset_after s)"
    using b ok s by (rule snapshot_Inr, simp add: balances_ok_totals [OF b'])+
  have "clamp_balances (fs_balances s) = fs_balances s"
    using b' clamp_nonneg by (simp add: balances_ok_def)
  then show ?thesis
    using b' totals row_ok_get_breakdown [OF r] s
    by (simp add: book_fill_def set_portfolio_breakdown_def init_portfolio_def row_shows_def row_ok_def)
qed

lemma book_fills_show_replay:
  assumes "row_shows r s" and "steady (fs_balances s) rows"
  shows "\<exists>r' s'. book_fills start_cash probe_run_id r rows = Inr r' \<and> replay_fills s rows = Inr s' \<and> row_shows r' s'"
  using assms
proof (induction rows arbitrary: r s)
  case (Cons fill rows)
  obtain side price qty fee where fill: "fill = (side, price, qty, fee)" by (cases fill)
  with Cons.prems(2) obtain s1 where ok: "fill_ok price qty fee"
    and s1: "calculate_fill_portfolio_snapshot (fs_balances s) side price qty fee = Inr s1"
    and range: "in_range (fs_balances s1)" "fle (Fin 0) (bl_cash_available (fs_balances s1))"
    and rest: "steady (fs_balances s1) rows"
    by (auto split: sum.splits)
  have r: "row_ok r" "pf_balances r = fs_balances s" using Cons.prems(1) by (simp_all add: row_shows_def)
  obtain r1 where r1: "book_fill start_cash side price qty fee probe_run_id (Some r) = Inr (r1, s1)" "row_shows r1 s1"
    using book_fill_shows_snapshot [OF r(1) ok s1 [folded r(2)] range] by blast
  then show ?case
    using Cons.IH [OF r1(2) rest] s1 fill by simp
qed auto

subsection \<open>Whole amounts\<close>

text \<open>Evaluation on whole amounts, for concrete books.\<close>

lemma normalize_numeral:
  "(numeral n :: int) < 2 ^ 53 \<Longrightarrow> normalize_cash_amount (Fin (numeral n)) = Inr (Fin (numeral n))"
  "(numeral n :: int) < 2 ^ 53 \<Longrightarrow> normalize_asset_qty (Fin (numeral n)) = Inr (Fin (numeral n))"
  using dec_norm_of_int [of "numeral n" 8] dec_norm_of_int [of "numeral n" 12]
  by (simp_all add: normalize_cash_amount_Fin normalize_asset_qty_Fin)

lemma normalize_neg_numeral:
  "(numeral n :: int) < 2 ^ 53 \<Longrightarrow> normalize_cash_amount (Fin (- numeral n)) = Inr (Fin (- numeral n))"
  using dec_norm_of_int [of "- numeral n" 8] by (simp add: normalize_cash_amount_Fin)

lemma normalize_one [simp]:
  "normalize_cash_amount (Fin 1) = Inr (Fin 1)" "normalize_asset_qty (Fin 1) = Inr (Fin 1)"
  using dec_norm_of_int [of 1 8] dec_norm_of_int [of 1 12]
  by (simp_all add: normalize_cash_amount_Fin normalize_asset_qty_Fin)

lemma normalize_zero [simp]:
  "normalize_cash_amount (Fin 0) = Inr (Fin 0)" "normalize_asset_qty (Fin 0) = Inr (Fin 0)"
  by (rule cash.norm_zero asset.norm_zero)+

lemma lit_eps: "fle (Fin 0) (lit 1 (-12)) \<and> fle (lit 1 (-12)) (Fin (1 / 2))"
proof -
  have "rnd (1 / 2) = Fin (1 / 2)" using rnd_dyadic [of 1 "- 1"] by simp
  then show ?thesis using rnd_mono [of 0 "1 / 10 ^ 12"] rnd_mono [of "1 / 10 ^ 12" "1 / 2"]
    by (simp add: lit_def)
qed

lemma eps_less [simp]: "1 \<le> x \<Longrightarrow> flt (lit 1 (-12)) (Fin x)"
  using lit_eps fle_flt_trans [of "lit 1 (-12)" "Fin (1 / 2)" "Fin x"] by simp

lemma not_eps_less_zero [simp]: "\<not> flt (lit 1 (-12)) (Fin 0)"
  using lit_eps by (simp add: flt_iff)

lemma float_tolerance_nonneg: "fle (Fin 0) (float_tolerance vs)"
proof -
  have "lit 1 (-12) \<noteq> NaN" using lit_eps fle_not_NaN by blast
  then show ?thesis
    unfolding float_tolerance_def Let_def using lit_eps fle_trans [OF _ fmax_ge] by blast
qed

lemma not_below_tolerance [simp]: "0 \<le> x \<Longrightarrow> \<not> flt (Fin x) (fneg (float_tolerance vs))"
  using float_tolerance_nonneg [of vs] by (cases "float_tolerance vs") auto

lemmas whole_amounts = rnd_numeral rnd_neg_numeral normalize_numeral normalize_neg_numeral
  fsub_def fmax_def fmin_def normalize_tiny_negative_def

lemma strip_or_none_None [simp]: "strip_or_none None = None"
  by code_simp

definition sample_row :: portfolio_row where
  "sample_row = \<lparr>pf_probe_run_id = None, pf_cash_krw = Fin 1000, pf_asset_qty = Fin 5,
     pf_balances = \<lparr>bl_cash_available = Fin 990, bl_cash_locked = Fin 10,
       bl_asset_available = Fin 2, bl_asset_locked = Fin 3\<rparr>\<rparr>"

lemma sample_row_ok: "row_ok sample_row"
  by (simp add: row_ok_def balances_ok_iff fixed_cash_def fixed_asset_def sample_row_def cash_cap_def asset_cap_def
      portfolio_cash_total_def portfolio_asset_total_def whole_amounts)

lemma sample_snapshots:
  "calculate_fill_portfolio_snapshot \<lparr>bl_cash_available = Fin 990, bl_cash_locked = Fin 10,
       bl_asset_available = Fin 2, bl_asset_locked = Fin 3\<rparr> ''BUY'' (Fin 10) (Fin 4) (Some (Fin 2)) =
     Inr \<lparr>fs_balances = \<lparr>bl_cash_available = Fin 958, bl_cash_locked = Fin 0, bl_asset_available = Fin 6,
       bl_asset_locked = Fin 3\<rparr>, fs_cash_after = Fin 958, fs_asset_after = Fin 9\<rparr>"
  "calculate_fill_portfolio_snapshot \<lparr>bl_cash_available = Fin 958, bl_cash_locked = Fin 0,
       bl_asset_available = Fin 6, bl_asset_locked = Fin 3\<rparr> ''SELL'' (Fin 20) (Fin 8) None =
     Inr \<lparr>fs_balances = \<lparr>bl_cash_available = Fin 1118, bl_cash_locked = Fin 0, bl_asset_available = Fin 1,
       bl_asset_locked = Fin 0\<rparr>, fs_cash_after = Fin 1118, fs_asset_after = Fin 1\<rparr>"
  by (simp_all add: calculate_fill_portfolio_snapshot_def buy_fill_def sell_fill_def
      consume_locked_then_available_def normalize_portfolio_breakdown_def whole_amounts Let_def)

lemma sample_buy:
  "book_fill start_cash ''BUY'' (Fin 10) (Fin 4) (Some (Fin 2)) None (Some sample_row) =
     (let b = \<lparr>bl_cash_available = Fin 958, bl_cash_locked = Fin 0, bl_asset_available = Fin 6, bl_asset_locked = Fin 3\<rparr>
      in Inr (\<lparr>pf_probe_run_id = None, pf_cash_krw = Fin 958, pf_asset_qty = Fin 9, pf_balances = b\<rparr>,
             \<lparr>fs_balances = b, fs_cash_after = Fin 958, fs_asset_after = Fin 9\<rparr>))"
  by (simp add: book_fill_def get_portfolio_breakdown_def sample_row_def calculate_fill_portfolio_snapshot_def
      buy_fill_def consume_locked_then_available_def normalize_portfolio_breakdown_def set_portfolio_breakdown_def
      init_portfolio_def portfolio_cash_total_def portfolio_asset_total_def clamp_balances_def
      whole_amounts Let_def)

text \<open>
  The books and the recorded trade disagree when the fee of a SELL exceeds the available cash
  and the proceeds: the trade row records the negative cash, the table is clamped to zero.
\<close>

lemma uncovered_sell_fee_is_clamped:
  fixes start_cash :: pyfloat
  defines "b \<equiv> \<lparr>bl_cash_available = Fin 0, bl_cash_locked = Fin 0, bl_asset_available = Fin 2, bl_asset_locked = Fin 0\<rparr>"
  shows "\<exists>r' s. book_fill start_cash ''SELL'' (Fin 10) (Fin 2) (Some (Fin 50)) None
      (Some \<lparr>pf_probe_run_id = None, pf_cash_krw = Fin 0, pf_asset_qty = Fin 2, pf_balances = b\<rparr>) = Inr (r', s) \<and>
    fs_cash_after s = Fin (- 30) \<and> pf_cash_krw r' = Fin 0"
  by (simp add: b_def book_fill_def get_portfolio_breakdown_def calculate_fill_portfolio_snapshot_def
      sell_fill_def consume_locked_then_available_def normalize_portfolio_breakdown_def set_portfolio_breakdown_def
      init_portfolio_def portfolio_cash_total_def portfolio_asset_total_def clamp_balances_def whole_amounts Let_def)

subsection \<open>Properties\<close>

text \<open>
  C23: A booking that succeeds leaves no negative balance in the table, whatever the table held
  before; when the balances are in range, the row is well-formed: its balances are normal
  amounts and its cash and asset columns are their normalized totals, so that reading the
  portfolio returns exactly what was written.
\<close>

theorem book_fill_keeps_books:
  assumes "book_fill start_cash side price qty fee probe_run_id t = Inr (r', s)"
  shows "nonneg_balances (pf_balances r') \<and>
    (in_range (pf_balances r') \<longrightarrow> row_ok r' \<and>
       get_portfolio_breakdown start_cash (Some r') = Inr (r', pf_balances r') \<and>
       get_portfolio start_cash (Some r') = Inr (pf_cash_krw r', pf_asset_qty r'))"
proof -
  from assms obtain b r where "calculate_fill_portfolio_snapshot b side price qty fee = Inr s"
    and set: "set_portfolio_breakdown start_cash (clamp_balances (fs_balances s)) probe_run_id (Some r) = Inr r'"
    by (rule book_fill_Inr)
  then have nn: "nonneg_balances (pf_balances r')" by (rule clamped_set_nonneg)
  then show ?thesis
    using set_portfolio_breakdown_row_ok [OF set] row_ok_get_breakdown row_ok_get_portfolio by blast
qed

theorem book_fill_keeps_books_witness:
  "\<exists>r' s. book_fill (Fin 0) ''BUY'' (Fin 10) (Fin 4) (Some (Fin 2)) None (Some sample_row) = Inr (r', s) \<and>
     nonneg_balances (pf_balances r') \<and> row_ok r' \<and> get_portfolio (Fin 0) (Some r') = Inr (Fin 958, Fin 9)"
proof -
  note bf = sample_buy [of "Fin 0", unfolded Let_def]
  show ?thesis
    using book_fill_keeps_books [OF bf] bf
    by (auto simp: in_range_def cash_cap_def asset_cap_def)
qed

text \<open>
  C24: Fills move the books one way only. From a well-formed row and a fill with non-negative
  price, quantity and fee, a BUY never raises a cash balance or the cash total, never lowers
  the available assets and keeps the locked ones; a SELL never raises an asset balance or the
  asset total and keeps the locked cash. No other side is booked.
\<close>

theorem fill_moves_balances_one_way:
  assumes "row_ok r" and "fill_ok price qty fee"
    and "book_fill start_cash side price qty fee probe_run_id (Some r) = Inr (r', s)"
  shows "side = ''BUY'' \<and>
      fle (bl_cash_available (pf_balances r')) (bl_cash_available (pf_balances r)) \<and>
      fle (bl_cash_locked (pf_balances r')) (bl_cash_locked (pf_balances r)) \<and>
      fle (pf_cash_krw r') (pf_cash_krw r) \<and>
      fle (bl_asset_available (pf_balances r)) (bl_asset_available (pf_balances r')) \<and>
      bl_asset_locked (pf_balances r') = bl_asset_locked (pf_balances r) \<or>
    side = ''SELL'' \<and>
      fle (bl_asset_available (pf_balances r')) (bl_asset_available (pf_balances r)) \<and>
      fle (bl_asset_locked (pf_balances r')) (bl_asset_locked (pf_balances r)) \<and>
      fle (pf_asset_qty r') (pf_asset_qty r) \<and>
      bl_cash_locked (pf_balances r') = bl_cash_locked (pf_balances r)"
proof -
  have ok: "balances_ok (pf_balances r)" using assms(1) by (simp add: row_ok_def)
  have "calculate_fill_portfolio_snapshot (pf_balances r) side price qty fee = Inr s"
    using booked_row [OF assms(1,3)] by simp
  from ok assms(2) this show ?thesis
  proof (rule snapshot_Inr)
    fix p q f
    assume args: "is_double p" "fle (Fin 0) p" "is_double q" "fle (Fin 0) q" "is_double f" "fle (Fin 0) f"
      and f: "side = ''BUY'' \<and> buy_fill (pf_balances r) p q f = Inr (fs_balances s) \<or>
        side = ''SELL'' \<and> sell_fill (pf_balances r) p q f = Inr (fs_balances s)"
    from f show ?thesis
      using booked_buy [OF assms(1,3) args] booked_sell [OF assms(1,3) args(3,4)] by blast
  qed
qed

theorem fill_moves_balances_one_way_witness:
  "\<exists>r' s. book_fill (Fin 0) ''BUY'' (Fin 10) (Fin 4) (Some (Fin 2)) None (Some sample_row) = Inr (r', s) \<and>
     fle (pf_cash_krw r') (pf_cash_krw sample_row)"
proof -
  note bf = sample_buy [of "Fin 0", unfolded Let_def]
  have "fill_ok (Fin 10) (Fin 4) (Some (Fin 2))"
    by (simp add: fill_ok_def double_rat_def rnd_numeral)
  from fill_moves_balances_one_way [OF sample_row_ok this bf] bf show ?thesis by auto
qed

text \<open>
  C22: Replaying fills in memory from the balances of a well-formed row gives exactly what booking
  them one by one in the table leaves there, balances and totals alike, for every run of fills
  that stays in range; both succeed. The table is reread and renormalized between fills, the
  replay is not: the equality rests on normalization being idempotent.
\<close>

theorem replay_agrees_with_booking:
  assumes "row_ok r" and "steady (pf_balances r) rows"
  shows "\<exists>r' s. book_fills start_cash probe_run_id r rows = Inr r' \<and>
    replay_fill_portfolio_snapshot (pf_balances r) rows = Inr s \<and> row_ok r' \<and>
    pf_balances r' = fs_balances s \<and> pf_cash_krw r' = fs_cash_after s \<and> pf_asset_qty r' = fs_asset_after s"
proof -
  define s where "s = \<lparr>fs_balances = pf_balances r, fs_cash_after = pf_cash_krw r, fs_asset_after = pf_asset_qty r\<rparr>"
  have "replay_fill_portfolio_snapshot (pf_balances r) rows = replay_fills s rows"
    using assms(1) by (simp add: replay_fill_portfolio_snapshot_def row_ok_def s_def)
  moreover have "row_shows r s" "steady (fs_balances s) rows"
    using assms by (simp_all add: row_shows_def s_def)
  ultimately show ?thesis
    using book_fills_show_replay unfolding row_shows_def by metis
qed

theorem replay_agrees_with_booking_witness:
  "\<exists>r'. book_fills (Fin 0) None sample_row [(''BUY'', Fin 10, Fin 4, Some (Fin 2)), (''SELL'', Fin 20, Fin 8, None)] = Inr r' \<and>
     pf_balances r' = \<lparr>bl_cash_available = Fin 1118, bl_cash_locked = Fin 0,
       bl_asset_available = Fin 1, bl_asset_locked = Fin 0\<rparr>"
proof -
  let ?rows = "[(''BUY'', Fin 10, Fin 4, Some (Fin 2)), (''SELL'', Fin 20, Fin 8, None)]"
  have steady: "steady (pf_balances sample_row) ?rows"
    by (simp add: sample_snapshots sample_row_def fill_ok_def double_rat_def rnd_numeral in_range_def
        cash_cap_def asset_cap_def)
  have "replay_fill_portfolio_snapshot (pf_balances sample_row) ?rows = Inr s' \<Longrightarrow>
      fs_balances s' = \<lparr>bl_cash_available = Fin 1118, bl_cash_locked = Fin 0,
        bl_asset_available = Fin 1, bl_asset_locked = Fin 0\<rparr>" for s'
    using sample_row_ok
    by (auto simp: replay_fill_portfolio_snapshot_def row_ok_def sample_row_def sample_snapshots)
  then show ?thesis
    using replay_agrees_with_booking [OF sample_row_ok steady] by metis
qed

end
