(* ===== verification/Target_Position.thy ===== *)
theory Target_Position
  imports Py_Value
begin

text \<open>
  The target position engine of \<open>src/src/operation/target_position.py\<close>: the target exposure a signal asks
  for, what blocks it (an unknown or stale broker quantity, a position that has not converged,
  unresolved orders, a fee blocker), and the difference to the current position that would be
  submitted; and the policy that initializes the target on start. SHA-256 is the parameter
  \<open>sha\<close>. A missing payload is \<open>None\<close>.
\<close>

subsection \<open>Data\<close>

record target_settings =
  ts_execution_engine :: string
  ts_shadow_enabled :: bool
  ts_target_exposure_krw :: "pyfloat option"
  ts_max_order_krw :: pyfloat
  ts_hold_policy :: string
  ts_position_mode :: string

record target_state =
  tp_pair :: string
  tp_target_exposure_krw :: pyfloat
  tp_target_qty :: pyfloat
  tp_last_signal :: string
  tp_last_decision_id :: "int option"
  tp_last_reference_price :: pyfloat
  tp_updated_ts :: int
  tp_target_origin :: string
  tp_adoption_reason :: string
  tp_adopted_broker_qty :: "pyfloat option"
  tp_adopted_broker_exposure_krw :: "pyfloat option"
  tp_created_from_signal :: string
  tp_actual_target_authority :: string
  tp_actual_target_authority_scope :: string
  tp_actual_target_source :: string
  tp_runtime_strategy_set_manifest_hash :: string
  tp_runtime_strategy_decision_bundle_hash :: string
  tp_portfolio_allocation_decision_hash :: string
  tp_portfolio_target_hash :: string
  tp_execution_plan_batch_hash :: string
  tp_execution_submit_plan_hash :: string
  tp_actual_target_provenance_hash :: string
  tp_actual_target_provenance_json :: string

text \<open>The flag \<open>provenance_complete\<close>: none of the hashes is blank.\<close>

definition provenance_complete :: "string list \<Rightarrow> bool" where
  "provenance_complete hs \<longleftrightarrow> (\<forall>h \<in> set hs. py_strip h \<noteq> [])"

definition build_actual_pair_target_provenance ::
  "(string \<Rightarrow> string) \<Rightarrow> string \<Rightarrow> string \<Rightarrow> string \<Rightarrow> string \<Rightarrow> string \<Rightarrow> string \<Rightarrow> string \<Rightarrow> string \<Rightarrow> pydict" where
  "build_actual_pair_target_provenance sha pair manifest bundle allocation target batch submit source =
     (let payload =
        [(''schema_version'', VInt 1), (''authority'', VStr ''allocator_derived_pair_actual_target''),
         (''authority_scope'', VStr ''pair''), (''pair'', VStr pair),
         (''source'', VStr (if source = []
            then ''PortfolioAllocator->PortfolioTarget->ExecutionPlanBatch->ExecutionSubmitPlan'' else source)),
         (''provenance_complete'', VBool (provenance_complete [manifest, bundle, allocation, target, batch, submit])),
         (''runtime_strategy_set_manifest_hash'', VStr manifest),
         (''runtime_strategy_decision_bundle_hash'', VStr bundle),
         (''portfolio_allocation_decision_hash'', VStr allocation), (''portfolio_target_hash'', VStr target),
         (''execution_plan_batch_hash'', VStr batch), (''execution_submit_plan_hash'', VStr submit),
         (''strategy_virtual_lifecycle_authority'', VStr ''non_authoritative_observation_only''),
         (''live_submit_authority'', VBool True),
         (''live_submit_authority_source'', VStr ''allocator_derived_pair_target_only'')]
      in AList.update ''actual_target_provenance_hash'' (VStr (sha256_prefixed sha (VDict payload))) payload)"

record startup_decision =
  su_policy_action :: string
  su_target_exposure_krw :: "pyfloat option"
  su_target_qty :: "pyfloat option"
  su_target_origin :: string
  su_adoption_reason :: string
  su_adopted_broker_qty :: "pyfloat option"
  su_adopted_broker_exposure_krw :: "pyfloat option"
  su_created_from_signal :: string
  su_would_submit_on_startup :: bool
  su_block_reason :: string
  su_position_truth_state :: string
  su_dust_classification :: string
  su_existing_state_present :: bool

definition startup_decision_as_dict :: "startup_decision \<Rightarrow> pydict" where
  "startup_decision_as_dict d =
     [(''target_policy_action'', VStr (su_policy_action d)), (''target_origin'', VStr (su_target_origin d)),
      (''target_adoption_reason'', VStr (su_adoption_reason d)),
      (''target_adopted_broker_qty'', opt_float (su_adopted_broker_qty d)),
      (''target_adopted_exposure_krw'', opt_float (su_adopted_broker_exposure_krw d)),
      (''target_startup_policy_state'', VStr (su_position_truth_state d)),
      (''target_existing_state_present'', VBool (su_existing_state_present d)),
      (''target_missing_state_resolution'', VStr (su_policy_action d)),
      (''target_closeout_requested'', VBool (su_target_origin d = ''operator_closeout'')),
      (''target_strategy_signal_source'', VStr (su_created_from_signal d)),
      (''target_would_submit_on_startup'', VBool (su_would_submit_on_startup d)),
      (''actual_target_authority'', VStr ''allocator_derived_pair_actual_target''),
      (''actual_target_authority_scope'', VStr ''pair''),
      (''target_startup_policy_block_reason'', VStr (su_block_reason d))]"

record target_decision =
  td_engine_mode :: string
  td_raw_signal :: string
  td_previous_target_exposure_krw :: "pyfloat option"
  td_new_target_exposure_krw :: "pyfloat option"
  td_hold_policy :: string
  td_state_persistence :: string
  td_reference_price :: "pyfloat option"
  td_current_qty :: "pyfloat option"
  td_current_exposure_krw :: "pyfloat option"
  td_target_qty :: "pyfloat option"
  td_delta_qty :: "pyfloat option"
  td_delta_notional_krw :: "pyfloat option"
  td_delta_side :: string
  td_would_submit :: bool
  td_submit_qty :: "pyfloat option"
  td_submit_notional_krw :: "pyfloat option"
  td_block_reason :: string
  td_position_truth_state :: string
  td_dust_classification :: string
  td_order_rule_min_qty :: "pyfloat option"
  td_order_rule_min_notional_krw :: "pyfloat option"
  td_order_rule_qty_step :: "pyfloat option"
  td_order_rule_authority :: string
  td_order_rule_authority_source :: string
  td_order_rule_authority_source_mode :: string
  td_order_rule_min_qty_source :: string
  td_order_rule_min_notional_krw_source :: string
  td_target_policy_action :: string
  td_target_origin :: string
  td_target_adoption_reason :: string
  td_target_adopted_broker_qty :: "pyfloat option"
  td_target_adopted_exposure_krw :: "pyfloat option"
  td_target_startup_policy_state :: string
  td_target_existing_state_present :: bool
  td_target_missing_state_resolution :: string
  td_target_closeout_requested :: bool
  td_target_strategy_signal_source :: string
  td_position_mode :: string

definition target_decision_as_dict :: "target_decision \<Rightarrow> pydict" where
  "target_decision_as_dict d =
     [(''target_engine_mode'', VStr (td_engine_mode d)), (''target_raw_signal'', VStr (td_raw_signal d)),
      (''target_previous_exposure_krw'', opt_float (td_previous_target_exposure_krw d)),
      (''target_new_exposure_krw'', opt_float (td_new_target_exposure_krw d)),
      (''target_hold_policy'', VStr (td_hold_policy d)), (''target_state_persistence'', VStr (td_state_persistence d)),
      (''target_reference_price'', opt_float (td_reference_price d)), (''target_current_qty'', opt_float (td_current_qty d)),
      (''target_current_exposure_krw'', opt_float (td_current_exposure_krw d)), (''target_qty'', opt_float (td_target_qty d)),
      (''target_delta_qty'', opt_float (td_delta_qty d)), (''target_delta_notional_krw'', opt_float (td_delta_notional_krw d)),
      (''target_delta_side'', VStr (td_delta_side d)), (''target_would_submit'', VBool (td_would_submit d)),
      (''target_submit_qty'', opt_float (td_submit_qty d)), (''target_submit_notional_krw'', opt_float (td_submit_notional_krw d)),
      (''target_block_reason'', VStr (td_block_reason d)), (''target_position_truth_state'', VStr (td_position_truth_state d)),
      (''target_dust_classification'', VStr (td_dust_classification d)),
      (''target_order_rule_min_qty'', opt_float (td_order_rule_min_qty d)),
      (''target_order_rule_min_notional_krw'', opt_float (td_order_rule_min_notional_krw d)),
      (''target_order_rule_qty_step'', opt_float (td_order_rule_qty_step d)),
      (''order_rule_authority'', VStr (td_order_rule_authority d)),
      (''order_rule_authority_source'', VStr (td_order_rule_authority_source d)),
      (''order_rule_authority_source_mode'', VStr (td_order_rule_authority_source_mode d)),
      (''target_order_rule_min_qty_source'', VStr (td_order_rule_min_qty_source d)),
      (''target_order_rule_min_notional_krw_source'', VStr (td_order_rule_min_notional_krw_source d)),
      (''target_policy_action'', VStr (td_target_policy_action d)), (''target_origin'', VStr (td_target_origin d)),
      (''target_adoption_reason'', VStr (td_target_adoption_reason d)),
      (''target_adopted_broker_qty'', opt_float (td_target_adopted_broker_qty d)),
      (''target_adopted_exposure_krw'', opt_float (td_target_adopted_exposure_krw d)),
      (''target_startup_policy_state'', VStr (td_target_startup_policy_state d)),
      (''target_existing_state_present'', VBool (td_target_existing_state_present d)),
      (''target_missing_state_resolution'', VStr (td_target_missing_state_resolution d)),
      (''target_closeout_requested'', VBool (td_target_closeout_requested d)),
      (''target_strategy_signal_source'', VStr (td_target_strategy_signal_source d)),
      (''position_mode'', VStr (td_position_mode d))]"

subsection \<open>Reading the payloads\<close>

definition as_float :: "pyval \<Rightarrow> pyfloat option py" where
  "as_float v =
     (case v of VNone \<Rightarrow> Inr None
      | _ \<Rightarrow> or_default (bind_py (val_float v) (\<lambda>f. Inr (if isfinite f then Some f else None))) None)"

definition as_int :: "pyval \<Rightarrow> int py" where
  "as_int v = or_default (val_int (py_or v (VInt 0))) 0"

text \<open>\<open>str(d.get(k) or "")\<close>\<close>

abbreviation dtext :: "pydict \<Rightarrow> string \<Rightarrow> string" where
  "dtext d k \<equiv> dstr d k []"

definition dict_or_empty :: "pydict option \<Rightarrow> pydict" where
  "dict_or_empty d = (case d of None \<Rightarrow> [] | Some x \<Rightarrow> x)"

text \<open>The broker evidence of the readiness payload, overridden by the snapshot of the position.\<close>

definition broker_evidence_of :: "pydict \<Rightarrow> pydict \<Rightarrow> pydict" where
  "broker_evidence_of payload snapshot = dmerge (dict_value (dget payload ''broker_position_evidence'')) snapshot"

definition configured_target_exposure :: "target_settings \<Rightarrow> pyfloat" where
  "configured_target_exposure s =
     (case ts_target_exposure_krw s of
        Some e \<Rightarrow> if isfinite e \<and> fle (Fin 0) e then e else fmax (Fin 0) (ts_max_order_krw s)
      | None \<Rightarrow> fmax (Fin 0) (ts_max_order_krw s))"

definition signal_of :: "string \<Rightarrow> string" where
  "signal_of raw_signal = py_upper (if raw_signal = [] then ''HOLD'' else raw_signal)"

definition origin_for_signal :: "string \<Rightarrow> pydict \<Rightarrow> string" where
  "origin_for_signal signal payload =
     (let normalized = signal_of signal
      in if normalized = ''BUY'' then ''strategy_buy''
         else if normalized = ''SELL'' then ''strategy_sell''
         else py_strip (dtext payload ''target_origin''))"

fun count_blocker :: "pydict \<Rightarrow> (string \<times> string) list \<Rightarrow> string option py" where
  "count_blocker payload [] = Inr None"
| "count_blocker payload ((k, reason) # ks) =
     bind_py (as_int (dget payload k)) (\<lambda>n. if 0 < n then Inr (Some reason) else count_blocker payload ks)"

text \<open>\<open>k in d and not bool(d.get(k))\<close>\<close>

definition dfalse :: "pydict \<Rightarrow> string \<Rightarrow> bool" where
  "dfalse d k \<longleftrightarrow> dhas d k \<and> \<not> truthy (dget d k)"

definition truth_guards :: "pydict \<Rightarrow> pydict \<Rightarrow> (bool \<times> string) list" where
  "truth_guards payload broker_evidence =
     (let projection = dict_value (dget payload ''projection_convergence'')
      in [(\<not> truthy (dget broker_evidence ''broker_qty_known''), ''broker_qty_unknown''),
          (truthy (dget broker_evidence ''balance_source_stale''), ''balance_snapshot_stale''),
          (dfalse payload ''broker_portfolio_converged'', ''broker_local_not_converged''),
          (dfalse payload ''dust_broker_local_match'', ''broker_local_not_converged''),
          (dfalse (dict_value (dget payload ''raw_holdings'')) ''broker_local_match'', ''broker_local_not_converged''),
          (projection \<noteq> [] \<and> \<not> truthy (dget projection ''converged''), ''projection_not_converged''),
          (dfalse payload ''projection_converged'', ''projection_not_converged'')])"

definition COUNT_BLOCKERS :: "(string \<times> string) list" where
  "COUNT_BLOCKERS =
     [(''open_order_count'', ''open_order_count_nonzero''),
      (''unresolved_open_order_count'', ''unresolved_open_order_count_nonzero''),
      (''recovery_required_count'', ''recovery_required_count_nonzero''),
      (''submit_unknown_count'', ''submit_unknown_count_nonzero'')]"

definition accounting_guards :: "pydict \<Rightarrow> (bool \<times> string) list" where
  "accounting_guards payload =
     [(truthy (dget_or payload ''new_entry_fee_blocker'' (dget payload ''active_fee_accounting_blocker'')),
       ''new_entry_fee_blocker''),
      (dfalse payload ''accounting_projection_ok'', ''accounting_projection_not_ok'')]"

definition first_truth_blocker :: "pydict \<Rightarrow> pydict \<Rightarrow> string option py" where
  "first_truth_blocker payload broker_evidence =
     (case first_reason (truth_guards payload broker_evidence) of
        Some r \<Rightarrow> Inr (Some r)
      | None \<Rightarrow>
          bind_py (count_blocker payload COUNT_BLOCKERS) (\<lambda>r.
          case r of Some r \<Rightarrow> Inr (Some r)
          | None \<Rightarrow> Inr (first_reason (accounting_guards payload))))"

text \<open>\<open>_as_float(rules.get(k))\<close>, with two further keys of the readiness payload.\<close>

definition rule_minimum :: "pydict \<Rightarrow> pydict \<Rightarrow> string \<Rightarrow> string \<Rightarrow> pyfloat option py" where
  "rule_minimum rules payload k fallback =
     bind_py (as_float (dget rules k)) (\<lambda>m.
       case m of Some v \<Rightarrow> Inr (Some v) | None \<Rightarrow> as_float (dget_or payload k (dget payload fallback)))"

subsection \<open>The startup policy\<close>

definition startup_blocked :: "string \<Rightarrow> string \<Rightarrow> startup_decision" where
  "startup_blocked signal reason =
     \<lparr>su_policy_action = ''block_unsafe_state'', su_target_exposure_krw = None, su_target_qty = None,
      su_target_origin = [], su_adoption_reason = [], su_adopted_broker_qty = None,
      su_adopted_broker_exposure_krw = None, su_created_from_signal = signal, su_would_submit_on_startup = False,
      su_block_reason = reason, su_position_truth_state = ''blocked'', su_dust_classification = ''unknown'',
      su_existing_state_present = False\<rparr>"

definition startup_existing :: "string \<Rightarrow> target_state \<Rightarrow> startup_decision" where
  "startup_existing signal st =
     \<lparr>su_policy_action = ''use_existing_target'', su_target_exposure_krw = Some (tp_target_exposure_krw st),
      su_target_qty = Some (tp_target_qty st), su_target_origin = tp_target_origin st,
      su_adoption_reason = tp_adoption_reason st, su_adopted_broker_qty = tp_adopted_broker_qty st,
      su_adopted_broker_exposure_krw = tp_adopted_broker_exposure_krw st,
      su_created_from_signal = (if tp_created_from_signal st = [] then signal else tp_created_from_signal st),
      su_would_submit_on_startup = False, su_block_reason = ''none'', su_position_truth_state = ''existing_target'',
      su_dust_classification = ''not_applicable'', su_existing_state_present = True\<rparr>"

text \<open>The policy for a known broker quantity: flat, dust below the exchange minimum, or adopted.\<close>

definition startup_converged :: "string \<Rightarrow> pyfloat \<Rightarrow> pyfloat \<Rightarrow> pyfloat \<Rightarrow> pyfloat \<Rightarrow> startup_decision" where
  "startup_converged signal broker_qty0 price min_qty min_notional =
     (let broker_qty = fmax (Fin 0) broker_qty0;
          broker_exposure = fmul broker_qty price;
          converged = (startup_blocked signal ''none'')\<lparr>su_position_truth_state := ''converged''\<rparr>
      in if fle broker_qty (lit 1 (-12)) then
           converged\<lparr>su_policy_action := ''initialize_flat_target'', su_target_exposure_krw := Some (Fin 0),
             su_target_qty := Some (Fin 0), su_target_origin := ''flat_start'', su_adoption_reason := ''broker_local_flat'',
             su_dust_classification := ''flat''\<rparr>
         else if flt (fadd broker_qty (lit 1 (-12))) min_qty \<or> flt (fadd broker_exposure (lit 1 (-9))) min_notional then
           converged\<lparr>su_policy_action := ''initialize_true_dust_flat'', su_target_exposure_krw := Some (Fin 0),
             su_target_qty := Some (Fin 0), su_target_origin := ''true_dust_flat'',
             su_adoption_reason := ''broker_qty_below_exchange_minimum'', su_adopted_broker_qty := Some broker_qty,
             su_adopted_broker_exposure_krw := Some broker_exposure, su_dust_classification := ''true_dust''\<rparr>
         else
           converged\<lparr>su_policy_action := ''adopt_existing_broker_position'', su_target_exposure_krw := Some broker_exposure,
             su_target_qty := Some broker_qty, su_target_origin := ''adopted_existing_position'',
             su_adoption_reason := ''safe_converged_executable_broker_position'', su_adopted_broker_qty := Some broker_qty,
             su_adopted_broker_exposure_krw := Some broker_exposure, su_dust_classification := ''executable_position''\<rparr>)"

definition resolve_startup_target_position_policy ::
  "target_state option \<Rightarrow> pydict option \<Rightarrow> pydict option \<Rightarrow> pyfloat option \<Rightarrow> string \<Rightarrow> startup_decision py" where
  "resolve_startup_target_position_policy existing_target_state readiness_payload order_rules reference_price raw_signal =
     (let signal = signal_of raw_signal
      in case existing_target_state of
           Some st \<Rightarrow> Inr (startup_existing signal st)
         | None \<Rightarrow>
             let payload = dict_or_empty readiness_payload;
                 rules = dict_or_empty order_rules;
                 broker_evidence = dict_value (dget payload ''broker_position_evidence'');
                 blocked = (\<lambda>r. Inr (startup_blocked signal r))
             in bind_py (as_float (opt_float reference_price)) (\<lambda>price.
                bind_py (rule_minimum rules payload ''min_qty'' ''residual_proof_min_qty'') (\<lambda>min_qty.
                bind_py (rule_minimum rules payload ''min_notional_krw'' ''residual_proof_min_notional_krw'') (\<lambda>min_notional.
                  case price of None \<Rightarrow> blocked ''missing_reference_price''
                  | Some p \<Rightarrow> if fle p (Fin 0) then blocked ''missing_reference_price'' else
                  case min_qty of None \<Rightarrow> blocked ''missing_order_rule_min_qty''
                  | Some mq \<Rightarrow>
                  case min_notional of None \<Rightarrow> blocked ''missing_order_rule_min_notional_krw''
                  | Some mn \<Rightarrow>
                  bind_py (first_truth_blocker payload broker_evidence) (\<lambda>blocker.
                  case blocker of Some r \<Rightarrow> blocked r
                  | None \<Rightarrow>
                  bind_py (as_float (dget broker_evidence ''broker_qty'')) (\<lambda>broker_qty.
                  case broker_qty of None \<Rightarrow> blocked ''broker_qty_unknown''
                  | Some q \<Rightarrow> Inr (startup_converged signal q p mq mn)))))))"

subsection \<open>The target decision\<close>

definition engine_mode_of :: "target_settings \<Rightarrow> string" where
  "engine_mode_of s =
     (if py_lower (py_strip (if ts_execution_engine s = [] then ''lot_native'' else ts_execution_engine s)) = ''target_delta''
         \<and> \<not> ts_shadow_enabled s
      then ''target_delta'' else ''shadow'')"

text \<open>The fields that every decision starts from.\<close>

definition decision_base ::
  "string \<Rightarrow> pyfloat option \<Rightarrow> pydict \<Rightarrow> pydict \<Rightarrow> pyfloat option \<Rightarrow> pyfloat option \<Rightarrow> pyfloat option \<Rightarrow> pyfloat option \<Rightarrow>
   pyfloat option \<Rightarrow> pyfloat option \<Rightarrow> target_settings \<Rightarrow> target_decision" where
  "decision_base signal previous payload rules price min_qty min_notional qty_step adopted_qty adopted_exposure s =
     (let mode = engine_mode_of s;
          authority = py_str (py_or (dget rules ''order_rule_authority'')
            (py_or (dget rules ''order_rule_authority_source'') (VStr [])))
      in \<lparr>td_engine_mode = mode, td_raw_signal = signal, td_previous_target_exposure_krw = previous,
          td_new_target_exposure_krw = None,
          td_hold_policy = (if ts_hold_policy s = [] then ''maintain_previous_target'' else ts_hold_policy s),
          td_state_persistence = (if previous \<noteq> None \<or> mode = ''target_delta'' then ''persisted'' else ''not_yet_persisted''),
          td_reference_price = price, td_current_qty = None, td_current_exposure_krw = None, td_target_qty = None,
          td_delta_qty = None, td_delta_notional_krw = None, td_delta_side = ''NONE'', td_would_submit = False,
          td_submit_qty = None, td_submit_notional_krw = None, td_block_reason = [],
          td_position_truth_state = ''blocked'', td_dust_classification = ''unknown'',
          td_order_rule_min_qty = min_qty, td_order_rule_min_notional_krw = min_notional,
          td_order_rule_qty_step = qty_step, td_order_rule_authority = authority,
          td_order_rule_authority_source = dstr rules ''order_rule_authority_source'' authority,
          td_order_rule_authority_source_mode = dtext rules ''order_rule_authority_source_mode'',
          td_order_rule_min_qty_source = dtext rules ''order_rule_min_qty_source'',
          td_order_rule_min_notional_krw_source = dtext rules ''order_rule_min_notional_krw_source'',
          td_target_policy_action = dtext payload ''target_policy_action'',
          td_target_origin = origin_for_signal signal payload,
          td_target_adoption_reason = dtext payload ''target_adoption_reason'',
          td_target_adopted_broker_qty = adopted_qty, td_target_adopted_exposure_krw = adopted_exposure,
          td_target_startup_policy_state = dtext payload ''target_startup_policy_state'',
          td_target_existing_state_present = truthy (dget payload ''target_existing_state_present''),
          td_target_missing_state_resolution = dtext payload ''target_missing_state_resolution'',
          td_target_closeout_requested = truthy (dget payload ''target_closeout_requested''),
          td_target_strategy_signal_source = dstr payload ''target_strategy_signal_source'' signal,
          td_position_mode = (if ts_position_mode s \<noteq> [] then ts_position_mode s
            else dstr payload ''position_mode'' ''continuous_notional_target'')\<rparr>)"

text \<open>
  The target exposure: given by the allocator, or by the signal. \<open>Inl\<close> is a reason to block
  with the fields changed before.
\<close>

definition target_exposure_of :: "string \<Rightarrow> pyfloat option \<Rightarrow> pyfloat option \<Rightarrow> target_settings \<Rightarrow> string + pyfloat" where
  "target_exposure_of signal previous authoritative s =
     (case authoritative of
        Some e \<Rightarrow> Inr (fmax (Fin 0) e)
      | None \<Rightarrow>
          if signal = ''BUY'' then Inr (configured_target_exposure s)
          else if signal = ''SELL'' then Inr (Fin 0)
          else if signal = ''HOLD'' then
            (case previous of None \<Rightarrow> Inl ''missing_persistent_target_state'' | Some e \<Rightarrow> Inr (fmax (Fin 0) e))
          else Inl ''unsupported_signal'')"

definition blocked_exposure :: "target_decision \<Rightarrow> string \<Rightarrow> target_decision" where
  "blocked_exposure base reason =
     (if reason = ''missing_persistent_target_state''
      then base\<lparr>td_state_persistence := (if td_engine_mode base = ''target_delta'' then ''missing'' else ''not_yet_persisted''),
             td_block_reason := reason, td_dust_classification := ''hold_target_unknown''\<rparr>
      else base\<lparr>td_block_reason := reason\<rparr>)"

text \<open>The decision for a known position: the difference to the target, if it reaches the minimum.\<close>

definition delta_decision :: "target_decision \<Rightarrow> pyfloat \<Rightarrow> pyfloat \<Rightarrow> pyfloat \<Rightarrow> pyfloat \<Rightarrow> pyfloat \<Rightarrow> target_decision" where
  "delta_decision base target_exposure current_qty0 price min_qty min_notional =
     (let current_qty = fmax (Fin 0) current_qty0;
          target_qty = fmax (Fin 0) (fdiv target_exposure price);
          delta_qty = fsub target_qty current_qty;
          delta_notional = fmul delta_qty price;
          delta_side = (if flt (lit 1 (-12)) delta_qty then ''BUY''
            else if flt delta_qty (fneg (lit 1 (-12))) then ''SELL'' else ''NONE'');
          known = base\<lparr>td_new_target_exposure_krw := Some target_exposure, td_current_qty := Some current_qty,
            td_current_exposure_krw := Some (fmul current_qty price), td_target_qty := Some target_qty,
            td_delta_qty := Some delta_qty, td_delta_notional_krw := Some delta_notional,
            td_position_truth_state := ''converged''\<rparr>
      in if delta_side = ''NONE'' \<or> flt (fadd (fabs delta_qty) (lit 1 (-12))) min_qty \<or>
            flt (fadd (fabs delta_notional) (lit 1 (-9))) min_notional
         then known\<lparr>td_delta_side := ''NONE'', td_submit_qty := Some (Fin 0), td_submit_notional_krw := Some (Fin 0),
                td_block_reason := ''delta_below_exchange_min'', td_dust_classification := ''true_dust''\<rparr>
         else known\<lparr>td_delta_side := delta_side, td_would_submit := True, td_submit_qty := Some (fabs delta_qty),
                td_submit_notional_krw := Some (fabs delta_notional), td_block_reason := ''none'',
                td_dust_classification := ''executable_delta''\<rparr>)"

text \<open>What follows once the target exposure is known: the price, the minima, the truth guards and the quantity.\<close>

definition exposed_decision ::
  "target_decision \<Rightarrow> pyfloat \<Rightarrow> pydict \<Rightarrow> pydict \<Rightarrow> pydict \<Rightarrow> pyfloat option \<Rightarrow> pyfloat option \<Rightarrow> pyfloat option \<Rightarrow>
   target_decision py" where
  "exposed_decision base target_exposure payload broker_evidence current_snapshot price min_qty min_notional =
     (let exposed = base\<lparr>td_new_target_exposure_krw := Some target_exposure\<rparr>;
          blocked = (\<lambda>r. Inr (exposed\<lparr>td_block_reason := r\<rparr>))
      in case price of None \<Rightarrow> blocked ''missing_reference_price''
         | Some p \<Rightarrow> if fle p (Fin 0) then blocked ''missing_reference_price'' else
         case min_qty of None \<Rightarrow> blocked ''missing_order_rule_min_qty''
         | Some mq \<Rightarrow>
         case min_notional of None \<Rightarrow> blocked ''missing_order_rule_min_notional_krw''
         | Some mn \<Rightarrow>
         bind_py (first_truth_blocker payload broker_evidence) (\<lambda>blocker.
         bind_py (as_float (dget broker_evidence ''broker_qty'')) (\<lambda>q0.
         bind_py (case q0 of Some q \<Rightarrow> Inr (Some q) | None \<Rightarrow> as_float (dget current_snapshot ''current_qty'')) (\<lambda>current_qty.
         case blocker of
           Some r \<Rightarrow> Inr (exposed\<lparr>td_current_qty := current_qty,
             td_current_exposure_krw := map_option (\<lambda>q. fmul (fmax (Fin 0) q) p) current_qty, td_block_reason := r\<rparr>)
         | None \<Rightarrow>
         case current_qty of None \<Rightarrow> blocked ''broker_qty_unknown''
         | Some q \<Rightarrow> Inr (delta_decision base target_exposure q p mq mn)))))"

definition build_target_position_decision ::
  "string \<Rightarrow> pyfloat option \<Rightarrow> pydict option \<Rightarrow> pydict option \<Rightarrow> pydict option \<Rightarrow> pyfloat option \<Rightarrow> target_settings \<Rightarrow>
   pyfloat option \<Rightarrow> target_decision py" where
  "build_target_position_decision raw_signal previous current_position_snapshot readiness_payload order_rules
     reference_price s authoritative =
     (let payload = dict_or_empty readiness_payload;
          current_snapshot = dict_or_empty current_position_snapshot;
          rules = dict_or_empty order_rules;
          broker_evidence = broker_evidence_of payload current_snapshot;
          signal = signal_of raw_signal
      in bind_py (as_float (opt_float reference_price)) (\<lambda>price.
         bind_py (rule_minimum rules payload ''min_qty'' ''residual_proof_min_qty'') (\<lambda>min_qty.
         bind_py (rule_minimum rules payload ''min_notional_krw'' ''residual_proof_min_notional_krw'') (\<lambda>min_notional.
         bind_py (as_float (dget rules ''qty_step'')) (\<lambda>qty_step.
         bind_py (as_float (dget payload ''target_adopted_broker_qty'')) (\<lambda>adopted_qty.
         bind_py (as_float (dget payload ''target_adopted_exposure_krw'')) (\<lambda>adopted_exposure.
           let base = decision_base signal previous payload rules price min_qty min_notional qty_step adopted_qty adopted_exposure s
           in case target_exposure_of signal previous authoritative s of
                Inl reason \<Rightarrow> Inr (blocked_exposure base reason)
              | Inr target_exposure \<Rightarrow>
                  exposed_decision base target_exposure payload broker_evidence current_snapshot price min_qty min_notional)))))))"

end
