(* ===== verification/Py_Decimal_Context.thy ===== *)
theory Py_Decimal_Context
  imports Py_Decimal
begin

text \<open>
  Decimal arithmetic under the default context of Python: the exact result rounded to 28
  significant digits, ties to even. A decimal is the rational it denotes; the exponents of
  the program's amounts stay far from the limits of the context (a million), so there is
  neither overflow nor underflow. The laws the quantity arithmetic uses (monotone, keeps every
  decimal of 28 digits, relative error) are the locale \<open>decimal_rounding\<close>; \<open>dec_round\<close> is
  an instance.
\<close>

subsection \<open>Rounding to 28 digits\<close>

definition dec_round_pos :: "rat \<Rightarrow> rat" where
  "dec_round_pos q = (let u = 10 powi (rlog10 q - 27) in of_int (rne (q / u)) * u)"

definition dec_round :: "rat \<Rightarrow> rat" where
  "dec_round q = (if q = 0 then 0 else if q < 0 then - dec_round_pos (- q) else dec_round_pos q)"

definition dec_add :: "rat \<Rightarrow> rat \<Rightarrow> rat" where
  "dec_add a b = dec_round (a + b)"

definition dec_sub :: "rat \<Rightarrow> rat \<Rightarrow> rat" where
  "dec_sub a b = dec_round (a - b)"

definition dec_mul :: "rat \<Rightarrow> rat \<Rightarrow> rat" where
  "dec_mul a b = dec_round (a * b)"

text \<open>Division; every division of the modelled code has a positive divisor.\<close>

definition dec_div :: "rat \<Rightarrow> rat \<Rightarrow> rat" where
  "dec_div a b = dec_round (a / b)"

subsection \<open>Facts on rounding\<close>

lemma ten_powi_mono: "a \<le> b \<Longrightarrow> (10 :: rat) powi a \<le> 10 powi b"
  by (intro power_int_increasing) simp_all

lemma ten_powi_pos [simp]: "0 < (10 :: rat) powi e"
  by simp

lemma rlog10_mono:
  assumes "0 < p" and "p \<le> q"
  shows "rlog10 p \<le> rlog10 q"
proof -
  have "(10 :: rat) powi rlog10 p < 10 powi (rlog10 q + 1)"
    using rlog10_bounds [OF assms(1)] rlog10_bounds [of q] assms by linarith
  then show ?thesis by (simp add: ten_powi_less_iff)
qed

lemma dec_round_pos_bounds:
  assumes "0 < q"
  shows "10 powi rlog10 q \<le> dec_round_pos q \<and> dec_round_pos q \<le> 10 powi (rlog10 q + 1)"
proof -
  let ?u = "10 powi (rlog10 q - 27) :: rat"
  have u: "10 powi rlog10 q = of_int (10 ^ 27) * ?u" "10 powi (rlog10 q + 1) = of_int (10 ^ 28) * ?u"
    by (simp_all add: power_int_diff power_int_add)
  have b: "of_int (10 ^ 27) * ?u \<le> q" "q \<le> of_int (10 ^ 28) * ?u"
    using rlog10_bounds [OF assms] unfolding u by simp_all
  have lo: "of_int (10 ^ 27) \<le> q / ?u" using b(1) by (simp only: pos_le_divide_eq ten_powi_pos)
  have hi: "q / ?u \<le> of_int (10 ^ 28)" using b(2) by (simp only: pos_divide_le_eq ten_powi_pos)
  have "of_int (10 ^ 27) * ?u \<le> of_int (rne (q / ?u)) * ?u"
    using rne_ge_int [OF lo] by (intro mult_right_mono) (simp_all only: of_int_le_iff less_imp_le ten_powi_pos)
  moreover have "of_int (rne (q / ?u)) * ?u \<le> of_int (10 ^ 28) * ?u"
    using rne_le_int [OF hi] by (intro mult_right_mono) (simp_all only: of_int_le_iff less_imp_le ten_powi_pos)
  ultimately show ?thesis unfolding u dec_round_pos_def Let_def by simp
qed

lemma dec_round_pos_mono:
  assumes "0 < p" and "p \<le> q"
  shows "dec_round_pos p \<le> dec_round_pos q"
proof (cases "rlog10 p = rlog10 q")
  case True
  have "p / 10 powi (rlog10 q - 27) \<le> q / 10 powi (rlog10 q - 27)"
    using assms(2) by (intro divide_right_mono) simp_all
  then show ?thesis
    unfolding dec_round_pos_def Let_def True
    by (intro mult_right_mono) (simp_all only: of_int_le_iff rne_mono less_imp_le ten_powi_pos)
next
  case False
  then have "rlog10 p + 1 \<le> rlog10 q" using rlog10_mono [OF assms] by simp
  then have "(10 :: rat) powi (rlog10 p + 1) \<le> 10 powi rlog10 q" by (rule ten_powi_mono)
  then show ?thesis
    using dec_round_pos_bounds [OF assms(1)] dec_round_pos_bounds [of q] assms by linarith
qed

lemma dec_round_pos_pos: "0 < q \<Longrightarrow> 0 < dec_round_pos q"
  using dec_round_pos_bounds [of q] ten_powi_pos [of "rlog10 q"] by linarith

lemma dec_round_mono:
  assumes "p \<le> q"
  shows "dec_round p \<le> dec_round q"
  using assms dec_round_pos_mono [of p q] dec_round_pos_mono [of "- q" "- p"]
    dec_round_pos_pos [of "- p"] dec_round_pos_pos [of q]
  by (auto simp: dec_round_def)

lemma dec_round_pos_error:
  assumes "0 < q"
  shows "\<bar>dec_round_pos q - q\<bar> \<le> q / (2 * 10 ^ 27)"
proof -
  let ?u = "10 powi (rlog10 q - 27) :: rat"
  have "dec_round_pos q - q = (of_int (rne (q / ?u)) - q / ?u) * ?u"
    by (simp add: dec_round_pos_def Let_def left_diff_distrib)
  then have "\<bar>dec_round_pos q - q\<bar> = \<bar>of_int (rne (q / ?u)) - q / ?u\<bar> * ?u"
    by (simp add: abs_mult)
  also have "\<dots> \<le> 1 / 2 * ?u"
    by (intro mult_right_mono rne_half) simp
  also have "\<dots> = 10 powi rlog10 q / (2 * 10 ^ 27)"
    by (simp add: power_int_diff)
  also have "\<dots> \<le> q / (2 * 10 ^ 27)"
    using rlog10_bounds [OF assms] by (intro divide_right_mono) simp_all
  finally show ?thesis .
qed

lemma dec_round_pos_fix:
  assumes "0 < c" and "c < 10 ^ 28"
  shows "dec_round_pos (of_int c * 10 powi e) = of_int c * 10 powi e"
proof -
  define q where "q = (of_int c * 10 powi e :: rat)"
  have q: "0 < q" using assms by (simp add: q_def)
  define l where "l = rlog10 q - 27"
  have "(of_int c :: rat) < of_int (10 ^ 28)" using assms(2) by (simp only: of_int_less_iff)
  then have "q < of_int (10 ^ 28) * 10 powi e" unfolding q_def by (simp only: mult_less_cancel_right_pos ten_powi_pos)
  also have "\<dots> = 10 powi (28 + e)" by (simp add: power_int_add)
  finally have "10 powi rlog10 q < (10 :: rat) powi (28 + e)" using rlog10_bounds [OF q] by linarith
  then have "l \<le> e" by (simp add: ten_powi_less_iff l_def)
  then obtain k where k: "e = l + int k" by (metis zle_iff_zadd)
  then have "q = of_int (c * 10 ^ k) * 10 powi l" by (simp add: q_def ten_powi_add)
  then have "dec_round_pos q = q"
    unfolding dec_round_pos_def Let_def l_def [symmetric]
    by (simp only: nonzero_mult_div_cancel_right rne_of_int) (simp add: rne_of_int del: of_int_mult)
  then show ?thesis by (simp add: q_def)
qed

lemma dec_round_fix:
  assumes "\<bar>c\<bar> < 10 ^ 28"
  shows "dec_round (of_int c * 10 powi e) = of_int c * 10 powi e"
proof -
  have sgn: "(of_int c * 10 powi e < (0 :: rat)) = (c < 0)" "(of_int c * 10 powi e = (0 :: rat)) = (c = 0)"
    using less_asym [OF ten_powi_pos [of e]] by (auto simp: mult_less_0_iff)
  show ?thesis
    using dec_round_pos_fix [of c e] dec_round_pos_fix [of "- c" e] assms sgn
    by (auto simp: dec_round_def)
qed

lemma dec_round_zero [simp]: "dec_round 0 = 0"
  by (simp add: dec_round_def)

subsection \<open>The interface\<close>

locale decimal_rounding =
  fixes round_to :: "rat \<Rightarrow> rat"
  assumes round_mono: "p \<le> q \<Longrightarrow> round_to p \<le> round_to q"
    and round_fix: "\<bar>c\<bar> < 10 ^ 28 \<Longrightarrow> round_to (of_int c * 10 powi e) = of_int c * 10 powi e"
    and round_error: "0 < q \<Longrightarrow> \<bar>round_to q - q\<bar> \<le> q / (2 * 10 ^ 27)"
begin

lemma round_int: "\<bar>c\<bar> < 10 ^ 28 \<Longrightarrow> round_to (of_int c) = of_int c"
  using round_fix [of c 0] by simp

lemma round_less_int: "\<bar>c\<bar> < 10 ^ 28 \<Longrightarrow> round_to q < of_int c \<Longrightarrow> q < of_int c"
  using round_mono [of "of_int c" q] round_int [of c] by linarith

lemma round_nonneg: "0 \<le> q \<Longrightarrow> 0 \<le> round_to q"
  using round_mono [of 0 q] round_int [of 0] by simp

text \<open>
  The quotient of two decimals of at most 17 digits is never rounded up to an integer that it
  does not reach, as long as it stays below \<open>10^10\<close>.
\<close>

lemma floor_quotient:
  assumes q: "q = of_int a * 10 powi i" "0 \<le> a" "a \<le> 10 ^ 17"
    and s: "s = of_int b * 10 powi j" "0 < b" "b \<le> 10 ^ 17"
    and small: "q / s < 10 ^ 10" and n: "of_int n \<le> round_to (q / s)"
  shows "of_int n * s \<le> q"
proof (rule ccontr)
  assume not: "\<not> of_int n * s \<le> q"
  have s_pos: "0 < s" using s by simp
  have q_nonneg: "0 \<le> q" using q by simp
  have lt: "q / s < of_int n" using not s_pos by (simp add: pos_divide_less_eq)
  have q_pos: "0 < q"
  proof (rule ccontr)
    assume "\<not> 0 < q"
    then have "q = 0" using q_nonneg by simp
    then show False using n lt round_int [of 0] by simp
  qed
  then have t_pos: "0 < q / s" using s_pos by simp
  have a_pos: "0 < a" using q q_pos by (simp add: zero_less_mult_iff)
  have err: "of_int n - q / s \<le> (q / s) / (2 * 10 ^ 27)"
    using round_error [OF t_pos] n by linarith
  have gap: "1 / 10 ^ 17 \<le> of_int n - q / s \<or> (q / s) / 10 ^ 17 \<le> of_int n - q / s"
  proof (cases "j \<le> i")
    case True
    then obtain k where k: "i = j + int k" by (metis zle_iff_zadd)
    have "q = of_int (a * 10 ^ k) * 10 powi j" by (simp add: q(1) k ten_powi_add)
    then have "of_int (a * 10 ^ k) < (of_int (n * b) :: rat)" using not s(1) by (simp add: mult.assoc [symmetric])
    then have "a * 10 ^ k + 1 \<le> n * b" by (simp only: of_int_less_iff zless_imp_add1_zle)
    then have "of_int (a * 10 ^ k) + 1 \<le> (of_int (n * b) :: rat)" by (metis of_int_1 of_int_add of_int_le_iff)
    moreover have "q / s = of_int (a * 10 ^ k) / of_int b"
      using \<open>q = of_int (a * 10 ^ k) * 10 powi j\<close> s by simp
    ultimately have "1 / of_int b \<le> of_int n - q / s"
      using s(2) by (simp add: field_simps)
    moreover have "1 / 10 ^ 17 \<le> (1 / of_int b :: rat)"
    proof (intro divide_left_mono)
      have "(of_int b :: rat) \<le> of_int (10 ^ 17)" using s(3) by (simp only: of_int_le_iff)
      then show "(of_int b :: rat) \<le> 10 ^ 17" by simp
    qed (use s(2) in simp_all)
    ultimately show ?thesis by linarith
  next
    case False
    then obtain k where k: "j = i + int k" by (metis zle_iff_zadd linear)
    have sk: "s = of_int (b * 10 ^ k) * 10 powi i" by (simp add: s(1) k ten_powi_add)
    have "of_int a * 10 powi i < of_int (n * (b * 10 ^ k)) * (10 powi i :: rat)"
      using not q(1) sk by (simp add: mult.assoc)
    then have "a < n * (b * 10 ^ k)" by (simp only: mult_less_cancel_right_pos ten_powi_pos of_int_less_iff)
    then have "of_int (a + 1) \<le> (of_int (n * (b * 10 ^ k)) :: rat)" by (simp only: of_int_le_iff zless_imp_add1_zle)
    then have "of_int (a + 1) * 10 powi i \<le> of_int n * s"
      using sk by (simp add: mult.assoc [symmetric])
    then have "(of_int a * 10 powi i + 10 powi i) / s \<le> of_int n"
      using s_pos by (simp add: pos_divide_le_eq distrib_right)
    then have "10 powi i / s \<le> of_int n - q / s" using q(1) by (simp add: add_divide_distrib)
    moreover have "(q / s) / 10 ^ 17 \<le> 10 powi i / s"
    proof -
      have "(of_int a :: rat) \<le> of_int (10 ^ 17)" using q(3) by (simp only: of_int_le_iff)
      then have "q \<le> 10 ^ 17 * 10 powi i" unfolding q(1) by (intro mult_right_mono) simp_all
      then have "q / 10 ^ 17 \<le> 10 powi i" by (simp add: divide_le_eq mult.commute)
      then have "(q / 10 ^ 17) / s \<le> 10 powi i / s" using s_pos by (intro divide_right_mono) simp_all
      then show ?thesis by (simp add: field_simps)
    qed
    ultimately show ?thesis by linarith
  qed
  then show False
    using err small t_pos by (auto simp: field_simps)
qed

end

interpretation dec28: decimal_rounding dec_round
proof
  show "\<bar>dec_round q - q\<bar> \<le> q / (2 * 10 ^ 27)" if "0 < q" for q
    using dec_round_pos_error [OF that] that by (simp add: dec_round_def)
qed (fact dec_round_mono dec_round_fix)+

subsection \<open>The digits of a converted double\<close>

lemma dec_pos_digits:
  assumes "0 < q" and "double_rat q"
  shows "\<exists>m e. dec_pos q = of_int m * 10 powi e \<and> 0 \<le> m \<and> m \<le> 10 ^ 17"
proof -
  obtain m n where d: "dec_pos q = of_int m * 10 powi (rlog10 q + 1 - int n)" "n \<le> 17" "m \<in> set (repr_candidates q n)"
    using dec_pos_result [OF assms] by metis
  let ?s = "10 powi (int n - 1 - rlog10 q) :: rat"
  have m: "m = \<lfloor>q * ?s\<rfloor> \<or> m = \<lfloor>q * ?s\<rfloor> + 1"
    using repr_candidates_hd [of q n] d(3) by fastforce
  have "q * ?s < 10 powi (rlog10 q + 1) * ?s"
    using rlog10_bounds [OF assms(1)] by (intro mult_strict_right_mono) simp_all
  also have "\<dots> = of_int (10 ^ n)" by (simp flip: ten_powi_add)
  finally have "\<lfloor>q * ?s\<rfloor> < 10 ^ n" by (simp only: floor_less_iff)
  moreover have "0 \<le> \<lfloor>q * ?s\<rfloor>" using assms(1) by simp
  moreover have "(10 :: int) ^ n \<le> 10 ^ 17" using d(2) by (intro power_increasing) simp_all
  ultimately have "0 \<le> m \<and> m \<le> 10 ^ 17" using m by linarith
  then show ?thesis using d(1) by blast
qed

lemma dec_of_float_digits:
  assumes "0 \<le> q" and "double_rat q"
  shows "\<exists>m e. dec_of_float q = of_int m * 10 powi e \<and> 0 \<le> m \<and> m \<le> 10 ^ 17"
proof (cases "q = 0")
  case True
  then show ?thesis by (intro exI [of _ 0]) (simp add: dec_of_float_def)
next
  case False
  then show ?thesis using dec_pos_digits [of q] assms by (simp add: dec_of_float_def)
qed

lemma dec_of_float_pos_iff:
  assumes "double_rat q"
  shows "0 < dec_of_float q \<longleftrightarrow> 0 < q" "0 \<le> dec_of_float q \<longleftrightarrow> 0 \<le> q"
proof -
  have r: "rnd (dec_of_float q) = Fin q" by (rule dec_of_float_roundtrip [OF assms])
  have "dec_of_float q \<le> 0 \<Longrightarrow> q \<le> 0" "0 \<le> dec_of_float q \<Longrightarrow> 0 \<le> q"
    using rnd_mono [of "dec_of_float q" 0] rnd_mono [of 0 "dec_of_float q"] r by simp_all
  moreover have "q \<le> 0 \<Longrightarrow> dec_of_float q \<le> 0" "0 \<le> q \<Longrightarrow> 0 \<le> dec_of_float q"
    using dec_of_float_mono [of q 0] dec_of_float_mono [of 0 q] assms by (simp_all add: dec_of_float_def)
  ultimately show "0 < dec_of_float q \<longleftrightarrow> 0 < q" "0 \<le> dec_of_float q \<longleftrightarrow> 0 \<le> q" by linarith+
qed

subsection \<open>Whole numbers\<close>

text \<open>Evaluation on whole numbers, for concrete examples.\<close>

lemma dec_round_numeral: "(numeral n :: int) < 10 ^ 28 \<Longrightarrow> dec_round (numeral n) = numeral n"
  using dec28.round_int [of "numeral n"] by simp

lemma dec_of_float_numeral: "(numeral n :: int) < 2 ^ 53 \<Longrightarrow> dec_of_float (numeral n) = numeral n"
  using dec_of_float_of_int [of "numeral n"] by simp

lemma whole_unit: "dec_of_float 1 = 1" "dec_round 1 = 1" "dec_round 0 = 0" "dec_of_float 0 = 0"
  using dec_of_float_of_int [of 1] dec28.round_int [of 1] by (simp_all add: dec_round_def dec_of_float_def)

lemmas whole_numbers = dec_round_numeral dec_of_float_numeral whole_unit rnd_numeral rnd_neg_numeral

end
