(* ===== verification/Quantity_Kernel.thy ===== *)
theory Quantity_Kernel
  imports Py_Decimal_Context Py_Value
begin

text \<open>
  The quantity kernel of \<open>src/src/operation/quantity_kernel.py\<close>: the exchange rules of a market, the
  flooring of a quantity to the exchange step and precision, and the plans for a purchase by
  notional and a sale by quantity. SHA-256 is the parameter \<open>sha\<close>. The number of decimals
  of the rules is taken to stay within the exponent range of the decimal context (a million).
\<close>

subsection \<open>Exchange rules\<close>

record order_rule_snapshot =
  or_min_qty :: pyfloat
  or_qty_step :: pyfloat
  or_max_qty_decimals :: int
  or_min_notional_krw :: pyfloat
  or_order_type_buy :: string
  or_order_type_sell :: string
  or_qty_step_authority :: string

text \<open>\<open>x not in {None, ""}\<close> raises for an unhashable \<open>x\<close>.\<close>

fun not_none_or_empty :: "pyval \<Rightarrow> bool py" where
  "not_none_or_empty (VList _) = Inl TypeError"
| "not_none_or_empty (VDict _) = Inl TypeError"
| "not_none_or_empty v = Inr (v \<noteq> VNone \<and> v \<noteq> VStr [])"

definition order_rules_from_mapping :: "pydict \<Rightarrow> order_rule_snapshot py" where
  "order_rules_from_mapping payload =
     (let raw_qty_step = dget payload ''qty_step'';
          authority = py_strip (dstr payload ''qty_step_authority'' [])
      in bind_py (val_float (py_or raw_qty_step (VFloat (Fin 0)))) (\<lambda>qty_step.
         bind_py (if authority \<noteq> [] then Inr authority
                  else bind_py (not_none_or_empty raw_qty_step) (\<lambda>given.
                    Inr (if given \<and> flt (Fin 0) qty_step then ''exchange'' else ''missing''))) (\<lambda>qty_step_authority.
         bind_py (val_float (py_or (dget payload ''min_qty'') (VFloat (Fin 0)))) (\<lambda>min_qty.
         bind_py (val_int (py_or (dget_or payload ''max_qty_decimals''
                    (dget_or payload ''LIVE_ORDER_MAX_QTY_DECIMALS'' (VInt 8))) (VInt 0))) (\<lambda>max_qty_decimals.
         bind_py (val_float (py_or (dget payload ''min_notional_krw'') (VFloat (Fin 0)))) (\<lambda>min_notional_krw.
           Inr \<lparr>or_min_qty = min_qty, or_qty_step = qty_step, or_max_qty_decimals = max_qty_decimals,
                or_min_notional_krw = min_notional_krw, or_order_type_buy = dstr payload ''order_type_buy'' ''price'',
                or_order_type_sell = dstr payload ''order_type_sell'' ''market'',
                or_qty_step_authority = qty_step_authority\<rparr>))))))"

definition order_rules_as_dict :: "order_rule_snapshot \<Rightarrow> pydict" where
  "order_rules_as_dict r =
     [(''schema_version'', VInt 1), (''min_qty'', VFloat (or_min_qty r)), (''qty_step'', VFloat (or_qty_step r)),
      (''max_qty_decimals'', VInt (or_max_qty_decimals r)), (''min_notional_krw'', VFloat (or_min_notional_krw r)),
      (''order_type_buy'', VStr (or_order_type_buy r)), (''order_type_sell'', VStr (or_order_type_sell r)),
      (''qty_step_authority'', VStr (or_qty_step_authority r))]"

definition order_rules_contract_hash :: "(string \<Rightarrow> string) \<Rightarrow> order_rule_snapshot \<Rightarrow> string py" where
  "order_rules_contract_hash sha r = artifact_sha256_prefixed sha (VDict (order_rules_as_dict r))"

record kernel_result =
  kr_side :: string
  kr_requested_qty :: pyfloat
  kr_constrained_qty :: pyfloat
  kr_submitted_qty :: pyfloat
  kr_submitted_notional_krw :: pyfloat
  kr_residual_qty :: pyfloat
  kr_exchange_submit_field :: string
  kr_exchange_order_type :: string
  kr_allowed :: bool
  kr_block_reason :: string
  kr_quantity_contract_hash :: string
  kr_qty_step_authority :: string
  kr_residual_policy :: string
  kr_residual_reason :: string

definition kernel_result_as_dict :: "kernel_result \<Rightarrow> pydict" where
  "kernel_result_as_dict k =
     [(''side'', VStr (kr_side k)), (''requested_qty'', VFloat (kr_requested_qty k)),
      (''constrained_qty'', VFloat (kr_constrained_qty k)), (''submitted_qty'', VFloat (kr_submitted_qty k)),
      (''submitted_notional_krw'', VFloat (kr_submitted_notional_krw k)), (''residual_qty'', VFloat (kr_residual_qty k)),
      (''exchange_submit_field'', VStr (kr_exchange_submit_field k)),
      (''exchange_order_type'', VStr (kr_exchange_order_type k)), (''allowed'', VBool (kr_allowed k)),
      (''block_reason'', VStr (kr_block_reason k)), (''quantity_contract_hash'', VStr (kr_quantity_contract_hash k)),
      (''qty_step_authority'', VStr (kr_qty_step_authority k)), (''residual_policy'', VStr (kr_residual_policy k)),
      (''residual_reason'', VStr (kr_residual_reason k))]"

subsection \<open>Flooring\<close>

definition quantity_decimal :: "pyfloat \<Rightarrow> rat py" where
  "quantity_decimal v =
     (case v of Fin q \<Rightarrow> Inr (dec_of_float q)
      | _ \<Rightarrow> Inl (ValueError (''invalid non-finite quantity value: '' @ py_repr v)))"

definition effective_step :: "order_rule_snapshot \<Rightarrow> rat py" where
  "effective_step rules =
     bind_py (quantity_decimal (or_qty_step rules)) (\<lambda>s.
       let step = max s 0
       in if 0 < step then Inr step
          else bind_py (quantity_decimal (or_min_qty rules)) (\<lambda>m.
            let min_qty = max m 0
            in if 0 < min_qty then Inr min_qty
               else let decimals = max 0 (or_max_qty_decimals rules)
                    in Inr (if decimals \<noteq> 0 then 1 / 10 ^ nat decimals else 0)))"

text \<open>Quantizing to a number of places, unless it is zero.\<close>

definition quantize_places :: "(rat \<Rightarrow> int) \<Rightarrow> int \<Rightarrow> rat \<Rightarrow> rat py" where
  "quantize_places to_int decimals d =
     (if max 0 decimals \<noteq> 0 then dec_quantize to_int (nat (max 0 decimals)) d else Inr d)"

text \<open>Rounding to a multiple of the step, unless it is zero.\<close>

definition to_step :: "(rat \<Rightarrow> int) \<Rightarrow> rat \<Rightarrow> rat \<Rightarrow> rat" where
  "to_step to_int step d = (if 0 < step then dec_mul (of_int (to_int (dec_div d step))) step else d)"

definition floor_qty :: "pyfloat \<Rightarrow> order_rule_snapshot \<Rightarrow> pyfloat py" where
  "floor_qty qty rules =
     bind_py (quantity_decimal qty) (\<lambda>d.
     bind_py (effective_step rules) (\<lambda>step.
     bind_py (quantize_places floor (or_max_qty_decimals rules) (to_step floor step (max d 0))) (\<lambda>normalized.
       Inr (fmax (Fin 0) (rnd normalized)))))"

definition quantize_decimals_floor :: "pyfloat \<Rightarrow> int \<Rightarrow> pyfloat py" where
  "quantize_decimals_floor qty max_qty_decimals =
     bind_py (quantity_decimal qty) (\<lambda>d.
     bind_py (quantize_places floor max_qty_decimals (max d 0)) (\<lambda>normalized.
       Inr (fmax (Fin 0) (rnd normalized))))"

subsection \<open>Plans\<close>

definition kernel_allowed :: "order_rule_snapshot \<Rightarrow> pyfloat \<Rightarrow> pyfloat \<Rightarrow> bool" where
  "kernel_allowed rules constrained_qty submitted_notional \<longleftrightarrow>
     fle (or_min_qty rules) constrained_qty \<and> fle (or_min_notional_krw rules) submitted_notional"

definition plan_buy_notional ::
  "(string \<Rightarrow> string) \<Rightarrow> pyfloat \<Rightarrow> pyfloat \<Rightarrow> order_rule_snapshot \<Rightarrow> kernel_result py" where
  "plan_buy_notional sha requested_notional_krw price rules =
     (let requested_notional = fmax (Fin 0) requested_notional_krw;
          requested_qty = (if flt (Fin 0) price then fdiv requested_notional price else Fin 0)
      in bind_py (floor_qty requested_qty rules) (\<lambda>constrained_qty.
         let submitted_notional = fmul constrained_qty price;
             allowed = kernel_allowed rules constrained_qty submitted_notional;
             contract = [(''operation'', VStr ''buy_notional''), (''requested_notional_krw'', VFloat requested_notional),
               (''reference_price'', VFloat price), (''rules'', VDict (order_rules_as_dict rules))]
         in bind_py (artifact_sha256_prefixed sha (VDict contract)) (\<lambda>contract_hash.
            Inr \<lparr>kr_side = ''BUY'', kr_requested_qty = requested_qty, kr_constrained_qty = constrained_qty,
              kr_submitted_qty = (if allowed then constrained_qty else Fin 0),
              kr_submitted_notional_krw = (if allowed then submitted_notional else Fin 0),
              kr_residual_qty = fmax (Fin 0) (fsub requested_qty constrained_qty),
              kr_exchange_submit_field = ''price'', kr_exchange_order_type = or_order_type_buy rules,
              kr_allowed = allowed,
              kr_block_reason = (if allowed then ''none'' else ''quantity_kernel_buy_below_exchange_minimum''),
              kr_quantity_contract_hash = contract_hash,
              kr_qty_step_authority = or_qty_step_authority rules, kr_residual_policy = ''none'',
              kr_residual_reason = ''none''\<rparr>)))"

definition plan_sell_qty ::
  "(string \<Rightarrow> string) \<Rightarrow> pyfloat \<Rightarrow> pyfloat \<Rightarrow> order_rule_snapshot \<Rightarrow> kernel_result py" where
  "plan_sell_qty sha requested_qty price rules =
     (let requested = fmax (Fin 0) requested_qty
      in bind_py (floor_qty requested rules) (\<lambda>constrained_qty.
         let submitted_notional = fmul constrained_qty price;
             allowed = kernel_allowed rules constrained_qty submitted_notional;
             contract = [(''operation'', VStr ''sell_qty''), (''requested_qty'', VFloat requested),
               (''reference_price'', VFloat price), (''rules'', VDict (order_rules_as_dict rules))];
             residual = fmax (Fin 0) (fsub requested constrained_qty)
         in bind_py (artifact_sha256_prefixed sha (VDict contract)) (\<lambda>contract_hash.
            Inr \<lparr>kr_side = ''SELL'', kr_requested_qty = requested, kr_constrained_qty = constrained_qty,
              kr_submitted_qty = (if allowed then constrained_qty else Fin 0),
              kr_submitted_notional_krw = (if allowed then submitted_notional else Fin 0),
              kr_residual_qty = residual,
              kr_exchange_submit_field = ''volume'', kr_exchange_order_type = or_order_type_sell rules,
              kr_allowed = allowed,
              kr_block_reason = (if allowed then ''none'' else ''quantity_kernel_sell_below_exchange_minimum''),
              kr_quantity_contract_hash = contract_hash,
              kr_qty_step_authority = or_qty_step_authority rules,
              kr_residual_policy = (if flt (Fin 0) residual then ''exchange_step_remainder_tracked'' else ''none''),
              kr_residual_reason = (if flt (Fin 0) residual then ''exchange_step_constraint'' else ''none'')\<rparr>)))"

end
