(* ===== verification/Lot_Model.thy ===== *)
theory Lot_Model
  imports Quantity_Kernel
begin

text \<open>
  Lots: \<open>src/src/operation/lot_model.py\<close> and the executable lot of \<open>src/src/operation/dust.py\<close>. A quantity is
  counted in internal lots, whose size is derived from the exchange rules; what does not fill a
  lot is dust. An object of exchange rules is the dictionary of its attributes
  (\<open>getattr(rules, name, default)\<close>). The setting \<open>LIVE_MIN_ORDER_QTY\<close> is an argument.
\<close>

definition DUST_POSITION_EPS :: pyfloat where
  "DUST_POSITION_EPS = lit 1 (-12)"

definition STATIC_FALLBACK_INTERNAL_LOT_SIZE :: pyfloat where
  "STATIC_FALLBACK_INTERNAL_LOT_SIZE = lit 4 (-4)"

subsection \<open>Lot counts\<close>

definition decimal_from_number :: "pyfloat \<Rightarrow> rat py" where
  "decimal_from_number v =
     (case v of Fin q \<Rightarrow> Inr (dec_of_float q)
      | _ \<Rightarrow> Inl (ValueError (''invalid non-finite numeric value: '' @ py_repr v)))"

definition floor_qty_to_step :: "pyfloat \<Rightarrow> pyfloat \<Rightarrow> int \<Rightarrow> pyfloat py" where
  "floor_qty_to_step qty qty_step max_qty_decimals =
     bind_py (decimal_from_number qty) (\<lambda>d.
     bind_py (decimal_from_number qty_step) (\<lambda>step.
     bind_py (quantize_places floor max_qty_decimals (to_step floor (max 0 step) (max 0 d))) (\<lambda>normalized.
       Inr (fmax (Fin 0) (rnd normalized)))))"

definition ceil_qty_to_step :: "pyfloat \<Rightarrow> pyfloat \<Rightarrow> int \<Rightarrow> pyfloat py" where
  "ceil_qty_to_step qty qty_step max_qty_decimals =
     bind_py (decimal_from_number qty) (\<lambda>d.
     bind_py (decimal_from_number qty_step) (\<lambda>step.
     bind_py (quantize_places ceiling max_qty_decimals (to_step ceiling (max 0 step) (max 0 d))) (\<lambda>normalized.
       Inr (fmax (Fin 0) (rnd normalized)))))"

definition quantize_to_lot_count :: "pyfloat \<Rightarrow> pyfloat \<Rightarrow> string \<Rightarrow> int py" where
  "quantize_to_lot_count qty lot_size rounding =
     bind_py (decimal_from_number qty) (\<lambda>q.
     bind_py (decimal_from_number lot_size) (\<lambda>l.
       if q \<le> 0 \<or> l \<le> 0 then Inr 0
       else if rounding \<noteq> ''ROUND_FLOOR'' \<and> rounding \<noteq> ''ROUND_CEILING''
       then Inl (ValueError (''unsupported rounding mode for lot count: '' @ rounding))
       else let lot_ratio = dec_div q l
            in Inr (max 0 (if rounding = ''ROUND_FLOOR'' then \<lfloor>dec_add lot_ratio (1 / 10 ^ 9)\<rfloor>
                           else \<lceil>dec_sub lot_ratio (1 / 10 ^ 9)\<rceil>))))"

definition lot_count_to_qty :: "int \<Rightarrow> pyfloat \<Rightarrow> pyfloat" where
  "lot_count_to_qty lot_count lot_size =
     (let normalized_count = max 0 lot_count; normalized_lot_size = fmax (Fin 0) lot_size
      in if normalized_count \<le> 0 \<or> fle normalized_lot_size DUST_POSITION_EPS then Fin 0
         else case normalized_lot_size of
             Fin q \<Rightarrow> rnd (dec_mul (of_int normalized_count) (dec_of_float q))
           | v \<Rightarrow> v)"

subsection \<open>Lot rules and splits\<close>

record market_lot_rules =
  ml_market_id :: string
  ml_lot_size :: pyfloat
  ml_executable_min_qty :: pyfloat
  ml_dust_threshold :: pyfloat
  ml_bid_min_total_krw :: pyfloat
  ml_ask_min_total_krw :: pyfloat
  ml_bid_price_unit :: pyfloat
  ml_ask_price_unit :: pyfloat
  ml_order_types :: "string list"
  ml_order_sides :: "string list"
  ml_bid_fee :: pyfloat
  ml_ask_fee :: pyfloat
  ml_maker_bid_fee :: pyfloat
  ml_maker_ask_fee :: pyfloat
  ml_min_qty :: pyfloat
  ml_qty_step :: pyfloat
  ml_min_notional_krw :: pyfloat
  ml_max_qty_decimals :: int
  ml_source_mode :: string

record lot_split =
  sp_requested_qty :: pyfloat
  sp_lot_size :: pyfloat
  sp_lot_count :: int
  sp_executable_qty :: pyfloat
  sp_dust_qty :: pyfloat
  sp_executable_min_qty :: pyfloat
  sp_dust_threshold :: pyfloat
  sp_executable :: bool
  sp_non_executable_reason :: string

definition split_qty_into_executable_and_dust :: "pyfloat \<Rightarrow> market_lot_rules \<Rightarrow> lot_split py" where
  "split_qty_into_executable_and_dust qty r =
     (let requested_qty = fmax (Fin 0) qty
      in bind_py (quantize_to_lot_count requested_qty (ml_lot_size r) ''ROUND_FLOOR'') (\<lambda>lot_count.
         let executable_qty = lot_count_to_qty lot_count (ml_lot_size r);
             dust_qty = fmax (Fin 0) (fsub requested_qty executable_qty);
             executable = (flt DUST_POSITION_EPS requested_qty \<and> 0 < lot_count \<and>
               fle (fmax (fmax (ml_executable_min_qty r) (ml_dust_threshold r)) DUST_POSITION_EPS) executable_qty);
             reason = (if fle requested_qty DUST_POSITION_EPS then ''no_position''
               else if flt requested_qty (ml_dust_threshold r) then ''dust_only_remainder''
               else ''no_executable_exit_lot'')
         in Inr \<lparr>sp_requested_qty = requested_qty, sp_lot_size = ml_lot_size r,
              sp_lot_count = (if executable then lot_count else 0),
              sp_executable_qty = (if executable then executable_qty else Fin 0),
              sp_dust_qty = (if executable then dust_qty else requested_qty),
              sp_executable_min_qty = ml_executable_min_qty r, sp_dust_threshold = ml_dust_threshold r,
              sp_executable = executable,
              sp_non_executable_reason = (if executable then ''executable'' else reason)\<rparr>))"

definition qty_to_executable_lot_count :: "pyfloat \<Rightarrow> market_lot_rules \<Rightarrow> int py" where
  "qty_to_executable_lot_count qty r =
     bind_py (split_qty_into_executable_and_dust qty r) (\<lambda>s. Inr (if sp_executable s then sp_lot_count s else 0))"

definition is_executable_exit_qty :: "pyfloat \<Rightarrow> market_lot_rules \<Rightarrow> bool py" where
  "is_executable_exit_qty qty r =
     bind_py (split_qty_into_executable_and_dust qty r) (\<lambda>s. Inr (sp_executable s))"

subsection \<open>The quantity contract\<close>

record quantity_contract =
  qc_requested_qty :: pyfloat
  qc_exchange_constrained_qty :: pyfloat
  qc_internal_lot_size :: "pyfloat option"
  qc_intended_lot_count :: "int option"
  qc_executable_lot_count :: int
  qc_executable_qty :: pyfloat
  qc_residual_qty :: pyfloat
  qc_residual_reason :: string
  qc_semantic_version :: "int option"
  qc_provenance :: string
  qc_compatibility_class :: string

definition quantity_contract_as_dict :: "quantity_contract \<Rightarrow> pydict" where
  "quantity_contract_as_dict c =
     [(''requested_qty'', VFloat (qc_requested_qty c)),
      (''exchange_constrained_qty'', VFloat (qc_exchange_constrained_qty c)),
      (''internal_lot_size'', opt_float (qc_internal_lot_size c)),
      (''intended_lot_count'', opt_int (qc_intended_lot_count c)),
      (''executable_lot_count'', VInt (qc_executable_lot_count c)),
      (''executable_qty'', VFloat (qc_executable_qty c)), (''residual_qty'', VFloat (qc_residual_qty c)),
      (''residual_reason'', VStr (if qc_residual_reason c = [] then ''none'' else qc_residual_reason c)),
      (''semantic_version'', opt_int (qc_semantic_version c)), (''provenance'', VStr (qc_provenance c)),
      (''compatibility_class'', VStr (if qc_compatibility_class c = [] then ''lot-native'' else qc_compatibility_class c))]"

definition build_quantity_contract_snapshot ::
  "pyfloat \<Rightarrow> pyfloat \<Rightarrow> pyfloat option \<Rightarrow> int option \<Rightarrow> int option \<Rightarrow> string \<Rightarrow> string \<Rightarrow> int option \<Rightarrow> string \<Rightarrow>
   quantity_contract" where
  "build_quantity_contract_snapshot requested_qty exchange_constrained_qty internal_lot_size intended_lot_count
     executable_lot_count residual_reason provenance semantic_version compatibility_class =
     (let exchange_qty = fmax (Fin 0) exchange_constrained_qty;
          lot_size = (case internal_lot_size of None \<Rightarrow> None
            | Some l \<Rightarrow> if fle l DUST_POSITION_EPS then None else Some l);
          lot_count = max 0 (case executable_lot_count of None \<Rightarrow> 0 | Some n \<Rightarrow> n);
          executable_qty = (case lot_size of None \<Rightarrow> Fin 0 | Some l \<Rightarrow> lot_count_to_qty lot_count l)
      in \<lparr>qc_requested_qty = fmax (Fin 0) requested_qty, qc_exchange_constrained_qty = exchange_qty,
          qc_internal_lot_size = lot_size, qc_intended_lot_count = map_option (max 0) intended_lot_count,
          qc_executable_lot_count = lot_count, qc_executable_qty = executable_qty,
          qc_residual_qty = fmax (Fin 0) (fsub exchange_qty executable_qty),
          qc_residual_reason = (if residual_reason = [] then ''none'' else residual_reason),
          qc_semantic_version = semantic_version, qc_provenance = provenance,
          qc_compatibility_class = (if compatibility_class = [] then ''lot-native'' else compatibility_class)\<rparr>)"

subsection \<open>The executable lot\<close>

text \<open>\<open>_decimal_from_number\<close> of \<open>dust.py\<close>: zero for what is not a finite number.\<close>

definition dust_decimal :: "pyfloat \<Rightarrow> rat" where
  "dust_decimal v = (case v of Fin q \<Rightarrow> dec_of_float q | _ \<Rightarrow> 0)"

definition effective_qty_step_decimal :: "pyfloat \<Rightarrow> pyfloat \<Rightarrow> int \<Rightarrow> rat" where
  "effective_qty_step_decimal qty_step min_qty max_qty_decimals =
     (if 0 < dust_decimal qty_step then dust_decimal qty_step
      else if 0 < dust_decimal min_qty then dust_decimal min_qty
      else if 0 < max_qty_decimals then 1 / 10 ^ nat max_qty_decimals
      else 0)"

definition dust_floor_qty_to_step :: "pyfloat \<Rightarrow> pyfloat \<Rightarrow> int \<Rightarrow> pyfloat py" where
  "dust_floor_qty_to_step qty qty_step max_qty_decimals =
     bind_py (quantize_places floor max_qty_decimals
         (to_step floor (effective_qty_step_decimal qty_step (Fin 0) max_qty_decimals) (max 0 (dust_decimal qty)))) (\<lambda>normalized.
       Inr (fmax (Fin 0) (rnd normalized)))"

definition dust_ceil_qty_to_step :: "pyfloat \<Rightarrow> pyfloat \<Rightarrow> int \<Rightarrow> pyfloat py" where
  "dust_ceil_qty_to_step qty qty_step max_qty_decimals =
     (let normalized_qty = max 0 (dust_decimal qty)
      in if normalized_qty \<le> 0 then Inr (Fin 0)
         else bind_py (quantize_places ceiling max_qty_decimals
             (to_step ceiling (effective_qty_step_decimal qty_step (Fin 0) max_qty_decimals) normalized_qty)) (\<lambda>normalized.
           Inr (fmax (Fin 0) (rnd normalized))))"

record executable_lot =
  el_raw_qty :: pyfloat
  el_executable_qty :: pyfloat
  el_dust_qty :: pyfloat
  el_effective_min_trade_qty :: pyfloat
  el_min_qty :: pyfloat
  el_qty_step :: pyfloat
  el_min_notional_krw :: pyfloat
  el_exit_price_floor :: "pyfloat option"
  el_exit_fee_ratio :: pyfloat
  el_exit_slippage_ratio :: pyfloat
  el_exit_buffer_ratio :: pyfloat
  el_exit_non_executable_reason :: string

definition exit_executable :: "executable_lot \<Rightarrow> bool" where
  "exit_executable l \<longleftrightarrow> flt DUST_POSITION_EPS (el_executable_qty l)"

definition exit_price_floor_of :: "pyfloat option \<Rightarrow> rat \<Rightarrow> rat \<Rightarrow> rat \<Rightarrow> pyfloat option" where
  "exit_price_floor_of market_price fee slippage buffer_ratio =
     (case market_price of None \<Rightarrow> None
      | Some p \<Rightarrow>
          let price = max 0 (dust_decimal p)
          in if 0 < price
             then Some (rnd (dec_mul price (max 0 (dec_sub (dec_sub (dec_sub 1 fee) slippage) buffer_ratio))))
             else None)"

text \<open>What of the quantity can be executed, what is dust and why.\<close>

definition executable_part :: "pyfloat \<Rightarrow> pyfloat \<Rightarrow> pyfloat \<Rightarrow> pyfloat \<times> pyfloat \<times> string" where
  "executable_part raw_qty executable_qty effective_min_trade_qty =
     (if fle executable_qty DUST_POSITION_EPS then
        (executable_qty, raw_qty,
         if fle raw_qty DUST_POSITION_EPS then ''no_position''
         else if flt (Fin 0) effective_min_trade_qty \<and> flt raw_qty effective_min_trade_qty then ''no_executable_exit_lot''
         else ''rounds_to_zero'')
      else if flt (Fin 0) effective_min_trade_qty \<and> flt executable_qty effective_min_trade_qty then
        (Fin 0, raw_qty, ''no_executable_exit_lot'')
      else (executable_qty, fmax (Fin 0) (fsub raw_qty executable_qty), ''executable''))"

definition build_executable_lot ::
  "pyfloat \<Rightarrow> pyfloat option \<Rightarrow> pyfloat \<Rightarrow> pyfloat \<Rightarrow> pyfloat \<Rightarrow> int \<Rightarrow> pyfloat \<Rightarrow> pyfloat \<Rightarrow> pyfloat \<Rightarrow> executable_lot py" where
  "build_executable_lot qty market_price min_qty0 qty_step min_notional_krw0 max_qty_decimals
     exit_fee_ratio exit_slippage_bps exit_buffer_ratio =
     (let raw_qty = rnd (max 0 (dust_decimal qty));
          min_qty = rnd (max 0 (dust_decimal min_qty0));
          min_notional = rnd (max 0 (dust_decimal min_notional_krw0));
          fee = max 0 (dust_decimal exit_fee_ratio);
          slippage = dec_div (max 0 (dust_decimal exit_slippage_bps)) 10000;
          buffer_ratio = max 0 (dust_decimal exit_buffer_ratio);
          step = rnd (effective_qty_step_decimal qty_step min_qty max_qty_decimals);
          price_floor = exit_price_floor_of market_price fee slippage buffer_ratio
      in bind_py (if flt (Fin 0) min_qty \<and> flt (Fin 0) step
                  then dust_ceil_qty_to_step (fadd min_qty step) step max_qty_decimals else Inr min_qty) (\<lambda>buffered_min_qty.
         bind_py (case price_floor of
             Some p \<Rightarrow> if flt (Fin 0) min_notional \<and> flt (Fin 0) p
               then dust_ceil_qty_to_step (fdiv min_notional p) step max_qty_decimals else Inr (Fin 0)
           | None \<Rightarrow> Inr (Fin 0)) (\<lambda>notional_min_qty.
         bind_py (dust_floor_qty_to_step raw_qty step max_qty_decimals) (\<lambda>floored.
           let effective_min_trade_qty = fmax buffered_min_qty notional_min_qty
           in case executable_part raw_qty floored effective_min_trade_qty of (executable_qty, dust_qty, reason) \<Rightarrow>
             Inr \<lparr>el_raw_qty = raw_qty, el_executable_qty = fmax (Fin 0) executable_qty,
                  el_dust_qty = fmax (Fin 0) dust_qty,
                  el_effective_min_trade_qty = fmax (Fin 0) effective_min_trade_qty, el_min_qty = min_qty,
                  el_qty_step = fmax (Fin 0) step, el_min_notional_krw = min_notional,
                  el_exit_price_floor = price_floor, el_exit_fee_ratio = rnd fee,
                  el_exit_slippage_ratio = rnd slippage, el_exit_buffer_ratio = rnd buffer_ratio,
                  el_exit_non_executable_reason = reason\<rparr>))))"

definition derive_internal_lot_size ::
  "pyfloat \<Rightarrow> pyfloat option \<Rightarrow> pyfloat \<Rightarrow> pyfloat \<Rightarrow> pyfloat \<Rightarrow> int \<Rightarrow> pyfloat \<Rightarrow> pyfloat \<Rightarrow> pyfloat \<Rightarrow> pyfloat py" where
  "derive_internal_lot_size live_min_order_qty market_price min_qty qty_step min_notional_krw max_qty_decimals
     exit_fee_ratio exit_slippage_bps exit_buffer_ratio =
     bind_py (build_executable_lot
         (fmax (Fin 0) (if flt (Fin 0) min_qty then min_qty else if flt (Fin 0) qty_step then qty_step else Fin 0))
         market_price min_qty qty_step min_notional_krw max_qty_decimals
         exit_fee_ratio exit_slippage_bps exit_buffer_ratio) (\<lambda>probe.
       let lot_size = fmax (fmax (el_effective_min_trade_qty probe) (el_qty_step probe)) min_qty;
           lot_size' =
             (if fle lot_size DUST_POSITION_EPS
              then fmax (if ftruthy live_min_order_qty then live_min_order_qty else Fin 0) STATIC_FALLBACK_INTERNAL_LOT_SIZE
              else if flt DUST_POSITION_EPS qty_step \<and> fle lot_size (fmul qty_step (Fin 10))
              then fadd lot_size qty_step else lot_size)
       in ceil_qty_to_step lot_size' qty_step max_qty_decimals)"

subsection \<open>Lot rules of a market\<close>

definition rule_number :: "pydict \<Rightarrow> string \<Rightarrow> pyfloat py" where
  "rule_number rules name =
     bind_py (or_default (val_float (dget_or rules name (VFloat (Fin 0)))) (Fin 0)) (\<lambda>v.
       Inr (if isfinite v then v else Fin 0))"

definition rule_int :: "pydict \<Rightarrow> string \<Rightarrow> int py" where
  "rule_int rules name = or_default (val_int (dget_or rules name (VInt 0))) 0"

definition rule_tuple :: "pydict \<Rightarrow> string \<Rightarrow> string list" where
  "rule_tuple rules name =
     (case dget_or rules name (VTuple []) of
        VNone \<Rightarrow> []
      | VList xs \<Rightarrow> map py_str xs
      | VTuple xs \<Rightarrow> map py_str xs
      | v \<Rightarrow> if v = VStr [] then [] else [py_str v])"

definition build_market_lot_rules ::
  "pyfloat \<Rightarrow> string \<Rightarrow> pyfloat option \<Rightarrow> pydict \<Rightarrow> pyfloat \<Rightarrow> pyfloat \<Rightarrow> pyfloat \<Rightarrow> string \<Rightarrow> market_lot_rules py" where
  "build_market_lot_rules live_min_order_qty market_id market_price rules exit_fee_ratio exit_slippage_bps
     exit_buffer_ratio source_mode =
     bind_py (rule_number rules ''min_qty'') (\<lambda>min_qty.
     bind_py (rule_number rules ''qty_step'') (\<lambda>qty_step.
     bind_py (rule_number rules ''min_notional_krw'') (\<lambda>min_notional_krw.
     bind_py (rule_int rules ''max_qty_decimals'') (\<lambda>max_qty_decimals.
     bind_py (build_executable_lot
         (fmax (Fin 0) (if flt (Fin 0) min_qty then min_qty else if flt (Fin 0) qty_step then qty_step else Fin 0))
         market_price min_qty qty_step min_notional_krw max_qty_decimals
         exit_fee_ratio exit_slippage_bps exit_buffer_ratio) (\<lambda>probe.
     bind_py (derive_internal_lot_size live_min_order_qty market_price min_qty qty_step min_notional_krw max_qty_decimals
         exit_fee_ratio exit_slippage_bps exit_buffer_ratio) (\<lambda>lot_size.
     bind_py (map_py (rule_number rules) [''bid_min_total_krw'', ''ask_min_total_krw'', ''bid_price_unit'',
         ''ask_price_unit'', ''bid_fee'', ''ask_fee'', ''maker_bid_fee'', ''maker_ask_fee'']) (\<lambda>ns.
       Inr \<lparr>ml_market_id = market_id, ml_lot_size = lot_size,
            ml_executable_min_qty = el_effective_min_trade_qty probe,
            ml_dust_threshold = fmax lot_size (el_effective_min_trade_qty probe),
            ml_bid_min_total_krw = ns ! 0, ml_ask_min_total_krw = ns ! 1, ml_bid_price_unit = ns ! 2,
            ml_ask_price_unit = ns ! 3, ml_order_types = rule_tuple rules ''order_types'',
            ml_order_sides = rule_tuple rules ''order_sides'', ml_bid_fee = ns ! 4, ml_ask_fee = ns ! 5,
            ml_maker_bid_fee = ns ! 6, ml_maker_ask_fee = ns ! 7, ml_min_qty = min_qty, ml_qty_step = qty_step,
            ml_min_notional_krw = min_notional_krw, ml_max_qty_decimals = max_qty_decimals,
            ml_source_mode = (if source_mode = [] then ''derived'' else source_mode)\<rparr>)))))))"

end
