(* ===== verification/Order_Sizing.thy ===== *)
theory Order_Sizing
  imports Lot_Model
begin

text \<open>
  The sizing of orders: the fee authority of \<open>src/src/operation/fee_authority.py\<close>, and of
  \<open>src/src/operation/order_sizing.py\<close> the budget of a purchase, the lots of a sale and the quantity of a
  target delta. The order rules an exchange resolves for a pair are an argument, as are the
  settings, the clock and SHA-256. A rate that the code keeps as \<open>Decimal\<close> is a rational.
\<close>

subsection \<open>Order rules and fee authority\<close>

record derived_order_constraints =
  dc_market_id :: string
  dc_bid_min_total_krw :: pyfloat
  dc_ask_min_total_krw :: pyfloat
  dc_bid_price_unit :: pyfloat
  dc_ask_price_unit :: pyfloat
  dc_order_types :: "string list"
  dc_bid_types :: "string list"
  dc_ask_types :: "string list"
  dc_order_sides :: "string list"
  dc_bid_fee :: pyfloat
  dc_ask_fee :: pyfloat
  dc_maker_bid_fee :: pyfloat
  dc_maker_ask_fee :: pyfloat
  dc_min_qty :: pyfloat
  dc_qty_step :: pyfloat
  dc_min_notional_krw :: pyfloat
  dc_max_qty_decimals :: int

text \<open>The attributes of the rules by name.\<close>

definition constraints_attributes :: "derived_order_constraints \<Rightarrow> pydict" where
  "constraints_attributes r =
     [(''market_id'', VStr (dc_market_id r)), (''bid_min_total_krw'', VFloat (dc_bid_min_total_krw r)),
      (''ask_min_total_krw'', VFloat (dc_ask_min_total_krw r)), (''bid_price_unit'', VFloat (dc_bid_price_unit r)),
      (''ask_price_unit'', VFloat (dc_ask_price_unit r)), (''order_types'', VTuple (map VStr (dc_order_types r))),
      (''bid_types'', VTuple (map VStr (dc_bid_types r))), (''ask_types'', VTuple (map VStr (dc_ask_types r))),
      (''order_sides'', VTuple (map VStr (dc_order_sides r))), (''bid_fee'', VFloat (dc_bid_fee r)),
      (''ask_fee'', VFloat (dc_ask_fee r)), (''maker_bid_fee'', VFloat (dc_maker_bid_fee r)),
      (''maker_ask_fee'', VFloat (dc_maker_ask_fee r)), (''min_qty'', VFloat (dc_min_qty r)),
      (''qty_step'', VFloat (dc_qty_step r)), (''min_notional_krw'', VFloat (dc_min_notional_krw r)),
      (''max_qty_decimals'', VInt (dc_max_qty_decimals r))]"

text \<open>The part of a \<open>RuleResolution\<close> that sizing and the fee authority read.\<close>

record rule_resolution =
  rr_rules :: derived_order_constraints
  rr_source :: pydict
  rr_fallback_used :: bool
  rr_retrieved_at_sec :: pyfloat
  rr_expires_at_sec :: pyfloat
  rr_stale :: bool
  rr_source_mode :: string
  rr_snapshot_persisted :: bool

definition resolution_is_stale :: "rule_resolution \<Rightarrow> pyfloat \<Rightarrow> bool" where
  "resolution_is_stale r now_sec =
     (if rr_stale r then True else if fle (rr_expires_at_sec r) (Fin 0) then False else fle (rr_expires_at_sec r) now_sec)"

record fee_authority =
  fa_bid_fee :: rat
  fa_ask_fee :: rat
  fa_maker_bid_fee :: rat
  fa_maker_ask_fee :: rat
  fa_source_mode :: string
  fa_fee_source :: string
  fa_fallback_used :: bool
  fa_snapshot_derived :: bool
  fa_stale :: bool
  fa_retrieved_at_sec :: pyfloat
  fa_expires_at_sec :: pyfloat
  fa_degraded :: bool
  fa_degraded_reason :: string
  fa_diagnostic_summary :: string

definition FEE_AUTHORITY_LIVE_ENTRY_BLOCK_REASON :: string where
  "FEE_AUTHORITY_LIVE_ENTRY_BLOCK_REASON = ''fee_authority_degraded_live_entry_blocked''"

definition decimal_or_zero :: "pyfloat \<Rightarrow> rat" where
  "decimal_or_zero v = (case v of Fin q \<Rightarrow> if dec_of_float q < 0 then 0 else dec_of_float q | _ \<Rightarrow> 0)"

definition taker_bid_fee_rate :: "fee_authority \<Rightarrow> pyfloat" where
  "taker_bid_fee_rate f = rnd (fa_bid_fee f)"

definition taker_ask_fee_rate :: "fee_authority \<Rightarrow> pyfloat" where
  "taker_ask_fee_rate f = rnd (fa_ask_fee f)"

definition live_entry_allowed :: "fee_authority \<Rightarrow> bool" where
  "live_entry_allowed f \<longleftrightarrow> \<not> fa_degraded f"

definition live_entry_block_reason :: "fee_authority \<Rightarrow> string" where
  "live_entry_block_reason f = (if fa_degraded f then FEE_AUTHORITY_LIVE_ENTRY_BLOCK_REASON else ''none'')"

definition rules_fee_values :: "derived_order_constraints \<Rightarrow> rat list" where
  "rules_fee_values r = map decimal_or_zero [dc_bid_fee r, dc_ask_fee r, dc_maker_bid_fee r, dc_maker_ask_fee r]"

definition fee_sources :: "pydict \<Rightarrow> string list" where
  "fee_sources source =
     map (\<lambda>f. dstr source f ''missing'') [''bid_fee'', ''ask_fee'', ''maker_bid_fee'', ''maker_ask_fee'']"

definition fee_invalid :: "rat \<Rightarrow> bool" where
  "fee_invalid fee \<longleftrightarrow> \<not> isfinite (rnd fee) \<or> flt (rnd fee) (Fin 0)"

definition degraded_reasons :: "bool \<Rightarrow> bool \<Rightarrow> bool \<Rightarrow> bool \<Rightarrow> bool \<Rightarrow> bool \<Rightarrow> string list" where
  "degraded_reasons all_chance_doc missing fallback_used snapshot_derived stale invalid =
     (if all_chance_doc then [] else [''fee_source_not_chance_doc'']) @
     (if missing then [''fee_field_missing_or_unsupported''] else []) @
     (if fallback_used then [''rule_fallback_used''] else []) @
     (if snapshot_derived then [''persisted_snapshot_fee_authority''] else []) @
     (if stale then [''stale_fee_authority''] else []) @
     (if invalid then [''invalid_fee_value''] else [])"

definition flag_text :: "bool \<Rightarrow> string" where
  "flag_text b = (if b then ''1'' else ''0'')"

definition build_fee_authority_snapshot ::
  "pyfloat \<Rightarrow> pyfloat \<Rightarrow> rule_resolution \<Rightarrow> pyfloat option \<Rightarrow> fee_authority" where
  "build_fee_authority_snapshot live_fee_rate_estimate now resolution config_fallback_fee_rate =
     (let sources = fee_sources (rr_source resolution);
          fees0 = rules_fee_values (rr_rules resolution);
          source_mode = (if rr_source_mode resolution = [] then ''unknown'' else rr_source_mode resolution);
          fallback_used = rr_fallback_used resolution;
          snapshot_derived = (rr_snapshot_persisted resolution \<and> fle (rr_expires_at_sec resolution) (Fin 0));
          stale = resolution_is_stale resolution now;
          all_chance_doc = list_all (\<lambda>v. v = ''chance_doc'') sources;
          missing = list_ex (\<lambda>v. v \<in> {''missing'', ''unsupported_by_doc''}) sources;
          invalid = list_ex fee_invalid fees0;
          fees1 = map (\<lambda>f. if fee_invalid f then 0 else f) fees0;
          fee_source = (if all_chance_doc then ''chance_doc'' else ''config_estimate_degraded'');
          fallback_rate = decimal_or_zero
            (case config_fallback_fee_rate of None \<Rightarrow> live_fee_rate_estimate | Some r \<Rightarrow> r);
          fees = (if all_chance_doc then fees1 else replicate 4 fallback_rate);
          joined = py_join '','' (degraded_reasons all_chance_doc missing fallback_used snapshot_derived stale invalid);
          degraded_reason = (if joined = [] then ''none'' else joined);
          degraded = (degraded_reason \<noteq> ''none'')
      in \<lparr>fa_bid_fee = fees ! 0, fa_ask_fee = fees ! 1, fa_maker_bid_fee = fees ! 2, fa_maker_ask_fee = fees ! 3,
          fa_source_mode = source_mode, fa_fee_source = fee_source, fa_fallback_used = fallback_used,
          fa_snapshot_derived = snapshot_derived, fa_stale = stale,
          fa_retrieved_at_sec = rr_retrieved_at_sec resolution, fa_expires_at_sec = rr_expires_at_sec resolution,
          fa_degraded = degraded, fa_degraded_reason = degraded_reason,
          fa_diagnostic_summary =
            ''fee_source='' @ fee_source @ ''; source_mode='' @ source_mode @ ''; fallback_used='' @ flag_text fallback_used @
            ''; snapshot_derived='' @ flag_text snapshot_derived @ ''; stale='' @ flag_text stale @
            ''; degraded='' @ flag_text degraded @ ''; degraded_reason='' @ degraded_reason\<rparr>)"

subsection \<open>Data of the sizing\<close>

record sizing_settings =
  zs_MODE :: string
  zs_LIVE_DRY_RUN :: bool
  zs_LIVE_REAL_ORDER_ARMED :: bool
  zs_BUY_FRACTION :: pyfloat
  zs_MAX_ORDER_KRW :: pyfloat
  zs_STRATEGY_ENTRY_SLIPPAGE_BPS :: pyfloat
  zs_ENTRY_EDGE_BUFFER_RATIO :: pyfloat
  zs_LIVE_FEE_RATE_ESTIMATE :: pyfloat
  zs_LIVE_MIN_ORDER_QTY :: pyfloat
  zs_LIVE_ORDER_MAX_QTY_DECIMALS :: int

record entry_execution_intent =
  ei_pair :: string
  ei_intent :: string
  ei_budget_model :: string
  ei_budget_fraction_of_cash :: pyfloat
  ei_max_budget_krw :: pyfloat
  ei_requires_execution_sizing :: bool

record buy_execution_authority =
  be_entry_allowed :: bool
  be_entry_allowed_truth_source :: string

record execution_sizing_plan =
  xp_side :: string
  xp_allowed :: bool
  xp_block_reason :: string
  xp_decision_reason_code :: string
  xp_gross_budget_krw :: pyfloat
  xp_budget_krw :: pyfloat
  xp_exposure_offset_krw :: pyfloat
  xp_requested_qty :: pyfloat
  xp_exchange_constrained_qty :: pyfloat
  xp_lifecycle_executable_qty :: pyfloat
  xp_executable_qty :: pyfloat
  xp_rejected_qty_remainder :: pyfloat
  xp_unused_budget_krw :: pyfloat
  xp_internal_lot_size :: pyfloat
  xp_intended_lot_count :: int
  xp_executable_lot_count :: int
  xp_qty_source :: string
  xp_effective_min_trade_qty :: pyfloat
  xp_min_qty :: pyfloat
  xp_qty_step :: pyfloat
  xp_min_notional_krw :: pyfloat
  xp_non_executable_reason :: string
  xp_buy_authority :: "buy_execution_authority option"
  xp_internal_lot_is_exchange_inflated :: bool
  xp_internal_lot_would_block_buy :: bool
  xp_fee_authority :: "fee_authority option"
  xp_fee_authority_source :: string
  xp_fee_authority_degraded :: bool
  xp_fee_rate_used :: pyfloat
  xp_residual_inventory_qty :: pyfloat
  xp_residual_inventory_notional_krw :: pyfloat
  xp_total_effective_exposure_qty :: pyfloat
  xp_total_effective_exposure_notional_krw :: pyfloat
  xp_buy_sizing_residual_adjusted :: bool

record sell_execution_authority =
  se_sellable_executable_lot_count :: int
  se_exit_allowed :: bool
  se_exit_block_reason :: string

text \<open>\<open>LotDefinitionSnapshot\<close> of \<open>src/src/operation/lifecycle.py\<close>\<close>

record lot_definition =
  ld_semantic_version :: "int option"
  ld_internal_lot_size :: "pyfloat option"
  ld_min_qty :: "pyfloat option"
  ld_qty_step :: "pyfloat option"
  ld_min_notional_krw :: "pyfloat option"
  ld_max_qty_decimals :: "int option"
  ld_source_mode :: string

definition lot_definition_is_authoritative :: "lot_definition \<Rightarrow> bool" where
  "lot_definition_is_authoritative d \<longleftrightarrow>
     ld_semantic_version d \<noteq> None \<and> (case ld_internal_lot_size d of None \<Rightarrow> False | Some l \<Rightarrow> flt (Fin 0) l)"

definition lot_definition_as_dict :: "lot_definition \<Rightarrow> pydict" where
  "lot_definition_as_dict d =
     [(''semantic_version'', opt_int (ld_semantic_version d)), (''internal_lot_size'', opt_float (ld_internal_lot_size d)),
      (''min_qty'', opt_float (ld_min_qty d)), (''qty_step'', opt_float (ld_qty_step d)),
      (''min_notional_krw'', opt_float (ld_min_notional_krw d)), (''max_qty_decimals'', opt_int (ld_max_qty_decimals d)),
      (''source_mode'', VStr (ld_source_mode d)), (''is_authoritative'', VBool (lot_definition_is_authoritative d))]"

subsection \<open>Quantities under the exchange constraints\<close>

definition exchange_qty_step :: "pyfloat \<Rightarrow> pyfloat \<Rightarrow> int \<Rightarrow> pyfloat py" where
  "exchange_qty_step qty_step min_qty max_qty_decimals =
     (let normalized_step = fmax (Fin 0) qty_step; normalized_min_qty = fmax (Fin 0) min_qty;
          normalized_decimals = max 0 max_qty_decimals
      in if flt DUST_POSITION_EPS normalized_step then Inr normalized_step
         else if flt DUST_POSITION_EPS normalized_min_qty then Inr normalized_min_qty
         else if 0 < normalized_decimals
         then (case float_of_int (10 ^ nat normalized_decimals) of
             None \<Rightarrow> Inl OverflowError | Some f \<Rightarrow> Inr (fdiv (Fin 1) f))
         else Inr (Fin 0))"

definition floor_qty_to_exchange_constraints :: "pyfloat \<Rightarrow> pyfloat \<Rightarrow> int \<Rightarrow> pyfloat py" where
  "floor_qty_to_exchange_constraints qty qty_step max_qty_decimals =
     bind_py (decimal_from_number qty) (\<lambda>d.
     bind_py (decimal_from_number qty_step) (\<lambda>step.
     bind_py (quantize_places floor max_qty_decimals (to_step floor (max 0 step) (max 0 d))) (\<lambda>normalized.
       Inr (fmax (Fin 0) (rnd normalized)))))"

definition ceil_qty_to_exchange_constraints :: "pyfloat \<Rightarrow> pyfloat \<Rightarrow> int \<Rightarrow> pyfloat py" where
  "ceil_qty_to_exchange_constraints qty qty_step max_qty_decimals =
     bind_py (decimal_from_number qty) (\<lambda>d.
     bind_py (decimal_from_number qty_step) (\<lambda>step.
     bind_py (quantize_places ceiling max_qty_decimals (to_step ceiling (max 0 step) (max 0 d))) (\<lambda>normalized.
       Inr (fmax (Fin 0) (rnd normalized)))))"

definition compute_feasible_entry_lot_count :: "pyfloat \<Rightarrow> pyfloat \<Rightarrow> market_lot_rules \<Rightarrow> int py" where
  "compute_feasible_entry_lot_count budget_krw price lot_rules =
     (let budget = fmax (Fin 0) budget_krw; lot_size = ml_lot_size lot_rules; lot_notional = fmul price lot_size
      in if fle budget (Fin 0) \<or> \<not> isfinite price \<or> fle price (Fin 0) \<or> fle lot_size (Fin 0) then Inr 0
         else case lot_notional of
             Fin l \<Rightarrow> if l \<le> 0 then Inr 0
               else (case budget of Fin b \<Rightarrow> Inr (max 0 \<lfloor>dec_div (dec_of_float b) (dec_of_float l)\<rfloor>) | _ \<Rightarrow> Inl OverflowError)
           | _ \<Rightarrow> Inr 0)"

definition compute_feasible_exit_lot_count :: "pyfloat \<Rightarrow> market_lot_rules \<Rightarrow> int py" where
  "compute_feasible_exit_lot_count sellable_qty lot_rules =
     (let requested_qty = fmax (Fin 0) sellable_qty; lot_size = ml_lot_size lot_rules
      in if fle requested_qty (Fin 0) \<or> fle lot_size (Fin 0) then Inr 0
         else bind_py (quantize_to_lot_count requested_qty lot_size ''ROUND_FLOOR'') (\<lambda>n. Inr (max 0 n)))"

subsection \<open>Sizing a purchase\<close>

definition build_default_entry_execution_intent :: "sizing_settings \<Rightarrow> string \<Rightarrow> entry_execution_intent" where
  "build_default_entry_execution_intent s pair =
     \<lparr>ei_pair = pair, ei_intent = ''enter_open_exposure'', ei_budget_model = ''cash_fraction_capped_by_max_order_krw'',
      ei_budget_fraction_of_cash = zs_BUY_FRACTION s, ei_max_budget_krw = zs_MAX_ORDER_KRW s,
      ei_requires_execution_sizing = True\<rparr>"

text \<open>The intent is given as an object or as a dictionary, or not at all.\<close>

definition parse_entry_execution_intent ::
  "sizing_settings \<Rightarrow> string \<Rightarrow> (entry_execution_intent + pydict) option \<Rightarrow> entry_execution_intent py" where
  "parse_entry_execution_intent s pair entry_intent =
     (let default_intent = build_default_entry_execution_intent s pair
      in case entry_intent of
           None \<Rightarrow> Inr default_intent
         | Some (Inl i) \<Rightarrow> Inr i
         | Some (Inr d) \<Rightarrow>
             bind_py (val_float (dget_or d ''budget_fraction_of_cash'' (VFloat (ei_budget_fraction_of_cash default_intent)))) (\<lambda>fraction.
             bind_py (val_float (dget_or d ''max_budget_krw'' (VFloat (ei_max_budget_krw default_intent)))) (\<lambda>max_budget.
               Inr \<lparr>ei_pair = dstr d ''pair'' (ei_pair default_intent), ei_intent = dstr d ''intent'' ''enter_open_exposure'',
                    ei_budget_model = dstr d ''budget_model'' (ei_budget_model default_intent),
                    ei_budget_fraction_of_cash = fmax (Fin 0) fraction, ei_max_budget_krw = fmax (Fin 0) max_budget,
                    ei_requires_execution_sizing = truthy (dget_or d ''requires_execution_sizing''
                      (VBool (ei_requires_execution_sizing default_intent)))\<rparr>)))"

text \<open>The budget before and after the exposure already held.\<close>

definition gross_entry_budget :: "pyfloat \<Rightarrow> entry_execution_intent \<Rightarrow> pyfloat" where
  "gross_entry_budget cash_krw intent =
     (let gross = fmul (fmax (Fin 0) cash_krw) (ei_budget_fraction_of_cash intent)
      in if flt (Fin 0) (ei_max_budget_krw intent) then fmin gross (ei_max_budget_krw intent) else gross)"

text \<open>What is common to every plan of a purchase; the plan is blocked for the reason given.\<close>

definition blocked_buy_plan ::
  "string \<Rightarrow> pyfloat \<Rightarrow> pyfloat \<Rightarrow> pyfloat \<Rightarrow> buy_execution_authority option \<Rightarrow> pyfloat \<Rightarrow> pyfloat \<Rightarrow> pyfloat \<Rightarrow> bool \<Rightarrow>
   execution_sizing_plan" where
  "blocked_buy_plan reason gross_budget adjusted_budget exposure_offset authority residual_qty residual_notional
     total_qty residual_adjusted =
     \<lparr>xp_side = ''BUY'', xp_allowed = False, xp_block_reason = reason, xp_decision_reason_code = reason,
      xp_gross_budget_krw = gross_budget, xp_budget_krw = adjusted_budget, xp_exposure_offset_krw = exposure_offset,
      xp_requested_qty = Fin 0, xp_exchange_constrained_qty = Fin 0, xp_lifecycle_executable_qty = Fin 0,
      xp_executable_qty = Fin 0, xp_rejected_qty_remainder = Fin 0, xp_unused_budget_krw = Fin 0,
      xp_internal_lot_size = Fin 0, xp_intended_lot_count = 0, xp_executable_lot_count = 0,
      xp_qty_source = (if residual_adjusted then ''residual_inventory_delta'' else ''entry.intent_budget_krw''),
      xp_effective_min_trade_qty = Fin 0, xp_min_qty = Fin 0, xp_qty_step = Fin 0, xp_min_notional_krw = Fin 0,
      xp_non_executable_reason = reason, xp_buy_authority = authority,
      xp_internal_lot_is_exchange_inflated = False, xp_internal_lot_would_block_buy = False,
      xp_fee_authority = None, xp_fee_authority_source = ''unresolved'', xp_fee_authority_degraded = False,
      xp_fee_rate_used = Fin 0, xp_residual_inventory_qty = residual_qty,
      xp_residual_inventory_notional_krw = residual_notional, xp_total_effective_exposure_qty = total_qty,
      xp_total_effective_exposure_notional_krw = exposure_offset, xp_buy_sizing_residual_adjusted = residual_adjusted\<rparr>"

definition entry_reason_of :: "derived_order_constraints \<Rightarrow> pyfloat \<Rightarrow> pyfloat \<Rightarrow> executable_lot \<Rightarrow> string option" where
  "entry_reason_of rules price executable_qty lot =
     first_reason
       [(fle executable_qty DUST_POSITION_EPS, ''entry_qty_rounded_to_zero_after_exchange_constraints''),
        (flt (Fin 0) (dc_min_qty rules) \<and> flt (fadd executable_qty DUST_POSITION_EPS) (dc_min_qty rules), ''entry_min_qty_miss''),
        (flt (Fin 0) (dc_min_notional_krw rules) \<and>
         flt (fadd (fmul executable_qty price) DUST_POSITION_EPS) (dc_min_notional_krw rules), ''entry_min_notional_miss''),
        (fle (el_executable_qty lot) DUST_POSITION_EPS,
         if el_exit_non_executable_reason lot = [] then ''no_executable_exit_lot'' else el_exit_non_executable_reason lot)]"

definition sized_buy_plan ::
  "sizing_settings \<Rightarrow> string \<Rightarrow> pyfloat \<Rightarrow> derived_order_constraints \<Rightarrow> fee_authority \<Rightarrow> pyfloat \<Rightarrow> execution_sizing_plan \<Rightarrow>
   execution_sizing_plan py" where
  "sized_buy_plan s pair price rules fees adjusted_budget base =
     bind_py (build_market_lot_rules (zs_LIVE_MIN_ORDER_QTY s) pair (Some price) (constraints_attributes rules)
       (taker_ask_fee_rate fees) (zs_STRATEGY_ENTRY_SLIPPAGE_BPS s) (zs_ENTRY_EDGE_BUFFER_RATIO s) ''exchange'') (\<lambda>lot_rules.
     bind_py (decimal_from_number adjusted_budget) (\<lambda>budget.
     bind_py (decimal_from_number price) (\<lambda>p.
     let requested_qty = rnd (dec_div budget p) in
     bind_py (exchange_qty_step (dc_qty_step rules) (dc_min_qty rules) (dc_max_qty_decimals rules)) (\<lambda>effective_qty_step.
     bind_py (floor_qty_to_exchange_constraints requested_qty effective_qty_step (dc_max_qty_decimals rules)) (\<lambda>executable_qty.
     bind_py (build_executable_lot executable_qty (Some price) (dc_min_qty rules) (dc_qty_step rules)
       (dc_min_notional_krw rules) (dc_max_qty_decimals rules) (taker_ask_fee_rate fees)
       (zs_STRATEGY_ENTRY_SLIPPAGE_BPS s) (zs_ENTRY_EDGE_BUFFER_RATIO s)) (\<lambda>executable_lot.
     bind_py (quantize_to_lot_count requested_qty (ml_lot_size lot_rules) ''ROUND_FLOOR'') (\<lambda>intended.
     bind_py (quantize_to_lot_count executable_qty (ml_lot_size lot_rules) ''ROUND_FLOOR'') (\<lambda>executable_count.
       let intended_lot_count = max 0 intended; executable_lot_count = max 0 executable_count;
           rejected = fmax (Fin 0) (fsub requested_qty executable_qty);
           reason = entry_reason_of rules price executable_qty executable_lot;
           allowed = (reason = None);
           code_text = (case reason of None \<Rightarrow> ''none'' | Some r \<Rightarrow> r)
       in Inr (base\<lparr>xp_allowed := allowed, xp_block_reason := code_text, xp_decision_reason_code := code_text,
            xp_requested_qty := requested_qty, xp_exchange_constrained_qty := executable_qty,
            xp_lifecycle_executable_qty := el_executable_qty executable_lot,
            xp_executable_qty := (if allowed then executable_qty else Fin 0),
            xp_rejected_qty_remainder := rejected, xp_unused_budget_krw := fmul rejected price,
            xp_internal_lot_size := ml_lot_size lot_rules, xp_intended_lot_count := intended_lot_count,
            xp_executable_lot_count := (if allowed then executable_lot_count else 0),
            xp_qty_source := (if xp_buy_sizing_residual_adjusted base then ''residual_inventory_delta''
              else ''entry.intent_budget_exchange_constraints''),
            xp_effective_min_trade_qty := el_effective_min_trade_qty executable_lot,
            xp_min_qty := ml_min_qty lot_rules, xp_qty_step := ml_qty_step lot_rules,
            xp_min_notional_krw := ml_min_notional_krw lot_rules,
            xp_non_executable_reason := (case reason of None \<Rightarrow> ''executable'' | Some r \<Rightarrow> r),
            xp_internal_lot_is_exchange_inflated :=
              flt (fadd (el_effective_min_trade_qty executable_lot) DUST_POSITION_EPS) (ml_lot_size lot_rules),
            xp_internal_lot_would_block_buy := (flt DUST_POSITION_EPS executable_qty \<and> intended_lot_count \<le> 0 \<and>
              fle (lot_count_to_qty intended_lot_count (ml_lot_size lot_rules)) DUST_POSITION_EPS),
            xp_fee_authority := Some fees, xp_fee_authority_source := fa_fee_source fees,
            xp_fee_authority_degraded := fa_degraded fees, xp_fee_rate_used := taker_bid_fee_rate fees\<rparr>)))))))))"

text \<open>The budget of the purchase after the exposure held, as a plan blocked for a reason.\<close>

definition budgeted_buy_plan ::
  "entry_execution_intent \<Rightarrow> pyfloat \<Rightarrow> pyfloat \<Rightarrow> buy_execution_authority option \<Rightarrow> pyfloat \<Rightarrow> pyfloat \<Rightarrow> pyfloat option \<Rightarrow> string \<Rightarrow>
   execution_sizing_plan" where
  "budgeted_buy_plan intent cash_krw market_price authority existing_exposure_qty residual_inventory_qty
     residual_inventory_notional_krw reason =
     (let gross_budget = gross_entry_budget cash_krw intent;
          residual_qty = fmax (Fin 0) residual_inventory_qty;
          executable_exposure_qty = fmax (Fin 0) existing_exposure_qty;
          residual_notional = (case residual_inventory_notional_krw of
              Some n \<Rightarrow> fmax (Fin 0) n | None \<Rightarrow> fmul residual_qty (fmax (Fin 0) market_price));
          total_qty = fadd executable_exposure_qty residual_qty;
          exposure_offset = fadd (fmul executable_exposure_qty (fmax (Fin 0) market_price)) residual_notional;
          adjusted_budget = fmax (Fin 0) (fsub gross_budget exposure_offset);
          residual_adjusted = (flt DUST_POSITION_EPS residual_qty \<or> flt (Fin 0) residual_notional)
      in blocked_buy_plan reason gross_budget adjusted_budget exposure_offset authority residual_qty residual_notional
           total_qty residual_adjusted)"

definition build_buy_execution_sizing ::
  "sizing_settings \<Rightarrow> pyfloat \<Rightarrow> rule_resolution \<Rightarrow> string \<Rightarrow> pyfloat \<Rightarrow> pyfloat \<Rightarrow> pyfloat option \<Rightarrow>
   (entry_execution_intent + pydict) option \<Rightarrow> buy_execution_authority option \<Rightarrow> pyfloat \<Rightarrow> pyfloat \<Rightarrow> pyfloat option \<Rightarrow>
   execution_sizing_plan py" where
  "build_buy_execution_sizing s now resolution pair cash_krw market_price fee_rate entry_intent authority
     existing_exposure_qty residual_inventory_qty residual_inventory_notional_krw =
     bind_py (parse_entry_execution_intent s pair entry_intent) (\<lambda>intent.
     let blocked = budgeted_buy_plan intent cash_krw market_price authority existing_exposure_qty residual_inventory_qty
           residual_inventory_notional_krw;
         adjusted_budget = xp_budget_krw (blocked [])
     in if fle adjusted_budget (Fin 0) then Inr (blocked ''non_positive_entry_budget'')
        else if \<not> isfinite market_price \<or> fle market_price (Fin 0) then Inr (blocked ''invalid_market_price'')
        else
          let rules = rr_rules resolution;
              fees = build_fee_authority_snapshot (zs_LIVE_FEE_RATE_ESTIMATE s) now resolution fee_rate
          in if zs_MODE s = ''live'' \<and> \<not> zs_LIVE_DRY_RUN s \<and> zs_LIVE_REAL_ORDER_ARMED s \<and> \<not> live_entry_allowed fees
             then Inr ((blocked FEE_AUTHORITY_LIVE_ENTRY_BLOCK_REASON)\<lparr>xp_min_qty := dc_min_qty rules,
                    xp_qty_step := dc_qty_step rules, xp_min_notional_krw := dc_min_notional_krw rules,
                    xp_fee_authority := Some fees, xp_fee_authority_source := fa_fee_source fees,
                    xp_fee_authority_degraded := True, xp_fee_rate_used := taker_bid_fee_rate fees\<rparr>)
             else sized_buy_plan s pair market_price rules fees adjusted_budget (blocked []))"

subsection \<open>Sizing a sale\<close>

definition sell_decision_reason_code :: "string \<Rightarrow> string" where
  "sell_decision_reason_code exit_block_reason =
     (let normalized = py_strip exit_block_reason
      in if normalized \<in> {[], ''none'', ''no_executable_exit_lot''} then ''exit_suppressed_by_quantity_rule'' else normalized)"

text \<open>The lot size, the minima and the step, from the stored lot definition or from the order rules.\<close>

definition sell_lot_basis ::
  "sizing_settings \<Rightarrow> pyfloat \<Rightarrow> rule_resolution \<Rightarrow> string \<Rightarrow> pyfloat \<Rightarrow> lot_definition option \<Rightarrow>
   (pyfloat \<times> pyfloat \<times> pyfloat \<times> pyfloat \<times> pyfloat \<times> fee_authority option) py" where
  "sell_lot_basis s now resolution pair market_price lot_definition =
     (let derived =
        (let fees = build_fee_authority_snapshot (zs_LIVE_FEE_RATE_ESTIMATE s) now resolution None
         in bind_py (build_market_lot_rules (zs_LIVE_MIN_ORDER_QTY s) pair (Some market_price)
              (constraints_attributes (rr_rules resolution)) (taker_ask_fee_rate fees)
              (zs_STRATEGY_ENTRY_SLIPPAGE_BPS s) (zs_ENTRY_EDGE_BUFFER_RATIO s) ''exchange'') (\<lambda>r.
            Inr (ml_lot_size r, ml_executable_min_qty r, ml_min_qty r, ml_qty_step r, ml_min_notional_krw r, Some fees)))
      in case lot_definition of
           None \<Rightarrow> derived
         | Some d \<Rightarrow> if lot_definition_is_authoritative d
             then Inr (or_zero (ld_internal_lot_size d), or_zero (ld_min_qty d), or_zero (ld_min_qty d),
                       or_zero (ld_qty_step d), or_zero (ld_min_notional_krw d), None)
             else derived)"

definition build_sell_execution_sizing ::
  "sizing_settings \<Rightarrow> pyfloat \<Rightarrow> rule_resolution \<Rightarrow> string \<Rightarrow> pyfloat \<Rightarrow> sell_execution_authority \<Rightarrow> lot_definition option \<Rightarrow>
   execution_sizing_plan py" where
  "build_sell_execution_sizing s now resolution pair market_price authority lot_definition =
     bind_py (sell_lot_basis s now resolution pair market_price lot_definition)
       (\<lambda>(internal_lot_size, effective_min_trade_qty, min_qty, qty_step, min_notional_krw, fees).
     let intended_lot_count = max 0 (se_sellable_executable_lot_count authority);
         requested_qty = lot_count_to_qty intended_lot_count internal_lot_size;
         allowed = (se_exit_allowed authority \<and> 1 \<le> intended_lot_count \<and> flt DUST_POSITION_EPS requested_qty);
         block_reason = (if allowed then ''none''
           else if se_exit_block_reason authority \<in> {[], ''none''} then ''no_executable_exit_lot''
           else se_exit_block_reason authority)
     in Inr \<lparr>xp_side = ''SELL'', xp_allowed = allowed, xp_block_reason = block_reason,
          xp_decision_reason_code = (if allowed then ''none'' else sell_decision_reason_code block_reason),
          xp_gross_budget_krw = Fin 0, xp_budget_krw = Fin 0, xp_exposure_offset_krw = Fin 0,
          xp_requested_qty = requested_qty, xp_exchange_constrained_qty = requested_qty,
          xp_lifecycle_executable_qty = (if allowed then requested_qty else Fin 0),
          xp_executable_qty = (if allowed then requested_qty else Fin 0), xp_rejected_qty_remainder = Fin 0,
          xp_unused_budget_krw = Fin 0, xp_internal_lot_size = internal_lot_size,
          xp_intended_lot_count = intended_lot_count,
          xp_executable_lot_count = (if allowed then intended_lot_count else 0),
          xp_qty_source = ''position_state.normalized_exposure.sellable_executable_lot_count'',
          xp_effective_min_trade_qty = effective_min_trade_qty, xp_min_qty = min_qty, xp_qty_step = qty_step,
          xp_min_notional_krw = min_notional_krw,
          xp_non_executable_reason = (if allowed then ''executable'' else block_reason),
          xp_buy_authority = None, xp_internal_lot_is_exchange_inflated = False,
          xp_internal_lot_would_block_buy = False, xp_fee_authority = fees,
          xp_fee_authority_source = (case fees of None \<Rightarrow> ''lot_definition'' | Some f \<Rightarrow> fa_fee_source f),
          xp_fee_authority_degraded = (case fees of None \<Rightarrow> False | Some f \<Rightarrow> fa_degraded f),
          xp_fee_rate_used = (case fees of None \<Rightarrow> Fin 0 | Some f \<Rightarrow> taker_ask_fee_rate f),
          xp_residual_inventory_qty = Fin 0, xp_residual_inventory_notional_krw = Fin 0,
          xp_total_effective_exposure_qty = Fin 0, xp_total_effective_exposure_notional_krw = Fin 0,
          xp_buy_sizing_residual_adjusted = False\<rparr>)"

subsection \<open>Sizing a target delta\<close>

record target_delta_sizing =
  tz_side :: string
  tz_allowed :: bool
  tz_block_reason :: string
  tz_decision_reason_code :: string
  tz_desired_qty :: pyfloat
  tz_exchange_constrained_qty :: pyfloat
  tz_final_submitted_qty :: pyfloat
  tz_final_submitted_notional_krw :: pyfloat
  tz_intended_lot_count :: int
  tz_executable_lot_count :: int
  tz_internal_lot_size :: pyfloat
  tz_rejected_remainder :: pyfloat
  tz_dust_policy :: string
  tz_invariant_status :: string
  tz_authority_source :: string
  tz_sizing_policy :: string
  tz_min_qty :: pyfloat
  tz_qty_step :: pyfloat
  tz_min_notional_krw :: pyfloat
  tz_fee_rate_used :: pyfloat
  tz_slippage_bps :: pyfloat
  tz_price_protection_basis :: string
  tz_quantity_contract_hash :: string
  tz_qty_step_authority :: string
  tz_residual_qty :: pyfloat
  tz_residual_policy :: string
  tz_residual_reason :: string

definition target_delta_sizing_as_dict :: "target_delta_sizing \<Rightarrow> pydict" where
  "target_delta_sizing_as_dict t =
     [(''side'', VStr (tz_side t)), (''allowed'', VBool (tz_allowed t)), (''block_reason'', VStr (tz_block_reason t)),
      (''decision_reason_code'', VStr (tz_decision_reason_code t)), (''desired_qty'', VFloat (tz_desired_qty t)),
      (''exchange_constrained_qty'', VFloat (tz_exchange_constrained_qty t)),
      (''final_submitted_qty'', VFloat (tz_final_submitted_qty t)),
      (''final_submitted_notional_krw'', VFloat (tz_final_submitted_notional_krw t)),
      (''intended_lot_count'', VInt (tz_intended_lot_count t)), (''executable_lot_count'', VInt (tz_executable_lot_count t)),
      (''internal_lot_size'', VFloat (tz_internal_lot_size t)), (''rejected_remainder'', VFloat (tz_rejected_remainder t)),
      (''dust_policy'', VStr (tz_dust_policy t)), (''invariant_status'', VStr (tz_invariant_status t)),
      (''authority_source'', VStr (tz_authority_source t)), (''sizing_policy'', VStr (tz_sizing_policy t)),
      (''min_qty'', VFloat (tz_min_qty t)), (''qty_step'', VFloat (tz_qty_step t)),
      (''min_notional_krw'', VFloat (tz_min_notional_krw t)), (''fee_rate_used'', VFloat (tz_fee_rate_used t)),
      (''slippage_bps'', VFloat (tz_slippage_bps t)), (''price_protection_basis'', VStr (tz_price_protection_basis t)),
      (''quantity_contract_hash'', VStr (tz_quantity_contract_hash t)),
      (''qty_step_authority'', VStr (tz_qty_step_authority t)), (''residual_qty'', VFloat (tz_residual_qty t)),
      (''residual_policy'', VStr (tz_residual_policy t)), (''residual_reason'', VStr (tz_residual_reason t))]"

text \<open>
  \<open>int(Decimal(str(a)) / Decimal(str(b)))\<close> for \<open>a \<ge> 0\<close> and \<open>b > 0\<close>; the kernel has refused numbers that
  are not finite before this is reached.
\<close>

definition decimal_ratio_int :: "pyfloat \<Rightarrow> pyfloat \<Rightarrow> int py" where
  "decimal_ratio_int a b =
     (case a of Fin x \<Rightarrow> (case b of Fin y \<Rightarrow> Inr \<lfloor>dec_div (dec_of_float x) (dec_of_float y)\<rfloor> | _ \<Rightarrow> Inl OverflowError)
      | _ \<Rightarrow> Inl OverflowError)"

definition nonneg_or_zero :: "pyfloat option \<Rightarrow> pyfloat" where
  "nonneg_or_zero x = (case x of None \<Rightarrow> Fin 0 | Some v \<Rightarrow> fmax (Fin 0) v)"

text \<open>The nested function \<open>_blocked\<close>.\<close>

definition blocked_target_delta ::
  "sizing_settings \<Rightarrow> string \<Rightarrow> pyfloat \<Rightarrow> pyfloat \<Rightarrow> pyfloat \<Rightarrow> pyfloat \<Rightarrow> string \<Rightarrow> string \<Rightarrow> string \<Rightarrow> pyfloat \<Rightarrow>
   target_delta_sizing" where
  "blocked_target_delta s side desired min_qty qty_step min_notional authority_source qty_step_authority reason constrained_qty =
     \<lparr>tz_side = side, tz_allowed = False, tz_block_reason = reason, tz_decision_reason_code = reason,
      tz_desired_qty = desired, tz_exchange_constrained_qty = constrained_qty, tz_final_submitted_qty = Fin 0,
      tz_final_submitted_notional_krw = Fin 0, tz_intended_lot_count = 0, tz_executable_lot_count = 0,
      tz_internal_lot_size = (if ftruthy qty_step then qty_step else min_qty),
      tz_rejected_remainder = fmax (Fin 0) (fsub desired constrained_qty), tz_dust_policy = ''no_submit'',
      tz_invariant_status = ''failed'',
      tz_authority_source = (if authority_source = [] then ''target_delta'' else authority_source),
      tz_sizing_policy = ''target_delta_exchange_floor_v1'', tz_min_qty = min_qty, tz_qty_step = qty_step,
      tz_min_notional_krw = min_notional, tz_fee_rate_used = zs_LIVE_FEE_RATE_ESTIMATE s,
      tz_slippage_bps = zs_STRATEGY_ENTRY_SLIPPAGE_BPS s,
      tz_price_protection_basis = ''live_price_protection_pretrade'', tz_quantity_contract_hash = [],
      tz_qty_step_authority = (if qty_step_authority = [] then ''exchange'' else qty_step_authority),
      tz_residual_qty = Fin 0, tz_residual_policy = ''none'', tz_residual_reason = ''none''\<rparr>"

definition target_delta_kernel_rules :: "pyfloat \<Rightarrow> pyfloat \<Rightarrow> int \<Rightarrow> pyfloat \<Rightarrow> pyfloat \<Rightarrow> string \<Rightarrow> order_rule_snapshot" where
  "target_delta_kernel_rules min_qty step decimals min_notional qty_step qty_step_authority =
     \<lparr>or_min_qty = min_qty, or_qty_step = step, or_max_qty_decimals = decimals,
      or_min_notional_krw = min_notional, or_order_type_buy = ''price'', or_order_type_sell = ''market'',
      or_qty_step_authority = (if qty_step_authority \<noteq> [] then qty_step_authority
        else if flt (Fin 0) qty_step then ''exchange'' else ''local_fallback_min_qty'')\<rparr>"

definition target_delta_guards :: "string \<Rightarrow> pyfloat \<Rightarrow> pyfloat \<Rightarrow> pyfloat \<Rightarrow> pyfloat \<Rightarrow> (bool \<times> string) list" where
  "target_delta_guards side price desired mq mn =
     [(side \<notin> {''BUY'', ''SELL''}, ''target_delta_no_submit_side''),
      (\<not> isfinite price \<or> fle price (Fin 0), ''invalid_market_price''),
      (fle desired DUST_POSITION_EPS, ''target_delta_non_positive_qty''),
      (fle mq (Fin 0), ''missing_order_rule_min_qty''),
      (fle mn (Fin 0), ''missing_order_rule_min_notional_krw'')]"

text \<open>The last guards, and the plan that passes them; \<open>blocked\<close> is the nested function.\<close>

definition finish_target_delta ::
  "(string \<Rightarrow> pyfloat \<Rightarrow> target_delta_sizing) \<Rightarrow> pyfloat \<Rightarrow> pyfloat \<Rightarrow> pyfloat \<Rightarrow> pyfloat \<Rightarrow> pyfloat \<Rightarrow> kernel_result \<Rightarrow>
   int \<Rightarrow> int \<Rightarrow> target_delta_sizing" where
  "finish_target_delta blocked desired price mq mn es k intended executable =
     (let constrained = kr_constrained_qty k;
          rejected = fmax (Fin 0) (fsub desired constrained);
          final_notional = fmul constrained price
      in if fle constrained DUST_POSITION_EPS
         then blocked ''target_delta_qty_rounded_to_zero_after_exchange_constraints'' (Fin 0)
         else if flt (fadd constrained DUST_POSITION_EPS) mq then blocked ''target_delta_min_qty_miss'' constrained
         else if flt (fadd final_notional DUST_POSITION_EPS) mn then blocked ''target_delta_min_notional_miss'' constrained
         else (blocked ''none'' constrained)\<lparr>tz_allowed := True, tz_final_submitted_qty := constrained,
                tz_final_submitted_notional_krw := final_notional, tz_intended_lot_count := max 0 intended,
                tz_executable_lot_count := max 0 executable, tz_internal_lot_size := es,
                tz_dust_policy := (if flt DUST_POSITION_EPS rejected then ''exchange_step_remainder_tracked'' else ''none''),
                tz_invariant_status := ''passed'', tz_qty_step := es,
                tz_quantity_contract_hash := kr_quantity_contract_hash k, tz_qty_step_authority := kr_qty_step_authority k,
                tz_residual_qty := kr_residual_qty k, tz_residual_policy := kr_residual_policy k,
                tz_residual_reason := kr_residual_reason k\<rparr>)"

definition build_target_delta_execution_sizing ::
  "(string \<Rightarrow> string) \<Rightarrow> sizing_settings \<Rightarrow> string \<Rightarrow> pyfloat option \<Rightarrow> pyfloat \<Rightarrow> pyfloat option \<Rightarrow> pyfloat option \<Rightarrow>
   pyfloat option \<Rightarrow> int option \<Rightarrow> string \<Rightarrow> string \<Rightarrow> target_delta_sizing py" where
  "build_target_delta_execution_sizing sha s side desired_qty price min_qty qty_step min_notional_krw max_qty_decimals
     authority_source qty_step_authority =
     (let normalized_side = py_upper (if side = [] then ''NONE'' else side);
          desired = nonneg_or_zero desired_qty; mq = nonneg_or_zero min_qty; step = nonneg_or_zero qty_step;
          mn = nonneg_or_zero min_notional_krw;
          decimals = (case max_qty_decimals of None \<Rightarrow> zs_LIVE_ORDER_MAX_QTY_DECIMALS s | Some n \<Rightarrow> max 0 n);
          blocked = blocked_target_delta s normalized_side desired mq step mn authority_source qty_step_authority
      in case first_reason (target_delta_guards normalized_side price desired mq mn) of
           Some r \<Rightarrow> Inr (blocked r (Fin 0))
         | None \<Rightarrow>
         bind_py (exchange_qty_step step mq decimals) (\<lambda>es.
         let rules = target_delta_kernel_rules mq es decimals mn step qty_step_authority;
             lots = (\<lambda>q. if flt DUST_POSITION_EPS es then decimal_ratio_int q es else Inr 0) in
         bind_py (if normalized_side = ''BUY'' then plan_buy_notional sha (fmul desired price) price rules
                  else plan_sell_qty sha desired price rules) (\<lambda>k.
         bind_py (lots desired) (\<lambda>intended.
         bind_py (lots (kr_constrained_qty k)) (\<lambda>executable.
           Inr (finish_target_delta blocked desired price mq mn es k intended executable))))))"

end
