(* ===== verification/Quantity_Properties.thy ===== *)
theory Quantity_Properties
  imports Lot_Model
begin

text \<open>
  What the quantity arithmetic guarantees, through both conversions (binary to decimal and
  back) and the rounding of the decimal context: flooring to the exchange step yields the
  largest multiple of the step that does not exceed the request, counting lots inverts
  multiplying them out, and a split counts every full lot.
\<close>

subsection \<open>Flooring to a step\<close>

definition digits17 :: "rat \<Rightarrow> bool" where
  "digits17 q \<longleftrightarrow> (\<exists>m e. q = of_int m * 10 powi e \<and> 0 \<le> m \<and> m \<le> 10 ^ 17)"

lemma digits17_dec: "0 \<le> q \<Longrightarrow> double_rat q \<Longrightarrow> digits17 (dec_of_float q)"
  using dec_of_float_digits by (simp add: digits17_def)

lemma digits17_zero [simp]: "digits17 0"
  unfolding digits17_def by (intro exI [of _ 0]) simp

lemma digits17_max: "double_rat q \<Longrightarrow> digits17 (max (dec_of_float q) 0)"
  using digits17_dec [of q] dec_of_float_pos_iff [of q] by (auto simp: max_def)

lemma digits17_tenth: "digits17 (1 / 10 ^ k)"
proof -
  have "(1 / 10 ^ k :: rat) = of_int 1 * 10 powi (- int k)" by (simp add: power_int_minus field_simps)
  then show ?thesis unfolding digits17_def by (intro exI [of _ 1] exI [of _ "- int k"]) simp
qed

lemma dec_round_digits17: "digits17 q \<Longrightarrow> dec_round q = q"
  unfolding digits17_def by (auto intro!: dec28.round_fix)

lemma to_step_floor:
  assumes q: "digits17 q" "0 \<le> q" and s: "digits17 s" "0 < s" and small: "q / s < 10 ^ 10"
  obtains n where "n = \<lfloor>dec_div q s\<rfloor>" "0 \<le> n" "of_int n * s \<le> q" "q < of_int (n + 1) * s"
    "to_step floor s q = of_int n * s"
proof -
  define n where "n = \<lfloor>dec_div q s\<rfloor>"
  obtain a i where a: "q = of_int a * 10 powi i" "0 \<le> a" "a \<le> 10 ^ 17" using q(1) by (auto simp: digits17_def)
  obtain b j where b: "s = of_int b * 10 powi j" "0 \<le> b" "b \<le> 10 ^ 17" using s(1) by (auto simp: digits17_def)
  have b_pos: "0 < b" using b s(2) by (cases "b = 0") auto
  have nonneg: "0 \<le> n" using dec28.round_nonneg [of "q / s"] q(2) s(2) by (simp add: n_def dec_div_def)
  have le: "of_int n \<le> dec_round (q / s)" by (simp add: n_def dec_div_def)
  have lower: "of_int n * s \<le> q" by (rule dec28.floor_quotient [OF a b(1) b_pos b(3) small le])
  then have "of_int n \<le> q / s" using s(2) by (simp add: pos_le_divide_eq)
  then have "(of_int n :: rat) < of_int (10 ^ 10)" using small by simp
  then have n_small: "n < 10 ^ 10" by (simp only: of_int_less_iff)
  have near: "dec_round (q / s) < of_int (n + 1)" unfolding n_def dec_div_def by (rule floor_correct [THEN conjunct2])
  have "\<bar>n + 1\<bar> < 10 ^ 28" using nonneg n_small by simp
  then have "q / s < of_int (n + 1)" using near by (rule dec28.round_less_int)
  then have upper: "q < of_int (n + 1) * s" using s(2) by (simp only: pos_divide_less_eq)
  have "dec_round (of_int (n * b) * 10 powi j) = of_int (n * b) * 10 powi j"
  proof (rule dec28.round_fix)
    have "\<bar>n * b\<bar> = n * b" using nonneg b_pos by simp
    also have "\<dots> \<le> 10 ^ 10 * 10 ^ 17" using nonneg n_small b by (intro mult_mono) simp_all
    also have "\<dots> < 10 ^ 28" by simp
    finally show "\<bar>n * b\<bar> < 10 ^ 28" .
  qed
  moreover have "of_int (n * b) * 10 powi j = of_int n * s" by (simp add: b(1) mult.assoc)
  ultimately have "dec_round (of_int n * s) = of_int n * s" by (simp only:)
  then have "to_step floor s q = of_int n * s"
    using s(2) by (simp add: to_step_def dec_mul_def n_def [symmetric])
  then show ?thesis using that [OF n_def nonneg lower upper] by simp
qed

lemma quantize_places_floor:
  assumes "quantize_places floor k d = Inr z"
  shows "z \<le> d \<and> (0 \<le> d \<longrightarrow> 0 \<le> z) \<and> (max 0 k = 0 \<or> d * 10 ^ nat k = of_int \<lfloor>d * 10 ^ nat k\<rfloor> \<longrightarrow> z = d)"
proof (cases "max 0 k = 0")
  case True
  then show ?thesis using assms by (simp add: quantize_places_def)
next
  case False
  then have k: "0 < k" "max 0 k = k" by auto
  then have z: "z = of_int \<lfloor>d * 10 ^ nat k\<rfloor> / 10 ^ nat k"
    using assms by (auto simp: quantize_places_def dec_quantize_def Let_def split: if_splits)
  have "of_int \<lfloor>d * 10 ^ nat k\<rfloor> / 10 ^ nat k \<le> d * 10 ^ nat k / (10 ^ nat k :: rat)"
    by (intro divide_right_mono) simp_all
  then have "z \<le> d" using z by simp
  then show ?thesis using z k by (auto simp: zero_le_divide_iff)
qed

definition rules_double :: "order_rule_snapshot \<Rightarrow> bool" where
  "rules_double r \<longleftrightarrow> is_double (or_qty_step r) \<and> is_double (or_min_qty r)"

lemma effective_step_digits:
  assumes "rules_double rules" and "effective_step rules = Inr step"
  shows "digits17 step"
proof -
  obtain s m where sm: "or_qty_step rules = Fin s" "double_rat s" "or_min_qty rules = Fin m" "double_rat m"
    using assms(1) by (auto simp: rules_double_def is_double_def)
  show ?thesis
    using assms(2) sm digits17_max [OF sm(2)] digits17_max [OF sm(4)] digits17_tenth
    by (auto simp: effective_step_def quantity_decimal_def Let_def split: if_splits)
qed

text \<open>The step lies on the grid of the permitted decimals.\<close>

definition on_grid :: "int \<Rightarrow> rat \<Rightarrow> bool" where
  "on_grid decimals step \<longleftrightarrow> decimals \<le> 0 \<or> step * 10 ^ nat decimals = of_int \<lfloor>step * 10 ^ nat decimals\<rfloor>"

lemma on_grid_multiple:
  assumes "on_grid k s"
  shows "max 0 k = 0 \<or> of_int n * s * 10 ^ nat k = of_int \<lfloor>of_int n * s * 10 ^ nat k\<rfloor>"
proof (cases "k \<le> 0")
  case False
  then have "s * 10 ^ nat k = of_int \<lfloor>s * 10 ^ nat k\<rfloor>" using assms by (simp add: on_grid_def)
  then have "of_int n * s * 10 ^ nat k = of_int (n * \<lfloor>s * 10 ^ nat k\<rfloor>)" by (simp add: mult.assoc)
  then show ?thesis by (metis floor_of_int)
qed simp

lemma floor_qty_result:
  assumes rules: "rules_double rules" and x: "double_rat x" "0 \<le> x"
    and step: "effective_step rules = Inr step" "0 < step" and small: "dec_of_float x / step < 10 ^ 10"
    and v: "floor_qty (Fin x) rules = Inr v"
  obtains n y where "0 \<le> n" "of_int n * step \<le> dec_of_float x" "dec_of_float x < of_int (n + 1) * step"
    "v = Fin y" "0 \<le> y" "y \<le> x" "fle v (rnd (of_int n * step))"
    "on_grid (or_max_qty_decimals rules) step \<Longrightarrow> v = rnd (of_int n * step)"
proof -
  have q: "0 \<le> dec_of_float x" using dec_of_float_pos_iff [OF x(1)] x(2) by simp
  obtain n where n: "0 \<le> n" "of_int n * step \<le> dec_of_float x" "dec_of_float x < of_int (n + 1) * step"
    "to_step floor step (dec_of_float x) = of_int n * step"
    using to_step_floor [OF digits17_dec [OF x(2,1)] q effective_step_digits [OF rules step(1)] step(2) small] by metis
  obtain z where z: "quantize_places floor (or_max_qty_decimals rules) (of_int n * step) = Inr z"
    and vz: "v = fmax (Fin 0) (rnd z)"
    using v n(4) step(1) q by (auto simp: floor_qty_def quantity_decimal_def bind_py_Inr_iff max_def)
  have z_le: "z \<le> of_int n * step" and z_nonneg: "0 \<le> z"
    using quantize_places_floor [OF z] n(1) step(2) by simp_all
  have up: "fle (rnd z) (Fin x)"
    using rnd_mono [of z "dec_of_float x"] z_le n(2) dec_of_float_roundtrip [OF x(1)] by simp
  have lo: "fle (Fin 0) (rnd z)" using rnd_mono [OF z_nonneg] by simp
  then have v_rnd: "v = rnd z" unfolding vz by (cases "rnd z") (auto simp: fmax_def)
  obtain y where y: "rnd z = Fin y" "0 \<le> y" "y \<le> x" using lo up by (cases "rnd z") auto
  show ?thesis
  proof (rule that [OF n(1-3)])
    show "v = Fin y" "0 \<le> y" "y \<le> x" using v_rnd y by simp_all
    show "fle v (rnd (of_int n * step))" unfolding v_rnd by (rule rnd_mono [OF z_le])
    show "v = rnd (of_int n * step)" if "on_grid (or_max_qty_decimals rules) step"
      using on_grid_multiple [OF that, of n] quantize_places_floor [OF z] v_rnd by auto
  qed
qed

subsection \<open>Counting lots\<close>

text \<open>The tolerance of a lot count absorbs the errors of the conversions.\<close>

lemma lot_ratio_counts:
  assumes "\<bar>t - of_int n\<bar> \<le> 4 / 10 ^ 10" and "1 \<le> n" and "n \<le> 10 ^ 6"
  shows "\<lfloor>dec_add (dec_round t) (1 / 10 ^ 9)\<rfloor> = n \<and> \<lceil>dec_sub (dec_round t) (1 / 10 ^ 9)\<rceil> = n"
proof -
  have n: "1 \<le> (of_int n :: rat)" "(of_int n :: rat) \<le> 10 ^ 6"
    using assms(2,3) of_int_le_iff [of 1 n, where ?'a = rat] of_int_le_iff [of n "10 ^ 6", where ?'a = rat] by simp_all
  have small: "\<bar>n\<bar> < 10 ^ 28" using assms(2,3) by simp
  have t: "of_int n - 4 / 10 ^ 10 \<le> t" "t \<le> of_int n + 4 / 10 ^ 10" using assms(1) by linarith+
  define r where "r = dec_round t"
  have "\<bar>r - t\<bar> \<le> t / (2 * 10 ^ 27)" unfolding r_def by (rule dec28.round_error) (use t n in simp)
  moreover have "t / (2 * 10 ^ 27) \<le> 1 / 10 ^ 10" using t n by (simp add: field_simps)
  ultimately have r: "of_int n - 5 / 10 ^ 10 \<le> r" "r \<le> of_int n + 5 / 10 ^ 10" using t by linarith+
  have err: "dec_round z \<le> z + 1 / 10 ^ 10 \<and> z - 1 / 10 ^ 10 \<le> dec_round z" if "0 < z" "z \<le> 2 * 10 ^ 6" for z
  proof -
    have "z / (2 * 10 ^ 27) \<le> 1 / 10 ^ 10" using that(2) by (simp add: field_simps)
    then show ?thesis using dec28.round_error [OF that(1)] by linarith
  qed
  have up: "of_int n \<le> dec_add r (1 / 10 ^ 9)"
    using dec28.round_mono [of "of_int n" "r + 1 / 10 ^ 9"] dec28.round_int [OF small] r by (simp add: dec_add_def)
  have "dec_add r (1 / 10 ^ 9) \<le> r + 1 / 10 ^ 9 + 1 / 10 ^ 10"
    unfolding dec_add_def using err [of "r + 1 / 10 ^ 9"] r n by simp
  then have "dec_add r (1 / 10 ^ 9) < of_int n + 1" using r by simp
  with up have fl: "\<lfloor>dec_add r (1 / 10 ^ 9)\<rfloor> = n" by (simp add: floor_eq_iff)
  have down: "dec_sub r (1 / 10 ^ 9) \<le> of_int n"
    using dec28.round_mono [of "r - 1 / 10 ^ 9" "of_int n"] dec28.round_int [OF small] r by (simp add: dec_sub_def)
  have "r - 1 / 10 ^ 9 - 1 / 10 ^ 10 \<le> dec_sub r (1 / 10 ^ 9)"
    unfolding dec_sub_def using err [of "r - 1 / 10 ^ 9"] r n by simp
  then have "of_int n - 1 < dec_sub r (1 / 10 ^ 9)" using r by simp
  with down have "\<lceil>dec_sub r (1 / 10 ^ 9)\<rceil> = n" by (simp add: ceiling_eq_iff)
  with fl show ?thesis by (simp add: r_def)
qed

text \<open>A decimal that rounds to a double is close to the decimal text of that double.\<close>

lemma dec_of_rnd_near:
  assumes a: "1 / 10 ^ 12 \<le> a" and y: "rnd a = Fin y"
  shows "\<bar>dec_of_float y - a\<bar> \<le> 3 * a * pw (- 53)"
proof -
  let ?u = "pw (- 53)"
  have u: "0 < ?u" "?u \<le> 1 / 10" by (simp_all add: power_int_minus)
  have tiny: "pw (- 1022) \<le> 1 / (2 * 10 ^ 12)"
  proof -
    have "pw (- 1022) \<le> pw (- 60)" by (rule pw_mono) simp
    then show ?thesis by (rule order_trans) (simp add: power_int_minus)
  qed
  define d where "d = dec_of_float y"
  have dy: "double_rat y" by (rule rnd_Fin_double [OF y])
  have rd: "rnd d = Fin y" unfolding d_def by (rule dec_of_float_roundtrip [OF dy])
  have a_pos: "0 < a" "pw (- 1022) \<le> a" using a tiny by (simp_all add: field_simps)
  have ya: "\<bar>y - a\<bar> \<le> a * ?u"
    using rnd_mag_rel [OF a_pos(2)] rnd_Fin_mag [OF _ y] a_pos(1) by simp
  have au: "a * ?u \<le> a * (1 / 10)" using u a_pos by (intro mult_left_mono) simp_all
  have "a / 2 < y" using ya au a_pos(1) by linarith
  then have y_lo: "1 / (2 * 10 ^ 12) < y" using a by linarith
  have d_pos: "pw (- 1022) \<le> d"
  proof (rule ccontr)
    assume "\<not> pw (- 1022) \<le> d"
    then have "fle (rnd d) (rnd (pw (- 1022)))" by (intro rnd_mono) simp
    moreover have "rnd (of_int 1 * pw (- 1022)) = Fin (of_int 1 * pw (- 1022))" by (rule rnd_dyadic) simp_all
    ultimately have "y \<le> pw (- 1022)" using rd by simp
    with y_lo tiny show False by simp
  qed
  have d0: "0 < d" using d_pos pw_pos [of "- 1022"] by (rule less_le_trans [rotated])
  have yd: "\<bar>y - d\<bar> \<le> d * ?u"
    using rnd_mag_rel [OF d_pos] rnd_Fin_mag [OF _ rd] d0 by simp
  have du: "d * ?u \<le> d * (1 / 10)" using u d0 by (intro mult_left_mono) simp_all
  have "d \<le> 2 * a" using ya yd au du a_pos(1) d0 by linarith
  then have "d * ?u \<le> 2 * a * ?u" using u by (intro mult_right_mono) simp_all
  moreover have "3 * a * ?u = a * ?u + 2 * a * ?u" by simp
  ultimately have "\<bar>d - a\<bar> \<le> 3 * a * ?u" using ya yd by linarith
  then show ?thesis by (simp add: d_def)
qed

lemma EPS_rnd: "DUST_POSITION_EPS = rnd (1 / 10 ^ 12)"
proof -
  have "of_int 1 * 10 powi (- 12) = (1 / 10 ^ 12 :: rat)" by simp
  then show ?thesis by (simp only: DUST_POSITION_EPS_def lit_def)
qed

lemma rnd_eval:
  assumes "pw (e + 52) \<le> x" and "x < pw (e + 53)" and "\<bar>x / pw e - of_int m\<bar> < 1 / 2" and "- 1074 \<le> e" and "e \<le> 0"
  shows "rnd x = Fin (of_int m * pw e)"
proof -
  have x: "0 < x" using assms(1) pw_pos [of "e + 52"] by linarith
  have "rlog2 x = e + 52" using assms(1,2) x by (intro rlog2_unique) (simp_all add: add.commute)
  then have ue: "ulp_exp x = e" using assms(4) by (simp add: ulp_exp_def)
  have m: "rnd_mag x = of_int m * pw e"
    using x ue rne_near [OF assms(3)] by (simp add: rnd_mag_def)
  have "x < pw 53" using assms(2,5) pw_mono [of "e + 53" 53] by linarith
  then have "\<exists>y. rnd x = Fin y" using x pw_mono [of 53 100] by (intro rnd_small_Fin) linarith
  then show ?thesis using rnd_Fin_mag [of x] x m by fastforce
qed

lemma EPS_value: "DUST_POSITION_EPS = Fin (of_int 4951760157141521 * pw (- 92))"
proof -
  have "rnd (1 / 10 ^ 12) = Fin (of_int 4951760157141521 * pw (- 92))"
    by (rule rnd_eval) (simp_all add: power_int_minus)
  then show ?thesis by (simp only: EPS_rnd)
qed

lemma EPS_Fin:
  obtains e where "DUST_POSITION_EPS = Fin e" "0 \<le> e"
  by (rule that [OF EPS_value]) simp

lemma EPS_pos: "flt (Fin 0) DUST_POSITION_EPS"
  by (simp add: EPS_value power_int_minus)

lemma EPS_small: "1 \<le> x \<Longrightarrow> flt DUST_POSITION_EPS (Fin x)"
  by (simp add: EPS_value power_int_minus)

lemma above_EPS:
  assumes "double_rat l" and "flt DUST_POSITION_EPS (Fin l)"
  shows "1 / 10 ^ 12 < dec_of_float l"
proof (rule ccontr)
  assume "\<not> 1 / 10 ^ 12 < dec_of_float l"
  then have "dec_of_float l \<le> 1 / 10 ^ 12" by (simp only: not_less)
  then have "fle (rnd (dec_of_float l)) DUST_POSITION_EPS" unfolding EPS_rnd by (rule rnd_mono)
  with assms(2) dec_of_float_roundtrip [OF assms(1)] show False by (simp add: flt_iff)
qed

lemma quantize_Fin:
  assumes "double_rat q" and "double_rat l" and "0 < q" and "0 < l"
    and "rounding = ''ROUND_FLOOR'' \<or> rounding = ''ROUND_CEILING''"
  shows "quantize_to_lot_count (Fin q) (Fin l) rounding =
    Inr (max 0 (if rounding = ''ROUND_FLOOR'' then \<lfloor>dec_add (dec_div (dec_of_float q) (dec_of_float l)) (1 / 10 ^ 9)\<rfloor>
         else \<lceil>dec_sub (dec_div (dec_of_float q) (dec_of_float l)) (1 / 10 ^ 9)\<rceil>))"
  using assms dec_of_float_pos_iff(1) [OF assms(1)] dec_of_float_pos_iff(1) [OF assms(2)]
  by (auto simp: quantize_to_lot_count_def decimal_from_number_def Let_def not_le)

lemma EPS_nonneg: "fle (Fin 0) DUST_POSITION_EPS"
  unfolding EPS_rnd using rnd_mono [of 0 "1 / 10 ^ 12"] by simp

lemma above_EPS_pos: "flt DUST_POSITION_EPS (Fin l) \<Longrightarrow> 0 < l"
  using EPS_nonneg fle_flt_trans by fastforce

lemma lot_count_to_qty_Fin:
  assumes l: "double_rat l" "flt DUST_POSITION_EPS (Fin l)" and n: "1 \<le> n" "n \<le> 10 ^ 6"
  shows "lot_count_to_qty n (Fin l) = rnd (of_int n * dec_of_float l)"
proof -
  have l0: "0 < l" by (rule above_EPS_pos [OF l(2)])
  obtain b j where b: "dec_of_float l = of_int b * 10 powi j" "0 \<le> b" "b \<le> 10 ^ 17"
    using dec_of_float_digits [of l] l l0 by auto
  have "\<bar>n * b\<bar> < 10 ^ 28"
  proof -
    have "\<bar>n * b\<bar> = n * b" using n b by simp
    also have "\<dots> \<le> 10 ^ 6 * 10 ^ 17" using n b by (intro mult_mono) simp_all
    also have "\<dots> < 10 ^ 28" by simp
    finally show ?thesis .
  qed
  then have "dec_round (of_int (n * b) * 10 powi j) = of_int (n * b) * 10 powi j" by (rule dec28.round_fix)
  moreover have "of_int (n * b) * 10 powi j = of_int n * dec_of_float l" by (simp add: b(1) mult.assoc)
  ultimately have "dec_mul (of_int n) (dec_of_float l) = of_int n * dec_of_float l" by (simp only: dec_mul_def)
  moreover have "fmax (Fin 0) (Fin l) = Fin l" "\<not> fle (Fin l) DUST_POSITION_EPS"
    using l0 l(2) by (simp_all add: fmax_def flt_iff)
  ultimately show ?thesis using n by (simp add: lot_count_to_qty_def Let_def)
qed

subsection \<open>Properties\<close>

lemma lot_count_back:
  assumes "double_rat l" and "flt DUST_POSITION_EPS (Fin l)" and "0 \<le> n" and "n \<le> 10 ^ 6"
    and "rounding = ''ROUND_FLOOR'' \<or> rounding = ''ROUND_CEILING''" and "isfinite (lot_count_to_qty n (Fin l))"
  shows "quantize_to_lot_count (lot_count_to_qty n (Fin l)) (Fin l) rounding = Inr n"
proof (cases "n = 0")
  case True
  then show ?thesis by (simp add: lot_count_to_qty_def quantize_to_lot_count_def decimal_from_number_def dec_of_float_def)
next
  case False
  then have n: "1 \<le> n" using assms(3) by simp
  define d where "d = dec_of_float l"
  have d: "1 / 10 ^ 12 < d" unfolding d_def by (rule above_EPS [OF assms(1,2)])
  then have d0: "0 < d" by (rule less_trans [rotated]) simp
  have qty: "lot_count_to_qty n (Fin l) = rnd (of_int n * d)"
    unfolding d_def by (rule lot_count_to_qty_Fin [OF assms(1,2) n assms(4)])
  then obtain y where y: "rnd (of_int n * d) = Fin y" using assms(6) by (cases "rnd (of_int n * d)") auto
  have n_rat: "1 \<le> (of_int n :: rat)" using n by simp
  have nd: "d \<le> of_int n * d" using n_rat d0 by simp
  have near: "\<bar>dec_of_float y - of_int n * d\<bar> \<le> 3 * (of_int n * d) * pw (- 53)"
    using d nd by (intro dec_of_rnd_near [OF _ y]) linarith
  have y_pos: "0 < y"
  proof (rule ccontr)
    assume "\<not> 0 < y"
    then have "fle (rnd (of_int n * d)) (Fin 0)" using y by simp
    moreover have "fle DUST_POSITION_EPS (rnd (of_int n * d))" unfolding EPS_rnd using d nd by (intro rnd_mono) linarith
    ultimately show False using EPS_pos flt_fle_trans fle_trans by (metis flt_iff)
  qed
  have "\<bar>dec_of_float y / d - of_int n\<bar> = \<bar>dec_of_float y - of_int n * d\<bar> / d"
    by (rule scaled_dist [OF d0])
  also have "\<dots> \<le> 3 * (of_int n * d) * pw (- 53) / d"
    using near d0 by (intro divide_right_mono) simp_all
  also have "\<dots> = of_int n * (3 * pw (- 53))" using d0 by simp
  also have "\<dots> \<le> of_int (10 ^ 6) * (3 * pw (- 53))"
    using assms(4) by (intro mult_right_mono) (simp_all only: of_int_le_iff, simp)
  also have "\<dots> \<le> 4 / 10 ^ 10" by (simp add: power_int_minus)
  finally have "\<bar>dec_of_float y / d - of_int n\<bar> \<le> 4 / 10 ^ 10" .
  note counts = lot_ratio_counts [OF this n assms(4)]
  show ?thesis
    unfolding qty y
    using quantize_Fin [OF rnd_Fin_double [OF y] assms(1) y_pos above_EPS_pos [OF assms(2)] assms(5)] counts n
    by (auto simp: dec_div_def d_def)
qed

text \<open>
  C26: Counting lots inverts multiplying them out: for a lot size above the dust threshold and
  up to a million lots whose quantity is a finite double, converting the count to a quantity
  and counting it again gives the count back, in both rounding directions, although the
  quantity passed through a binary double and a 28-digit quotient.
\<close>

theorem lot_count_roundtrip:
  assumes "double_rat l" and "flt DUST_POSITION_EPS (Fin l)" and "0 \<le> n" and "n \<le> 10 ^ 6"
    and "rounding = ''ROUND_FLOOR'' \<or> rounding = ''ROUND_CEILING''" and "isfinite (lot_count_to_qty n (Fin l))"
  shows "quantize_to_lot_count (lot_count_to_qty n (Fin l)) (Fin l) rounding = Inr n"
  using assms by (rule lot_count_back)

lemma double_of_int: "\<bar>n\<bar> < 2 ^ 53 \<Longrightarrow> double_rat (of_int n)"
  using rnd_of_int by (simp add: double_rat_def)

lemma sample_lot: "double_rat 4" "flt DUST_POSITION_EPS (Fin 4)" "dec_of_float 4 = 4"
  using double_of_int [of 4] dec_of_float_of_int [of 4] EPS_small [of 4] by simp_all

definition sample_lot_rules :: market_lot_rules where
  "sample_lot_rules = \<lparr>ml_market_id = ''KRW-BTC'', ml_lot_size = Fin 4, ml_executable_min_qty = Fin 4,
     ml_dust_threshold = Fin 4, ml_bid_min_total_krw = Fin 0, ml_ask_min_total_krw = Fin 0, ml_bid_price_unit = Fin 0,
     ml_ask_price_unit = Fin 0, ml_order_types = [], ml_order_sides = [], ml_bid_fee = Fin 0, ml_ask_fee = Fin 0,
     ml_maker_bid_fee = Fin 0, ml_maker_ask_fee = Fin 0, ml_min_qty = Fin 4, ml_qty_step = Fin 4,
     ml_min_notional_krw = Fin 0, ml_max_qty_decimals = 0, ml_source_mode = ''exchange''\<rparr>"

theorem lot_count_roundtrip_witness:
  "quantize_to_lot_count (lot_count_to_qty 250 (Fin 4)) (Fin 4) ''ROUND_FLOOR'' = Inr 250 \<and>
   lot_count_to_qty 250 (Fin 4) = Fin 1000"
proof -
  have qty: "lot_count_to_qty 250 (Fin 4) = Fin 1000"
    using lot_count_to_qty_Fin [OF sample_lot(1,2), of 250] sample_lot(3) rnd_of_int [of 1000] by simp
  then show ?thesis using lot_count_roundtrip [OF sample_lot(1,2), of 250 "''ROUND_FLOOR''"] by simp
qed

lemma floor_lot_count_bounds:
  assumes q: "double_rat q" "0 < q" and l: "double_rat l" "0 < l" and small: "dec_of_float q / dec_of_float l < 10 ^ 10"
    and n: "quantize_to_lot_count (Fin q) (Fin l) ''ROUND_FLOOR'' = Inr n"
  shows "0 \<le> n \<and> of_int n * dec_of_float l \<le> dec_of_float q + 2 / 10 ^ 9 * dec_of_float l \<and>
    dec_of_float q < of_int (n + 1) * dec_of_float l"
proof -
  define t where "t = dec_of_float q / dec_of_float l"
  have pos: "0 < dec_of_float q" "0 < dec_of_float l"
    using dec_of_float_pos_iff(1) [OF q(1)] dec_of_float_pos_iff(1) [OF l(1)] q(2) l(2) by simp_all
  have t: "0 < t" "t < 10 ^ 10" using pos small by (simp_all add: t_def)
  have err: "dec_round z \<le> z + 1 / 10 ^ 10 \<and> z - 1 / 10 ^ 10 \<le> dec_round z" if "0 < z" "z \<le> 2 * 10 ^ 10" for z
  proof -
    have "z / (2 * 10 ^ 27) \<le> 1 / 10 ^ 10" using that(2) by (simp add: field_simps)
    then show ?thesis using dec28.round_error [OF that(1)] by linarith
  qed
  define r where "r = dec_round t"
  have r: "0 \<le> r" "r \<le> t + 1 / 10 ^ 10"
    using dec28.round_nonneg [of t] err [of t] t by (simp_all add: r_def)
  define z where "z = r + 1 / 10 ^ 9"
  have z: "0 < z" "z \<le> 2 * 10 ^ 10" using r t by (simp_all add: z_def)
  define m where "m = \<lfloor>dec_round z\<rfloor>"
  have m: "n = m" "0 \<le> m"
    using quantize_Fin [OF q(1) l(1) q(2) l(2), of "''ROUND_FLOOR''"] n dec28.round_nonneg [of z] z
    by (simp_all add: m_def z_def r_def t_def dec_add_def dec_div_def)
  have "of_int m \<le> dec_round z" "dec_round z < of_int (m + 1)"
    unfolding m_def by (rule floor_correct [THEN conjunct1], rule floor_correct [THEN conjunct2])
  note mz = this
  have "of_int m \<le> t + 12 * (1 / 10 ^ 10)"
    using mz(1) err [OF z] r unfolding z_def by simp
  then have "of_int m \<le> t + 2 / 10 ^ 9" by simp
  then have "of_int m * dec_of_float l \<le> (t + 2 / 10 ^ 9) * dec_of_float l" using pos by (intro mult_right_mono) simp_all
  moreover have "(t + 2 / 10 ^ 9) * dec_of_float l = dec_of_float q + 2 / 10 ^ 9 * dec_of_float l"
    using pos(2) by (simp add: t_def distrib_right)
  moreover have "dec_of_float q < of_int (m + 1) * dec_of_float l"
  proof -
    have "(of_int m :: rat) < of_int (2 * 10 ^ 10)" using \<open>of_int m \<le> t + 2 / 10 ^ 9\<close> t(2) by simp
    then have "m < 2 * 10 ^ 10" by (simp only: of_int_less_iff)
    then have small: "\<bar>m + 1\<bar> < 10 ^ 28" using m(2) by simp
    have "z < of_int (m + 1)" by (rule dec28.round_less_int [OF small mz(2)])
    then have "dec_round t < of_int (m + 1)" unfolding z_def r_def by simp
    then have "t < of_int (m + 1)" by (rule dec28.round_less_int [OF small])
    then show ?thesis using pos(2) by (simp only: t_def pos_divide_less_eq)
  qed
  ultimately show ?thesis using m by simp
qed

text \<open>
  A split counts every full lot. For a finite positive quantity of less than \<open>10^10\<close> lots,
  an executable split has a positive number of lots, the next lot would exceed the quantity,
  and the counted lots exceed it by two billionths of a lot at most; its quantity reaches the
  executable minimum and the dust threshold. Otherwise nothing is executable and the whole
  quantity is dust. The two other readings of the split agree with it.
\<close>

theorem split_counts_every_lot:
  assumes "is_double qty" and "fle (Fin 0) qty" and "ml_lot_size r = Fin l" and "double_rat l" and "0 < l"
    and "dust_decimal qty / dec_of_float l < 10 ^ 10"
    and "split_qty_into_executable_and_dust qty r = Inr s"
  shows "(if sp_executable s then
      0 < sp_lot_count s \<and> dust_decimal qty < of_int (sp_lot_count s + 1) * dec_of_float l \<and>
      of_int (sp_lot_count s) * dec_of_float l \<le> dust_decimal qty + 2 / 10 ^ 9 * dec_of_float l \<and>
      sp_executable_qty s = lot_count_to_qty (sp_lot_count s) (Fin l) \<and>
      fle (fmax (ml_executable_min_qty r) (ml_dust_threshold r)) (sp_executable_qty s) \<and>
      sp_non_executable_reason s = ''executable''
    else sp_lot_count s = 0 \<and> sp_executable_qty s = Fin 0 \<and> sp_dust_qty s = qty \<and>
      sp_non_executable_reason s \<in> {''no_position'', ''dust_only_remainder'', ''no_executable_exit_lot''}) \<and>
    qty_to_executable_lot_count qty r = Inr (sp_lot_count s) \<and>
    is_executable_exit_qty qty r = Inr (0 < sp_lot_count s)"
proof -
  obtain q where q: "qty = Fin q" "double_rat q" "0 \<le> q" using assms(1,2) by (auto simp: is_double_def)
  have max: "fmax (Fin 0) (Fin q) = Fin q" using q(3) by (simp add: fmax_def)
  have le: "fle (fmax a b) v" if "fle (fmax (fmax a b) c) v" for a b c v
    using that by (cases a; cases b; cases c; cases v) (auto simp: fmax_def split: if_splits)
  obtain n where n: "quantize_to_lot_count (Fin q) (Fin l) ''ROUND_FLOOR'' = Inr n"
    using assms(3,7) q max by (auto simp: split_qty_into_executable_and_dust_def Let_def bind_py_Inr_iff)
  have bounds: "0 < n \<Longrightarrow> dec_of_float q < of_int (n + 1) * dec_of_float l \<and>
      of_int n * dec_of_float l \<le> dec_of_float q + 2 / 10 ^ 9 * dec_of_float l"
  proof -
    assume "0 < n"
    then have "0 < q"
      using n q(3) by (cases "q = 0") (auto simp: quantize_to_lot_count_def decimal_from_number_def dec_of_float_def bind_py_Inr_iff)
    then show ?thesis
      using floor_lot_count_bounds [OF q(2) _ assms(4,5) _ n] assms(6) q(1) by (simp add: dust_decimal_def)
  qed
  define ex where "ex \<longleftrightarrow> flt DUST_POSITION_EPS (Fin q) \<and> 0 < n \<and>
    fle (fmax (fmax (ml_executable_min_qty r) (ml_dust_threshold r)) DUST_POSITION_EPS) (lot_count_to_qty n (Fin l))"
  define reason where "reason = (if fle (Fin q) DUST_POSITION_EPS then ''no_position''
    else if flt (Fin q) (ml_dust_threshold r) then ''dust_only_remainder'' else ''no_executable_exit_lot'')"
  have s: "sp_executable s = ex" "sp_lot_count s = (if ex then n else 0)"
      "sp_executable_qty s = (if ex then lot_count_to_qty n (Fin l) else Fin 0)" "\<not> ex \<Longrightarrow> sp_dust_qty s = qty"
      "sp_non_executable_reason s = (if ex then ''executable'' else reason)"
    using assms(7) unfolding split_qty_into_executable_and_dust_def assms(3) q(1) max n Let_def bind_py_simps ex_def [symmetric]
      reason_def [symmetric] by auto
  have "qty_to_executable_lot_count qty r = Inr (sp_lot_count s)" "is_executable_exit_qty qty r = Inr ex"
    using assms(7) s(1,2) by (simp_all add: qty_to_executable_lot_count_def is_executable_exit_qty_def)
  moreover have "ex \<Longrightarrow> 0 < n" and "ex \<Longrightarrow> fle (fmax (ml_executable_min_qty r) (ml_dust_threshold r)) (lot_count_to_qty n (Fin l))"
    unfolding ex_def using le by blast+
  moreover have "reason \<in> {''no_position'', ''dust_only_remainder'', ''no_executable_exit_lot''}" by (simp add: reason_def)
  ultimately show ?thesis
    using s bounds q(1) by (cases ex) (simp_all add: dust_decimal_def)
qed

theorem split_counts_every_lot_witness:
  "\<exists>s. split_qty_into_executable_and_dust (Fin 10) sample_lot_rules = Inr s \<and>
     qty_to_executable_lot_count (Fin 10) sample_lot_rules = Inr (sp_lot_count s)"
proof -
  have ten: "double_rat 10" "dec_of_float 10 = 10" using double_of_int [of 10] dec_of_float_of_int [of 10] by simp_all
  obtain n where "quantize_to_lot_count (Fin 10) (Fin 4) ''ROUND_FLOOR'' = Inr n"
    using quantize_Fin [of 10 4 "''ROUND_FLOOR''"] ten sample_lot by simp
  then obtain s where s: "split_qty_into_executable_and_dust (Fin 10) sample_lot_rules = Inr s"
    by (auto simp: split_qty_into_executable_and_dust_def sample_lot_rules_def fmax_def Let_def)
  have "ml_lot_size sample_lot_rules = Fin 4" by (simp add: sample_lot_rules_def)
  from split_counts_every_lot [OF _ _ this sample_lot(1) _ _ s] s show ?thesis
    using ten sample_lot(3) by (auto simp: dust_decimal_def)
qed

lemma sell_plan_bounds:
  assumes "rules_double rules" and "is_double requested" and "fle (Fin 0) requested"
    and "effective_step rules = Inr step" and "0 < step" and "dust_decimal requested / step < 10 ^ 10"
    and "plan_sell_qty sha requested price rules = Inr k"
  shows "\<exists>n. 0 \<le> n \<and> of_int n * step \<le> dust_decimal requested \<and> dust_decimal requested < of_int (n + 1) * step \<and>
    fle (Fin 0) (kr_constrained_qty k) \<and> fle (kr_constrained_qty k) requested \<and>
    fle (kr_constrained_qty k) (rnd (of_int n * step)) \<and>
    (on_grid (or_max_qty_decimals rules) step \<longrightarrow> kr_constrained_qty k = rnd (of_int n * step)) \<and>
    (kr_allowed k \<longleftrightarrow> fle (or_min_qty rules) (kr_constrained_qty k) \<and>
       fle (or_min_notional_krw rules) (fmul (kr_constrained_qty k) price)) \<and>
    kr_submitted_qty k = (if kr_allowed k then kr_constrained_qty k else Fin 0)"
proof -
  obtain x where x: "requested = Fin x" "double_rat x" "0 \<le> x" using assms(2,3) by (auto simp: is_double_def)
  have max: "fmax (Fin 0) (Fin x) = Fin x" using x(3) by (simp add: fmax_def)
  obtain v where v: "floor_qty (Fin x) rules = Inr v" and k: "kr_constrained_qty k = v"
      "kr_allowed k = kernel_allowed rules v (fmul v price)" "kr_submitted_qty k = (if kr_allowed k then v else Fin 0)"
    using assms(7) x(1) max by (auto simp: plan_sell_qty_def Let_def bind_py_Inr_iff)
  have small: "dec_of_float x / step < 10 ^ 10" using assms(6) x(1) by (simp add: dust_decimal_def)
  show ?thesis
  proof (rule floor_qty_result [OF assms(1) x(2,3) assms(4,5) small v])
    fix n y
    assume "0 \<le> n" "of_int n * step \<le> dec_of_float x" "dec_of_float x < of_int (n + 1) * step"
      "v = Fin y" "0 \<le> y" "y \<le> x" "fle v (rnd (of_int n * step))"
      "on_grid (or_max_qty_decimals rules) step \<Longrightarrow> v = rnd (of_int n * step)"
    then show ?thesis
      using k x(1) by (intro exI [of _ n]) (auto simp: kernel_allowed_def dust_decimal_def)
  qed
qed

text \<open>
  C25: A sale never plans more than was requested, and exactly as many exchange steps as fit: for
  a finite non-negative request of less than \<open>10^10\<close> steps there is a number of steps whose
  product does not exceed the request while one more would; when the step lies on the grid of
  permitted decimals the planned quantity is that multiple. The plan is allowed exactly when
  quantity and notional reach the exchange minimum, and submits nothing otherwise.
\<close>

theorem sell_plan_within_request:
  assumes "rules_double rules" and "is_double requested" and "fle (Fin 0) requested"
    and "effective_step rules = Inr step" and "0 < step" and "dust_decimal requested / step < 10 ^ 10"
    and "plan_sell_qty sha requested price rules = Inr k"
  shows "\<exists>n. 0 \<le> n \<and> of_int n * step \<le> dust_decimal requested \<and> dust_decimal requested < of_int (n + 1) * step \<and>
    fle (Fin 0) (kr_constrained_qty k) \<and> fle (kr_constrained_qty k) requested \<and>
    fle (kr_constrained_qty k) (rnd (of_int n * step)) \<and>
    (on_grid (or_max_qty_decimals rules) step \<longrightarrow> kr_constrained_qty k = rnd (of_int n * step)) \<and>
    (kr_allowed k \<longleftrightarrow> fle (or_min_qty rules) (kr_constrained_qty k) \<and>
       fle (or_min_notional_krw rules) (fmul (kr_constrained_qty k) price)) \<and>
    kr_submitted_qty k = (if kr_allowed k then kr_constrained_qty k else Fin 0)"
  using assms by (rule sell_plan_bounds)

definition sample_order_rules :: order_rule_snapshot where
  "sample_order_rules = \<lparr>or_min_qty = Fin 4, or_qty_step = Fin 4, or_max_qty_decimals = 0, or_min_notional_krw = Fin 5,
     or_order_type_buy = ''price'', or_order_type_sell = ''market'', or_qty_step_authority = ''exchange''\<rparr>"

lemma sample_sale_setup:
  shows "rules_double sample_order_rules" "effective_step sample_order_rules = Inr 4" "is_double (Fin 10)"
    "fle (Fin 0) (Fin 10)" "dust_decimal (Fin 10) = 10" "dust_decimal (Fin 10) / 4 < 10 ^ 10"
    "on_grid (or_max_qty_decimals sample_order_rules) 4" "\<exists>k. plan_sell_qty sha (Fin 10) (Fin 3) sample_order_rules = Inr k"
proof -
  have ten: "double_rat 10" "dec_of_float 10 = 10" using double_of_int [of 10] dec_of_float_of_int [of 10] by simp_all
  show step: "effective_step sample_order_rules = Inr 4" and "rules_double sample_order_rules"
    using sample_lot by (simp_all add: rules_double_def effective_step_def sample_order_rules_def quantity_decimal_def Let_def)
  show "on_grid (or_max_qty_decimals sample_order_rules) 4" by (simp add: on_grid_def sample_order_rules_def)
  show "is_double (Fin 10)" "fle (Fin 0) (Fin 10)" "dust_decimal (Fin 10) = 10" "dust_decimal (Fin 10) / 4 < 10 ^ 10"
    using ten by (simp_all add: dust_decimal_def)
  show "\<exists>k. plan_sell_qty sha (Fin 10) (Fin 3) sample_order_rules = Inr k"
    using step by (auto simp: plan_sell_qty_def floor_qty_def quantity_decimal_def quantize_places_def
        sample_order_rules_def fmax_def artifact_sha256_prefixed_def order_rules_as_dict_def Let_def)
qed

lemma two_steps: "of_int n * 4 \<le> (10 :: rat) \<Longrightarrow> (10 :: rat) < of_int (n + 1) * 4 \<Longrightarrow> rnd (of_int n * 4) = Fin 8"
proof -
  assume n: "of_int n * 4 \<le> (10 :: rat)" "(10 :: rat) < of_int (n + 1) * 4"
  have "(of_int (n * 4) :: rat) \<le> of_int 10" "(of_int 10 :: rat) < of_int ((n + 1) * 4)" using n by simp_all
  then have "n = 2" by (simp only: of_int_le_iff of_int_less_iff) presburger
  then show ?thesis using rnd_of_int [of 8] by simp
qed

theorem sell_plan_within_request_witness:
  "\<exists>k. plan_sell_qty id (Fin 10) (Fin 3) sample_order_rules = Inr k \<and> fle (kr_constrained_qty k) (Fin 10) \<and>
     kr_constrained_qty k = Fin 8"
proof -
  obtain k where k: "plan_sell_qty id (Fin 10) (Fin 3) sample_order_rules = Inr k" using sample_sale_setup(8) by blast
  obtain n where "of_int n * 4 \<le> (10 :: rat)" "(10 :: rat) < of_int (n + 1) * 4" "fle (kr_constrained_qty k) (Fin 10)"
      "kr_constrained_qty k = rnd (of_int n * 4)"
    using sell_plan_within_request [OF sample_sale_setup(1,3,4,2) zero_less_numeral sample_sale_setup(6) k]
      sample_sale_setup(5,7) by metis
  then show ?thesis using k two_steps by auto
qed

subsection \<open>A step lost in binary division\<close>

text \<open>
  The purchase kernel divides notional by price as doubles before it floors. A notional of 4.3
  at a price of 43 buys exactly one step of 0.1, but the double quotient lies below 0.1 and is
  floored to nothing. The sale kernel, given 0.1 directly, keeps it.
\<close>

definition tenth :: rat where
  "tenth = of_int 7205759403792794 * pw (- 56)"

lemma tenth: "rnd (1 / 10) = Fin tenth" "double_rat tenth"
proof -
  show "rnd (1 / 10) = Fin tenth" unfolding tenth_def by (rule rnd_eval) (simp_all add: power_int_minus)
  then show "double_rat tenth" by (rule rnd_Fin_double)
qed

lemma dec_tenth: "dec_of_float tenth = 1 / 10"
proof -
  have small: "pw (- 1022) \<le> 1 / 10 ^ 1"
  proof -
    have "pw (- 1022) \<le> pw (- 4)" by (rule pw_mono) simp
    then show ?thesis by (rule order_trans) simp
  qed
  then obtain c where c: "dec_of_float tenth = of_int c / 10"
    using dec_of_float_multiple [of 1 1 tenth] tenth(1) by auto
  have r: "rnd (of_int c / 10) = Fin tenth" using dec_of_float_roundtrip [OF tenth(2)] c by simp
  have eighth: "rnd (1 / 8) = Fin (1 / 8)" using rnd_dyadic [of 1 "- 3"] by simp
  have "\<not> c \<le> 0"
  proof
    assume "c \<le> 0"
    then have "fle (Fin tenth) (Fin 0)" using rnd_mono [of "of_int c / 10" 0] r by (simp add: divide_le_0_iff)
    then show False by (simp add: tenth_def)
  qed
  moreover have "\<not> 2 \<le> c"
  proof
    assume "2 \<le> c"
    then have "(2 :: rat) \<le> of_int c" by simp
    then have "fle (rnd (1 / 8)) (Fin tenth)" using rnd_mono [of "1 / 8" "of_int c / 10"] r by simp
    then show False by (simp add: eighth tenth_def)
  qed
  ultimately have "c = 1" by simp
  then show ?thesis using c by simp
qed

definition tenth_step_rules :: order_rule_snapshot where
  "tenth_step_rules = \<lparr>or_min_qty = Fin tenth, or_qty_step = Fin tenth, or_max_qty_decimals = 8, or_min_notional_krw = Fin 0,
     or_order_type_buy = ''price'', or_order_type_sell = ''market'', or_qty_step_authority = ''exchange''\<rparr>"

lemma purchase_quotient:
  "lit 43 (- 1) = Fin (of_int 4841369599423283 * pw (- 50))"
  "fdiv (Fin (of_int 4841369599423283 * pw (- 50))) (Fin 43) = Fin (of_int 7205759403792793 * pw (- 56))"
proof -
  have "rnd (43 / 10) = Fin (of_int 4841369599423283 * pw (- 50))" by (rule rnd_eval) (simp_all add: power_int_minus)
  then show "lit 43 (- 1) = Fin (of_int 4841369599423283 * pw (- 50))" by (simp add: lit_def)
  have "rnd (of_int 4841369599423283 * pw (- 50) / 43) = Fin (of_int 7205759403792793 * pw (- 56))"
    by (rule rnd_eval) (simp_all add: power_int_minus)
  then show "fdiv (Fin (of_int 4841369599423283 * pw (- 50))) (Fin 43) = Fin (of_int 7205759403792793 * pw (- 56))"
    by simp
qed

lemma purchase_loses_a_step:
  "\<exists>k. plan_buy_notional sha (lit 43 (- 1)) (Fin 43) tenth_step_rules = Inr k \<and> kr_constrained_qty k = Fin 0 \<and> \<not> kr_allowed k"
proof -
  define r where "r = (of_int 7205759403792793 * pw (- 56) :: rat)"
  define a where "a = (of_int 4841369599423283 * pw (- 50) :: rat)"
  have a: "lit 43 (- 1) = Fin a" "fdiv (Fin a) (Fin 43) = Fin r" "0 < a"
    using purchase_quotient by (simp_all add: a_def r_def)
  have "rnd r = Fin r" unfolding r_def by (rule rnd_dyadic) simp_all
  then have dr: "double_rat r" by (simp add: double_rat_def)
  have r0: "0 \<le> r" "r < tenth" by (simp_all add: r_def tenth_def)
  have rules: "rules_double tenth_step_rules" "effective_step tenth_step_rules = Inr (1 / 10)"
    using tenth(2) dec_tenth
    by (simp_all add: rules_double_def effective_step_def tenth_step_rules_def quantity_decimal_def Let_def)
  have lt: "dec_of_float r < 1 / 10"
  proof (rule ccontr)
    assume "\<not> dec_of_float r < 1 / 10"
    then have "fle (rnd (1 / 10)) (rnd (dec_of_float r))" by (intro rnd_mono) simp
    then show False using tenth(1) dec_of_float_roundtrip [OF dr] r0(2) by simp
  qed
  have d0: "0 \<le> dec_of_float r" using dec_of_float_pos_iff [OF dr] r0 by simp
  have small: "dec_of_float r / (1 / 10) < 10 ^ 10" using lt by simp
  have "to_step floor (1 / 10) (dec_of_float r) = 0"
  proof (rule to_step_floor [OF digits17_dec [OF r0(1) dr] d0 effective_step_digits [OF rules] _ small])
    fix n
    assume n: "0 \<le> n" "of_int n * (1 / 10) \<le> dec_of_float r" "to_step floor (1 / 10) (dec_of_float r) = of_int n * (1 / 10)"
    then have "(of_int n :: rat) < of_int 1" using lt by simp
    then have "n = 0" using n(1) by (simp only: of_int_less_iff)
    then show ?thesis using n(3) by simp
  qed simp
  then have "floor_qty (Fin r) tenth_step_rules = Inr (Fin 0)"
    using rules(2) d0
    by (simp add: floor_qty_def quantity_decimal_def quantize_places_def dec_quantize_def tenth_step_rules_def fmax_def max_def)
  moreover have "tenth > 0" by (simp add: tenth_def)
  ultimately show ?thesis
    using a
    by (simp add: plan_buy_notional_def kernel_allowed_def Let_def fmax_def artifact_sha256_prefixed_def order_rules_as_dict_def)
      (simp add: tenth_step_rules_def)
qed

end
