(* ===== verification/Target_Properties.thy ===== *)
theory Target_Properties
  imports Target_Position Order_Sizing Quantity_Properties
begin

text \<open>
  Properties of the target position engine and of the sizing of its differences.
\<close>

subsection \<open>Decisions are well formed\<close>

text \<open>
  What every decision satisfies: the reason is \<open>none\<close> exactly when it would submit; then a side, the
  position, the target, the difference and a positive amount are present; otherwise the side is
  \<open>NONE\<close> and nothing is to be submitted.
\<close>

definition decision_wf :: "target_decision \<Rightarrow> bool" where
  "decision_wf d \<longleftrightarrow>
     td_block_reason d \<noteq> [] \<and> (td_would_submit d \<longleftrightarrow> td_block_reason d = ''none'') \<and>
     (if td_would_submit d
      then td_delta_side d \<in> {''BUY'', ''SELL''} \<and> td_position_truth_state d = ''converged'' \<and>
        td_dust_classification d = ''executable_delta'' \<and> td_current_qty d \<noteq> None \<and> td_target_qty d \<noteq> None \<and>
        td_new_target_exposure_krw d \<noteq> None \<and>
        (\<exists>x q. td_delta_qty d = Some x \<and> td_submit_qty d = Some q \<and> q = fabs x \<and> flt (Fin 0) q \<and>
          (td_delta_side d = ''BUY'' \<longleftrightarrow> flt (Fin 0) x))
      else td_delta_side d = ''NONE'' \<and> td_submit_qty d \<in> {None, Some (Fin 0)} \<and>
        td_submit_notional_krw d \<in> {None, Some (Fin 0)} \<and> td_dust_classification d \<noteq> ''executable_delta'')"

lemma lit_EPS: "lit 1 (-12) = DUST_POSITION_EPS"
  by (simp add: DUST_POSITION_EPS_def)

lemma flt_fneg: "flt x (fneg y) \<longleftrightarrow> flt y (fneg x)"
  by (cases x; cases y) auto

lemma below_EPS_neg:
  assumes "flt x (fneg DUST_POSITION_EPS)"
  shows "flt x (Fin 0)"
proof -
  obtain e where e: "DUST_POSITION_EPS = Fin e" "0 \<le> e" by (rule EPS_Fin)
  show ?thesis using assms e(2) unfolding e(1) by (cases x) auto
qed

lemma fabs_pos:
  assumes "flt DUST_POSITION_EPS x \<or> flt x (fneg DUST_POSITION_EPS)"
  shows "flt (Fin 0) (fabs x) \<and> (flt DUST_POSITION_EPS x \<longleftrightarrow> flt (Fin 0) x)"
proof -
  obtain e where e: "DUST_POSITION_EPS = Fin e" "0 \<le> e" by (rule EPS_Fin)
  show ?thesis using assms e(2) unfolding e(1) by (cases x) auto
qed

lemma delta_decision_wf:
  assumes "td_would_submit base = False"
  shows "decision_wf (delta_decision base e q p mq mn)"
proof -
  have pos: "flt DUST_POSITION_EPS x \<Longrightarrow> flt (Fin 0) (fabs x) \<and> flt (Fin 0) x" 
      "flt x (fneg DUST_POSITION_EPS) \<Longrightarrow> \<not> flt DUST_POSITION_EPS x \<Longrightarrow> flt (Fin 0) (fabs x) \<and> \<not> flt (Fin 0) x" for x
    using fabs_pos [of x] by blast+
  show ?thesis
    using assms pos
    by (auto simp: delta_decision_def Let_def decision_wf_def lit_EPS split: if_splits)
qed

text \<open>The reasons of the truth guards are none of the texts that mean success.\<close>

lemma count_blocker_mem: "count_blocker payload ks = Inr (Some r) \<Longrightarrow> r \<in> snd ` set ks"
  by (induction payload ks rule: count_blocker.induct) (auto simp: bind_py_Inr_iff split: if_splits)

lemma truth_blocker_reason:
  assumes "first_truth_blocker payload evidence = Inr (Some r)"
  shows "r \<noteq> [] \<and> r \<noteq> ''none''"
proof -
  have "first_reason (truth_guards payload evidence) = Some r \<or> count_blocker payload COUNT_BLOCKERS = Inr (Some r) \<or>
      first_reason (accounting_guards payload) = Some r"
    using assms unfolding first_truth_blocker_def
    by (cases "first_reason (truth_guards payload evidence)") (auto elim!: bind_py_InrE split: option.splits)
  then have "r \<in> snd ` set (truth_guards payload evidence) \<union> snd ` set COUNT_BLOCKERS \<union> snd ` set (accounting_guards payload)"
    by (metis UnI1 UnI2 first_reason_Some_in count_blocker_mem)
  then show ?thesis by (auto simp: truth_guards_def Let_def COUNT_BLOCKERS_def accounting_guards_def)
qed

text \<open>
  A decision either compares a known position with the target, after every guard has passed, or
  it is blocked.
\<close>

definition decision_blocked :: "target_decision \<Rightarrow> bool" where
  "decision_blocked d \<longleftrightarrow> \<not> td_would_submit d \<and> td_delta_side d = ''NONE'' \<and> td_submit_qty d = None \<and>
     td_submit_notional_krw d = None \<and> td_block_reason d \<noteq> [] \<and> td_block_reason d \<noteq> ''none'' \<and>
     td_dust_classification d \<noteq> ''executable_delta''"

definition current_qty_of :: "pydict \<Rightarrow> pydict \<Rightarrow> pyfloat \<Rightarrow> bool" where
  "current_qty_of evidence snapshot q \<longleftrightarrow>
     as_float (dget evidence ''broker_qty'') = Inr (Some q) \<or>
     as_float (dget evidence ''broker_qty'') = Inr None \<and> as_float (dget snapshot ''current_qty'') = Inr (Some q)"

lemma exposed_decision_cases:
  assumes "exposed_decision base e payload evidence snapshot price min_qty min_notional = Inr d"
    and base: "\<not> td_would_submit base" "td_delta_side base = ''NONE''" "td_submit_qty base = None"
      "td_submit_notional_krw base = None" "td_dust_classification base = ''unknown''"
  obtains (delta) q p mq mn where "d = delta_decision base e q p mq mn" "price = Some p" "\<not> fle p (Fin 0)"
      "min_qty = Some mq" "min_notional = Some mn" "first_truth_blocker payload evidence = Inr None"
      "current_qty_of evidence snapshot q"
  | (blocked) "decision_blocked d"
proof -
  consider (simple) r where "d = base\<lparr>td_new_target_exposure_krw := Some e, td_block_reason := r\<rparr>" "r \<noteq> []" "r \<noteq> ''none''"
    | (truth) r cq ce where "d = base\<lparr>td_new_target_exposure_krw := Some e, td_current_qty := cq,
        td_current_exposure_krw := ce, td_block_reason := r\<rparr>" "first_truth_blocker payload evidence = Inr (Some r)"
    | (known) q p mq mn where "d = delta_decision base e q p mq mn" "price = Some p" "\<not> fle p (Fin 0)"
      "min_qty = Some mq" "min_notional = Some mn" "first_truth_blocker payload evidence = Inr None"
      "current_qty_of evidence snapshot q"
  proof -
    note cons = that
    show ?thesis
    proof (cases "price = None \<or> fle (the price) (Fin 0) \<or> min_qty = None \<or> min_notional = None")
      case True
      then show ?thesis using assms(1) cons(1)
        by (cases price; cases min_qty; cases min_notional) (auto simp: exposed_decision_def Let_def split: if_splits)
    next
      case False
      then obtain p mq mn where p: "price = Some p" "\<not> fle p (Fin 0)" and mq: "min_qty = Some mq" and mn: "min_notional = Some mn"
        by auto
      obtain blocker q0 cq where b: "first_truth_blocker payload evidence = Inr blocker"
        and q: "as_float (dget evidence ''broker_qty'') = Inr q0"
          "(case q0 of Some q \<Rightarrow> Inr (Some q) | None \<Rightarrow> as_float (dget snapshot ''current_qty'')) = Inr cq"
        and d: "(case blocker of
           Some r \<Rightarrow> Inr (base\<lparr>td_new_target_exposure_krw := Some e, td_current_qty := cq,
             td_current_exposure_krw := map_option (\<lambda>q. fmul (fmax (Fin 0) q) p) cq, td_block_reason := r\<rparr>)
         | None \<Rightarrow> (case cq of None \<Rightarrow> Inr (base\<lparr>td_new_target_exposure_krw := Some e, td_block_reason := ''broker_qty_unknown''\<rparr>)
           | Some q \<Rightarrow> Inr (delta_decision base e q p mq mn))) = (Inr d :: target_decision py)"
        using assms(1) p mq mn by (auto simp: exposed_decision_def Let_def elim!: bind_py_InrE)
      show ?thesis
      proof (cases blocker)
        case (Some r)
        then show ?thesis using b d cons(2) by auto
      next
        case None
        then show ?thesis
          using b d q p mq mn cons(1) [of "''broker_qty_unknown''"] cons(3) [of _ p mq mn]
          by (cases cq; cases q0) (auto simp: current_qty_of_def)
      qed
    qed
  qed
  then show ?thesis
  proof cases
    case simple then show ?thesis using base by (intro blocked) (simp add: decision_blocked_def)
  next
    case truth then show ?thesis
      using base truth_blocker_reason [OF truth(2)] by (intro blocked) (simp add: decision_blocked_def)
  next
    case known then show ?thesis by (rule delta)
  qed
qed

lemma decision_base_fields:
  "\<not> td_would_submit (decision_base sig prev pl r pr mq mn st aq ae s)"
  "td_delta_side (decision_base sig prev pl r pr mq mn st aq ae s) = ''NONE''"
  "td_submit_qty (decision_base sig prev pl r pr mq mn st aq ae s) = None"
  "td_submit_notional_krw (decision_base sig prev pl r pr mq mn st aq ae s) = None"
  "td_dust_classification (decision_base sig prev pl r pr mq mn st aq ae s) = ''unknown''"
  by (simp_all add: decision_base_def Let_def)

lemma blocked_exposure_blocked:
  assumes "target_exposure_of sig prev auth s = Inl r"
  shows "decision_blocked (blocked_exposure (decision_base sig prev' pl rl pr mq mn st aq ae s) r)"
  using assms
  by (auto simp: decision_blocked_def blocked_exposure_def target_exposure_of_def decision_base_fields
      split: option.splits if_splits)

lemma target_decision_cases:
  assumes "build_target_position_decision raw prev snap readiness rules price s auth = Inr d"
  obtains (delta) base e q p mq mn where "\<not> td_would_submit base" "d = delta_decision base e q p mq mn"
      "target_exposure_of (signal_of raw) prev auth s = Inr e" "as_float (opt_float price) = Inr (Some p)" "\<not> fle p (Fin 0)"
      "rule_minimum (dict_or_empty rules) (dict_or_empty readiness) ''min_qty'' ''residual_proof_min_qty'' = Inr (Some mq)"
      "rule_minimum (dict_or_empty rules) (dict_or_empty readiness) ''min_notional_krw'' ''residual_proof_min_notional_krw''
        = Inr (Some mn)"
      "first_truth_blocker (dict_or_empty readiness) (broker_evidence_of (dict_or_empty readiness) (dict_or_empty snap)) = Inr None"
      "current_qty_of (broker_evidence_of (dict_or_empty readiness) (dict_or_empty snap)) (dict_or_empty snap) q"
  | (blocked) "decision_blocked d"
proof -
  let ?pl = "dict_or_empty readiness" and ?sn = "dict_or_empty snap" and ?r = "dict_or_empty rules"
  obtain pr mq mn st aq ae where reads: "as_float (opt_float price) = Inr pr"
      "rule_minimum ?r ?pl ''min_qty'' ''residual_proof_min_qty'' = Inr mq"
      "rule_minimum ?r ?pl ''min_notional_krw'' ''residual_proof_min_notional_krw'' = Inr mn"
    and rest: "(case target_exposure_of (signal_of raw) prev auth s of
        Inl reason \<Rightarrow> Inr (blocked_exposure (decision_base (signal_of raw) prev ?pl ?r pr mq mn st aq ae s) reason)
      | Inr e \<Rightarrow> exposed_decision (decision_base (signal_of raw) prev ?pl ?r pr mq mn st aq ae s) e ?pl
          (broker_evidence_of ?pl ?sn) ?sn pr mq mn) = Inr d"
    using assms unfolding build_target_position_decision_def Let_def by (elim bind_py_InrE) blast
  show ?thesis
  proof (cases "target_exposure_of (signal_of raw) prev auth s")
    case (Inl r)
    then show ?thesis using rest blocked_exposure_blocked [OF Inl] blocked by auto
  next
    case (Inr e)
    then have ex: "exposed_decision (decision_base (signal_of raw) prev ?pl ?r pr mq mn st aq ae s) e ?pl
          (broker_evidence_of ?pl ?sn) ?sn pr mq mn = Inr d" using rest by simp
    show ?thesis
      using ex decision_base_fields
    proof (cases rule: exposed_decision_cases)
      case d: (delta q p mq mn)
      then show ?thesis using Inr reads decision_base_fields(1) by (intro delta) simp_all
    qed (rule blocked)
  qed
qed

text \<open>
  C27: Every target decision the engine returns is well formed: it would submit exactly when its
  block reason is \<open>none\<close>; then it has a side, a known position and target, and a positive
  quantity that is the amount of the difference, a purchase exactly when the difference is
  positive; otherwise it has no side and no quantity to submit.
\<close>

theorem target_decision_well_formed:
  assumes "build_target_position_decision raw prev snap readiness rules price s auth = Inr d"
  shows "decision_wf d"
  using assms
proof (cases rule: target_decision_cases)
  case delta
  then show ?thesis using delta_decision_wf by simp
next
  case blocked
  then show ?thesis by (auto simp: decision_blocked_def decision_wf_def)
qed

subsection \<open>What a submission presupposes\<close>

lemma as_float_finite: "as_float v = Inr (Some f) \<Longrightarrow> isfinite f"
  by (cases v) (auto simp: as_float_def or_default_def bind_py_Inr_iff bind_py_def split: sum.splits py_error.splits if_splits)

lemma rule_minimum_finite: "rule_minimum r pl k f = Inr (Some m) \<Longrightarrow> isfinite m"
  unfolding rule_minimum_def by (elim bind_py_InrE) (auto dest: as_float_finite split: option.splits)

lemma count_blocker_None:
  "count_blocker payload ks = Inr None \<longleftrightarrow> (\<forall>k \<in> set ks. \<exists>n. as_int (dget payload (fst k)) = Inr n \<and> n \<le> 0)"
proof (induction ks)
  case (Cons k ks)
  then show ?case by (cases k; cases "as_int (dget payload (fst k))") auto
qed simp

lemma first_truth_blocker_None:
  assumes "first_truth_blocker payload evidence = Inr None"
  shows "list_all (\<lambda>g. \<not> fst g) (truth_guards payload evidence)"
    and "list_all (\<lambda>k. \<exists>n. as_int (dget payload (fst k)) = Inr n \<and> n \<le> 0) COUNT_BLOCKERS"
    and "list_all (\<lambda>g. \<not> fst g) (accounting_guards payload)"
proof -
  have "first_reason (truth_guards payload evidence) = None \<and> count_blocker payload COUNT_BLOCKERS = Inr None \<and>
      first_reason (accounting_guards payload) = None"
    using assms unfolding first_truth_blocker_def
    by (cases "first_reason (truth_guards payload evidence)") (auto elim!: bind_py_InrE split: option.splits)
  then show "list_all (\<lambda>g. \<not> fst g) (truth_guards payload evidence)"
    "list_all (\<lambda>k. \<exists>n. as_int (dget payload (fst k)) = Inr n \<and> n \<le> 0) COUNT_BLOCKERS"
    "list_all (\<lambda>g. \<not> fst g) (accounting_guards payload)"
    by (simp_all add: first_reason_None_iff count_blocker_None list_all_iff)
qed

lemma delta_decision_submit:
  assumes "td_would_submit (delta_decision base e q p mq mn)" and "\<not> td_would_submit base"
  obtains x where "x = fsub (fmax (Fin 0) (fdiv e p)) (fmax (Fin 0) q)"
    "td_delta_qty (delta_decision base e q p mq mn) = Some x"
    "td_current_qty (delta_decision base e q p mq mn) = Some (fmax (Fin 0) q)"
    "td_submit_qty (delta_decision base e q p mq mn) = Some (fabs x)"
    "td_submit_notional_krw (delta_decision base e q p mq mn) = Some (fabs (fmul x p))"
    "\<not> flt (fadd (fabs x) (lit 1 (-12))) mq" "\<not> flt (fadd (fabs (fmul x p)) (lit 1 (-9))) mn"
    "flt (lit 1 (-12)) x \<and> td_delta_side (delta_decision base e q p mq mn) = ''BUY'' \<or>
     flt x (fneg (lit 1 (-12))) \<and> td_delta_side (delta_decision base e q p mq mn) = ''SELL''"
  using assms unfolding delta_decision_def Let_def by (auto split: if_splits)


subsection \<open>A sale stays within the holdings\<close>

lemma exchange_step_Fin:
  "flt DUST_POSITION_EPS (Fin st) \<Longrightarrow> exchange_qty_step (fmax (Fin 0) (Fin st)) mq k = Inr (Fin st)"
  using above_EPS_pos [of st] by (simp add: exchange_qty_step_def Let_def fmax_def)

lemma nonneg_or_zero_double: "double_rat m \<Longrightarrow> is_double (nonneg_or_zero (Some (Fin m)))"
  by (auto simp: nonneg_or_zero_def fmax_def is_double_def double_rat_def)

lemma finish_fields:
  assumes "b = blocked_target_delta zs side desired mq st mn src auth"
  shows "tz_allowed (finish_target_delta b desired' p mq' mn' es k i x) \<longleftrightarrow>
    \<not> fle (kr_constrained_qty k) DUST_POSITION_EPS \<and> \<not> flt (fadd (kr_constrained_qty k) DUST_POSITION_EPS) mq' \<and>
    \<not> flt (fadd (fmul (kr_constrained_qty k) p) DUST_POSITION_EPS) mn'"
    and "tz_final_submitted_qty (finish_target_delta b desired' p mq' mn' es k i x) =
      (if tz_allowed (finish_target_delta b desired' p mq' mn' es k i x) then kr_constrained_qty k else Fin 0)"
  by (simp_all add: assms finish_target_delta_def blocked_target_delta_def Let_def)

text \<open>A difference is sized by the kernel, after every guard has passed, or it is blocked.\<close>

lemma target_sizing_cases:
  assumes "build_target_delta_execution_sizing sha zs side desired p mq st mn decs src auth = Inr z"
    and "side' = py_upper (if side = [] then ''NONE'' else side)"
    and "decs' = (case decs of None \<Rightarrow> zs_LIVE_ORDER_MAX_QTY_DECIMALS zs | Some n \<Rightarrow> max 0 n)"
  obtains (blocked) "\<not> tz_allowed z" "tz_final_submitted_qty z = Fin 0"
  | (sized) es k rules where "tz_allowed z" "tz_final_submitted_qty z = kr_constrained_qty k"
      "first_reason (target_delta_guards side' p (nonneg_or_zero desired) (nonneg_or_zero mq) (nonneg_or_zero mn)) = None"
      "exchange_qty_step (nonneg_or_zero st) (nonneg_or_zero mq) decs' = Inr es"
      "rules = target_delta_kernel_rules (nonneg_or_zero mq) es decs' (nonneg_or_zero mn) (nonneg_or_zero st) auth"
      "(if side' = ''BUY'' then plan_buy_notional sha (fmul (nonneg_or_zero desired) p) p rules
        else plan_sell_qty sha (nonneg_or_zero desired) p rules) = Inr k"
      "\<not> fle (kr_constrained_qty k) DUST_POSITION_EPS"
      "\<not> flt (fadd (kr_constrained_qty k) DUST_POSITION_EPS) (nonneg_or_zero mq)"
      "\<not> flt (fadd (fmul (kr_constrained_qty k) p) DUST_POSITION_EPS) (nonneg_or_zero mn)"
proof (cases "first_reason (target_delta_guards side' p (nonneg_or_zero desired) (nonneg_or_zero mq) (nonneg_or_zero mn))")
  case (Some r)
  then show ?thesis
    using assms(1) unfolding build_target_delta_execution_sizing_def Let_def assms(2,3) [symmetric]
    by (intro blocked) (auto simp: blocked_target_delta_def)
next
  case None
  let ?b = "blocked_target_delta zs side' (nonneg_or_zero desired) (nonneg_or_zero mq) (nonneg_or_zero st) (nonneg_or_zero mn) src auth"
  obtain es k i x where es: "exchange_qty_step (nonneg_or_zero st) (nonneg_or_zero mq) decs' = Inr es"
    and k: "(if side' = ''BUY'' then plan_buy_notional sha (fmul (nonneg_or_zero desired) p) p
          (target_delta_kernel_rules (nonneg_or_zero mq) es decs' (nonneg_or_zero mn) (nonneg_or_zero st) auth)
        else plan_sell_qty sha (nonneg_or_zero desired) p
          (target_delta_kernel_rules (nonneg_or_zero mq) es decs' (nonneg_or_zero mn) (nonneg_or_zero st) auth)) = Inr k"
    and z: "z = finish_target_delta ?b (nonneg_or_zero desired) p (nonneg_or_zero mq) (nonneg_or_zero mn) es k i x"
    using assms(1) None unfolding build_target_delta_execution_sizing_def Let_def assms(2,3) [symmetric]
    by (simp only: option.case) (elim bind_py_InrE, rule that, assumption, assumption, drule sum.inject(2) [THEN iffD1], erule sym)
  show ?thesis
  proof (cases "tz_allowed z")
    case True
    then show ?thesis using sized [OF True _ None es refl k] finish_fields [OF refl] unfolding z by metis
  next
    case False
    then show ?thesis using blocked [OF False] finish_fields(2) [OF refl] unfolding z by simp
  qed
qed

text \<open>A sale sized from a desired quantity: whole steps within it.\<close>

lemma target_sale_sized:
  assumes sized: "build_target_delta_execution_sizing sha zs ''SELL'' (Some q) p (Some (Fin m)) (Some (Fin st)) mn decs src auth = Inr z"
    and q: "is_double q" "fle (Fin 0) q" and m: "double_rat m" and st: "double_rat st" "flt DUST_POSITION_EPS (Fin st)"
    and small: "dust_decimal q / dec_of_float st < 10 ^ 10"
  shows "fle (tz_final_submitted_qty z) q \<and>
    (tz_allowed z \<longrightarrow> (\<exists>n. 0 \<le> n \<and> of_int n * dec_of_float st \<le> dust_decimal q \<and>
       dust_decimal q < of_int (n + 1) * dec_of_float st \<and> fle (tz_final_submitted_qty z) (rnd (of_int n * dec_of_float st))))"
  using sized refl refl
proof (cases rule: target_sizing_cases)
  case blocked
  then show ?thesis using q(2) by simp
next
  case (sized es k rules)
  have qz: "nonneg_or_zero (Some q) = q"
    using q by (auto simp: nonneg_or_zero_def fmax_def is_double_def split: if_splits)
  have "nonneg_or_zero (Some (Fin st)) = fmax (Fin 0) (Fin st)" by (simp add: nonneg_or_zero_def)
  then have es: "es = Fin st" using sized(4) exchange_step_Fin [OF st(2)] by simp
  have dbl: "rules_double rules"
    using st(1) nonneg_or_zero_double [OF m] sized(5) es by (simp add: rules_double_def target_delta_kernel_rules_def)
  have pos: "0 < dec_of_float st" using dec_of_float_pos_iff [OF st(1)] above_EPS_pos [OF st(2)] by simp
  then have step: "effective_step rules = Inr (dec_of_float st)"
    using sized(5) es by (simp add: effective_step_def target_delta_kernel_rules_def quantity_decimal_def Let_def)
  have "py_upper ''SELL'' = ''SELL''" by code_simp
  then have k: "plan_sell_qty sha q p rules = Inr k" using sized(6) qz by simp
  show ?thesis using sell_plan_bounds [OF dbl q step pos small k] sized(1,2) by auto
qed

lemma rnd_diff_bound:
  assumes "0 \<le> t" and "double_rat c" and "rnd (t - c) = Fin x" and "x \<le> 0"
  shows "- x \<le> c" and "double_rat x"
proof -
  have "fle (rnd (- c)) (rnd (t - c))" using assms(1) by (intro rnd_mono) simp
  then show "- x \<le> c" using assms(2,3) by (simp add: rnd_uminus double_rat_def)
  show "double_rat x" by (rule rnd_Fin_double [OF assms(3)])
qed

text \<open>A difference below zero is at most the position.\<close>

lemma negative_delta_bound:
  assumes "x = fsub (fmax (Fin 0) t) c" and "flt x (Fin 0)" and "is_double c"
  shows "is_double (fabs x) \<and> fle (fabs x) c"
proof -
  obtain c' where c: "c = Fin c'" "double_rat c'" using assms(3) by (auto simp: is_double_def)
  obtain t' where t: "fmax (Fin 0) t = Fin t'" "0 \<le> t'"
    using assms(1,2) c(1) by (cases t) (auto simp: fmax_def fsub_def split: if_splits)
  have x: "x = rnd (t' - c')" using assms(1) c(1) t(1) by (simp add: fsub_def)
  have "fle (rnd (- c')) x" unfolding x using t(2) by (intro rnd_mono) simp
  then obtain y where y: "x = Fin y" "y < 0" using assms(2) c(2) by (cases x) (auto simp: rnd_uminus double_rat_def)
  have "- y \<le> c'" "double_rat y" using rnd_diff_bound [OF t(2) c(2)] x y by auto
  then show ?thesis using y c(1) double_rat_uminus [of y] by (simp add: is_double_def)
qed


subsection \<open>An adopted position is held\<close>

lemma rnd_rel:
  assumes "pw (- 100) \<le> x" and "x \<le> pw 100"
  obtains y where "rnd x = Fin y" "\<bar>y - x\<bar> \<le> x * pw (- 53)"
proof -
  have x0: "0 < x" using assms(1) pw_pos [of "- 100"] by linarith
  have n: "pw (- 1022) \<le> x" using assms(1) pw_mono [of "- 1022" "- 100"] by linarith
  obtain y where y: "rnd x = Fin y" using rnd_small_Fin [of x] x0 assms(2) by auto
  show ?thesis using that [OF y] rnd_mag_rel [OF n] rnd_Fin_mag [OF _ y] x0 by simp
qed

lemma unit_round: "0 < pw (- 53)" "pw (- 53) \<le> 1 / 2 ^ 53"
  by (simp_all add: power_int_minus field_simps)

text \<open>Multiplying by a price and dividing by it again moves a quantity by three units of rounding at most.\<close>

lemma mul_div_near:
  assumes c: "1 / 10 ^ 13 \<le> c" "c \<le> pw 70" and p: "1 / 10 ^ 9 \<le> p" and E: "rnd (c * p) = Fin E" "c * p \<le> pw 100"
  obtains t where "rnd (E / p) = Fin t" "\<bar>t - c\<bar> \<le> 3 * c * pw (- 53)"
proof -
  let ?u = "pw (- 53)"
  have c0: "0 < c" using c(1) by (rule less_le_trans [rotated]) simp
  have p0: "0 < p" using p by (rule less_le_trans [rotated]) simp
  have "1 / 10 ^ 13 * (1 / 10 ^ 9) \<le> c * p" using c(1) p by (intro mult_mono) simp_all
  moreover have "pw (- 100) \<le> 1 / 10 ^ 13 * (1 / 10 ^ 9)" by (simp add: power_int_minus)
  ultimately have lo: "pw (- 100) \<le> c * p" by (rule order_trans [rotated])
  obtain y where "rnd (c * p) = Fin y" "\<bar>y - c * p\<bar> \<le> c * p * ?u" by (rule rnd_rel [OF lo E(2)])
  then have e1: "\<bar>E - c * p\<bar> \<le> c * p * ?u" using E(1) by simp
  have "\<bar>E / p - c\<bar> = \<bar>E - c * p\<bar> / p" by (rule scaled_dist [OF p0])
  also have "\<dots> \<le> c * p * ?u / p" using e1 p0 by (intro divide_right_mono) simp_all
  also have "\<dots> = c * ?u" using p0 by simp
  finally have e2: "\<bar>E / p - c\<bar> \<le> c * ?u" .
  have cu: "c * ?u \<le> c / 2" using unit_round(2) c0 by (simp add: power_int_minus field_simps)
  have lo2: "pw (- 100) \<le> E / p" 
  proof -
    have "pw (- 100) \<le> 1 / 10 ^ 13 / 2" by (simp add: power_int_minus)
    also have "\<dots> \<le> c / 2" using c(1) by (intro divide_right_mono) simp_all
    also have "\<dots> \<le> E / p" using e2 cu by linarith
    finally show ?thesis .
  qed
  have hi2: "E / p \<le> pw 100"
  proof -
    have "E / p \<le> 2 * pw 70" using e2 cu c(2) c0 by linarith
    then show ?thesis by simp
  qed
  obtain t where t: "rnd (E / p) = Fin t" "\<bar>t - E / p\<bar> \<le> E / p * ?u" by (rule rnd_rel [OF lo2 hi2])
  have "E / p \<le> 2 * c" using e2 cu c0 by linarith
  then have "E / p * ?u \<le> 2 * c * ?u" using unit_round(1) by (intro mult_right_mono) simp_all
  then have "\<bar>t - c\<bar> \<le> 3 * c * ?u" using t(2) e2 by linarith
  then show ?thesis by (rule that [OF t(1)])
qed

text \<open>A difference of rounding errors stays below the minimum quantity.\<close>

lemma rounding_delta_below_min:
  assumes c: "1 / 10 ^ 13 \<le> c" "c \<le> 2 ^ 40 * m" and m: "1 / 10 ^ 9 \<le> m" "m \<le> 10 ^ 9"
    and near: "\<bar>t - c\<bar> \<le> 3 * c * pw (- 53)"
  shows "flt (fadd (fabs (rnd (t - c))) DUST_POSITION_EPS) (Fin m)"
proof -
  let ?B = "3 * c * pw (- 53)"
  have m0: "0 < m" using m(1) by (rule less_le_trans [rotated]) simp
  have "c \<le> 2 ^ 40 * 10 ^ 9" using c(2) mult_left_mono [OF m(2), of "2 ^ 40"] by simp
  then have hi: "?B \<le> pw 100" by (simp add: power_int_minus)
  have "3 * (1 / 10 ^ 13) * pw (- 53) \<le> ?B" using c(1) by (intro mult_right_mono mult_left_mono) simp_all
  then have lo: "pw (- 100) \<le> ?B" by (rule order_trans [rotated]) (simp add: power_int_minus)
  obtain b where b: "rnd ?B = Fin b" "\<bar>b - ?B\<bar> \<le> ?B * pw (- 53)" by (rule rnd_rel [OF lo hi])
  have "?B \<le> m / 2048" using c(2) m0 by (simp add: power_int_minus)
  moreover have "?B * pw (- 53) \<le> ?B" using c(1) by (simp add: power_int_minus)
  ultimately have bm: "b \<le> m / 1024" using b(2) by linarith
  have "t - c \<le> ?B" "- ?B \<le> t - c" using near by linarith+
  then have "fle (rnd (t - c)) (rnd ?B)" "fle (rnd (- ?B)) (rnd (t - c))" using rnd_mono by blast+
  then have "fle (rnd (t - c)) (Fin b)" "fle (Fin (- b)) (rnd (t - c))" unfolding rnd_uminus b(1) by simp_all
  then obtain x where x: "rnd (t - c) = Fin x" "\<bar>x\<bar> \<le> b" by (cases "rnd (t - c)") auto
  let ?e = "of_int 4951760157141521 * pw (- 92) :: rat"
  have e: "0 \<le> ?e" "?e \<le> m / 2 ^ 3" using m(1) by (simp_all add: power_int_minus)
  have "\<bar>x\<bar> + ?e \<le> m / 4" using x(2) bm e m0 by simp
  then have "fle (rnd (\<bar>x\<bar> + ?e)) (rnd (m / 4))" by (rule rnd_mono)
  moreover obtain y where y: "rnd (m / 4) = Fin y" "\<bar>y - m / 4\<bar> \<le> m / 4 * pw (- 53)"
  proof (rule rnd_rel)
    have "pw (- 100) \<le> 1 / 10 ^ 9 / 4" by (simp add: power_int_minus)
    also have "\<dots> \<le> m / 4" using m(1) by (intro divide_right_mono) simp_all
    finally show "pw (- 100) \<le> m / 4" .
    show "m / 4 \<le> pw 100" using m(2) by simp
  qed
  moreover have "m / 4 * pw (- 53) \<le> m / 4" using m0 by (simp add: power_int_minus)
  then have "y < m" using y(2) m0 by linarith
  ultimately have "flt (rnd (\<bar>x\<bar> + ?e)) (Fin m)" by (cases "rnd (\<bar>x\<bar> + ?e)") auto
  then show ?thesis unfolding x(1) EPS_value by simp
qed

lemma startup_adopts:
  assumes "resolve_startup_target_position_policy None readiness rules price raw = Inr su"
    and "su_policy_action su = ''adopt_existing_broker_position''"
  obtains p mq mn q where "as_float (opt_float price) = Inr (Some p)" "\<not> fle p (Fin 0)"
    "rule_minimum (dict_or_empty rules) (dict_or_empty readiness) ''min_qty'' ''residual_proof_min_qty'' = Inr (Some mq)"
    "rule_minimum (dict_or_empty rules) (dict_or_empty readiness) ''min_notional_krw'' ''residual_proof_min_notional_krw'' = Inr (Some mn)"
    "as_float (dget (dict_value (dget (dict_or_empty readiness) ''broker_position_evidence'')) ''broker_qty'') = Inr (Some q)"
    "first_truth_blocker (dict_or_empty readiness) (dict_value (dget (dict_or_empty readiness) ''broker_position_evidence'')) = Inr None"
    "su = startup_converged (signal_of raw) q p mq mn" "\<not> fle (fmax (Fin 0) q) DUST_POSITION_EPS"
proof -
  let ?pl = "dict_or_empty readiness" and ?r = "dict_or_empty rules"
  let ?ev = "dict_value (dget ?pl ''broker_position_evidence'')"
  have act: "su \<noteq> startup_blocked (signal_of raw) r" for r
    using assms(2) by (auto simp: startup_blocked_def)
  obtain pr mq mn where reads: "as_float (opt_float price) = Inr pr"
      "rule_minimum ?r ?pl ''min_qty'' ''residual_proof_min_qty'' = Inr mq"
      "rule_minimum ?r ?pl ''min_notional_krw'' ''residual_proof_min_notional_krw'' = Inr mn"
    and rest: "(case pr of None \<Rightarrow> Inr (startup_blocked (signal_of raw) ''missing_reference_price'')
       | Some p \<Rightarrow> if fle p (Fin 0) then Inr (startup_blocked (signal_of raw) ''missing_reference_price'') else
         case mq of None \<Rightarrow> Inr (startup_blocked (signal_of raw) ''missing_order_rule_min_qty'')
         | Some mq \<Rightarrow> case mn of None \<Rightarrow> Inr (startup_blocked (signal_of raw) ''missing_order_rule_min_notional_krw'')
         | Some mn \<Rightarrow> bind_py (first_truth_blocker ?pl ?ev) (\<lambda>blocker.
             case blocker of Some r \<Rightarrow> Inr (startup_blocked (signal_of raw) r)
             | None \<Rightarrow> bind_py (as_float (dget ?ev ''broker_qty'')) (\<lambda>broker_qty.
                 case broker_qty of None \<Rightarrow> Inr (startup_blocked (signal_of raw) ''broker_qty_unknown'')
                 | Some q \<Rightarrow> Inr (startup_converged (signal_of raw) q p mq mn)))) = Inr su"
    using assms(1) unfolding resolve_startup_target_position_policy_def Let_def option.case
    by (elim bind_py_InrE) (rule that, assumption+)
  show ?thesis
  proof (cases pr; cases mq; cases mn)
    fix p m n
    assume some: "pr = Some p" "mq = Some m" "mn = Some n"
    then have p: "\<not> fle p (Fin 0)" using rest act by (auto split: if_splits)
    obtain blocker where b: "first_truth_blocker ?pl ?ev = Inr blocker"
      "(case blocker of Some r \<Rightarrow> Inr (startup_blocked (signal_of raw) r)
             | None \<Rightarrow> bind_py (as_float (dget ?ev ''broker_qty'')) (\<lambda>broker_qty.
                 case broker_qty of None \<Rightarrow> Inr (startup_blocked (signal_of raw) ''broker_qty_unknown'')
                 | Some q \<Rightarrow> Inr (startup_converged (signal_of raw) q p m n))) = Inr su"
      using rest some p by (auto elim!: bind_py_InrE)
    then have none: "blocker = None" using act by (cases blocker) auto
    obtain q where q: "as_float (dget ?ev ''broker_qty'') = Inr (Some q)" "su = startup_converged (signal_of raw) q p m n"
      using b(2) none act [of "''broker_qty_unknown''"] by (auto elim!: bind_py_InrE split: option.splits)
    have "\<not> fle (fmax (Fin 0) q) DUST_POSITION_EPS"
      using assms(2) q(2) by (auto simp: startup_converged_def Let_def lit_EPS)
    then show ?thesis using that reads some p b(1) none q by simp
  qed (use rest act in \<open>auto split: if_splits\<close>)
qed

text \<open>
  C28: A start that adopts the position of the broker does not trade on it. If the startup policy
  adopts the position and the next decision holds that target, with the same readiness, rules
  and price and nothing else changed, the decision does not submit: multiplying the quantity
  by the price and dividing the exposure by it again leaves less than the minimum quantity.
  The position is at most \<open>2^40\<close> minimum quantities, the minimum quantity lies between
  \<open>10^-9\<close> and \<open>10^9\<close>, and price and exposure are within what the exchange knows.
\<close>

theorem adopted_position_is_held:
  assumes "resolve_startup_target_position_policy None readiness rules price raw = Inr su"
    and "su_policy_action su = ''adopt_existing_broker_position''"
    and "build_target_position_decision ''HOLD'' (su_target_exposure_krw su) None readiness rules price s None = Inr d"
    and "price = Some (Fin p)"
    and "rule_minimum (dict_or_empty rules) (dict_or_empty readiness) ''min_qty'' ''residual_proof_min_qty'' = Inr (Some (Fin m))"
    and "su_target_qty su = Some (Fin c)"
    and "1 / 10 ^ 9 \<le> m" and "m \<le> 10 ^ 9" and "c \<le> 2 ^ 40 * m" and "1 / 10 ^ 9 \<le> p" and "c * p \<le> pw 100"
  shows "\<not> td_would_submit d"
  using assms(3)
proof (cases rule: target_decision_cases)
  case blocked
  then show ?thesis by (simp add: decision_blocked_def)
next
  case (delta base e q p' mq mn)
  obtain q1 mq1 mn1 p1 where su: "as_float (opt_float price) = Inr (Some p1)"
      "rule_minimum (dict_or_empty rules) (dict_or_empty readiness) ''min_qty'' ''residual_proof_min_qty'' = Inr (Some mq1)"
      "as_float (dget (dict_value (dget (dict_or_empty readiness) ''broker_position_evidence'')) ''broker_qty'') = Inr (Some q1)"
      "su = startup_converged (signal_of raw) q1 p1 mq1 mn1" "\<not> fle (fmax (Fin 0) q1) DUST_POSITION_EPS"
    by (rule startup_adopts [OF assms(1,2)])
  have p1: "p1 = Fin p" "p' = Fin p" "mq = Fin m"
    using su(1) delta(4,6) assms(4,5) by (simp_all add: as_float_def opt_float_def or_default_def split: if_splits)
  have ev: "broker_evidence_of pl [] = dict_value (dget pl ''broker_position_evidence'')" for pl
    by (simp add: broker_evidence_of_def dmerge_def)
  have q: "q = q1" using delta(9) su(3) by (simp add: ev current_qty_of_def dict_or_empty_def)
  have c: "fmax (Fin 0) q1 = Fin c" "su_target_exposure_krw su = Some (rnd (c * p))"
    using assms(2,6) su(4) p1(1) by (auto simp: startup_converged_def Let_def startup_blocked_def split: if_splits)
  have "signal_of ''HOLD'' = ''HOLD''" by code_simp
  then have e: "e = fmax (Fin 0) (rnd (c * p))" using delta(3) c(2) by (simp add: target_exposure_of_def)
  have c1: "1 / 10 ^ 13 \<le> c" using su(5) c(1) by (simp add: EPS_value power_int_minus)
  have c2: "c \<le> pw 70" using assms(9) mult_left_mono [OF assms(8), of "2 ^ 40"] by simp
  have pos: "0 \<le> c * p" using c1 assms(10) by (intro mult_nonneg_nonneg) (rule order_trans [rotated], assumption, simp)+
  then obtain E where E: "rnd (c * p) = Fin E" using rnd_small_Fin [of "c * p"] assms(11) by auto
  have "fle (Fin 0) (Fin E)" using rnd_mono [OF pos] E by simp
  then have "e = Fin E" using e E by (simp add: fmax_def)
  moreover obtain t where t: "rnd (E / p) = Fin t" "\<bar>t - c\<bar> \<le> 3 * c * pw (- 53)"
    by (rule mul_div_near [OF c1 c2 assms(10) E assms(11)])
  moreover have "p \<noteq> 0" using assms(10) by auto
  moreover have "3 * c * pw (- 53) \<le> c" using order_trans [OF _ c1, of 0] by (simp add: power_int_minus)
  then have "0 \<le> t" using t(2) by linarith
  ultimately have x: "fsub (fmax (Fin 0) (fdiv e p')) (fmax (Fin 0) q) = rnd (t - c)"
    using p1(2) q c(1) by (simp add: fsub_def fmax_def)
  have "flt (fadd (fabs (rnd (t - c))) (lit 1 (-12))) mq"
    using rounding_delta_below_min [OF c1 assms(9,7,8) t(2)] p1(3) by (simp add: lit_EPS)
  then show ?thesis using delta_decision_submit [OF _ delta(1)] x unfolding delta(2) by metis
qed

subsection \<open>Samples\<close>

definition sample_readiness :: pydict where
  "sample_readiness = [(''broker_position_evidence'', VDict [(''broker_qty_known'', VBool True), (''broker_qty'', VFloat (Fin 10))])]"

definition sample_target_rules :: pydict where
  "sample_target_rules = [(''min_qty'', VFloat (Fin 4)), (''min_notional_krw'', VFloat (Fin 5)), (''qty_step'', VFloat (Fin 4))]"

definition sample_target_settings :: target_settings where
  "sample_target_settings = \<lparr>ts_execution_engine = ''target_delta'', ts_shadow_enabled = False, ts_target_exposure_krw = None,
     ts_max_order_krw = Fin 50, ts_hold_policy = [], ts_position_mode = []\<rparr>"

definition sample_sizing_settings :: sizing_settings where
  "sample_sizing_settings = \<lparr>zs_MODE = ''live'', zs_LIVE_DRY_RUN = False, zs_LIVE_REAL_ORDER_ARMED = True, zs_BUY_FRACTION = Fin 1,
     zs_MAX_ORDER_KRW = Fin 50, zs_STRATEGY_ENTRY_SLIPPAGE_BPS = Fin 0, zs_ENTRY_EDGE_BUFFER_RATIO = Fin 0,
     zs_LIVE_FEE_RATE_ESTIMATE = Fin 0, zs_LIVE_MIN_ORDER_QTY = Fin 0, zs_LIVE_ORDER_MAX_QTY_DECIMALS = 0\<rparr>"

lemma sample_sale:
  "td_would_submit (delta_decision base (Fin 0) (Fin 10) (Fin 3) (Fin 4) (Fin 5))"
  "td_delta_side (delta_decision base (Fin 0) (Fin 10) (Fin 3) (Fin 4) (Fin 5)) = ''SELL''"
  "td_current_qty (delta_decision base (Fin 0) (Fin 10) (Fin 3) (Fin 4) (Fin 5)) = Some (Fin 10)"
  "td_submit_qty (delta_decision base (Fin 0) (Fin 10) (Fin 3) (Fin 4) (Fin 5)) = Some (Fin 10)"
proof -
  obtain e where e: "lit 1 (- 12) = Fin e" "0 \<le> e" "e \<le> 1" by (rule tolerance_Fin [OF refl, of 12]) simp_all
  obtain f where f: "lit 1 (- 9) = Fin f" "0 \<le> f" "f \<le> 1" by (rule tolerance_Fin [OF refl, of 9]) simp_all
  have ten: "rnd (- 10) = Fin (- 10)" "rnd (- 30) = Fin (- 30)" using rnd_of_int [of "- 10"] rnd_of_int [of "- 30"] by simp_all
  have q: "\<not> flt (rnd (10 + e)) (Fin 4)" using tolerated_ge [OF _ refl e(2), of 10 _ 4] by simp
  have v: "\<not> flt (rnd (30 + f)) (Fin 5)" using tolerated_ge [OF _ refl f(2), of 30 _ 5] by simp
  show "td_would_submit (delta_decision base (Fin 0) (Fin 10) (Fin 3) (Fin 4) (Fin 5))"
    "td_delta_side (delta_decision base (Fin 0) (Fin 10) (Fin 3) (Fin 4) (Fin 5)) = ''SELL''"
    "td_current_qty (delta_decision base (Fin 0) (Fin 10) (Fin 3) (Fin 4) (Fin 5)) = Some (Fin 10)"
    "td_submit_qty (delta_decision base (Fin 0) (Fin 10) (Fin 3) (Fin 4) (Fin 5)) = Some (Fin 10)"
    using e f ten q v by (simp_all add: delta_decision_def Let_def fmax_def fsub_def)
qed

lemma sample_guards:
  "first_truth_blocker sample_readiness (dict_value (dget sample_readiness ''broker_position_evidence'')) = Inr None"
proof -
  have "as_int VNone = Inr 0" by (simp add: as_int_def py_or_def or_default_def)
  then show ?thesis
    by (simp add: first_truth_blocker_def truth_guards_def accounting_guards_def COUNT_BLOCKERS_def dfalse_def dhas_def
        dict_value_def dget_def dget_or_def sample_readiness_def)
qed

lemma sample_decided:
  assumes "signal_of sig = sig" and "target_exposure_of sig prev None sample_target_settings = Inr e"
  obtains base where "build_target_position_decision sig prev None (Some sample_readiness) (Some sample_target_rules)
    (Some (Fin 3)) sample_target_settings None = Inr (delta_decision base e (Fin 10) (Fin 3) (Fin 4) (Fin 5))"
  by (rule that)
    (simp add: build_target_position_decision_def Let_def assms dict_or_empty_def
      sample_guards [unfolded sample_readiness_def dget_def dict_value_def, simplified] exposed_decision_def as_float_def
      opt_float_def rule_minimum_def sample_target_rules_def dget_def or_default_def sample_readiness_def dict_value_def
      broker_evidence_of_def dmerge_def)

lemma sample_decision:
  obtains base where "build_target_position_decision ''SELL'' None None (Some sample_readiness) (Some sample_target_rules)
    (Some (Fin 3)) sample_target_settings None = Inr (delta_decision base (Fin 0) (Fin 10) (Fin 3) (Fin 4) (Fin 5))"
proof (rule sample_decided)
  show "signal_of ''SELL'' = ''SELL''" by code_simp
qed (simp_all add: target_exposure_of_def)

lemma sample_hold:
  obtains d where "build_target_position_decision ''HOLD'' (Some (Fin 30)) None (Some sample_readiness) (Some sample_target_rules)
    (Some (Fin 3)) sample_target_settings None = Inr d"
proof -
  have "signal_of ''HOLD'' = ''HOLD''" by code_simp
  moreover have "target_exposure_of ''HOLD'' (Some (Fin 30)) None sample_target_settings = Inr (Fin 30)"
    by (simp add: target_exposure_of_def fmax_def)
  ultimately show ?thesis using that by (rule sample_decided)
qed

lemma sample_sizing:
  "\<exists>z. build_target_delta_execution_sizing sha sample_sizing_settings ''SELL'' (Some (Fin 10)) (Fin 3) (Some (Fin 4))
     (Some (Fin 4)) (Some (Fin 5)) None [] ''exchange'' = Inr z \<and> tz_allowed z \<and> tz_final_submitted_qty z = Fin 8"
proof -
  obtain k where k: "plan_sell_qty sha (Fin 10) (Fin 3) sample_order_rules = Inr k" using sample_sale_setup(8) by blast
  obtain n where "of_int n * 4 \<le> (10 :: rat)" "(10 :: rat) < of_int (n + 1) * 4" "kr_constrained_qty k = rnd (of_int n * 4)"
    using sell_plan_bounds [OF sample_sale_setup(1,3,4,2) zero_less_numeral sample_sale_setup(6) k]
      sample_sale_setup(5,7) by metis
  then have c: "kr_constrained_qty k = Fin 8" using two_steps by simp
  have r: "target_delta_kernel_rules (Fin 4) (Fin 4) 0 (Fin 5) (Fin 4) ''exchange'' = sample_order_rules"
    by (simp add: target_delta_kernel_rules_def sample_order_rules_def)
  have u: "py_upper ''SELL'' = ''SELL''" by code_simp
  have nn: "nonneg_or_zero (Some (Fin 10)) = Fin 10" "nonneg_or_zero (Some (Fin 4)) = Fin 4" "nonneg_or_zero (Some (Fin 5)) = Fin 5"
    by (simp_all add: nonneg_or_zero_def fmax_def)
  have eps: "flt DUST_POSITION_EPS (Fin 4)" "\<not> fle (Fin 10) DUST_POSITION_EPS" "\<not> fle (Fin 8) DUST_POSITION_EPS"
    using EPS_small [of 4] EPS_small [of 8] EPS_small [of 10] by (simp_all add: flt_iff)
  have g: "first_reason (target_delta_guards ''SELL'' (Fin 3) (Fin 10) (Fin 4) (Fin 5)) = None"
    using eps(2) by (simp add: target_delta_guards_def)
  have es: "exchange_qty_step (Fin 4) (Fin 4) 0 = Inr (Fin 4)" using eps(1) by (simp add: exchange_qty_step_def fmax_def)
  obtain z where z: "build_target_delta_execution_sizing sha sample_sizing_settings ''SELL'' (Some (Fin 10)) (Fin 3) (Some (Fin 4))
     (Some (Fin 4)) (Some (Fin 5)) None [] ''exchange'' = Inr z"
    and f: "\<exists>b i x. z = finish_target_delta b (Fin 10) (Fin 3) (Fin 4) (Fin 5) (Fin 4) k i x \<and>
      b = blocked_target_delta sample_sizing_settings ''SELL'' (Fin 10) (Fin 4) (Fin 4) (Fin 5) [] ''exchange''"
    using k eps by (auto simp: build_target_delta_execution_sizing_def Let_def u nn g es r c decimal_ratio_int_def
        sample_sizing_settings_def)
  have m: "\<not> flt (fadd (Fin 8) DUST_POSITION_EPS) (Fin 4)" "\<not> flt (fadd (fmul (Fin 8) (Fin 3)) DUST_POSITION_EPS) (Fin 5)"
  proof -
    obtain e where e: "DUST_POSITION_EPS = Fin e" "0 \<le> e" by (rule EPS_Fin)
    show "\<not> flt (fadd (Fin 8) DUST_POSITION_EPS) (Fin 4)" using tolerated_ge [OF refl e, of 8 4] by simp
    have "rnd 24 = Fin 24" using rnd_of_int [of 24] by simp
    then show "\<not> flt (fadd (fmul (Fin 8) (Fin 3)) DUST_POSITION_EPS) (Fin 5)" using tolerated_ge [OF refl e, of 24 5] by simp
  qed
  show ?thesis using z f m c eps(3) finish_fields by (intro exI [of _ z]) auto
qed

lemma sample_startup:
  "resolve_startup_target_position_policy None (Some sample_readiness) (Some sample_target_rules) (Some (Fin 3)) ''HOLD'' =
     Inr (startup_converged ''HOLD'' (Fin 10) (Fin 3) (Fin 4) (Fin 5))"
proof -
  have "signal_of ''HOLD'' = ''HOLD''" by code_simp
  then show ?thesis
    by (simp add: resolve_startup_target_position_policy_def Let_def dict_or_empty_def as_float_def opt_float_def
        sample_guards [unfolded sample_readiness_def dget_def dict_value_def, simplified] rule_minimum_def
        sample_target_rules_def dget_def or_default_def sample_readiness_def dict_value_def)
qed

lemma sample_adoption:
  "su_policy_action (startup_converged sig (Fin 10) (Fin 3) (Fin 4) (Fin 5)) = ''adopt_existing_broker_position''"
  "su_target_qty (startup_converged sig (Fin 10) (Fin 3) (Fin 4) (Fin 5)) = Some (Fin 10)"
  "su_target_exposure_krw (startup_converged sig (Fin 10) (Fin 3) (Fin 4) (Fin 5)) = Some (Fin 30)"
proof -
  obtain e where e: "lit 1 (- 12) = Fin e" "0 \<le> e" "e \<le> 1" by (rule tolerance_Fin [OF refl, of 12]) simp_all
  obtain f where f: "lit 1 (- 9) = Fin f" "0 \<le> f" "f \<le> 1" by (rule tolerance_Fin [OF refl, of 9]) simp_all
  have thirty: "rnd 30 = Fin 30" using rnd_of_int [of 30] by simp
  have "\<not> flt (rnd (10 + e)) (Fin 4)" "\<not> flt (rnd (30 + f)) (Fin 5)"
    using tolerated_ge [OF _ refl e(2), of 10 _ 4] tolerated_ge [OF _ refl f(2), of 30 _ 5] by simp_all
  then show "su_policy_action (startup_converged sig (Fin 10) (Fin 3) (Fin 4) (Fin 5)) = ''adopt_existing_broker_position''"
    "su_target_qty (startup_converged sig (Fin 10) (Fin 3) (Fin 4) (Fin 5)) = Some (Fin 10)"
    "su_target_exposure_krw (startup_converged sig (Fin 10) (Fin 3) (Fin 4) (Fin 5)) = Some (Fin 30)"
    using e f thirty by (simp_all add: startup_converged_def startup_blocked_def Let_def fmax_def)
qed

subsection \<open>Witnesses\<close>

theorem target_decision_well_formed_witness:
  "\<exists>d. build_target_position_decision ''SELL'' None None (Some sample_readiness) (Some sample_target_rules)
    (Some (Fin 3)) sample_target_settings None = Inr d \<and> decision_wf d \<and> td_would_submit d"
proof -
  obtain base where b: "build_target_position_decision ''SELL'' None None (Some sample_readiness) (Some sample_target_rules)
    (Some (Fin 3)) sample_target_settings None = Inr (delta_decision base (Fin 0) (Fin 10) (Fin 3) (Fin 4) (Fin 5))"
    by (rule sample_decision)
  show ?thesis using b target_decision_well_formed [OF b] sample_sale(1) by auto
qed



theorem adopted_position_is_held_witness:
  "\<exists>su d. resolve_startup_target_position_policy None (Some sample_readiness) (Some sample_target_rules) (Some (Fin 3)) ''HOLD''
      = Inr su \<and> su_policy_action su = ''adopt_existing_broker_position'' \<and>
    build_target_position_decision ''HOLD'' (su_target_exposure_krw su) None (Some sample_readiness) (Some sample_target_rules)
      (Some (Fin 3)) sample_target_settings None = Inr d \<and> \<not> td_would_submit d"
proof -
  let ?su = "startup_converged ''HOLD'' (Fin 10) (Fin 3) (Fin 4) (Fin 5)"
  obtain d where d: "build_target_position_decision ''HOLD'' (su_target_exposure_krw ?su) None (Some sample_readiness)
      (Some sample_target_rules) (Some (Fin 3)) sample_target_settings None = Inr d"
    unfolding sample_adoption(3) by (rule sample_hold)
  have mq: "rule_minimum (dict_or_empty (Some sample_target_rules)) (dict_or_empty (Some sample_readiness)) ''min_qty''
      ''residual_proof_min_qty'' = Inr (Some (Fin 4))"
    by (simp add: dict_or_empty_def rule_minimum_def sample_target_rules_def dget_def as_float_def or_default_def)
  have "\<not> td_would_submit d"
    using adopted_position_is_held [OF sample_startup sample_adoption(1) d refl mq sample_adoption(2)] by simp
  then show ?thesis using sample_startup sample_adoption(1) d by blast
qed

end
