(* ===== verification/Sizing_Properties.thy ===== *)
theory Sizing_Properties
  imports Target_Properties
begin

text \<open>
  Properties of the fee authority and of the sizing of purchases and sales, and the agreement of
  the four copies of the flooring.
\<close>

subsection \<open>The fee authority\<close>

lemma decimal_or_zero_valid:
  assumes "isfinite f \<Longrightarrow> is_double f"
  shows "\<not> fee_invalid (decimal_or_zero f) \<and> 0 \<le> decimal_or_zero f"
proof (cases f)
  case (Fin q)
  then have q: "double_rat q" using assms by (simp add: is_double_def)
  show ?thesis
  proof (cases "dec_of_float q < 0")
    case False
    then have "0 \<le> q" using dec_of_float_pos_iff [OF q] by (metis not_less)
    then show ?thesis using False dec_of_float_roundtrip [OF q] by (simp add: Fin decimal_or_zero_def fee_invalid_def)
  qed (simp add: Fin decimal_or_zero_def fee_invalid_def)
qed (simp_all add: decimal_or_zero_def fee_invalid_def)

lemma all_chance_doc_not_missing:
  "list_all (\<lambda>v. v = ''chance_doc'') vs \<Longrightarrow> \<not> list_ex (\<lambda>v. v \<in> {''missing'', ''unsupported_by_doc''}) vs"
  by (induction vs) auto

lemma py_join_head: "xs \<noteq> [] \<Longrightarrow> [] \<notin> set xs \<Longrightarrow> py_join sep xs \<noteq> [] \<and> hd (py_join sep xs) = hd (hd xs)"
  by (induction sep xs rule: py_join.induct) auto

lemma degraded_reasons_text:
  assumes "rs = degraded_reasons a b c d e f" and "rs \<noteq> []"
  shows "py_join '','' rs \<noteq> [] \<and> py_join '','' rs \<noteq> ''none''"
proof -
  have mem: "x \<noteq> [] \<and> hd x \<noteq> CHR ''n''" if "x \<in> set rs" for x
    using that unfolding assms(1) degraded_reasons_def by (auto split: if_splits)
  have "py_join '','' rs \<noteq> [] \<and> hd (py_join '','' rs) = hd (hd rs)"
    using py_join_head [OF assms(2)] mem by blast
  moreover have "hd (hd rs) \<noteq> CHR ''n''" using mem [of "hd rs"] assms(2) by simp
  ultimately show ?thesis by auto
qed

lemma degraded_iff:
  "fa_degraded (build_fee_authority_snapshot est now r cfg) \<longleftrightarrow>
     \<not> list_all (\<lambda>v. v = ''chance_doc'') (fee_sources (rr_source r)) \<or> rr_fallback_used r \<or>
     rr_snapshot_persisted r \<and> fle (rr_expires_at_sec r) (Fin 0) \<or> resolution_is_stale r now \<or>
     list_ex fee_invalid (rules_fee_values (rr_rules r))"
proof -
  let ?all = "list_all (\<lambda>v. v = ''chance_doc'') (fee_sources (rr_source r))"
  let ?miss = "list_ex (\<lambda>v. v \<in> {''missing'', ''unsupported_by_doc''}) (fee_sources (rr_source r))"
  let ?snap = "rr_snapshot_persisted r \<and> fle (rr_expires_at_sec r) (Fin 0)"
  let ?rs = "degraded_reasons ?all ?miss (rr_fallback_used r) ?snap (resolution_is_stale r now)
    (list_ex fee_invalid (rules_fee_values (rr_rules r)))"
  have "fa_degraded (build_fee_authority_snapshot est now r cfg) \<longleftrightarrow>
      (if py_join '','' ?rs = [] then ''none'' else py_join '','' ?rs) \<noteq> ''none''"
    by (simp only: build_fee_authority_snapshot_def Let_def fee_authority.simps)
  also have "\<dots> \<longleftrightarrow> ?rs \<noteq> []"
    using degraded_reasons_text [OF refl, of ?all ?miss "rr_fallback_used r" ?snap "resolution_is_stale r now"] by auto
  also have "\<dots> \<longleftrightarrow> \<not> ?all \<or> ?miss \<or> rr_fallback_used r \<or> ?snap \<or> resolution_is_stale r now \<or>
      list_ex fee_invalid (rules_fee_values (rr_rules r))"
    by (simp add: degraded_reasons_def)
  finally show ?thesis using all_chance_doc_not_missing by blast
qed

definition fees_numeric :: "derived_order_constraints \<Rightarrow> bool" where
  "fees_numeric r \<longleftrightarrow> list_all (\<lambda>f. isfinite f \<longrightarrow> is_double f) [dc_bid_fee r, dc_ask_fee r, dc_maker_bid_fee r, dc_maker_ask_fee r]"

lemma no_invalid_fee:
  assumes "fees_numeric r"
  shows "\<not> list_ex fee_invalid (rules_fee_values r)" and "list_all (\<lambda>x. 0 \<le> x) (rules_fee_values r)"
    and "map (\<lambda>f. if fee_invalid f then 0 else f) (rules_fee_values r) = rules_fee_values r"
proof -
  have v: "list_all (\<lambda>x. \<not> fee_invalid x \<and> 0 \<le> x) (rules_fee_values r)"
    using assms decimal_or_zero_valid by (simp add: fees_numeric_def rules_fee_values_def)
  then show "\<not> list_ex fee_invalid (rules_fee_values r)" "list_all (\<lambda>x. 0 \<le> x) (rules_fee_values r)"
    by (simp_all add: list_all_iff list_ex_iff)
  show "map (\<lambda>f. if fee_invalid f then 0 else f) (rules_fee_values r) = rules_fee_values r"
    using v by (intro map_idI) (simp add: list_all_iff)
qed

text \<open>
  The fee authority allows a live entry exactly when all four fees come from the exchange
  document, no fallback rule was used, the rules were not restored from a stored snapshot and
  they are not stale. The rates are those of the rules when all come from the document, none
  of them negative, and otherwise the configured estimate or the rate the caller gives.
\<close>

theorem fee_authority_entry_iff:
  assumes "f = build_fee_authority_snapshot est now r cfg" and "fees_numeric (rr_rules r)"
  shows "(live_entry_allowed f \<longleftrightarrow>
      list_all (\<lambda>v. v = ''chance_doc'') (fee_sources (rr_source r)) \<and> \<not> rr_fallback_used r \<and>
      \<not> (rr_snapshot_persisted r \<and> fle (rr_expires_at_sec r) (Fin 0)) \<and> \<not> resolution_is_stale r now) \<and>
    (if list_all (\<lambda>v. v = ''chance_doc'') (fee_sources (rr_source r))
     then [fa_bid_fee f, fa_ask_fee f, fa_maker_bid_fee f, fa_maker_ask_fee f] = rules_fee_values (rr_rules r)
     else [fa_bid_fee f, fa_ask_fee f, fa_maker_bid_fee f, fa_maker_ask_fee f] =
       replicate 4 (decimal_or_zero (case cfg of None \<Rightarrow> est | Some x \<Rightarrow> x))) \<and>
    list_all (\<lambda>x. 0 \<le> x) (rules_fee_values (rr_rules r))"
  using no_invalid_fee [OF assms(2)] unfolding live_entry_allowed_def assms(1) degraded_iff
  by (simp add: build_fee_authority_snapshot_def Let_def) (simp add: rules_fee_values_def numeral_eq_Suc)

text \<open>
  A fee that is negative or not a number is read as zero before it is validated, so the check
  for invalid fee values never fires and the authority is not degraded.
\<close>

lemma invalid_fee_accepted:
  assumes "\<not> fle (Fin 0) (dc_bid_fee (rr_rules r))" and "fees_numeric (rr_rules r)"
    and "list_all (\<lambda>v. v = ''chance_doc'') (fee_sources (rr_source r))" and "\<not> rr_fallback_used r"
    and "\<not> (rr_snapshot_persisted r \<and> fle (rr_expires_at_sec r) (Fin 0))" and "\<not> resolution_is_stale r now"
  shows "live_entry_allowed (build_fee_authority_snapshot est now r cfg) \<and>
    fa_bid_fee (build_fee_authority_snapshot est now r cfg) = 0"
proof -
  have "decimal_or_zero (dc_bid_fee (rr_rules r)) = 0"
  proof (cases "dc_bid_fee (rr_rules r)")
    case (Fin q)
    then have "double_rat q" using assms(2) by (simp add: fees_numeric_def is_double_def)
    then show ?thesis using dec_of_float_pos_iff(2) [of q] assms(1) Fin by (simp add: decimal_or_zero_def)
  qed (use assms(1) in \<open>simp_all add: decimal_or_zero_def\<close>)
  then show ?thesis
    using assms(3-) no_invalid_fee [OF assms(2)] unfolding live_entry_allowed_def degraded_iff
    by (simp add: build_fee_authority_snapshot_def Let_def) (simp add: rules_fee_values_def)
qed

subsection \<open>Four floors\<close>

lemma floor_constraints_kernel:
  assumes "or_qty_step rules = Fin st" and "double_rat st" and "0 < st" and "k = or_max_qty_decimals rules"
  shows "floor_qty_to_exchange_constraints (Fin q) (Fin st) k = floor_qty (Fin q) rules"
proof -
  have "0 < dec_of_float st" using dec_of_float_pos_iff [OF assms(2)] assms(3) by simp
  then show ?thesis
    using assms(1,4)
    by (simp add: floor_qty_def quantity_decimal_def effective_step_def floor_qty_to_exchange_constraints_def
        decimal_from_number_def max.commute [of _ 0] max_absorb2)
qed

text \<open>
  C31: The four copies of the flooring agree: for a finite quantity and a positive step the
  quantity kernel, the order sizing, the lot model and the dust rules round a quantity down to
  the same multiple of the step within the permitted decimals.
\<close>

theorem floors_agree:
  assumes "or_qty_step rules = Fin st" and "double_rat st" and "0 < st" and "k = or_max_qty_decimals rules"
  shows "floor_qty (Fin q) rules = floor_qty_to_exchange_constraints (Fin q) (Fin st) k \<and>
    floor_qty_to_exchange_constraints (Fin q) (Fin st) k = floor_qty_to_step (Fin q) (Fin st) k \<and>
    floor_qty_to_step (Fin q) (Fin st) k = dust_floor_qty_to_step (Fin q) (Fin st) k"
proof -
  have "0 < dec_of_float st" using dec_of_float_pos_iff [OF assms(2)] assms(3) by simp
  then show ?thesis
    using floor_constraints_kernel [OF assms]
    by (simp add: floor_qty_to_exchange_constraints_def decimal_from_number_def floor_qty_to_step_def dust_floor_qty_to_step_def effective_qty_step_decimal_def
        dust_decimal_def max.commute [of _ 0] max_absorb2)
qed

subsection \<open>Sizing a purchase\<close>

lemma floor_constraints_bound:
  assumes fl: "floor_qty_to_exchange_constraints (Fin r) (Fin st) k = Inr v" and r: "double_rat r" "0 \<le> r"
    and st: "double_rat st" "0 < st" and small: "dec_of_float r / dec_of_float st < 10 ^ 10"
  obtains y where "v = Fin y" "0 \<le> y" "y \<le> r"
proof -
  define rules where "rules = \<lparr>or_min_qty = Fin 0, or_qty_step = Fin st, or_max_qty_decimals = k,
    or_min_notional_krw = Fin 0, or_order_type_buy = [], or_order_type_sell = [], or_qty_step_authority = []\<rparr>"
  have v: "floor_qty (Fin r) rules = Inr v" using fl floor_constraints_kernel [OF _ st, of rules] by (simp add: rules_def)
  have pos: "0 < dec_of_float st" using dec_of_float_pos_iff [OF st(1)] st(2) by simp
  then have step: "effective_step rules = Inr (dec_of_float st)"
    by (simp add: effective_step_def rules_def quantity_decimal_def Let_def)
  have "is_double (Fin 0)" by (simp add: is_double_def double_rat_def)
  then have dbl: "rules_double rules" using st(1) by (simp add: rules_double_def rules_def)
  show ?thesis by (rule floor_qty_result [OF dbl r step pos small v]) (rule that)
qed

lemma decimal_from_number_Inr: "decimal_from_number v = Inr d \<longleftrightarrow> (\<exists>q. v = Fin q \<and> d = dec_of_float q)"
  by (cases v) (auto simp: decimal_from_number_def)

lemma entry_reason_None:
  assumes "entry_reason_of rules price qty lot = None"
  shows "\<not> fle qty DUST_POSITION_EPS" "flt (Fin 0) (dc_min_qty rules) \<Longrightarrow> \<not> flt (fadd qty DUST_POSITION_EPS) (dc_min_qty rules)"
    "flt (Fin 0) (dc_min_notional_krw rules) \<Longrightarrow> \<not> flt (fadd (fmul qty price) DUST_POSITION_EPS) (dc_min_notional_krw rules)"
  using assms unfolding entry_reason_of_def first_reason_None_iff by auto

lemma sized_buy_plan_allowed:
  assumes "sized_buy_plan s pair price rules fees budget base = Inr x" and "xp_allowed x"
  obtains b p es lot where "budget = Fin b" "price = Fin p"
    "xp_requested_qty x = rnd (dec_div (dec_of_float b) (dec_of_float p))"
    "exchange_qty_step (dc_qty_step rules) (dc_min_qty rules) (dc_max_qty_decimals rules) = Inr es"
    "floor_qty_to_exchange_constraints (xp_requested_qty x) es (dc_max_qty_decimals rules) = Inr (xp_executable_qty x)"
    "entry_reason_of rules price (xp_executable_qty x) lot = None"
    "xp_gross_budget_krw x = xp_gross_budget_krw base" "xp_budget_krw x = xp_budget_krw base" "xp_fee_authority x = Some fees"
  using assms unfolding sized_buy_plan_def Let_def
  by (elim bind_py_InrE) (auto simp: decimal_from_number_Inr split: if_splits)

lemma build_buy_cases:
  assumes "build_buy_execution_sizing s now resolution pair cash price fee_rate entry authority ex res resn = Inr x" and "xp_allowed x"
  obtains intent base where "parse_entry_execution_intent s pair entry = Inr intent"
    "sized_buy_plan s pair price (rr_rules resolution)
       (build_fee_authority_snapshot (zs_LIVE_FEE_RATE_ESTIMATE s) now resolution fee_rate) (xp_budget_krw base) base = Inr x"
    "xp_gross_budget_krw base = gross_entry_budget cash intent" "\<not> fle (xp_budget_krw base) (Fin 0)"
    "isfinite price" "\<not> fle price (Fin 0)"
    "zs_MODE s = ''live'' \<and> \<not> zs_LIVE_DRY_RUN s \<and> zs_LIVE_REAL_ORDER_ARMED s \<Longrightarrow>
       live_entry_allowed (build_fee_authority_snapshot (zs_LIVE_FEE_RATE_ESTIMATE s) now resolution fee_rate)"
proof -
  obtain intent where i: "parse_entry_execution_intent s pair entry = Inr intent"
    using assms(1) unfolding build_buy_execution_sizing_def by (elim bind_py_InrE)
  let ?b = "budgeted_buy_plan intent cash price authority ex res resn"
  have blocked: "\<not> xp_allowed (?b r)" for r by (simp add: budgeted_buy_plan_def blocked_buy_plan_def Let_def)
  have gross: "xp_gross_budget_krw (?b []) = gross_entry_budget cash intent"
    by (simp add: budgeted_buy_plan_def blocked_buy_plan_def Let_def)
  show ?thesis
    using assms blocked unfolding build_buy_execution_sizing_def i bind_py_simps Let_def
    by (intro that [OF i _ gross]) (auto split: if_splits)
qed


subsection \<open>Sizing a sale\<close>

text \<open>
  C30: A sale sized on a stored lot definition sells the lots that were authorized, and only when
  the exit is allowed. It is allowed exactly when the exit is, at least one lot is sellable and
  its quantity is above the tolerance; then the quantity counts back to the authorized number
  of lots. Otherwise nothing is executable and a reason is given. The lot size is a double and
  there are at most a million lots.
\<close>

theorem sale_sells_authorized_lots:
  assumes "build_sell_execution_sizing s now resolution pair price authority (Some d) = Inr x"
    and "lot_definition_is_authoritative d" and "ld_internal_lot_size d = Some (Fin l)" and "double_rat l"
    and "flt DUST_POSITION_EPS (Fin l)" and "se_sellable_executable_lot_count authority \<le> 10 ^ 6"
    and "isfinite (xp_requested_qty x)"
  shows "(xp_allowed x \<longleftrightarrow> se_exit_allowed authority \<and> 1 \<le> se_sellable_executable_lot_count authority) \<and>
    (if xp_allowed x
     then xp_executable_lot_count x = se_sellable_executable_lot_count authority \<and>
       quantize_to_lot_count (xp_executable_qty x) (xp_internal_lot_size x) ''ROUND_FLOOR'' =
         Inr (se_sellable_executable_lot_count authority) \<and> xp_block_reason x = ''none''
     else xp_executable_qty x = Fin 0 \<and> xp_executable_lot_count x = 0 \<and>
       xp_block_reason x \<noteq> [] \<and> xp_block_reason x \<noteq> ''none'')"
proof -
  define n where "n = max 0 (se_sellable_executable_lot_count authority)"
  have n: "0 \<le> n" "n \<le> 10 ^ 6" using assms(6) by (simp_all add: n_def)
  have size: "or_zero (ld_internal_lot_size d) = Fin l" by (simp add: assms(3) or_zero_def)
  define qty where "qty = lot_count_to_qty n (Fin l)"
  have x: "xp_allowed x \<longleftrightarrow> se_exit_allowed authority \<and> 1 \<le> n \<and> flt DUST_POSITION_EPS qty"
      "xp_requested_qty x = qty" "xp_executable_qty x = (if xp_allowed x then qty else Fin 0)"
      "xp_executable_lot_count x = (if xp_allowed x then n else 0)" "xp_internal_lot_size x = Fin l"
      "xp_block_reason x = (if xp_allowed x then ''none''
         else if se_exit_block_reason authority \<in> {[], ''none''} then ''no_executable_exit_lot'' else se_exit_block_reason authority)"
    using assms(1) unfolding build_sell_execution_sizing_def sell_lot_basis_def n_def qty_def
    by (auto simp: assms(2) size Let_def)
  have counted: "quantize_to_lot_count qty (Fin l) ''ROUND_FLOOR'' = Inr n"
    unfolding qty_def by (rule lot_count_back [OF assms(4,5) n]) (use assms(7) x(2) qty_def in simp_all)
  have "flt DUST_POSITION_EPS qty" if "1 \<le> n"
  proof -
    have d: "1 / 10 ^ 12 < dec_of_float l" by (rule above_EPS [OF assms(4,5)])
    have "qty = rnd (of_int n * dec_of_float l)" unfolding qty_def by (rule lot_count_to_qty_Fin [OF assms(4,5) that n(2)])
    moreover have "0 < dec_of_float l" using d by (rule less_trans [rotated]) simp
    then have "1 * dec_of_float l \<le> of_int n * dec_of_float l" using that by (intro mult_right_mono) simp_all
    then have "dec_of_float l \<le> of_int n * dec_of_float l" by simp
    then have "fle (Fin l) (rnd (of_int n * dec_of_float l))"
      using rnd_mono [of "dec_of_float l"] dec_of_float_roundtrip [OF assms(4)] by metis
    ultimately show ?thesis using flt_fle_trans [OF assms(5)] by simp
  qed
  then have iff: "xp_allowed x \<longleftrightarrow> se_exit_allowed authority \<and> 1 \<le> n" using x(1) by blast
  then show ?thesis using x counted by (auto simp: n_def)
qed

subsection \<open>Samples\<close>

definition sample_constraints :: derived_order_constraints where
  "sample_constraints = \<lparr>dc_market_id = ''KRW-BTC'', dc_bid_min_total_krw = Fin 0, dc_ask_min_total_krw = Fin 0,
     dc_bid_price_unit = Fin 1, dc_ask_price_unit = Fin 1, dc_order_types = [], dc_bid_types = [], dc_ask_types = [],
     dc_order_sides = [], dc_bid_fee = Fin 0, dc_ask_fee = Fin 0, dc_maker_bid_fee = Fin 0, dc_maker_ask_fee = Fin 0,
     dc_min_qty = Fin 4, dc_qty_step = Fin 4, dc_min_notional_krw = Fin 12, dc_max_qty_decimals = 0\<rparr>"

definition sample_resolution :: rule_resolution where
  "sample_resolution = \<lparr>rr_rules = sample_constraints,
     rr_source = map (\<lambda>k. (k, VStr ''chance_doc'')) [''bid_fee'', ''ask_fee'', ''maker_bid_fee'', ''maker_ask_fee''],
     rr_fallback_used = False, rr_retrieved_at_sec = Fin 1, rr_expires_at_sec = Fin 300, rr_stale = False,
     rr_source_mode = ''exchange'', rr_snapshot_persisted = False\<rparr>"

lemma sample_fees: "fees = build_fee_authority_snapshot (Fin 0) (Fin 100) sample_resolution None \<Longrightarrow> fa_degraded fees = False \<and> fa_bid_fee fees = 0 \<and> fa_ask_fee fees = 0"
  by (simp add: degraded_iff) (simp add: build_fee_authority_snapshot_def Let_def sample_resolution_def fee_sources_def dstr_def py_or_def dget_def
    rules_fee_values_def sample_constraints_def decimal_or_zero_def whole_numbers fee_invalid_def resolution_is_stale_def)

lemma sample_executable_lot: "\<exists>l. build_executable_lot (Fin 20) (Some (Fin 3)) (Fin 4) (Fin 4) (Fin 12) 0 (Fin 0) (Fin 0) (Fin 0) = Inr l \<and> el_executable_qty l = Fin 20"
  using EPS_small [of 20] by (simp add: build_executable_lot_def Let_def dust_decimal_def whole_numbers effective_qty_step_decimal_def exit_price_floor_of_def
   dec_mul_def dec_div_def dec_sub_def dust_ceil_qty_to_step_def to_step_def quantize_places_def dust_floor_qty_to_step_def executable_part_def fmax_def flt_iff)


lemma sample_probe_lot: "\<exists>l. build_executable_lot (Fin 4) (Some (Fin 3)) (Fin 4) (Fin 4) (Fin 12) 0 (Fin 0) (Fin 0) (Fin 0) = Inr l \<and>
   el_effective_min_trade_qty l = Fin 8 \<and> el_qty_step l = Fin 4"
  using EPS_small [of 4] by (simp add: build_executable_lot_def Let_def dust_decimal_def whole_numbers effective_qty_step_decimal_def exit_price_floor_of_def
   dec_mul_def dec_div_def dec_sub_def dust_ceil_qty_to_step_def to_step_def quantize_places_def dust_floor_qty_to_step_def executable_part_def fmax_def flt_iff)

lemma sample_lot_rules_built: "\<exists>r. build_market_lot_rules (Fin 0) ''KRW-BTC'' (Some (Fin 3)) (constraints_attributes sample_constraints) (Fin 0) (Fin 0) (Fin 0) ''exchange'' = Inr r \<and>
   ml_lot_size r = Fin 12"
  using sample_probe_lot EPS_small [of 8] EPS_small [of 4]
  by (auto simp: build_market_lot_rules_def rule_number_def rule_int_def constraints_attributes_def sample_constraints_def dget_or_def or_default_def
    derive_internal_lot_size_def Let_def whole_numbers ceil_qty_to_step_def decimal_from_number_def to_step_def quantize_places_def dec_mul_def dec_div_def fmax_def flt_iff)

definition sample_buy_settings :: sizing_settings where
  "sample_buy_settings = \<lparr>zs_MODE = ''live'', zs_LIVE_DRY_RUN = False, zs_LIVE_REAL_ORDER_ARMED = True, zs_BUY_FRACTION = Fin 1,
     zs_MAX_ORDER_KRW = Fin 60, zs_STRATEGY_ENTRY_SLIPPAGE_BPS = Fin 0, zs_ENTRY_EDGE_BUFFER_RATIO = Fin 0,
     zs_LIVE_FEE_RATE_ESTIMATE = Fin 0, zs_LIVE_MIN_ORDER_QTY = Fin 0, zs_LIVE_ORDER_MAX_QTY_DECIMALS = 0\<rparr>"

lemma sample_purchase: "\<exists>x. build_buy_execution_sizing sample_buy_settings (Fin 100) sample_resolution ''KRW-BTC'' (Fin 100) (Fin 3) None None None (Fin 0) (Fin 0) None = Inr x \<and>
   xp_allowed x \<and> xp_requested_qty x = Fin 20 \<and> xp_executable_qty x = Fin 20"
proof -
  let ?f = "build_fee_authority_snapshot (Fin 0) (Fin 100) sample_resolution None"
  have f: "fa_degraded ?f = False" "fa_bid_fee ?f = 0" "fa_ask_fee ?f = 0" using sample_fees [OF refl] by auto
  obtain l where l: "build_executable_lot (Fin 20) (Some (Fin 3)) (Fin 4) (Fin 4) (Fin 12) 0 (Fin 0) (Fin 0) (Fin 0) = Inr l" "el_executable_qty l = Fin 20"
    using sample_executable_lot by auto
  obtain r where r: "build_market_lot_rules (Fin 0) ''KRW-BTC'' (Some (Fin 3)) (constraints_attributes sample_constraints) (Fin 0) (Fin 0) (Fin 0) ''exchange'' = Inr r"
    "ml_lot_size r = Fin 12" using sample_lot_rules_built by auto
  have b: "xp_budget_krw (budgeted_buy_plan (build_default_entry_execution_intent sample_buy_settings ''KRW-BTC'') (Fin 100) (Fin 3) None (Fin 0) (Fin 0) None z) = Fin 60" for z
    by (simp add: budgeted_buy_plan_def blocked_buy_plan_def Let_def gross_entry_budget_def build_default_entry_execution_intent_def sample_buy_settings_def fmax_def fmin_def whole_numbers fsub_def)
  have rr: "rr_rules sample_resolution = sample_constraints" by (simp add: sample_resolution_def)
  have c: "dc_min_qty sample_constraints = Fin 4" "dc_qty_step sample_constraints = Fin 4" "dc_min_notional_krw sample_constraints = Fin 12" "dc_max_qty_decimals sample_constraints = 0"
    by (simp_all add: sample_constraints_def)
  have s: "zs_LIVE_FEE_RATE_ESTIMATE sample_buy_settings = Fin 0" "zs_LIVE_MIN_ORDER_QTY sample_buy_settings = Fin 0" "zs_STRATEGY_ENTRY_SLIPPAGE_BPS sample_buy_settings = Fin 0"
     "zs_ENTRY_EDGE_BUFFER_RATIO sample_buy_settings = Fin 0" by (simp_all add: sample_buy_settings_def)
  obtain e where e: "DUST_POSITION_EPS = Fin e" "0 \<le> e" by (rule EPS_Fin)
  have m: "entry_reason_of sample_constraints (Fin 3) (Fin 20) l = None"
    using EPS_small [of 20] tolerated_ge [OF refl e, of 20 4] tolerated_ge [OF refl e, of 60 12] l(2)
    by (simp add: entry_reason_of_def c whole_numbers flt_iff)
  have q: "\<exists>n. quantize_to_lot_count (Fin 20) (Fin 12) ''ROUND_FLOOR'' = Inr n"
    by (simp add: quantize_to_lot_count_def decimal_from_number_def whole_numbers)
  have fl: "floor_qty_to_exchange_constraints (Fin 20) (Fin 4) 0 = Inr (Fin 20)"
    by (simp add: floor_qty_to_exchange_constraints_def decimal_from_number_def whole_numbers to_step_def dec_div_def dec_mul_def quantize_places_def fmax_def)
  have es: "exchange_qty_step (Fin 4) (Fin 4) 0 = Inr (Fin 4)" using EPS_small [of 4] by (simp add: exchange_qty_step_def fmax_def)
  have sz: "\<exists>x. sized_buy_plan sample_buy_settings ''KRW-BTC'' (Fin 3) sample_constraints ?f (Fin 60) base = Inr x \<and>
     xp_allowed x \<and> xp_requested_qty x = Fin 20 \<and> xp_executable_qty x = Fin 20" for base
    using l r q m fl es by (auto simp: sized_buy_plan_def Let_def s c f taker_ask_fee_rate_def decimal_from_number_def whole_numbers dec_div_def)
  show ?thesis
    using sz f(1) by (simp add: build_buy_execution_sizing_def parse_entry_execution_intent_def Let_def b rr s live_entry_allowed_def)
qed

subsection \<open>Witnesses\<close>

theorem fee_authority_entry_iff_witness:
  "live_entry_allowed (build_fee_authority_snapshot (Fin 0) (Fin 100) sample_resolution None) \<and>
   [fa_bid_fee (build_fee_authority_snapshot (Fin 0) (Fin 100) sample_resolution None)] = [0]"
proof -
  have "fees_numeric (rr_rules sample_resolution)"
    by (simp add: fees_numeric_def sample_resolution_def sample_constraints_def is_double_def double_rat_def)
  then show ?thesis
    using fee_authority_entry_iff [OF refl, of sample_resolution "Fin 0" "Fin 100" None]
    by (simp add: sample_resolution_def sample_constraints_def fee_sources_def dstr_def py_or_def dget_def
        resolution_is_stale_def rules_fee_values_def decimal_or_zero_def whole_unit)
qed

theorem floors_agree_witness:
  "floor_qty (Fin 10) sample_order_rules = floor_qty_to_exchange_constraints (Fin 10) (Fin 4) 0 \<and>
   floor_qty_to_step (Fin 10) (Fin 4) 0 = dust_floor_qty_to_step (Fin 10) (Fin 4) 0"
  using floors_agree [of sample_order_rules 4 0 10] sample_lot(1) by (simp add: sample_order_rules_def)


definition sample_lot_definition :: lot_definition where
  "sample_lot_definition = \<lparr>ld_semantic_version = Some 1, ld_internal_lot_size = Some (Fin 4), ld_min_qty = Some (Fin 4),
     ld_qty_step = Some (Fin 4), ld_min_notional_krw = Some (Fin 5), ld_max_qty_decimals = Some 0, ld_source_mode = ''stored''\<rparr>"

theorem sale_sells_authorized_lots_witness:
  "\<exists>x. build_sell_execution_sizing sample_buy_settings (Fin 100) sample_resolution ''KRW-BTC'' (Fin 3)
      \<lparr>se_sellable_executable_lot_count = 250, se_exit_allowed = True, se_exit_block_reason = []\<rparr> (Some sample_lot_definition) = Inr x \<and>
     xp_allowed x \<and> xp_executable_qty x = Fin 1000 \<and>
     quantize_to_lot_count (xp_executable_qty x) (xp_internal_lot_size x) ''ROUND_FLOOR'' = Inr 250"
proof -
  let ?a = "\<lparr>se_sellable_executable_lot_count = 250, se_exit_allowed = True, se_exit_block_reason = []\<rparr>"
  have auth: "lot_definition_is_authoritative sample_lot_definition" "ld_internal_lot_size sample_lot_definition = Some (Fin 4)"
    by (simp_all add: lot_definition_is_authoritative_def sample_lot_definition_def)
  have qty: "lot_count_to_qty 250 (Fin 4) = Fin 1000"
    using lot_count_to_qty_Fin [OF sample_lot(1,2), of 250] sample_lot(3) rnd_of_int [of 1000] by simp
  obtain x where x: "build_sell_execution_sizing sample_buy_settings (Fin 100) sample_resolution ''KRW-BTC'' (Fin 3) ?a
      (Some sample_lot_definition) = Inr x" "xp_requested_qty x = Fin 1000"
      "xp_executable_qty x = (if xp_allowed x then Fin 1000 else Fin 0)"
    using auth qty by (auto simp: build_sell_execution_sizing_def sell_lot_basis_def or_zero_def Let_def)
  show ?thesis
    using sale_sells_authorized_lots [OF x(1) auth sample_lot(1,2)] x by (intro exI [of _ x]) (auto split: if_splits)
qed

end
