(* ===== verification/Authority_Gates.thy ===== *)
theory Authority_Gates
  imports Py_Value
begin

text \<open>
  Four gates in front of a submission: who may buy (\<open>src/src/operation/entry_authority.py\<close>), which
  directions a pending fee leaves open (\<open>src/src/operation/risk_direction_gates.py\<close>), which balance is the
  truth (\<open>src/src/operation/balance_authority.py\<close>) and what an authority artifact allows
  (\<open>src/src/operation/execution_authority.py\<close>); and the reading of a broker quantity of
  \<open>src/src/operation/quantity_contracts.py\<close>. SHA-256 is the parameter \<open>sha\<close>.
\<close>

subsection \<open>Entry authority\<close>

definition EXPLICIT_BUY_AUTHORITIES :: "string list" where
  "EXPLICIT_BUY_AUTHORITIES =
     [''manual_operator_entry'', ''operator_buy'', ''operator_entry'', ''recovery_buy'',
      ''explicit_operator_buy_authority'', ''explicit_recovery_buy_authority'']"

record entry_authority_decision =
  ed_status :: string
  ed_reason_code :: string
  ed_source :: string
  ed_blocking :: bool
  ed_input_hash :: string
  ed_evidence_hash :: string
  ed_state_source :: string

definition entry_allowed :: "entry_authority_decision \<Rightarrow> bool" where
  "entry_allowed d \<longleftrightarrow> ed_status d = ''ALLOW''"

definition entry_authority_as_dict :: "entry_authority_decision \<Rightarrow> pydict" where
  "entry_authority_as_dict d =
     [(''gate'', VStr ''entry_authority''), (''status'', VStr (ed_status d)),
      (''reason_code'', VStr (ed_reason_code d)), (''source'', VStr (ed_source d)),
      (''input_hash'', VStr (ed_input_hash d)), (''evidence_hash'', VStr (ed_evidence_hash d)),
      (''state_source'', VStr (ed_state_source d)), (''blocking'', VBool (ed_blocking d))]"

fun first_text :: "pydict \<Rightarrow> string list \<Rightarrow> string" where
  "first_text payload [] = []"
| "first_text payload (k # ks) =
     (let v = py_strip (dstr payload k []) in if v \<noteq> [] then v else first_text payload ks)"

definition is_new_buy_exposure :: "string \<Rightarrow> pyfloat \<Rightarrow> pyfloat \<Rightarrow> pyfloat \<Rightarrow> bool" where
  "is_new_buy_exposure side current target delta \<longleftrightarrow>
     side = ''BUY'' \<and> flt (lit 1 (-9)) delta \<and> flt (fadd current (lit 1 (-9))) target"

definition is_existing_target_rebalance :: "bool \<Rightarrow> pyfloat \<Rightarrow> pyfloat \<Rightarrow> pyfloat \<Rightarrow> bool" where
  "is_existing_target_rebalance new_buy_exposure previous current target \<longleftrightarrow>
     new_buy_exposure \<and> flt (lit 1 (-9)) previous \<and> flt (lit 1 (-9)) current \<and>
     fle target (fadd previous (lit 1 (-9)))"

text \<open>The status, the reason and the source, in the order in which the code decides.\<close>

definition entry_verdict :: "bool \<Rightarrow> string \<Rightarrow> bool \<Rightarrow> string \<Rightarrow> string \<times> string \<times> string" where
  "entry_verdict new_buy_exposure final_signal rebalance explicit_authority =
     (if \<not> new_buy_exposure then (''ALLOW'', ''not_new_buy_exposure'', ''position_management_or_no_new_buy'')
      else if final_signal = ''BUY'' then (''ALLOW'', ''strategy_final_signal_buy'', ''strategy_final_signal'')
      else if rebalance then (''ALLOW'', ''existing_target_rebalance'', ''existing_target_rebalance'')
      else if explicit_authority \<in> set EXPLICIT_BUY_AUTHORITIES
      then (''ALLOW'', ''explicit_operator_or_recovery_buy_authority'', explicit_authority)
      else (''BLOCK'', ''target_delta_entry_without_strategy_buy_authority'', ''none''))"

definition entry_final_signal :: "pydict \<Rightarrow> string" where
  "entry_final_signal payload =
     (let s = py_upper (first_text payload [''final_signal'', ''signal'']) in if s = [] then ''HOLD'' else s)"

definition entry_previous_target :: "pydict \<Rightarrow> pyfloat py" where
  "entry_previous_target payload =
     or_default (bind_py (val_float (py_or (dget payload ''previous_target_exposure_krw'') (VFloat (Fin 0))))
       (\<lambda>f. Inr (fmax (Fin 0) f))) (Fin 0)"

definition evaluate_entry_authority ::
  "(string \<Rightarrow> string) \<Rightarrow> pydict \<Rightarrow> string \<Rightarrow> pyfloat option \<Rightarrow> pyfloat option \<Rightarrow> pyfloat option \<Rightarrow>
   entry_authority_decision py" where
  "evaluate_entry_authority sha payload side current_exposure_krw target_exposure_krw delta_krw =
     (let normalized_side = py_upper (py_strip side);
          current_exposure = fmax (Fin 0) (or_zero current_exposure_krw);
          target_exposure = fmax (Fin 0) (or_zero target_exposure_krw);
          delta = (if ftruthy (or_zero delta_krw) then or_zero delta_krw else fsub target_exposure current_exposure);
          new_buy_exposure = is_new_buy_exposure normalized_side current_exposure target_exposure delta;
          final_signal = entry_final_signal payload
      in bind_py (entry_previous_target payload) (\<lambda>previous.
         let explicit_authority =
               first_text payload [''entry_authority_source'', ''authority_source'', ''buy_authority_source''];
             rebalance = is_existing_target_rebalance new_buy_exposure previous current_exposure target_exposure;
             input_payload =
               [(''side'', VStr normalized_side), (''current_exposure_krw'', VFloat current_exposure),
                (''target_exposure_krw'', VFloat target_exposure), (''previous_target_exposure_krw'', VFloat previous),
                (''delta_krw'', VFloat delta), (''final_signal'', VStr final_signal),
                (''explicit_authority'', VStr explicit_authority), (''existing_target_rebalance'', VBool rebalance)]
         in bind_py (artifact_sha256_prefixed sha (VDict input_payload)) (\<lambda>input_hash.
            case entry_verdict new_buy_exposure final_signal rebalance explicit_authority of (status, reason_code, source) \<Rightarrow>
            bind_py (artifact_sha256_prefixed sha (VDict (input_payload @
                [(''new_buy_exposure'', VBool new_buy_exposure), (''status'', VStr status),
                 (''reason_code'', VStr reason_code), (''source'', VStr source)]))) (\<lambda>evidence_hash.
            Inr \<lparr>ed_status = status, ed_reason_code = reason_code, ed_source = source,
                 ed_blocking = (status = ''BLOCK''), ed_input_hash = input_hash, ed_evidence_hash = evidence_hash,
                 ed_state_source = ''entry_authority_policy''\<rparr>))))"

subsection \<open>Risk direction\<close>

record risk_direction_gates =
  rg_exposure_increase_allowed :: bool
  rg_hold_allowed :: bool
  rg_risk_reducing_sell_allowed :: bool
  rg_terminal_flat_closeout_allowed :: bool
  rg_strategy_new_cycle_allowed :: bool
  rg_reason_code :: string

definition risk_direction_gates_as_dict :: "risk_direction_gates \<Rightarrow> pydict" where
  "risk_direction_gates_as_dict g =
     [(''exposure_increase_allowed'', VBool (rg_exposure_increase_allowed g)),
      (''hold_allowed'', VBool (rg_hold_allowed g)),
      (''risk_reducing_sell_allowed'', VBool (rg_risk_reducing_sell_allowed g)),
      (''terminal_flat_closeout_allowed'', VBool (rg_terminal_flat_closeout_allowed g)),
      (''strategy_new_cycle_allowed'', VBool (rg_strategy_new_cycle_allowed g)),
      (''reason_code'', VStr (rg_reason_code g))]"

definition evaluate_risk_direction_gates ::
  "bool \<Rightarrow> string \<Rightarrow> pyfloat option \<Rightarrow> pyfloat option \<Rightarrow> bool \<Rightarrow> bool \<Rightarrow> int \<Rightarrow> int \<Rightarrow> int \<Rightarrow> risk_direction_gates" where
  "evaluate_risk_direction_gates fee_pending side broker_qty requested_qty terminal_flat_authority
     risk_reducing_authority open_order_count submit_unknown_count recovery_required_count =
     (let side_upper = py_upper (py_strip side);
          broker_value = fmax (Fin 0) (or_zero broker_qty);
          requested_value = fmax (Fin 0) (or_zero requested_qty);
          clean_order_state = (open_order_count = 0 \<and> submit_unknown_count = 0 \<and> recovery_required_count = 0);
          close_qty_covered = (broker_qty \<noteq> None \<and> flt (Fin 0) broker_value \<and>
            fle requested_value (fadd broker_value (lit 1 (-12))));
          terminal_allowed = (side_upper = ''SELL'' \<and> terminal_flat_authority \<and> close_qty_covered \<and> clean_order_state);
          risk_reducing_allowed = (side_upper = ''SELL'' \<and> risk_reducing_authority \<and> close_qty_covered \<and> clean_order_state)
      in \<lparr>rg_exposure_increase_allowed = (if fee_pending then False else side_upper \<noteq> ''SELL''), rg_hold_allowed = True,
          rg_risk_reducing_sell_allowed = risk_reducing_allowed, rg_terminal_flat_closeout_allowed = terminal_allowed,
          rg_strategy_new_cycle_allowed = (\<not> fee_pending),
          rg_reason_code =
            (if fee_pending then
               (if side_upper = ''SELL'' \<and> (terminal_allowed \<or> risk_reducing_allowed)
                then ''fee_pending_allows_authorized_risk_reduction''
                else if side_upper = ''SELL'' then ''fee_pending_blocks_unauthorized_sell''
                else ''fee_pending_blocks_exposure_increase'')
             else ''allowed'')\<rparr>)"

subsection \<open>Balance authority\<close>

record balance_authority_matrix =
  ba_broker_cash_truth :: string
  ba_broker_position_truth :: string
  ba_resume_recovery_safety_gate :: string
  ba_order_sizing :: string
  ba_simulation_balance :: string
  ba_paper_portfolio_balance :: string
  ba_balance_authority :: string
  ba_simulation_balance_source :: string
  ba_notes :: "string list"

definition balance_authority_as_dict :: "balance_authority_matrix \<Rightarrow> pydict" where
  "balance_authority_as_dict m =
     [(''broker_cash_truth'', VStr (ba_broker_cash_truth m)), (''broker_position_truth'', VStr (ba_broker_position_truth m)),
      (''resume_recovery_safety_gate'', VStr (ba_resume_recovery_safety_gate m)),
      (''order_sizing'', VStr (ba_order_sizing m)), (''simulation_balance'', VStr (ba_simulation_balance m)),
      (''paper_portfolio_balance'', VStr (ba_paper_portfolio_balance m)),
      (''balance_authority'', VStr (ba_balance_authority m)),
      (''simulation_balance_source'', VStr (ba_simulation_balance_source m)),
      (''notes'', VList (map VStr (ba_notes m)))]"

definition one_truth :: "string \<Rightarrow> string \<Rightarrow> string \<Rightarrow> balance_authority_matrix" where
  "one_truth truth simulation note =
     \<lparr>ba_broker_cash_truth = truth, ba_broker_position_truth = truth, ba_resume_recovery_safety_gate = truth,
      ba_order_sizing = truth, ba_simulation_balance = simulation, ba_paper_portfolio_balance = ''paper_portfolio'',
      ba_balance_authority = truth, ba_simulation_balance_source = simulation, ba_notes = [note]\<rparr>"

definition resolve_balance_authority_matrix :: "string \<Rightarrow> bool \<Rightarrow> bool \<Rightarrow> bool \<Rightarrow> balance_authority_matrix" where
  "resolve_balance_authority_matrix mode live_dry_run live_real_order_armed myasset_ws_enabled =
     (let stripped = py_lower (py_strip mode);
          normalized_mode = (if stripped = [] then ''paper'' else stripped)
      in if normalized_mode \<noteq> ''live''
         then one_truth ''paper_portfolio'' ''paper_portfolio'' ''paper_mode_uses_local_portfolio''
         else if live_dry_run \<and> \<not> live_real_order_armed
         then one_truth ''accounts_v1_rest_snapshot'' ''dry_run_static'' ''live_dry_run_static_cash_is_simulation_only''
         else one_truth (if myasset_ws_enabled then ''myasset_ws_private_stream'' else ''accounts_v1_rest_snapshot'')
           ''none'' ''live_real_order_path_uses_private_account_truth'')"

definition is_unarmed_live_dry_run :: "string \<Rightarrow> bool \<Rightarrow> bool \<Rightarrow> bool" where
  "is_unarmed_live_dry_run mode live_dry_run live_real_order_armed \<longleftrightarrow>
     py_lower (py_strip mode) = ''live'' \<and> live_dry_run \<and> \<not> live_real_order_armed"

definition live_dry_run_broker_truth_source_violation :: "string \<Rightarrow> bool \<Rightarrow> bool \<Rightarrow> string \<Rightarrow> pydict option" where
  "live_dry_run_broker_truth_source_violation mode live_dry_run live_real_order_armed candidate_source_id =
     (if \<not> is_unarmed_live_dry_run mode live_dry_run live_real_order_armed then None
      else let stripped = py_strip candidate_source_id; got = (if stripped = [] then ''unknown'' else stripped)
           in if got \<noteq> ''dry_run_static'' then None
              else Some
                [(''balance_authority_violation'', VStr ''LIVE_DRY_RUN_BROKER_TRUTH_SOURCE_VIOLATION''),
                 (''balance_authority_violation_expected'', VStr ''accounts_v1_rest_snapshot''),
                 (''balance_authority_violation_got'', VStr got), (''expected'', VStr ''accounts_v1_rest_snapshot''),
                 (''got'', VStr got), (''simulation_balance_source'', VStr ''dry_run_static'')])"

subsection \<open>Execution authority\<close>

record execution_authority =
  xa_authority_type :: string
  xa_allowed_operations :: "string list"
  xa_market_scope :: "string list"
  xa_notional_cap :: "pyfloat option"
  xa_expires_at :: "string option"
  xa_parameter_authority :: bool
  xa_exit_policy_authority :: bool
  xa_risk_authority :: bool
  xa_evidence_classification :: string
  xa_identity_hash :: string

definition authority_allows :: "execution_authority \<Rightarrow> string \<Rightarrow> bool" where
  "authority_allows a operation \<longleftrightarrow> operation \<in> set (xa_allowed_operations a)"

definition identity_hash :: "pydict \<Rightarrow> string" where
  "identity_hash payload = first_text payload [''authority_content_hash'', ''profile_content_hash'', ''identity_hash'']"

definition execution_authority_from_payload :: "pydict \<Rightarrow> execution_authority py" where
  "execution_authority_from_payload payload =
     (let artifact_type = py_strip (py_str (py_or (dget payload ''artifact_type'')
            (py_or (dget payload ''authority_type'') (VStr []))))
      in if artifact_type \<in> {''approved_profile'', ''approved_profile_authority''} \<or>
            truthy (dget payload ''profile_content_hash'')
         then Inr \<lparr>xa_authority_type = ''approved_profile_authority'',
                xa_allowed_operations = [''strategy_run'', ''strategy_live_dry_run'', ''small_live''],
                xa_market_scope = [py_upper (py_strip (py_str (py_or (dget payload ''market'')
                  (py_or (dget payload ''pair'') (VStr ''*'')))))],
                xa_notional_cap = None, xa_expires_at = None, xa_parameter_authority = True,
                xa_exit_policy_authority = True, xa_risk_authority = True,
                xa_evidence_classification = ''approved_profile'', xa_identity_hash = identity_hash payload\<rparr>
         else if artifact_type = ''emergency_closeout_authority''
         then bind_py (if dget payload ''notional_cap'' = VNone then Inr None
                else bind_py (val_float (py_or (dget payload ''notional_cap'') (VFloat (Fin 0)))) (\<lambda>f. Inr (Some f))) (\<lambda>cap.
              let expires = dstr payload ''expires_at'' []
              in Inr \<lparr>xa_authority_type = ''emergency_closeout_authority'',
                xa_allowed_operations = [''position_reduction'', ''cancel_open_orders''],
                xa_market_scope = [py_upper (py_strip (dstr payload ''market'' ''*''))],
                xa_notional_cap = cap, xa_expires_at = (if expires = [] then None else Some expires),
                xa_parameter_authority = False, xa_exit_policy_authority = False, xa_risk_authority = True,
                xa_evidence_classification = ''emergency_closeout'', xa_identity_hash = identity_hash payload\<rparr>)
         else Inl (ValueError (''unknown_execution_authority_type:'' @
                (if artifact_type = [] then ''missing'' else artifact_type))))"

definition require_authority_operation :: "execution_authority \<Rightarrow> string \<Rightarrow> unit py" where
  "require_authority_operation a operation =
     (if authority_allows a operation then Inr ()
      else Inl (ValueError (''execution_authority_operation_not_allowed:'' @
             ''authority_type='' @ xa_authority_type a @ '':operation='' @ operation)))"

definition intent_operation :: "string \<Rightarrow> string" where
  "intent_operation intent =
     (case map_of [(''smoke-buy'', ''operator_smoke_buy''), (''operator_smoke_buy'', ''operator_smoke_buy''),
        (''strategy-run'', ''strategy_run''), (''strategy_run'', ''strategy_run'')] intent of
        None \<Rightarrow> intent | Some operation \<Rightarrow> operation)"

text \<open>
  The payload is the mapping given, the mapping read from the file given, or the one an object
  carries; \<open>None\<close> when there is none. Reading the file is outside the model.
\<close>

definition resolve_execution_authority :: "string \<Rightarrow> pydict option \<Rightarrow> execution_authority py" where
  "resolve_execution_authority command_intent payload =
     (case payload of
        None \<Rightarrow> Inl (ValueError ''execution_authority_payload_missing'')
      | Some p \<Rightarrow>
          bind_py (execution_authority_from_payload p) (\<lambda>authority.
            let operation = intent_operation (py_strip command_intent)
            in bind_py (if operation \<noteq> [] then require_authority_operation authority operation else Inr ()) (\<lambda>_.
                 Inr authority)))"

subsection \<open>Quantity semantics\<close>

record quantity_semantics =
  qs_broker_position_qty :: pyfloat
  qs_exchange_min_qty :: pyfloat
  qs_exchange_sellable :: bool
  qs_strategy_internal_lot_size :: "pyfloat option"
  qs_strategy_executable_lot_count :: int
  qs_strategy_dust_qty :: pyfloat
  qs_target_delta_closeable :: bool
  qs_terminal_closeout_covered_qty :: pyfloat

definition quantity_semantics_as_dict :: "quantity_semantics \<Rightarrow> pydict" where
  "quantity_semantics_as_dict q =
     [(''broker_position_qty'', VFloat (qs_broker_position_qty q)), (''exchange_min_qty'', VFloat (qs_exchange_min_qty q)),
      (''exchange_sellable'', VBool (qs_exchange_sellable q)),
      (''strategy_internal_lot_size'', opt_float (qs_strategy_internal_lot_size q)),
      (''strategy_executable_lot_count'', VInt (qs_strategy_executable_lot_count q)),
      (''strategy_dust_qty'', VFloat (qs_strategy_dust_qty q)),
      (''target_delta_closeable'', VBool (qs_target_delta_closeable q)),
      (''terminal_closeout_covered_qty'', VFloat (qs_terminal_closeout_covered_qty q))]"

definition build_quantity_semantics ::
  "pyfloat \<Rightarrow> pyfloat \<Rightarrow> pyfloat option \<Rightarrow> bool \<Rightarrow> pyfloat option \<Rightarrow> quantity_semantics py" where
  "build_quantity_semantics broker_position_qty exchange_min_qty strategy_internal_lot_size
     target_delta_closeout_authorized terminal_closeout_covered_qty =
     (let qty = fmax (Fin 0) broker_position_qty;
          min_qty = fmax (Fin 0) exchange_min_qty;
          lot_size = map_option (fmax (Fin 0)) strategy_internal_lot_size;
          exchange_sellable = (flt (Fin 0) qty \<and> fle min_qty (fadd qty (lit 1 (-12))));
          covered_qty = (case terminal_closeout_covered_qty of None \<Rightarrow> qty | Some c \<Rightarrow> fmax (Fin 0) c)
      in bind_py (case lot_size of None \<Rightarrow> Inr (0, qty)
           | Some l \<Rightarrow> if fle l (lit 1 (-12)) then Inr (0, qty)
               else bind_py (math_floor (fdiv (fadd qty (lit 1 (-12))) l)) (\<lambda>n.
                 let executable_lots = max 0 n
                 in Inr (executable_lots, fmax (Fin 0) (fsub qty (fmul (rnd (of_int executable_lots)) l))))) (\<lambda>(lots, dust_qty).
         Inr \<lparr>qs_broker_position_qty = qty, qs_exchange_min_qty = min_qty, qs_exchange_sellable = exchange_sellable,
              qs_strategy_internal_lot_size = lot_size, qs_strategy_executable_lot_count = lots,
              qs_strategy_dust_qty = dust_qty,
              qs_target_delta_closeable = (target_delta_closeout_authorized \<and> exchange_sellable \<and>
                fle qty (fadd covered_qty (lit 1 (-12)))),
              qs_terminal_closeout_covered_qty = covered_qty\<rparr>))"

end
