(* ===== verification/Authority_Properties.thy ===== *)
theory Authority_Properties
  imports Authority_Gates Order_Sizing Submit_Properties
begin

text \<open>
  Properties of the gates in front of a submission, of the fee authority and of the sizing of
  purchases and sales.
\<close>

subsection \<open>Entry authority\<close>

text \<open>What the evaluation looks at, after the clamping of the exposures.\<close>

definition entry_exposure :: "pyfloat option \<Rightarrow> pyfloat" where
  "entry_exposure x = fmax (Fin 0) (or_zero x)"

definition entry_delta :: "pyfloat option \<Rightarrow> pyfloat option \<Rightarrow> pyfloat option \<Rightarrow> pyfloat" where
  "entry_delta cur tgt delta =
     (if ftruthy (or_zero delta) then or_zero delta else fsub (entry_exposure tgt) (entry_exposure cur))"

definition explicit_entry_authority :: "pydict \<Rightarrow> string" where
  "explicit_entry_authority payload =
     first_text payload [''entry_authority_source'', ''authority_source'', ''buy_authority_source'']"

lemma entry_authority_status:
  assumes "evaluate_entry_authority sha payload side cur tgt delta = Inr d"
  obtains prev where "entry_previous_target payload = Inr prev"
    "ed_blocking d \<longleftrightarrow> ed_status d = ''BLOCK''" "entry_allowed d \<longleftrightarrow> ed_status d \<noteq> ''BLOCK''"
    "ed_status d = ''BLOCK'' \<longleftrightarrow>
       is_new_buy_exposure (py_upper (py_strip side)) (entry_exposure cur) (entry_exposure tgt) (entry_delta cur tgt delta) \<and>
       entry_final_signal payload \<noteq> ''BUY'' \<and>
       \<not> is_existing_target_rebalance True prev (entry_exposure cur) (entry_exposure tgt) \<and>
       explicit_entry_authority payload \<notin> set EXPLICIT_BUY_AUTHORITIES"
  using assms unfolding evaluate_entry_authority_def Let_def entry_exposure_def [symmetric] entry_delta_def [symmetric]
    explicit_entry_authority_def [symmetric]
  by (elim bind_py_InrE)
    (auto simp: entry_verdict_def entry_allowed_def is_existing_target_rebalance_def elim!: bind_py_InrE split: if_splits)


subsubsection \<open>Example\<close>

definition sample_entry_plan :: submit_plan where
  "sample_entry_plan = sample_target_plan\<lparr>plan_payload :=
     plan_payload sample_target_plan @ [(''entry_authority_status'', VStr ''ALLOW'')]\<rparr>"

definition sample_entry_payload :: pydict where
  "sample_entry_payload = [(''final_signal'', VStr ''BUY'')]"

lemma sample_new_exposure: "is_new_buy_exposure ''BUY'' (Fin 0) (Fin 50) (Fin 50)"
proof -
  obtain f where f: "lit 1 (- 9) = Fin f" "0 \<le> f" "f \<le> 1" by (rule tolerance_Fin [OF refl, of 9]) simp_all
  have "fle (rnd f) (rnd 1)" using f(3) by (rule rnd_mono)
  then have "flt (rnd f) (Fin 50)" using rnd_of_int [of 1] by (cases "rnd f") auto
  then show ?thesis using f by (simp add: is_new_buy_exposure_def)
qed

lemma sample_entry:
  "\<exists>ed. evaluate_entry_authority id sample_entry_payload ''BUY'' None (Some (Fin 50)) (Some (Fin 50)) = Inr ed \<and> ed_status ed = ''ALLOW''"
proof -
  have "py_upper (py_strip ''BUY'') = ''BUY''" "entry_final_signal sample_entry_payload = ''BUY''" by code_simp+
  moreover have "entry_previous_target sample_entry_payload = Inr (Fin 0)"
    by (simp add: entry_previous_target_def sample_entry_payload_def dget_def py_or_def or_default_def fmax_def)
  ultimately show ?thesis
    using sample_new_exposure
    by (simp add: evaluate_entry_authority_def Let_def fmax_def or_zero_def ftruthy_def artifact_sha256_prefixed_def entry_verdict_def)
qed


subsection \<open>Risk direction\<close>

text \<open>
  A pending fee leaves only the way out. While a fee is pending no exposure may be added and
  no cycle may begin; a sale passes a gate exactly with the authority for that gate, a broker
  quantity that is known, positive and covers the request up to the tolerance, and no order
  that is open, unknown or in need of recovery; and the reason tells these cases apart.
\<close>

theorem fee_pending_only_reduces:
  assumes "g = evaluate_risk_direction_gates True side broker requested terminal reducing n_open n_unknown n_recovery"
  shows "\<not> rg_exposure_increase_allowed g \<and> \<not> rg_strategy_new_cycle_allowed g \<and> rg_hold_allowed g \<and>
    (rg_risk_reducing_sell_allowed g \<or> rg_terminal_flat_closeout_allowed g \<longrightarrow>
      py_upper (py_strip side) = ''SELL'' \<and> (terminal \<or> reducing) \<and> n_open = 0 \<and> n_unknown = 0 \<and> n_recovery = 0 \<and>
      (\<exists>b. broker = Some b \<and> flt (Fin 0) b \<and> fle (fmax (Fin 0) (or_zero requested)) (fadd b (lit 1 (-12))))) \<and>
    (rg_reason_code g = ''fee_pending_allows_authorized_risk_reduction'' \<longleftrightarrow>
      rg_risk_reducing_sell_allowed g \<or> rg_terminal_flat_closeout_allowed g) \<and>
    (rg_reason_code g = ''fee_pending_blocks_unauthorized_sell'' \<longleftrightarrow>
      py_upper (py_strip side) = ''SELL'' \<and> \<not> rg_risk_reducing_sell_allowed g \<and> \<not> rg_terminal_flat_closeout_allowed g)"
proof -
  have pos: "flt (Fin 0) (fmax (Fin 0) (or_zero broker)) \<longleftrightarrow> (\<exists>b. broker = Some b \<and> flt (Fin 0) b)"
    by (cases broker) (auto simp: or_zero_def fmax_def)
  have val: "flt (Fin 0) b \<Longrightarrow> fmax (Fin 0) (or_zero (Some b)) = b" for b
    by (simp add: or_zero_def fmax_def)
  show ?thesis
    unfolding assms evaluate_risk_direction_gates_def Let_def by (auto simp: pos val)
qed

theorem fee_pending_only_reduces_witness:
  "\<not> rg_exposure_increase_allowed (evaluate_risk_direction_gates True ''SELL'' (Some (Fin 5)) (Some (Fin 5)) True False 0 0 0)"
  using fee_pending_only_reduces [OF refl] by blast

subsection \<open>Execution authority\<close>

text \<open>
  An authority is only resolved for what it allows. Whenever the resolution returns an
  authority, the operation of the command is one the authority lists, an emergency closeout
  authority grants only position reduction and the cancellation of orders and no authority over
  parameters or exits, and no authority at all is returned for a smoke purchase.
\<close>

theorem execution_authority_grants_listed_operations:
  assumes "resolve_execution_authority intent payload = Inr a" and "op = intent_operation (py_strip intent)"
  shows "(op = [] \<or> authority_allows a op) \<and>
    (xa_authority_type a = ''emergency_closeout_authority'' \<longrightarrow>
       op \<in> {[], ''position_reduction'', ''cancel_open_orders''} \<and> \<not> xa_parameter_authority a \<and> \<not> xa_exit_policy_authority a) \<and>
    xa_authority_type a \<in> {''approved_profile_authority'', ''emergency_closeout_authority''} \<and>
    op \<noteq> ''operator_smoke_buy''"
proof -
  obtain p where p: "execution_authority_from_payload p = Inr a" and op: "op = [] \<or> authority_allows a op"
    using assms unfolding resolve_execution_authority_def Let_def
    by (auto simp: require_authority_operation_def split: option.splits if_splits elim!: bind_py_InrE)
  have "xa_authority_type a = ''approved_profile_authority'' \<and>
        xa_allowed_operations a = [''strategy_run'', ''strategy_live_dry_run'', ''small_live''] \<or>
      xa_authority_type a = ''emergency_closeout_authority'' \<and> \<not> xa_parameter_authority a \<and> \<not> xa_exit_policy_authority a \<and>
        xa_allowed_operations a = [''position_reduction'', ''cancel_open_orders'']"
    using p unfolding execution_authority_from_payload_def Let_def by (auto split: if_splits elim!: bind_py_InrE)
  then show ?thesis using op by (auto simp: authority_allows_def)
qed

theorem execution_authority_grants_listed_operations_witness:
  "\<exists>a. resolve_execution_authority ''strategy-run'' (Some [(''artifact_type'', VStr ''approved_profile'')]) = Inr a \<and>
     authority_allows a ''strategy_run''"
proof -
  have "case resolve_execution_authority ''strategy-run'' (Some [(''artifact_type'', VStr ''approved_profile'')]) of
      Inl _ \<Rightarrow> False | Inr a \<Rightarrow> True" by code_simp
  then obtain a where a: "resolve_execution_authority ''strategy-run'' (Some [(''artifact_type'', VStr ''approved_profile'')]) = Inr a"
    by (auto split: sum.splits)
  have "intent_operation (py_strip ''strategy-run'') = ''strategy_run''" by code_simp
  then show ?thesis using a execution_authority_grants_listed_operations [OF a refl] by auto
qed

lemma smoke_buy_never_authorized: "resolve_execution_authority ''smoke-buy'' payload \<noteq> Inr a"
proof
  assume r: "resolve_execution_authority ''smoke-buy'' payload = Inr a"
  have "intent_operation (py_strip ''smoke-buy'') = ''operator_smoke_buy''" by code_simp
  then show False
    using r unfolding resolve_execution_authority_def execution_authority_from_payload_def Let_def
    by (auto simp: require_authority_operation_def authority_allows_def split: option.splits if_splits elim!: bind_py_InrE)
qed

end
