(* ===== verification/Strategy_Preference.thy ===== *)
theory Strategy_Preference
  imports Py_Value "HOL-Library.Product_Lexorder"
begin

text \<open>
  The exposure boundary artifact of \<open>src/src/operation/risk_decision.py\<close>, the decision of a
  strategy (\<open>src/src/operation/strategy_policy_contract.py\<close>) and its preference for the portfolio
  allocator (\<open>src/src/operation/strategy_preference.py\<close>). A preference is built from typed
  arguments: \<open>StrategyPreference\<close> is the constructor with its \<open>__post_init__\<close>, which normalizes
  the signals, sorts every dictionary and refuses an unknown signal. A set of preferences is
  kept in the order of pair, instance and content hash.

  The \<open>_stable_value\<close> of \<open>strategy_preference.py\<close> does on values made of dictionaries, lists and
  scalars what the one of \<open>canonical_decision.py\<close> does, and is \<open>stable_value\<close> here too.
\<close>

subsection \<open>Optional dictionaries\<close>

definition opt_dict :: "pydict option \<Rightarrow> pyval" where
  "opt_dict d = (case d of None \<Rightarrow> VNone | Some m \<Rightarrow> VDict m)"

text \<open>\<open>None if d is None else d.get(k)\<close>\<close>

definition opt_get :: "pydict option \<Rightarrow> string \<Rightarrow> pyval" where
  "opt_get d k = (case d of None \<Rightarrow> VNone | Some m \<Rightarrow> dget m k)"

text \<open>\<open>_stable_value(dict(d))\<close>\<close>

definition stable_dict :: "pydict \<Rightarrow> pydict" where
  "stable_dict d = sort_key fst (map (\<lambda>(k, v). (k, stable_value v)) d)"

subsection \<open>The exposure boundary artifact\<close>

definition RISK_BUDGET_SEMANTICS :: string where
  "RISK_BUDGET_SEMANTICS = ''deprecated_non_authoritative_not_exposure_cap''"

definition RISK_BUDGET_LEGACY_MARKER :: string where
  "RISK_BUDGET_LEGACY_MARKER = ''deprecated:risk_budget_krw_not_enforced_as_loss_budget''"

definition EXPOSURE_BOUNDARY_ARTIFACT_AUTHORITY_LABEL :: string where
  "EXPOSURE_BOUNDARY_ARTIFACT_AUTHORITY_LABEL = ''ExposureBoundaryArtifact.v1''"

definition exposure_boundary_artifact_hash :: "(string \<Rightarrow> string) \<Rightarrow> pydict \<Rightarrow> string" where
  "exposure_boundary_artifact_hash sha payload = sha256_prefixed sha (VDict
     (filter (\<lambda>(k, v). k \<notin> {''risk_decision_hash'', ''exposure_boundary_artifact_hash''}) payload))"

definition build_exposure_boundary_artifact ::
  "(string \<Rightarrow> string) \<Rightarrow> pyval \<Rightarrow> pyval \<Rightarrow> string \<Rightarrow> string \<Rightarrow> pydict" where
  "build_exposure_boundary_artifact sha risk_budget_krw max_target_exposure_krw exposure_cap_source
     decision_context =
     (let payload =
        [(''schema_version'', VInt 1),
         (''authority_label'', VStr EXPOSURE_BOUNDARY_ARTIFACT_AUTHORITY_LABEL),
         (''decision_context'', VStr (or_str (Some decision_context) ''runtime_submit_authority'')),
         (''risk_budget_krw'', risk_budget_krw),
         (''risk_budget_semantics'', VStr RISK_BUDGET_SEMANTICS),
         (''risk_budget_interpreted_as_exposure_cap'', VBool False),
         (''loss_budget_supported'', VBool False),
         (''loss_budget_authority'', VStr ''unsupported_fail_closed''),
         (''max_target_exposure_krw'', max_target_exposure_krw),
         (''exposure_cap_source'', VStr (or_str (Some exposure_cap_source) ''none'')),
         (''risk_budget_legacy_marker'', VStr RISK_BUDGET_LEGACY_MARKER)];
          h = exposure_boundary_artifact_hash sha payload
      in payload @ [(''exposure_boundary_artifact_hash'', VStr h),
         (''risk_decision_alias_authority'', VStr ''non_authoritative_compatibility_alias''),
         (''risk_decision_hash'', VStr h)])"

definition build_risk_decision_artifact ::
  "(string \<Rightarrow> string) \<Rightarrow> pyval \<Rightarrow> pyval \<Rightarrow> string \<Rightarrow> string \<Rightarrow> pydict" where
  "build_risk_decision_artifact sha risk_budget_krw max_target_exposure_krw exposure_cap_source
     decision_context =
     build_exposure_boundary_artifact sha risk_budget_krw max_target_exposure_krw exposure_cap_source
       decision_context"

text \<open>The five entries by which the artifact is quoted in the payloads of the allocator.\<close>

definition artifact_fields :: "pydict \<Rightarrow> pydict" where
  "artifact_fields risk_decision =
     [(''exposure_boundary_artifact'', VDict risk_decision),
      (''exposure_boundary_artifact_hash'', dget risk_decision ''exposure_boundary_artifact_hash''),
      (''legacy_non_authoritative_exposure_risk_decision'', VDict risk_decision),
      (''legacy_non_authoritative_exposure_risk_decision_hash'',
         dget risk_decision ''exposure_boundary_artifact_hash''),
      (''risk_budget_legacy_marker'', VStr RISK_BUDGET_LEGACY_MARKER)]"

subsection \<open>Decisions of a strategy\<close>

record position_snapshot =
  psn_in_position :: bool
  psn_entry_allowed :: bool
  psn_exit_allowed :: bool
  psn_entry_block_reason :: string
  psn_exit_block_reason :: string
  psn_terminal_state :: string
  psn_entry_ts :: "int option"
  psn_entry_price :: "pyfloat option"
  psn_qty_open :: pyfloat
  psn_holding_time_sec :: pyfloat
  psn_unrealized_pnl :: pyfloat
  psn_unrealized_pnl_ratio :: pyfloat
  psn_raw_qty_open :: pyfloat
  psn_raw_total_asset_qty :: pyfloat
  psn_open_lot_count :: int
  psn_dust_tracking_lot_count :: int
  psn_reserved_exit_lot_count :: int
  psn_sellable_executable_lot_count :: int
  psn_dust_classification :: string
  psn_dust_state :: string
  psn_effective_flat :: bool
  psn_has_executable_exposure :: bool
  psn_has_any_position_residue :: bool
  psn_has_non_executable_residue :: bool
  psn_has_dust_only_remainder :: bool

text \<open>\<open>dataclasses.asdict\<close> on a position snapshot\<close>

definition position_snapshot_asdict :: "position_snapshot \<Rightarrow> pydict" where
  "position_snapshot_asdict p =
     [(''in_position'', VBool (psn_in_position p)),
      (''entry_allowed'', VBool (psn_entry_allowed p)),
      (''exit_allowed'', VBool (psn_exit_allowed p)),
      (''entry_block_reason'', VStr (psn_entry_block_reason p)),
      (''exit_block_reason'', VStr (psn_exit_block_reason p)),
      (''terminal_state'', VStr (psn_terminal_state p)),
      (''entry_ts'', opt_int (psn_entry_ts p)),
      (''entry_price'', opt_float (psn_entry_price p)),
      (''qty_open'', VFloat (psn_qty_open p)),
      (''holding_time_sec'', VFloat (psn_holding_time_sec p)),
      (''unrealized_pnl'', VFloat (psn_unrealized_pnl p)),
      (''unrealized_pnl_ratio'', VFloat (psn_unrealized_pnl_ratio p)),
      (''raw_qty_open'', VFloat (psn_raw_qty_open p)),
      (''raw_total_asset_qty'', VFloat (psn_raw_total_asset_qty p)),
      (''open_lot_count'', VInt (psn_open_lot_count p)),
      (''dust_tracking_lot_count'', VInt (psn_dust_tracking_lot_count p)),
      (''reserved_exit_lot_count'', VInt (psn_reserved_exit_lot_count p)),
      (''sellable_executable_lot_count'', VInt (psn_sellable_executable_lot_count p)),
      (''dust_classification'', VStr (psn_dust_classification p)),
      (''dust_state'', VStr (psn_dust_state p)),
      (''effective_flat'', VBool (psn_effective_flat p)),
      (''has_executable_exposure'', VBool (psn_has_executable_exposure p)),
      (''has_any_position_residue'', VBool (psn_has_any_position_residue p)),
      (''has_non_executable_residue'', VBool (psn_has_non_executable_residue p)),
      (''has_dust_only_remainder'', VBool (psn_has_dust_only_remainder p))]"

record intent_base =
  ib_side :: string
  ib_intent :: string
  ib_pair :: string
  ib_requires_execution_sizing :: bool
  ib_schema_version :: int
  ib_intent_version :: int

datatype execution_intent =
    ExecutionIntentV1 intent_base
  | EntryExecutionIntent intent_base string pyfloat pyfloat
  | ExitExecutionIntent intent_base

definition intent_base_as_dict :: "intent_base \<Rightarrow> pydict" where
  "intent_base_as_dict i =
     [(''schema_version'', VInt (ib_schema_version i)), (''intent_version'', VInt (ib_intent_version i)),
      (''side'', VStr (ib_side i)), (''intent'', VStr (ib_intent i)), (''pair'', VStr (ib_pair i)),
      (''requires_execution_sizing'', VBool (ib_requires_execution_sizing i))]"

fun execution_intent_as_dict :: "execution_intent \<Rightarrow> pydict" where
  "execution_intent_as_dict (ExecutionIntentV1 i) = intent_base_as_dict i"
| "execution_intent_as_dict (EntryExecutionIntent i model fraction budget) =
     intent_base_as_dict i @
     [(''budget_model'', VStr model), (''budget_fraction_of_cash'', VFloat fraction),
      (''max_budget_krw'', VFloat budget)]"
| "execution_intent_as_dict (ExitExecutionIntent i) = intent_base_as_dict i"

text \<open>The fields of a strategy decision that the preference is built from.\<close>

record strategy_decision =
  sdv_strategy_name :: string
  sdv_raw_signal :: string
  sdv_raw_reason :: string
  sdv_entry_reason :: string
  sdv_exit_reason :: string
  sdv_final_signal :: string
  sdv_final_reason :: string
  sdv_blocked_filters :: "string list"
  sdv_entry_blocked :: bool
  sdv_entry_block_reason :: "string option"
  sdv_exit_rule :: "string option"
  sdv_position_snapshot :: position_snapshot
  sdv_execution_intent :: "execution_intent option"
  sdv_policy_hash :: string
  sdv_policy_contract_hash :: string
  sdv_policy_input_hash :: string
  sdv_policy_decision_hash :: string

subsection \<open>Preferences\<close>

record strategy_preference =
  pref_strategy_instance_id :: string
  pref_strategy_name :: string
  pref_pair :: string
  pref_signal_direction :: string
  pref_reason :: string
  pref_raw_signal :: string
  pref_final_signal :: string
  pref_desired_exposure_krw :: "pyfloat option"
  pref_desired_weight :: "pyfloat option"
  pref_confidence :: "pyfloat option"
  pref_horizon :: string
  pref_max_target_exposure_krw :: "pyfloat option"
  pref_risk_budget_krw :: "pyfloat option"
  pref_risk_policy :: "pydict option"
  pref_risk_snapshot :: "pydict option"
  pref_strategy_risk_profile :: "pydict option"
  pref_strategy_risk_decision :: "pydict option"
  pref_policy_hash :: string
  pref_policy_contract_hash :: string
  pref_policy_input_hash :: string
  pref_policy_decision_hash :: string
  pref_position_snapshot_hash :: string
  pref_scope_key_hash :: string
  pref_runtime_scope_key :: "pydict option"
  pref_virtual_lifecycle_evidence :: "pydict option"
  pref_execution_intent_hint :: "pydict option"
  pref_metadata :: pydict
  pref_schema_version :: int

definition StrategyPreference :: "strategy_preference \<Rightarrow> strategy_preference py" where
  "StrategyPreference p =
     (let direction = py_upper (or_str (Some (pref_signal_direction p)) ''HOLD'')
      in if direction \<notin> {''BUY'', ''SELL'', ''HOLD''}
         then Inl (ValueError (''strategy_preference_invalid_signal:'' @ or_str (Some direction) ''missing''))
         else Inr (p\<lparr>
           pref_signal_direction := direction,
           pref_raw_signal := py_upper (or_str (Some (pref_raw_signal p)) ''HOLD''),
           pref_final_signal := py_upper (or_str (Some (pref_final_signal p)) direction),
           pref_risk_policy := map_option stable_dict (pref_risk_policy p),
           pref_risk_snapshot := map_option stable_dict (pref_risk_snapshot p),
           pref_strategy_risk_profile := map_option stable_dict (pref_strategy_risk_profile p),
           pref_strategy_risk_decision := map_option stable_dict (pref_strategy_risk_decision p),
           pref_execution_intent_hint := map_option stable_dict (pref_execution_intent_hint p),
           pref_scope_key_hash := py_strip (pref_scope_key_hash p),
           pref_runtime_scope_key := map_option stable_dict (pref_runtime_scope_key p),
           pref_virtual_lifecycle_evidence := map_option stable_dict (pref_virtual_lifecycle_evidence p),
           pref_metadata := stable_dict (pref_metadata p),
           pref_strategy_instance_id := or_str (Some (pref_strategy_instance_id p)) (pref_strategy_name p)\<rparr>))"

text \<open>The entries on the virtual lifecycle, which preferences and contributions share.\<close>

definition virtual_lifecycle_fields :: "pydict option \<Rightarrow> pydict" where
  "virtual_lifecycle_fields e =
     [(''virtual_lifecycle_evidence'', opt_dict e),
      (''virtual_lifecycle_transition_hash'', opt_get e ''transition_hash''),
      (''virtual_lifecycle_before_hash'', opt_get e ''before_hash''),
      (''virtual_lifecycle_after_hash'', opt_get e ''after_hash''),
      (''virtual_lifecycle_evidence_hash'', opt_get e ''evidence_hash''),
      (''virtual_lifecycle_authority'', opt_get e ''authority''),
      (''virtual_lifecycle_live_submit_authority'', opt_get e ''live_submit_authority'')]"

definition strategy_preference_as_dict :: "(string \<Rightarrow> string) \<Rightarrow> strategy_preference \<Rightarrow> pydict" where
  "strategy_preference_as_dict sha p =
     (let risk_decision = build_risk_decision_artifact sha (opt_float (pref_risk_budget_krw p))
            (opt_float (pref_max_target_exposure_krw p))
            (if pref_max_target_exposure_krw p \<noteq> None then ''max_target_exposure_krw'' else ''none'')
            ''strategy_preference''
      in [(''schema_version'', VInt (pref_schema_version p)),
          (''strategy_instance_id'', VStr (pref_strategy_instance_id p)),
          (''strategy_name'', VStr (pref_strategy_name p)),
          (''pair'', VStr (pref_pair p)),
          (''signal_direction'', VStr (pref_signal_direction p)),
          (''raw_signal'', VStr (pref_raw_signal p)),
          (''final_signal'', VStr (pref_final_signal p)),
          (''desired_exposure_krw'', opt_float (pref_desired_exposure_krw p)),
          (''desired_weight'', opt_float (pref_desired_weight p)),
          (''confidence'', opt_float (pref_confidence p)),
          (''horizon'', VStr (pref_horizon p)),
          (''max_target_exposure_krw'', opt_float (pref_max_target_exposure_krw p)),
          (''risk_budget_krw'', opt_float (pref_risk_budget_krw p)),
          (''risk_budget_semantics'', VStr RISK_BUDGET_SEMANTICS),
          (''strategy_risk_policy'', opt_dict (pref_risk_policy p)),
          (''strategy_risk_snapshot'', opt_dict (pref_risk_snapshot p)),
          (''strategy_risk_profile'', opt_dict (pref_strategy_risk_profile p)),
          (''strategy_risk_decision'', opt_dict (pref_strategy_risk_decision p)),
          (''strategy_risk_decision_hash'', opt_get (pref_strategy_risk_decision p) ''risk_decision_hash''),
          (''strategy_risk_policy_hash'', opt_get (pref_strategy_risk_profile p) ''risk_policy_hash''),
          (''strategy_risk_input_hash'', opt_get (pref_strategy_risk_decision p) ''risk_input_hash''),
          (''strategy_risk_evidence_hash'', opt_get (pref_strategy_risk_decision p) ''risk_evidence_hash''),
          (''strategy_risk_status'', opt_get (pref_strategy_risk_decision p) ''status''),
          (''strategy_risk_reason_code'', opt_get (pref_strategy_risk_decision p) ''reason_code'')]
         @ artifact_fields risk_decision @
         [(''reason'', VStr (pref_reason p)),
          (''policy_hash'', VStr (pref_policy_hash p)),
          (''policy_contract_hash'', VStr (pref_policy_contract_hash p)),
          (''policy_input_hash'', VStr (pref_policy_input_hash p)),
          (''policy_decision_hash'', VStr (pref_policy_decision_hash p)),
          (''position_snapshot_hash'', VStr (pref_position_snapshot_hash p)),
          (''scope_key_hash'', VStr (pref_scope_key_hash p)),
          (''runtime_scope_key'', opt_dict (pref_runtime_scope_key p))]
         @ virtual_lifecycle_fields (pref_virtual_lifecycle_evidence p) @
         [(''execution_intent_hint'', opt_dict (pref_execution_intent_hint p)),
          (''execution_intent_authority'', VStr ''non_authoritative_strategy_hint''),
          (''metadata'', VDict (pref_metadata p))])"

definition strategy_preference_content_hash :: "(string \<Rightarrow> string) \<Rightarrow> strategy_preference \<Rightarrow> string" where
  "strategy_preference_content_hash sha p = sha256_prefixed sha (VDict (strategy_preference_as_dict sha p))"

subsection \<open>Sets of preferences\<close>

record strategy_preference_set =
  pset_preferences :: "strategy_preference list"
  pset_schema_version :: int

definition preference_order_key :: "(string \<Rightarrow> string) \<Rightarrow> strategy_preference \<Rightarrow> string \<times> string \<times> string" where
  "preference_order_key sha p =
     (pref_pair p, pref_strategy_instance_id p, strategy_preference_content_hash sha p)"

definition StrategyPreferenceSet ::
  "(string \<Rightarrow> string) \<Rightarrow> strategy_preference list \<Rightarrow> strategy_preference_set" where
  "StrategyPreferenceSet sha preferences =
     \<lparr>pset_preferences = sort_key (preference_order_key sha) preferences, pset_schema_version = 1\<rparr>"

definition strategy_preference_set_as_dict ::
  "(string \<Rightarrow> string) \<Rightarrow> strategy_preference_set \<Rightarrow> pydict" where
  "strategy_preference_set_as_dict sha s =
     [(''schema_version'', VInt (pset_schema_version s)),
      (''preferences'', VList (map (\<lambda>p. VDict (strategy_preference_as_dict sha p)) (pset_preferences s)))]"

subsection \<open>From a decision to a preference\<close>

text \<open>The optional arguments of \<open>strategy_decision_to_preference\<close>.\<close>

record preference_arguments =
  pa_strategy_instance_id :: "string option"
  pa_desired_exposure_krw :: "pyfloat option"
  pa_desired_weight :: "pyfloat option"
  pa_risk_budget_krw :: "pyfloat option"
  pa_max_target_exposure_krw :: "pyfloat option"
  pa_risk_policy :: "pydict option"
  pa_risk_snapshot :: "pydict option"
  pa_strategy_risk_profile :: "pydict option"
  pa_strategy_risk_decision :: "pydict option"
  pa_virtual_lifecycle_evidence :: "pydict option"
  pa_horizon :: string
  pa_confidence :: "pyfloat option"
  pa_metadata :: "pydict option"

definition strategy_decision_to_preference ::
  "(string \<Rightarrow> string) \<Rightarrow> strategy_decision \<Rightarrow> string \<Rightarrow> preference_arguments \<Rightarrow> strategy_preference py" where
  "strategy_decision_to_preference sha d pair a =
     (let metadata = (case pa_metadata a of None \<Rightarrow> [] | Some m \<Rightarrow> m)
      in StrategyPreference
        \<lparr>pref_strategy_instance_id = or_str (pa_strategy_instance_id a) (sdv_strategy_name d),
         pref_strategy_name = sdv_strategy_name d,
         pref_pair = pair,
         pref_signal_direction = py_upper (or_str (Some (sdv_final_signal d)) ''HOLD''),
         pref_reason = sdv_final_reason d,
         pref_raw_signal = sdv_raw_signal d,
         pref_final_signal = sdv_final_signal d,
         pref_desired_exposure_krw = pa_desired_exposure_krw a,
         pref_desired_weight = pa_desired_weight a,
         pref_confidence = pa_confidence a,
         pref_horizon = pa_horizon a,
         pref_max_target_exposure_krw = pa_max_target_exposure_krw a,
         pref_risk_budget_krw = pa_risk_budget_krw a,
         pref_risk_policy = pa_risk_policy a,
         pref_risk_snapshot = pa_risk_snapshot a,
         pref_strategy_risk_profile = pa_strategy_risk_profile a,
         pref_strategy_risk_decision = pa_strategy_risk_decision a,
         pref_policy_hash = sdv_policy_hash d,
         pref_policy_contract_hash = sdv_policy_contract_hash d,
         pref_policy_input_hash = sdv_policy_input_hash d,
         pref_policy_decision_hash = sdv_policy_decision_hash d,
         pref_position_snapshot_hash = sha256_prefixed sha
           (stable_value (VDict (position_snapshot_asdict (sdv_position_snapshot d)))),
         pref_scope_key_hash = dstr metadata ''scope_key_hash'' [],
         pref_runtime_scope_key = (case dget metadata ''runtime_scope_key'' of VDict k \<Rightarrow> Some k | _ \<Rightarrow> None),
         pref_virtual_lifecycle_evidence = pa_virtual_lifecycle_evidence a,
         pref_execution_intent_hint = map_option execution_intent_as_dict (sdv_execution_intent d),
         pref_metadata = dmerge
           [(''raw_reason'', VStr (sdv_raw_reason d)),
            (''entry_reason'', VStr (sdv_entry_reason d)),
            (''exit_reason'', VStr (sdv_exit_reason d)),
            (''entry_blocked'', VBool (sdv_entry_blocked d)),
            (''entry_block_reason'', opt_string (sdv_entry_block_reason d)),
            (''exit_rule'', opt_string (sdv_exit_rule d)),
            (''blocked_filters'', VList (map VStr (sdv_blocked_filters d)))] metadata,
         pref_schema_version = 1\<rparr>)"

subsection \<open>Facts\<close>

lemma StrategyPreference_direction:
  "StrategyPreference p = Inr q \<Longrightarrow> pref_signal_direction q \<in> {''BUY'', ''SELL'', ''HOLD''}"
  by (auto simp: StrategyPreference_def Let_def split: if_splits)

text \<open>
  The order of a set of preferences does not depend on the order in which they were given,
  as long as no two of them share pair, instance and content hash.
\<close>

lemma StrategyPreferenceSet_perm:
  assumes "mset ps = mset qs" and "inj_on (preference_order_key sha) (set ps)"
  shows "StrategyPreferenceSet sha ps = StrategyPreferenceSet sha qs"
proof -
  have "sort_key (preference_order_key sha) ps = sort_key (preference_order_key sha) qs"
    using assms by (intro sort_key_inj_key_eq) simp_all
  then show ?thesis by (simp add: StrategyPreferenceSet_def)
qed

lemma set_StrategyPreferenceSet [simp]:
  "set (pset_preferences (StrategyPreferenceSet sha ps)) = set ps"
  by (simp add: StrategyPreferenceSet_def)

end
