(* ===== verification/Portfolio_Target.thy ===== *)
theory Portfolio_Target
  imports Strategy_Preference
begin

text \<open>
  The target of a pair and the risk decision on it: \<open>src/src/operation/portfolio_target.py\<close>.
  \<open>PortfolioTarget\<close> is the constructor with its \<open>__post_init__\<close>. The payload of a target carries a
  hash of itself, the risk decision on that payload, and a final hash over both.
\<close>

subsection \<open>Lists and dictionaries out of a payload\<close>

text \<open>
  \<open>list(x)\<close> on a value of a payload: an iterable gives its items, anything else raises.
  \<open>dict(x)\<close> is modelled on dictionaries; every other value raises here, also a list of pairs,
  which Python would accept.
\<close>

fun val_list :: "pyval \<Rightarrow> pyval list py" where
  "val_list (VList xs) = Inr xs"
| "val_list (VTuple xs) = Inr xs"
| "val_list (VStr s) = Inr (map (\<lambda>c. VStr [c]) s)"
| "val_list (VDict d) = Inr (map (\<lambda>e. VStr (fst e)) d)"
| "val_list _ = Inl TypeError"

fun val_dict :: "pyval \<Rightarrow> pydict py" where
  "val_dict (VDict d) = Inr d"
| "val_dict _ = Inl TypeError"

subsection \<open>The risk decision on a target\<close>

record portfolio_risk_decision =
  prd_evaluation_point :: string
  prd_status :: string
  prd_reason_code :: string
  prd_reason :: string
  prd_risk_policy_hash :: string
  prd_risk_input_hash :: string
  prd_risk_decision_hash :: string
  prd_evidence_hash :: string
  prd_state_source :: string
  prd_effective_limits :: pydict
  prd_evidence :: pydict
  prd_schema_version :: int

definition portfolio_risk_decision_as_dict :: "portfolio_risk_decision \<Rightarrow> pydict" where
  "portfolio_risk_decision_as_dict d =
     [(''schema_version'', VInt (prd_schema_version d)),
      (''evaluation_point'', VStr (prd_evaluation_point d)),
      (''status'', VStr (prd_status d)),
      (''reason_code'', VStr (prd_reason_code d)),
      (''reason'', VStr (prd_reason d)),
      (''portfolio_risk_policy_hash'', VStr (prd_risk_policy_hash d)),
      (''portfolio_risk_input_hash'', VStr (prd_risk_input_hash d)),
      (''portfolio_risk_evidence_hash'', VStr (prd_evidence_hash d)),
      (''portfolio_risk_decision_hash'', VStr (prd_risk_decision_hash d)),
      (''risk_policy_hash'', VStr (prd_risk_policy_hash d)),
      (''risk_input_hash'', VStr (prd_risk_input_hash d)),
      (''risk_decision_hash'', VStr (prd_risk_decision_hash d)),
      (''state_source'', VStr (prd_state_source d)),
      (''effective_limits'', VDict (prd_effective_limits d)),
      (''evidence'', VDict (prd_evidence d))]"

definition REQUIRED_TARGET_HASHES :: "string list" where
  "REQUIRED_TARGET_HASHES =
     [''final_portfolio_target_hash'', ''allocation_input_hash'', ''strategy_contribution_hash'']"

definition malformed_reasons :: "pydict \<Rightarrow> string list" where
  "malformed_reasons payload =
     map (\<lambda>k. k @ ''_missing_or_invalid'')
       (filter (\<lambda>k. \<not> py_startswith (py_strip (dstr payload k [])) ''sha256:'') REQUIRED_TARGET_HASHES)"

definition portfolio_status :: "pydict \<Rightarrow> string" where
  "portfolio_status payload =
     (if truthy (dget payload ''authoritative'') \<and> malformed_reasons payload = [] then ''ALLOW'' else ''BLOCK'')"

definition portfolio_reason_code :: "pydict \<Rightarrow> string" where
  "portfolio_reason_code payload =
     (if portfolio_status payload = ''ALLOW'' then ''OK''
      else case malformed_reasons payload of
        m # _ \<Rightarrow> m
      | [] \<Rightarrow> dstr payload ''fail_closed_reason'' ''PORTFOLIO_TARGET_NOT_AUTHORITATIVE'')"

definition portfolio_policy :: pydict where
  "portfolio_policy =
     [(''schema_version'', VInt 1),
      (''policy_name'', VStr ''portfolio_allocation_authority_v1''),
      (''single_pair_runtime_required'', VBool True),
      (''requires_authoritative_portfolio_target'', VBool True),
      (''requires_strategy_contribution_hash'', VBool True),
      (''requires_allocation_input_hash'', VBool True)]"

definition portfolio_evidence :: "pydict \<Rightarrow> pyval list \<Rightarrow> pydict \<Rightarrow> pydict" where
  "portfolio_evidence payload scope_key_hashes conflict_resolution =
     [(''scope'', VStr ''portfolio_allocation_single_pair''),
      (''state_source'', VStr ''portfolio_allocator_target''),
      (''portfolio_target_hash'', VStr (dstr payload ''final_portfolio_target_hash'' [])),
      (''allocation_input_hash'', VStr (dstr payload ''allocation_input_hash'' [])),
      (''allocator_config_hash'', VStr (dstr payload ''allocator_config_hash'' [])),
      (''strategy_contribution_hash'', VStr (dstr payload ''strategy_contribution_hash'' [])),
      (''pair'', VStr (dstr payload ''pair'' [])),
      (''scope_key_hashes'', VList scope_key_hashes),
      (''authoritative'', VBool (truthy (dget payload ''authoritative''))),
      (''fail_closed_reason'', VStr (dstr payload ''fail_closed_reason'' ''none'')),
      (''conflict_resolution'', VDict conflict_resolution),
      (''malformed_reasons'', VList (map VStr (malformed_reasons payload)))]"

definition portfolio_risk_input :: "pydict \<Rightarrow> pyval list \<Rightarrow> pydict" where
  "portfolio_risk_input payload scope_key_hashes =
     [(''schema_version'', VInt 1),
      (''pair'', VStr (dstr payload ''pair'' [])),
      (''target_exposure_krw'', dget payload ''target_exposure_krw''),
      (''target_qty'', dget payload ''target_qty''),
      (''authoritative'', VBool (truthy (dget payload ''authoritative''))),
      (''fail_closed_reason'', VStr (dstr payload ''fail_closed_reason'' ''none'')),
      (''allocation_input_hash'', VStr (dstr payload ''allocation_input_hash'' [])),
      (''allocator_config_hash'', VStr (dstr payload ''allocator_config_hash'' [])),
      (''strategy_contribution_hash'', VStr (dstr payload ''strategy_contribution_hash'' [])),
      (''final_portfolio_target_hash'', VStr (dstr payload ''final_portfolio_target_hash'' [])),
      (''scope_key_hashes'', VList scope_key_hashes)]"

definition build_portfolio_risk_decision ::
  "(string \<Rightarrow> string) \<Rightarrow> pydict \<Rightarrow> portfolio_risk_decision py" where
  "build_portfolio_risk_decision sha payload =
     bind_py (val_list (py_or (dget payload ''scope_key_hashes'') (VList []))) (\<lambda>scopes.
     bind_py (val_dict (py_or (dget payload ''conflict_resolution'') (VDict []))) (\<lambda>conflict.
       let status = portfolio_status payload;
           reason_code = portfolio_reason_code payload;
           reason = (if status = ''ALLOW'' then ''ok'' else ''portfolio allocation blocked: '' @ reason_code);
           evidence = portfolio_evidence payload scopes conflict;
           policy_hash = sha256_prefixed sha (VDict portfolio_policy);
           input_hash = sha256_prefixed sha (VDict (portfolio_risk_input payload scopes));
           evidence_hash = sha256_prefixed sha (VDict evidence);
           decision_without_hash =
             [(''schema_version'', VInt 1),
              (''evaluation_point'', VStr ''portfolio_allocation''),
              (''status'', VStr status),
              (''reason_code'', VStr reason_code),
              (''reason'', VStr reason),
              (''portfolio_risk_policy_hash'', VStr policy_hash),
              (''portfolio_risk_input_hash'', VStr input_hash),
              (''portfolio_risk_evidence_hash'', VStr evidence_hash),
              (''state_source'', VStr ''portfolio_allocator_target''),
              (''effective_limits'', VDict portfolio_policy),
              (''evidence'', VDict evidence)]
       in Inr \<lparr>prd_evaluation_point = ''portfolio_allocation'', prd_status = status,
            prd_reason_code = reason_code, prd_reason = reason,
            prd_risk_policy_hash = policy_hash, prd_risk_input_hash = input_hash,
            prd_risk_decision_hash = sha256_prefixed sha (VDict decision_without_hash),
            prd_evidence_hash = evidence_hash, prd_state_source = ''portfolio_allocator_target'',
            prd_effective_limits = portfolio_policy, prd_evidence = evidence, prd_schema_version = 1\<rparr>))"

subsection \<open>Targets\<close>

record portfolio_target =
  pt_pair :: string
  pt_target_exposure_krw :: "pyfloat option"
  pt_target_qty :: "pyfloat option"
  pt_allocator_policy_name :: string
  pt_allocator_policy_version :: string
  pt_allocator_config_hash :: string
  pt_strategy_contribution_hash :: string
  pt_allocation_input_hash :: string
  pt_reason :: string
  pt_conflict_resolution :: pydict
  pt_scope_key_hashes :: "string list"
  pt_authoritative :: bool
  pt_fail_closed_reason :: string
  pt_schema_version :: int

definition PortfolioTarget :: "portfolio_target \<Rightarrow> portfolio_target" where
  "PortfolioTarget t = t\<lparr>pt_scope_key_hashes :=
     sort (filter (\<lambda>s. s \<noteq> []) (map py_strip (pt_scope_key_hashes t)))\<rparr>"

definition payload_without_hashes :: "(string \<Rightarrow> string) \<Rightarrow> portfolio_target \<Rightarrow> pydict" where
  "payload_without_hashes sha t =
     (let c = pt_conflict_resolution t;
          risk_decision = build_risk_decision_artifact sha VNone (dget c ''exposure_cap_krw'')
            (py_str (dget_or c ''exposure_cap_source'' (VStr ''none''))) ''portfolio_target''
      in [(''schema_version'', VInt (pt_schema_version t)),
          (''pair'', VStr (pt_pair t)),
          (''target_exposure_krw'', opt_float (pt_target_exposure_krw t)),
          (''max_target_exposure_krw'', opt_float (pt_target_exposure_krw t)),
          (''pre_cap_weighted_target_exposure_krw'', dget c ''pre_cap_weighted_target_exposure_krw''),
          (''target_exposure_source'', dget_or c ''target_exposure_source'' (VStr ''unspecified'')),
          (''allocation_target_source'', dget_or c ''allocation_target_source'' (VStr ''unspecified'')),
          (''strict_target_exposure_required'',
             VBool (truthy (dget_or c ''strict_target_exposure_required'' (VBool False)))),
          (''exposure_cap_krw'', dget c ''exposure_cap_krw''),
          (''exposure_cap_applied'', VBool (truthy (dget_or c ''exposure_cap_applied'' (VBool False)))),
          (''exposure_cap_source'', dget_or c ''exposure_cap_source'' (VStr ''none'')),
          (''target_qty'', opt_float (pt_target_qty t)),
          (''allocator_policy_name'', VStr (pt_allocator_policy_name t)),
          (''allocator_policy_version'', VStr (pt_allocator_policy_version t)),
          (''allocator_config_hash'', VStr (pt_allocator_config_hash t)),
          (''strategy_contribution_hash'', VStr (pt_strategy_contribution_hash t)),
          (''allocation_input_hash'', VStr (pt_allocation_input_hash t)),
          (''scope_key_hashes'', VList (map VStr (pt_scope_key_hashes t))),
          (''reason'', VStr (pt_reason t)),
          (''conflict_resolution'', VDict c),
          (''authoritative'', VBool (pt_authoritative t)),
          (''fail_closed_reason'', VStr (pt_fail_closed_reason t)),
          (''risk_budget_semantics'', VStr RISK_BUDGET_SEMANTICS)]
         @ artifact_fields risk_decision)"

text \<open>The entries that quote the risk decision in the payload.\<close>

definition portfolio_risk_fields :: "pydict \<Rightarrow> pydict" where
  "portfolio_risk_fields d =
     [(''portfolio_risk_decision'', VDict d),
      (''portfolio_risk_decision_hash'', dget d ''portfolio_risk_decision_hash''),
      (''portfolio_risk_policy_hash'', dget d ''portfolio_risk_policy_hash''),
      (''portfolio_risk_input_hash'', dget d ''portfolio_risk_input_hash''),
      (''portfolio_risk_evidence_hash'', dget d ''portfolio_risk_evidence_hash''),
      (''portfolio_risk_status'', dget d ''status''),
      (''portfolio_risk_reason_code'', dget d ''reason_code''),
      (''portfolio_risk_state_source'', dget d ''state_source'')]"

definition portfolio_target_as_dict :: "(string \<Rightarrow> string) \<Rightarrow> portfolio_target \<Rightarrow> pydict py" where
  "portfolio_target_as_dict sha t =
     (let base = payload_without_hashes sha t;
          payload = AList.update ''final_portfolio_target_hash'' (VStr (sha256_prefixed sha (VDict base))) base
      in bind_py (build_portfolio_risk_decision sha payload) (\<lambda>d.
         let full = dmerge payload (portfolio_risk_fields (portfolio_risk_decision_as_dict d))
         in Inr (AList.update ''final_portfolio_target_hash''
              (VStr (sha256_prefixed sha (VDict (filter (\<lambda>(k, v). k \<noteq> ''final_portfolio_target_hash'') full))))
              full)))"

text \<open>\<open>content_hash\<close> builds the payload of \<open>as_dict\<close> again and returns its final hash.\<close>

definition portfolio_target_content_hash :: "(string \<Rightarrow> string) \<Rightarrow> portfolio_target \<Rightarrow> pyval py" where
  "portfolio_target_content_hash sha t =
     bind_py (portfolio_target_as_dict sha t) (\<lambda>payload. Inr (dget payload ''final_portfolio_target_hash''))"

end
