(* ===== verification/Portfolio_Allocation.thy ===== *)
theory Portfolio_Allocation
  imports Portfolio_Target Risk Target_Position
begin

text \<open>
  The portfolio allocator of \<open>src/src/operation/portfolio_allocation.py\<close>: contributions, allocator
  configuration and input, the risk gate on the selected strategies, the weighted and capped
  target of a purchase, the target of each pair and the decision on all of them. At the end
  the two functions of \<open>src/src/operation/run_loop_execution_planner.py\<close> that set up and check an
  allocation.

  The code passes six amounts of a risk snapshot on as they are; \<open>RiskSnapshot\<close> declares them
  \<open>float | None\<close>. \<open>snapshot_amount\<close> covers mappings that respect this declaration, as
  \<open>RiskSnapshot.as_dict\<close> writes them; a mapping that does not is a \<open>TypeError\<close> of the model.
\<close>

subsection \<open>Risk policy and snapshot of a strategy\<close>

text \<open>\<open>int(d.get(k, n) or n)\<close> and \<open>float(d.get(k, 0.0) or 0.0)\<close>\<close>

definition int_field :: "pydict \<Rightarrow> string \<Rightarrow> int \<Rightarrow> int py" where
  "int_field d k n = val_int (py_or (dget d k) (VInt n))"

definition float_field :: "pydict \<Rightarrow> string \<Rightarrow> pyfloat py" where
  "float_field d k = val_float (py_or (dget d k) (VFloat (Fin 0)))"

text \<open>\<open>None if d.get(k) is None else int(d.get(k) or 0)\<close>, and the same for doubles\<close>

definition optional_int_field :: "pydict \<Rightarrow> string \<Rightarrow> int option py" where
  "optional_int_field d k =
     (if dget d k = VNone then Inr None else bind_py (int_field d k 0) (\<lambda>n. Inr (Some n)))"

definition optional_float_field :: "pydict \<Rightarrow> string \<Rightarrow> pyfloat option py" where
  "optional_float_field d k =
     (if dget d k = VNone then Inr None else bind_py (float_field d k) (\<lambda>f. Inr (Some f)))"

fun snapshot_amount :: "pyval \<Rightarrow> pyfloat option py" where
  "snapshot_amount VNone = Inr None"
| "snapshot_amount (VFloat f) = Inr (Some f)"
| "snapshot_amount _ = Inl TypeError"

definition strategy_risk_policy_from_mapping :: "pydict \<Rightarrow> risk_policy py" where
  "strategy_risk_policy_from_mapping d =
     bind_py (int_field d ''schema_version'' 1) (\<lambda>version.
     bind_py (float_field d ''max_daily_loss_krw'') (\<lambda>daily_loss.
     bind_py (float_field d ''max_position_loss_pct'') (\<lambda>position_loss.
     bind_py (int_field d ''max_daily_order_count'' 0) (\<lambda>orders.
     bind_py (int_field d ''max_trade_count_per_day'' 0) (\<lambda>trades.
     bind_py (float_field d ''max_drawdown_pct'') (\<lambda>drawdown.
     bind_py (int_field d ''cooldown_after_loss_min'' 0) (\<lambda>cooldown.
     bind_py (int_field d ''max_open_positions'' 1) (\<lambda>positions. Inr
       \<lparr>rp_schema_version = version,
        rp_max_daily_loss_krw = daily_loss,
        rp_max_position_loss_pct = position_loss,
        rp_max_daily_order_count = orders,
        rp_max_trade_count_per_day = trades,
        rp_max_drawdown_pct = drawdown,
        rp_cooldown_after_loss_min = cooldown,
        rp_kill_switch = truthy (dget d ''kill_switch''),
        rp_max_open_positions = positions,
        rp_unresolved_order_policy = dstr d ''unresolved_order_policy'' ''block'',
        rp_policy_status = dstr d ''policy_status'' ''enabled'',
        rp_missing_policy = dstr d ''missing_policy'' ''fail_closed_for_promotion'',
        rp_source = dstr d ''source'' ''runtime_strategy_spec''\<rparr>))))))))"

definition strategy_risk_snapshot_from_mapping ::
  "pydict option \<Rightarrow> string \<Rightarrow> risk_snapshot py" where
  "strategy_risk_snapshot_from_mapping payload strategy_instance_id =
     (let d = dict_or_empty payload in
     bind_py (int_field d ''evaluation_ts_ms'' 0) (\<lambda>ts.
     bind_py (float_field d ''mark_price'') (\<lambda>mark.
     bind_py (snapshot_amount (dget d ''current_equity'')) (\<lambda>equity.
     bind_py (snapshot_amount (dget d ''baseline_equity'')) (\<lambda>baseline.
     bind_py (snapshot_amount (dget d ''loss_today'')) (\<lambda>loss.
     bind_py (snapshot_amount (dget d ''current_cash_krw'')) (\<lambda>cash.
     bind_py (snapshot_amount (dget d ''current_asset_qty'')) (\<lambda>qty.
     bind_py (snapshot_amount (dget d ''position_entry_price'')) (\<lambda>entry.
     bind_py (optional_int_field d ''daily_order_count'') (\<lambda>orders.
     bind_py (optional_int_field d ''daily_trade_count'') (\<lambda>trades.
     bind_py (optional_float_field d ''current_drawdown_pct'') (\<lambda>drawdown.
     bind_py (optional_float_field d ''minutes_since_last_loss'') (\<lambda>minutes.
     bind_py (val_dict (py_or (dget d ''evidence'') (VDict []))) (\<lambda>evidence. Inr
       \<lparr>rs_evaluation_ts_ms = ts,
        rs_mark_price = mark,
        rs_current_equity = equity,
        rs_baseline_equity = baseline,
        rs_loss_today = loss,
        rs_current_cash_krw = cash,
        rs_current_asset_qty = qty,
        rs_position_entry_price = entry,
        rs_broker_local_mismatch = truthy (dget d ''broker_local_mismatch''),
        rs_recovery_risk_mismatch_reason = (if dget d ''recovery_risk_mismatch_reason'' = VNone then None
          else Some (py_str (dget d ''recovery_risk_mismatch_reason''))),
        rs_duplicate_entry = truthy (dget d ''duplicate_entry''),
        rs_daily_order_count = orders,
        rs_daily_trade_count = trades,
        rs_current_drawdown_pct = drawdown,
        rs_current_drawdown_metric = None,
        rs_minutes_since_last_loss = minutes,
        rs_unresolved_order_blocked = truthy (dget d ''unresolved_order_blocked''),
        rs_unresolved_order_reason_code = dstr d ''unresolved_order_reason_code'' ''OK'',
        rs_unresolved_order_reason = dstr d ''unresolved_order_reason'' ''ok'',
        rs_state_source = dstr d ''state_source'' ''strategy_risk_snapshot'',
        rs_evidence = AList.update ''strategy_instance_id'' (VStr strategy_instance_id) evidence\<rparr>))))))))))))))"

subsection \<open>Contributions\<close>

record strategy_contribution =
  con_strategy_instance_id :: string
  con_strategy_name :: string
  con_pair :: string
  con_signal_direction :: string
  con_priority :: int
  con_weight :: pyfloat
  con_preference_hash :: string
  con_desired_exposure_krw :: "pyfloat option"
  con_risk_budget_krw :: "pyfloat option"
  con_max_target_exposure_krw :: "pyfloat option"
  con_reason :: string
  con_scope_key_hash :: string
  con_runtime_scope_key :: "pydict option"
  con_virtual_lifecycle_evidence :: "pydict option"
  con_strategy_risk_policy :: "pydict option"
  con_strategy_risk_snapshot :: "pydict option"
  con_strategy_risk_profile :: "pydict option"
  con_strategy_risk_decision :: "pydict option"
  con_pre_cap_weighted_target_exposure_krw :: "pyfloat option"
  con_exposure_cap_applied :: bool
  con_exposure_cap_source :: string
  con_risk_budget_semantics :: string
  con_schema_version :: int

definition strategy_contribution_as_dict :: "(string \<Rightarrow> string) \<Rightarrow> strategy_contribution \<Rightarrow> pydict" where
  "strategy_contribution_as_dict sha c =
     (let risk_decision = build_risk_decision_artifact sha (opt_float (con_risk_budget_krw c))
            (opt_float (con_max_target_exposure_krw c)) (con_exposure_cap_source c) ''strategy_contribution''
      in [(''schema_version'', VInt (con_schema_version c)),
          (''strategy_instance_id'', VStr (con_strategy_instance_id c)),
          (''strategy_name'', VStr (con_strategy_name c)),
          (''pair'', VStr (con_pair c)),
          (''signal_direction'', VStr (con_signal_direction c)),
          (''priority'', VInt (con_priority c)),
          (''weight'', VFloat (con_weight c)),
          (''preference_hash'', VStr (con_preference_hash c)),
          (''scope_key_hash'', VStr (con_scope_key_hash c)),
          (''runtime_scope_key'', opt_dict (con_runtime_scope_key c))]
         @ virtual_lifecycle_fields (con_virtual_lifecycle_evidence c) @
         [(''desired_exposure_krw'', opt_float (con_desired_exposure_krw c)),
          (''risk_budget_krw'', opt_float (con_risk_budget_krw c)),
          (''max_target_exposure_krw'', opt_float (con_max_target_exposure_krw c)),
          (''pre_cap_weighted_target_exposure_krw'', opt_float (con_pre_cap_weighted_target_exposure_krw c)),
          (''exposure_cap_applied'', VBool (con_exposure_cap_applied c)),
          (''exposure_cap_source'', VStr (con_exposure_cap_source c)),
          (''risk_budget_semantics'', VStr (con_risk_budget_semantics c)),
          (''strategy_risk_policy'', opt_dict (con_strategy_risk_policy c)),
          (''strategy_risk_snapshot'', opt_dict (con_strategy_risk_snapshot c)),
          (''strategy_risk_profile'', opt_dict (con_strategy_risk_profile c)),
          (''strategy_risk_decision'', opt_dict (con_strategy_risk_decision c)),
          (''strategy_risk_decision_hash'', opt_get (con_strategy_risk_decision c) ''risk_decision_hash''),
          (''strategy_risk_policy_hash'', opt_get (con_strategy_risk_decision c) ''risk_policy_hash''),
          (''strategy_risk_input_hash'', opt_get (con_strategy_risk_decision c) ''risk_input_hash''),
          (''strategy_risk_evidence_hash'', opt_get (con_strategy_risk_decision c) ''risk_evidence_hash''),
          (''strategy_risk_status'', opt_get (con_strategy_risk_decision c) ''status''),
          (''strategy_risk_reason_code'', opt_get (con_strategy_risk_decision c) ''reason_code''),
          (''strategy_risk_state_source'', opt_get (con_strategy_risk_decision c) ''state_source'')]
         @ artifact_fields risk_decision @
         [(''reason'', VStr (con_reason c))])"

subsection \<open>Configuration and input\<close>

record allocator_config =
  ac_policy_name :: string
  ac_policy_version :: string
  ac_target_exposure_krw :: pyfloat
  ac_target_exposure_source :: string
  ac_require_explicit_strategy_target_exposure :: bool
  ac_hold_policy :: string
  ac_mixed_hold_policy :: string
  ac_conflict_policy :: string
  ac_strategy_priorities :: "(string \<times> int) list"
  ac_strategy_weights :: "(string \<times> pyfloat) list"
  ac_risk_budget_semantics :: string
  ac_schema_version :: int

definition allocator_config_as_dict :: "allocator_config \<Rightarrow> pydict" where
  "allocator_config_as_dict c =
     [(''schema_version'', VInt (ac_schema_version c)),
      (''policy_name'', VStr (ac_policy_name c)),
      (''policy_version'', VStr (ac_policy_version c)),
      (''target_exposure_krw'', VFloat (ac_target_exposure_krw c)),
      (''target_exposure_source'', VStr (ac_target_exposure_source c)),
      (''allocation_target_source'', VStr (ac_target_exposure_source c)),
      (''require_explicit_strategy_target_exposure'', VBool (ac_require_explicit_strategy_target_exposure c)),
      (''hold_policy'', VStr (ac_hold_policy c)),
      (''mixed_hold_policy'', VStr (ac_mixed_hold_policy c)),
      (''conflict_policy'', VStr (ac_conflict_policy c)),
      (''strategy_priorities'', VDict (map (\<lambda>(k, n). (k, VInt n)) (sort_key fst (ac_strategy_priorities c)))),
      (''strategy_weights'', VDict (map (\<lambda>(k, f). (k, VFloat f)) (sort_key fst (ac_strategy_weights c)))),
      (''risk_budget_semantics'', VStr (ac_risk_budget_semantics c))]"

definition allocator_config_content_hash :: "(string \<Rightarrow> string) \<Rightarrow> allocator_config \<Rightarrow> string" where
  "allocator_config_content_hash sha c = sha256_prefixed sha (VDict (allocator_config_as_dict c))"

record allocation_input =
  ai_preference_set :: strategy_preference_set
  ai_allocator_config :: allocator_config
  ai_previous_target_exposure_krw :: "pyfloat option"
  ai_reference_price :: "pyfloat option"
  ai_previous_target_exposure_by_pair :: "(string \<times> pyfloat option) list"
  ai_reference_price_by_pair :: "(string \<times> pyfloat option) list"
  ai_schema_version :: int

text \<open>The distinct pairs of a list of preferences, in order.\<close>

definition preference_pairs :: "strategy_preference list \<Rightarrow> string list" where
  "preference_pairs ps = sort (remdups (map pref_pair ps))"

definition PortfolioAllocationInput ::
  "strategy_preference_set \<Rightarrow> allocator_config \<Rightarrow> pyfloat option \<Rightarrow> pyfloat option \<Rightarrow>
   (string \<times> pyfloat option) list option \<Rightarrow> (string \<times> pyfloat option) list option \<Rightarrow> allocation_input" where
  "PortfolioAllocationInput pset config previous reference previous_by_pair reference_by_pair =
     (let pairs = preference_pairs (pset_preferences pset)
      in \<lparr>ai_preference_set = pset, ai_allocator_config = config,
          ai_previous_target_exposure_krw = previous, ai_reference_price = reference,
          ai_previous_target_exposure_by_pair = (case previous_by_pair of Some d \<Rightarrow> d
            | None \<Rightarrow> map (\<lambda>pair. (pair, previous)) pairs),
          ai_reference_price_by_pair = (case reference_by_pair of Some d \<Rightarrow> d
            | None \<Rightarrow> map (\<lambda>pair. (pair, reference)) pairs),
          ai_schema_version = 1\<rparr>)"

definition allocation_input_as_dict :: "(string \<Rightarrow> string) \<Rightarrow> allocation_input \<Rightarrow> pydict" where
  "allocation_input_as_dict sha i =
     [(''schema_version'', VInt (ai_schema_version i)),
      (''preference_set'', VDict (strategy_preference_set_as_dict sha (ai_preference_set i))),
      (''allocator_config'', VDict (allocator_config_as_dict (ai_allocator_config i))),
      (''previous_target_exposure_krw'', opt_float (ai_previous_target_exposure_krw i)),
      (''reference_price'', opt_float (ai_reference_price i)),
      (''previous_target_exposure_by_pair'',
         VDict (map (\<lambda>(k, f). (k, opt_float f)) (ai_previous_target_exposure_by_pair i))),
      (''reference_price_by_pair'', VDict (map (\<lambda>(k, f). (k, opt_float f)) (ai_reference_price_by_pair i))),
      (''pair_aware_allocation_input'', VBool True)]"

definition allocation_input_content_hash :: "(string \<Rightarrow> string) \<Rightarrow> allocation_input \<Rightarrow> string" where
  "allocation_input_content_hash sha i = sha256_prefixed sha (VDict (allocation_input_as_dict sha i))"

definition aggregate :: "(string \<Rightarrow> string) \<Rightarrow> strategy_preference list \<Rightarrow> strategy_preference_set py" where
  "aggregate sha preferences =
     (if preferences = [] then Inl (ValueError ''strategy_preference_missing'')
      else Inr (StrategyPreferenceSet sha preferences))"

subsection \<open>The allocator\<close>

definition contribution :: "(string \<Rightarrow> string) \<Rightarrow> allocator_config \<Rightarrow> strategy_preference \<Rightarrow> strategy_contribution" where
  "contribution sha config p =
     (let instance_id = or_str (Some (pref_strategy_instance_id p)) (pref_strategy_name p)
      in \<lparr>con_strategy_instance_id = instance_id,
          con_strategy_name = pref_strategy_name p,
          con_pair = pref_pair p,
          con_signal_direction = pref_signal_direction p,
          con_priority = (case map_of (ac_strategy_priorities config) instance_id of Some n \<Rightarrow> n | None \<Rightarrow> 100),
          con_weight = (case map_of (ac_strategy_weights config) instance_id of Some w \<Rightarrow> w
            | None \<Rightarrow> (case pref_desired_weight p of Some w \<Rightarrow> if ftruthy w then w else Fin 1 | None \<Rightarrow> Fin 1)),
          con_preference_hash = strategy_preference_content_hash sha p,
          con_desired_exposure_krw = pref_desired_exposure_krw p,
          con_risk_budget_krw = pref_risk_budget_krw p,
          con_max_target_exposure_krw = pref_max_target_exposure_krw p,
          con_reason = pref_reason p,
          con_scope_key_hash = pref_scope_key_hash p,
          con_runtime_scope_key = pref_runtime_scope_key p,
          con_virtual_lifecycle_evidence = pref_virtual_lifecycle_evidence p,
          con_strategy_risk_policy = pref_risk_policy p,
          con_strategy_risk_snapshot = pref_risk_snapshot p,
          con_strategy_risk_profile = pref_strategy_risk_profile p,
          con_strategy_risk_decision = pref_strategy_risk_decision p,
          con_pre_cap_weighted_target_exposure_krw = None,
          con_exposure_cap_applied = False,
          con_exposure_cap_source = ''none'',
          con_risk_budget_semantics = RISK_BUDGET_SEMANTICS,
          con_schema_version = 1\<rparr>)"

definition blocked_target ::
  "allocator_config \<Rightarrow> string \<Rightarrow> string \<Rightarrow> string \<Rightarrow> string \<Rightarrow> string \<Rightarrow> pydict option \<Rightarrow> portfolio_target" where
  "blocked_target config pair input_hash config_hash contribution_hash reason conflict_resolution =
     PortfolioTarget
     \<lparr>pt_pair = pair, pt_target_exposure_krw = None, pt_target_qty = None,
      pt_allocator_policy_name = ac_policy_name config,
      pt_allocator_policy_version = ac_policy_version config,
      pt_allocator_config_hash = config_hash,
      pt_strategy_contribution_hash = contribution_hash,
      pt_allocation_input_hash = input_hash,
      pt_reason = reason,
      pt_conflict_resolution = (case conflict_resolution of
          Some c \<Rightarrow> if c \<noteq> [] then c else [(''policy'', VStr (ac_conflict_policy config))]
        | None \<Rightarrow> [(''policy'', VStr (ac_conflict_policy config))]),
      pt_scope_key_hashes = [], pt_authoritative = False, pt_fail_closed_reason = reason,
      pt_schema_version = 1\<rparr>"

subsubsection \<open>The risk gate of the selected strategies\<close>

definition decision_block :: "string \<Rightarrow> pydict \<Rightarrow> pydict" where
  "decision_block instance_id d =
     [(''strategy_risk_policy_blocked'', VBool True),
      (''strategy_risk_blocked_instance_id'', VStr instance_id),
      (''strategy_risk_block_reason_code'', VStr (dstr d ''reason_code'' ''STRATEGY_RISK_NOT_ALLOW'')),
      (''strategy_risk_decision'', VDict d),
      (''strategy_risk_decision_hash'', VStr (dstr d ''risk_decision_hash'' [])),
      (''strategy_risk_policy_hash'', VStr (dstr d ''risk_policy_hash'' [])),
      (''strategy_risk_input_hash'', VStr (dstr d ''risk_input_hash'' [])),
      (''strategy_risk_evidence_hash'', VStr (dstr d ''risk_evidence_hash'' [])),
      (''strategy_risk_status'', VStr (dstr d ''status'' [])),
      (''strategy_risk_state_source'', VStr (dstr d ''state_source'' []))]"

definition profile_block :: "string \<Rightarrow> pydict \<Rightarrow> pydict" where
  "profile_block instance_id profile =
     [(''strategy_risk_policy_blocked'', VBool True),
      (''strategy_risk_blocked_instance_id'', VStr instance_id),
      (''strategy_risk_block_reason_code'', VStr ''STRATEGY_RISK_DECISION_MISSING''),
      (''strategy_risk_status'', VStr ''MISSING''),
      (''strategy_risk_policy_hash'', VStr (dstr profile ''risk_policy_hash'' [])),
      (''strategy_risk_evidence_hash'', VStr [])]"

definition engine_block :: "string \<Rightarrow> risk_decision \<Rightarrow> pydict" where
  "engine_block instance_id d =
     [(''strategy_risk_policy_blocked'', VBool True),
      (''strategy_risk_blocked_instance_id'', VStr instance_id),
      (''strategy_risk_block_reason_code'', VStr (rd_reason_code d)),
      (''strategy_risk_decision'', VDict (risk_decision_as_dict d)),
      (''strategy_risk_decision_hash'', VStr (rd_risk_decision_hash d)),
      (''strategy_risk_policy_hash'', VStr (rd_risk_policy_hash d)),
      (''strategy_risk_input_hash'', VStr (rd_risk_input_hash d)),
      (''strategy_risk_evidence_hash'', VStr (rd_risk_evidence_hash d)),
      (''strategy_risk_status'', VStr (rd_status d)),
      (''strategy_risk_state_source'', VStr (rd_state_source d))]"

text \<open>The body of the loop: the block of one contribution, or \<open>None\<close> to go on.\<close>

definition strategy_risk_block :: "(string \<Rightarrow> string) \<Rightarrow> strategy_contribution \<Rightarrow> pydict option py" where
  "strategy_risk_block sha c =
     (case con_strategy_risk_decision c of
        Some d \<Rightarrow> Inr (if dstr d ''status'' [] \<noteq> ''ALLOW''
          then Some (decision_block (con_strategy_instance_id c) d) else None)
      | None \<Rightarrow>
          (case con_strategy_risk_profile c of
             Some profile \<Rightarrow> Inr (Some (profile_block (con_strategy_instance_id c) profile))
           | None \<Rightarrow>
               (case con_strategy_risk_policy c of
                  None \<Rightarrow> Inr None
                | Some mapping \<Rightarrow>
                    bind_py (strategy_risk_policy_from_mapping mapping) (\<lambda>policy.
                    bind_py (strategy_risk_snapshot_from_mapping (con_strategy_risk_snapshot c)
                      (con_strategy_instance_id c)) (\<lambda>snapshot.
                    bind_py (evaluate_pre_decision sha policy snapshot) (\<lambda>d.
                      Inr (if rd_status d \<noteq> ''ALLOW''
                        then Some (engine_block (con_strategy_instance_id c) d) else None)))))))"

fun selected_strategy_risk_block ::
  "(string \<Rightarrow> string) \<Rightarrow> strategy_contribution list \<Rightarrow> pydict option py" where
  "selected_strategy_risk_block sha [] = Inr None"
| "selected_strategy_risk_block sha (c # cs) =
     bind_py (strategy_risk_block sha c) (\<lambda>b.
       (case b of Some d \<Rightarrow> Inr (Some d) | None \<Rightarrow> selected_strategy_risk_block sha cs))"

subsubsection \<open>The target of a purchase\<close>

record buy_totals =
  bt_weighted :: pyfloat
  bt_weight :: pyfloat
  bt_cap :: pyfloat
  bt_cap_present :: bool

fun sum_buy_totals ::
  "allocator_config \<Rightarrow> strategy_contribution list \<Rightarrow> buy_totals \<Rightarrow> buy_totals py" where
  "sum_buy_totals config [] b = Inr b"
| "sum_buy_totals config (c # cs) b =
     (let weight = fmax (Fin 0) (con_weight c)
      in if ac_require_explicit_strategy_target_exposure config \<and> con_desired_exposure_krw c = None
         then Inl (ValueError (''strict_target_exposure_missing:'' @ con_strategy_instance_id c))
         else
           let exposure = (case con_desired_exposure_krw c of Some e \<Rightarrow> e
                 | None \<Rightarrow> fmax (Fin 0) (ac_target_exposure_krw config));
               b1 = b\<lparr>bt_weighted := fadd (bt_weighted b) (fmul exposure weight),
                      bt_weight := fadd (bt_weight b) weight\<rparr>
           in sum_buy_totals config cs
                (case con_max_target_exposure_krw c of None \<Rightarrow> b1
                 | Some cap \<Rightarrow> b1\<lparr>bt_cap_present := True, bt_cap := fadd (bt_cap b) (fmax (Fin 0) cap)\<rparr>))"

text \<open>The audit entries of a purchase.\<close>

definition cap_audit ::
  "(string \<Rightarrow> string) \<Rightarrow> allocator_config \<Rightarrow> pyfloat \<Rightarrow> string \<Rightarrow> pyval \<Rightarrow> bool \<Rightarrow> string \<Rightarrow> string \<Rightarrow> pydict" where
  "cap_audit sha config pre_cap target_source cap applied cap_source decision_context =
     [(''pre_cap_weighted_target_exposure_krw'', VFloat pre_cap),
      (''target_exposure_source'', VStr target_source),
      (''allocation_target_source'', VStr target_source),
      (''strict_target_exposure_required'', VBool (ac_require_explicit_strategy_target_exposure config)),
      (''exposure_cap_krw'', cap),
      (''exposure_cap_applied'', VBool applied),
      (''exposure_cap_source'', VStr cap_source),
      (''risk_budget_semantics'', VStr RISK_BUDGET_SEMANTICS)]
     @ artifact_fields (build_risk_decision_artifact sha VNone cap cap_source decision_context)"

definition buy_target_exposure ::
  "(string \<Rightarrow> string) \<Rightarrow> allocator_config \<Rightarrow> strategy_contribution list \<Rightarrow> (pyfloat \<times> pydict) py" where
  "buy_target_exposure sha config contributions =
     (if contributions = [] then
        if ac_require_explicit_strategy_target_exposure config
        then Inl (ValueError ''strict_target_exposure_missing'')
        else
          let target = fmax (Fin 0) (ac_target_exposure_krw config)
          in Inr (target, cap_audit sha config target (ac_target_exposure_source config) VNone False ''none''
               ''portfolio_allocator_default_target'')
      else
        bind_py (sum_buy_totals config contributions
          \<lparr>bt_weighted = Fin 0, bt_weight = Fin 0, bt_cap = Fin 0, bt_cap_present = False\<rparr>) (\<lambda>b.
          let pre_cap = (if flt (Fin 0) (bt_weight b) then fdiv (bt_weighted b) (bt_weight b) else Fin 0);
              capped = fmin pre_cap (bt_cap b);
              target = (if bt_cap_present b then capped else pre_cap);
              source = (if list_all (\<lambda>c. con_desired_exposure_krw c \<noteq> None) contributions
                then ''runtime_strategy_spec.desired_exposure_krw'' else ac_target_exposure_source config)
          in Inr (fmax (Fin 0) target,
               cap_audit sha config (fmax (Fin 0) pre_cap) source
                 (if bt_cap_present b then VFloat (bt_cap b) else VNone)
                 (bt_cap_present b \<and> flt capped pre_cap)
                 (if bt_cap_present b then ''max_target_exposure_krw'' else ''none'')
                 ''portfolio_allocator_buy_target'')))"

subsubsection \<open>The target of a pair\<close>

definition best_priority :: "strategy_contribution list \<Rightarrow> int" where
  "best_priority contributions = Min (con_priority ` set contributions)"

definition top_contributions :: "strategy_contribution list \<Rightarrow> strategy_contribution list" where
  "top_contributions contributions =
     filter (\<lambda>c. con_priority c = best_priority contributions) contributions"

definition signals_of :: "strategy_contribution list \<Rightarrow> string list" where
  "signals_of cs = sort (remdups (map con_signal_direction cs))"

definition equal_priority_conflict :: "strategy_contribution list \<Rightarrow> bool" where
  "equal_priority_conflict tops \<longleftrightarrow> {''BUY'', ''SELL''} \<subseteq> set (signals_of tops)"

definition selected_signal :: "strategy_contribution list \<Rightarrow> string" where
  "selected_signal tops =
     (case filter (\<lambda>s. s \<noteq> ''HOLD'') (signals_of tops) of s # _ \<Rightarrow> s | [] \<Rightarrow> ''HOLD'')"

text \<open>The non-blank entries \<open>k\<close> of the dictionaries of a list.\<close>

definition nonblank_entries :: "pydict list \<Rightarrow> string \<Rightarrow> pyval list" where
  "nonblank_entries ds k =
     map (\<lambda>d. VStr (dstr d k [])) (filter (\<lambda>d. py_strip (dstr d k []) \<noteq> []) ds)"

definition conflict_evidence :: "allocator_config \<Rightarrow> strategy_contribution list \<Rightarrow> strategy_contribution list \<Rightarrow> pydict" where
  "conflict_evidence config contributions tops =
     (let profiles = List.map_filter con_strategy_risk_profile tops;
          lifecycles = List.map_filter con_virtual_lifecycle_evidence tops
      in [(''policy'', VStr (ac_conflict_policy config)),
          (''mixed_hold_policy'', VStr (ac_mixed_hold_policy config)),
          (''selected_priority'', VInt (best_priority contributions)),
          (''selected_strategy_instance_ids'', VList (map (\<lambda>c. VStr (con_strategy_instance_id c)) tops)),
          (''selected_strategies'', VList (map (\<lambda>c. VStr (con_strategy_name c)) tops)),
          (''selected_signals'', VList (map VStr (signals_of tops))),
          (''selected_strategy_risk_profiles'', VList (map VDict profiles)),
          (''selected_strategy_risk_profile_hashes'',
             VList (nonblank_entries profiles ''strategy_risk_profile_hash'')),
          (''selected_strategy_risk_policy_hashes'', VList (nonblank_entries profiles ''risk_policy_hash'')),
          (''selected_virtual_lifecycle_transition_hashes'',
             VList (nonblank_entries lifecycles ''transition_hash'')),
          (''virtual_lifecycle_authority'', VStr ''non_authoritative_strategy_virtual_lifecycle_state''),
          (''virtual_lifecycle_live_submit_authority'', VBool False),
          (''conflict_count'', VInt (if equal_priority_conflict tops then 1 else 0))])"

text \<open>What the branch of the selected signal ends in: a block or a target, with the evidence.\<close>

datatype pair_result =
    PairBlocked string pydict
  | PairTarget pyfloat string pydict

definition buy_outcome ::
  "(string \<Rightarrow> string) \<Rightarrow> allocator_config \<Rightarrow> strategy_contribution list \<Rightarrow> pydict \<Rightarrow> pair_result py" where
  "buy_outcome sha config tops evidence =
     (let buys = filter (\<lambda>c. con_signal_direction c = ''BUY'') tops
      in bind_py (selected_strategy_risk_block sha buys) (\<lambda>block.
           (case block of
              Some b \<Rightarrow> Inr (PairBlocked (py_str (dget b ''strategy_risk_block_reason_code'')) (dmerge evidence b))
            | None \<Rightarrow>
                (case buy_target_exposure sha config buys of
                   Inl (ValueError msg) \<Rightarrow>
                     Inr (PairBlocked (or_str (Some msg) ''strict_target_exposure_missing'') (dmerge evidence
                       [(''target_exposure_source'', VStr (ac_target_exposure_source config)),
                        (''allocation_target_source'', VStr (ac_target_exposure_source config)),
                        (''strict_target_exposure_required'',
                           VBool (ac_require_explicit_strategy_target_exposure config))]))
                 | Inl e \<Rightarrow> Inl e
                 | Inr (target, audit) \<Rightarrow>
                     Inr (PairTarget target ''buy_weighted_target_from_allocator'' (dmerge evidence audit))))))"

definition pair_outcome ::
  "(string \<Rightarrow> string) \<Rightarrow> allocator_config \<Rightarrow> string \<Rightarrow> pyfloat option \<Rightarrow> strategy_contribution list \<Rightarrow>
   pair_result py" where
  "pair_outcome sha config pair previous contributions =
     (let tops = top_contributions contributions;
          conflict = conflict_evidence config contributions tops;
          signal = selected_signal tops;
          evidence = dmerge conflict
            [(''selected_signal'', VStr signal),
             (''previous_target_exposure_lookup_pair'', VStr pair),
             (''reference_price_lookup_pair'', VStr pair)]
      in if equal_priority_conflict tops then
           Inr (PairBlocked ''conflicting_equal_priority_signals'' conflict)
         else if signal = ''BUY'' then buy_outcome sha config tops evidence
         else if signal = ''SELL'' then Inr (PairTarget (Fin 0) ''sell_target_zero_exposure'' evidence)
         else if signal = ''HOLD'' then
           (case previous of
              None \<Rightarrow> Inr (PairBlocked ''hold_missing_previous_target_exposure'' evidence)
            | Some e \<Rightarrow> Inr (PairTarget (fmax (Fin 0) e) ''hold_maintains_previous_target'' evidence))
         else Inr (PairBlocked ''unsupported_strategy_preference_signal'' evidence))"

text \<open>\<open>dict(d or {}).get(pair)\<close> on a table of optional amounts\<close>

definition lookup_amount :: "(string \<times> pyfloat option) list \<Rightarrow> string \<Rightarrow> pyfloat option" where
  "lookup_amount d pair = (case map_of d pair of Some v \<Rightarrow> v | None \<Rightarrow> None)"

definition target_qty_at :: "pyfloat option \<Rightarrow> pyfloat \<Rightarrow> pyfloat option" where
  "target_qty_at reference_price exposure =
     (case reference_price of None \<Rightarrow> None
      | Some price \<Rightarrow> if fle price (Fin 0) then None else Some (fdiv exposure price))"

text \<open>The target that is returned for an outcome.\<close>

fun target_of_outcome ::
  "allocator_config \<Rightarrow> string \<Rightarrow> strategy_contribution list \<Rightarrow> pyfloat option \<Rightarrow> string \<Rightarrow> string \<Rightarrow> string \<Rightarrow>
   pair_result \<Rightarrow> portfolio_target" where
  "target_of_outcome config pair contributions price input_hash config_hash contribution_hash
     (PairBlocked reason evidence) =
     blocked_target config pair input_hash config_hash contribution_hash reason (Some evidence)"
| "target_of_outcome config pair contributions price input_hash config_hash contribution_hash
     (PairTarget exposure reason evidence) =
     PortfolioTarget
       \<lparr>pt_pair = pair, pt_target_exposure_krw = Some exposure,
        pt_target_qty = target_qty_at price exposure,
        pt_allocator_policy_name = ac_policy_name config,
        pt_allocator_policy_version = ac_policy_version config,
        pt_allocator_config_hash = config_hash,
        pt_strategy_contribution_hash = contribution_hash,
        pt_allocation_input_hash = input_hash,
        pt_reason = reason, pt_conflict_resolution = evidence,
        pt_scope_key_hashes = filter (\<lambda>s. py_strip s \<noteq> []) (map con_scope_key_hash contributions),
        pt_authoritative = True, pt_fail_closed_reason = ''none'', pt_schema_version = 1\<rparr>"

definition allocate_pair ::
  "(string \<Rightarrow> string) \<Rightarrow> allocator_config \<Rightarrow> string \<Rightarrow> strategy_preference list \<Rightarrow> strategy_contribution list \<Rightarrow>
   allocation_input \<Rightarrow> string \<Rightarrow> string \<Rightarrow> string \<Rightarrow> portfolio_target py" where
  "allocate_pair sha config pair preferences contributions inp input_hash config_hash contribution_hash =
     (if preferences = [] then
        Inr (blocked_target config pair input_hash config_hash contribution_hash
          ''strategy_preference_missing'' None)
      else if contributions = [] then Inl (ValueError ''min() iterable argument is empty'')
      else
        bind_py (pair_outcome sha config pair
          (lookup_amount (ai_previous_target_exposure_by_pair inp) pair) contributions) (\<lambda>out.
          Inr (target_of_outcome config pair contributions
            (lookup_amount (ai_reference_price_by_pair inp) pair) input_hash config_hash contribution_hash out)))"

subsubsection \<open>The decision\<close>

record allocation_decision =
  ad_allocation_input_hash :: string
  ad_allocator_config_hash :: string
  ad_strategy_contribution_hash :: string
  ad_targets :: "portfolio_target list"
  ad_contributions :: "strategy_contribution list"
  ad_conflict_resolution :: pydict
  ad_reason :: string
  ad_authoritative :: bool
  ad_primary_block_reason :: string
  ad_schema_version :: int

definition contributions_hash :: "(string \<Rightarrow> string) \<Rightarrow> strategy_contribution list \<Rightarrow> string" where
  "contributions_hash sha cs =
     sha256_prefixed sha (VList (map (\<lambda>c. VDict (strategy_contribution_as_dict sha c)) cs))"

definition blocked_decision ::
  "(string \<Rightarrow> string) \<Rightarrow> allocator_config \<Rightarrow> allocation_input \<Rightarrow> strategy_contribution list \<Rightarrow> string \<Rightarrow> string \<Rightarrow>
   allocation_decision" where
  "blocked_decision sha config inp contributions reason pair =
     (let input_hash = allocation_input_content_hash sha inp;
          config_hash = allocator_config_content_hash sha (ai_allocator_config inp);
          contribution_hash = contributions_hash sha contributions
      in \<lparr>ad_allocation_input_hash = input_hash, ad_allocator_config_hash = config_hash,
          ad_strategy_contribution_hash = contribution_hash,
          ad_targets = [blocked_target config pair input_hash config_hash contribution_hash reason None],
          ad_contributions = contributions,
          ad_conflict_resolution = [(''policy'', VStr (ac_conflict_policy config)), (''conflict_count'', VInt 0)],
          ad_reason = reason, ad_authoritative = False, ad_primary_block_reason = reason,
          ad_schema_version = 1\<rparr>)"

definition target_conflict_count :: "portfolio_target \<Rightarrow> int py" where
  "target_conflict_count t = int_field (pt_conflict_resolution t) ''conflict_count'' 0"

definition primary_block_reason :: "portfolio_target list \<Rightarrow> string" where
  "primary_block_reason targets =
     (case find (\<lambda>t. \<not> pt_authoritative t) targets of Some t \<Rightarrow> pt_fail_closed_reason t | None \<Rightarrow> ''none'')"

definition allocate ::
  "(string \<Rightarrow> string) \<Rightarrow> allocator_config \<Rightarrow> allocation_input \<Rightarrow> allocation_decision py" where
  "allocate sha config inp =
     (let preferences = pset_preferences (ai_preference_set inp);
          contributions = map (contribution sha config) preferences;
          contribution_hash = contributions_hash sha contributions;
          input_hash = allocation_input_content_hash sha inp;
          config_hash = allocator_config_content_hash sha (ai_allocator_config inp)
      in if preferences = [] then Inr (blocked_decision sha config inp [] ''strategy_preference_missing'' [])
         else
           bind_py (map_py (\<lambda>pair. allocate_pair sha config pair
               (filter (\<lambda>p. pref_pair p = pair) preferences) (filter (\<lambda>c. con_pair c = pair) contributions)
               inp input_hash config_hash contribution_hash) (preference_pairs preferences)) (\<lambda>targets.
           bind_py (map_py target_conflict_count targets) (\<lambda>counts.
             let authoritative = list_all pt_authoritative targets;
                 block_reason = primary_block_reason targets
             in Inr \<lparr>ad_allocation_input_hash = input_hash, ad_allocator_config_hash = config_hash,
                  ad_strategy_contribution_hash = contribution_hash,
                  ad_targets = targets, ad_contributions = contributions,
                  ad_conflict_resolution =
                    [(''policy'', VStr (ac_conflict_policy config)),
                     (''target_count'', VInt (int (length targets))),
                     (''blocked_target_count'', VInt (int (length (filter (\<lambda>t. \<not> pt_authoritative t) targets)))),
                     (''conflict_count'', VInt (sum_list counts))],
                  ad_reason = (if authoritative then ''allocated'' else block_reason),
                  ad_authoritative = authoritative, ad_primary_block_reason = block_reason,
                  ad_schema_version = 1\<rparr>)))"

definition target_for_pair :: "allocation_decision \<Rightarrow> string \<Rightarrow> portfolio_target option" where
  "target_for_pair d pair = find (\<lambda>t. pt_pair t = pair) (ad_targets d)"

definition allocation_decision_as_dict :: "(string \<Rightarrow> string) \<Rightarrow> allocation_decision \<Rightarrow> pydict py" where
  "allocation_decision_as_dict sha d =
     bind_py (map_py (portfolio_target_as_dict sha) (ad_targets d)) (\<lambda>targets.
       let risk_decision = build_risk_decision_artifact sha VNone VNone ''none'' ''portfolio_allocation_decision'';
           payload =
             [(''schema_version'', VInt (ad_schema_version d)),
              (''allocation_input_hash'', VStr (ad_allocation_input_hash d)),
              (''allocator_config_hash'', VStr (ad_allocator_config_hash d)),
              (''strategy_contribution_hash'', VStr (ad_strategy_contribution_hash d)),
              (''targets'', VList (map VDict targets)),
              (''contributions'', VList (map (\<lambda>c. VDict (strategy_contribution_as_dict sha c)) (ad_contributions d))),
              (''conflict_resolution'', VDict (ad_conflict_resolution d)),
              (''reason'', VStr (ad_reason d)),
              (''authoritative'', VBool (ad_authoritative d)),
              (''primary_block_reason'', VStr (ad_primary_block_reason d)),
              (''risk_budget_semantics'', VStr RISK_BUDGET_SEMANTICS)]
             @ artifact_fields risk_decision
       in Inr (payload @ [(''allocation_decision_hash'', VStr (sha256_prefixed sha (VDict payload)))]))"

definition allocation_decision_content_hash :: "(string \<Rightarrow> string) \<Rightarrow> allocation_decision \<Rightarrow> string py" where
  "allocation_decision_content_hash sha d =
     bind_py (allocation_decision_as_dict sha d) (\<lambda>payload.
       Inr (py_str (dget payload ''allocation_decision_hash'')))"

subsection \<open>The planner around the allocator\<close>

text \<open>The exposure that the planner puts into the configuration, with its source.\<close>

definition allocator_target_exposure_authority :: "target_settings \<Rightarrow> pyfloat \<times> string \<times> bool" where
  "allocator_target_exposure_authority s =
     (case ts_target_exposure_krw s of
        Some e \<Rightarrow> (fmax (Fin 0) e, ''TARGET_EXPOSURE_KRW'', True)
      | None \<Rightarrow> (fmax (Fin 0) (ts_max_order_krw s), ''MAX_ORDER_KRW'', True))"

definition allocation_single_pair_invariant_error ::
  "(string \<Rightarrow> string) \<Rightarrow> allocation_decision \<Rightarrow> string \<Rightarrow> string option py" where
  "allocation_single_pair_invariant_error sha d runtime_pair =
     (case ad_targets d of
        [t] \<Rightarrow>
          if pt_pair t \<noteq> runtime_pair then Inr (Some ''single_pair_allocation_target_pair_mismatch'')
          else
            bind_py (portfolio_target_as_dict sha t) (\<lambda>payload.
            bind_py (portfolio_target_content_hash sha t) (\<lambda>h.
              Inr (if VStr (dstr payload ''final_portfolio_target_hash'' []) \<noteq> h
                then Some ''single_pair_portfolio_target_hash_mismatch'' else None)))
      | _ \<Rightarrow> Inr (Some ''single_pair_allocation_target_count_mismatch''))"

end
