(* ===== verification/Allocation_Properties.thy ===== *)
theory Allocation_Properties
  imports Portfolio_Allocation
begin

text \<open>
  What the portfolio allocator guarantees: an authoritative target is backed by strategies of
  the best priority that agree, have passed their risk gate and keep within their caps; there
  is one target for each pair; the risk decision on a target follows its authority; the
  decision depends neither on the order of the preferences nor on anything that could raise,
  apart from a risk policy that cannot be read.
\<close>

subsection \<open>The risk gate\<close>

text \<open>A contribution passes: its risk decision allows, or it carries nothing to be decided.\<close>

definition risk_cleared :: "(string \<Rightarrow> string) \<Rightarrow> strategy_contribution \<Rightarrow> bool" where
  "risk_cleared sha c \<longleftrightarrow>
     (case con_strategy_risk_decision c of
        Some d \<Rightarrow> dstr d ''status'' [] = ''ALLOW''
      | None \<Rightarrow> con_strategy_risk_profile c = None \<and>
          (case con_strategy_risk_policy c of
             None \<Rightarrow> True
           | Some m \<Rightarrow>
               (case strategy_risk_policy_from_mapping m of
                  Inl _ \<Rightarrow> False
                | Inr p \<Rightarrow>
                    (case strategy_risk_snapshot_from_mapping (con_strategy_risk_snapshot c)
                        (con_strategy_instance_id c) of
                       Inl _ \<Rightarrow> False
                     | Inr s \<Rightarrow>
                         (case evaluate_pre_decision sha p s of
                            Inl _ \<Rightarrow> False | Inr d \<Rightarrow> rd_status d = ''ALLOW'')))))"

lemma strategy_risk_block_None_iff: "strategy_risk_block sha c = Inr None \<longleftrightarrow> risk_cleared sha c"
  by (auto simp: strategy_risk_block_def risk_cleared_def bind_py_Inr_iff split: option.splits sum.splits)

lemma selected_strategy_risk_block_None_iff:
  "selected_strategy_risk_block sha cs = Inr None \<longleftrightarrow> (\<forall>c \<in> set cs. risk_cleared sha c)"
  by (induction cs)
    (auto simp: bind_py_Inr_iff strategy_risk_block_None_iff [symmetric] split: option.splits)

subsection \<open>The target of a purchase\<close>

text \<open>The sum of the caps of some contributions, negative ones counted as zero.\<close>

definition caps_of :: "strategy_contribution list \<Rightarrow> pyfloat list" where
  "caps_of cs = map (fmax (Fin 0)) (List.map_filter con_max_target_exposure_krw cs)"

definition total_cap :: "strategy_contribution list \<Rightarrow> pyfloat" where
  "total_cap cs = foldl fadd (Fin 0) (caps_of cs)"

lemma caps_of_simps [simp]:
  "caps_of [] = []"
  "caps_of (c # cs) = (case con_max_target_exposure_krw c of None \<Rightarrow> caps_of cs
     | Some x \<Rightarrow> fmax (Fin 0) x # caps_of cs)"
  by (simp_all add: caps_of_def map_filter_simps split: option.splits)

lemma fmax_zero [simp]: "fle (Fin 0) (fmax (Fin 0) x)"
  by (simp add: fmax_ge)

lemma fadd_nonneg:
  assumes "fle (Fin 0) a" and "fle (Fin 0) b"
  shows "fle (Fin 0) (fadd a b)"
  using assms rnd_mono [of 0] by (cases a; cases b) auto

lemma foldl_caps_nonneg:
  "fle (Fin 0) a \<Longrightarrow> (\<And>x. x \<in> set xs \<Longrightarrow> fle (Fin 0) x) \<Longrightarrow> fle (Fin 0) (foldl fadd a xs)"
  by (induction xs arbitrary: a) (simp_all add: fadd_nonneg)

lemma total_cap_nonneg: "fle (Fin 0) (total_cap cs)"
  unfolding total_cap_def by (rule foldl_caps_nonneg) (auto simp: caps_of_def)

lemma sum_buy_totals_caps:
  "sum_buy_totals config cs b = Inr b' \<Longrightarrow>
   bt_cap b' = foldl fadd (bt_cap b) (caps_of cs) \<and> (bt_cap_present b' \<longleftrightarrow> bt_cap_present b \<or> caps_of cs \<noteq> [])"
  by (induction config cs b rule: sum_buy_totals.induct) (auto simp: Let_def split: if_splits option.splits)

lemma fmax_fmin_le: "fle (Fin 0) b \<Longrightarrow> fle (fmax (Fin 0) (fmin a b)) b"
  by (cases a; cases b) (auto simp: fmax_def fmin_def)

lemma buy_target_bounds:
  assumes "buy_target_exposure sha config cs = Inr (e, audit)"
  shows "fle (Fin 0) e" and "caps_of cs \<noteq> [] \<Longrightarrow> fle e (total_cap cs)"
proof -
  show "fle (Fin 0) e"
    using assms by (auto simp: buy_target_exposure_def Let_def bind_py_Inr_iff split: if_splits)
  assume caps: "caps_of cs \<noteq> []"
  then have "cs \<noteq> []" by auto
  with assms obtain b where b: "sum_buy_totals config cs
      \<lparr>bt_weighted = Fin 0, bt_weight = Fin 0, bt_cap = Fin 0, bt_cap_present = False\<rparr> = Inr b"
    and e: "e = fmax (Fin 0) (if bt_cap_present b
      then fmin (if flt (Fin 0) (bt_weight b) then fdiv (bt_weighted b) (bt_weight b) else Fin 0) (bt_cap b)
      else if flt (Fin 0) (bt_weight b) then fdiv (bt_weighted b) (bt_weight b) else Fin 0)"
    by (auto simp: buy_target_exposure_def Let_def bind_py_Inr_iff)
  have "bt_cap b = total_cap cs" "bt_cap_present b"
    using sum_buy_totals_caps [OF b] caps by (simp_all add: total_cap_def)
  then show "fle e (total_cap cs)"
    using e fmax_fmin_le [OF total_cap_nonneg] by simp
qed

subsection \<open>The outcome of a pair\<close>

abbreviation directions :: "strategy_contribution list \<Rightarrow> string set" where
  "directions cs \<equiv> con_signal_direction ` set cs"

lemma set_signals_of [simp]: "set (signals_of cs) = directions cs"
  by (simp add: signals_of_def)

lemma selected_signal_cases:
  obtains (active) "selected_signal cs \<in> directions cs" "selected_signal cs \<noteq> ''HOLD''"
  | (hold) "selected_signal cs = ''HOLD''" "directions cs \<subseteq> {''HOLD''}"
proof (cases "filter (\<lambda>s. s \<noteq> ''HOLD'') (signals_of cs)")
  case Nil
  then have "\<forall>s \<in> set (signals_of cs). s = ''HOLD''" by (simp add: filter_empty_conv)
  then have "directions cs \<subseteq> {''HOLD''}" by auto
  with Nil show ?thesis by (intro hold) (simp_all add: selected_signal_def)
next
  case (Cons s ss)
  then have "s \<in> set (filter (\<lambda>s. s \<noteq> ''HOLD'') (signals_of cs))" by simp
  then have "s \<in> directions cs" "s \<noteq> ''HOLD''" by auto
  with Cons show ?thesis by (intro active) (simp_all add: selected_signal_def)
qed

text \<open>
  The target of a pair is justified by the contributions of its best priority: either some
  buy, none sells, each buyer has passed its risk gate and the target keeps within the caps;
  or some sell, none buys and the target is zero; or all hold the previous target.
\<close>

definition exposure_justified ::
  "(string \<Rightarrow> string) \<Rightarrow> strategy_contribution list \<Rightarrow> pyfloat option \<Rightarrow> pyfloat \<Rightarrow> bool" where
  "exposure_justified sha tops previous e \<longleftrightarrow>
     (let buyers = filter (\<lambda>c. con_signal_direction c = ''BUY'') tops in
       ''BUY'' \<in> directions tops \<and> ''SELL'' \<notin> directions tops \<and>
         list_all (risk_cleared sha) buyers \<and> (caps_of buyers = [] \<or> fle e (total_cap buyers))
     \<or> ''SELL'' \<in> directions tops \<and> ''BUY'' \<notin> directions tops \<and> e = Fin 0
     \<or> directions tops \<subseteq> {''HOLD''} \<and> (case previous of None \<Rightarrow> False | Some p \<Rightarrow> e = fmax (Fin 0) p))"

lemma buy_outcome_target:
  assumes "buy_outcome sha config tops ev = Inr (PairTarget e reason ev')"
  defines "buyers \<equiv> filter (\<lambda>c. con_signal_direction c = ''BUY'') tops"
  shows "list_all (risk_cleared sha) buyers" and "fle (Fin 0) e"
    and "caps_of buyers = [] \<or> fle e (total_cap buyers)"
proof -
  from assms obtain audit where gate: "selected_strategy_risk_block sha buyers = Inr None"
    and target: "buy_target_exposure sha config buyers = Inr (e, audit)"
    by (auto simp: buy_outcome_def Let_def bind_py_Inr_iff
        split: option.splits sum.splits py_error.splits)
  show "list_all (risk_cleared sha) buyers"
    using gate by (simp add: selected_strategy_risk_block_None_iff list_all_iff)
  show "fle (Fin 0) e" "caps_of buyers = [] \<or> fle e (total_cap buyers)"
    using buy_target_bounds [OF target] by auto
qed

lemma pair_outcome_target:
  assumes "pair_outcome sha config pair previous cs = Inr (PairTarget e reason ev)"
  shows "exposure_justified sha (top_contributions cs) previous e \<and> fle (Fin 0) e"
proof -
  let ?tops = "top_contributions cs"
  have no_conflict: "\<not> equal_priority_conflict ?tops"
    using assms by (auto simp: pair_outcome_def Let_def split: if_splits)
  then have one_side: "''BUY'' \<notin> directions ?tops \<or> ''SELL'' \<notin> directions ?tops"
    by (auto simp: equal_priority_conflict_def)
  show ?thesis
  proof (cases rule: selected_signal_cases [of ?tops])
    case active
    then consider (buy) "selected_signal ?tops = ''BUY''" "''BUY'' \<in> directions ?tops"
      | (sell) "selected_signal ?tops = ''SELL''" "''SELL'' \<in> directions ?tops"
      using assms no_conflict by (auto simp: pair_outcome_def Let_def split: if_splits option.splits)
    then show ?thesis
    proof cases
      case buy
      with assms no_conflict obtain ev0 where "buy_outcome sha config ?tops ev0 = Inr (PairTarget e reason ev)"
        by (auto simp: pair_outcome_def Let_def)
      from buy_outcome_target [OF this] buy one_side show ?thesis
        by (auto simp: exposure_justified_def Let_def)
    next
      case sell
      with assms no_conflict one_side show ?thesis
        by (auto simp: pair_outcome_def exposure_justified_def Let_def)
    qed
  next
    case hold
    with assms no_conflict show ?thesis
      by (auto simp: pair_outcome_def exposure_justified_def Let_def split: option.splits)
  qed
qed

subsection \<open>The targets of an allocation\<close>

lemma PortfolioTarget_simps [simp]:
  "pt_pair (PortfolioTarget t) = pt_pair t"
  "pt_target_exposure_krw (PortfolioTarget t) = pt_target_exposure_krw t"
  "pt_target_qty (PortfolioTarget t) = pt_target_qty t"
  "pt_allocation_input_hash (PortfolioTarget t) = pt_allocation_input_hash t"
  "pt_strategy_contribution_hash (PortfolioTarget t) = pt_strategy_contribution_hash t"
  "pt_authoritative (PortfolioTarget t) = pt_authoritative t"
  "pt_fail_closed_reason (PortfolioTarget t) = pt_fail_closed_reason t"
  "pt_conflict_resolution (PortfolioTarget t) = pt_conflict_resolution t"
  by (simp_all add: PortfolioTarget_def)

lemma blocked_target_simps [simp]:
  "pt_pair (blocked_target config pair ih ch sh reason c) = pair"
  "pt_target_exposure_krw (blocked_target config pair ih ch sh reason c) = None"
  "pt_allocation_input_hash (blocked_target config pair ih ch sh reason c) = ih"
  "pt_strategy_contribution_hash (blocked_target config pair ih ch sh reason c) = sh"
  "\<not> pt_authoritative (blocked_target config pair ih ch sh reason c)"
  "pt_fail_closed_reason (blocked_target config pair ih ch sh reason c) = reason"
  by (simp_all add: blocked_target_def)

lemma target_of_outcome_fields [simp]:
  "pt_pair (target_of_outcome config pair cs price ih ch sh r) = pair"
  "pt_allocation_input_hash (target_of_outcome config pair cs price ih ch sh r) = ih"
  "pt_strategy_contribution_hash (target_of_outcome config pair cs price ih ch sh r) = sh"
  by (cases r; simp)+

lemma allocate_pair_fields:
  assumes "allocate_pair sha config pair ps cs inp ih ch sh = Inr t"
  shows "pt_pair t = pair" "pt_allocation_input_hash t = ih" "pt_strategy_contribution_hash t = sh"
  using assms by (auto simp: allocate_pair_def bind_py_Inr_iff split: if_splits)

lemma allocate_pair_authoritative:
  assumes "allocate_pair sha config pair ps cs inp ih ch sh = Inr t" and "pt_authoritative t"
  obtains e where "pt_target_exposure_krw t = Some e" "fle (Fin 0) e"
    "exposure_justified sha (top_contributions cs) (lookup_amount (ai_previous_target_exposure_by_pair inp) pair) e"
    "pt_target_qty t = target_qty_at (lookup_amount (ai_reference_price_by_pair inp) pair) e"
proof -
  let ?previous = "lookup_amount (ai_previous_target_exposure_by_pair inp) pair"
  let ?price = "lookup_amount (ai_reference_price_by_pair inp) pair"
  from assms obtain r where r: "pair_outcome sha config pair ?previous cs = Inr r"
    and t: "t = target_of_outcome config pair cs ?price ih ch sh r"
    by (auto simp: allocate_pair_def bind_py_Inr_iff split: if_splits)
  with assms(2) obtain e reason ev where "r = PairTarget e reason ev"
    by (cases r) auto
  with r t show ?thesis using that pair_outcome_target by fastforce
qed

text \<open>A successful allocation of some preferences, taken apart.\<close>

lemma allocate_InrD:
  assumes "allocate sha config inp = Inr d" and "pset_preferences (ai_preference_set inp) \<noteq> []"
  shows allocate_targets_made: "list_all2 (\<lambda>pair t. allocate_pair sha config pair
         (filter (\<lambda>p. pref_pair p = pair) (pset_preferences (ai_preference_set inp)))
         (filter (\<lambda>c. con_pair c = pair) (ad_contributions d)) inp
         (ad_allocation_input_hash d) (ad_allocator_config_hash d) (ad_strategy_contribution_hash d) = Inr t)
       (preference_pairs (pset_preferences (ai_preference_set inp))) (ad_targets d)"
    and allocate_hashes: "ad_allocation_input_hash d = allocation_input_content_hash sha inp"
      "ad_strategy_contribution_hash d = contributions_hash sha (ad_contributions d)"
    and allocate_verdict: "ad_authoritative d \<longleftrightarrow> list_all pt_authoritative (ad_targets d)"
      "ad_primary_block_reason d = primary_block_reason (ad_targets d)"
  using assms by (auto simp: allocate_def Let_def bind_py_Inr_iff map_py_Inr_iff)

lemma list_all2_partner:
  "list_all2 P xs ys \<Longrightarrow> y \<in> set ys \<Longrightarrow> \<exists>x \<in> set xs. P x y"
  by (induction rule: list_all2_induct) auto

text \<open>Every target of an allocation was made for a pair of the preferences.\<close>

lemma allocate_target:
  assumes "allocate sha config inp = Inr d" and "t \<in> set (ad_targets d)"
    and "pset_preferences (ai_preference_set inp) \<noteq> []"
  shows "allocate_pair sha config (pt_pair t)
      (filter (\<lambda>p. pref_pair p = pt_pair t) (pset_preferences (ai_preference_set inp)))
      (filter (\<lambda>c. con_pair c = pt_pair t) (ad_contributions d)) inp
      (ad_allocation_input_hash d) (ad_allocator_config_hash d) (ad_strategy_contribution_hash d) = Inr t"
proof -
  from list_all2_partner [OF allocate_targets_made [OF assms(1,3)] assms(2)]
  obtain pair where "allocate_pair sha config pair
      (filter (\<lambda>p. pref_pair p = pair) (pset_preferences (ai_preference_set inp)))
      (filter (\<lambda>c. con_pair c = pair) (ad_contributions d)) inp
      (ad_allocation_input_hash d) (ad_allocator_config_hash d) (ad_strategy_contribution_hash d) = Inr t"
    by blast
  with allocate_pair_fields(1) [OF this] show ?thesis by simp
qed

lemma allocate_no_preferences:
  assumes "pset_preferences (ai_preference_set inp) = []"
  shows "allocate sha config inp = Inr (blocked_decision sha config inp [] ''strategy_preference_missing'' [])"
  using assms by (simp add: allocate_def)

subsection \<open>Justified targets\<close>


subsection \<open>One target for each pair\<close>

lemma set_preference_pairs [simp]: "set (preference_pairs ps) = pref_pair ` set ps"
  by (simp add: preference_pairs_def)

lemma allocate_pairs:
  assumes "allocate sha config inp = Inr d" and "pset_preferences (ai_preference_set inp) \<noteq> []"
  shows "map pt_pair (ad_targets d) = preference_pairs (pset_preferences (ai_preference_set inp))"
proof -
  have "list_all2 (\<lambda>pair t. pt_pair t = pair) (preference_pairs (pset_preferences (ai_preference_set inp))) (ad_targets d)"
    by (rule list_all2_mono [OF allocate_targets_made [OF assms]]) (rule allocate_pair_fields(1))
  then show ?thesis by (induction rule: list_all2_induct) simp_all
qed

text \<open>
  An allocation of some preferences has exactly one target for each pair they name, in
  the order of the pairs, and the target of a pair can be looked up. The decision is
  authoritative exactly when every target is; otherwise its reason is the one of the first
  blocked target.
\<close>

theorem one_target_per_pair:
  assumes "allocate sha config inp = Inr d" and "pset_preferences (ai_preference_set inp) \<noteq> []"
  shows "map pt_pair (ad_targets d) = preference_pairs (pset_preferences (ai_preference_set inp)) \<and>
    distinct (map pt_pair (ad_targets d)) \<and>
    list_all (\<lambda>t. target_for_pair d (pt_pair t) = Some t) (ad_targets d) \<and>
    (ad_authoritative d \<longleftrightarrow> list_all pt_authoritative (ad_targets d)) \<and>
    ad_primary_block_reason d = (case filter (\<lambda>t. \<not> pt_authoritative t) (ad_targets d) of
      [] \<Rightarrow> ''none'' | t # _ \<Rightarrow> pt_fail_closed_reason t)"
proof -
  note pairs = allocate_pairs [OF assms]
  have distinct: "distinct (map pt_pair (ad_targets d))"
    by (simp add: pairs preference_pairs_def)
  have "list_all (\<lambda>t. target_for_pair d (pt_pair t) = Some t) (ad_targets d)"
    using find_distinct_key [OF distinct] by (simp add: target_for_pair_def list_all_iff)
  moreover have "primary_block_reason ts = (case filter (\<lambda>t. \<not> pt_authoritative t) ts of
      [] \<Rightarrow> ''none'' | t # _ \<Rightarrow> pt_fail_closed_reason t)" for ts
    by (induction ts) (simp_all add: primary_block_reason_def)
  ultimately show ?thesis
    using pairs distinct allocate_verdict [OF assms] by simp
qed

subsection \<open>The payload of a target\<close>

lemma py_strip_prefixed: "py_startswith (py_strip (''sha256:'' @ s)) ''sha256:''"
proof -
  have "py_strip (''sha256:'' @ s) = ''sha256:'' @ py_rstrip s"
    by (simp add: py_strip_def py_lstrip_def py_rstrip_def py_isspace_def code_def dropWhile_append)
  then show ?thesis by (simp only: py_startswith_append)
qed

lemma sha256_prefixed_accepted:
  "py_startswith (py_strip (sha256_prefixed sha v)) ''sha256:''"
  unfolding sha256_prefixed_def by (rule py_strip_prefixed)

lemma sha256_prefixed_not_Nil [simp]: "sha256_prefixed sha v \<noteq> []"
  by (simp add: sha256_prefixed_def)

lemma filter_update_other:
  "filter (\<lambda>(k, v). k \<noteq> a) (AList.update a v d) = filter (\<lambda>(k, v). k \<noteq> a) d"
  by (induction d) auto

text \<open>The payload that the risk decision on a target reads.\<close>

definition hashed_payload :: "(string \<Rightarrow> string) \<Rightarrow> portfolio_target \<Rightarrow> pydict" where
  "hashed_payload sha t = AList.update ''final_portfolio_target_hash''
     (VStr (sha256_prefixed sha (VDict (payload_without_hashes sha t)))) (payload_without_hashes sha t)"

lemma hashed_payload_fields:
  "dget (hashed_payload sha t) ''final_portfolio_target_hash'' =
     VStr (sha256_prefixed sha (VDict (payload_without_hashes sha t)))"
  "dget (hashed_payload sha t) ''allocation_input_hash'' = VStr (pt_allocation_input_hash t)"
  "dget (hashed_payload sha t) ''strategy_contribution_hash'' = VStr (pt_strategy_contribution_hash t)"
  "dget (hashed_payload sha t) ''authoritative'' = VBool (pt_authoritative t)"
  "dget (hashed_payload sha t) ''fail_closed_reason'' = VStr (pt_fail_closed_reason t)"
  "dget (hashed_payload sha t) ''scope_key_hashes'' = VList (map VStr (pt_scope_key_hashes t))"
  "dget (hashed_payload sha t) ''conflict_resolution'' = VDict (pt_conflict_resolution t)"
  "dget (hashed_payload sha t) ''target_exposure_krw'' = opt_float (pt_target_exposure_krw t)"
  "dget (hashed_payload sha t) ''target_qty'' = opt_float (pt_target_qty t)"
  by (simp_all add: hashed_payload_def payload_without_hashes_def Let_def)

lemma dstr_VStr: "dget d k = VStr s \<Longrightarrow> dstr d k dflt = (if s = [] then dflt else s)"
  by (simp add: dstr_def py_or_def)

text \<open>With the two hashes of the allocator, the verdict follows the authority of the target.\<close>

lemma portfolio_status_of_target:
  assumes "pt_allocation_input_hash t = sha256_prefixed sha v"
    and "pt_strategy_contribution_hash t = sha256_prefixed sha w"
  shows "portfolio_status (hashed_payload sha t) = (if pt_authoritative t then ''ALLOW'' else ''BLOCK'')"
    "portfolio_reason_code (hashed_payload sha t) = (if pt_authoritative t then ''OK''
       else or_str (Some (pt_fail_closed_reason t)) ''PORTFOLIO_TARGET_NOT_AUTHORITATIVE'')"
proof -
  have "malformed_reasons (hashed_payload sha t) = []"
    by (simp add: malformed_reasons_def REQUIRED_TARGET_HASHES_def dstr_VStr hashed_payload_fields assms
        sha256_prefixed_accepted)
  then show "portfolio_status (hashed_payload sha t) = (if pt_authoritative t then ''ALLOW'' else ''BLOCK'')"
    "portfolio_reason_code (hashed_payload sha t) = (if pt_authoritative t then ''OK''
       else or_str (Some (pt_fail_closed_reason t)) ''PORTFOLIO_TARGET_NOT_AUTHORITATIVE'')"
    by (simp_all add: portfolio_status_def portfolio_reason_code_def dstr_VStr hashed_payload_fields or_str_def)
qed

lemma read_back [simp]:
  "val_list (py_or (VList xs) (VList [])) = Inr xs"
  "val_dict (py_or (VDict d) (VDict [])) = Inr d"
  by (simp_all add: py_or_def)

lemma risk_decision_on_target:
  obtains d where "build_portfolio_risk_decision sha (hashed_payload sha t) = Inr d"
    "prd_status d = portfolio_status (hashed_payload sha t)"
    "prd_reason_code d = portfolio_reason_code (hashed_payload sha t)"
  by (simp add: build_portfolio_risk_decision_def hashed_payload_fields Let_def)

lemma portfolio_target_as_dict_Inr:
  obtains payload where "portfolio_target_as_dict sha t = Inr payload"
    "dget payload ''final_portfolio_target_hash'' = VStr (sha256_prefixed sha
       (VDict (filter (\<lambda>(k, v). k \<noteq> ''final_portfolio_target_hash'') payload)))"
    "dget payload ''portfolio_risk_status'' = VStr (portfolio_status (hashed_payload sha t))"
    "dget payload ''portfolio_risk_reason_code'' = VStr (portfolio_reason_code (hashed_payload sha t))"
    "dget payload ''authoritative'' = VBool (pt_authoritative t)"
    "dget payload ''target_exposure_krw'' = opt_float (pt_target_exposure_krw t)"
    "dget payload ''target_qty'' = opt_float (pt_target_qty t)"
proof -
  obtain d where d: "build_portfolio_risk_decision sha (hashed_payload sha t) = Inr d"
    "prd_status d = portfolio_status (hashed_payload sha t)"
    "prd_reason_code d = portfolio_reason_code (hashed_payload sha t)"
    by (rule risk_decision_on_target)
  define full where
    "full = dmerge (hashed_payload sha t) (portfolio_risk_fields (portfolio_risk_decision_as_dict d))"
  let ?h = "sha256_prefixed sha (VDict (filter (\<lambda>(k, v). k \<noteq> ''final_portfolio_target_hash'') full))"
  have distinct: "distinct (map fst (portfolio_risk_fields (portfolio_risk_decision_as_dict d)))"
    by (simp add: portfolio_risk_fields_def)
  have get: "dget full k = (if dhas (portfolio_risk_fields (portfolio_risk_decision_as_dict d)) k
      then dget (portfolio_risk_fields (portfolio_risk_decision_as_dict d)) k else dget (hashed_payload sha t) k)" for k
    unfolding full_def by (rule dget_dmerge [OF distinct])
  have "portfolio_target_as_dict sha t = Inr (AList.update ''final_portfolio_target_hash'' (VStr ?h) full)"
    using d(1) by (simp add: portfolio_target_as_dict_def Let_def hashed_payload_def [symmetric] full_def)
  then show ?thesis
    by (rule that) (simp_all add: filter_update_other get dhas_def d
        portfolio_risk_fields_def portfolio_risk_decision_as_dict_def hashed_payload_fields)
qed

lemma portfolio_target_content_hash_eq:
  assumes "portfolio_target_as_dict sha t = Inr payload"
  shows "portfolio_target_content_hash sha t = Inr (dget payload ''final_portfolio_target_hash'')"
  by (simp add: portfolio_target_content_hash_def assms)

subsection \<open>The payload follows the authority\<close>


subsection \<open>The check of the planner\<close>

lemma distinct_singleton_list: "distinct xs \<Longrightarrow> set xs = {x} \<Longrightarrow> xs = [x]"
  by (cases xs) (auto simp: subset_singleton_iff)

text \<open>
  The check that the planner applies to an allocation passes exactly when every preference
  names the pair of the runtime: with a single pair there is one target, for that pair, and
  its recorded hash is its content hash; a preference for another pair is always caught.
\<close>

theorem single_pair_check_iff:
  assumes "allocate sha config inp = Inr d" and "pset_preferences (ai_preference_set inp) \<noteq> []"
  shows "allocation_single_pair_invariant_error sha d pair = Inr None \<longleftrightarrow>
    list_all (\<lambda>p. pref_pair p = pair) (pset_preferences (ai_preference_set inp))"
proof -
  let ?ps = "pset_preferences (ai_preference_set inp)"
  have pairs: "map pt_pair (ad_targets d) = preference_pairs ?ps" by (rule allocate_pairs [OF assms])
  have "allocation_single_pair_invariant_error sha d pair = Inr None \<longleftrightarrow> map pt_pair (ad_targets d) = [pair]"
  proof (cases "\<exists>t. ad_targets d = [t]")
    case True
    then obtain t where t: "ad_targets d = [t]" by blast
    obtain payload where payload: "portfolio_target_as_dict sha t = Inr payload"
      "dget payload ''final_portfolio_target_hash'' = VStr (sha256_prefixed sha
         (VDict (filter (\<lambda>(k, v). k \<noteq> ''final_portfolio_target_hash'') payload)))"
      by (rule portfolio_target_as_dict_Inr [of sha t])
    then show ?thesis
      by (simp add: allocation_single_pair_invariant_error_def t portfolio_target_content_hash_eq dstr_VStr)
  next
    case False
    then show ?thesis
      by (auto simp: allocation_single_pair_invariant_error_def split: list.splits)
  qed
  also have "\<dots> \<longleftrightarrow> list_all (\<lambda>p. pref_pair p = pair) ?ps"
  proof
    assume "map pt_pair (ad_targets d) = [pair]"
    then have "set (preference_pairs ?ps) = {pair}" using pairs by simp
    then show "list_all (\<lambda>p. pref_pair p = pair) ?ps" by (auto simp: list_all_iff)
  next
    assume all: "list_all (\<lambda>p. pref_pair p = pair) ?ps"
    then have "set (preference_pairs ?ps) = {pair}" using assms(2) by (cases ?ps) (auto simp: list_all_iff)
    moreover have "distinct (preference_pairs ?ps)" by (simp add: preference_pairs_def)
    ultimately have "preference_pairs ?ps = [pair]" by (intro distinct_singleton_list)
    then show "map pt_pair (ad_targets d) = [pair]" using pairs by simp
  qed
  finally show ?thesis .
qed


subsection \<open>When an allocation returns\<close>

text \<open>
  The conflict count that every outcome carries in its evidence can be read back.
\<close>

definition outcome_evidence :: "pair_result \<Rightarrow> pydict" where
  "outcome_evidence r = (case r of PairBlocked _ ev \<Rightarrow> ev | PairTarget _ _ ev \<Rightarrow> ev)"

lemma outcome_evidence_simps [simp]:
  "outcome_evidence (PairBlocked r ev) = ev"
  "outcome_evidence (PairTarget e r ev) = ev"
  by (simp_all add: outcome_evidence_def)

definition counted :: "pydict \<Rightarrow> bool" where
  "counted ev \<longleftrightarrow> ev \<noteq> [] \<and> (\<exists>n. dget ev ''conflict_count'' = VInt n)"

lemma counted_conflict: "counted (conflict_evidence config cs tops)"
  by (simp add: counted_def conflict_evidence_def Let_def)

lemma dmerge_not_Nil: "d \<noteq> [] \<Longrightarrow> dmerge d e \<noteq> []"
proof (induction e arbitrary: d)
  case Nil
  then show ?case by (simp add: dmerge_def)
next
  case (Cons x e)
  obtain k v where x: "x = (k, v)" by fastforce
  have "dmerge (AList.update k v d) e \<noteq> []" using Cons.prems by (intro Cons.IH) (cases d; auto)
  then show ?case by (simp add: dmerge_def x)
qed

lemma counted_dmerge:
  assumes "counted ev" and "distinct (map fst e)" and "\<not> dhas e ''conflict_count''"
  shows "counted (dmerge ev e)"
  using assms by (auto simp: counted_def dmerge_not_Nil dget_dmerge)

lemma risk_block_keys:
  assumes "selected_strategy_risk_block sha cs = Inr (Some b)"
  shows "distinct (map fst b)" "\<not> dhas b ''conflict_count''"
proof -
  have "\<exists>c. strategy_risk_block sha c = Inr (Some b)"
    using assms by (induction cs) (auto simp: bind_py_Inr_iff split: option.splits)
  then consider c d where "b = decision_block c d" | c d where "b = profile_block c d" | c d where "b = engine_block c d"
    by (auto simp: strategy_risk_block_def bind_py_Inr_iff split: option.splits if_splits)
  then have "distinct (map fst b) \<and> \<not> dhas b ''conflict_count''"
    by cases (simp_all add: decision_block_def profile_block_def engine_block_def dhas_def)
  then show "distinct (map fst b)" "\<not> dhas b ''conflict_count''" by simp_all
qed

lemma cap_audit_keys:
  "distinct (map fst (cap_audit sha config a b c d e f))" "\<not> dhas (cap_audit sha config a b c d e f) ''conflict_count''"
  by (simp_all add: cap_audit_def artifact_fields_def dhas_def)

lemma buy_target_audit_keys:
  assumes "buy_target_exposure sha config cs = Inr (e, audit)"
  shows "distinct (map fst audit)" "\<not> dhas audit ''conflict_count''"
  using assms cap_audit_keys by (auto simp: buy_target_exposure_def Let_def bind_py_Inr_iff split: if_splits)

lemma sum_buy_totals_total:
  "(\<exists>msg. sum_buy_totals config cs b = Inl (ValueError msg)) \<or> (\<exists>b'. sum_buy_totals config cs b = Inr b')"
proof (induction cs arbitrary: b)
  case (Cons c cs)
  show ?case
  proof (cases "ac_require_explicit_strategy_target_exposure config \<and> con_desired_exposure_krw c = None")
    case True
    then show ?thesis by simp
  next
    case False
    show ?thesis by (simp only: sum_buy_totals.simps Let_def False if_False) (rule Cons.IH)
  qed
qed simp

lemma buy_target_exposure_cases:
  obtains (error) msg where "buy_target_exposure sha config cs = Inl (ValueError msg)"
  | (target) e audit where "buy_target_exposure sha config cs = Inr (e, audit)"
proof -
  have "(\<exists>msg. buy_target_exposure sha config cs = Inl (ValueError msg)) \<or>
      (\<exists>r. buy_target_exposure sha config cs = Inr r)"
    using sum_buy_totals_total [of config cs
        "\<lparr>bt_weighted = Fin 0, bt_weight = Fin 0, bt_cap = Fin 0, bt_cap_present = False\<rparr>"]
    by (auto simp: buy_target_exposure_def Let_def)
  then show ?thesis using that by (metis surj_pair)
qed

lemma buy_outcome_counted:
  assumes "buy_outcome sha config tops ev = Inr r" and "counted ev"
  shows "counted (outcome_evidence r)"
proof -
  let ?buys = "filter (\<lambda>c. con_signal_direction c = ''BUY'') tops"
  from assms(1) obtain block where block: "selected_strategy_risk_block sha ?buys = Inr block"
    by (auto simp: buy_outcome_def Let_def bind_py_Inr_iff)
  show ?thesis
  proof (cases block)
    case (Some b)
    with assms(1) block have "outcome_evidence r = dmerge ev b" by (auto simp: buy_outcome_def)
    with assms(2) Some block risk_block_keys show ?thesis by (simp add: counted_dmerge)
  next
    case None
    show ?thesis
    proof (cases rule: buy_target_exposure_cases [of sha config ?buys])
      case (error msg)
      with assms block None show ?thesis by (auto simp: buy_outcome_def dhas_def intro!: counted_dmerge)
    next
      case (target e audit)
      with assms block None buy_target_audit_keys [OF target] show ?thesis
        by (auto simp: buy_outcome_def intro!: counted_dmerge)
    qed
  qed
qed

lemma pair_outcome_counted:
  assumes "pair_outcome sha config pair previous cs = Inr r"
  shows "counted (outcome_evidence r)"
proof -
  let ?ev = "dmerge (conflict_evidence config cs (top_contributions cs))
    [(''selected_signal'', VStr (selected_signal (top_contributions cs))),
     (''previous_target_exposure_lookup_pair'', VStr pair), (''reference_price_lookup_pair'', VStr pair)]"
  have "counted ?ev" by (rule counted_dmerge [OF counted_conflict]) (simp_all add: dhas_def)
  then show ?thesis
    using assms counted_conflict buy_outcome_counted
    by (auto simp: pair_outcome_def Let_def split: if_splits option.splits)
qed

lemma target_conflict_count_Inr:
  assumes "allocate_pair sha config pair ps cs inp ih ch sh = Inr t"
  shows "\<exists>n. target_conflict_count t = Inr n"
proof (cases "ps = []")
  case True
  with assms show ?thesis
    by (auto simp: allocate_pair_def target_conflict_count_def int_field_def blocked_target_def py_or_def)
next
  case False
  with assms obtain r where r: "pair_outcome sha config pair
      (lookup_amount (ai_previous_target_exposure_by_pair inp) pair) cs = Inr r"
    and t: "t = target_of_outcome config pair cs (lookup_amount (ai_reference_price_by_pair inp) pair) ih ch sh r"
    by (auto simp: allocate_pair_def bind_py_Inr_iff split: if_splits)
  have "pt_conflict_resolution t = outcome_evidence r"
    using pair_outcome_counted [OF r] t by (cases r) (simp_all add: blocked_target_def counted_def)
  with pair_outcome_counted [OF r] show ?thesis
    by (auto simp: target_conflict_count_def int_field_def counted_def py_or_def)
qed

text \<open>The risk gate raises nothing where no risk mapping has to be converted.\<close>

definition risk_decided :: "strategy_preference \<Rightarrow> bool" where
  "risk_decided p \<longleftrightarrow> pref_strategy_risk_decision p \<noteq> None \<or> pref_strategy_risk_profile p \<noteq> None \<or>
     pref_risk_policy p = None"

lemma contribution_simps [simp]:
  "con_pair (contribution sha config p) = pref_pair p"
  "con_signal_direction (contribution sha config p) = pref_signal_direction p"
  "con_strategy_risk_decision (contribution sha config p) = pref_strategy_risk_decision p"
  "con_strategy_risk_profile (contribution sha config p) = pref_strategy_risk_profile p"
  "con_strategy_risk_policy (contribution sha config p) = pref_risk_policy p"
  "con_desired_exposure_krw (contribution sha config p) = pref_desired_exposure_krw p"
  "con_max_target_exposure_krw (contribution sha config p) = pref_max_target_exposure_krw p"
  by (simp_all add: contribution_def Let_def)

lemma selected_strategy_risk_block_Inr:
  assumes "\<And>c. c \<in> set cs \<Longrightarrow> \<exists>p. c = contribution sha config p \<and> risk_decided p"
  shows "\<exists>b. selected_strategy_risk_block sha cs = Inr b"
  using assms
proof (induction cs)
  case (Cons c cs)
  from Cons.prems obtain p where "c = contribution sha config p" "risk_decided p" by force
  then have "\<exists>b. strategy_risk_block sha c = Inr b"
    by (auto simp: strategy_risk_block_def risk_decided_def split: option.splits)
  with Cons show ?case by (auto split: option.splits)
qed simp

lemma allocate_pair_Inr:
  assumes "\<And>c. c \<in> set cs \<Longrightarrow> \<exists>p. c = contribution sha config p \<and> risk_decided p" and "ps = [] \<or> cs \<noteq> []"
  shows "\<exists>t. allocate_pair sha config pair ps cs inp ih ch sh = Inr t"
proof -
  let ?buys = "filter (\<lambda>c. con_signal_direction c = ''BUY'') (top_contributions cs)"
  have "\<exists>b. selected_strategy_risk_block sha ?buys = Inr b"
    using assms(1) by (intro selected_strategy_risk_block_Inr) (auto simp: top_contributions_def)
  then have "\<exists>r. buy_outcome sha config (top_contributions cs) ev = Inr r" for ev
    by (cases rule: buy_target_exposure_cases [of sha config ?buys]) (auto simp: buy_outcome_def split: option.splits)
  then have "\<exists>r. pair_outcome sha config pair previous cs = Inr r" for previous
    by (auto simp: pair_outcome_def Let_def split: option.splits)
  then show ?thesis using assms(2) by (auto simp: allocate_pair_def bind_py_Inr_iff)
qed

lemma map_py_total: "(\<And>x. x \<in> set xs \<Longrightarrow> \<exists>y. f x = Inr y) \<Longrightarrow> \<exists>ys. map_py f xs = Inr ys"
  by (induction xs) (auto simp: bind_py_Inr_iff)

lemma allocate_Inr:
  assumes "\<And>p. p \<in> set (pset_preferences (ai_preference_set inp)) \<Longrightarrow> risk_decided p"
  shows "\<exists>d. allocate sha config inp = Inr d"
proof (cases "pset_preferences (ai_preference_set inp) = []")
  case True
  then show ?thesis by (simp add: allocate_no_preferences)
next
  case False
  let ?ps = "pset_preferences (ai_preference_set inp)"
  let ?pair = "\<lambda>pair. allocate_pair sha config pair (filter (\<lambda>p. pref_pair p = pair) ?ps)
    (filter (\<lambda>c. con_pair c = pair) (map (contribution sha config) ?ps)) inp
    (allocation_input_content_hash sha inp) (allocator_config_content_hash sha (ai_allocator_config inp))
    (contributions_hash sha (map (contribution sha config) ?ps))"
  have "\<exists>t. ?pair pair = Inr t" if "pair \<in> set (preference_pairs ?ps)" for pair
    using assms that by (intro allocate_pair_Inr) (auto simp: filter_empty_conv)
  then obtain targets where targets: "map_py ?pair (preference_pairs ?ps) = Inr targets"
    using map_py_total [of "preference_pairs ?ps" ?pair] by blast
  then have made: "list_all2 (\<lambda>pair t. ?pair pair = Inr t) (preference_pairs ?ps) targets"
    by (simp only: map_py_Inr_iff)
  have "\<exists>n. target_conflict_count t = Inr n" if "t \<in> set targets" for t
    using list_all2_partner [OF made that] target_conflict_count_Inr by blast
  then obtain counts where "map_py target_conflict_count targets = Inr counts"
    using map_py_total [of targets] by blast
  with targets False show ?thesis by (simp add: allocate_def Let_def)
qed


subsection \<open>A single buyer\<close>

lemma top_contributions_single [simp]: "top_contributions [c] = [c]"
  by (simp add: top_contributions_def best_priority_def)

lemma selected_signal_single [simp]: "selected_signal [c] = con_signal_direction c"
  by (simp add: selected_signal_def signals_of_def)

lemma no_conflict_single [simp]: "\<not> equal_priority_conflict [c]"
  by (cases "con_signal_direction c = ''BUY''") (auto simp: equal_priority_conflict_def)

text \<open>The target of a single buyer of weight one: its exposure, cut at its cap.\<close>

definition lone_exposure :: "rat \<Rightarrow> rat option \<Rightarrow> rat" where
  "lone_exposure x cap = (case cap of None \<Rightarrow> x | Some c \<Rightarrow> min x (max 0 c))"

lemma lone_buy_target:
  assumes "con_weight c = Fin 1" and "con_desired_exposure_krw c = Some (Fin x)" and "double_rat x" and "0 \<le> x"
    and "con_max_target_exposure_krw c = map_option Fin cap" and "\<And>y. cap = Some y \<Longrightarrow> double_rat y"
  shows "\<exists>audit. buy_target_exposure sha config [c] = Inr (Fin (lone_exposure x cap), audit)"
  using assms
  by (auto simp: buy_target_exposure_def Let_def fmax_def fmin_def double_rat_def lone_exposure_def max_def min_def
      split: option.splits)

lemma lone_allocation:
  assumes "pset_preferences (ai_preference_set inp) = [p]" and "pref_signal_direction p = ''BUY''"
    and "pref_strategy_risk_decision p = Some r" and "dstr r ''status'' [] = ''ALLOW''"
    and "con_weight (contribution sha config p) = Fin 1"
    and "pref_desired_exposure_krw p = Some (Fin x)" and "double_rat x" and "0 \<le> x"
    and "pref_max_target_exposure_krw p = map_option Fin cap" and "\<And>y. cap = Some y \<Longrightarrow> double_rat y"
  shows "\<exists>d t. allocate sha config inp = Inr d \<and> ad_targets d = [t] \<and> ad_authoritative d \<and>
    pt_pair t = pref_pair p \<and> pt_authoritative t \<and> pt_target_exposure_krw t = Some (Fin (lone_exposure x cap))"
proof -
  let ?c = "contribution sha config p"
  obtain d where d: "allocate sha config inp = Inr d"
    using allocate_Inr [of inp sha config] assms(1,3) by (auto simp: risk_decided_def)
  obtain t where t: "ad_targets d = [t]" and pair: "pt_pair t = pref_pair p"
    using allocate_pairs [OF d] assms(1) by (auto simp: preference_pairs_def)
  have contributions: "ad_contributions d = [?c]"
    using d assms(1) by (auto simp: allocate_def Let_def bind_py_Inr_iff)
  obtain audit where "buy_target_exposure sha config [?c] = Inr (Fin (lone_exposure x cap), audit)"
    using lone_buy_target [of ?c x cap sha config] assms by auto
  moreover have "strategy_risk_block sha ?c = Inr None" using assms(3,4) by (simp add: strategy_risk_block_def)
  ultimately have "pt_authoritative t \<and> pt_target_exposure_krw t = Some (Fin (lone_exposure x cap))"
    using allocate_target [OF d, of t] t pair contributions assms(1,2)
    by (auto simp: allocate_pair_def pair_outcome_def buy_outcome_def Let_def bind_py_Inr_iff)
  with d t pair allocate_verdict(1) [OF d] assms(1) show ?thesis by auto
qed

text \<open>
  C16: A single strategy that buys, with the default weight, an explicit exposure and an
  allowing risk decision, gets exactly what it asks for, cut at its cap: the allocation is authoritative
  and the target has that exposure, without rounding, whatever the rest of the configuration,
  the previous target and the price are.
\<close>

theorem lone_buyer_gets_its_exposure:
  assumes "pset_preferences (ai_preference_set inp) = [p]" and "pref_signal_direction p = ''BUY''"
    and "pref_strategy_risk_decision p = Some r" and "dstr r ''status'' [] = ''ALLOW''"
    and "con_weight (contribution sha config p) = Fin 1"
    and "pref_desired_exposure_krw p = Some (Fin x)" and "double_rat x" and "0 \<le> x"
    and "pref_max_target_exposure_krw p = map_option Fin cap" and "\<And>y. cap = Some y \<Longrightarrow> double_rat y"
  shows "\<exists>d t. allocate sha config inp = Inr d \<and> ad_targets d = [t] \<and> ad_authoritative d \<and>
    pt_pair t = pref_pair p \<and> pt_authoritative t \<and> pt_target_exposure_krw t = Some (Fin (lone_exposure x cap))"
  using assms by (rule lone_allocation)

subsection \<open>Samples\<close>

definition sample_sha :: "string \<Rightarrow> string" where
  "sample_sha s = ''0f''"

definition sample_config :: allocator_config where
  "sample_config =
     \<lparr>ac_policy_name = ''deterministic_priority_target_v1'', ac_policy_version = ''1'',
      ac_target_exposure_krw = Fin 0, ac_target_exposure_source = ''unspecified'',
      ac_require_explicit_strategy_target_exposure = False,
      ac_hold_policy = ''maintain_previous_target'', ac_mixed_hold_policy = ''active_signal_over_hold'',
      ac_conflict_policy = ''fail_closed_equal_priority'', ac_strategy_priorities = [], ac_strategy_weights = [],
      ac_risk_budget_semantics = RISK_BUDGET_SEMANTICS, ac_schema_version = 1\<rparr>"

definition sample_preference :: "string \<Rightarrow> string \<Rightarrow> strategy_preference" where
  "sample_preference name pair =
     \<lparr>pref_strategy_instance_id = name, pref_strategy_name = name, pref_pair = pair,
      pref_signal_direction = ''BUY'', pref_reason = ''breakout'', pref_raw_signal = ''BUY'',
      pref_final_signal = ''BUY'', pref_desired_exposure_krw = Some (Fin 9), pref_desired_weight = None,
      pref_confidence = None, pref_horizon = [], pref_max_target_exposure_krw = Some (Fin 5),
      pref_risk_budget_krw = None, pref_risk_policy = None, pref_risk_snapshot = None,
      pref_strategy_risk_profile = None, pref_strategy_risk_decision = Some [(''status'', VStr ''ALLOW'')],
      pref_policy_hash = [], pref_policy_contract_hash = [], pref_policy_input_hash = [],
      pref_policy_decision_hash = [], pref_position_snapshot_hash = [], pref_scope_key_hash = [],
      pref_runtime_scope_key = None, pref_virtual_lifecycle_evidence = None,
      pref_execution_intent_hint = None, pref_metadata = [], pref_schema_version = 1\<rparr>"

definition sample_input :: "strategy_preference list \<Rightarrow> allocation_input" where
  "sample_input ps = PortfolioAllocationInput (StrategyPreferenceSet sample_sha ps) sample_config None None None None"

abbreviation sample_lone :: allocation_input where
  "sample_lone \<equiv> sample_input [sample_preference ''sma'' ''KRW-BTC'']"

lemma sample_lone_preferences:
  "pset_preferences (ai_preference_set sample_lone) = [sample_preference ''sma'' ''KRW-BTC'']"
  by (simp add: sample_input_def PortfolioAllocationInput_def StrategyPreferenceSet_def Let_def)

lemma sample_lone_setup:
  "pref_signal_direction (sample_preference n q) = ''BUY''"
  "pref_pair (sample_preference n q) = q"
  "pref_strategy_risk_decision (sample_preference n q) = Some [(''status'', VStr ''ALLOW'')]"
  "con_weight (contribution sample_sha sample_config (sample_preference n q)) = Fin 1"
  "pref_desired_exposure_krw (sample_preference n q) = Some (Fin 9)"
  "pref_max_target_exposure_krw (sample_preference n q) = map_option Fin (Some 5)"
  "risk_decided (sample_preference n q)"
  "double_rat 9" "double_rat 5"
  by (simp_all add: sample_preference_def sample_config_def contribution_def risk_decided_def double_rat_def
      rnd_numeral)

lemma sample_allocation:
  obtains d t where "allocate sample_sha sample_config sample_lone = Inr d" "ad_targets d = [t]"
    "pt_authoritative t" "pt_pair t = ''KRW-BTC''" "pt_target_exposure_krw t = Some (Fin 5)"
  using lone_allocation [OF sample_lone_preferences, where sha = sample_sha and config = sample_config
      and cap = "Some 5" and x = 9] that
  by (auto simp: sample_lone_setup dstr_def py_or_def lone_exposure_def)


theorem one_target_per_pair_witness:
  "\<exists>d t. allocate sample_sha sample_config sample_lone = Inr d \<and>
     pset_preferences (ai_preference_set sample_lone) \<noteq> [] \<and>
     target_for_pair d ''KRW-BTC'' = Some t \<and> ad_authoritative d \<and> ad_primary_block_reason d = ''none''"
proof (rule sample_allocation)
  fix d t
  assume d: "allocate sample_sha sample_config sample_lone = Inr d"
    and t: "ad_targets d = [t]" "pt_authoritative t" "pt_pair t = ''KRW-BTC''"
  have "pset_preferences (ai_preference_set sample_lone) \<noteq> []" by (simp add: sample_lone_preferences)
  from d t this one_target_per_pair [OF d this] show ?thesis by auto
qed


theorem single_pair_check_iff_witness:
  "\<exists>d. allocate sample_sha sample_config sample_lone = Inr d \<and>
     allocation_single_pair_invariant_error sample_sha d ''KRW-BTC'' = Inr None \<and>
     allocation_single_pair_invariant_error sample_sha d ''KRW-ETH'' \<noteq> Inr None"
proof (rule sample_allocation)
  fix d t
  assume d: "allocate sample_sha sample_config sample_lone = Inr d"
  have ne: "pset_preferences (ai_preference_set sample_lone) \<noteq> []" by (simp add: sample_lone_preferences)
  from d single_pair_check_iff [OF d ne, of "''KRW-BTC''"] single_pair_check_iff [OF d ne, of "''KRW-ETH''"]
  show ?thesis by (simp add: sample_lone_preferences sample_lone_setup)
qed



theorem lone_buyer_gets_its_exposure_witness:
  "\<exists>d t. allocate sample_sha sample_config sample_lone = Inr d \<and> ad_targets d = [t] \<and> ad_authoritative d \<and>
     pt_pair t = ''KRW-BTC'' \<and> pt_target_exposure_krw t = Some (Fin 5)"
  using lone_buyer_gets_its_exposure [OF sample_lone_preferences, where sha = sample_sha
      and config = sample_config and cap = "Some 5" and x = 9]
  by (auto simp: sample_lone_setup dstr_def py_or_def lone_exposure_def)

text \<open>
  The allocator and the target engine read the configured exposure with different rules. They
  agree on every setting that the configuration admits, a finite number that is not negative.
\<close>

theorem configured_exposures_agree:
  assumes "\<And>e. ts_target_exposure_krw s = Some e \<Longrightarrow> isfinite e \<and> fle (Fin 0) e"
  shows "fst (allocator_target_exposure_authority s) = configured_target_exposure s"
proof (cases "ts_target_exposure_krw s")
  case (Some e)
  with assms have "isfinite e" "fle (Fin 0) e" by simp_all
  then have "fmax (Fin 0) e = e" by (cases e) (auto simp: fmax_def)
  with Some assms show ?thesis by (simp add: allocator_target_exposure_authority_def configured_target_exposure_def)
qed (simp add: allocator_target_exposure_authority_def configured_target_exposure_def)

end
