(* ===== verification/Dust_Classification.thy ===== *)
theory Dust_Classification
  imports Lot_Model
begin

text \<open>
  The classification of dust in \<open>src/src/operation/dust.py\<close>: what is held below the tradable
  minimum by the broker and by the local books, whether the two agree, what an operator sees of
  it, and how the classification is written to and read from the metadata of a reconciliation.
  Reading is modelled on a decoded dictionary; metadata that is text goes through \<open>json.loads\<close>
  first.
\<close>

subsection \<open>States\<close>

definition NO_DUST :: string where "NO_DUST = ''no_dust''"
definition HARMLESS_DUST :: string where "HARMLESS_DUST = ''harmless_dust''"
definition BLOCKING_DUST :: string where "BLOCKING_DUST = ''blocking_dust''"

definition dust_state_from_legacy_value :: "pyval \<Rightarrow> string" where
  "dust_state_from_legacy_value raw =
     (let normalized = py_lower (py_strip (py_str (py_or raw (VStr []))))
      in if normalized \<in> {NO_DUST, ''none'', ''no_dust_residual''} then NO_DUST
         else if normalized \<in> {HARMLESS_DUST, ''matched_harmless_dust'', ''matched_harmless_dust_resume_allowed'',
           ''matched_harmless_dust_operator_review_required''} then HARMLESS_DUST
         else if normalized \<in> {BLOCKING_DUST, ''dangerous_dust'', ''dangerous_dust_operator_review_required''}
           then BLOCKING_DUST
         else or_str (Some normalized) NO_DUST)"

definition dust_state_label :: "string \<Rightarrow> string" where
  "dust_state_label state =
     (if state = NO_DUST then ''no dust residual''
      else if state = HARMLESS_DUST then ''harmless dust residual''
      else if state = BLOCKING_DUST then ''blocking dust residual requires manual review''
      else ''unknown dust residual'')"

definition dust_operator_action :: "string \<Rightarrow> bool \<Rightarrow> string" where
  "dust_operator_action state allow_resume =
     (if state = NO_DUST then ''none''
      else if state = HARMLESS_DUST then
        (if allow_resume then ''harmless_dust_tracked_resume_allowed'' else ''harmless_dust_review_required'')
      else ''manual_review_before_resume'')"

subsection \<open>Classification\<close>

record dust_classification =
  du_classification :: string
  du_present :: bool
  du_allow_resume :: bool
  du_effective_flat :: bool
  du_policy_reason :: string
  du_summary :: string
  du_broker_qty :: pyfloat
  du_local_qty :: pyfloat
  du_delta_qty :: pyfloat
  du_min_qty :: pyfloat
  du_min_notional_krw :: pyfloat
  du_latest_price :: "pyfloat option"
  du_broker_notional_krw :: "pyfloat option"
  du_local_notional_krw :: "pyfloat option"
  du_partial_flatten_recent :: bool
  du_partial_flatten_reason :: string
  du_qty_gap_tolerance :: pyfloat
  du_qty_gap_small :: bool
  du_broker_qty_is_dust :: bool
  du_local_qty_is_dust :: bool
  du_broker_notional_is_dust :: bool
  du_local_notional_is_dust :: bool

definition is_strictly_below_min_qty :: "pyfloat \<Rightarrow> pyfloat \<Rightarrow> bool" where
  "is_strictly_below_min_qty qty_open min_qty \<longleftrightarrow>
     (let normalized_qty = fmax (Fin 0) qty_open; normalized_min_qty = fmax (Fin 0) min_qty
      in flt DUST_POSITION_EPS normalized_qty \<and> flt (Fin 0) normalized_min_qty \<and>
         flt normalized_qty normalized_min_qty)"

text \<open>\<open>_float_or_none\<close> on a number: a price that is not positive is none.\<close>

definition positive_or_none :: "pyfloat option \<Rightarrow> pyfloat option" where
  "positive_or_none p = (case p of Some f \<Rightarrow> if flt (Fin 0) f then Some f else None | None \<Rightarrow> None)"

definition estimate_notional :: "pyfloat \<Rightarrow> pyfloat option \<Rightarrow> pyfloat option" where
  "estimate_notional qty latest_price = map_option (fmul qty) (positive_or_none latest_price)"

definition dust_qty_gap_tolerance :: "pyfloat \<Rightarrow> pyfloat \<Rightarrow> pyfloat" where
  "dust_qty_gap_tolerance min_qty default_abs_tolerance =
     (let normalized_min_qty = fmax (Fin 0) min_qty; normalized_default = fmax (Fin 0) default_abs_tolerance
      in if fle normalized_min_qty (Fin 0) then normalized_default
         else fmax normalized_default (fmul normalized_min_qty (Fin (1 / 2))))"

definition below_notional :: "pyfloat option \<Rightarrow> pyfloat \<Rightarrow> bool" where
  "below_notional notional min_notional \<longleftrightarrow>
     (case notional of None \<Rightarrow> False | Some v \<Rightarrow> flt (Fin 0) min_notional \<and> flt v min_notional)"

definition flag :: "bool \<Rightarrow> string" where
  "flag b = (if b then ''1'' else ''0'')"

definition dust_summary ::
  "pyfloat \<Rightarrow> pyfloat \<Rightarrow> pyfloat \<Rightarrow> pyfloat \<Rightarrow> pyfloat \<Rightarrow> string \<Rightarrow> bool \<Rightarrow> bool \<Rightarrow> bool \<Rightarrow> bool \<Rightarrow> string \<Rightarrow> bool \<Rightarrow> string" where
  "dust_summary broker local delta min_qty min_notional classification harmless gap_small allow_resume
     effective_flat policy_reason recent =
     ''broker_qty='' @ py_fixed False 8 broker @ '' local_qty='' @ py_fixed False 8 local @
     '' delta='' @ py_fixed False 8 delta @ '' min_qty='' @ py_fixed False 8 min_qty @
     '' min_notional_krw='' @ py_fixed False 1 min_notional @
     '' classification='' @ classification @
     '' harmless_dust='' @ flag harmless @
     '' broker_local_match='' @ flag gap_small @
     '' allow_resume='' @ flag allow_resume @
     '' effective_flat='' @ flag effective_flat @
     '' qty_gap_small='' @ flag gap_small @
     '' policy_reason='' @ policy_reason @
     '' partial_flatten_recent='' @ flag recent"

definition classify_dust_residual ::
  "pyfloat \<Rightarrow> pyfloat \<Rightarrow> pyfloat \<Rightarrow> pyfloat \<Rightarrow> pyfloat option \<Rightarrow> bool \<Rightarrow> string \<Rightarrow> pyfloat \<Rightarrow> bool \<Rightarrow>
   dust_classification" where
  "classify_dust_residual broker_qty local_qty min_qty min_notional_krw latest_price partial_flatten_recent
     partial_flatten_reason qty_gap_tolerance matched_harmless_resume_allowed =
     (let broker = fmax (Fin 0) broker_qty; local = fmax (Fin 0) local_qty;
          minimum = fmax (Fin 0) min_qty; min_notional = fmax (Fin 0) min_notional_krw;
          tolerance = fmax (Fin 0) qty_gap_tolerance;
          delta = fsub broker local;
          broker_present = flt DUST_POSITION_EPS broker; local_present = flt DUST_POSITION_EPS local;
          broker_is_dust = is_strictly_below_min_qty broker minimum;
          local_is_dust = is_strictly_below_min_qty local minimum;
          broker_notional = estimate_notional broker latest_price;
          local_notional = estimate_notional local latest_price;
          gap_small = fle (fabs delta) tolerance;
          present = (broker_is_dust \<or> local_is_dust);
          harmless = (present \<and> broker_is_dust \<and> local_is_dust \<and> gap_small);
          classification = (if present then (if harmless then HARMLESS_DUST else BLOCKING_DUST) else ''none'');
          allow_resume = (harmless \<and> matched_harmless_resume_allowed);
          effective_flat = ((\<not> broker_present \<and> \<not> local_present) \<or> harmless);
          policy_reason = (if \<not> present then ''no_dust_residual''
            else if harmless \<and> allow_resume then ''matched_harmless_dust_resume_allowed''
            else if harmless then ''matched_harmless_dust_operator_review_required''
            else ''dangerous_dust_operator_review_required'')
      in \<lparr>du_classification = classification, du_present = present, du_allow_resume = allow_resume,
          du_effective_flat = effective_flat, du_policy_reason = policy_reason,
          du_summary = dust_summary broker local delta minimum min_notional classification harmless gap_small
            allow_resume effective_flat policy_reason partial_flatten_recent,
          du_broker_qty = broker, du_local_qty = local, du_delta_qty = delta,
          du_min_qty = minimum, du_min_notional_krw = min_notional,
          du_latest_price = positive_or_none latest_price,
          du_broker_notional_krw = broker_notional, du_local_notional_krw = local_notional,
          du_partial_flatten_recent = partial_flatten_recent,
          du_partial_flatten_reason = or_str (Some partial_flatten_reason) ''none'',
          du_qty_gap_tolerance = tolerance, du_qty_gap_small = gap_small,
          du_broker_qty_is_dust = broker_is_dust, du_local_qty_is_dust = local_is_dust,
          du_broker_notional_is_dust = below_notional broker_notional min_notional,
          du_local_notional_is_dust = below_notional local_notional min_notional\<rparr>)"

definition no_dust_classification :: "string \<Rightarrow> dust_classification" where
  "no_dust_classification policy_reason =
     \<lparr>du_classification = NO_DUST, du_present = False, du_allow_resume = False, du_effective_flat = True,
      du_policy_reason = policy_reason, du_summary = ''none'',
      du_broker_qty = Fin 0, du_local_qty = Fin 0, du_delta_qty = Fin 0, du_min_qty = Fin 0,
      du_min_notional_krw = Fin 0, du_latest_price = None, du_broker_notional_krw = None,
      du_local_notional_krw = None, du_partial_flatten_recent = False, du_partial_flatten_reason = ''none'',
      du_qty_gap_tolerance = Fin 0, du_qty_gap_small = True, du_broker_qty_is_dust = False,
      du_local_qty_is_dust = False, du_broker_notional_is_dust = False, du_local_notional_is_dust = False\<rparr>"

definition metadata_fallback :: "string \<Rightarrow> dust_classification" where
  "metadata_fallback policy_reason =
     (no_dust_classification policy_reason)\<lparr>du_effective_flat := False, du_qty_gap_small := False\<rparr>"

subsection \<open>Metadata\<close>

text \<open>\<open>1 if b else 0\<close>, and a number or the empty text\<close>

definition bit_value :: "bool \<Rightarrow> pyval" where
  "bit_value b = VInt (if b then 1 else 0)"

definition float_or_blank :: "pyfloat option \<Rightarrow> pyval" where
  "float_or_blank f = (case f of Some x \<Rightarrow> VFloat x | None \<Rightarrow> VStr [])"

definition to_metadata :: "dust_classification \<Rightarrow> pydict" where
  "to_metadata c =
     [(''dust_state'', VStr (du_classification c)),
      (''dust_classification'', VStr (du_classification c)),
      (''dust_residual_present'', bit_value (du_present c)),
      (''dust_residual_allow_resume'', bit_value (du_allow_resume c)),
      (''dust_effective_flat'', bit_value (du_effective_flat c)),
      (''dust_policy_reason'', VStr (du_policy_reason c)),
      (''dust_partial_flatten_recent'', bit_value (du_partial_flatten_recent c)),
      (''dust_partial_flatten_reason'', VStr (du_partial_flatten_reason c)),
      (''dust_qty_gap_tolerance'', VFloat (du_qty_gap_tolerance c)),
      (''dust_qty_gap_small'', bit_value (du_qty_gap_small c)),
      (''dust_broker_qty'', VFloat (du_broker_qty c)),
      (''dust_local_qty'', VFloat (du_local_qty c)),
      (''dust_delta_qty'', VFloat (du_delta_qty c)),
      (''dust_min_qty'', VFloat (du_min_qty c)),
      (''dust_min_notional_krw'', VFloat (du_min_notional_krw c)),
      (''dust_latest_price'', float_or_blank (du_latest_price c)),
      (''dust_broker_notional_krw'', float_or_blank (du_broker_notional_krw c)),
      (''dust_local_notional_krw'', float_or_blank (du_local_notional_krw c)),
      (''dust_broker_qty_is_dust'', bit_value (du_broker_qty_is_dust c)),
      (''dust_local_qty_is_dust'', bit_value (du_local_qty_is_dust c)),
      (''dust_broker_notional_is_dust'', bit_value (du_broker_notional_is_dust c)),
      (''dust_local_notional_is_dust'', bit_value (du_local_notional_is_dust c)),
      (''dust_residual_summary'', VStr (take 280 (du_summary c)))]"

text \<open>
  The matches of the pattern \<open>([a-z_]+)=([^\s]+)\<close> in a text, from left to right. A run of key
  characters that is not followed by an equals sign and a value fails from each of its
  characters.
\<close>

definition is_key_char :: "char \<Rightarrow> bool" where
  "is_key_char c \<longleftrightarrow> py_islower c \<or> c = CHR ''_''"

definition token_at :: "string \<Rightarrow> (string \<times> string) option" where
  "token_at s =
     (let key = takeWhile is_key_char s
      in case dropWhile is_key_char s of
           [] \<Rightarrow> None
         | c # r \<Rightarrow>
             let v = takeWhile (\<lambda>x. \<not> py_isspace x) r
             in if key \<noteq> [] \<and> c = CHR ''='' \<and> v \<noteq> [] then Some (key, v) else None)"

function summary_tokens :: "string \<Rightarrow> (string \<times> string) list" where
  "summary_tokens [] = []"
| "summary_tokens (c # cs) =
     (case token_at (c # cs) of
        Some (k, v) \<Rightarrow> (k, v) # summary_tokens (drop (length k + 1 + length v) (c # cs))
      | None \<Rightarrow> summary_tokens cs)"
  by pat_completeness auto
termination by (relation "measure length") auto

definition summary_value :: "string \<Rightarrow> pyval" where
  "summary_value raw =
     (if raw = ''0'' \<or> raw = ''1'' then VBool (raw = ''1'')
      else case py_float_of_str raw of Some f \<Rightarrow> VFloat f | None \<Rightarrow> VStr raw)"

definition parse_dust_summary :: "string \<Rightarrow> pydict" where
  "parse_dust_summary summary =
     foldl (\<lambda>parsed (k, raw). AList.update k (summary_value raw) parsed) [] (summary_tokens summary)"

definition float_or_default :: "pyval \<Rightarrow> pyfloat \<Rightarrow> pyfloat py" where
  "float_or_default raw dflt = or_default (val_float raw) dflt"

definition float_or_none :: "pyval \<Rightarrow> pyfloat option py" where
  "float_or_none raw =
     or_default (bind_py (val_float raw) (\<lambda>f. Inr (if flt (Fin 0) f then Some f else None))) None"

definition float_from_metadata_or_summary ::
  "pydict \<Rightarrow> pydict \<Rightarrow> string \<Rightarrow> string \<Rightarrow> pyfloat \<Rightarrow> pyfloat py" where
  "float_from_metadata_or_summary metadata summary_values metadata_key summary_key dflt =
     (if dhas metadata metadata_key then float_or_default (dget metadata metadata_key) dflt
      else if dget summary_values summary_key = VNone then Inr dflt
      else float_or_default (dget summary_values summary_key) dflt)"

definition bool_from_metadata_or_summary ::
  "pydict \<Rightarrow> pydict \<Rightarrow> string \<Rightarrow> string \<Rightarrow> bool \<Rightarrow> bool py" where
  "bool_from_metadata_or_summary metadata summary_values metadata_key summary_key dflt =
     (if dhas metadata metadata_key then
        bind_py (val_int (py_or (dget metadata metadata_key) (VInt 0))) (\<lambda>n. Inr (n = 1))
      else case dget summary_values summary_key of
        VBool b \<Rightarrow> Inr b
      | VNone \<Rightarrow> Inr dflt
      | v \<Rightarrow> or_default (bind_py (val_int v) (\<lambda>n. Inr (n \<noteq> 0))) dflt)"

definition int_from_metadata_or_summary ::
  "pydict \<Rightarrow> pydict \<Rightarrow> string \<Rightarrow> string \<Rightarrow> int \<Rightarrow> int py" where
  "int_from_metadata_or_summary metadata summary_values metadata_key summary_key dflt =
     (if dhas metadata metadata_key then
        or_default (bind_py (val_int (py_or (dget metadata metadata_key) (VInt 0))) (\<lambda>n. Inr (max 0 n))) (max 0 dflt)
      else if dget summary_values summary_key = VNone then Inr (max 0 dflt)
      else or_default (bind_py (val_int (dget summary_values summary_key)) (\<lambda>n. Inr (max 0 n))) (max 0 dflt))"

definition classification_from_policy_reason :: "string \<Rightarrow> string option" where
  "classification_from_policy_reason policy_reason =
     (let normalized = py_strip policy_reason
      in if py_startswith normalized ''matched_harmless_dust_'' \<or> py_startswith normalized ''harmless_dust_''
           then Some HARMLESS_DUST
         else if py_startswith normalized ''dangerous_dust_'' \<or> py_startswith normalized ''blocking_dust_''
           then Some BLOCKING_DUST
         else if normalized \<in> {''no_dust_residual'', NO_DUST, ''none''} then Some NO_DUST
         else None)"

definition infer_dust_classification :: "bool \<Rightarrow> bool \<Rightarrow> bool \<Rightarrow> bool \<Rightarrow> string" where
  "infer_dust_classification present broker_qty_is_dust local_qty_is_dust qty_gap_small =
     (if \<not> present then NO_DUST
      else if broker_qty_is_dust \<and> local_qty_is_dust \<and> qty_gap_small then HARMLESS_DUST else BLOCKING_DUST)"

definition effective_flat_of :: "pydict \<Rightarrow> pydict \<Rightarrow> string \<Rightarrow> bool py" where
  "effective_flat_of metadata summary_values classification =
     (if dget metadata ''dust_effective_flat'' = VNone then
        Inr (truthy (dget summary_values ''effective_flat'') \<or> classification \<in> {NO_DUST, HARMLESS_DUST})
      else bind_py (val_int (py_or (dget metadata ''dust_effective_flat'') (VInt 0))) (\<lambda>n. Inr (n = 1)))"

definition classification_of :: "pydict \<Rightarrow> pydict \<Rightarrow> string \<Rightarrow> string" where
  "classification_of metadata summary_values inferred =
     dust_state_from_legacy_value
       (py_or (dget metadata ''dust_state'')
       (py_or (dget metadata ''dust_classification'')
       (py_or (dget summary_values ''classification'')
       (py_or (opt_string (classification_from_policy_reason (dstr metadata ''dust_policy_reason'' [])))
       (py_or (VStr inferred) (VStr NO_DUST))))))"

definition counted_orders :: "pydict \<Rightarrow> pydict \<Rightarrow> int list py" where
  "counted_orders metadata summary_values =
     map_py (\<lambda>k. int_from_metadata_or_summary metadata summary_values k k 0)
       [''unresolved_open_order_count'', ''submit_unknown_count'', ''recovery_required_count'']"

text \<open>
  \<open>from_metadata\<close>. The stored \<open>dust_residual_allow_resume\<close> is not read: whether work may resume
  is decided again from the state and the order counts.
\<close>

definition from_metadata :: "pydict option \<Rightarrow> dust_classification py" where
  "from_metadata metadata_raw =
     (case metadata_raw of
        None \<Rightarrow> Inr (metadata_fallback ''none'')
      | Some m \<Rightarrow>
          let summary = dstr m ''dust_residual_summary'' ''none'';
              sv = parse_dust_summary summary;
              num = float_from_metadata_or_summary m sv;
              bit = bool_from_metadata_or_summary m sv
          in bind_py (val_int (py_or (dget m ''dust_residual_present'') (VInt 0))) (\<lambda>present_bit.
             bind_py (if dget m ''dust_effective_flat'' = VNone then Inr 0
               else val_int (py_or (dget m ''dust_effective_flat'') (VInt 0))) (\<lambda>_.
             bind_py (num ''dust_broker_qty'' ''broker_qty'' (Fin 0)) (\<lambda>broker_qty.
             bind_py (num ''dust_local_qty'' ''local_qty'' (Fin 0)) (\<lambda>local_qty.
             bind_py (num ''dust_delta_qty'' ''delta'' (fsub broker_qty local_qty)) (\<lambda>delta_qty.
             bind_py (num ''dust_min_qty'' ''min_qty'' (Fin 0)) (\<lambda>min_qty.
             bind_py (num ''dust_min_notional_krw'' ''min_notional_krw'' (Fin 0)) (\<lambda>min_notional.
             bind_py (float_or_none (dget m ''dust_latest_price'')) (\<lambda>latest_price.
             bind_py (float_or_none (dget m ''dust_broker_notional_krw'')) (\<lambda>broker_notional0.
             bind_py (float_or_none (dget m ''dust_local_notional_krw'')) (\<lambda>local_notional0.
             bind_py (counted_orders m sv) (\<lambda>counts.
             bind_py (num ''dust_qty_gap_tolerance'' ''qty_gap_tolerance'' (Fin 0)) (\<lambda>tolerance.
             bind_py (bit ''dust_qty_gap_small'' ''qty_gap_small''
               (if flt (Fin 0) tolerance then fle (fabs delta_qty) tolerance
                else fle (fabs delta_qty) DUST_POSITION_EPS)) (\<lambda>gap_small.
             bind_py (bit ''dust_partial_flatten_recent'' ''partial_flatten_recent'' False) (\<lambda>recent.
             bind_py (bit ''dust_broker_qty_is_dust'' ''broker_qty_is_dust''
               (flt DUST_POSITION_EPS broker_qty \<and> flt (Fin 0) min_qty \<and> flt broker_qty min_qty)) (\<lambda>broker_is_dust.
             bind_py (bit ''dust_local_qty_is_dust'' ''local_qty_is_dust''
               (flt DUST_POSITION_EPS local_qty \<and> flt (Fin 0) min_qty \<and> flt local_qty min_qty)) (\<lambda>local_is_dust.
             let broker_notional = (if broker_notional0 = None then estimate_notional broker_qty latest_price
                   else broker_notional0);
                 local_notional = (if local_notional0 = None then estimate_notional local_qty latest_price
                   else local_notional0) in
             bind_py (bit ''dust_broker_notional_is_dust'' ''broker_notional_is_dust''
               (below_notional broker_notional min_notional)) (\<lambda>broker_notional_is_dust.
             bind_py (bit ''dust_local_notional_is_dust'' ''local_notional_is_dust''
               (below_notional local_notional min_notional)) (\<lambda>local_notional_is_dust.
             let present = (present_bit = 1);
                 classification = classification_of m sv
                   (infer_dust_classification present broker_is_dust local_is_dust gap_small) in
             bind_py (effective_flat_of m sv classification) (\<lambda>effective_flat.
             let allow_resume = (classification = HARMLESS_DUST \<and> effective_flat \<and> list_all (\<lambda>n. n = 0) counts);
                 policy_reason = (if \<not> present then dstr m ''dust_policy_reason'' ''none''
                   else if classification = HARMLESS_DUST \<and> allow_resume then ''matched_harmless_dust_resume_allowed''
                   else if classification = HARMLESS_DUST then ''matched_harmless_dust_operator_review_required''
                   else ''dangerous_dust_operator_review_required'')
             in Inr \<lparr>du_classification = classification, du_present = present, du_allow_resume = allow_resume,
                  du_effective_flat = effective_flat, du_policy_reason = policy_reason, du_summary = summary,
                  du_broker_qty = broker_qty, du_local_qty = local_qty, du_delta_qty = delta_qty,
                  du_min_qty = min_qty, du_min_notional_krw = min_notional, du_latest_price = latest_price,
                  du_broker_notional_krw = broker_notional, du_local_notional_krw = local_notional,
                  du_partial_flatten_recent = recent,
                  du_partial_flatten_reason = dstr m ''dust_partial_flatten_reason'' ''none'',
                  du_qty_gap_tolerance = tolerance, du_qty_gap_small = gap_small,
                  du_broker_qty_is_dust = broker_is_dust, du_local_qty_is_dust = local_is_dust,
                  du_broker_notional_is_dust = broker_notional_is_dust,
                  du_local_notional_is_dust = local_notional_is_dust\<rparr>))))))))))))))))))))"

text \<open>
  The metadata that a reconciliation records (\<open>src/src/operation/recovery.py\<close>): the classification
  with resumption allowed exactly when no order is open, unknown or in need of recovery, and
  the three counts.
\<close>

definition order_counts_metadata :: "int \<Rightarrow> int \<Rightarrow> int \<Rightarrow> pydict" where
  "order_counts_metadata unresolved unknown recovery =
     [(''unresolved_open_order_count'', VInt unresolved), (''submit_unknown_count'', VInt unknown),
      (''recovery_required_count'', VInt recovery)]"

definition reconcile_dust_classification ::
  "pyfloat \<Rightarrow> pyfloat \<Rightarrow> pyfloat \<Rightarrow> pyfloat \<Rightarrow> pyfloat option \<Rightarrow> bool \<Rightarrow> string \<Rightarrow> pyfloat \<Rightarrow> int \<Rightarrow> int \<Rightarrow> int \<Rightarrow>
   dust_classification" where
  "reconcile_dust_classification broker_qty local_qty min_qty min_notional price recent recent_reason
     abs_tolerance unresolved unknown recovery =
     classify_dust_residual broker_qty local_qty min_qty min_notional price recent recent_reason
       (dust_qty_gap_tolerance min_qty abs_tolerance) (unresolved = 0 \<and> unknown = 0 \<and> recovery = 0)"

definition reconcile_dust_metadata ::
  "pyfloat \<Rightarrow> pyfloat \<Rightarrow> pyfloat \<Rightarrow> pyfloat \<Rightarrow> pyfloat option \<Rightarrow> bool \<Rightarrow> string \<Rightarrow> pyfloat \<Rightarrow> int \<Rightarrow> int \<Rightarrow> int \<Rightarrow>
   pydict" where
  "reconcile_dust_metadata broker_qty local_qty min_qty min_notional price recent recent_reason
     abs_tolerance unresolved unknown recovery =
     dmerge (to_metadata (reconcile_dust_classification broker_qty local_qty min_qty min_notional price recent
       recent_reason abs_tolerance unresolved unknown recovery)) (order_counts_metadata unresolved unknown recovery)"

end
