(* ===== verification/Position_State.thy ===== *)
theory Position_State
  imports Dust_Classification
begin

text \<open>
  The position state of \<open>src/src/operation/dust.py\<close>: what the operator sees of the dust, the
  normalized exposure with the permissions to enter and to exit, and the interpretation and
  dictionaries built from them. The settings and exchange rules are arguments; an absent rule
  is \<open>None\<close>.
\<close>

subsection \<open>The operator view\<close>

record dust_operator_view =
  dv_state :: string
  dv_state_label :: string
  dv_operator_action :: string
  dv_operator_message :: string
  dv_broker_local_match :: bool
  dv_new_orders_allowed :: bool
  dv_resume_allowed :: bool
  dv_treat_as_flat :: bool
  dv_broker_qty :: pyfloat
  dv_local_qty :: pyfloat
  dv_delta_qty :: pyfloat
  dv_min_qty :: pyfloat
  dv_min_notional_krw :: pyfloat
  dv_broker_qty_below_min :: bool
  dv_local_qty_below_min :: bool
  dv_broker_notional_below_min :: bool
  dv_local_notional_below_min :: bool

text \<open>State, action, message, new orders, resumption, treat as flat.\<close>

definition operator_verdict :: "dust_classification \<Rightarrow> string \<times> string \<times> string \<times> string \<times> bool \<times> bool \<times> bool" where
  "operator_verdict d =
     (if du_policy_reason d = ''metadata_parse_error'' then
        (''unknown'', ''dust metadata unavailable'', ''rerun_reconcile_and_review'',
         ''Dust metadata could not be parsed. Re-run reconcile and review before resuming.'', False, False, False)
      else if du_classification d = HARMLESS_DUST then
        (if du_allow_resume d then
           (HARMLESS_DUST, dust_state_label HARMLESS_DUST, dust_operator_action HARMLESS_DUST True,
            ''Broker/local matched dust remains tracked below minimum trade size, so it is not auto-liquidated. '' @
            ''This residual is tracked only, effective-flat gating applies, and resume/new orders are allowed.'',
            True, True, True)
         else
           (HARMLESS_DUST, dust_state_label HARMLESS_DUST, dust_operator_action HARMLESS_DUST False,
            ''Residual dust matches across broker/local state, but remains below minimum tradable quantity, so automatic resume and new orders stay blocked pending operator review.'',
            False, False, True))
      else if du_present d then
        (BLOCKING_DUST, dust_state_label BLOCKING_DUST, ''manual_review_before_resume'',
         ''Dust residual is not harmless. Review broker/local mismatch or recovery concerns before resuming or placing new orders.'',
         False, False, False)
      else
        (NO_DUST, dust_state_label NO_DUST, ''none'', ''No dust residual signal is blocking operations.'',
         True, True, du_effective_flat d))"

definition build_dust_operator_view :: "dust_classification \<Rightarrow> dust_operator_view" where
  "build_dust_operator_view d =
     (case operator_verdict d of (state, label, action, message, new_orders, resume, flat) \<Rightarrow>
       \<lparr>dv_state = state, dv_state_label = label, dv_operator_action = action, dv_operator_message = message,
        dv_broker_local_match = du_qty_gap_small d, dv_new_orders_allowed = new_orders,
        dv_resume_allowed = resume, dv_treat_as_flat = flat,
        dv_broker_qty = du_broker_qty d, dv_local_qty = du_local_qty d, dv_delta_qty = du_delta_qty d,
        dv_min_qty = du_min_qty d, dv_min_notional_krw = du_min_notional_krw d,
        dv_broker_qty_below_min = du_broker_qty_is_dust d, dv_local_qty_below_min = du_local_qty_is_dust d,
        dv_broker_notional_below_min = du_broker_notional_is_dust d,
        dv_local_notional_below_min = du_local_notional_is_dust d\<rparr>)"

definition dust_threshold_basis :: "bool \<Rightarrow> bool \<Rightarrow> string" where
  "dust_threshold_basis qty_below_min notional_below_min =
     (if qty_below_min \<and> notional_below_min then ''below_min_qty_and_notional''
      else if qty_below_min then ''below_min_qty_only''
      else if notional_below_min then ''below_min_notional_only''
      else ''neither'')"

definition view_threshold_basis :: "dust_operator_view \<Rightarrow> string" where
  "view_threshold_basis v = dust_threshold_basis (dv_broker_qty_below_min v \<or> dv_local_qty_below_min v)
     (dv_broker_notional_below_min v \<or> dv_local_notional_below_min v)"

definition format_broker_local_flags :: "bool \<Rightarrow> bool \<Rightarrow> string" where
  "format_broker_local_flags broker local = ''broker='' @ flag broker @ '' local='' @ flag local"

definition view_compact_summary :: "dust_operator_view \<Rightarrow> string" where
  "view_compact_summary v =
     ''state='' @ dv_state v @
     '' broker_qty='' @ py_fixed False 8 (dv_broker_qty v) @
     '' local_qty='' @ py_fixed False 8 (dv_local_qty v) @
     '' delta_qty='' @ py_fixed False 8 (dv_delta_qty v) @
     '' min_qty='' @ py_fixed False 8 (dv_min_qty v) @
     '' min_notional_krw='' @ py_fixed False 1 (dv_min_notional_krw v) @
     '' dust_threshold_basis='' @ view_threshold_basis v @
     '' qty_below_min('' @ format_broker_local_flags (dv_broker_qty_below_min v) (dv_local_qty_below_min v) @
     '') notional_below_min('' @
       format_broker_local_flags (dv_broker_notional_below_min v) (dv_local_notional_below_min v) @
     '') broker_local_match='' @ flag (dv_broker_local_match v) @
     '' operator_action='' @ dv_operator_action v @
     '' new_orders_allowed='' @ flag (dv_new_orders_allowed v) @
     '' resume_allowed='' @ flag (dv_resume_allowed v) @
     '' treat_as_flat='' @ flag (dv_treat_as_flat v)"

text \<open>The raw holdings are the classification without its verdicts.\<close>

definition raw_holdings_compact_summary :: "dust_classification \<Rightarrow> string" where
  "raw_holdings_compact_summary d =
     ''state='' @ du_classification d @
     '' broker_qty='' @ py_fixed False 8 (du_broker_qty d) @
     '' local_qty='' @ py_fixed False 8 (du_local_qty d) @
     '' delta_qty='' @ py_fixed False 8 (du_delta_qty d) @
     '' min_qty='' @ py_fixed False 8 (du_min_qty d) @
     '' min_notional_krw='' @ py_fixed False 1 (du_min_notional_krw d) @
     '' dust_threshold_basis='' @ dust_threshold_basis (du_broker_qty_is_dust d \<or> du_local_qty_is_dust d)
       (du_broker_notional_is_dust d \<or> du_local_notional_is_dust d) @
     '' qty_below_min('' @ format_broker_local_flags (du_broker_qty_is_dust d) (du_local_qty_is_dust d) @
     '') notional_below_min('' @
       format_broker_local_flags (du_broker_notional_is_dust d) (du_local_notional_is_dust d) @
     '') broker_local_match='' @ flag (du_qty_gap_small d)"

definition raw_holdings_as_dict :: "dust_classification \<Rightarrow> pydict" where
  "raw_holdings_as_dict d =
     [(''classification'', VStr (du_classification d)),
      (''present'', VBool (du_present d)),
      (''broker_qty'', VFloat (du_broker_qty d)),
      (''local_qty'', VFloat (du_local_qty d)),
      (''delta_qty'', VFloat (du_delta_qty d)),
      (''min_qty'', VFloat (du_min_qty d)),
      (''min_notional_krw'', VFloat (du_min_notional_krw d)),
      (''latest_price'', float_or_blank (du_latest_price d)),
      (''broker_notional_krw'', float_or_blank (du_broker_notional_krw d)),
      (''local_notional_krw'', float_or_blank (du_local_notional_krw d)),
      (''partial_flatten_recent'', VBool (du_partial_flatten_recent d)),
      (''partial_flatten_reason'', VStr (du_partial_flatten_reason d)),
      (''qty_gap_tolerance'', VFloat (du_qty_gap_tolerance d)),
      (''qty_gap_small'', VBool (du_qty_gap_small d)),
      (''broker_qty_is_dust'', VBool (du_broker_qty_is_dust d)),
      (''local_qty_is_dust'', VBool (du_local_qty_is_dust d)),
      (''broker_notional_is_dust'', VBool (du_broker_notional_is_dust d)),
      (''local_notional_is_dust'', VBool (du_local_notional_is_dust d)),
      (''broker_local_match'', VBool (du_qty_gap_small d)),
      (''dust_threshold_basis'', VStr (dust_threshold_basis (du_broker_qty_is_dust d \<or> du_local_qty_is_dust d)
         (du_broker_notional_is_dust d \<or> du_local_notional_is_dust d))),
      (''compact_summary'', VStr (raw_holdings_compact_summary d))]"

subsection \<open>The display context\<close>

record dust_display_context =
  dx_classification :: dust_classification
  dx_operator_view :: dust_operator_view
  dx_fields :: pydict

definition effective_flat_due_to_harmless_dust :: "dust_display_context \<Rightarrow> bool" where
  "effective_flat_due_to_harmless_dust x \<longleftrightarrow>
     du_present (dx_classification x) \<and> du_classification (dx_classification x) = HARMLESS_DUST \<and>
     dv_resume_allowed (dx_operator_view x) \<and> dv_treat_as_flat (dx_operator_view x)"

definition build_dust_display_context :: "dust_classification \<Rightarrow> dust_display_context" where
  "build_dust_display_context d =
     (let view = build_dust_operator_view d
      in \<lparr>dx_classification = d, dx_operator_view = view,
          dx_fields =
            [(''dust_classification'', VStr (du_classification d)),
             (''dust_residual_present'', VBool (du_present d)),
             (''dust_residual_allow_resume'', VBool (du_allow_resume d)),
             (''dust_effective_flat'', VBool (du_effective_flat d)),
             (''dust_policy_reason'', VStr (du_policy_reason d)),
             (''dust_residual_summary'', VStr (du_summary d)),
             (''dust_state'', VStr (dv_state view)),
             (''dust_state_label'', VStr (dv_state_label view)),
             (''dust_operator_action'', VStr (dv_operator_action view)),
             (''dust_operator_message'', VStr (dv_operator_message view)),
             (''dust_broker_local_match'', VBool (dv_broker_local_match view)),
             (''dust_new_orders_allowed'', VBool (dv_new_orders_allowed view)),
             (''dust_resume_allowed_by_policy'', VBool (dv_resume_allowed view)),
             (''dust_treat_as_flat'', VBool (dv_treat_as_flat view)),
             (''dust_broker_qty'', VFloat (dv_broker_qty view)),
             (''dust_local_qty'', VFloat (dv_local_qty view)),
             (''dust_delta_qty'', VFloat (dv_delta_qty view)),
             (''dust_min_qty'', VFloat (dv_min_qty view)),
             (''dust_min_notional_krw'', VFloat (dv_min_notional_krw view)),
             (''effective_flat_due_to_harmless_dust'', VBool (du_present d \<and> du_classification d = HARMLESS_DUST \<and>
                dv_resume_allowed view \<and> dv_treat_as_flat view)),
             (''dust_broker_qty_below_min'', VBool (dv_broker_qty_below_min view)),
             (''dust_local_qty_below_min'', VBool (dv_local_qty_below_min view)),
             (''dust_broker_notional_below_min'', VBool (dv_broker_notional_below_min view)),
             (''dust_local_notional_below_min'', VBool (dv_local_notional_below_min view)),
             (''dust_threshold_basis'', VStr (view_threshold_basis view))]\<rparr>)"

text \<open>\<open>max(0, int(d.get(k, 0) or 0))\<close>\<close>

definition count_field :: "pydict \<Rightarrow> string \<Rightarrow> int py" where
  "count_field d k = bind_py (val_int (py_or (dget d k) (VInt 0))) (\<lambda>n. Inr (max 0 n))"

text \<open>
  What the metadata of a reconciliation is given as: nothing, a dictionary, a classification, or
  JSON text, of which the model has what \<open>json.loads\<close> makes of it (\<open>None\<close> where it raises).
\<close>

datatype metadata_source =
    MetaNone
  | MetaDict pydict
  | MetaText "pydict option"
  | MetaDust dust_classification

definition dust_of_source :: "metadata_source \<Rightarrow> dust_classification py" where
  "dust_of_source metadata_raw =
     (case metadata_raw of
        MetaNone \<Rightarrow> from_metadata None
      | MetaDict m \<Rightarrow> from_metadata (Some m)
      | MetaText None \<Rightarrow> Inr (metadata_fallback ''metadata_parse_error'')
      | MetaText (Some m) \<Rightarrow> from_metadata (Some m)
      | MetaDust d \<Rightarrow> Inr d)"

text \<open>Only a dictionary adds the counts of orders to the fields of the display context.\<close>

definition with_order_counts :: "pydict \<Rightarrow> dust_display_context \<Rightarrow> dust_display_context py" where
  "with_order_counts m x =
     bind_py (count_field m ''unresolved_open_order_count'') (\<lambda>unresolved.
     bind_py (count_field m ''submit_unknown_count'') (\<lambda>unknown.
     bind_py (count_field m ''recovery_required_count'') (\<lambda>recovery.
       Inr (x\<lparr>dx_fields := AList.update ''recovery_required_count'' (VInt recovery)
         (AList.update ''submit_unknown_count'' (VInt unknown)
           (AList.update ''unresolved_open_order_count'' (VInt unresolved) (dx_fields x)))\<rparr>))))"

definition resolve_position_display_context :: "metadata_source \<Rightarrow> dust_display_context py" where
  "resolve_position_display_context metadata_raw =
     bind_py (dust_of_source metadata_raw) (\<lambda>d.
       case metadata_raw of
         MetaDict m \<Rightarrow> with_order_counts m (build_dust_display_context d)
       | _ \<Rightarrow> Inr (build_dust_display_context d))"

definition should_treat_as_flat_for_entry_gate :: "dust_display_context option \<Rightarrow> bool" where
  "should_treat_as_flat_for_entry_gate x \<longleftrightarrow>
     (case x of None \<Rightarrow> False | Some c \<Rightarrow> effective_flat_due_to_harmless_dust c)"

definition format_flat_start_reason_with_dust :: "string \<Rightarrow> dust_display_context \<Rightarrow> string" where
  "format_flat_start_reason_with_dust flat_start_reason x =
     (let raw_reason = py_strip flat_start_reason;
          view = dx_operator_view x
      in if raw_reason = [] then ''not_checked''
         else if \<not> du_present (dx_classification x) then raw_reason
         else if dv_treat_as_flat view \<and> dv_resume_allowed view then
           ''flat_start_effective_flat('' @ view_compact_summary view @ '')''
         else if \<not> py_startswith raw_reason ''flat_start_'' then raw_reason
         else (if dv_treat_as_flat view then ''flat_start_effective_flat'' else ''flat_start_requires_operator_review'') @
           ''('' @ view_compact_summary view @ '')'')"

subsection \<open>Inventory\<close>

record position_inventory =
  pinv_raw_qty_open :: pyfloat
  pinv_raw_total_asset_qty :: pyfloat
  pinv_open_exposure_qty :: pyfloat
  pinv_dust_tracking_qty :: pyfloat
  pinv_reserved_exit_qty :: pyfloat

definition nonneg_or :: "pyfloat \<Rightarrow> pyfloat option \<Rightarrow> pyfloat" where
  "nonneg_or dflt q = (case q of None \<Rightarrow> dflt | Some v \<Rightarrow> fmax (Fin 0) v)"

definition normalize_position_inventory ::
  "pyfloat \<Rightarrow> pyfloat option \<Rightarrow> pyfloat option \<Rightarrow> pyfloat option \<Rightarrow> pyfloat option \<Rightarrow> position_inventory" where
  "normalize_position_inventory raw_qty_open raw_total open_qty dust_qty reserved_qty =
     (let raw = fmax (Fin 0) raw_qty_open
      in \<lparr>pinv_raw_qty_open = raw, pinv_raw_total_asset_qty = nonneg_or raw raw_total,
          pinv_open_exposure_qty = nonneg_or (Fin 0) open_qty,
          pinv_dust_tracking_qty = nonneg_or (Fin 0) dust_qty,
          pinv_reserved_exit_qty = nonneg_or (Fin 0) reserved_qty\<rparr>)"

text \<open>The exchange rules and cost assumptions of a position state.\<close>

record position_rules =
  pr_market_price :: "pyfloat option"
  pr_min_qty :: "pyfloat option"
  pr_qty_step :: "pyfloat option"
  pr_min_notional_krw :: "pyfloat option"
  pr_max_qty_decimals :: "int option"
  pr_exit_fee_ratio :: pyfloat
  pr_exit_slippage_bps :: pyfloat
  pr_exit_buffer_ratio :: pyfloat
  pr_live_min_order_qty :: pyfloat

definition or_zero_int :: "int option \<Rightarrow> int" where
  "or_zero_int n = (case n of None \<Rightarrow> 0 | Some k \<Rightarrow> k)"

record exposure_derivation =
  xd_executable_lot :: executable_lot
  xd_effective_open_exposure_qty :: pyfloat
  xd_effective_reserved_exit_qty :: pyfloat
  xd_sellable_executable_qty :: pyfloat
  xd_normalized_dust_tracking_qty :: pyfloat

definition derive_executable_open_exposure ::
  "position_inventory \<Rightarrow> position_rules \<Rightarrow> exposure_derivation py" where
  "derive_executable_open_exposure inventory r =
     bind_py (build_executable_lot (pinv_open_exposure_qty inventory) (pr_market_price r)
       (nonneg_or (Fin 0) (pr_min_qty r)) (or_zero (pr_qty_step r)) (or_zero (pr_min_notional_krw r))
       (or_zero_int (pr_max_qty_decimals r)) (pr_exit_fee_ratio r) (pr_exit_slippage_bps r)
       (pr_exit_buffer_ratio r)) (\<lambda>lot.
       let effective_open = fmax (Fin 0) (el_executable_qty lot);
           effective_reserved = fmin effective_open (pinv_reserved_exit_qty inventory)
       in Inr \<lparr>xd_executable_lot = lot, xd_effective_open_exposure_qty = effective_open,
            xd_effective_reserved_exit_qty = effective_reserved,
            xd_sellable_executable_qty = fmax (Fin 0) (fsub effective_open effective_reserved),
            xd_normalized_dust_tracking_qty =
              fmax (Fin 0) (fadd (pinv_dust_tracking_qty inventory) (el_dust_qty lot))\<rparr>)"


subsection \<open>The normalized exposure\<close>

definition BOUNDARY_NEAR_RESIDUE_TOLERANCE_RATIO :: pyfloat where
  "BOUNDARY_NEAR_RESIDUE_TOLERANCE_RATIO = lit 1 (-4)"

definition boundary_near_residue_tolerance :: "pyfloat \<Rightarrow> pyfloat" where
  "boundary_near_residue_tolerance boundary_qty =
     (let normalized_boundary = fmax (Fin 0) boundary_qty
      in if fle normalized_boundary DUST_POSITION_EPS then DUST_POSITION_EPS
         else fmax DUST_POSITION_EPS (fmul normalized_boundary BOUNDARY_NEAR_RESIDUE_TOLERANCE_RATIO))"

definition dust_only_evidence_consistent_with_holdings ::
  "dust_display_context \<Rightarrow> pyfloat \<Rightarrow> pyfloat \<Rightarrow> pyfloat \<Rightarrow> bool" where
  "dust_only_evidence_consistent_with_holdings x total_qty dust_qty tolerance_qty \<longleftrightarrow>
     (let tolerance = fmax DUST_POSITION_EPS tolerance_qty;
          broker_qty = fmax (Fin 0) (du_broker_qty (dx_classification x));
          local_qty = fmax (Fin 0) (du_local_qty (dx_classification x))
      in \<not> (fle broker_qty DUST_POSITION_EPS \<and> fle local_qty DUST_POSITION_EPS) \<and>
         fle (fabs (fsub broker_qty local_qty)) tolerance \<and>
         fle (fabs (fsub broker_qty total_qty)) tolerance \<and>
         fle (fabs (fsub local_qty total_qty)) tolerance \<and>
         fle (fabs (fsub dust_qty total_qty)) tolerance)"

text \<open>The object of exchange rules that \<open>build_normalized_exposure\<close> makes, and the lot rules derived
  from it, in which an internal lot size on record takes precedence.\<close>

definition position_rules_object :: "position_rules \<Rightarrow> pydict" where
  "position_rules_object r =
     [(''market_id'', VStr []), (''bid_min_total_krw'', VFloat (Fin 0)), (''ask_min_total_krw'', VFloat (Fin 0)),
      (''bid_price_unit'', VFloat (Fin 0)), (''ask_price_unit'', VFloat (Fin 0)),
      (''order_types'', VTuple []), (''order_sides'', VTuple []),
      (''bid_fee'', VFloat (Fin 0)), (''ask_fee'', VFloat (Fin 0)),
      (''maker_bid_fee'', VFloat (Fin 0)), (''maker_ask_fee'', VFloat (Fin 0)),
      (''min_qty'', VFloat (or_zero (pr_min_qty r))), (''qty_step'', VFloat (or_zero (pr_qty_step r))),
      (''min_notional_krw'', VFloat (or_zero (pr_min_notional_krw r))),
      (''max_qty_decimals'', VInt (or_zero_int (pr_max_qty_decimals r)))]"

definition override_internal_lot_size :: "pyfloat \<Rightarrow> market_lot_rules \<Rightarrow> market_lot_rules" where
  "override_internal_lot_size internal m =
     (if flt DUST_POSITION_EPS internal then
        m\<lparr>ml_lot_size := internal, ml_executable_min_qty := fmax (ml_executable_min_qty m) internal,
          ml_dust_threshold := fmax (ml_dust_threshold m) internal\<rparr>
      else m)"

definition position_lot_rules :: "position_rules \<Rightarrow> pyfloat \<Rightarrow> market_lot_rules py" where
  "position_lot_rules r internal =
     bind_py (build_market_lot_rules (pr_live_min_order_qty r) ''unknown'' (pr_market_price r)
       (position_rules_object r) (pr_exit_fee_ratio r) (pr_exit_slippage_bps r) (pr_exit_buffer_ratio r)
       ''derived'') (\<lambda>m. Inr (override_internal_lot_size internal m))"

text \<open>The quantities and lots of an exposure, before any verdict on them.\<close>

record exposure_amounts =
  xq_total :: pyfloat
  xq_open :: pyfloat
  xq_dust :: pyfloat
  xq_reserved :: pyfloat
  xq_sellable :: pyfloat
  xq_lot_size :: pyfloat
  xq_open_lots :: int
  xq_dust_lots :: int
  xq_reserved_lots :: int
  xq_sellable_lots :: int

text \<open>Open, tracked and total quantity.\<close>

definition open_quantity_of :: "exposure_derivation \<Rightarrow> market_lot_rules \<Rightarrow> int \<Rightarrow> pyfloat" where
  "open_quantity_of xd m open_lots =
     (let q = fmax (Fin 0) (xd_effective_open_exposure_qty xd)
      in if fle q DUST_POSITION_EPS \<and> 0 < open_lots then lot_count_to_qty open_lots (ml_lot_size m) else q)"

definition dust_quantity_of ::
  "position_inventory \<Rightarrow> exposure_derivation \<Rightarrow> market_lot_rules \<Rightarrow> int \<Rightarrow> int \<Rightarrow> bool \<Rightarrow> pyfloat" where
  "dust_quantity_of inventory xd m open_lots dust_lots present =
     (let q = fmax (Fin 0) (xd_normalized_dust_tracking_qty xd);
          q1 = (if fle q DUST_POSITION_EPS \<and> 0 < dust_lots then lot_count_to_qty dust_lots (ml_lot_size m) else q)
      in if fle q1 DUST_POSITION_EPS \<and> open_lots \<le> 0 \<and>
            flt DUST_POSITION_EPS (pinv_raw_total_asset_qty inventory) \<and> present
         then pinv_raw_total_asset_qty inventory else q1)"

definition total_quantity_of :: "position_inventory \<Rightarrow> pyfloat \<Rightarrow> pyfloat \<Rightarrow> pyfloat" where
  "total_quantity_of inventory open_qty dust_qty =
     fmax (Fin 0) (if flt DUST_POSITION_EPS (pinv_raw_total_asset_qty inventory) then pinv_raw_total_asset_qty inventory
       else fadd open_qty dust_qty)"

text \<open>The lot size that the open lots imply, and the lots reserved for open sell orders.\<close>

definition implied_lot_size :: "pyfloat \<Rightarrow> pyfloat \<Rightarrow> int \<Rightarrow> pyfloat py" where
  "implied_lot_size rules_lot_size open_qty open_lots =
     (if 0 < open_lots \<and> flt DUST_POSITION_EPS open_qty then
        bind_py (val_float (VInt open_lots)) (\<lambda>n.
          let authoritative = fdiv open_qty n
          in Inr (if flt DUST_POSITION_EPS authoritative then authoritative else rules_lot_size))
      else Inr rules_lot_size)"

definition reserved_lots_of :: "pyfloat \<Rightarrow> pyfloat \<Rightarrow> int \<Rightarrow> int py" where
  "reserved_lots_of lot_size reserved_qty open_lots =
     (if flt (Fin 0) lot_size \<and> flt DUST_POSITION_EPS reserved_qty then
        bind_py (math_floor (fadd (fdiv reserved_qty lot_size) (lit 1 (-12)))) (\<lambda>n.
          Inr (min open_lots (max 0 n)))
      else Inr 0)"

definition exposure_amounts_of ::
  "position_inventory \<Rightarrow> exposure_derivation \<Rightarrow> market_lot_rules \<Rightarrow> int \<Rightarrow> int \<Rightarrow> bool \<Rightarrow> exposure_amounts py" where
  "exposure_amounts_of inventory xd m open_lots dust_lots present =
     (let open_qty = open_quantity_of xd m open_lots;
          dust_qty = dust_quantity_of inventory xd m open_lots dust_lots present;
          reserved_qty = fmin open_qty (fmax (Fin 0) (pinv_reserved_exit_qty inventory))
      in bind_py (implied_lot_size (ml_lot_size m) open_qty open_lots) (\<lambda>lot_size.
         bind_py (reserved_lots_of lot_size reserved_qty open_lots) (\<lambda>reserved_lots.
           Inr \<lparr>xq_total = total_quantity_of inventory open_qty dust_qty, xq_open = open_qty, xq_dust = dust_qty,
                xq_reserved = reserved_qty, xq_sellable = fmax (Fin 0) (fsub open_qty reserved_qty),
                xq_lot_size = lot_size, xq_open_lots = open_lots, xq_dust_lots = dust_lots,
                xq_reserved_lots = reserved_lots, xq_sellable_lots = max 0 (open_lots - reserved_lots)\<rparr>)))"

text \<open>Orders that block a recovery, as the display context counts them.\<close>

definition recovery_block_reason_of :: "int \<Rightarrow> int \<Rightarrow> string" where
  "recovery_block_reason_of unresolved recovery =
     (if 0 < recovery \<and> 0 < unresolved then ''recovery_required_and_unresolved_orders_present''
      else if 0 < recovery then ''recovery_required_present''
      else if 0 < unresolved then ''unresolved_orders_present''
      else ''none'')"

text \<open>How dust that is all that remains bears on a new entry.\<close>

record dust_operability =
  do_state :: string
  do_reason :: string
  do_boundary_qty :: pyfloat
  do_boundary_tolerance_qty :: pyfloat
  do_evidence_consistent :: bool

definition has_dust_only :: "exposure_amounts \<Rightarrow> bool" where
  "has_dust_only a \<longleftrightarrow> flt DUST_POSITION_EPS (xq_dust a) \<and> xq_open_lots a \<le> 0"

definition below_boundary_state :: string where
  "below_boundary_state = ''below_internal_lot_boundary_tracked_residue_entry_allowed''"

definition near_boundary_state :: string where
  "near_boundary_state = ''boundary_near_tracked_residue_entry_allowed''"

definition dust_operability_of ::
  "dust_display_context \<Rightarrow> exposure_amounts \<Rightarrow> pyfloat \<Rightarrow> bool \<Rightarrow> dust_operability" where
  "dust_operability_of x a boundary recovery_blocked =
     (let tolerance = boundary_near_residue_tolerance boundary;
          known = flt DUST_POSITION_EPS boundary;
          below = (has_dust_only a \<and> known \<and> flt (xq_dust a) boundary);
          near = (has_dust_only a \<and> known \<and> fle (xq_dust a) (fadd boundary tolerance));
          above = (has_dust_only a \<and> known \<and> fle boundary (xq_dust a));
          consistent = (has_dust_only a \<and> \<not> recovery_blocked \<and>
            dust_only_evidence_consistent_with_holdings x (xq_total a) (xq_dust a) tolerance);
          verdict =
            (if \<not> has_dust_only a then (''none'', ''no_dust_only_remainder'')
             else if below then
               (below_boundary_state,
                ''dust_tracking_qty_below_authoritative_lot_boundary_preserved_as_accounting_evidence'')
             else if near \<and> consistent then
               (near_boundary_state,
                ''dust_tracking_qty_within_authoritative_lot_boundary_tolerance_with_consistent_broker_local_portfolio_evidence'')
             else if above then
               (''tracked_dust_operator_review_required'', ''dust_tracking_qty_at_or_above_authoritative_lot_boundary'')
             else (''tracked_dust_operator_review_required'', ''dust_tracking_min_qty_unknown''))
      in \<lparr>do_state = fst verdict, do_reason = snd verdict, do_boundary_qty = boundary,
          do_boundary_tolerance_qty = tolerance, do_evidence_consistent = consistent\<rparr>)"

definition dust_operably_flat :: "dust_display_context \<Rightarrow> dust_operability \<Rightarrow> bool" where
  "dust_operably_flat x o' \<longleftrightarrow>
     do_state o' \<in> {below_boundary_state, near_boundary_state} \<and> dv_state (dx_operator_view x) \<noteq> BLOCKING_DUST"

definition exposure_entry_allowed :: "dust_display_context \<Rightarrow> exposure_amounts \<Rightarrow> dust_operability \<Rightarrow> bool" where
  "exposure_entry_allowed x a o' \<longleftrightarrow>
     fle (xq_total a) DUST_POSITION_EPS \<or> should_treat_as_flat_for_entry_gate (Some x) \<or> dust_operably_flat x o'"

definition exposure_entry_block_reason :: "exposure_amounts \<Rightarrow> bool \<Rightarrow> string" where
  "exposure_entry_block_reason a entry_allowed =
     (if entry_allowed then ''none''
      else if has_dust_only a then ''dust_only_remainder''
      else if flt DUST_POSITION_EPS (xq_total a) then
        (if xq_open_lots a \<le> 0 \<and> \<not> 0 < xq_sellable_lots a then ''legacy_lot_metadata_missing''
         else ''position_has_executable_exposure'')
      else ''none'')"

text \<open>Exit allowed, the reason why not, and the terminal state.\<close>

definition exposure_exit_verdict :: "exposure_amounts \<Rightarrow> string \<Rightarrow> bool \<times> string \<times> string" where
  "exposure_exit_verdict a non_executable_reason =
     (if 0 < xq_sellable_lots a then (True, ''none'', ''open_exposure'')
      else if 0 < xq_open_lots a \<and> flt DUST_POSITION_EPS (xq_reserved a) then
        (False, ''reserved_for_open_sell_orders'', ''reserved_exit_pending'')
      else if xq_open_lots a \<le> 0 \<and> flt DUST_POSITION_EPS (xq_dust a) then
        (False, ''dust_only_remainder'', ''dust_only'')
      else if fle (xq_total a) DUST_POSITION_EPS then (False, ''no_position'', ''flat'')
      else (False,
        if xq_open_lots a \<le> 0 then ''legacy_lot_metadata_missing''
        else or_str (Some non_executable_reason) ''no_executable_exit_lot'',
        ''non_executable_position''))"

record normalized_exposure_state =
  nx_raw_qty_open :: pyfloat
  nx_raw_total_asset_qty :: pyfloat
  nx_open_exposure_qty :: pyfloat
  nx_dust_tracking_qty :: pyfloat
  nx_reserved_exit_qty :: pyfloat
  nx_open_lot_count :: int
  nx_dust_tracking_lot_count :: int
  nx_reserved_exit_lot_count :: int
  nx_sellable_executable_lot_count :: int
  nx_sellable_executable_qty :: pyfloat
  nx_internal_lot_size :: pyfloat
  nx_effective_min_trade_qty :: pyfloat
  nx_exit_non_executable_reason :: string
  nx_dust_context :: dust_display_context
  nx_effective_flat :: bool
  nx_entry_allowed :: bool
  nx_entry_block_reason :: string
  nx_exit_allowed :: bool
  nx_exit_block_reason :: string
  nx_terminal_state :: string
  nx_normalized_exposure_active :: bool
  nx_has_executable_exposure :: bool
  nx_has_any_position_residue :: bool
  nx_has_non_executable_residue :: bool
  nx_has_dust_only_remainder :: bool
  nx_dust_operability :: dust_operability
  nx_recovery_blocked :: bool
  nx_recovery_block_reason :: string
  nx_unresolved_order_count :: int
  nx_recovery_required_count :: int
  nx_normalized_exposure_qty :: pyfloat

text \<open>The verdicts on the amounts; \<open>unresolved\<close> and \<open>recovery\<close> count the orders.\<close>

definition exposure_of_amounts ::
  "pyfloat \<Rightarrow> executable_lot \<Rightarrow> dust_display_context \<Rightarrow> pyfloat \<Rightarrow> exposure_amounts \<Rightarrow> int \<Rightarrow> int \<Rightarrow>
   normalized_exposure_state" where
  "exposure_of_amounts raw_qty lot x boundary a unresolved recovery =
     (let recovery_blocked = (0 < unresolved \<or> 0 < recovery);
          o' = dust_operability_of x a boundary recovery_blocked;
          residue = flt DUST_POSITION_EPS (xq_total a);
          executable = (0 < xq_sellable_lots a);
          entry_allowed = exposure_entry_allowed x a o'
      in case exposure_exit_verdict a (el_exit_non_executable_reason lot) of (exit_allowed, exit_reason, terminal) \<Rightarrow>
        \<lparr>nx_raw_qty_open = raw_qty, nx_raw_total_asset_qty = xq_total a, nx_open_exposure_qty = xq_open a,
         nx_dust_tracking_qty = xq_dust a, nx_reserved_exit_qty = xq_reserved a,
         nx_open_lot_count = xq_open_lots a, nx_dust_tracking_lot_count = xq_dust_lots a,
         nx_reserved_exit_lot_count = xq_reserved_lots a, nx_sellable_executable_lot_count = xq_sellable_lots a,
         nx_sellable_executable_qty = xq_sellable a, nx_internal_lot_size = xq_lot_size a,
         nx_effective_min_trade_qty = el_effective_min_trade_qty lot,
         nx_exit_non_executable_reason = el_exit_non_executable_reason lot,
         nx_dust_context = x,
         nx_effective_flat = (fle (xq_total a) DUST_POSITION_EPS \<or> entry_allowed),
         nx_entry_allowed = entry_allowed,
         nx_entry_block_reason = exposure_entry_block_reason a entry_allowed,
         nx_exit_allowed = exit_allowed, nx_exit_block_reason = exit_reason, nx_terminal_state = terminal,
         nx_normalized_exposure_active = (0 < xq_open_lots a \<or> 0 < xq_reserved_lots a),
         nx_has_executable_exposure = executable,
         nx_has_any_position_residue = residue,
         nx_has_non_executable_residue = (residue \<and> \<not> executable),
         nx_has_dust_only_remainder = has_dust_only a,
         nx_dust_operability = o',
         nx_recovery_blocked = recovery_blocked,
         nx_recovery_block_reason = recovery_block_reason_of unresolved recovery,
         nx_unresolved_order_count = unresolved, nx_recovery_required_count = recovery,
         nx_normalized_exposure_qty = (if executable then xq_sellable a else Fin 0)\<rparr>)"

record position_quantities =
  pq_raw_qty_open :: pyfloat
  pq_raw_total_asset_qty :: "pyfloat option"
  pq_open_exposure_qty :: "pyfloat option"
  pq_dust_tracking_qty :: "pyfloat option"
  pq_reserved_exit_qty :: "pyfloat option"
  pq_open_lot_count :: "int option"
  pq_dust_tracking_lot_count :: "int option"
  pq_internal_lot_size :: "pyfloat option"

definition lot_count_of :: "int option \<Rightarrow> int" where
  "lot_count_of n = max 0 (or_zero_int n)"

definition build_normalized_exposure ::
  "position_quantities \<Rightarrow> position_rules \<Rightarrow> dust_display_context \<Rightarrow> normalized_exposure_state py" where
  "build_normalized_exposure q r x =
     (let internal = nonneg_or (Fin 0) (pq_internal_lot_size q);
          inventory = normalize_position_inventory (pq_raw_qty_open q) (pq_raw_total_asset_qty q)
            (pq_open_exposure_qty q) (pq_dust_tracking_qty q) (pq_reserved_exit_qty q)
      in bind_py (position_lot_rules r internal) (\<lambda>m.
         bind_py (derive_executable_open_exposure inventory r) (\<lambda>xd.
         bind_py (exposure_amounts_of inventory xd m (lot_count_of (pq_open_lot_count q))
           (lot_count_of (pq_dust_tracking_lot_count q)) (du_present (dx_classification x))) (\<lambda>a.
         bind_py (count_field (dx_fields x) ''unresolved_open_order_count'') (\<lambda>unresolved.
         bind_py (count_field (dx_fields x) ''recovery_required_count'') (\<lambda>recovery.
           Inr (exposure_of_amounts (pinv_raw_qty_open inventory) (xd_executable_lot xd) x
             (fmax (nonneg_or (Fin 0) (pr_min_qty r)) internal) a unresolved recovery)))))))"

subsection \<open>Lot states\<close>

definition OPEN_EXPOSURE_LOT_STATE :: string where
  "OPEN_EXPOSURE_LOT_STATE = ''open_exposure''"

definition DUST_TRACKING_LOT_STATE :: string where
  "DUST_TRACKING_LOT_STATE = ''dust_tracking''"

definition LOT_STATE_QUANTITY_CONTRACT :: "(string \<times> pydict) list" where
  "LOT_STATE_QUANTITY_CONTRACT =
     [(OPEN_EXPOSURE_LOT_STATE,
       [(''meaning'', VStr ''real strategy-visible position''),
        (''strategy_qty_source'', VStr ''open_exposure_qty''),
        (''strategy_lot_source'', VStr ''open_lot_count''),
        (''sell_submit_qty_source'', VStr ''position_state.normalized_exposure.sellable_executable_qty''),
        (''sell_submit_lot_source'', VStr ''position_state.normalized_exposure.sellable_executable_lot_count''),
        (''sell_submission_allowed'', VBool True),
        (''sell_submit_includes_dust_tracking'', VBool False),
        (''qty_boundary_rule'', VStr ''qty_open >= min_qty remains open_exposure; SELL sizing consumes sellable_executable_qty from normalized state''),
        (''operator_tracking_only'', VBool False)]),
      (DUST_TRACKING_LOT_STATE,
       [(''meaning'', VStr ''operator tracking residual''),
        (''strategy_qty_source'', VStr ''dust_tracking_qty''),
        (''strategy_lot_source'', VStr ''dust_tracking_lot_count''),
        (''sell_submit_qty_source'', VStr ''excluded_from_sell_qty''),
        (''sell_submit_lot_source'', VStr ''excluded_from_sell_lot_count''),
        (''sell_submission_allowed'', VBool False),
        (''sell_submit_includes_dust_tracking'', VBool False),
        (''qty_boundary_rule'', VStr ''qty_open < min_qty is tracked here; SELL submission excludes dust_tracking by default''),
        (''operator_tracking_only'', VBool True)])]"

definition lot_state_quantity_rule :: "string \<Rightarrow> pydict" where
  "lot_state_quantity_rule position_state =
     (case map_of LOT_STATE_QUANTITY_CONTRACT (py_strip position_state) of
        Some contract \<Rightarrow> contract
      | None \<Rightarrow>
          [(''meaning'', VStr ''unknown lot state''),
           (''strategy_qty_source'', VStr ''unknown''),
           (''strategy_lot_source'', VStr ''unknown''),
           (''sell_submit_qty_source'', VStr ''excluded_from_sell_qty''),
           (''sell_submit_lot_source'', VStr ''excluded_from_sell_lot_count''),
           (''sell_submission_allowed'', VBool False),
           (''sell_submit_includes_dust_tracking'', VBool False),
           (''qty_boundary_rule'', VStr ''unknown lot state is not sellable''),
           (''operator_tracking_only'', VBool False)])"

definition lot_state_strategy_qty_source :: "string \<Rightarrow> string" where
  "lot_state_strategy_qty_source s = py_str (dget (lot_state_quantity_rule s) ''strategy_qty_source'')"

definition lot_state_strategy_lot_source :: "string \<Rightarrow> string" where
  "lot_state_strategy_lot_source s = py_str (dget (lot_state_quantity_rule s) ''strategy_lot_source'')"

definition lot_state_sell_submit_qty_source :: "string \<Rightarrow> string" where
  "lot_state_sell_submit_qty_source s = py_str (dget (lot_state_quantity_rule s) ''sell_submit_qty_source'')"

definition lot_state_sell_submit_lot_source :: "string \<Rightarrow> string" where
  "lot_state_sell_submit_lot_source s = py_str (dget (lot_state_quantity_rule s) ''sell_submit_lot_source'')"

definition lot_state_sell_submission_allowed :: "string \<Rightarrow> bool" where
  "lot_state_sell_submission_allowed s = truthy (dget (lot_state_quantity_rule s) ''sell_submission_allowed'')"

definition lot_state_sell_submit_includes_dust_tracking :: "string \<Rightarrow> bool" where
  "lot_state_sell_submit_includes_dust_tracking s =
     truthy (dget (lot_state_quantity_rule s) ''sell_submit_includes_dust_tracking'')"

definition lot_state_qty_boundary_rule :: "string \<Rightarrow> string" where
  "lot_state_qty_boundary_rule s = py_str (dget (lot_state_quantity_rule s) ''qty_boundary_rule'')"

subsection \<open>What the exposure reports of itself\<close>

definition authority_gap_reason :: "normalized_exposure_state \<Rightarrow> string" where
  "authority_gap_reason n =
     (if nx_terminal_state n = ''non_executable_position'' \<and>
         nx_exit_block_reason n = ''legacy_lot_metadata_missing'' \<and>
         flt DUST_POSITION_EPS (nx_raw_total_asset_qty n) \<and> nx_open_lot_count n \<le> 0 \<and>
         nx_dust_tracking_lot_count n \<le> 0 \<and> fle (nx_dust_tracking_qty n) DUST_POSITION_EPS
      then ''authority_missing_recovery_required'' else ''none'')"

definition position_authority_summary :: "normalized_exposure_state \<Rightarrow> string" where
  "position_authority_summary n =
     ''holding_authority_state='' @ nx_terminal_state n @
     '' recovery_blocked='' @ flag (nx_recovery_blocked n) @
     '' recovery_block_reason='' @ nx_recovery_block_reason n @
     '' has_executable_exposure='' @ flag (nx_has_executable_exposure n) @
     '' has_dust_only_remainder='' @ flag (nx_has_dust_only_remainder n) @
     '' sellable_executable_lot_count='' @ py_str (VInt (nx_sellable_executable_lot_count n)) @
     (if authority_gap_reason n \<noteq> ''none'' then '' authority_gap_reason='' @ authority_gap_reason n else [])"

definition normalized_exposure_as_dict :: "normalized_exposure_state \<Rightarrow> pydict" where
  "normalized_exposure_as_dict n =
     (let x = nx_dust_context n; view = dx_operator_view x; o' = nx_dust_operability n;
          lot_source = VStr (lot_state_sell_submit_lot_source OPEN_EXPOSURE_LOT_STATE);
          harmless_flat = VBool (effective_flat_due_to_harmless_dust x)
      in [(''semantic_basis'', VStr ''lot-native''),
          (''raw_qty_open'', VFloat (nx_raw_qty_open n)),
          (''raw_total_asset_qty'', VFloat (nx_raw_total_asset_qty n)),
          (''total_holdings_qty'', VFloat (nx_raw_total_asset_qty n)),
          (''open_exposure_qty'', VFloat (nx_open_exposure_qty n)),
          (''executable_exposure_qty'', VFloat (nx_normalized_exposure_qty n)),
          (''open_exposure_lot_count'', VInt (nx_open_lot_count n)),
          (''dust_tracking_qty'', VFloat (nx_dust_tracking_qty n)),
          (''dust_remainder_lot_count'', VInt (nx_dust_tracking_lot_count n)),
          (''reserved_exit_qty'', VFloat (nx_reserved_exit_qty n)),
          (''open_lot_count'', VInt (nx_open_lot_count n)),
          (''dust_tracking_lot_count'', VInt (nx_dust_tracking_lot_count n)),
          (''reserved_exit_lot_count'', VInt (nx_reserved_exit_lot_count n)),
          (''sellable_executable_lot_count'', VInt (nx_sellable_executable_lot_count n)),
          (''submit_lot_count'', VInt (nx_sellable_executable_lot_count n)),
          (''position_state_lot_count'', VInt (nx_sellable_executable_lot_count n)),
          (''sellable_executable_qty'', VFloat (nx_sellable_executable_qty n)),
          (''internal_lot_size'', VFloat (nx_internal_lot_size n)),
          (''effective_min_trade_qty'', VFloat (nx_effective_min_trade_qty n)),
          (''exit_non_executable_reason'', VStr (nx_exit_non_executable_reason n)),
          (''dust_classification'', VStr (du_classification (dx_classification x))),
          (''dust_state'', VStr (dv_state view)),
          (''effective_flat'', VBool (nx_effective_flat n)),
          (''entry_gate_effective_flat'', VBool (nx_effective_flat n)),
          (''entry_allowed'', VBool (nx_entry_allowed n)),
          (''entry_block_reason'', VStr (nx_entry_block_reason n)),
          (''exit_allowed'', VBool (nx_exit_allowed n)),
          (''exit_block_reason'', VStr (nx_exit_block_reason n)),
          (''terminal_state'', VStr (nx_terminal_state n)),
          (''holding_authority_state'', VStr (nx_terminal_state n)),
          (''position_authority_summary'', VStr (position_authority_summary n)),
          (''harmless_dust_effective_flat'', harmless_flat),
          (''effective_flat_due_to_harmless_dust'', harmless_flat),
          (''normalized_exposure_active'', VBool (nx_normalized_exposure_active n)),
          (''has_executable_exposure'', VBool (nx_has_executable_exposure n)),
          (''has_any_position_residue'', VBool (nx_has_any_position_residue n)),
          (''has_non_executable_residue'', VBool (nx_has_non_executable_residue n)),
          (''has_dust_only_remainder'', VBool (nx_has_dust_only_remainder n)),
          (''dust_operability_state'', VStr (do_state o')),
          (''dust_operability_reason'', VStr (do_reason o')),
          (''dust_operability_boundary_qty'', VFloat (do_boundary_qty o')),
          (''dust_operability_boundary_tolerance_qty'', VFloat (do_boundary_tolerance_qty o')),
          (''dust_operability_evidence_consistent'', VBool (do_evidence_consistent o')),
          (''authority_gap_reason'', VStr (authority_gap_reason n)),
          (''recovery_blocked'', VBool (nx_recovery_blocked n)),
          (''recovery_block_reason'', VStr (nx_recovery_block_reason n)),
          (''unresolved_order_count'', VInt (nx_unresolved_order_count n)),
          (''recovery_required_count'', VInt (nx_recovery_required_count n)),
          (''normalized_exposure_qty'', VFloat (nx_normalized_exposure_qty n)),
          (''submit_lot_source'', lot_source),
          (''position_state_lot_source'', lot_source),
          (''dust_new_orders_allowed'', VBool (dv_new_orders_allowed view)),
          (''dust_resume_allowed'', VBool (dv_resume_allowed view)),
          (''dust_treat_as_flat'', VBool (dv_treat_as_flat view)),
          (''sell_submit_qty'', VFloat (nx_sellable_executable_qty n)),
          (''sell_submit_qty_source'', VStr (lot_state_sell_submit_qty_source OPEN_EXPOSURE_LOT_STATE)),
          (''sell_submit_lot_source'', lot_source)])"

subsection \<open>The position state model\<close>

record position_state_interpretation =
  si_lifecycle_state :: string
  si_lifecycle_label :: string
  si_operator_outcome :: string
  si_operator_message :: string
  si_entry_status :: string
  si_exit_status :: string
  si_exit_submit_expected :: bool

definition interpretation_as_dict :: "position_state_interpretation \<Rightarrow> pydict" where
  "interpretation_as_dict i =
     [(''lifecycle_state'', VStr (si_lifecycle_state i)), (''lifecycle_label'', VStr (si_lifecycle_label i)),
      (''operator_outcome'', VStr (si_operator_outcome i)), (''operator_message'', VStr (si_operator_message i)),
      (''entry_status'', VStr (si_entry_status i)), (''exit_status'', VStr (si_exit_status i)),
      (''exit_submit_expected'', VBool (si_exit_submit_expected i))]"

definition lifecycle_label_map :: "(string \<times> string) list" where
  "lifecycle_label_map =
     [(''flat'', ''flat position''),
      (''open_exposure'', ''open executable exposure''),
      (''reserved_exit_pending'', ''exit inventory reserved by open sell orders''),
      (''dust_only'', ''tracked unsellable residual''),
      (''non_executable_position'', ''non-executable open exposure'')]"

definition operator_outcome_map :: "(string \<times> string) list" where
  "operator_outcome_map =
     [(''flat'', ''flat_no_position''),
      (''open_exposure'', ''executable_open_exposure''),
      (''reserved_exit_pending'', ''reserved_exit_pending''),
      (''dust_only'', ''tracked_unsellable_residual''),
      (''non_executable_position'', ''non_executable_open_exposure'')]"

definition operator_message_map :: "(string \<times> string) list" where
  "operator_message_map =
     [(''flat'', ''No position remains in the shared state model.''),
      (''open_exposure'', ''Executable open exposure remains available as sellable lots for a normal SELL path.''),
      (''reserved_exit_pending'', ''Executable exposure exists, but the sellable lots are already reserved by open SELL orders.''),
      (''dust_only'', ''Residual holdings are tracked as dust lots at the state layer, so exit is a HOLD/no-submit outcome rather than a submit failure.''),
      (''non_executable_position'', ''Residual open exposure remains in state, but exchange constraints make the lots non-executable until operator review or state changes.'')]"

definition lookup_or :: "(string \<times> string) list \<Rightarrow> string \<Rightarrow> string \<Rightarrow> string" where
  "lookup_or m k dflt = (case map_of m k of Some v \<Rightarrow> v | None \<Rightarrow> dflt)"

definition build_position_state_interpretation :: "normalized_exposure_state \<Rightarrow> position_state_interpretation" where
  "build_position_state_interpretation n =
     (let terminal_state = or_str (Some (nx_terminal_state n)) ''unknown''
      in \<lparr>si_lifecycle_state = terminal_state,
          si_lifecycle_label = lookup_or lifecycle_label_map terminal_state (map (\<lambda>c. if c = CHR ''_'' then CHR '' '' else c) terminal_state),
          si_operator_outcome = lookup_or operator_outcome_map terminal_state terminal_state,
          si_operator_message =
            (if authority_gap_reason n = ''authority_missing_recovery_required'' then
               ''Holdings remain, but lot authority is missing, so SELL stays blocked '' @
               ''and manual recovery is required before execution can continue.''
             else lookup_or operator_message_map terminal_state
               ''Shared state requires operator review before execution can continue.''),
          si_entry_status = (if nx_entry_allowed n then ''allowed'' else ''blocked:'' @ nx_entry_block_reason n),
          si_exit_status = (if nx_exit_allowed n then ''allowed'' else ''blocked:'' @ nx_exit_block_reason n),
          si_exit_submit_expected = nx_exit_allowed n\<rparr>)"

definition diagnostics_dict :: "dust_operator_view \<Rightarrow> pydict" where
  "diagnostics_dict v =
     [(''state'', VStr (dv_state v)), (''state_label'', VStr (dv_state_label v)),
      (''operator_action'', VStr (dv_operator_action v)), (''operator_message'', VStr (dv_operator_message v)),
      (''broker_local_match'', VBool (dv_broker_local_match v)),
      (''new_orders_allowed'', VBool (dv_new_orders_allowed v)),
      (''resume_allowed'', VBool (dv_resume_allowed v)),
      (''treat_as_flat'', VBool (dv_treat_as_flat v))]"

definition build_position_state_fields ::
  "dust_display_context \<Rightarrow> normalized_exposure_state \<Rightarrow> position_state_interpretation \<Rightarrow> pydict" where
  "build_position_state_fields x n i =
     dmerge (dmerge (dx_fields x) (normalized_exposure_as_dict n))
       [(''raw_holdings'', VDict (raw_holdings_as_dict (dx_classification x))),
        (''normalized_exposure'', VDict (normalized_exposure_as_dict n)),
        (''operator_diagnostics'', VDict (diagnostics_dict (dx_operator_view x))),
        (''state_interpretation'', VDict (interpretation_as_dict i)),
        (''raw_qty_open'', VFloat (nx_raw_qty_open n)),
        (''raw_total_asset_qty'', VFloat (nx_raw_total_asset_qty n)),
        (''total_holdings_qty'', VFloat (nx_raw_total_asset_qty n)),
        (''open_exposure_qty'', VFloat (nx_open_exposure_qty n)),
        (''dust_tracking_qty'', VFloat (nx_dust_tracking_qty n)),
        (''reserved_exit_qty'', VFloat (nx_reserved_exit_qty n)),
        (''open_lot_count'', VInt (nx_open_lot_count n)),
        (''dust_tracking_lot_count'', VInt (nx_dust_tracking_lot_count n)),
        (''reserved_exit_lot_count'', VInt (nx_reserved_exit_lot_count n)),
        (''sellable_executable_lot_count'', VInt (nx_sellable_executable_lot_count n)),
        (''sellable_executable_qty'', VFloat (nx_sellable_executable_qty n)),
        (''internal_lot_size'', VFloat (nx_internal_lot_size n))]"

record position_state_model =
  psm_raw_holdings :: dust_classification
  psm_normalized_exposure :: normalized_exposure_state
  psm_operator_diagnostics :: dust_operator_view
  psm_state_interpretation :: position_state_interpretation
  psm_fields :: pydict

definition build_position_state_model ::
  "position_quantities \<Rightarrow> position_rules \<Rightarrow> metadata_source \<Rightarrow> position_state_model py" where
  "build_position_state_model q r metadata_raw =
     bind_py (resolve_position_display_context metadata_raw) (\<lambda>x.
     bind_py (build_normalized_exposure q r x) (\<lambda>n.
       let i = build_position_state_interpretation n
       in Inr \<lparr>psm_raw_holdings = dx_classification x, psm_normalized_exposure = n,
            psm_operator_diagnostics = dx_operator_view x, psm_state_interpretation = i,
            psm_fields = build_position_state_fields x n i\<rparr>))"

definition position_state_model_as_dict :: "position_state_model \<Rightarrow> pydict" where
  "position_state_model_as_dict p =
     (let n = psm_normalized_exposure p; v = psm_operator_diagnostics p;
          lot_source = VStr (lot_state_sell_submit_lot_source OPEN_EXPOSURE_LOT_STATE)
      in [(''semantic_basis'', VStr ''lot-native''),
          (''raw_holdings'', VDict (raw_holdings_as_dict (psm_raw_holdings p))),
          (''normalized_exposure'', VDict (normalized_exposure_as_dict n)),
          (''operator_diagnostics'', VDict (diagnostics_dict v @ [(''compact_summary'', VStr (view_compact_summary v))])),
          (''state_interpretation'', VDict (interpretation_as_dict (psm_state_interpretation p))),
          (''raw_qty_open'', VFloat (nx_raw_qty_open n)),
          (''raw_total_asset_qty'', VFloat (nx_raw_total_asset_qty n)),
          (''open_exposure_lot_count'', VInt (nx_open_lot_count n)),
          (''dust_remainder_lot_count'', VInt (nx_dust_tracking_lot_count n)),
          (''sellable_executable_lot_count'', VInt (nx_sellable_executable_lot_count n)),
          (''submit_lot_count'', VInt (nx_sellable_executable_lot_count n)),
          (''position_state_lot_count'', VInt (nx_sellable_executable_lot_count n)),
          (''submit_lot_source'', lot_source), (''position_state_lot_source'', lot_source),
          (''effective_flat'', VBool (nx_effective_flat n)),
          (''entry_gate_effective_flat'', VBool (nx_effective_flat n)),
          (''effective_flat_due_to_harmless_dust'', VBool (effective_flat_due_to_harmless_dust (nx_dust_context n))),
          (''holding_authority_state'', VStr (nx_terminal_state n)),
          (''fields'', VDict (psm_fields p))])"

end
