(* ===== verification/Reconcile_Metadata.thy ===== *)
theory Reconcile_Metadata
  imports Py_Value
begin

text \<open>
  How the runtime state stores the metadata of a reconciliation
  (\<open>src/src/operation/runtime_state.py\<close>): as JSON text of limited length. Long texts are clipped
  first, then keys are dropped: in their order those that are not protected, and after them the
  protected ones from the last to the first.
\<close>

definition HEALTH_SUMMARY_MAX_LEN :: nat where
  "HEALTH_SUMMARY_MAX_LEN = 2400"

definition RECONCILE_METADATA_PRESERVE_KEYS :: "string list" where
  "RECONCILE_METADATA_PRESERVE_KEYS =
     [''balance_authority'', ''unresolved_open_order_count'', ''submit_unknown_count'',
      ''recovery_required_count'', ''remote_open_order_found'', ''missing_base_full_closeout_allowed'',
      ''missing_base_full_closeout_reason'', ''broker_cash_truth'', ''broker_position_truth'',
      ''resume_recovery_safety_gate'', ''order_sizing'', ''simulation_balance'',
      ''simulation_balance_source'', ''accounts_v1_cash'', ''accounts_v1_asset_qty'',
      ''accounts_v1_preflight_outcome'', ''dry_run_static_cash'', ''base_currency_missing_policy'',
      ''balance_source'', ''balance_observed_ts_ms'', ''balance_asset_ts_ms'', ''balance_source_stale'',
      ''balance_source_quote_currency'', ''balance_source_base_currency'', ''broker_asset_qty'',
      ''broker_asset_available'', ''broker_asset_locked'', ''broker_cash_available'',
      ''broker_cash_locked'', ''broker_read_journal'', ''balance_split_mismatch_count'',
      ''balance_split_mismatch_summary'', ''external_cash_adjustment_count'',
      ''external_cash_adjustment_delta_krw'', ''external_cash_adjustment_total_krw'',
      ''external_cash_adjustment_event_ts'', ''external_cash_adjustment_created'',
      ''external_cash_adjustment_key'', ''external_cash_adjustment_reason'',
      ''external_cash_adjustment_residual_krw'', ''material_zero_fee_fill_count'',
      ''material_zero_fee_fill_notional_krw'', ''material_zero_fee_fill_latest_ts'',
      ''fee_gap_recovery_required'', ''observed_fill_count'', ''fee_pending_fill_count'',
      ''fee_pending_recovery_required'', ''fee_pending_auto_recovering'',
      ''fee_pending_latest_fill_ts'', ''fee_pending_latest_fee_status'', ''fee_pending_latest_fill_id'',
      ''fee_pending_operator_next_action'', ''unaccounted_fee_pending_observation_count'',
      ''unaccounted_fee_pending_latest_event_ts'', ''unaccounted_fee_pending_latest_fill_ts'',
      ''unaccounted_fee_pending_latest_fill_id'', ''unaccounted_fee_pending_latest_fee_status'',
      ''portfolio_projection_update_deferred_reason'', ''fee_gap_adjustment_count'',
      ''fee_gap_adjustment_total_krw'', ''fee_gap_adjustment_latest_event_ts'', ''dust_state'',
      ''dust_classification'', ''dust_residual_present'', ''dust_residual_allow_resume'',
      ''dust_policy_reason'', ''dust_residual_summary'', ''dust_state_label'', ''dust_effective_flat'',
      ''dust_partial_flatten_recent'', ''dust_partial_flatten_reason'', ''dust_qty_gap_tolerance'',
      ''dust_qty_gap_small'', ''dust_broker_qty'', ''dust_local_qty'', ''dust_delta_qty'',
      ''dust_min_qty'', ''dust_min_notional_krw'', ''dust_latest_price'', ''dust_broker_notional_krw'',
      ''dust_local_notional_krw'', ''dust_broker_qty_is_dust'', ''dust_local_qty_is_dust'',
      ''dust_broker_notional_is_dust'', ''dust_local_notional_is_dust'', ''recovery_disposition'',
      ''recovery_progress_state'', ''recovery_classification_reason'']"

text \<open>\<open>json.dumps(d, ensure_ascii=False, sort_keys=True)\<close>\<close>

definition json_text :: "pydict \<Rightarrow> string" where
  "json_text d = json_dumps False '', '' '': '' (VDict d)"

definition clip_text :: "pyval \<Rightarrow> pyval" where
  "clip_text v = (case v of VStr s \<Rightarrow> VStr (take 160 s) | _ \<Rightarrow> v)"

definition drop_key :: "string \<Rightarrow> pydict \<Rightarrow> pydict" where
  "drop_key k d = filter (\<lambda>(k', _). k' \<noteq> k) d"

text \<open>Drop keys until the text fits; whether it does.\<close>

fun drop_until_fits :: "nat \<Rightarrow> string list \<Rightarrow> pydict \<Rightarrow> bool \<times> pydict" where
  "drop_until_fits max_len [] d = (False, d)"
| "drop_until_fits max_len (k # ks) d =
     (if \<not> dhas d k then drop_until_fits max_len ks d
      else if length (json_text (drop_key k d)) \<le> max_len then (True, drop_key k d)
      else drop_until_fits max_len ks (drop_key k d))"

text \<open>The part of the payload that is encoded.\<close>

definition size_limited_payload :: "nat \<Rightarrow> string list \<Rightarrow> pydict \<Rightarrow> pydict" where
  "size_limited_payload max_len preserve_keys payload =
     (if length (json_text payload) \<le> max_len then payload
      else let compact = map (\<lambda>(k, v). (k, clip_text v)) payload
        in if length (json_text compact) \<le> max_len then compact
           else case drop_until_fits max_len
               (filter (\<lambda>k. k \<notin> set preserve_keys) (sort (map fst compact))) compact of
               (True, d) \<Rightarrow> d
             | (False, d) \<Rightarrow>
                 (case drop_until_fits max_len (rev preserve_keys) d of
                    (True, d') \<Rightarrow> d' | (False, _) \<Rightarrow> []))"

definition json_with_size_limit :: "pydict option \<Rightarrow> nat \<Rightarrow> string list \<Rightarrow> string option" where
  "json_with_size_limit payload max_len preserve_keys =
     map_option (\<lambda>p. json_text (size_limited_payload max_len preserve_keys p)) payload"

text \<open>What a later reader decodes from the state.\<close>

definition stored_reconcile_metadata :: "pydict \<Rightarrow> pydict" where
  "stored_reconcile_metadata m =
     size_limited_payload HEALTH_SUMMARY_MAX_LEN RECONCILE_METADATA_PRESERVE_KEYS m"

subsection \<open>What is dropped\<close>

lemma dget_filter_keys: "dget (filter (\<lambda>(k', _). k' \<notin> S) d) k = (if k \<in> S then VNone else dget d k)"
  by (induction d) (auto simp: dget_def)

lemma dhas_filter_keys: "dhas (filter (\<lambda>(k', _). k' \<notin> S) d) k \<longleftrightarrow> k \<notin> S \<and> dhas d k"
  by (induction d) (auto simp: dhas_def)

lemma dropped_keys:
  assumes "drop_until_fits n ks d = (b, d')"
  shows "\<exists>i. d' = filter (\<lambda>(k, _). k \<notin> set (take i ks)) d \<and> (\<not> b \<longrightarrow> i = length ks) \<and> (b \<longrightarrow> length (json_text d') \<le> n)"
  using assms
proof (induction n ks d rule: drop_until_fits.induct)
  case (1 n d)
  then show ?case by simp
next
  case (2 n k ks d)
  have gone: "filter (\<lambda>(k', _). k' \<notin> set (take (Suc i) (k # ks))) d = filter (\<lambda>(k', _). k' \<notin> set (take i ks)) (drop_key k d)" for i
    by (auto simp: drop_key_def intro: filter_cong)
  show ?case
  proof (cases "dhas d k")
    case False
    then have "drop_key k d = d" by (force simp: drop_key_def dhas_def map_of_eq_None_iff filter_id_conv)
    then show ?thesis using 2 False gone by (metis drop_until_fits.simps(2) length_Cons)
  next
    case True
    show ?thesis
    proof (cases "length (json_text (drop_key k d)) \<le> n")
      case fits: True
      then have "d' = drop_key k d" "b" using 2(3) True by auto
      then show ?thesis using fits gone [of 0] by (intro exI [of _ 1]) simp
    next
      case False
      then show ?thesis using 2 True gone by (metis drop_until_fits.simps(2) length_Cons)
    qed
  qed
qed

lemma unprotected_dropped:
  "filter (\<lambda>(k, _). k \<notin> set (filter (\<lambda>k. k \<notin> set ps) (sort (map fst c)))) c = filter (\<lambda>(k, _). k \<notin> - set ps) c"
  by (rule filter_cong) force+

text \<open>
  The stored part is the payload, perhaps with its texts clipped, without the dropped keys:
  none, some unprotected ones, or all unprotected ones and the last protected ones.
\<close>

lemma size_limited_shape:
  obtains f S where "f = id \<or> f = clip_text"
    "size_limited_payload n ps m = filter (\<lambda>(k, _). k \<notin> S) (map (\<lambda>(k, v). (k, f v)) m)"
    "S \<inter> set ps = {} \<or> (\<exists>i. S = - set ps \<union> set (take i (rev ps)))"
proof -
  let ?c = "map (\<lambda>(k, v). (k, clip_text v)) m"
  let ?us = "filter (\<lambda>k. k \<notin> set ps) (sort (map fst ?c))"
  consider "length (json_text m) \<le> n" | "\<not> length (json_text m) \<le> n" "length (json_text ?c) \<le> n"
    | "\<not> length (json_text m) \<le> n" "\<not> length (json_text ?c) \<le> n" by blast
  then show thesis
  proof cases
    case 1
    have "map (\<lambda>(k, v). (k, id v)) m = m" by (induction m) auto
    then show ?thesis using 1 that [of id "{}"] by (simp add: size_limited_payload_def)
  next
    case 2
    then show ?thesis using that [of clip_text "{}"] by (simp add: size_limited_payload_def Let_def)
  next
    case 3
    obtain b d where bd: "drop_until_fits n ?us ?c = (b, d)" by fastforce
    obtain i where i: "d = filter (\<lambda>(k, _). k \<notin> set (take i ?us)) ?c" "\<not> b \<longrightarrow> i = length ?us"
      using dropped_keys [OF bd] by blast
    show ?thesis
    proof (cases b)
      case True
      have "set (take i ?us) \<inter> set ps = {}" by (auto dest!: in_set_takeD)
      then show ?thesis using 3 bd True i that [of clip_text "set (take i ?us)"] by (simp add: size_limited_payload_def Let_def)
    next
      case False
      obtain b' d' where bd': "drop_until_fits n (rev ps) d = (b', d')" by fastforce
      obtain j where j: "d' = filter (\<lambda>(k, _). k \<notin> set (take j (rev ps))) d" "\<not> b' \<longrightarrow> j = length (rev ps)"
        using dropped_keys [OF bd'] by blast
      have d: "d = filter (\<lambda>(k, _). k \<notin> - set ps) ?c" 
        using i False unprotected_dropped [of ps ?c] by simp
      have "size_limited_payload n ps m = filter (\<lambda>(k, _). k \<notin> - set ps \<union> set (take (if b' then j else length ps) (rev ps))) ?c"
        using 3 bd bd' False j d by (auto simp: size_limited_payload_def Let_def intro!: filter_cong filter_False)
      then show ?thesis using that [of clip_text] by blast
    qed
  qed
qed

text \<open>
  Stored metadata is never longer than the limit, so that the clipping of the column it is
  written to never cuts a JSON text in two.
\<close>

theorem size_limit_respected:
  assumes "json_with_size_limit payload max_len preserve_keys = Some encoded" and "2 \<le> max_len"
  shows "length encoded \<le> max_len"
proof -
  obtain m where m: "payload = Some m" "encoded = json_text (size_limited_payload max_len preserve_keys m)"
    using assms(1) by (auto simp: json_with_size_limit_def)
  have empty: "length (json_text []) \<le> max_len" using assms(2) by (simp add: json_text_def)
  show ?thesis
    unfolding m(2) using dropped_keys empty
    by (fastforce simp: size_limited_payload_def Let_def split: prod.splits bool.splits)
qed

theorem size_limit_respected_witness:
  "\<exists>encoded. json_with_size_limit (Some [(''a'', VInt 1)]) 5 [] = Some encoded \<and> length encoded \<le> 5"
  using size_limit_respected [of "Some [(''a'', VInt 1)]" 5 "[]"] by (simp add: json_with_size_limit_def)

end
