(* ===== verification/Reconcile_Dust.thy ===== *)
theory Reconcile_Dust
  imports Dust_Classification Order_Store
begin

text \<open>
  The evaluation of residual dust during a reconciliation
  (\<open>_evaluate_dust_residual_policy\<close> and its helpers in \<open>src/src/operation/recovery.py\<close>): the orders of
  the store are counted, the holdings of broker and books classified. The order rules (absent
  when they cannot be resolved), the latest price and the trigger of a flatten are arguments.
\<close>

definition ASSET_SPLIT_ABS_TOL :: pyfloat where
  "ASSET_SPLIT_ABS_TOL = lit 1 (-10)"

definition RECENT_FLATTEN_WINDOW_SEC :: pyfloat where
  "RECENT_FLATTEN_WINDOW_SEC = Fin 600"

definition is_partial_flatten_recent :: "pyfloat \<Rightarrow> string option \<Rightarrow> pyfloat option \<Rightarrow> string \<Rightarrow> bool \<times> string" where
  "is_partial_flatten_recent now_sec status flatten_ts trigger =
     (case flatten_ts of
        None \<Rightarrow> (False, ''flatten_not_recent'')
      | Some ts \<Rightarrow>
          if py_strip (or_str status []) \<noteq> ''submitted'' then (False, ''flatten_not_recent'')
          else let age_sec = fmax (Fin 0) (fsub now_sec ts)
            in if flt RECENT_FLATTEN_WINDOW_SEC age_sec
               then (False, ''flatten_too_old(age_sec='' @ py_fixed False 1 age_sec @ '')'')
               else (True, ''flatten_recent(age_sec='' @ py_fixed False 1 age_sec @ '',trigger='' @ trigger @ '')''))"

text \<open>Unresolved, unknown and in need of recovery.\<close>

definition unresolved_statuses :: "string list" where
  "unresolved_statuses = [''PENDING_SUBMIT'', ''NEW'', ''PARTIAL'', ''ACCOUNTING_PENDING'', ''CANCEL_REQUESTED'']"

definition order_blocker_counts :: "order_store \<Rightarrow> int \<times> int \<times> int" where
  "order_blocker_counts st =
     (count_orders (\<lambda>r. ord_status r \<in> set unresolved_statuses) st,
      count_orders (\<lambda>r. ord_status r = ''SUBMIT_UNKNOWN'') st,
      count_orders (\<lambda>r. ord_status r = ''RECOVERY_REQUIRED'') st)"

definition evaluate_dust_residual_policy ::
  "order_store \<Rightarrow> pyfloat \<Rightarrow> pyfloat \<Rightarrow> pyfloat \<Rightarrow> pyfloat \<Rightarrow> (pyfloat \<times> pyfloat) option \<Rightarrow> pyfloat option \<Rightarrow>
   bool \<times> string \<Rightarrow> pydict" where
  "evaluate_dust_residual_policy st broker_available broker_locked local_available local_locked rules est_price flatten =
     (let broker_qty = fmax (Fin 0) (fadd broker_available broker_locked);
          local_qty = fmax (Fin 0) (fadd local_available local_locked);
          min_qty = (case rules of None \<Rightarrow> Fin 0 | Some (q, _) \<Rightarrow> fmax (Fin 0) q);
          min_notional = (case rules of None \<Rightarrow> Fin 0 | Some (_, n) \<Rightarrow> fmax (Fin 0) n)
      in case order_blocker_counts st of (unresolved, unknown, recovery) \<Rightarrow>
        reconcile_dust_metadata broker_qty local_qty min_qty min_notional est_price (fst flatten) (snd flatten)
          (fmul ASSET_SPLIT_ABS_TOL (Fin 10)) unresolved unknown recovery)"

lemma open_statuses_counted:
  "set OPEN_ORDER_STATUSES = set unresolved_statuses \<union> {''SUBMIT_UNKNOWN'', ''RECOVERY_REQUIRED''}"
  by (auto simp: OPEN_ORDER_STATUSES_def unresolved_statuses_def)

lemma blockers_none_iff:
  "(case order_blocker_counts st of (u, k, v) \<Rightarrow> u \<le> 0 \<and> k \<le> 0 \<and> v \<le> 0) \<longleftrightarrow>
     (\<forall>r \<in> set (orders st). ord_status r \<notin> set OPEN_ORDER_STATUSES)"
  by (auto simp: order_blocker_counts_def open_statuses_counted count_orders_def filter_empty_conv)

end
