(* ===== verification/Dust_Properties.thy ===== *)
theory Dust_Properties
  imports Position_State Reconcile_Metadata Reconcile_Dust Sizing_Properties Recovery_Properties Order_Invariants
begin

text \<open>
  Properties of the position state: the lots and quantities are consistent, the verdicts on
  entry and exit are exactly those of the amounts, the classification of dust survives being
  recorded and read back, and the recovery policy agrees with the exposure.
\<close>

subsection \<open>Amounts\<close>

lemma fmax_zero_not_NaN [simp]: "fmax (Fin 0) a \<noteq> NaN"
  by (cases a) (auto simp: fmax_def)

lemma fmax_zero_nonneg [simp]: "fle (Fin 0) (fmax (Fin 0) a)"
  by (cases a) (auto simp: fmax_def)

lemma flt_EPS_not_NaN: "flt DUST_POSITION_EPS a \<Longrightarrow> a \<noteq> NaN"
  by (metis flt_iff fle_not_NaN)

lemma EPS_not_NaN [simp]: "DUST_POSITION_EPS \<noteq> NaN"
  using EPS_small [of 1] by (auto simp: flt_iff dest: fle_not_NaN)

lemma not_EPS_iff: "a \<noteq> NaN \<Longrightarrow> fle a DUST_POSITION_EPS \<longleftrightarrow> \<not> flt DUST_POSITION_EPS a"
  using fle_total [of a DUST_POSITION_EPS] by (auto simp: flt_iff)

text \<open>A quantity that an operation on floats gives: not negative and, when finite, a double.\<close>

definition qty_float :: "pyfloat \<Rightarrow> bool" where
  "qty_float f \<longleftrightarrow> fle (Fin 0) f \<and> (\<forall>q. f = Fin q \<longrightarrow> double_rat q)"

lemma qty_float_rnd: "qty_float (fmax (Fin 0) (rnd q))"
  by (cases "rnd q") (auto simp: qty_float_def fmax_def rnd_Fin_double)

lemma qty_float_zero [simp]: "qty_float (Fin 0)"
  by (simp add: qty_float_def)

lemma qty_float_fmax: "qty_float a \<Longrightarrow> fmax (Fin 0) a = a"
  by (cases a) (auto simp: qty_float_def fmax_def)

lemma qty_float_max: "qty_float a \<Longrightarrow> qty_float (fmax (Fin 0) a)"
  by (simp add: qty_float_fmax)

lemma qty_float_not_NaN: "qty_float a \<Longrightarrow> a \<noteq> NaN"
  by (auto simp: qty_float_def)

lemma repr_search_nonneg: "0 \<le> q \<Longrightarrow> 0 \<le> fst (repr_search q ns)"
proof (induction q ns rule: repr_search.induct)
  case (1 q)
  then show ?case using rne_ge_int [of 0 "q * 10 powi (16 - rlog10 q)"] by simp
next
  case (2 q n ns)
  let ?P = "\<lambda>m. rnd (of_int m * 10 powi (rlog10 q + 1 - int n)) = Fin q"
  have nonneg: "0 \<le> m" if "m \<in> set (repr_candidates q n)" for m
    using that 2(2) by (auto simp: repr_candidates_def Let_def split: if_splits)
  show ?case
  proof (cases "filter ?P (repr_candidates q n)")
    case Nil
    then show ?thesis using 2 by simp
  next
    case (Cons m ms)
    then have "m \<in> set (repr_candidates q n)" by (metis (no_types, lifting) filter_eq_ConsD in_set_conv_decomp)
    then show ?thesis using nonneg Cons by simp
  qed
qed

lemma dec_of_float_nonneg: "0 \<le> q \<Longrightarrow> 0 \<le> dec_of_float q"
  using repr_search_nonneg [of q "[1..<18]"] by (auto simp: dec_of_float_def dec_pos_def split: prod.splits)

lemma dec_mul_nonneg: "0 \<le> a \<Longrightarrow> 0 \<le> b \<Longrightarrow> 0 \<le> dec_mul a b"
  using dec_round_mono [of 0 "a * b"] by (simp add: dec_mul_def)

lemma rnd_nonneg: "0 \<le> q \<Longrightarrow> fle (Fin 0) (rnd q)"
  using rnd_mono [of 0 q] by simp

lemma qty_float_rnd_nonneg: "0 \<le> q \<Longrightarrow> qty_float (rnd q)"
  using rnd_nonneg [of q] rnd_Fin_double by (auto simp: qty_float_def)

lemma lot_count_to_qty_float: "qty_float (lot_count_to_qty n l)"
proof (cases "fmax (Fin 0) l")
  case (Fin q)
  moreover have "0 \<le> q" using fmax_zero_nonneg [of l] Fin by simp
  ultimately show ?thesis
    using dec_mul_nonneg [of "of_int (max 0 n)" "dec_of_float q"] dec_of_float_nonneg [of q]
    by (auto simp: lot_count_to_qty_def Let_def qty_float_rnd_nonneg)
next
  case PInf
  then show ?thesis by (simp add: lot_count_to_qty_def Let_def qty_float_def)
next
  case NInf
  then show ?thesis using fmax_zero_nonneg [of l] by simp
qed simp

lemma executable_lot_qty_float:
  assumes "build_executable_lot qty p mn st no d fe sl bu = Inr l"
  shows "qty_float (el_executable_qty l)"
proof -
  have part: "qty_float x \<Longrightarrow> executable_part r x m = (e, du, re) \<Longrightarrow> qty_float e" for r x m e du re
    by (auto simp: executable_part_def split: if_splits)
  have floored: "dust_floor_qty_to_step a b c = Inr f \<Longrightarrow> qty_float f" for a b c f
    by (auto simp: dust_floor_qty_to_step_def bind_py_def qty_float_rnd split: sum.splits)
  show ?thesis
    using assms
    by (auto simp: build_executable_lot_def Let_def bind_py_def split: sum.splits prod.splits
        intro!: qty_float_max dest!: floored dest: part)
qed

lemma open_quantity_float:
  assumes "derive_executable_open_exposure inventory r = Inr xd"
  shows "qty_float (open_quantity_of xd m n)"
  using assms executable_lot_qty_float
  by (auto simp: derive_executable_open_exposure_def open_quantity_of_def Let_def bind_py_def qty_float_fmax
      lot_count_to_qty_float split: sum.splits)

lemma reserved_sellable_bounds:
  fixes a b
  assumes "qty_float a"
  defines "b' \<equiv> fmin a (fmax (Fin 0) b)"
  shows "fle (Fin 0) b'" "fle b' a" "fle (fmax (Fin 0) (fsub a b')) a"
proof -
  show b: "fle (Fin 0) b'" "fle b' a"
    using assms(1) fmax_zero_nonneg [of b] unfolding b'_def
    by (cases a; cases "fmax (Fin 0) b"; auto simp: fmin_def qty_float_def)+
  show "fle (fmax (Fin 0) (fsub a b')) a"
  proof (cases a)
    case (Fin x)
    then obtain y where y: "b' = Fin y" "0 \<le> y" using b by (cases b') auto
    have "double_rat x" "0 \<le> x" using assms(1) Fin by (auto simp: qty_float_def)
    then have "fle (rnd (x + - y)) (Fin x)" using double.add_nonpos_le [of x "- y"] y by simp
    then show ?thesis using Fin y \<open>0 \<le> x\<close> by (auto simp: fmax_def fsub_def)
  qed (use assms(1) in \<open>auto simp: qty_float_def\<close>)
qed

text \<open>What the computation of the amounts guarantees.\<close>

definition amounts_ok :: "exposure_amounts \<Rightarrow> bool" where
  "amounts_ok a \<longleftrightarrow>
     0 \<le> xq_reserved_lots a \<and> xq_reserved_lots a \<le> xq_open_lots a \<and>
     xq_sellable_lots a = xq_open_lots a - xq_reserved_lots a \<and>
     fle (Fin 0) (xq_reserved a) \<and> fle (xq_reserved a) (xq_open a) \<and>
     fle (Fin 0) (xq_sellable a) \<and> fle (xq_sellable a) (xq_open a) \<and>
     fle (Fin 0) (xq_total a) \<and> xq_dust a \<noteq> NaN \<and>
     (0 < xq_reserved_lots a \<longrightarrow> flt DUST_POSITION_EPS (xq_reserved a))"

lemma reserved_lots_bounds:
  assumes "reserved_lots_of l q n = Inr k" and "0 \<le> n"
  shows "0 \<le> k \<and> k \<le> n \<and> (0 < k \<longrightarrow> flt DUST_POSITION_EPS q)"
  using assms by (auto simp: reserved_lots_of_def bind_py_def split: if_splits sum.splits)

lemma dust_quantity_not_NaN: "dust_quantity_of inventory xd m n k p \<noteq> NaN"
  using lot_count_to_qty_float [of k "ml_lot_size m"] flt_EPS_not_NaN [of "pinv_raw_total_asset_qty inventory"]
  by (auto simp: dust_quantity_of_def Let_def qty_float_not_NaN)

lemma exposure_amounts_ok:
  assumes "derive_executable_open_exposure inventory r = Inr xd" and "0 \<le> n"
    and "exposure_amounts_of inventory xd m n k p = Inr a"
  shows "amounts_ok a" "xq_open_lots a = n" "xq_dust_lots a = k"
  using assms(3) reserved_lots_bounds [OF _ assms(2)] dust_quantity_not_NaN
    reserved_sellable_bounds [OF open_quantity_float [OF assms(1), of m n], of "pinv_reserved_exit_qty inventory"]
  by (auto simp: exposure_amounts_of_def Let_def bind_py_def amounts_ok_def total_quantity_of_def split: sum.splits)

text \<open>The amounts behind an exposure.\<close>

lemma build_normalized_exposure_Inr:
  assumes "build_normalized_exposure q r x = Inr n"
  obtains lot a unresolved recovery where "amounts_ok a" "xq_open_lots a = lot_count_of (pq_open_lot_count q)"
    "xq_dust_lots a = lot_count_of (pq_dust_tracking_lot_count q)"
    "count_field (dx_fields x) ''unresolved_open_order_count'' = Inr unresolved"
    "count_field (dx_fields x) ''recovery_required_count'' = Inr recovery"
    "n = exposure_of_amounts (fmax (Fin 0) (pq_raw_qty_open q)) lot x
       (fmax (nonneg_or (Fin 0) (pr_min_qty r)) (nonneg_or (Fin 0) (pq_internal_lot_size q))) a unresolved recovery"
  using assms exposure_amounts_ok [of _ r _ "lot_count_of (pq_open_lot_count q)"]
  by (fastforce simp: build_normalized_exposure_def Let_def bind_py_def lot_count_of_def
      normalize_position_inventory_def split: sum.splits)

lemma build_position_state_model_Inr:
  assumes "build_position_state_model q r src = Inr p"
  obtains x n where "resolve_position_display_context src = Inr x" "build_normalized_exposure q r x = Inr n"
    "p = \<lparr>psm_raw_holdings = dx_classification x, psm_normalized_exposure = n,
          psm_operator_diagnostics = dx_operator_view x,
          psm_state_interpretation = build_position_state_interpretation n,
          psm_fields = build_position_state_fields x n (build_position_state_interpretation n)\<rparr>"
  using assms by (auto simp: build_position_state_model_def Let_def bind_py_def split: sum.splits)

subsection \<open>Verdicts\<close>

lemmas exposure_simps = exposure_of_amounts_def Let_def exposure_exit_verdict_def exposure_entry_block_reason_def
  exposure_entry_allowed_def has_dust_only_def

lemma exposure_of_amounts_fields [simp]:
  "nx_raw_total_asset_qty (exposure_of_amounts raw lot x b a u r) = xq_total a"
  "nx_open_lot_count (exposure_of_amounts raw lot x b a u r) = xq_open_lots a"
  "nx_dust_context (exposure_of_amounts raw lot x b a u r) = x"
  "nx_dust_tracking_qty (exposure_of_amounts raw lot x b a u r) = xq_dust a"
  "nx_unresolved_order_count (exposure_of_amounts raw lot x b a u r) = u"
  "nx_recovery_required_count (exposure_of_amounts raw lot x b a u r) = r"
  "nx_recovery_blocked (exposure_of_amounts raw lot x b a u r) \<longleftrightarrow> 0 < u \<or> 0 < r"
  by (simp_all add: exposure_of_amounts_def Let_def split: prod.splits)

lemma exposure_lots:
  assumes "amounts_ok a" and "n = exposure_of_amounts raw lot x b a u r"
  shows "0 \<le> nx_reserved_exit_lot_count n" "nx_reserved_exit_lot_count n \<le> nx_open_lot_count n"
    "nx_sellable_executable_lot_count n = nx_open_lot_count n - nx_reserved_exit_lot_count n"
    "fle (nx_reserved_exit_qty n) (nx_open_exposure_qty n)"
    "fle (nx_sellable_executable_qty n) (nx_open_exposure_qty n)"
  using assms by (auto simp: exposure_simps amounts_ok_def split: prod.splits)

lemma amounts_exit_cases:
  assumes "amounts_ok a"
  shows "exposure_exit_verdict a reason =
     (if 0 < xq_sellable_lots a then (True, ''none'', ''open_exposure'')
      else if 0 < xq_open_lots a then (False, ''reserved_for_open_sell_orders'', ''reserved_exit_pending'')
      else if flt DUST_POSITION_EPS (xq_dust a) then (False, ''dust_only_remainder'', ''dust_only'')
      else if fle (xq_total a) DUST_POSITION_EPS then (False, ''no_position'', ''flat'')
      else (False, ''legacy_lot_metadata_missing'', ''non_executable_position''))"
  using assms by (auto simp: exposure_exit_verdict_def amounts_ok_def)

lemma exposure_terminal:
  assumes "amounts_ok a" and "n = exposure_of_amounts raw lot x b a u r"
  shows "(nx_exit_allowed n, nx_exit_block_reason n, nx_terminal_state n) =
     (if 0 < nx_sellable_executable_lot_count n then (True, ''none'', ''open_exposure'')
      else if 0 < nx_open_lot_count n then (False, ''reserved_for_open_sell_orders'', ''reserved_exit_pending'')
      else if flt DUST_POSITION_EPS (nx_dust_tracking_qty n) then (False, ''dust_only_remainder'', ''dust_only'')
      else if fle (nx_raw_total_asset_qty n) DUST_POSITION_EPS then (False, ''no_position'', ''flat'')
      else (False, ''legacy_lot_metadata_missing'', ''non_executable_position''))"
  using assms(2) amounts_exit_cases [OF assms(1), of "el_exit_non_executable_reason lot"]
  by (simp add: exposure_of_amounts_def Let_def)

lemma exposure_entry:
  assumes "amounts_ok a" and "n = exposure_of_amounts raw lot x b a u r"
  shows "nx_effective_flat n \<longleftrightarrow> nx_entry_allowed n" "nx_entry_allowed n \<longleftrightarrow> nx_entry_block_reason n = ''none''"
proof -
  have "fle (xq_total a) DUST_POSITION_EPS \<or> flt DUST_POSITION_EPS (xq_total a)"
    using assms(1) fle_total [of "xq_total a" DUST_POSITION_EPS] fle_not_NaN by (auto simp: amounts_ok_def)
  then show "nx_entry_allowed n \<longleftrightarrow> nx_entry_block_reason n = ''none''"
    unfolding assms(2) exposure_simps by (auto split: prod.splits)
  show "nx_effective_flat n \<longleftrightarrow> nx_entry_allowed n"
    unfolding assms(2) exposure_simps by (auto split: prod.splits)
qed

lemma dust_operably_flat_iff:
  "dust_operably_flat x (dust_operability_of x a b blocked) \<longleftrightarrow>
     has_dust_only a \<and> flt DUST_POSITION_EPS b \<and> dv_state (dx_operator_view x) \<noteq> BLOCKING_DUST \<and>
     (flt (xq_dust a) b \<or>
      fle (xq_dust a) (fadd b (boundary_near_residue_tolerance b)) \<and> \<not> blocked \<and>
      dust_only_evidence_consistent_with_holdings x (xq_total a) (xq_dust a) (boundary_near_residue_tolerance b))"
  by (auto simp: dust_operably_flat_def dust_operability_of_def Let_def below_boundary_state_def near_boundary_state_def)

lemma exposure_entry_iff:
  assumes "n = exposure_of_amounts raw lot x b a u r"
  shows "nx_entry_allowed n \<longleftrightarrow>
     fle (nx_raw_total_asset_qty n) DUST_POSITION_EPS \<or> effective_flat_due_to_harmless_dust x \<or>
     nx_open_lot_count n \<le> 0 \<and> flt DUST_POSITION_EPS (nx_dust_tracking_qty n) \<and> flt DUST_POSITION_EPS b \<and>
     dv_state (dx_operator_view x) \<noteq> BLOCKING_DUST \<and>
     (flt (nx_dust_tracking_qty n) b \<or>
      fle (nx_dust_tracking_qty n) (fadd b (boundary_near_residue_tolerance b)) \<and> \<not> (0 < u \<or> 0 < r) \<and>
      dust_only_evidence_consistent_with_holdings x (nx_raw_total_asset_qty n) (nx_dust_tracking_qty n)
        (boundary_near_residue_tolerance b))"
  unfolding assms
  by (auto simp: exposure_of_amounts_def Let_def exposure_entry_allowed_def dust_operably_flat_iff has_dust_only_def
      should_treat_as_flat_for_entry_gate_def split: prod.splits)

text \<open>Where the operator view lets harmless dust count as flat.\<close>

lemma harmless_flat_iff:
  "effective_flat_due_to_harmless_dust (build_dust_display_context d) \<longleftrightarrow>
     du_present d \<and> du_classification d = HARMLESS_DUST \<and> du_allow_resume d \<and> du_policy_reason d \<noteq> ''metadata_parse_error''"
  by (auto simp: effective_flat_due_to_harmless_dust_def build_dust_display_context_def build_dust_operator_view_def
      operator_verdict_def Let_def)

lemma view_blocking_iff:
  "dv_state (build_dust_operator_view d) = BLOCKING_DUST \<longleftrightarrow>
     du_policy_reason d \<noteq> ''metadata_parse_error'' \<and> du_classification d \<noteq> HARMLESS_DUST \<and> du_present d"
  by (auto simp: build_dust_operator_view_def operator_verdict_def HARMLESS_DUST_def BLOCKING_DUST_def NO_DUST_def)

subsection \<open>Reading back the metadata of a reconciliation\<close>

lemma bit_value_read: "bind_py (val_int (py_or (bit_value b) (VInt 0))) (\<lambda>n. Inr (n = 1)) = Inr b"
  by (simp add: bit_value_def py_or_def bind_py_def)

lemma float_of_blank: "py_float_of_str [] = None"
  by code_simp

lemma float_blank_read: "float_or_none (float_or_blank p) = Inr (positive_or_none p)"
  by (cases p) (simp_all add: float_or_none_def float_or_blank_def or_default_def bind_py_def positive_or_none_def
      float_of_blank)

lemma metadata_appended:
  "dmerge (to_metadata c) (order_counts_metadata u k r) = to_metadata c @ order_counts_metadata u k r"
  by (simp add: dmerge_def to_metadata_def order_counts_metadata_def)

lemma counted_orders_read:
  assumes "0 \<le> u" "0 \<le> k" "0 \<le> r"
  shows "counted_orders (to_metadata c @ order_counts_metadata u k r) sv = Inr [u, k, r]"
  using assms
  by (simp add: counted_orders_def int_from_metadata_or_summary_def dhas_def to_metadata_def order_counts_metadata_def
      py_or_def bind_py_def max_def)

lemma metadata_numbers:
  "float_from_metadata_or_summary (to_metadata c @ e) sv ''dust_broker_qty'' s d = Inr (du_broker_qty c)"
  "float_from_metadata_or_summary (to_metadata c @ e) sv ''dust_local_qty'' s d = Inr (du_local_qty c)"
  "float_from_metadata_or_summary (to_metadata c @ e) sv ''dust_delta_qty'' s d = Inr (du_delta_qty c)"
  "float_from_metadata_or_summary (to_metadata c @ e) sv ''dust_min_qty'' s d = Inr (du_min_qty c)"
  "float_from_metadata_or_summary (to_metadata c @ e) sv ''dust_min_notional_krw'' s d = Inr (du_min_notional_krw c)"
  "float_from_metadata_or_summary (to_metadata c @ e) sv ''dust_qty_gap_tolerance'' s d = Inr (du_qty_gap_tolerance c)"
  by (simp_all add: float_from_metadata_or_summary_def dhas_def to_metadata_def float_or_default_def)

lemma metadata_bits:
  "bool_from_metadata_or_summary (to_metadata c @ e) sv ''dust_qty_gap_small'' s d = Inr (du_qty_gap_small c)"
  "bool_from_metadata_or_summary (to_metadata c @ e) sv ''dust_partial_flatten_recent'' s d = Inr (du_partial_flatten_recent c)"
  "bool_from_metadata_or_summary (to_metadata c @ e) sv ''dust_broker_qty_is_dust'' s d = Inr (du_broker_qty_is_dust c)"
  "bool_from_metadata_or_summary (to_metadata c @ e) sv ''dust_local_qty_is_dust'' s d = Inr (du_local_qty_is_dust c)"
  "bool_from_metadata_or_summary (to_metadata c @ e) sv ''dust_broker_notional_is_dust'' s d = Inr (du_broker_notional_is_dust c)"
  "bool_from_metadata_or_summary (to_metadata c @ e) sv ''dust_local_notional_is_dust'' s d = Inr (du_local_notional_is_dust c)"
  by (simp_all add: bool_from_metadata_or_summary_def dhas_def to_metadata_def bit_value_read)

definition policy_reason_read :: "dust_classification \<Rightarrow> string \<Rightarrow> bool \<Rightarrow> string" where
  "policy_reason_read c state allow =
     (if \<not> du_present c then or_str (Some (du_policy_reason c)) ''none''
      else if state = HARMLESS_DUST \<and> allow then ''matched_harmless_dust_resume_allowed''
      else if state = HARMLESS_DUST then ''matched_harmless_dust_operator_review_required''
      else ''dangerous_dust_operator_review_required'')"

definition notional_read :: "pyfloat \<Rightarrow> pyfloat option \<Rightarrow> pyfloat option \<Rightarrow> pyfloat option" where
  "notional_read qty price notional =
     (if positive_or_none notional = None then estimate_notional qty (positive_or_none price)
      else positive_or_none notional)"

lemma from_metadata_read:
  assumes "0 \<le> u" "0 \<le> k" "0 \<le> r" and "du_classification c \<noteq> []"
  defines "state \<equiv> dust_state_from_legacy_value (VStr (du_classification c))"
  defines "allow \<equiv> state = HARMLESS_DUST \<and> du_effective_flat c \<and> u = 0 \<and> k = 0 \<and> r = 0"
  shows "from_metadata (Some (to_metadata c @ order_counts_metadata u k r)) =
    Inr (c\<lparr>du_classification := state, du_allow_resume := allow, du_policy_reason := policy_reason_read c state allow,
      du_summary := or_str (Some (take 280 (du_summary c))) ''none'',
      du_latest_price := positive_or_none (du_latest_price c),
      du_broker_notional_krw := notional_read (du_broker_qty c) (du_latest_price c) (du_broker_notional_krw c),
      du_local_notional_krw := notional_read (du_local_qty c) (du_latest_price c) (du_local_notional_krw c),
      du_partial_flatten_reason := or_str (Some (du_partial_flatten_reason c)) ''none''\<rparr>)"
proof -
  let ?m = "to_metadata c @ order_counts_metadata u k r"
  have flag: "dget ?m ''dust_effective_flat'' = bit_value (du_effective_flat c)"
    "dget ?m ''dust_residual_present'' = bit_value (du_present c)"
    "bit_value b \<noteq> VNone" for b
    by (simp_all add: to_metadata_def bit_value_def)
  have state: "classification_of ?m sv i = state" for sv i
    using assms(4) by (simp add: classification_of_def to_metadata_def state_def py_or_def)
  have other: "dget ?m ''dust_latest_price'' = float_or_blank (du_latest_price c)"
    "dget ?m ''dust_broker_notional_krw'' = float_or_blank (du_broker_notional_krw c)"
    "dget ?m ''dust_local_notional_krw'' = float_or_blank (du_local_notional_krw c)"
    "dstr ?m ''dust_policy_reason'' ''none'' = or_str (Some (du_policy_reason c)) ''none''"
    "dstr ?m ''dust_residual_summary'' ''none'' = or_str (Some (take 280 (du_summary c))) ''none''"
    "dstr ?m ''dust_partial_flatten_reason'' ''none'' = or_str (Some (du_partial_flatten_reason c)) ''none''"
    by (auto simp: to_metadata_def dstr_def py_or_def or_str_def)
  have present: "val_int (py_or (bit_value b) (VInt 0)) = Inr (if b then 1 else 0)" for b
    by (simp add: bit_value_def py_or_def)
  show ?thesis
    unfolding from_metadata_def option.case Let_def
    by (simp add: metadata_numbers metadata_bits flag state other present effective_flat_of_def counted_orders_read [OF assms(1-3)]
        float_blank_read bind_py_def policy_reason_read_def notional_read_def allow_def)
qed

text \<open>What the classification of a residual guarantees.\<close>

lemma classify_dust_residual_verdict:
  assumes "c = classify_dust_residual b l mn no pr rec reason tol ok"
  shows "du_classification c = (if du_present c then
      (if du_broker_qty_is_dust c \<and> du_local_qty_is_dust c \<and> du_qty_gap_small c then HARMLESS_DUST else BLOCKING_DUST)
      else ''none'')"
    and "du_allow_resume c \<longleftrightarrow> du_classification c = HARMLESS_DUST \<and> ok"
    and "du_classification c = HARMLESS_DUST \<Longrightarrow> du_effective_flat c"
    and "du_policy_reason c = policy_reason_read c (du_classification c) (du_allow_resume c)"
    and "du_present c \<longleftrightarrow> du_broker_qty_is_dust c \<or> du_local_qty_is_dust c"
  unfolding assms
  by (auto simp: classify_dust_residual_def Let_def policy_reason_read_def HARMLESS_DUST_def BLOCKING_DUST_def or_str_def
      split: if_splits)

lemma legacy_state_read:
  "dust_state_from_legacy_value (VStr HARMLESS_DUST) = HARMLESS_DUST"
  "dust_state_from_legacy_value (VStr BLOCKING_DUST) = BLOCKING_DUST"
  "dust_state_from_legacy_value (VStr ''none'') = NO_DUST"
  by code_simp+

lemma estimate_positive: "estimate_notional q (positive_or_none p) = estimate_notional q p"
  by (cases p) (auto simp: estimate_notional_def positive_or_none_def)

lemma notional_read_estimate: "notional_read q (positive_or_none p) (estimate_notional q p) = estimate_notional q p"
  by (cases "positive_or_none (estimate_notional q p)")
    (auto simp: notional_read_def estimate_positive positive_or_none_def [of "estimate_notional q p"]
      split: option.splits if_splits)

lemma dust_summary_not_empty: "dust_summary b l d mn no c h g a e p r \<noteq> []"
  by (simp add: dust_summary_def)

lemma classify_dust_residual_fields:
  assumes "c = classify_dust_residual b l mn no pr rec reason tol ok"
  shows "or_str (Some (take 280 (du_summary c))) ''none'' = take 280 (du_summary c)"
    and "positive_or_none (du_latest_price c) = du_latest_price c"
    and "notional_read (du_broker_qty c) (du_latest_price c) (du_broker_notional_krw c) = du_broker_notional_krw c"
    and "notional_read (du_local_qty c) (du_latest_price c) (du_local_notional_krw c) = du_local_notional_krw c"
    and "or_str (Some (du_partial_flatten_reason c)) ''none'' = du_partial_flatten_reason c"
proof -
  have "du_summary c \<noteq> []" "du_latest_price c = positive_or_none pr"
    "du_broker_notional_krw c = estimate_notional (du_broker_qty c) pr"
    "du_local_notional_krw c = estimate_notional (du_local_qty c) pr"
    "du_partial_flatten_reason c = or_str (Some reason) ''none''"
    unfolding assms by (simp_all add: classify_dust_residual_def Let_def dust_summary_not_empty)
  then show "or_str (Some (take 280 (du_summary c))) ''none'' = take 280 (du_summary c)"
    "positive_or_none (du_latest_price c) = du_latest_price c"
    "notional_read (du_broker_qty c) (du_latest_price c) (du_broker_notional_krw c) = du_broker_notional_krw c"
    "notional_read (du_local_qty c) (du_latest_price c) (du_local_notional_krw c) = du_local_notional_krw c"
    "or_str (Some (du_partial_flatten_reason c)) ''none'' = du_partial_flatten_reason c"
    by (simp_all add: or_str_def notional_read_estimate, simp add: positive_or_none_def split: option.splits)
qed

text \<open>
  C14: The metadata that a reconciliation records reads back as the classification it was made
  from, field by field, for every price, quantity and count of orders. Only the name of the
  state without dust is normalized and the summary is cut to the 280 characters stored.
\<close>

theorem dust_metadata_roundtrip:
  assumes "0 \<le> unresolved" and "0 \<le> unknown" and "0 \<le> recovery"
    and "c = reconcile_dust_classification b l mn no pr rec reason tol unresolved unknown recovery"
  shows "from_metadata (Some (reconcile_dust_metadata b l mn no pr rec reason tol unresolved unknown recovery)) =
    Inr (c\<lparr>du_classification := (if du_present c then du_classification c else NO_DUST),
           du_summary := take 280 (du_summary c)\<rparr>)"
proof -
  note c = assms(4) [unfolded reconcile_dust_classification_def]
  note verdict = classify_dust_residual_verdict [OF c]
  let ?s = "dust_state_from_legacy_value (VStr (du_classification c))"
  have state: "?s = (if du_present c then du_classification c else NO_DUST)"
    unfolding verdict(1) by (simp add: legacy_state_read)
  have ne: "du_classification c \<noteq> []"
    unfolding verdict(1) by (simp add: HARMLESS_DUST_def BLOCKING_DUST_def)
  have allow: "(?s = HARMLESS_DUST \<and> du_effective_flat c \<and> unresolved = 0 \<and> unknown = 0 \<and> recovery = 0) \<longleftrightarrow> du_allow_resume c"
    unfolding state verdict(2) using verdict(1,3) by (auto simp: HARMLESS_DUST_def NO_DUST_def)
  have reason: "policy_reason_read c ?s (du_allow_resume c) = du_policy_reason c"
    unfolding verdict(4) state by (auto simp: policy_reason_read_def)
  show ?thesis
    unfolding reconcile_dust_metadata_def assms(4) [symmetric] metadata_appended
      from_metadata_read [OF assms(1-3) ne] allow reason classify_dust_residual_fields [OF c]
    by (simp add: state)
qed

subsection \<open>Storing the metadata\<close>

text \<open>What a decision to resume rests on.\<close>

lemma from_metadata_allows:
  assumes "from_metadata (Some m) = Inr c" and "du_allow_resume c"
  obtains counts b l g where "counted_orders m (parse_dust_summary (dstr m ''dust_residual_summary'' ''none'')) = Inr counts"
    "list_all (\<lambda>n. n = 0) counts"
    "classification_of m (parse_dust_summary (dstr m ''dust_residual_summary'' ''none''))
       (infer_dust_classification (du_present c) b l g) = HARMLESS_DUST"
    "\<exists>n. val_int (py_or (dget m ''dust_residual_present'') (VInt 0)) = Inr n \<and> (du_present c \<longleftrightarrow> n = 1)"
  using assms by (auto simp: from_metadata_def Let_def bind_py_Inr_iff)

definition order_count_keys :: "string set" where
  "order_count_keys = {''unresolved_open_order_count'', ''submit_unknown_count'', ''recovery_required_count''}"

lemma preserve_keys_split:
  "RECONCILE_METADATA_PRESERVE_KEYS = [''balance_authority'', ''unresolved_open_order_count'', ''submit_unknown_count'',
     ''recovery_required_count''] @ drop 4 RECONCILE_METADATA_PRESERVE_KEYS"
  "order_count_keys \<inter> set (drop 4 RECONCILE_METADATA_PRESERVE_KEYS) = {}"
  by (simp_all add: RECONCILE_METADATA_PRESERVE_KEYS_def order_count_keys_def)

lemma order_count_keys_preserved: "order_count_keys \<subseteq> set RECONCILE_METADATA_PRESERVE_KEYS"
  using preserve_keys_split(1) by (auto simp: order_count_keys_def RECONCILE_METADATA_PRESERVE_KEYS_def)

text \<open>The counts of orders go last, with nothing of the dust left.\<close>

lemma stored_counts:
  assumes d: "d = stored_reconcile_metadata m"
  shows "(\<forall>k n. k \<in> order_count_keys \<and> dget m k = VInt n \<longrightarrow> dget d k = VInt n) \<or>
    (\<forall>k. dget d k \<noteq> VNone \<longrightarrow> k \<in> insert ''balance_authority'' order_count_keys)"
proof -
  let ?ps = "RECONCILE_METADATA_PRESERVE_KEYS"
  let ?tail = "drop 4 ?ps"
  obtain f S where f: "f = id \<or> f = clip_text" and d': "d = filter (\<lambda>(k, _). k \<notin> S) (map (\<lambda>(k, v). (k, f v)) m)"
    and S: "S \<inter> set ?ps = {} \<or> (\<exists>i. S = - set ?ps \<union> set (take i (rev ?ps)))"
    using size_limited_shape d unfolding stored_reconcile_metadata_def by metis
  have mapped: "dget (map (\<lambda>(k, v). (k, f v)) m) k = f (dget m k)" for k
    using f by (induction m) (auto simp: dget_def clip_text_def)
  have kept: "\<forall>k n. k \<in> order_count_keys \<and> dget m k = VInt n \<longrightarrow> dget d k = VInt n" if "order_count_keys \<inter> S = {}"
    using that f unfolding d' by (auto simp: dget_filter_keys mapped clip_text_def)
  show ?thesis
  proof (cases "order_count_keys \<inter> S = {}")
    case True
    then show ?thesis using kept by blast
  next
    case False
    then obtain i where i: "S = - set ?ps \<union> set (take i (rev ?ps))" using S order_count_keys_preserved by blast
    have rev: "rev ?ps = rev ?tail @ rev (take 4 ?ps)" by (metis append_take_drop_id rev_append)
    have "length ?tail \<le> i"
    proof (rule ccontr)
      assume "\<not> length ?tail \<le> i"
      then have "set (take i (rev ?ps)) \<subseteq> set ?tail" unfolding rev by (auto dest: in_set_takeD)
      then show False using False i preserve_keys_split(2) order_count_keys_preserved by blast
    qed
    then have "set ?tail \<subseteq> S" unfolding i rev by (auto simp: take_append)
    moreover have "set ?ps \<subseteq> insert ''balance_authority'' order_count_keys \<union> set ?tail"
      by (subst preserve_keys_split(1)) (auto simp: order_count_keys_def)
    ultimately have "k \<in> insert ''balance_authority'' order_count_keys" if "k \<notin> S" for k
      using that i by blast
    then show ?thesis unfolding d' by (metis dget_filter_keys)
  qed
qed

lemma empty_summary: "parse_dust_summary ''none'' = []"
  by code_simp

lemma no_policy_reason: "classification_from_policy_reason [] = None"
  by code_simp

lemma legacy_no_dust: "dust_state_from_legacy_value (VStr NO_DUST) = NO_DUST"
  by code_simp

lemma nothing_stored_not_harmless:
  assumes "\<And>k. dget m k \<noteq> VNone \<Longrightarrow> k \<in> insert ''balance_authority'' order_count_keys"
  shows "classification_of m (parse_dust_summary (dstr m ''dust_residual_summary'' ''none''))
    (infer_dust_classification False b l g) = NO_DUST"
proof -
  have none: "dget m ''dust_residual_summary'' = VNone" "dget m ''dust_state'' = VNone"
    "dget m ''dust_classification'' = VNone" "dget m ''dust_policy_reason'' = VNone"
    using assms by (fastforce simp: order_count_keys_def)+
  show ?thesis
    by (simp add: classification_of_def dstr_def none py_or_def empty_summary no_policy_reason infer_dust_classification_def
        opt_string_def legacy_no_dust)
qed

lemma counted_zero:
  assumes "counted_orders m sv = Inr counts" and "list_all (\<lambda>n. n = 0) counts"
    and "k \<in> order_count_keys" and "dget m k = VInt n"
  shows "n \<le> 0"
proof -
  have "dhas m k" using assms(4) by (auto simp: dhas_def dget_def split: option.splits)
  then have read: "int_from_metadata_or_summary m sv k k 0 = Inr (max 0 n)"
    using assms(4) by (auto simp: int_from_metadata_or_summary_def py_or_def bind_py_def)
  then have "max 0 n \<in> set counts"
    using assms(1,3) by (auto simp: counted_orders_def order_count_keys_def bind_py_Inr_iff)
  then show ?thesis using assms(2) by (auto simp: list_all_iff)
qed

text \<open>Stored metadata never loses the counts and keeps the dust.\<close>

lemma stored_metadata_never_reopens:
  assumes "dget m ''unresolved_open_order_count'' = VInt unresolved"
    and "dget m ''submit_unknown_count'' = VInt unknown"
    and "dget m ''recovery_required_count'' = VInt recovery"
    and "from_metadata (Some (stored_reconcile_metadata m)) = Inr c" and "du_allow_resume c"
  shows "unresolved \<le> 0 \<and> unknown \<le> 0 \<and> recovery \<le> 0"
proof -
  let ?d = "stored_reconcile_metadata m"
  obtain counts b l g where counts: "counted_orders ?d (parse_dust_summary (dstr ?d ''dust_residual_summary'' ''none'')) = Inr counts"
      "list_all (\<lambda>n. n = 0) counts"
    and harmless: "classification_of ?d (parse_dust_summary (dstr ?d ''dust_residual_summary'' ''none''))
       (infer_dust_classification (du_present c) b l g) = HARMLESS_DUST"
    and present: "\<exists>n. val_int (py_or (dget ?d ''dust_residual_present'') (VInt 0)) = Inr n \<and> (du_present c \<longleftrightarrow> n = 1)"
    using from_metadata_allows [OF assms(4,5)] by metis
  show ?thesis
  proof (cases "\<forall>k. dget ?d k \<noteq> VNone \<longrightarrow> k \<in> insert ''balance_authority'' order_count_keys")
    case True
    then have "dget ?d ''dust_residual_present'' = VNone" by (fastforce simp: order_count_keys_def)
    then have "\<not> du_present c" using present by (auto simp: py_or_def)
    then show ?thesis using harmless nothing_stored_not_harmless [of ?d] True by (auto simp: HARMLESS_DUST_def NO_DUST_def)
  next
    case False
    then have "\<forall>k n. k \<in> order_count_keys \<and> dget m k = VInt n \<longrightarrow> dget ?d k = VInt n" using stored_counts [OF refl, of m] by blast
    then have "n \<le> 0" if "k \<in> order_count_keys" "dget m k = VInt n" for k n
      using that counted_zero [OF counts] by blast
    then show ?thesis using assms(1-3) unfolding order_count_keys_def by blast
  qed
qed

definition sample_dust :: dust_classification where
  "sample_dust = (no_dust_classification ''matched_harmless_dust_resume_allowed'')
     \<lparr>du_classification := HARMLESS_DUST, du_present := True, du_broker_qty_is_dust := True, du_local_qty_is_dust := True\<rparr>"

definition sample_metadata :: pydict where
  "sample_metadata = to_metadata sample_dust @ order_counts_metadata 0 0 0"

lemma sample_metadata_stored: "stored_reconcile_metadata sample_metadata = sample_metadata"
proof -
  have "length (json_text sample_metadata) \<le> HEALTH_SUMMARY_MAX_LEN" by code_simp
  then show ?thesis by (simp add: stored_reconcile_metadata_def size_limited_payload_def)
qed

lemma sample_metadata_read: "\<exists>c. from_metadata (Some sample_metadata) = Inr c \<and> du_allow_resume c"
  unfolding sample_metadata_def
  by (subst from_metadata_read)
    (simp_all add: sample_dust_def no_dust_classification_def legacy_state_read, simp add: HARMLESS_DUST_def)

lemma sample_metadata_counts: "k \<in> order_count_keys \<Longrightarrow> dget sample_metadata k = VInt 0"
  by (auto simp: order_count_keys_def sample_metadata_def to_metadata_def order_counts_metadata_def)

lemma appended_counts:
  "dget (to_metadata c @ order_counts_metadata u k v) ''unresolved_open_order_count'' = VInt u"
  "dget (to_metadata c @ order_counts_metadata u k v) ''submit_unknown_count'' = VInt k"
  "dget (to_metadata c @ order_counts_metadata u k v) ''recovery_required_count'' = VInt v"
  by (simp_all add: to_metadata_def order_counts_metadata_def)

lemma policy_counts:
  assumes "order_blocker_counts st = (u, k, v)"
    and "pol = evaluate_dust_residual_policy st ba bl la ll rules price flatten"
  shows "dget pol ''unresolved_open_order_count'' = VInt u" "dget pol ''submit_unknown_count'' = VInt k"
    "dget pol ''recovery_required_count'' = VInt v"
  using assms
  by (simp_all add: evaluate_dust_residual_policy_def Let_def reconcile_dust_metadata_def metadata_appended appended_counts)

text \<open>
  C9: A resumption is never allowed by losing the reason against it. A reconciliation that
  counts the orders of the store when it evaluates the dust, whatever else it reports and
  however much of it the size limit of the stored text drops, is read back as allowing work to
  resume only if no order of the store is open: every one is filled, canceled or failed.
\<close>

theorem resume_needs_settled_orders:
  assumes "pol = evaluate_dust_residual_policy st ba bl la ll rules price flatten"
    and "\<And>k. k \<in> order_count_keys \<Longrightarrow> dget m k = dget pol k"
    and "from_metadata (Some (stored_reconcile_metadata m)) = Inr c" and "du_allow_resume c"
  shows "\<forall>r \<in> set (orders st). ord_status r \<notin> set OPEN_ORDER_STATUSES"
proof -
  obtain u k v where counts: "order_blocker_counts st = (u, k, v)" by (metis prod_cases3)
  have "dget m ''unresolved_open_order_count'' = VInt u" "dget m ''submit_unknown_count'' = VInt k"
    "dget m ''recovery_required_count'' = VInt v"
    using policy_counts [OF counts assms(1)] assms(2) by (simp_all add: order_count_keys_def)
  from stored_metadata_never_reopens [OF this assms(3,4)] show ?thesis
    using blockers_none_iff [of st] counts by simp
qed

theorem resume_needs_settled_orders_witness:
  "\<exists>c. from_metadata (Some (stored_reconcile_metadata sample_metadata)) = Inr c \<and> du_allow_resume c \<and>
     \<not> list_ex (\<lambda>r. ord_status r \<in> set OPEN_ORDER_STATUSES) (orders empty_store)"
proof -
  obtain c where c: "from_metadata (Some (stored_reconcile_metadata sample_metadata)) = Inr c" "du_allow_resume c"
    using sample_metadata_read unfolding sample_metadata_stored by blast
  let ?pol = "evaluate_dust_residual_policy empty_store (Fin 1) (Fin 0) (Fin 1) (Fin 0) None None (False, [])"
  have "order_blocker_counts empty_store = (0, 0, 0)" by (simp add: order_blocker_counts_def count_orders_def empty_store_def)
  from policy_counts [OF this refl] have "dget sample_metadata k = dget ?pol k" if "k \<in> order_count_keys" for k
    using that sample_metadata_counts [OF that] by (auto simp: order_count_keys_def)
  from resume_needs_settled_orders [OF refl this c] show ?thesis using c by (auto simp: list_ex_iff)
qed

text \<open>The witness of the round trip: dust that matches, with an order still open.\<close>

theorem dust_metadata_roundtrip_witness:
  "\<exists>d. from_metadata (Some (reconcile_dust_metadata (Fin 1) (Fin 1) (Fin 4) (Fin 0) None False [] (Fin 0) 1 0 0)) = Inr d \<and>
     du_classification d = HARMLESS_DUST \<and> \<not> du_allow_resume d"
proof -
  let ?c = "reconcile_dust_classification (Fin 1) (Fin 1) (Fin 4) (Fin 0) None False [] (Fin 0) 1 0 0"
  have "du_classification ?c = HARMLESS_DUST" "du_present ?c" "\<not> du_allow_resume ?c"
    using EPS_small [of 1]
    by (simp_all add: reconcile_dust_classification_def classify_dust_residual_def Let_def fmax_def
        is_strictly_below_min_qty_def dust_qty_gap_tolerance_def fsub_def whole_numbers)
  then show ?thesis using dust_metadata_roundtrip [of 1 0 0 ?c, OF _ _ _ refl] by simp
qed

subsection \<open>The position state\<close>

definition sample_quantities :: position_quantities where
  "sample_quantities = \<lparr>pq_raw_qty_open = Fin 20, pq_raw_total_asset_qty = Some (Fin 20), pq_open_exposure_qty = Some (Fin 20),
     pq_dust_tracking_qty = None, pq_reserved_exit_qty = None, pq_open_lot_count = Some 5,
     pq_dust_tracking_lot_count = None, pq_internal_lot_size = Some (Fin 4)\<rparr>"

definition sample_rules :: position_rules where
  "sample_rules = \<lparr>pr_market_price = Some (Fin 3), pr_min_qty = Some (Fin 4), pr_qty_step = Some (Fin 4),
     pr_min_notional_krw = Some (Fin 12), pr_max_qty_decimals = None, pr_exit_fee_ratio = Fin 0,
     pr_exit_slippage_bps = Fin 0, pr_exit_buffer_ratio = Fin 0, pr_live_min_order_qty = Fin 0\<rparr>"

lemma sample_position_rules: "\<exists>m. position_lot_rules sample_rules (Fin 4) = Inr m \<and> ml_lot_size m = Fin 4"
  using sample_probe_lot EPS_small [of 8] EPS_small [of 4]
  by (auto simp: position_lot_rules_def build_market_lot_rules_def rule_number_def rule_int_def position_rules_object_def
      sample_rules_def dget_or_def or_default_def or_zero_def or_zero_int_def override_internal_lot_size_def
      derive_internal_lot_size_def Let_def whole_numbers ceil_qty_to_step_def decimal_from_number_def to_step_def
      quantize_places_def dec_mul_def dec_div_def fmax_def flt_iff)

lemma sample_open_lot:
  "\<exists>l. build_executable_lot (Fin 20) (Some (Fin 3)) (Fin 4) (Fin 4) (Fin 12) 0 (Fin 0) (Fin 0) (Fin 0) = Inr l \<and>
     el_executable_qty l = Fin 20 \<and> el_dust_qty l = Fin 0"
  using EPS_small [of 20]
  by (simp add: build_executable_lot_def Let_def dust_decimal_def whole_numbers effective_qty_step_decimal_def
      exit_price_floor_of_def dec_mul_def dec_div_def dec_sub_def dust_ceil_qty_to_step_def to_step_def quantize_places_def
      dust_floor_qty_to_step_def executable_part_def fmax_def flt_iff fsub_def)

lemma EPS_zero: "\<not> flt DUST_POSITION_EPS (Fin 0)" "fle (Fin 0) DUST_POSITION_EPS"
  using EPS_pos by (simp_all add: flt_iff)

lemma context_without_counts:
  "count_field (dx_fields (build_dust_display_context d)) ''unresolved_open_order_count'' = Inr 0"
  "count_field (dx_fields (build_dust_display_context d)) ''recovery_required_count'' = Inr 0"
  by (simp_all add: count_field_def build_dust_display_context_def Let_def py_or_def bind_py_def)

lemma sample_position:
  assumes "count_field (dx_fields x) ''unresolved_open_order_count'' = Inr u"
    and "count_field (dx_fields x) ''recovery_required_count'' = Inr v"
  shows "\<exists>n. build_normalized_exposure sample_quantities sample_rules x = Inr n \<and>
    nx_raw_total_asset_qty n = Fin 20 \<and> nx_dust_context n = x"
proof -
  obtain m where m: "position_lot_rules sample_rules (Fin 4) = Inr m" using sample_position_rules by blast
  obtain l where l: "build_executable_lot (Fin 20) (Some (Fin 3)) (Fin 4) (Fin 4) (Fin 12) 0 (Fin 0) (Fin 0) (Fin 0) = Inr l"
    "el_executable_qty l = Fin 20" "el_dust_qty l = Fin 0" using sample_open_lot by blast
  have five: "float_of_int 5 = Some (Fin 5)" by (simp add: float_of_int_def whole_numbers)
  show ?thesis
    using m l assms EPS_small [of 20] EPS_small [of 4]
    by (simp add: build_normalized_exposure_def sample_quantities_def nonneg_or_def fmax_def
        normalize_position_inventory_def derive_executable_open_exposure_def sample_rules_def or_zero_def or_zero_int_def
        exposure_amounts_of_def implied_lot_size_def open_quantity_of_def lot_count_of_def five total_quantity_of_def
        reserved_lots_of_def whole_numbers Let_def fmin_def EPS_zero flt_iff)
qed

text \<open>The run of the sample, and what any run rests on.\<close>

lemma sample_position_model: "\<exists>p. build_position_state_model sample_quantities sample_rules MetaNone = Inr p"
  using sample_position [OF context_without_counts, of "metadata_fallback ''none''"]
  by (auto simp: build_position_state_model_def resolve_position_display_context_def dust_of_source_def from_metadata_def Let_def)

lemma position_exposure:
  assumes "build_position_state_model q r src = Inr p"
  obtains x lot a u v where "resolve_position_display_context src = Inr x" "amounts_ok a"
    "xq_open_lots a = lot_count_of (pq_open_lot_count q)"
    "count_field (dx_fields x) ''unresolved_open_order_count'' = Inr u"
    "count_field (dx_fields x) ''recovery_required_count'' = Inr v"
    "psm_normalized_exposure p = exposure_of_amounts (fmax (Fin 0) (pq_raw_qty_open q)) lot x
       (fmax (nonneg_or (Fin 0) (pr_min_qty r)) (nonneg_or (Fin 0) (pq_internal_lot_size q))) a u v"
proof -
  obtain x n where xn: "resolve_position_display_context src = Inr x" "build_normalized_exposure q r x = Inr n"
    "psm_normalized_exposure p = n" by (rule build_position_state_model_Inr [OF assms]) auto
  from build_normalized_exposure_Inr [OF xn(2)] show thesis using that xn by metis
qed

text \<open>
  C12: In every position state the lots add up: the reserved lots are between none and the open
  ones, the sellable lots are the open lots that are not reserved, and neither the reserved nor
  the sellable quantity exceeds the open one, under rounding. The state is flat for the entry
  gate exactly when an entry is allowed, and an entry is blocked exactly when a reason is given.
\<close>

theorem position_state_consistent:
  assumes "build_position_state_model q r src = Inr p" and "n = psm_normalized_exposure p"
  shows "0 \<le> nx_reserved_exit_lot_count n \<and> nx_reserved_exit_lot_count n \<le> nx_open_lot_count n \<and>
    nx_sellable_executable_lot_count n = nx_open_lot_count n - nx_reserved_exit_lot_count n \<and>
    nx_open_lot_count n = max 0 (or_zero_int (pq_open_lot_count q)) \<and>
    fle (nx_reserved_exit_qty n) (nx_open_exposure_qty n) \<and>
    fle (nx_sellable_executable_qty n) (nx_open_exposure_qty n) \<and>
    (nx_effective_flat n \<longleftrightarrow> nx_entry_allowed n) \<and> (nx_entry_allowed n \<longleftrightarrow> nx_entry_block_reason n = ''none'')"
proof -
  obtain x lot a u v b raw where a: "amounts_ok a" "xq_open_lots a = lot_count_of (pq_open_lot_count q)"
    and n: "n = exposure_of_amounts raw lot x b a u v" using position_exposure [OF assms(1)] assms(2) by metis
  show ?thesis using exposure_lots [OF a(1) n] exposure_entry [OF a(1) n] a(2) n by (simp add: lot_count_of_def)
qed

theorem position_state_consistent_witness:
  "\<exists>p. build_position_state_model sample_quantities sample_rules MetaNone = Inr p \<and>
     nx_open_lot_count (psm_normalized_exposure p) = 5"
proof -
  obtain p where p: "build_position_state_model sample_quantities sample_rules MetaNone = Inr p"
    using sample_position_model by blast
  from position_state_consistent [OF p refl] show ?thesis using p by (auto simp: sample_quantities_def or_zero_int_def)
qed

text \<open>
  C11: Whether a position may be sold, why not, and what state it is in, are decided by the lots
  first: sellable lots mean an open exposure that may be sold, open lots without a sellable one
  are all reserved for open sell orders, and without open lots the position is dust, flat, or
  holdings without lot authority. In particular an open lot never ends up as a position that
  cannot be executed, and the reason of the executable lot is never the one reported.
\<close>

theorem position_exit_verdict:
  assumes "build_position_state_model q r src = Inr p" and "n = psm_normalized_exposure p"
  shows "(nx_exit_allowed n, nx_exit_block_reason n, nx_terminal_state n) =
     (if 0 < nx_sellable_executable_lot_count n then (True, ''none'', ''open_exposure'')
      else if 0 < nx_open_lot_count n then (False, ''reserved_for_open_sell_orders'', ''reserved_exit_pending'')
      else if flt DUST_POSITION_EPS (nx_dust_tracking_qty n) then (False, ''dust_only_remainder'', ''dust_only'')
      else if fle (nx_raw_total_asset_qty n) DUST_POSITION_EPS then (False, ''no_position'', ''flat'')
      else (False, ''legacy_lot_metadata_missing'', ''non_executable_position''))"
proof -
  obtain x lot a u v b raw where a: "amounts_ok a" and n: "n = exposure_of_amounts raw lot x b a u v"
    using position_exposure [OF assms(1)] assms(2) by metis
  show ?thesis by (rule exposure_terminal [OF a n])
qed

theorem position_exit_verdict_witness:
  "\<exists>p. build_position_state_model sample_quantities sample_rules MetaNone = Inr p \<and>
     nx_exit_allowed (psm_normalized_exposure p) =
       (0 < nx_sellable_executable_lot_count (psm_normalized_exposure p))"
proof -
  obtain p where p: "build_position_state_model sample_quantities sample_rules MetaNone = Inr p"
    using sample_position_model by blast
  from position_exit_verdict [OF p refl] show ?thesis using p by (auto split: if_splits)
qed



text \<open>
  The counts of orders reach the exposure only from a dictionary: given the same metadata as
  text, which is what the runtime state holds, the position state counts no order as unresolved
  and none as in need of recovery, so nothing blocks recovery.
\<close>

theorem text_metadata_hides_orders:
  assumes "0 \<le> unresolved" and "0 \<le> recovery"
    and "dget m ''unresolved_open_order_count'' = VInt unresolved" and "dget m ''recovery_required_count'' = VInt recovery"
    and "build_position_state_model q r (MetaDict m) = Inr p" and "build_position_state_model q r (MetaText (Some m)) = Inr p'"
  shows "nx_unresolved_order_count (psm_normalized_exposure p) = unresolved \<and>
    nx_recovery_required_count (psm_normalized_exposure p) = recovery \<and>
    nx_unresolved_order_count (psm_normalized_exposure p') = 0 \<and>
    nx_recovery_required_count (psm_normalized_exposure p') = 0 \<and> \<not> nx_recovery_blocked (psm_normalized_exposure p')"
proof -
  have dict: "count_field (dx_fields x) ''unresolved_open_order_count'' = Inr unresolved"
    "count_field (dx_fields x) ''recovery_required_count'' = Inr recovery"
    if "with_order_counts m (build_dust_display_context d) = Inr x" for x d
    using that assms(1-4)
    by (auto simp: with_order_counts_def bind_py_Inr_iff count_field_def py_or_def split: if_splits)
  obtain x a u v raw lot b where p: "resolve_position_display_context (MetaDict m) = Inr x"
    "count_field (dx_fields x) ''unresolved_open_order_count'' = Inr u" "count_field (dx_fields x) ''recovery_required_count'' = Inr v"
    "psm_normalized_exposure p = exposure_of_amounts raw lot x b a u v" using position_exposure [OF assms(5)] by metis
  obtain x' a' u' v' raw' lot' b' where p': "resolve_position_display_context (MetaText (Some m)) = Inr x'"
    "count_field (dx_fields x') ''unresolved_open_order_count'' = Inr u'" "count_field (dx_fields x') ''recovery_required_count'' = Inr v'"
    "psm_normalized_exposure p' = exposure_of_amounts raw' lot' x' b' a' u' v'" using position_exposure [OF assms(6)] by metis
  have "u = unresolved" "v = recovery"
    using p(1-3) dict by (auto simp: resolve_position_display_context_def bind_py_Inr_iff)
  moreover have "u' = 0" "v' = 0"
    using p'(1-3) context_without_counts by (auto simp: resolve_position_display_context_def bind_py_Inr_iff)
  ultimately show ?thesis
    unfolding p(4) p'(4) by simp
qed

lemma sample_model_of_context:
  assumes "resolve_position_display_context src = Inr x" and "count_field (dx_fields x) ''unresolved_open_order_count'' = Inr u"
    and "count_field (dx_fields x) ''recovery_required_count'' = Inr v"
  shows "\<exists>p. build_position_state_model sample_quantities sample_rules src = Inr p"
  using sample_position [OF assms(2,3)] assms(1) by (auto simp: build_position_state_model_def Let_def)

theorem text_metadata_hides_orders_witness:
  "\<exists>p p'. build_position_state_model sample_quantities sample_rules (MetaDict (to_metadata sample_dust @ order_counts_metadata 2 0 1)) = Inr p \<and>
     build_position_state_model sample_quantities sample_rules (MetaText (Some (to_metadata sample_dust @ order_counts_metadata 2 0 1))) = Inr p' \<and>
     nx_unresolved_order_count (psm_normalized_exposure p) = 2 \<and> nx_unresolved_order_count (psm_normalized_exposure p') = 0"
proof -
  let ?m = "to_metadata sample_dust @ order_counts_metadata 2 0 1"
  note counts = appended_counts [of sample_dust 2 0 1]
  have "du_classification sample_dust \<noteq> []" by (simp add: sample_dust_def HARMLESS_DUST_def)
  then obtain d where d: "from_metadata (Some ?m) = Inr d" using from_metadata_read [of 2 0 1 sample_dust] by simp
  let ?x = "build_dust_display_context d"
  obtain p where p: "build_position_state_model sample_quantities sample_rules (MetaDict ?m) = Inr p"
    using sample_model_of_context [of "MetaDict ?m" _ 2 1] d counts
    by (fastforce simp: resolve_position_display_context_def dust_of_source_def with_order_counts_def count_field_def py_or_def)
  obtain p' where p': "build_position_state_model sample_quantities sample_rules (MetaText (Some ?m)) = Inr p'"
    using sample_model_of_context [OF _ context_without_counts] d
    by (fastforce simp: resolve_position_display_context_def dust_of_source_def)
  show ?thesis using text_metadata_hides_orders [OF _ _ counts(1,3) p p'] p p' by simp
qed

definition unbacked_quantities :: position_quantities where
  "unbacked_quantities = sample_quantities\<lparr>pq_open_exposure_qty := None, pq_dust_tracking_qty := Some (Fin 1),
     pq_open_lot_count := None\<rparr>"

lemma empty_lot:
  "\<exists>l. build_executable_lot (Fin 0) (Some (Fin 3)) (Fin 4) (Fin 4) (Fin 12) 0 (Fin 0) (Fin 0) (Fin 0) = Inr l \<and>
     el_executable_qty l = Fin 0 \<and> el_dust_qty l = Fin 0"
  using EPS_zero
  by (simp add: build_executable_lot_def Let_def dust_decimal_def whole_numbers effective_qty_step_decimal_def
      exit_price_floor_of_def dec_mul_def dec_div_def dec_sub_def dust_ceil_qty_to_step_def to_step_def quantize_places_def
      dust_floor_qty_to_step_def executable_part_def fmax_def)

lemma unbacked_exposure:
  assumes "count_field (dx_fields x) ''unresolved_open_order_count'' = Inr u"
    and "count_field (dx_fields x) ''recovery_required_count'' = Inr v"
  shows "\<exists>n. build_normalized_exposure unbacked_quantities sample_rules x = Inr n \<and> nx_raw_total_asset_qty n = Fin 20 \<and>
    nx_dust_tracking_qty n = Fin 1 \<and> nx_open_lot_count n = 0 \<and> nx_dust_context n = x"
proof -
  obtain m where m: "position_lot_rules sample_rules (Fin 4) = Inr m" using sample_position_rules by blast
  obtain l where l: "build_executable_lot (Fin 0) (Some (Fin 3)) (Fin 4) (Fin 4) (Fin 12) 0 (Fin 0) (Fin 0) (Fin 0) = Inr l"
    "el_executable_qty l = Fin 0" "el_dust_qty l = Fin 0" using empty_lot by blast
  show ?thesis
    using m l assms EPS_small [of 20] EPS_small [of 1]
    by (simp add: build_normalized_exposure_def unbacked_quantities_def sample_quantities_def nonneg_or_def fmax_def
        normalize_position_inventory_def derive_executable_open_exposure_def sample_rules_def or_zero_def or_zero_int_def
        exposure_amounts_of_def implied_lot_size_def open_quantity_of_def lot_count_of_def total_quantity_of_def
        dust_quantity_of_def reserved_lots_of_def whole_numbers Let_def fmin_def EPS_zero flt_iff)
qed

text \<open>
  Dust below the lot boundary opens the entry gate whatever else is held: with holdings of
  20 units, no open lot and a single unit of tracked dust, an entry is allowed, the position
  counts as dust and no gap of lot authority is reported for the 19 units that no lot backs.
\<close>

theorem unbacked_holdings_reopen_entry:
  "\<exists>p n. build_position_state_model unbacked_quantities sample_rules MetaNone = Inr p \<and> n = psm_normalized_exposure p \<and>
     nx_raw_total_asset_qty n = Fin 20 \<and> nx_open_lot_count n = 0 \<and> nx_dust_tracking_qty n = Fin 1 \<and>
     nx_entry_allowed n \<and> nx_effective_flat n \<and> nx_terminal_state n = ''dust_only'' \<and> authority_gap_reason n = ''none''"
proof -
  let ?x = "build_dust_display_context (metadata_fallback ''none'')"
  obtain n where n: "build_normalized_exposure unbacked_quantities sample_rules ?x = Inr n" "nx_raw_total_asset_qty n = Fin 20"
    "nx_dust_tracking_qty n = Fin 1" "nx_open_lot_count n = 0"
    using unbacked_exposure [OF context_without_counts] by blast
  then obtain p where p: "build_position_state_model unbacked_quantities sample_rules MetaNone = Inr p" "psm_normalized_exposure p = n"
    by (simp add: build_position_state_model_def resolve_position_display_context_def dust_of_source_def from_metadata_def Let_def)
  obtain lot a u v raw where a: "amounts_ok a" and e: "n = exposure_of_amounts raw lot ?x (Fin 4) a u v"
    by (rule build_normalized_exposure_Inr [OF n(1)])
      (simp add: unbacked_quantities_def sample_quantities_def sample_rules_def nonneg_or_def fmax_def)
  have "dv_state (dx_operator_view ?x) \<noteq> BLOCKING_DUST"
    using view_blocking_iff [of "metadata_fallback ''none''"]
    by (simp add: build_dust_display_context_def Let_def metadata_fallback_def no_dust_classification_def)
  then have "nx_entry_allowed n" using exposure_entry_iff [OF e] n(2-4) EPS_small [of 1] EPS_small [of 4] by simp
  moreover have "nx_terminal_state n = ''dust_only''"
    using exposure_terminal [OF a e] exposure_lots [OF a e] n(2-4) EPS_small [of 1] by simp
  ultimately show ?thesis using p n exposure_entry(1) [OF a e] by (auto simp: authority_gap_reason_def)
qed

subsection \<open>The recovery policy on a position state\<close>

text \<open>The attributes of an exposure that the recovery policy reads.\<close>

definition exposure_view :: "normalized_exposure_state \<Rightarrow> normalized_exposure" where
  "exposure_view n = \<lparr>ne_terminal_state = nx_terminal_state n, ne_entry_allowed = nx_entry_allowed n,
     ne_exit_allowed = nx_exit_allowed n, ne_effective_flat = nx_effective_flat n,
     ne_has_dust_only_remainder = nx_has_dust_only_remainder n,
     ne_has_non_executable_residue = nx_has_non_executable_residue n,
     ne_has_executable_exposure = nx_has_executable_exposure n,
     ne_dust_state = dv_state (dx_operator_view (nx_dust_context n)),
     ne_dust_operability_state = do_state (nx_dust_operability n),
     ne_entry_block_reason = nx_entry_block_reason n, ne_exit_block_reason = nx_exit_block_reason n,
     ne_sellable_executable_lot_count = nx_sellable_executable_lot_count n,
     ne_authority_gap_reason = authority_gap_reason n\<rparr>"

lemma exposure_flags:
  assumes "amounts_ok a" and "n = exposure_of_amounts raw lot x b a u r"
  shows "nx_has_executable_exposure n \<longleftrightarrow> 0 < nx_sellable_executable_lot_count n"
    "nx_has_dust_only_remainder n \<longleftrightarrow> flt DUST_POSITION_EPS (nx_dust_tracking_qty n) \<and> nx_open_lot_count n \<le> 0"
    "nx_has_non_executable_residue n \<longleftrightarrow> flt DUST_POSITION_EPS (nx_raw_total_asset_qty n) \<and> \<not> 0 < nx_sellable_executable_lot_count n"
  using assms by (auto simp: exposure_of_amounts_def Let_def has_dust_only_def split: prod.splits)



end
