(* ===== verification/Spec2Isabelle.thy ===== *)
theory Spec2Isabelle
  imports Order_Keys Order_Properties Submit_Properties Runtime_Risk_Properties Recovery_Properties
    Settlement_Properties Run_Lock_Properties Portfolio_Properties Sizing_Properties Authority_Properties
    Allocation_Properties Dust_Properties
begin

text \<open>
  Verification of the order, risk and accounting core of the trading runtime under
  \<open>src/src/operation\<close>.

  \<^bold>\<open>The program.\<close> The decisions of the strategies become preferences
  (\<open>strategy_preference.py\<close>), which the portfolio allocator resolves into one target for each
  pair (\<open>portfolio_allocation.py\<close>, \<open>portfolio_target.py\<close>, \<open>risk_decision.py\<close>). The target engine computes the target position and its difference to the
  position the broker reports (\<open>target_position.py\<close>); the difference, or a purchase by budget or
  a sale by lots, is sized under the rules of the exchange (\<open>order_sizing.py\<close>,
  \<open>quantity_kernel.py\<close>, \<open>lot_model.py\<close>, \<open>fee_authority.py\<close>). The resulting plan carries the
  verdict on who may buy (\<open>entry_authority.py\<close>) and needs the approval of the submit authority policy (\<open>submit_authority_policy.py\<close>), which for a live
  order demands a proof that the risk engine (\<open>risk.py\<close>, \<open>risk_contract.py\<close>,
  \<open>risk_policy_engine.py\<close>, adapted to the runtime by \<open>runtime_risk_engine.py\<close>) allowed it.
  An approved plan is written to the order store (\<open>oms.py\<close>: orders, events, fills, intent
  deduplication and suppressions in SQLite) and submitted. Its fills are booked in the order
  store and in the portfolio table (\<open>db_core.py\<close>, \<open>execution.py\<close>). The settlement barrier
  (\<open>order_settlement.py\<close>) waits for the order to settle. A reconciliation classifies what is
  left below the tradable minimum, and the position state decides whether a position may be
  entered or sold (\<open>dust.py\<close>, \<open>recovery.py\<close>, \<open>runtime_state.py\<close>); the recovery policy
  (\<open>recovery_policy.py\<close>) decides what may be traded afterwards, and the run lock
  (\<open>run_lock.py\<close>) keeps a second process out.

  \<^bold>\<open>Conventions.\<close>
  \<^item> A fallible function returns \<open>'a py\<close>, the sum of \<open>py_error\<close> and the result: every
    \<open>raise\<close> is an \<open>Inl\<close>.
  \<^item> A \<open>float\<close> is a \<open>pyfloat\<close>: a rational that is a double, an infinity or NaN; arithmetic
    rounds to nearest even (\<open>rnd\<close>), nothing is idealised to real numbers. The sign of a zero
    is not represented. A \<open>Decimal\<close> is a rational with the quantization and the 28-digit
    limit of the default context (\<open>Py_Decimal\<close>).
  \<^item> A Python \<open>int\<close> is an \<open>int\<close>; text is ASCII; a payload is a \<open>pydict\<close>, an association
    list in insertion order.
  \<^item> What the code takes from outside is an argument: the time \<open>now\<close>, the values of
    \<open>uuid4\<close>, SHA-256 (\<open>sha\<close>), the settings, the callbacks of the settlement barrier, the
    answers of the operating system to the run lock.
  \<^item> A connection is a durable store and a working copy (\<open>run_op\<close>): an operation on its own
    connection commits or rolls back, one on the caller's connection leaves it to the caller.

  \<^bold>\<open>Theories and what they show.\<close>
  \<^item> \<open>Prelude\<close>, \<open>Py_Text\<close>, \<open>Py_Float\<close>, \<open>Py_Value\<close>, \<open>Py_Decimal\<close>: Python's data. The
    locale \<open>monotone_rounding\<close> is what the components use of floating point rounding;
    \<open>Py_Decimal\<close> proves that seventeen digits identify a double and that normalizing an amount
    is monotone and idempotent.
  \<^item> \<open>Order_Status\<close> (the status machine, locale \<open>status_machine\<close>), \<open>Order_Keys\<close> (client
    order ids, intent and suppression keys), \<open>Order_Store\<close> (the tables and every operation of
    \<open>oms.py\<close>), \<open>Order_Invariants\<close> and \<open>Order_Runs\<close> (the store invariant, all runs of
    operations, commits and rollbacks as a step relation, locale \<open>invariant_system\<close>),
    \<open>Order_Properties\<close> (outcome of each operation): keys are unique and references resolve,
    filled quantities are the sums of the fills, statuses are those of the event log and move
    along allowed transitions only, terminal statuses are final, a fill id counts once,
    an operation that raises leaves nothing behind, an intent has one holder.
  \<^item> \<open>Submit_Authority\<close>, \<open>Submit_Properties\<close>: exactly which plans pass under which settings.
  \<^item> \<open>Risk\<close>, \<open>Risk_Properties\<close>, \<open>Runtime_Risk\<close>, \<open>Runtime_Risk_Properties\<close>: exactly when
    the engine allows a submission, monotonicity of the loss limits under rounding, strictness
    of composed policies, and the composition with the order store: an open order blocks the
    next submission.
  \<^item> \<open>Recovery_Policy\<close>, \<open>Recovery_Properties\<close>: when a position is flat, and that a diverged
    projection permits nothing.
  \<^item> \<open>Order_Settlement\<close>, \<open>Settlement_Properties\<close>: the polling loop ends with a verdict, sees
    a settlement in time and does not sleep past its deadline.
  \<^item> \<open>Run_Lock\<close>, \<open>Run_Lock_Properties\<close>: the owner record reads back; mutual exclusion along
    every interleaving (a second interpretation of \<open>invariant_system\<close>).
  \<^item> \<open>Py_Decimal_Context\<close>, \<open>Quantity_Kernel\<close>, \<open>Lot_Model\<close>, \<open>Quantity_Properties\<close>: decimal
    arithmetic of 28 digits (locale \<open>decimal_rounding\<close>), flooring to exchange steps, lots and
    executable lots. A sale plans the largest multiple of the step within the request, lots
    count back, a split counts every full lot.
  \<^item> \<open>Dust_Classification\<close>, \<open>Position_State\<close>, \<open>Reconcile_Dust\<close>, \<open>Reconcile_Metadata\<close>,
    \<open>Dust_Properties\<close>: dust and the position state (\<open>dust.py\<close>), how a reconciliation evaluates
    the dust against the order store (\<open>recovery.py\<close>) and how its metadata is stored
    (\<open>runtime_state.py\<close>). Lots and quantities of a position are consistent, entry and exit are
    allowed in exactly the cases stated, metadata reads back, what the size limit drops never
    opens the gate, and the recovery policy agrees with the lots. Two defects are proved: text
    metadata hides the counts of orders, and dust hides holdings that no lot backs.
  \<^item> \<open>Strategy_Preference\<close>, \<open>Portfolio_Target\<close>, \<open>Portfolio_Allocation\<close>,
    \<open>Allocation_Properties\<close>: preferences, targets with their payloads and risk decision, and
    the allocator. An authoritative target is justified by agreeing strategies that passed
    their risk gate and keeps within their caps; a single buyer gets what it asks for; the
    risk decision on a target follows its authority; the order of the strategies does not
    matter; the check of the planner catches exactly the foreign pairs; no amount makes the
    allocator raise.
  \<^item> \<open>Target_Position\<close>, \<open>Target_Properties\<close>: the target engine. Its decisions are well formed,
    submit only on settled broker truth, sell no more than is held, and a start that adopts a
    position does not trade on it.
  \<^item> \<open>Order_Sizing\<close>, \<open>Sizing_Properties\<close>: the fee authority and the sizing of purchases, sales
    and target differences. An allowed purchase is covered by its budget, a sale sells the
    authorized lots, and the four copies of the flooring agree.
  \<^item> \<open>Authority_Gates\<close>, \<open>Authority_Properties\<close>: entry, direction, balance and execution
    authority. A live purchase of new exposure has an authority, composed with the submit
    policy; a pending fee only lets positions shrink.
  \<^item> \<open>Portfolio\<close>, \<open>Portfolio_Properties\<close>: the portfolio table and the effect of a fill; the
    locale \<open>normalizer\<close> is interpreted on the cash and the asset normalization. Balances never
    become negative, fills move them one way, and replaying fills in memory equals booking them
    in the table.

  \<^bold>\<open>Bounds.\<close> The settlement loop recurses on the attempts that are left, which is its
  termination measure; \<open>repr\<close> tries one to seventeen digits, which is enough by
  \<open>repr_search_17\<close>. The facts on normalized amounts hold below \<open>10^19\<close> in cash and \<open>10^15\<close>
  in assets, a tenth of what 28 digits can hold with 8 and 12 places (\<open>cash_cap\<close>,
  \<open>asset_cap\<close>). The facts on flooring hold below \<open>10^10\<close> steps, where a quotient keeps
  eighteen of its 28 digits behind the point, and those on lots up to a million lots, where
  the tolerance of \<open>10^-9\<close> lots covers the rounding of the product.

  \<^bold>\<open>Not modelled.\<close> Of \<open>db_core.py\<close> everything but the portfolio accounting: schema,
  migrations and the remaining tables. Of \<open>execution.py\<close> everything but the booking in the
  portfolio table. The recording of risk decisions and the daily baselines (SQL). The Windows
  branch of the run lock. The reports, the command line, the configuration reader, the brokers
  and the process loop are input and output around the modelled functions; so is the
  resolution of the order rules of a pair, which the sizing takes as an argument. A risk
  snapshot that a strategy passes to the allocator as a dictionary is modelled where its
  amounts are doubles or absent, as \<open>RiskSnapshot\<close> declares them. Position
  repair, trade lifecycle and strategy evaluation are program logic of their own that is left to do.
\<close>

end
